(* ===== verification/GateLens_Prelude.thy ===== *)
theory GateLens_Prelude
  imports Main "HOL-Library.Multiset" "HOL-Library.AList"
    "HOL-Library.Char_ord" "HOL-Library.List_Lexorder"
begin

text \<open>
  Shared vocabulary of the development: the fact collections the component theories fill,
  the stable sort Go's \<open>sort.SliceStable\<close> computes, the append-unless-present
  interface several components implement, and lemmas on association lists and lists of
  distinct keys. Strings are Go strings, that is lists of bytes; \<open><\<close> on them is
  the bytewise order Go uses (theory \<open>List_Lexorder\<close> over \<open>Char_ord\<close>).
\<close>

named_theorems gl_proj "unfolding facts for record builders of the model"
named_theorems gl_keys "facts about key lists kept distinct"
named_theorems gl_inv "invariant preservation facts"

section \<open>Stable sorting by a comparator\<close>

text \<open>
  \<open>sort.SliceStable(xs, less)\<close> puts \<open>xs\<close> into an order in which no element is less than
  an earlier one and keeps the relative order of elements neither of which is less. For a
  strict weak order this determines the result; insertion from the right computes it.
\<close>

fun insert_by :: "('a \<Rightarrow> 'a \<Rightarrow> bool) \<Rightarrow> 'a \<Rightarrow> 'a list \<Rightarrow> 'a list" where
  "insert_by lt x [] = [x]"
| "insert_by lt x (y # ys) = (if lt y x then y # insert_by lt x ys else x # y # ys)"

definition slice_stable :: "('a \<Rightarrow> 'a \<Rightarrow> bool) \<Rightarrow> 'a list \<Rightarrow> 'a list" where
  "slice_stable lt xs = foldr (insert_by lt) xs []"

lemma mset_insert_by [simp]: "mset (insert_by lt x xs) = add_mset x (mset xs)"
  by (induction xs) auto

lemma mset_slice_stable [simp]: "mset (slice_stable lt xs) = mset xs"
  unfolding slice_stable_def by (induction xs) auto

lemma set_slice_stable [simp]: "set (slice_stable lt xs) = set xs"
  by (metis mset_slice_stable set_mset_mset)

lemma length_slice_stable [simp]: "length (slice_stable lt xs) = length xs"
  by (metis mset_slice_stable size_mset)

lemma slice_stable_Nil_iff [simp]: "slice_stable lt xs = [] \<longleftrightarrow> xs = []"
  by (metis length_0_conv length_slice_stable)

lemma slice_stable_single [simp]: "slice_stable lt [x] = [x]"
  by (simp add: slice_stable_def)

lemma distinct_map_slice_stable [simp]:
  "distinct (map f (slice_stable lt xs)) = distinct (map f xs)"
  by (metis mset_eq_imp_distinct_iff mset_map mset_slice_stable)

text \<open>A comparator that compares a key sorts exactly as the library's stable key sort.\<close>

lemma insert_by_key:
  fixes f :: "'a \<Rightarrow> 'k::linorder"
  assumes "\<And>x y. lt x y \<longleftrightarrow> f x < f y"
  shows "insert_by lt x xs = insort_key f x xs"
  by (induction xs) (auto simp: assms not_le)

lemma slice_stable_key:
  fixes f :: "'a \<Rightarrow> 'k::linorder"
  assumes "\<And>x y. lt x y \<longleftrightarrow> f x < f y"
  shows "slice_stable lt xs = sort_key f xs"
proof -
  have "insert_by lt = insort_key f"
    by (intro ext insert_by_key assms)
  then show ?thesis by (simp add: slice_stable_def sort_key_def)
qed

lemma insert_by_map:
  assumes "\<And>a b. lt (f a) (f b) = lt' a b"
  shows "insert_by lt (f x) (map f xs) = map f (insert_by lt' x xs)"
  by (induction xs) (auto simp: assms)

lemma slice_stable_map:
  assumes "\<And>a b. lt (f a) (f b) = lt' a b"
  shows "slice_stable lt (map f xs) = map f (slice_stable lt' xs)"
  unfolding slice_stable_def by (induction xs) (auto simp: insert_by_map [of lt f lt', OF assms])

lemma sorted_slice_stable:
  fixes f :: "'a \<Rightarrow> 'k::linorder"
  assumes "\<And>x y. lt x y \<longleftrightarrow> f x < f y"
  shows "sorted (map f (slice_stable lt xs))"
  by (simp add: slice_stable_key [of lt f, OF assms])

section \<open>Append unless an element with the same identity is present\<close>

text \<open>
  Interface shared by the deduplicating appends of the code (issues, topology nodes,
  extension attachments and dependencies): scan for an element with the same identity,
  return the slice unchanged if there is one, append otherwise.
\<close>

locale keyed_append =
  fixes add :: "'a list \<Rightarrow> 'a \<Rightarrow> 'a list" and key :: "'a \<Rightarrow> 'k"
  assumes add_hit: "key x \<in> key ` set xs \<Longrightarrow> add xs x = xs"
    and add_miss: "key x \<notin> key ` set xs \<Longrightarrow> add xs x = xs @ [x]"
begin

lemma add_cases: "add xs x = (if key x \<in> key ` set xs then xs else xs @ [x])"
  by (simp add: add_hit add_miss)

lemma add_keys: "key ` set (add xs x) = insert (key x) (key ` set xs)"
  by (auto simp: add_cases)

lemma add_distinct: "distinct (map key xs) \<Longrightarrow> distinct (map key (add xs x))"
  by (auto simp: add_cases)

lemma add_again: "add (add xs x) x = add xs x"
  by (rule add_hit) (simp add: add_keys)

lemma add_set: "set (add xs x) \<subseteq> insert x (set xs)"
  by (auto simp: add_cases)

lemma add_mono: "set xs \<subseteq> set (add xs x)"
  by (auto simp: add_cases)

lemma add_keeps_prefix: "\<exists>zs. add xs x = xs @ zs"
  by (auto simp: add_cases)

lemma adds_keys: "key ` set (foldl add xs ys) = key ` set xs \<union> key ` set ys"
  by (induction ys arbitrary: xs) (auto simp: add_keys)

lemma adds_distinct: "distinct (map key xs) \<Longrightarrow> distinct (map key (foldl add xs ys))"
  by (induction ys arbitrary: xs) (auto simp: add_distinct)

lemma adds_set: "set (foldl add xs ys) \<subseteq> set xs \<union> set ys"
proof (induction ys arbitrary: xs)
  case (Cons y ys)
  from Cons.IH [of "add xs y"] add_set [of xs y] show ?case by auto
qed simp

lemma adds_mono: "set xs \<subseteq> set (foldl add xs ys)"
proof (induction ys arbitrary: xs)
  case (Cons y ys)
  from add_mono [of xs y] Cons.IH [of "add xs y"] show ?case by auto
qed simp

lemma adds_fresh:
  "distinct (map key (xs @ ys)) \<Longrightarrow> foldl add xs ys = xs @ ys"
proof (induction ys arbitrary: xs)
  case (Cons y ys)
  then have "key y \<notin> key ` set xs" by auto
  then have "add xs y = xs @ [y]" by (rule add_miss)
  with Cons show ?case by simp
qed simp

lemma adds_prefix: "\<exists>zs. foldl add xs ys = xs @ zs"
proof (induction ys arbitrary: xs)
  case (Cons y ys)
  obtain zs where "add xs y = xs @ zs" using add_keeps_prefix by blast
  with Cons.IH [of "xs @ zs"] show ?case by auto
qed simp

lemma adds_Nil_iff: "foldl add [] ys = [] \<longleftrightarrow> ys = []"
  using adds_keys [of "[]" ys] by (metis foldl_Nil image_is_empty list.set(1) set_empty sup_bot_left)

end

section \<open>Association lists and distinct keys\<close>

text \<open>
  A Go map that is iterated is an association list with distinct keys; its order stands
  for the (unspecified) iteration order.
\<close>

definition keys_of :: "('k \<times> 'v) list \<Rightarrow> 'k list" where
  "keys_of xs = map fst xs"

lemma distinct_keys_update [gl_keys]:
  "distinct (keys_of xs) \<Longrightarrow> distinct (keys_of (AList.update k v xs))"
  by (simp add: keys_of_def distinct_update)

lemma keys_update [gl_keys]: "set (keys_of (AList.update k v xs)) = insert k (set (keys_of xs))"
  by (simp add: keys_of_def dom_update)

lemma find_map_of:
  "map_of xs k = map_option snd (find (\<lambda>kv. fst kv = k) xs)"
  by (induction xs) auto

lemma set_update_cases:
  "(k', v') \<in> set (AList.update k v xs) \<Longrightarrow> distinct (map fst xs) \<Longrightarrow>
    (k' = k \<and> v' = v) \<or> (k' \<noteq> k \<and> (k', v') \<in> set xs)"
  by (induction xs) (auto simp: rev_image_eqI split: if_splits)

lemma foldl_invariant:
  assumes "P s" and "\<And>s x. P s \<Longrightarrow> x \<in> set xs \<Longrightarrow> P (f s x)"
  shows "P (foldl f s xs)"
  using assms by (induction xs arbitrary: s) auto

lemma nth_mem_distinct_map:
  "distinct (map f xs) \<Longrightarrow> x \<in> set xs \<Longrightarrow> y \<in> set xs \<Longrightarrow> f x = f y \<Longrightarrow> x = y"
  by (auto simp: distinct_map inj_on_def)

text \<open>Blocks built from differently keyed elements have nothing in common.\<close>

lemma distinct_concat_map [gl_keys]:
  assumes "distinct (map key xs)" "\<And>x. x \<in> set xs \<Longrightarrow> distinct (f x)"
    "\<And>x y. x \<in> set xs \<Longrightarrow> y \<in> set xs \<Longrightarrow> key x \<noteq> key y \<Longrightarrow> set (f x) \<inter> set (f y) = {}"
  shows "distinct (concat (map f xs))"
  using assms
proof (induction xs)
  case (Cons x xs)
  have "set (f x) \<inter> set (f y) = {}" if "y \<in> set xs" for y
    using Cons.prems(1) that by (intro Cons.prems(3)) auto
  then have "set (f x) \<inter> set (concat (map f xs)) = {}" by auto
  moreover have "distinct (concat (map f xs))" using Cons by auto
  ultimately show ?case using Cons.prems(2) [of x] by simp
qed simp

lemma find_None_iff_all: "find P xs = None \<longleftrightarrow> (\<forall>x \<in> set xs. \<not> P x)"
  by (auto simp: find_None_iff)

lemma find_Some_mem: "find P xs = Some x \<Longrightarrow> x \<in> set xs \<and> P x"
  by (auto simp: find_Some_iff)

end
