(* ===== verification/Go_Strings.thy ===== *)
theory Go_Strings
  imports GateLens_Prelude
begin

text \<open>
  The parts of Go's \<open>strings\<close>, \<open>strconv\<close> and \<open>fmt\<close> packages the program uses, on byte
  strings. Case mapping (\<open>ToLower\<close>, \<open>ToUpper\<close>, \<open>EqualFold\<close>) maps the ASCII letters and
  leaves every other byte alone: exact for text whose non-ASCII runes have no case, which
  is what Kubernetes names, host names, methods and the program's Chinese messages are.
  \<open>TrimSpace\<close> removes every Unicode white-space rune, given by its UTF-8 bytes.
\<close>

section \<open>Bytes\<close>

definition byte :: "nat \<Rightarrow> char" where
  "byte n = char_of n"

definition utf8 :: "nat list \<Rightarrow> string" where
  "utf8 ns = map byte ns"

definition byte_val :: "char \<Rightarrow> nat" where
  "byte_val c = of_char c"

definition is_digit :: "char \<Rightarrow> bool" where
  "is_digit c \<longleftrightarrow> 48 \<le> byte_val c \<and> byte_val c \<le> 57"

definition is_lower :: "char \<Rightarrow> bool" where
  "is_lower c \<longleftrightarrow> 97 \<le> byte_val c \<and> byte_val c \<le> 122"

definition is_upper :: "char \<Rightarrow> bool" where
  "is_upper c \<longleftrightarrow> 65 \<le> byte_val c \<and> byte_val c \<le> 90"

definition lower_byte :: "char \<Rightarrow> char" where
  "lower_byte c = (if is_upper c then byte (byte_val c + 32) else c)"

definition upper_byte :: "char \<Rightarrow> char" where
  "upper_byte c = (if is_lower c then byte (byte_val c - 32) else c)"

definition ToLower :: "string \<Rightarrow> string" where
  "ToLower s = map lower_byte s"

definition ToUpper :: "string \<Rightarrow> string" where
  "ToUpper s = map upper_byte s"

definition EqualFold :: "string \<Rightarrow> string \<Rightarrow> bool" where
  "EqualFold s t \<longleftrightarrow> ToLower s = ToLower t"

text \<open>The same on the bits of a character, for evaluation.\<close>

lemma byte_class_code [code]:
  "is_digit (Char b0 b1 b2 b3 b4 b5 b6 b7) \<longleftrightarrow> \<not> b7 \<and> \<not> b6 \<and> b5 \<and> b4 \<and> \<not> (b3 \<and> (b2 \<or> b1))"
  "is_lower (Char b0 b1 b2 b3 b4 b5 b6 b7) \<longleftrightarrow>
     \<not> b7 \<and> b6 \<and> b5 \<and> (b0 \<or> b1 \<or> b2 \<or> b3 \<or> b4) \<and> \<not> (b4 \<and> b3 \<and> (b2 \<or> b1 \<and> b0))"
  "is_upper (Char b0 b1 b2 b3 b4 b5 b6 b7) \<longleftrightarrow>
     \<not> b7 \<and> b6 \<and> \<not> b5 \<and> (b0 \<or> b1 \<or> b2 \<or> b3 \<or> b4) \<and> \<not> (b4 \<and> b3 \<and> (b2 \<or> b1 \<and> b0))"
  by (cases b0; cases b1; cases b2; cases b3; cases b4; cases b5; cases b6; cases b7;
      simp add: is_digit_def is_lower_def is_upper_def byte_val_def)+

lemma byte_case_code [code]:
  "lower_byte (Char b0 b1 b2 b3 b4 b5 b6 b7) =
     (let c = Char b0 b1 b2 b3 b4 b5 b6 b7 in if is_upper c then Char b0 b1 b2 b3 b4 True b6 b7 else c)"
  "upper_byte (Char b0 b1 b2 b3 b4 b5 b6 b7) =
     (let c = Char b0 b1 b2 b3 b4 b5 b6 b7 in if is_lower c then Char b0 b1 b2 b3 b4 False b6 b7 else c)"
  by (cases b0; cases b1; cases b2; cases b3; cases b4; cases b5; cases b6; cases b7;
      simp add: lower_byte_def upper_byte_def is_lower_def is_upper_def byte_val_def byte_def char_of_def bit_0)+

lemma byte_val_byte [simp]: "n < 256 \<Longrightarrow> byte_val (byte n) = n"
  by (simp add: byte_val_def byte_def)

lemma byte_val_less [simp]: "byte_val c < 256"
  by (simp add: byte_val_def)

lemma lower_byte_idem [simp]: "lower_byte (lower_byte c) = lower_byte c"
  by (auto simp: lower_byte_def is_upper_def)

lemma ToLower_idem [simp]: "ToLower (ToLower s) = ToLower s"
  by (simp add: ToLower_def)

lemma ToLower_append: "ToLower (s @ t) = ToLower s @ ToLower t"
  by (simp add: ToLower_def)

lemma length_ToLower [simp]: "length (ToLower s) = length s"
  by (simp add: ToLower_def)

lemma ToLower_Nil [simp]: "ToLower [] = []" and ToLower_Nil_iff [simp]: "ToLower s = [] \<longleftrightarrow> s = []"
  by (simp_all add: ToLower_def)

section \<open>Prefixes, suffixes, searching and splitting\<close>

definition HasPrefix :: "string \<Rightarrow> string \<Rightarrow> bool" where
  "HasPrefix s p \<longleftrightarrow> take (length p) s = p"

definition HasSuffix :: "string \<Rightarrow> string \<Rightarrow> bool" where
  "HasSuffix s p \<longleftrightarrow> length p \<le> length s \<and> drop (length s - length p) s = p"

definition TrimPrefix :: "string \<Rightarrow> string \<Rightarrow> string" where
  "TrimPrefix s p = (if HasPrefix s p then drop (length p) s else s)"

definition TrimSuffix :: "string \<Rightarrow> string \<Rightarrow> string" where
  "TrimSuffix s p = (if HasSuffix s p then take (length s - length p) s else s)"

definition CutPrefix :: "string \<Rightarrow> string \<Rightarrow> string option" where
  "CutPrefix s p = (if HasPrefix s p then Some (drop (length p) s) else None)"

fun Contains :: "string \<Rightarrow> string \<Rightarrow> bool" where
  "Contains [] p = (p = [])"
| "Contains (c # s) p = (HasPrefix (c # s) p \<or> Contains s p)"

fun Cut :: "string \<Rightarrow> string \<Rightarrow> (string \<times> string) option" where
  "Cut [] sep = (if sep = [] then Some ([], []) else None)"
| "Cut (c # s) sep =
     (if HasPrefix (c # s) sep then Some ([], drop (length sep) (c # s))
      else map_option (\<lambda>(a, b). (c # a, b)) (Cut s sep))"

text \<open>\<open>strings.Split\<close> by a one-byte separator.\<close>

fun SplitByte :: "char \<Rightarrow> string \<Rightarrow> string list" where
  "SplitByte sep [] = [[]]"
| "SplitByte sep (c # s) =
     (if c = sep then [] # SplitByte sep s
      else (case SplitByte sep s of [] \<Rightarrow> [[c]] | w # ws \<Rightarrow> (c # w) # ws))"

fun Join :: "string list \<Rightarrow> string \<Rightarrow> string" where
  "Join [] sep = []"
| "Join [w] sep = w"
| "Join (w # v # ws) sep = w @ sep @ Join (v # ws) sep"

lemma SplitByte_nonempty [simp]: "SplitByte sep s \<noteq> []"
  by (cases s) (auto split: list.split)

text \<open>\<open>io.LimitReader\<close>: at most \<open>n\<close> bytes.\<close>

definition limited :: "int \<Rightarrow> string \<Rightarrow> string" where
  "limited n s = (if int (length s) \<le> n then s else take (nat n) s)"

lemma limited_eq: "limited n s = take (nat n) s"
  by (simp add: limited_def)

definition ContainsAny :: "string \<Rightarrow> string \<Rightarrow> bool" where
  "ContainsAny s chars \<longleftrightarrow> list_ex (\<lambda>c. c \<in> set chars) s"

definition CountByte :: "string \<Rightarrow> char \<Rightarrow> nat" where
  "CountByte s c = length (filter (\<lambda>d. d = c) s)"

fun IndexByte :: "string \<Rightarrow> char \<Rightarrow> nat option" where
  "IndexByte [] c = None"
| "IndexByte (d # s) c = (if d = c then Some 0 else map_option Suc (IndexByte s c))"

definition LastIndexByte :: "string \<Rightarrow> char \<Rightarrow> nat option" where
  "LastIndexByte s c = map_option (\<lambda>i. length s - 1 - i) (IndexByte (rev s) c)"

text \<open>\<open>strings.TrimRight\<close> with a cutset of one byte.\<close>

definition TrimRightByte :: "char \<Rightarrow> string \<Rightarrow> string" where
  "TrimRightByte c s = rev (dropWhile (\<lambda>d. d = c) (rev s))"

text \<open>\<open>strings.FieldsFunc\<close>: the maximal runs of bytes that are not separators.\<close>

fun FieldsFunc :: "(char \<Rightarrow> bool) \<Rightarrow> string \<Rightarrow> string list" where
  "FieldsFunc f [] = []"
| "FieldsFunc f [c] = (if f c then [] else [[c]])"
| "FieldsFunc f (c # d # s) =
     (if f c then FieldsFunc f (d # s)
      else if f d then [c] # FieldsFunc f (d # s)
      else (case FieldsFunc f (d # s) of [] \<Rightarrow> [[c]] | w # ws \<Rightarrow> (c # w) # ws))"

lemma HasPrefix_iff: "HasPrefix s p \<longleftrightarrow> (\<exists>t. s = p @ t)"
  by (metis HasPrefix_def append_eq_conv_conj append_take_drop_id)

lemma HasPrefix_append [simp]: "HasPrefix (p @ t) p"
  by (auto simp: HasPrefix_iff)

lemma HasPrefix_Nil [simp]: "HasPrefix s []"
  by (simp add: HasPrefix_def)

lemma TrimPrefix_append [simp]: "TrimPrefix (p @ t) p = t"
  by (simp add: TrimPrefix_def)

lemma TrimPrefix_eq: "HasPrefix s p \<Longrightarrow> p @ TrimPrefix s p = s"
  by (auto simp: TrimPrefix_def HasPrefix_iff)

lemma CutPrefix_Some: "CutPrefix s p = Some t \<longleftrightarrow> s = p @ t"
  by (auto simp: CutPrefix_def HasPrefix_iff)

lemma Contains_Nil [simp]: "Contains s []"
  by (cases s) auto

lemma Contains_iff: "Contains s p \<longleftrightarrow> (\<exists>a b. s = a @ p @ b)"
proof (induction s)
  case (Cons c s)
  have "(\<exists>a b. c # s = a @ p @ b) \<longleftrightarrow> HasPrefix (c # s) p \<or> (\<exists>a b. s = a @ p @ b)"
    by (auto simp: HasPrefix_iff Cons_eq_append_conv)
  with Cons show ?case by simp
qed auto

lemma Cut_None: "Cut s sep = None \<longleftrightarrow> \<not> Contains s sep"
  by (induction s) auto

lemma Cut_Some: "Cut s sep = Some (a, b) \<Longrightarrow> s = a @ sep @ b"
  by (induction s arbitrary: a) (auto simp: HasPrefix_iff split: if_splits)

lemma Cut_before_clean:
  "Cut s sep = Some (a, b) \<Longrightarrow> length sep = Suc 0 \<Longrightarrow> \<not> Contains a sep"
proof (induction s arbitrary: a)
  case (Cons c s)
  then show ?case
    by (cases sep) (auto simp: HasPrefix_def split: if_splits)
qed (auto split: if_splits)

section \<open>TrimSpace\<close>

text \<open>The white-space runes of \<open>unicode.IsSpace\<close>, as UTF-8 bytes.\<close>

definition space_runes :: "string list" where
  "space_runes = map utf8
     [[32], [9], [10], [11], [12], [13], [194, 133], [194, 160], [225, 154, 128],
      [226, 128, 128], [226, 128, 129], [226, 128, 130], [226, 128, 131], [226, 128, 132],
      [226, 128, 133], [226, 128, 134], [226, 128, 135], [226, 128, 136], [226, 128, 137],
      [226, 128, 138], [226, 128, 168], [226, 128, 169], [226, 128, 175], [226, 129, 159],
      [227, 128, 128]]"

definition leading_rune :: "string list \<Rightarrow> string \<Rightarrow> nat" where
  "leading_rune runes s =
     (case find (HasPrefix s) runes of None \<Rightarrow> 0 | Some w \<Rightarrow> length w)"

function trim_runes :: "string list \<Rightarrow> string \<Rightarrow> string" where
  "trim_runes runes s =
     (if leading_rune runes s = 0 then s
      else if s = [] then [] else trim_runes runes (drop (leading_rune runes s) s))"
  by pat_completeness auto
termination by (relation "measure (\<lambda>(r, s). length s)") auto

declare trim_runes.simps [simp del]

definition TrimLeftSpace :: "string \<Rightarrow> string" where
  "TrimLeftSpace s = trim_runes space_runes s"

definition TrimRightSpace :: "string \<Rightarrow> string" where
  "TrimRightSpace s = rev (trim_runes (map rev space_runes) (rev s))"

definition TrimSpace :: "string \<Rightarrow> string" where
  "TrimSpace s = TrimRightSpace (TrimLeftSpace s)"

lemma trim_runes_suffix: "\<exists>a. s = a @ trim_runes runes s"
proof (induction runes s rule: trim_runes.induct)
  case (1 runes s)
  show ?case
  proof (cases "leading_rune runes s = 0 \<or> s = []")
    case True
    then show ?thesis by (auto simp: trim_runes.simps [of runes s])
  next
    case False
    with "1.IH" obtain a where "drop (leading_rune runes s) s
      = a @ trim_runes runes (drop (leading_rune runes s) s)" by auto
    then have "s = (take (leading_rune runes s) s @ a)
      @ trim_runes runes (drop (leading_rune runes s) s)"
      by (metis append.assoc append_take_drop_id)
    with False show ?thesis by (metis trim_runes.simps)
  qed
qed

lemma trim_runes_done: "[] \<notin> set runes \<Longrightarrow> leading_rune runes (trim_runes runes s) = 0"
proof (induction runes s rule: trim_runes.induct)
  case (1 runes s)
  show ?case
  proof (cases "leading_rune runes s = 0 \<or> s = []")
    case True
    then show ?thesis
    proof
      assume "s = []"
      then have "trim_runes runes s = []" by (simp add: trim_runes.simps)
      moreover have "leading_rune runes [] = 0"
        using "1.prems" by (auto simp: leading_rune_def HasPrefix_def find_Some_iff split: option.splits)
      ultimately show ?thesis by simp
    qed (simp add: trim_runes.simps)
  next
    case False
    with "1.IH" "1.prems" show ?thesis by (simp add: trim_runes.simps [of runes s])
  qed
qed

lemma trim_runes_fix: "leading_rune runes s = 0 \<Longrightarrow> trim_runes runes s = s"
  by (simp add: trim_runes.simps)

lemma leading_rune_prefix:
  assumes "[] \<notin> set runes" and "leading_rune runes (s @ t) = 0"
  shows "leading_rune runes s = 0"
proof (cases "find (HasPrefix s) runes")
  case (Some w)
  then have w: "w \<in> set runes" "HasPrefix s w" by (auto simp: find_Some_iff)
  then have "HasPrefix (s @ t) w" by (auto simp: HasPrefix_iff)
  with w have "find (HasPrefix (s @ t)) runes \<noteq> None" by (auto simp: find_None_iff)
  then obtain v where v: "find (HasPrefix (s @ t)) runes = Some v" by auto
  then have "v \<in> set runes" by (auto simp: find_Some_iff)
  with assms v show ?thesis by (auto simp: leading_rune_def)
qed (simp add: leading_rune_def)

lemma space_runes_nonempty [simp]: "[] \<notin> set space_runes" "[] \<notin> set (map rev space_runes)"
  by (auto simp: space_runes_def utf8_def)

lemma TrimSpace_idem [simp]: "TrimSpace (TrimSpace s) = TrimSpace s"
proof -
  let ?l = "TrimLeftSpace s"
  have l: "leading_rune space_runes ?l = 0"
    by (simp add: TrimLeftSpace_def trim_runes_done)
  obtain a where "rev ?l = a @ trim_runes (map rev space_runes) (rev ?l)"
    using trim_runes_suffix by blast
  then have "?l = TrimRightSpace ?l @ rev a"
    unfolding TrimRightSpace_def by (metis rev_append rev_rev_ident)
  with l have "leading_rune space_runes (TrimRightSpace ?l) = 0"
    using leading_rune_prefix space_runes_nonempty(1) by metis
  then have 1: "TrimLeftSpace (TrimRightSpace ?l) = TrimRightSpace ?l"
    by (simp add: TrimLeftSpace_def trim_runes_fix)
  have "leading_rune (map rev space_runes) (rev (TrimRightSpace ?l)) = 0"
    by (simp add: TrimRightSpace_def trim_runes_done del: set_map)
  then have "TrimRightSpace (TrimRightSpace ?l) = TrimRightSpace ?l"
    by (simp add: TrimRightSpace_def trim_runes_fix)
  with 1 show ?thesis by (simp add: TrimSpace_def)
qed

lemma TrimSpace_Nil [simp]: "TrimSpace [] = []"
  by (simp add: TrimSpace_def TrimLeftSpace_def TrimRightSpace_def trim_runes.simps)

text \<open>
  A string whose first and last bytes are printable ASCII is its own trimmed form; the code
  equation lets the kernel evaluate the usual case without the table of space runes.
\<close>

fun plain_char :: "char \<Rightarrow> bool" where
  "plain_char (Char b0 b1 b2 b3 b4 b5 b6 b7) \<longleftrightarrow>
     \<not> b7 \<and> (b6 \<or> b5 \<and> (b0 \<or> b1 \<or> b2 \<or> b3 \<or> b4))"

lemma space_runes_code [code]:
  "space_runes =
    [[CHR 0x20], [CHR 0x09], [CHR 0x0A], [CHR 0x0B], [CHR 0x0C], [CHR 0x0D], [CHR 0xC2, CHR
     0x85], [CHR 0xC2, CHR 0xA0], [CHR 0xE1, CHR 0x9A, CHR 0x80], [CHR 0xE2, CHR 0x80, CHR 0x80],
     [CHR 0xE2, CHR 0x80, CHR 0x81], [CHR 0xE2, CHR 0x80, CHR 0x82], [CHR 0xE2, CHR 0x80, CHR
     0x83], [CHR 0xE2, CHR 0x80, CHR 0x84], [CHR 0xE2, CHR 0x80, CHR 0x85], [CHR 0xE2, CHR 0x80,
     CHR 0x86], [CHR 0xE2, CHR 0x80, CHR 0x87], [CHR 0xE2, CHR 0x80, CHR 0x88], [CHR 0xE2, CHR
     0x80, CHR 0x89], [CHR 0xE2, CHR 0x80, CHR 0x8A], [CHR 0xE2, CHR 0x80, CHR 0xA8], [CHR 0xE2,
     CHR 0x80, CHR 0xA9], [CHR 0xE2, CHR 0x80, CHR 0xAF], [CHR 0xE2, CHR 0x81, CHR 0x9F], [CHR
     0xE3, CHR 0x80, CHR 0x80]]"
  by (simp add: space_runes_def utf8_def byte_def char_of_def bit_0)

lemma space_runes_ends: "\<forall>r \<in> set space_runes. \<not> plain_char (hd r) \<and> \<not> plain_char (last r)"
  by (simp add: space_runes_def utf8_def byte_def char_of_def bit_0)

lemma leading_rune_plain:
  assumes "\<forall>r \<in> set runes. r \<noteq> [] \<and> \<not> plain_char (hd r)" "s \<noteq> [] \<Longrightarrow> plain_char (hd s)"
  shows "leading_rune runes s = 0"
proof -
  have "\<not> HasPrefix s r" if "r \<in> set runes" for r
    using assms that by (cases s; cases r) (auto simp: HasPrefix_iff)
  then have "find (HasPrefix s) runes = None" by (auto simp: find_None_iff)
  then show ?thesis by (simp add: leading_rune_def)
qed

definition plain_ends :: "string \<Rightarrow> bool" where
  "plain_ends s \<longleftrightarrow> s = [] \<or> plain_char (hd s) \<and> plain_char (last s)"

lemma TrimSpace_plain: "plain_ends s \<Longrightarrow> TrimSpace s = s"
proof -
  assume s: "plain_ends s"
  have ne: "\<forall>r \<in> set space_runes. r \<noteq> []" using space_runes_nonempty(1) by blast
  have "leading_rune space_runes s = 0"
    using space_runes_ends ne s by (intro leading_rune_plain) (auto simp: plain_ends_def)
  moreover have "leading_rune (map rev space_runes) (rev s) = 0"
    using space_runes_ends ne s
    by (intro leading_rune_plain) (auto simp: plain_ends_def hd_rev)
  ultimately show "TrimSpace s = s"
    by (simp add: TrimSpace_def TrimLeftSpace_def TrimRightSpace_def trim_runes_fix)
qed

lemma TrimSpace_code [code]:
  "TrimSpace s = (if plain_ends s then s else TrimRightSpace (TrimLeftSpace s))"
  by (simp add: TrimSpace_plain) (simp add: TrimSpace_def)

section \<open>Decimal numbers and formatting\<close>

definition digit_byte :: "nat \<Rightarrow> char" where
  "digit_byte n = byte (48 + n)"

fun nat_digits :: "nat \<Rightarrow> string" where
  "nat_digits n = (if n < 10 then [digit_byte n] else nat_digits (n div 10) @ [digit_byte (n mod 10)])"

declare nat_digits.simps [simp del]

definition Itoa :: "int \<Rightarrow> string" where
  "Itoa i = (if i < 0 then CHR ''-'' # nat_digits (nat (- i)) else nat_digits (nat i))"

definition digits_val :: "string \<Rightarrow> nat" where
  "digits_val s = foldl (\<lambda>a c. 10 * a + (byte_val c - 48)) 0 s"

definition int64_min :: int where "int64_min = - (2 ^ 63)"
definition int64_max :: int where "int64_max = 2 ^ 63 - 1"

definition clamp64 :: "int \<Rightarrow> int" where
  "clamp64 i = max int64_min (min int64_max i)"

text \<open>
  \<open>strconv.ParseInt(s, 10, 64)\<close> (and \<open>Atoi\<close>) with the error dropped, as the program
  calls them: 0 on a syntax error, the nearest representable value on a range error.
\<close>

definition all_digits :: "string \<Rightarrow> bool" where
  "all_digits s \<longleftrightarrow> s \<noteq> [] \<and> list_all is_digit s"

definition ParseInt64 :: "string \<Rightarrow> int" where
  "ParseInt64 s =
     (case s of
        [] \<Rightarrow> 0
      | c # t \<Rightarrow>
          if c = CHR ''-'' then (if all_digits t then clamp64 (- int (digits_val t)) else 0)
          else if c = CHR ''+'' then (if all_digits t then clamp64 (int (digits_val t)) else 0)
          else (if all_digits s then clamp64 (int (digits_val s)) else 0))"

lemma is_digit_digit_byte [simp]: "n < 10 \<Longrightarrow> is_digit (digit_byte n)"
  by (simp add: is_digit_def digit_byte_def)

lemma nat_digits_digits: "list_all is_digit (nat_digits n)"
proof (induction n rule: nat_digits.induct)
  case (1 n)
  then show ?case by (cases "n < 10") (simp_all add: nat_digits.simps [of n])
qed

lemma nat_digits_nonempty [simp]: "nat_digits n \<noteq> []"
  by (subst nat_digits.simps) simp

lemma digits_val_nat_digits [simp]: "digits_val (nat_digits n) = n"
proof (induction n rule: nat_digits.induct)
  case (1 n)
  then show ?case
    by (cases "n < 10") (simp_all add: nat_digits.simps [of n] digits_val_def digit_byte_def)
qed

lemma nat_digits_inj: "nat_digits m = nat_digits n \<Longrightarrow> m = n"
  by (metis digits_val_nat_digits)

lemma not_digit_sign: "\<not> is_digit CHR ''-''" "\<not> is_digit CHR ''+''"
  by (simp_all add: is_digit_def byte_val_def)

lemma Itoa_inj: "Itoa i = Itoa j \<longleftrightarrow> i = j"
proof
  assume eq: "Itoa i = Itoa j"
  have head: "nat_digits n \<noteq> CHR ''-'' # t" for n t
    using nat_digits_digits [of n] not_digit_sign by auto
  show "i = j"
    using eq head nat_digits_inj
    by (auto simp: Itoa_def split: if_splits dest!: nat_digits_inj) (metis head)+
qed simp

lemma Itoa_free: "\<not> is_digit c \<Longrightarrow> c \<noteq> CHR ''-'' \<Longrightarrow> c \<notin> set (Itoa i)"
  using nat_digits_digits by (auto simp: Itoa_def list_all_iff)

lemma ParseInt64_Itoa:
  assumes "int64_min \<le> i" "i \<le> int64_max"
  shows "ParseInt64 (Itoa i) = i"
proof -
  have d: "all_digits (nat_digits n)" for n
    by (simp add: all_digits_def nat_digits_digits)
  have c: "clamp64 i = i" using assms by (simp add: clamp64_def)
  show ?thesis
  proof (cases "i < 0")
    case True
    with d c show ?thesis by (simp add: Itoa_def ParseInt64_def)
  next
    case False
    obtain x t where t: "nat_digits (nat i) = x # t" by (cases "nat_digits (nat i)") auto
    with nat_digits_digits [of "nat i"] have "is_digit x" by simp
    then have "x \<noteq> CHR ''-''" "x \<noteq> CHR ''+''" using not_digit_sign by auto
    then have "ParseInt64 (nat_digits (nat i)) = clamp64 (int (digits_val (nat_digits (nat i))))"
      using d [of "nat i"] by (simp add: ParseInt64_def t)
    with False c show ?thesis by (simp add: Itoa_def)
  qed
qed

text \<open>
  \<open>fmt.Sprintf(format, n)\<close> with one \<open>int\<close> operand and a format computed at run time.
  A directive is \<open>%\<close> and one byte, without flags, width or precision; of the integer verbs
  \<open>d\<close> and \<open>v\<close> are modelled, every other verb is reported as Go reports a bad one.
  \<open>used\<close> records that the operand has been consumed.
\<close>

fun sprintf_int :: "string \<Rightarrow> int \<Rightarrow> bool \<Rightarrow> string" where
  "sprintf_int [] n used = (if used then [] else ''%!(EXTRA int='' @ Itoa n @ '')'')"
| "sprintf_int [c] n used =
     (if c = CHR ''%'' then ''%!(NOVERB)'' else [c]) @
     (if used then [] else ''%!(EXTRA int='' @ Itoa n @ '')'')"
| "sprintf_int (c # d # s) n used =
     (if c \<noteq> CHR ''%'' then c # sprintf_int (d # s) n used
      else if d = CHR ''%'' then CHR ''%'' # sprintf_int s n used
      else if used then ''%!'' @ [d] @ ''(MISSING)'' @ sprintf_int s n True
      else if d = CHR ''d'' \<or> d = CHR ''v'' then Itoa n @ sprintf_int s n True
      else ''%!'' @ [d] @ ''(int='' @ Itoa n @ '')'' @ sprintf_int s n True)"

lemma sprintf_int_plain:
  "CHR ''%'' \<notin> set s \<Longrightarrow> sprintf_int (s @ t) n used = s @ sprintf_int t n used"
proof (induction s)
  case (Cons c s)
  then show ?case by (cases "s @ t") (auto split: if_splits)
qed simp

lemma sprintf_int_plain_end: "CHR ''%'' \<notin> set s \<Longrightarrow> sprintf_int s n True = s"
  using sprintf_int_plain [of s "[]" n True] by simp

text \<open>
  \<open>%q\<close>: ASCII is quoted as Go does; bytes of multi-byte runes are kept (Go escapes those of
  them it does not count as printable).
\<close>

definition hex_byte :: "nat \<Rightarrow> string" where
  "hex_byte n = [''0123456789abcdef'' ! (n div 16), ''0123456789abcdef'' ! (n mod 16)]"

definition quote_byte :: "char \<Rightarrow> string" where
  "quote_byte c =
     (if c = CHR 0x22 then [CHR 0x5C, CHR 0x22]
      else if c = CHR 0x5C then [CHR 0x5C, CHR 0x5C]
      else if byte_val c = 7 then [CHR 0x5C] @ ''a''
      else if byte_val c = 8 then [CHR 0x5C] @ ''b''
      else if byte_val c = 12 then [CHR 0x5C] @ ''f''
      else if byte_val c = 10 then [CHR 0x5C] @ ''n''
      else if byte_val c = 13 then [CHR 0x5C] @ ''r''
      else if byte_val c = 9 then [CHR 0x5C] @ ''t''
      else if byte_val c = 11 then [CHR 0x5C] @ ''v''
      else if byte_val c < 32 \<or> byte_val c = 127 then [CHR 0x5C] @ ''x'' @ hex_byte (byte_val c)
      else [c])"

definition quoted :: "string \<Rightarrow> string" where
  "quoted s = [CHR 0x22] @ concat (map quote_byte s) @ [CHR 0x22]"

end
