(* ===== verification/Domain_Types.thy ===== *)
theory Domain_Types
  imports Go_Strings
begin

text \<open>
  The data model of \<open>internal/domain\<close>: every struct is a record with the source's field
  names behind a short prefix, a pointer is an \<open>option\<close>, a slice a list (a nil and an
  empty slice coincide), an \<open>int\<close> an unbounded \<open>int\<close> (no operation on these fields
  comes near the bounds of a 64-bit integer). Go's string enumerations are open: any string
  can arrive from the wire, so they stay strings and \<open>IsValid\<close> (theory \<open>Probe_Protocol\<close>)
  tests membership. The \<open>zero_T\<close> constants are Go's zero values, which a map lookup of an
  absent key and a composite literal with omitted fields produce.
\<close>

section \<open>Wire enumerations\<close>

type_synonym Status = string

abbreviation StatusHealthy :: Status where "StatusHealthy \<equiv> ''healthy''"
abbreviation StatusWarning :: Status where "StatusWarning \<equiv> ''warning''"
abbreviation StatusError :: Status where "StatusError \<equiv> ''error''"

type_synonym TopologyNodeKind = string

abbreviation TopologyNodeKindGateway :: TopologyNodeKind where "TopologyNodeKindGateway \<equiv> ''Gateway''"
abbreviation TopologyNodeKindListener :: TopologyNodeKind where "TopologyNodeKindListener \<equiv> ''Listener''"
abbreviation TopologyNodeKindHTTPRoute :: TopologyNodeKind where "TopologyNodeKindHTTPRoute \<equiv> ''HTTPRoute''"
abbreviation TopologyNodeKindIngress :: TopologyNodeKind where "TopologyNodeKindIngress \<equiv> ''Ingress''"
abbreviation TopologyNodeKindService :: TopologyNodeKind where "TopologyNodeKindService \<equiv> ''Service''"
abbreviation TopologyNodeKindEndpoint :: TopologyNodeKind where "TopologyNodeKindEndpoint \<equiv> ''Endpoint''"
abbreviation TopologyNodeKindPod :: TopologyNodeKind where "TopologyNodeKindPod \<equiv> ''Pod''"
abbreviation TopologyNodeKindInferencePool :: TopologyNodeKind where "TopologyNodeKindInferencePool \<equiv> ''InferencePool''"
abbreviation TopologyNodeKindEndpointPicker :: TopologyNodeKind where "TopologyNodeKindEndpointPicker \<equiv> ''EndpointPicker''"
abbreviation TopologyNodeKindMcpBridge :: TopologyNodeKind where "TopologyNodeKindMcpBridge \<equiv> ''McpBridge''"
abbreviation TopologyNodeKindRegistry :: TopologyNodeKind where "TopologyNodeKindRegistry \<equiv> ''Registry''"
abbreviation TopologyNodeKindExternalTarget :: TopologyNodeKind where "TopologyNodeKindExternalTarget \<equiv> ''ExternalTarget''"
abbreviation TopologyNodeKindTransitHop :: TopologyNodeKind where "TopologyNodeKindTransitHop \<equiv> ''TransitHop''"

type_synonym ProbeCollectionState = string

abbreviation ProbeCollectionStateSettled :: ProbeCollectionState where "ProbeCollectionStateSettled \<equiv> ''settled''"
abbreviation ProbeCollectionStateWindowEnded :: ProbeCollectionState where "ProbeCollectionStateWindowEnded \<equiv> ''window-ended''"
abbreviation ProbeCollectionStateCancelled :: ProbeCollectionState where "ProbeCollectionStateCancelled \<equiv> ''cancelled''"
abbreviation ProbeCollectionStateReadError :: ProbeCollectionState where "ProbeCollectionStateReadError \<equiv> ''read-error''"
abbreviation ProbeCollectionStateUnknown :: ProbeCollectionState where "ProbeCollectionStateUnknown \<equiv> ''unknown''"

type_synonym ProbeAttemptRelationState = string

abbreviation ProbeAttemptRelationStateLinked :: ProbeAttemptRelationState where "ProbeAttemptRelationStateLinked \<equiv> ''linked''"
abbreviation ProbeAttemptRelationStateUnconfirmed :: ProbeAttemptRelationState where "ProbeAttemptRelationStateUnconfirmed \<equiv> ''unconfirmed''"
abbreviation ProbeAttemptRelationStateMissingNext :: ProbeAttemptRelationState where "ProbeAttemptRelationStateMissingNext \<equiv> ''missing-next''"
abbreviation ProbeAttemptRelationStateAmbiguous :: ProbeAttemptRelationState where "ProbeAttemptRelationStateAmbiguous \<equiv> ''ambiguous''"

type_synonym ProbeExecutionState = string

abbreviation ProbeExecutionStateRunning :: ProbeExecutionState where "ProbeExecutionStateRunning \<equiv> ''running''"
abbreviation ProbeExecutionStateCompleted :: ProbeExecutionState where "ProbeExecutionStateCompleted \<equiv> ''completed''"
abbreviation ProbeExecutionStateFailed :: ProbeExecutionState where "ProbeExecutionStateFailed \<equiv> ''failed''"

type_synonym ProbeIssueScope = string

abbreviation ProbeIssueScopeExecution :: ProbeIssueScope where "ProbeIssueScopeExecution \<equiv> ''execution''"
abbreviation ProbeIssueScopeCollection :: ProbeIssueScope where "ProbeIssueScopeCollection \<equiv> ''collection''"
abbreviation ProbeIssueScopeRelation :: ProbeIssueScope where "ProbeIssueScopeRelation \<equiv> ''relation''"
abbreviation ProbeIssueScopeInference :: ProbeIssueScope where "ProbeIssueScopeInference \<equiv> ''inference''"

type_synonym ProbeIssueCode = string

abbreviation ProbeIssueCodeResponseLimitExceeded :: ProbeIssueCode where "ProbeIssueCodeResponseLimitExceeded \<equiv> ''response-limit-exceeded''"
abbreviation ProbeIssueCodeLogSourceRotated :: ProbeIssueCode where "ProbeIssueCodeLogSourceRotated \<equiv> ''log-source-rotated''"
abbreviation ProbeIssueCodeLogWindowTruncated :: ProbeIssueCode where "ProbeIssueCodeLogWindowTruncated \<equiv> ''log-window-truncated''"
abbreviation ProbeIssueCodeLogOrderUnconfirmed :: ProbeIssueCode where "ProbeIssueCodeLogOrderUnconfirmed \<equiv> ''log-order-unconfirmed''"
abbreviation ProbeIssueCodeCollectionWindowEnded :: ProbeIssueCode where "ProbeIssueCodeCollectionWindowEnded \<equiv> ''collection-window-ended''"
abbreviation ProbeIssueCodeCollectionCancelled :: ProbeIssueCode where "ProbeIssueCodeCollectionCancelled \<equiv> ''collection-cancelled''"
abbreviation ProbeIssueCodeLogReadError :: ProbeIssueCode where "ProbeIssueCodeLogReadError \<equiv> ''log-read-error''"
abbreviation ProbeIssueCodeNoMatchingLog :: ProbeIssueCode where "ProbeIssueCodeNoMatchingLog \<equiv> ''no-matching-log''"
abbreviation ProbeIssueCodeAgentUnavailable :: ProbeIssueCode where "ProbeIssueCodeAgentUnavailable \<equiv> ''agent-unavailable''"
abbreviation ProbeIssueCodeProbeProtocolUnsupported :: ProbeIssueCode where "ProbeIssueCodeProbeProtocolUnsupported \<equiv> ''probe-protocol-unsupported''"
abbreviation ProbeIssueCodeRequestIdentityIncomplete :: ProbeIssueCode where "ProbeIssueCodeRequestIdentityIncomplete \<equiv> ''request-identity-incomplete''"
abbreviation ProbeIssueCodeAttemptOrderUnconfirmed :: ProbeIssueCode where "ProbeIssueCodeAttemptOrderUnconfirmed \<equiv> ''attempt-order-unconfirmed''"
abbreviation ProbeIssueCodeRedirectNextMissing :: ProbeIssueCode where "ProbeIssueCodeRedirectNextMissing \<equiv> ''redirect-next-missing''"
abbreviation ProbeIssueCodeTerminalAmbiguous :: ProbeIssueCode where "ProbeIssueCodeTerminalAmbiguous \<equiv> ''terminal-ambiguous''"
abbreviation ProbeIssueCodeGatewayEvidenceMissing :: ProbeIssueCode where "ProbeIssueCodeGatewayEvidenceMissing \<equiv> ''gateway-evidence-missing''"

type_synonym ProbeCorrelation = string

abbreviation ProbeCorrelationProbeID :: ProbeCorrelation where "ProbeCorrelationProbeID \<equiv> ''probe-id''"
abbreviation ProbeCorrelationTraceID :: ProbeCorrelation where "ProbeCorrelationTraceID \<equiv> ''trace-id''"

type_synonym ProbeInferenceConfidence = string

abbreviation ProbeInferenceConfidenceHigh :: ProbeInferenceConfidence where "ProbeInferenceConfidenceHigh \<equiv> ''high''"
abbreviation ProbeInferenceConfidenceMedium :: ProbeInferenceConfidence where "ProbeInferenceConfidenceMedium \<equiv> ''medium''"
abbreviation ProbeInferenceConfidenceLow :: ProbeInferenceConfidence where "ProbeInferenceConfidenceLow \<equiv> ''low''"
abbreviation ProbeInferenceConfidenceAmbiguous :: ProbeInferenceConfidence where "ProbeInferenceConfidenceAmbiguous \<equiv> ''ambiguous''"

type_synonym ProbeOrderBasis = string

abbreviation ProbeOrderBasisSourceSequence :: ProbeOrderBasis where "ProbeOrderBasisSourceSequence \<equiv> ''source-sequence''"
abbreviation ProbeOrderBasisUnavailable :: ProbeOrderBasis where "ProbeOrderBasisUnavailable \<equiv> ''unavailable''"

type_synonym AgentCommandKind = string

abbreviation AgentCommandEnvoyConfig :: AgentCommandKind where "AgentCommandEnvoyConfig \<equiv> ''envoy-config''"
abbreviation AgentCommandProbeHTTP :: AgentCommandKind where "AgentCommandProbeHTTP \<equiv> ''probe-http''"
abbreviation AgentCommandProbeObserve :: AgentCommandKind where "AgentCommandProbeObserve \<equiv> ''probe-observe''"

type_synonym ExtProcOutcome = string

abbreviation ExtProcOutcomeSuccess :: ExtProcOutcome where "ExtProcOutcomeSuccess \<equiv> ''success''"
abbreviation ExtProcOutcomeTimeout :: ExtProcOutcome where "ExtProcOutcomeTimeout \<equiv> ''timeout''"
abbreviation ExtProcOutcomeError :: ExtProcOutcome where "ExtProcOutcomeError \<equiv> ''error''"
abbreviation ExtProcOutcomeFailOpen :: ExtProcOutcome where "ExtProcOutcomeFailOpen \<equiv> ''fail-open''"
abbreviation ExtProcOutcomeImmediateResponse :: ExtProcOutcome where "ExtProcOutcomeImmediateResponse \<equiv> ''immediate-response''"
abbreviation ExtProcOutcomeUnknown :: ExtProcOutcome where "ExtProcOutcomeUnknown \<equiv> ''unknown''"

type_synonym SnapshotConsistency = string

abbreviation SnapshotConsistencySingleCluster :: SnapshotConsistency where "SnapshotConsistencySingleCluster \<equiv> ''single-cluster''"
abbreviation SnapshotConsistencyWaitingForAgents :: SnapshotConsistency where "SnapshotConsistencyWaitingForAgents \<equiv> ''waiting-for-agents''"
abbreviation SnapshotConsistencyConsistentWindow :: SnapshotConsistency where "SnapshotConsistencyConsistentWindow \<equiv> ''consistent-window''"
abbreviation SnapshotConsistencyRemoteUnavailable :: SnapshotConsistency where "SnapshotConsistencyRemoteUnavailable \<equiv> ''remote-unavailable''"
abbreviation SnapshotConsistencyTimeSkew :: SnapshotConsistency where "SnapshotConsistencyTimeSkew \<equiv> ''time-skew''"

type_synonym ObservationConfidence = string

abbreviation ObservationConfidenceObserved :: ObservationConfidence where "ObservationConfidenceObserved \<equiv> ''observed''"

type_synonym ProbeHTTPMethod = string

abbreviation ProbeHTTPMethodGET :: ProbeHTTPMethod where "ProbeHTTPMethodGET \<equiv> ''GET''"
abbreviation ProbeHTTPMethodHEAD :: ProbeHTTPMethod where "ProbeHTTPMethodHEAD \<equiv> ''HEAD''"
abbreviation ProbeHTTPMethodPOST :: ProbeHTTPMethod where "ProbeHTTPMethodPOST \<equiv> ''POST''"
abbreviation ProbeHTTPMethodPUT :: ProbeHTTPMethod where "ProbeHTTPMethodPUT \<equiv> ''PUT''"
abbreviation ProbeHTTPMethodPATCH :: ProbeHTTPMethod where "ProbeHTTPMethodPATCH \<equiv> ''PATCH''"
abbreviation ProbeHTTPMethodDELETE :: ProbeHTTPMethod where "ProbeHTTPMethodDELETE \<equiv> ''DELETE''"
abbreviation ProbeHTTPMethodOPTIONS :: ProbeHTTPMethod where "ProbeHTTPMethodOPTIONS \<equiv> ''OPTIONS''"

type_synonym ProbeScheme = string

abbreviation ProbeSchemeHTTP :: ProbeScheme where "ProbeSchemeHTTP \<equiv> ''http''"
abbreviation ProbeSchemeHTTPS :: ProbeScheme where "ProbeSchemeHTTPS \<equiv> ''https''"

section \<open>Structs\<close>

record Cluster =
  cl_ID :: string
  cl_Name :: string
  cl_Version :: string

record Snapshot =
  sn_ID :: string
  sn_ObservedAt :: string
  sn_State :: string

record Context =
  ctx_Cluster :: Cluster
  ctx_Namespaces :: "string list"
  ctx_Snapshot :: Snapshot
  ctx_Capabilities :: "string list"

record TopologyCluster =
  tc_ID :: string
  tc_Name :: string
  tc_Environment :: string
  tc_Version :: string
  tc_ConnectionState :: string
  tc_Namespaces :: "string list"
  tc_Snapshot :: Snapshot

record TopologyNode =
  node_ID :: string
  node_Name :: string
  node_Kind :: TopologyNodeKind
  node_Namespace :: string
  node_ClusterID :: string
  node_Status :: Status
  node_StatusText :: string
  node_Summary :: string
  node_Conditions :: "string list"
  node_Source :: string
  node_WorkloadScope :: string

record TopologyEdge =
  edge_From :: string
  edge_To :: string
  edge_Relation :: string
  edge_Transport :: string
  edge_Destination :: string
  edge_State :: string
  edge_Evidence :: string

record ProbeEntry =
  entry_ID :: string
  entry_GatewayID :: string
  entry_ClusterID :: string
  entry_Namespace :: string
  entry_ServiceName :: string
  entry_DNSName :: string
  entry_Port :: int
  entry_Scheme :: ProbeScheme
  entry_Protocol :: string
  entry_DisplayName :: string
  entry_Addresses :: "string list"

record Topology =
  topo_SnapshotID :: string
  topo_FederatedSnapshotID :: string
  topo_ObservedAt :: string
  topo_Consistency :: SnapshotConsistency
  topo_Clusters :: "TopologyCluster list"
  topo_Nodes :: "TopologyNode list"
  topo_Edges :: "TopologyEdge list"
  topo_ProbeEntries :: "ProbeEntry list"
  topo_Truncated :: bool

record EnvoyHTTPFilter =
  ehf_Name :: string
  ehf_Type :: string
  ehf_Stage :: string
  ehf_ConfigSummary :: string
  ehf_Terminal :: bool

record EnvoyWeightedCluster =
  ewc_Name :: string
  ewc_Weight :: int

record EnvoyRouteExtProcTarget =
  erx_FilterName :: string
  erx_TypeURL :: string
  erx_GRPCClusters :: "string list"

record EnvoyRoute =
  er_Name :: string
  er_Match :: string
  er_Cluster :: string
  er_WeightedClusters :: "EnvoyWeightedCluster list"
  er_ExtProcs :: "EnvoyRouteExtProcTarget list"

record EnvoyFilterChain =
  efc_Name :: string
  efc_Match :: string
  efc_Transport :: string
  efc_HTTPFilters :: "EnvoyHTTPFilter list"
  efc_Routes :: "EnvoyRoute list"

record EnvoyListener =
  el_ID :: string
  el_Name :: string
  el_Address :: string
  el_Port :: int
  el_Protocol :: string
  el_Status :: Status
  el_FilterChains :: "EnvoyFilterChain list"

record EnvoyEndpoint =
  ee_Address :: string
  ee_Port :: int
  ee_Status :: Status
  ee_Health :: string
  ee_Weight :: int

record EnvoyCluster =
  ecl_Name :: string
  ecl_Type :: string
  ecl_Discovery :: string
  ecl_ConnectTimeout :: string
  ecl_Endpoints :: "EnvoyEndpoint list"

record EnvoyExtensionAttachment =
  exa_ListenerID :: string
  exa_ListenerName :: string
  exa_FilterChain :: string
  exa_FilterName :: string
  exa_FilterType :: string
  exa_Position :: int

record EnvoyExtensionDependency =
  exd_Kind :: string
  exd_Name :: string
  exd_Relation :: string
  exd_Evidence :: string
  exd_Resolved :: bool

record EnvoyExtension =
  ex_ID :: string
  ex_Name :: string
  ex_Kind :: string
  ex_TypeURL :: string
  ex_Status :: Status
  ex_ConfigSource :: string
  ex_ConfigSummary :: string
  ex_Attachments :: "EnvoyExtensionAttachment list"
  ex_Dependencies :: "EnvoyExtensionDependency list"

record EnvoyConfig =
  ec_SnapshotID :: string
  ec_ObservedAt :: string
  ec_State :: string
  ec_Source :: string
  ec_Proxy :: string
  ec_GatewayID :: string
  ec_Controller :: string
  ec_Workload :: string
  ec_SampledPod :: string
  ec_ReadyReplicas :: int
  ec_Listeners :: "EnvoyListener list"
  ec_Clusters :: "EnvoyCluster list"
  ec_Extensions :: "EnvoyExtension list"
  ec_RawConfig :: string

record Finding =
  find_ID :: string
  find_Severity :: Status
  find_Title :: string
  find_Resource :: string
  find_Basis :: string
  find_TargetID :: string

record Resource =
  res_ID :: string
  res_Kind :: string
  res_Name :: string
  res_Namespace :: string
  res_Status :: Status
  res_StatusText :: string
  res_UpdatedAt :: string
  res_Findings :: int

record AgentSnapshot =
  as_Cluster :: TopologyCluster
  as_Context :: Context
  as_Topology :: Topology
  as_Findings :: "Finding list"
  as_Resources :: "Resource list"
  as_SentAt :: string

record ProbeRequest =
  req_SourceCluster :: string
  req_GatewayID :: string
  req_EntryID :: string
  req_Method :: ProbeHTTPMethod
  req_Path :: string
  req_Host :: string
  req_APIKey :: string
  req_ContentType :: string
  req_Body :: string
  req_TimeoutSeconds :: int

record AIRoutingSummary =
  ai_Provider :: string
  ai_RequestModel :: string
  ai_UpstreamModel :: string
  ai_ResponseModel :: string

record ExtProcObservation =
  xp_Processor :: string
  xp_RuleID :: string
  xp_SelectedPool :: string
  xp_SelectedEndpoint :: string
  xp_ReasonCode :: string
  xp_RequestHeaderCalls :: int
  xp_RequestBodyCalls :: int
  xp_ResponseHeaderCalls :: int
  xp_ResponseBodyCalls :: int
  xp_RequestHeaderLatencyUS :: int
  xp_RequestBodyLatencyUS :: int
  xp_ResponseHeaderLatencyUS :: int
  xp_ResponseBodyLatencyUS :: int
  xp_GRPCStatus :: string
  xp_FailureModeAllowed :: bool
  xp_FailedOpen :: bool
  xp_MessageTimeout :: bool
  xp_HTTPError :: bool
  xp_ReceivedImmediateResponse :: bool
  xp_Invoked :: bool
  xp_Outcome :: ExtProcOutcome

record ObservedHop =
  hop_ContextID :: string
  hop_ID :: string
  hop_RuntimeSource :: string
  hop_LogSourceID :: string
  hop_LogSequence :: int
  hop_RequestStartTime :: string
  hop_InternalRedirect :: bool
  hop_AIRouting :: "AIRoutingSummary option"
  hop_ObservedAt :: string
  hop_ClusterID :: string
  hop_Pod :: string
  hop_Authority :: string
  hop_Method :: string
  hop_Path :: string
  hop_Protocol :: string
  hop_RouteName :: string
  hop_UpstreamCluster :: string
  hop_UpstreamHost :: string
  hop_UpstreamLocalAddress :: string
  hop_DownstreamRemoteAddress :: string
  hop_DownstreamLocalAddress :: string
  hop_ResponseCode :: int
  hop_ResponseFlags :: string
  hop_ResponseCodeDetails :: string
  hop_DurationMillis :: int
  hop_UpstreamServiceTimeMillis :: int
  hop_UpstreamTransportFailure :: string
  hop_AILog :: string
  hop_ExtProcs :: "ExtProcObservation list"
  hop_EvidenceSource :: string
  hop_Correlation :: ProbeCorrelation
  hop_Confidence :: ObservationConfidence

record ProbeCollection =
  col_State :: ProbeCollectionState
  col_CompletedAt :: string

record ProbeAttemptLink =
  link_From :: string
  link_To :: string

record ProbeIssue =
  issue_Scope :: ProbeIssueScope
  issue_Code :: ProbeIssueCode
  issue_Message :: string
  issue_ContextID :: string
  issue_HopID :: string

record ProbeSegment =
  seg_Index :: int
  seg_ClusterID :: string
  seg_GatewayID :: string
  seg_GatewayName :: string
  seg_SnapshotID :: string
  seg_SnapshotObservedAt :: string
  seg_LogSource :: string
  seg_Transport :: string
  seg_Destination :: string
  seg_InferenceBasis :: string
  seg_InferenceConfidence :: ProbeInferenceConfidence
  seg_Hops :: "ObservedHop list"
  seg_Collection :: "ProbeCollection option"
  seg_RelationState :: ProbeAttemptRelationState
  seg_Links :: "ProbeAttemptLink list"
  seg_LocalTerminalHopIDs :: "string list"
  seg_Issues :: "ProbeIssue list"

record ProbeExecution =
  exec_SchemaVersion :: int
  exec_ID :: string
  exec_TraceID :: string
  exec_SourceCluster :: string
  exec_GatewayID :: string
  exec_Method :: ProbeHTTPMethod
  exec_Target :: string
  exec_State :: ProbeExecutionState
  exec_StartedAt :: string
  exec_CompletedAt :: string
  exec_ResponseCode :: int
  exec_ResponseBytes :: int
  exec_DurationMillis :: int
  exec_Segments :: "ProbeSegment list"
  exec_FederatedSnapshotID :: string
  exec_SnapshotConsistency :: SnapshotConsistency
  exec_Issues :: "ProbeIssue list"
  exec_Error :: string
  exec_FinalResponseHopID :: string
  exec_FinalUpstreamHopID :: string

record ProbeHTTPResult =
  http_Method :: ProbeHTTPMethod
  http_Target :: string
  http_ResponseCode :: int
  http_ResponseBytes :: int
  http_DurationMillis :: int
  http_Error :: string

record ProbeAgentResult =
  par_SchemaVersion :: int
  par_ProbeID :: string
  par_TraceID :: string
  par_ClusterID :: string
  par_GatewayID :: string
  par_StartedAt :: string
  par_CompletedAt :: string
  par_HTTP :: "ProbeHTTPResult option"
  par_Hops :: "ObservedHop list"
  par_Collection :: "ProbeCollection option"
  par_Issues :: "ProbeIssue list"

record ProbeCommand =
  pc_ProbeID :: string
  pc_TraceID :: string
  pc_GatewayID :: string
  pc_EntryID :: string
  pc_Method :: ProbeHTTPMethod
  pc_Path :: string
  pc_Host :: string
  pc_APIKey :: string
  pc_ContentType :: string
  pc_Body :: string
  pc_StartedAt :: string

record AgentCommand =
  cmd_ID :: string
  cmd_ClusterID :: string
  cmd_Kind :: AgentCommandKind
  cmd_GatewayID :: string
  cmd_Deadline :: string
  cmd_ExecutionTimeoutSeconds :: int
  cmd_Probe :: "ProbeCommand option"

record AgentCommandResult =
  acr_CommandID :: string
  acr_ClusterID :: string
  acr_Config :: "EnvoyConfig option"
  acr_Probe :: "ProbeAgentResult option"
  acr_Error :: string


section \<open>Zero values\<close>

definition zero_Cluster :: Cluster where
  "zero_Cluster = \<lparr>cl_ID = [], cl_Name = [], cl_Version = []\<rparr>"

definition zero_Snapshot :: Snapshot where
  "zero_Snapshot = \<lparr>sn_ID = [], sn_ObservedAt = [], sn_State = []\<rparr>"

definition zero_Context :: Context where
  "zero_Context = \<lparr>ctx_Cluster = zero_Cluster, ctx_Namespaces = [],
     ctx_Snapshot = zero_Snapshot, ctx_Capabilities = []\<rparr>"

definition zero_TopologyCluster :: TopologyCluster where
  "zero_TopologyCluster = \<lparr>tc_ID = [], tc_Name = [], tc_Environment = [],
     tc_Version = [], tc_ConnectionState = [], tc_Namespaces = [],
     tc_Snapshot = zero_Snapshot\<rparr>"

definition zero_TopologyNode :: TopologyNode where
  "zero_TopologyNode = \<lparr>node_ID = [], node_Name = [], node_Kind = [],
     node_Namespace = [], node_ClusterID = [], node_Status = [], node_StatusText = [],
     node_Summary = [], node_Conditions = [], node_Source = [], node_WorkloadScope = []\<rparr>"

definition zero_TopologyEdge :: TopologyEdge where
  "zero_TopologyEdge = \<lparr>edge_From = [], edge_To = [], edge_Relation = [],
     edge_Transport = [], edge_Destination = [], edge_State = [], edge_Evidence = []\<rparr>"

definition zero_ProbeEntry :: ProbeEntry where
  "zero_ProbeEntry = \<lparr>entry_ID = [], entry_GatewayID = [], entry_ClusterID = [],
     entry_Namespace = [], entry_ServiceName = [], entry_DNSName = [], entry_Port = 0,
     entry_Scheme = [], entry_Protocol = [], entry_DisplayName = [], entry_Addresses = []\<rparr>"

definition zero_Topology :: Topology where
  "zero_Topology = \<lparr>topo_SnapshotID = [], topo_FederatedSnapshotID = [],
     topo_ObservedAt = [], topo_Consistency = [], topo_Clusters = [], topo_Nodes = [],
     topo_Edges = [], topo_ProbeEntries = [], topo_Truncated = False\<rparr>"

definition zero_EnvoyHTTPFilter :: EnvoyHTTPFilter where
  "zero_EnvoyHTTPFilter = \<lparr>ehf_Name = [], ehf_Type = [], ehf_Stage = [],
     ehf_ConfigSummary = [], ehf_Terminal = False\<rparr>"

definition zero_EnvoyWeightedCluster :: EnvoyWeightedCluster where
  "zero_EnvoyWeightedCluster = \<lparr>ewc_Name = [], ewc_Weight = 0\<rparr>"

definition zero_EnvoyRouteExtProcTarget :: EnvoyRouteExtProcTarget where
  "zero_EnvoyRouteExtProcTarget = \<lparr>erx_FilterName = [], erx_TypeURL = [],
     erx_GRPCClusters = []\<rparr>"

definition zero_EnvoyRoute :: EnvoyRoute where
  "zero_EnvoyRoute = \<lparr>er_Name = [], er_Match = [], er_Cluster = [],
     er_WeightedClusters = [], er_ExtProcs = []\<rparr>"

definition zero_EnvoyFilterChain :: EnvoyFilterChain where
  "zero_EnvoyFilterChain = \<lparr>efc_Name = [], efc_Match = [], efc_Transport = [],
     efc_HTTPFilters = [], efc_Routes = []\<rparr>"

definition zero_EnvoyListener :: EnvoyListener where
  "zero_EnvoyListener = \<lparr>el_ID = [], el_Name = [], el_Address = [], el_Port = 0,
     el_Protocol = [], el_Status = [], el_FilterChains = []\<rparr>"

definition zero_EnvoyEndpoint :: EnvoyEndpoint where
  "zero_EnvoyEndpoint = \<lparr>ee_Address = [], ee_Port = 0, ee_Status = [],
     ee_Health = [], ee_Weight = 0\<rparr>"

definition zero_EnvoyCluster :: EnvoyCluster where
  "zero_EnvoyCluster = \<lparr>ecl_Name = [], ecl_Type = [], ecl_Discovery = [],
     ecl_ConnectTimeout = [], ecl_Endpoints = []\<rparr>"

definition zero_EnvoyExtensionAttachment :: EnvoyExtensionAttachment where
  "zero_EnvoyExtensionAttachment = \<lparr>exa_ListenerID = [], exa_ListenerName = [],
     exa_FilterChain = [], exa_FilterName = [], exa_FilterType = [], exa_Position = 0\<rparr>"

definition zero_EnvoyExtensionDependency :: EnvoyExtensionDependency where
  "zero_EnvoyExtensionDependency = \<lparr>exd_Kind = [], exd_Name = [],
     exd_Relation = [], exd_Evidence = [], exd_Resolved = False\<rparr>"

definition zero_EnvoyExtension :: EnvoyExtension where
  "zero_EnvoyExtension = \<lparr>ex_ID = [], ex_Name = [], ex_Kind = [], ex_TypeURL = [],
     ex_Status = [], ex_ConfigSource = [], ex_ConfigSummary = [], ex_Attachments = [],
     ex_Dependencies = []\<rparr>"

definition zero_EnvoyConfig :: EnvoyConfig where
  "zero_EnvoyConfig = \<lparr>ec_SnapshotID = [], ec_ObservedAt = [], ec_State = [],
     ec_Source = [], ec_Proxy = [], ec_GatewayID = [], ec_Controller = [],
     ec_Workload = [], ec_SampledPod = [], ec_ReadyReplicas = 0, ec_Listeners = [],
     ec_Clusters = [], ec_Extensions = [], ec_RawConfig = []\<rparr>"

definition zero_Finding :: Finding where
  "zero_Finding = \<lparr>find_ID = [], find_Severity = [], find_Title = [],
     find_Resource = [], find_Basis = [], find_TargetID = []\<rparr>"

definition zero_Resource :: Resource where
  "zero_Resource = \<lparr>res_ID = [], res_Kind = [], res_Name = [], res_Namespace = [],
     res_Status = [], res_StatusText = [], res_UpdatedAt = [], res_Findings = 0\<rparr>"

definition zero_AgentSnapshot :: AgentSnapshot where
  "zero_AgentSnapshot = \<lparr>as_Cluster = zero_TopologyCluster,
     as_Context = zero_Context, as_Topology = zero_Topology, as_Findings = [],
     as_Resources = [], as_SentAt = []\<rparr>"

definition zero_ProbeRequest :: ProbeRequest where
  "zero_ProbeRequest = \<lparr>req_SourceCluster = [], req_GatewayID = [],
     req_EntryID = [], req_Method = [], req_Path = [], req_Host = [], req_APIKey = [],
     req_ContentType = [], req_Body = [], req_TimeoutSeconds = 0\<rparr>"

definition zero_AIRoutingSummary :: AIRoutingSummary where
  "zero_AIRoutingSummary = \<lparr>ai_Provider = [], ai_RequestModel = [],
     ai_UpstreamModel = [], ai_ResponseModel = []\<rparr>"

definition zero_ExtProcObservation :: ExtProcObservation where
  "zero_ExtProcObservation = \<lparr>xp_Processor = [], xp_RuleID = [],
     xp_SelectedPool = [], xp_SelectedEndpoint = [], xp_ReasonCode = [],
     xp_RequestHeaderCalls = 0, xp_RequestBodyCalls = 0, xp_ResponseHeaderCalls = 0,
     xp_ResponseBodyCalls = 0, xp_RequestHeaderLatencyUS = 0, xp_RequestBodyLatencyUS = 0,
     xp_ResponseHeaderLatencyUS = 0, xp_ResponseBodyLatencyUS = 0, xp_GRPCStatus = [],
     xp_FailureModeAllowed = False, xp_FailedOpen = False, xp_MessageTimeout = False,
     xp_HTTPError = False, xp_ReceivedImmediateResponse = False, xp_Invoked = False,
     xp_Outcome = []\<rparr>"

definition zero_ObservedHop :: ObservedHop where
  "zero_ObservedHop = \<lparr>hop_ContextID = [], hop_ID = [], hop_RuntimeSource = [],
     hop_LogSourceID = [], hop_LogSequence = 0, hop_RequestStartTime = [],
     hop_InternalRedirect = False, hop_AIRouting = None, hop_ObservedAt = [],
     hop_ClusterID = [], hop_Pod = [], hop_Authority = [], hop_Method = [], hop_Path = [],
     hop_Protocol = [], hop_RouteName = [], hop_UpstreamCluster = [],
     hop_UpstreamHost = [], hop_UpstreamLocalAddress = [],
     hop_DownstreamRemoteAddress = [], hop_DownstreamLocalAddress = [],
     hop_ResponseCode = 0, hop_ResponseFlags = [], hop_ResponseCodeDetails = [],
     hop_DurationMillis = 0, hop_UpstreamServiceTimeMillis = 0,
     hop_UpstreamTransportFailure = [], hop_AILog = [], hop_ExtProcs = [],
     hop_EvidenceSource = [], hop_Correlation = [], hop_Confidence = []\<rparr>"

definition zero_ProbeCollection :: ProbeCollection where
  "zero_ProbeCollection = \<lparr>col_State = [], col_CompletedAt = []\<rparr>"

definition zero_ProbeAttemptLink :: ProbeAttemptLink where
  "zero_ProbeAttemptLink = \<lparr>link_From = [], link_To = []\<rparr>"

definition zero_ProbeIssue :: ProbeIssue where
  "zero_ProbeIssue = \<lparr>issue_Scope = [], issue_Code = [], issue_Message = [],
     issue_ContextID = [], issue_HopID = []\<rparr>"

definition zero_ProbeSegment :: ProbeSegment where
  "zero_ProbeSegment = \<lparr>seg_Index = 0, seg_ClusterID = [], seg_GatewayID = [],
     seg_GatewayName = [], seg_SnapshotID = [], seg_SnapshotObservedAt = [],
     seg_LogSource = [], seg_Transport = [], seg_Destination = [], seg_InferenceBasis = [],
     seg_InferenceConfidence = [], seg_Hops = [], seg_Collection = None,
     seg_RelationState = [], seg_Links = [], seg_LocalTerminalHopIDs = [], seg_Issues = []\<rparr>"

definition zero_ProbeExecution :: ProbeExecution where
  "zero_ProbeExecution = \<lparr>exec_SchemaVersion = 0, exec_ID = [], exec_TraceID = [],
     exec_SourceCluster = [], exec_GatewayID = [], exec_Method = [], exec_Target = [],
     exec_State = [], exec_StartedAt = [], exec_CompletedAt = [], exec_ResponseCode = 0,
     exec_ResponseBytes = 0, exec_DurationMillis = 0, exec_Segments = [],
     exec_FederatedSnapshotID = [], exec_SnapshotConsistency = [], exec_Issues = [],
     exec_Error = [], exec_FinalResponseHopID = [], exec_FinalUpstreamHopID = []\<rparr>"

definition zero_ProbeHTTPResult :: ProbeHTTPResult where
  "zero_ProbeHTTPResult = \<lparr>http_Method = [], http_Target = [],
     http_ResponseCode = 0, http_ResponseBytes = 0, http_DurationMillis = 0,
     http_Error = []\<rparr>"

definition zero_ProbeAgentResult :: ProbeAgentResult where
  "zero_ProbeAgentResult = \<lparr>par_SchemaVersion = 0, par_ProbeID = [],
     par_TraceID = [], par_ClusterID = [], par_GatewayID = [], par_StartedAt = [],
     par_CompletedAt = [], par_HTTP = None, par_Hops = [], par_Collection = None,
     par_Issues = []\<rparr>"

definition zero_ProbeCommand :: ProbeCommand where
  "zero_ProbeCommand = \<lparr>pc_ProbeID = [], pc_TraceID = [], pc_GatewayID = [],
     pc_EntryID = [], pc_Method = [], pc_Path = [], pc_Host = [], pc_APIKey = [],
     pc_ContentType = [], pc_Body = [], pc_StartedAt = []\<rparr>"

definition zero_AgentCommand :: AgentCommand where
  "zero_AgentCommand = \<lparr>cmd_ID = [], cmd_ClusterID = [], cmd_Kind = [],
     cmd_GatewayID = [], cmd_Deadline = [], cmd_ExecutionTimeoutSeconds = 0,
     cmd_Probe = None\<rparr>"

definition zero_AgentCommandResult :: AgentCommandResult where
  "zero_AgentCommandResult = \<lparr>acr_CommandID = [], acr_ClusterID = [],
     acr_Config = None, acr_Probe = None, acr_Error = []\<rparr>"


end
