(* ===== verification/Go_Url.thy ===== *)
theory Go_Url
  imports Go_Strings
begin

text \<open>
  The parts of \<open>net/url\<close> and \<open>net\<close> the program uses, as in Go 1.24: \<open>url.Parse\<close>,
  \<open>url.ParseRequestURI\<close>, \<open>URL.String\<close>, \<open>URL.Hostname\<close> and \<open>net.SplitHostPort\<close>. An error
  is \<open>None\<close>: the program only tests whether there was one.
\<close>

datatype encoding = encodePath | encodeUserPassword | encodeHost | encodeZone | encodeFragment

record URL =
  url_Scheme :: string
  url_Opaque :: string
  url_User :: "(string \<times> string option) option"
  url_Host :: string
  url_Path :: string
  url_RawPath :: string
  url_OmitHost :: bool
  url_ForceQuery :: bool
  url_RawQuery :: string
  url_Fragment :: string
  url_RawFragment :: string

definition empty_url :: URL where
  "empty_url = \<lparr>url_Scheme = [], url_Opaque = [], url_User = None, url_Host = [], url_Path = [],
     url_RawPath = [], url_OmitHost = False, url_ForceQuery = False, url_RawQuery = [],
     url_Fragment = [], url_RawFragment = []\<rparr>"

section \<open>Percent encoding\<close>

definition is_alnum :: "char \<Rightarrow> bool" where
  "is_alnum c \<longleftrightarrow> is_lower c \<or> is_upper c \<or> is_digit c"

definition shouldEscape :: "char \<Rightarrow> encoding \<Rightarrow> bool" where
  "shouldEscape c mode =
     (if is_alnum c then False
      else if (mode = encodeHost \<or> mode = encodeZone)
        \<and> c \<in> set (''!$&'' @ [byte 39] @ ''()*+,;=:[]<>'' @ [byte 34]) then False
      else if c \<in> set ''-_.~'' then False
      else if c \<in> set ''$&+,/:;=?@'' \<and> mode = encodePath then c = CHR ''?''
      else if c \<in> set ''$&+,/:;=?@'' \<and> mode = encodeUserPassword then c \<in> set ''@/?:''
      else if c \<in> set ''$&+,/:;=?@'' \<and> mode = encodeFragment then False
      else if mode = encodeFragment \<and> c \<in> set ''!()*'' then False
      else True)"

definition hex_val :: "char \<Rightarrow> nat option" where
  "hex_val c =
     (if is_digit c then Some (byte_val c - 48)
      else if 97 \<le> byte_val c \<and> byte_val c \<le> 102 then Some (byte_val c - 87)
      else if 65 \<le> byte_val c \<and> byte_val c \<le> 70 then Some (byte_val c - 55)
      else None)"

definition hex_upper :: "nat \<Rightarrow> char" where
  "hex_upper n = (if n < 10 then byte (48 + n) else byte (55 + n))"

fun escape :: "string \<Rightarrow> encoding \<Rightarrow> string" where
  "escape [] mode = []"
| "escape (c # s) mode =
     (if shouldEscape c mode
      then [CHR ''%'', hex_upper (byte_val c div 16), hex_upper (byte_val c mod 16)] @ escape s mode
      else c # escape s mode)"

definition bad_escape :: "encoding \<Rightarrow> nat \<Rightarrow> nat \<Rightarrow> bool" where
  "bad_escape mode a b =
     (mode = encodeHost \<and> a < 8 \<and> \<not> (a = 2 \<and> b = 5)
      \<or> mode = encodeZone \<and> \<not> (a = 2 \<and> b = 5) \<and> 16 * a + b \<noteq> 32
        \<and> shouldEscape (byte (16 * a + b)) encodeHost)"

fun unescape :: "string \<Rightarrow> encoding \<Rightarrow> string option" where
  "unescape [] mode = Some []"
| "unescape (c # s) mode =
     (if c = CHR ''%'' then
        (case s of
           x # y # r \<Rightarrow>
             (case (hex_val x, hex_val y) of
                (Some a, Some b) \<Rightarrow>
                  (if bad_escape mode a b then None
                   else map_option ((#) (byte (16 * a + b))) (unescape r mode))
              | _ \<Rightarrow> None)
         | _ \<Rightarrow> None)
      else if (mode = encodeHost \<or> mode = encodeZone) \<and> byte_val c < 128 \<and> shouldEscape c mode
      then None
      else map_option ((#) c) (unescape s mode))"

definition validEncoded :: "string \<Rightarrow> encoding \<Rightarrow> bool" where
  "validEncoded s mode \<longleftrightarrow>
     list_all (\<lambda>c. c \<in> set (''!$&'' @ [byte 39] @ ''()*+,;=:@[]%'') \<or> \<not> shouldEscape c mode) s"

section \<open>Hosts and ports\<close>

definition validOptionalPort :: "string \<Rightarrow> bool" where
  "validOptionalPort p =
     (case p of [] \<Rightarrow> True | c # ds \<Rightarrow> c = CHR '':'' \<and> list_all is_digit ds)"

definition IndexOf :: "string \<Rightarrow> string \<Rightarrow> nat option" where
  "IndexOf s sub = map_option (\<lambda>(a, b). length a) (Cut s sub)"

definition parseHost :: "string \<Rightarrow> string option" where
  "parseHost host =
     (if HasPrefix host ''['' then
        (case LastIndexByte host (CHR '']'') of
           None \<Rightarrow> None
         | Some i \<Rightarrow>
             if \<not> validOptionalPort (drop (Suc i) host) then None
             else (case IndexOf (take i host) ''%25'' of
                 None \<Rightarrow> unescape host encodeHost
               | Some zone \<Rightarrow>
                   Option.bind (unescape (take zone host) encodeHost) (\<lambda>h1.
                   Option.bind (unescape (drop zone (take i host)) encodeZone) (\<lambda>h2.
                   Option.bind (unescape (drop i host) encodeHost) (\<lambda>h3. Some (h1 @ h2 @ h3))))))
      else (case LastIndexByte host (CHR '':'') of
          None \<Rightarrow> unescape host encodeHost
        | Some i \<Rightarrow>
            if \<not> validOptionalPort (drop i host) then None else unescape host encodeHost))"

definition validUserinfo :: "string \<Rightarrow> bool" where
  "validUserinfo s \<longleftrightarrow>
     list_all (\<lambda>c. is_alnum c \<or> c \<in> set (''-._:~!$&'' @ [byte 39] @ ''()*+,;=%@'')) s"

definition parseAuthority :: "string \<Rightarrow> ((string \<times> string option) option \<times> string) option" where
  "parseAuthority authority =
     (case LastIndexByte authority (CHR ''@'') of
        None \<Rightarrow> map_option (\<lambda>h. (None, h)) (parseHost authority)
      | Some i \<Rightarrow>
          Option.bind (parseHost (drop (Suc i) authority)) (\<lambda>h.
            let info = take i authority in
            if \<not> validUserinfo info then None
            else (case Cut info '':'' of
                None \<Rightarrow> map_option (\<lambda>u. (Some (u, None), h)) (unescape info encodeUserPassword)
              | Some (u, p) \<Rightarrow>
                  Option.bind (unescape u encodeUserPassword) (\<lambda>u'.
                  map_option (\<lambda>p'. (Some (u', Some p'), h)) (unescape p encodeUserPassword)))))"

text \<open>\<open>net.SplitHostPort\<close>.\<close>

definition SplitHostPort :: "string \<Rightarrow> (string \<times> string) option" where
  "SplitHostPort hp =
     (case LastIndexByte hp (CHR '':'') of
        None \<Rightarrow> None
      | Some i \<Rightarrow>
          if HasPrefix hp ''['' then
            (case IndexByte hp (CHR '']'') of
               None \<Rightarrow> None
             | Some e \<Rightarrow>
                 if e + 1 = length hp \<or> e + 1 \<noteq> i then None
                 else if CHR ''['' \<in> set (drop 1 hp) \<or> CHR '']'' \<in> set (drop (e + 1) hp) then None
                 else Some (drop 1 (take e hp), drop (Suc i) hp))
          else
            (if CHR '':'' \<in> set (take i hp) \<or> CHR ''['' \<in> set hp \<or> CHR '']'' \<in> set hp then None
             else Some (take i hp, drop (Suc i) hp)))"

section \<open>Parsing\<close>

text \<open>The scheme scanner: \<open>None\<close> is an error, otherwise the scheme and the rest.\<close>

fun scheme_scan :: "string \<Rightarrow> string \<Rightarrow> nat \<Rightarrow> string \<Rightarrow> (string \<times> string) option" where
  "scheme_scan raw acc i [] = Some ([], raw)"
| "scheme_scan raw acc i (c # s) =
     (if is_lower c \<or> is_upper c then scheme_scan raw (acc @ [c]) (Suc i) s
      else if is_digit c \<or> c \<in> set ''+-.''
      then (if i = 0 then Some ([], raw) else scheme_scan raw (acc @ [c]) (Suc i) s)
      else if c = CHR '':'' then (if i = 0 then None else Some (acc, s))
      else Some ([], raw))"

definition getScheme :: "string \<Rightarrow> (string \<times> string) option" where
  "getScheme raw = scheme_scan raw [] 0 raw"

definition has_ctl :: "string \<Rightarrow> bool" where
  "has_ctl s \<longleftrightarrow> list_ex (\<lambda>c. byte_val c < 32 \<or> byte_val c = 127) s"

definition setPath :: "URL \<Rightarrow> string \<Rightarrow> URL option" where
  "setPath u p =
     map_option (\<lambda>path. u\<lparr>url_Path := path, url_RawPath := (if p = escape path encodePath then [] else p)\<rparr>)
       (unescape p encodePath)"

definition setFragment :: "URL \<Rightarrow> string \<Rightarrow> URL option" where
  "setFragment u f =
     map_option (\<lambda>frag. u\<lparr>url_Fragment := frag,
       url_RawFragment := (if f = escape frag encodeFragment then [] else f)\<rparr>)
       (unescape f encodeFragment)"

definition first_segment :: "string \<Rightarrow> string" where
  "first_segment s = (case Cut s ''/'' of None \<Rightarrow> s | Some (a, b) \<Rightarrow> a)"

definition split_query :: "string \<Rightarrow> URL \<Rightarrow> URL \<times> string" where
  "split_query rest u =
     (if HasSuffix rest ''?'' \<and> CountByte rest (CHR ''?'') = 1
      then (u\<lparr>url_ForceQuery := True\<rparr>, take (length rest - 1) rest)
      else (case Cut rest ''?'' of None \<Rightarrow> (u, rest) | Some (a, q) \<Rightarrow> (u\<lparr>url_RawQuery := q\<rparr>, a)))"

definition parse_rest :: "URL \<Rightarrow> string \<Rightarrow> bool \<Rightarrow> URL option" where
  "parse_rest u rest viaRequest =
     (if (url_Scheme u \<noteq> [] \<or> (\<not> viaRequest \<and> \<not> HasPrefix rest ''///'')) \<and> HasPrefix rest ''//''
      then
        (let authority0 = drop 2 rest;
             authority = first_segment authority0;
             path = drop (length authority) authority0
         in Option.bind (parseAuthority authority) (\<lambda>(user, host).
              setPath (u\<lparr>url_User := user, url_Host := host\<rparr>) path))
      else if url_Scheme u \<noteq> [] \<and> HasPrefix rest ''/'' then setPath (u\<lparr>url_OmitHost := True\<rparr>) rest
      else setPath u rest)"

definition url_parse0 :: "string \<Rightarrow> bool \<Rightarrow> URL option" where
  "url_parse0 raw viaRequest =
     (if has_ctl raw then None
      else if raw = [] \<and> viaRequest then None
      else if raw = ''*'' then Some (empty_url\<lparr>url_Path := ''*''\<rparr>)
      else (case getScheme raw of
          None \<Rightarrow> None
        | Some (scheme, rest0) \<Rightarrow>
            (case split_query rest0 (empty_url\<lparr>url_Scheme := ToLower scheme\<rparr>) of (u, rest) \<Rightarrow>
              if \<not> HasPrefix rest ''/'' then
                (if url_Scheme u \<noteq> [] then Some (u\<lparr>url_Opaque := rest\<rparr>)
                 else if viaRequest then None
                 else if Contains (first_segment rest) '':'' then None
                 else parse_rest u rest viaRequest)
              else parse_rest u rest viaRequest)))"

definition url_Parse :: "string \<Rightarrow> URL option" where
  "url_Parse raw =
     (case Cut raw ''#'' of
        None \<Rightarrow> url_parse0 raw False
      | Some (a, frag) \<Rightarrow>
          Option.bind (url_parse0 a False) (\<lambda>u. if frag = [] then Some u else setFragment u frag))"

definition url_ParseRequestURI :: "string \<Rightarrow> URL option" where
  "url_ParseRequestURI raw = url_parse0 raw True"

definition url_IsAbs :: "URL \<Rightarrow> bool" where
  "url_IsAbs u \<longleftrightarrow> url_Scheme u \<noteq> []"

definition url_Hostname :: "URL \<Rightarrow> string" where
  "url_Hostname u =
     (let host = (case LastIndexByte (url_Host u) (CHR '':'') of
                    None \<Rightarrow> url_Host u
                  | Some i \<Rightarrow> if validOptionalPort (drop i (url_Host u)) then take i (url_Host u)
                              else url_Host u)
      in if HasPrefix host ''['' \<and> HasSuffix host '']'' then drop 1 (take (length host - 1) host)
         else host)"

section \<open>Printing\<close>

definition EscapedPath :: "URL \<Rightarrow> string" where
  "EscapedPath u =
     (if url_RawPath u \<noteq> [] \<and> validEncoded (url_RawPath u) encodePath
         \<and> unescape (url_RawPath u) encodePath = Some (url_Path u)
      then url_RawPath u
      else if url_Path u = ''*'' then ''*''
      else escape (url_Path u) encodePath)"

definition EscapedFragment :: "URL \<Rightarrow> string" where
  "EscapedFragment u =
     (if url_RawFragment u \<noteq> [] \<and> validEncoded (url_RawFragment u) encodeFragment
         \<and> unescape (url_RawFragment u) encodeFragment = Some (url_Fragment u)
      then url_RawFragment u
      else escape (url_Fragment u) encodeFragment)"

definition userinfo_string :: "string \<times> string option \<Rightarrow> string" where
  "userinfo_string ui =
     escape (fst ui) encodeUserPassword @
     (case snd ui of None \<Rightarrow> [] | Some p \<Rightarrow> '':'' @ escape p encodeUserPassword)"

definition authority_string :: "URL \<Rightarrow> string" where
  "authority_string u =
     (if url_Scheme u = [] \<and> url_Host u = [] \<and> url_User u = None then []
      else if url_OmitHost u \<and> url_Host u = [] \<and> url_User u = None then []
      else (if url_Host u \<noteq> [] \<or> url_Path u \<noteq> [] \<or> url_User u \<noteq> None then ''//'' else [])
        @ (case url_User u of None \<Rightarrow> [] | Some ui \<Rightarrow> userinfo_string ui @ ''@'')
        @ escape (url_Host u) encodeHost)"

definition url_String :: "URL \<Rightarrow> string" where
  "url_String u =
     (let scheme = (if url_Scheme u = [] then [] else url_Scheme u @ '':'');
          body = (if url_Opaque u \<noteq> [] then url_Opaque u
            else (let auth = authority_string u; path = EscapedPath u;
                      slash = (if path \<noteq> [] \<and> hd path \<noteq> CHR ''/'' \<and> url_Host u \<noteq> [] then ''/'' else []);
                      dot = (if scheme @ auth @ slash = [] \<and> Contains (first_segment path) '':''
                             then ''./'' else [])
                  in auth @ slash @ dot @ path))
      in scheme @ body
         @ (if url_ForceQuery u \<or> url_RawQuery u \<noteq> [] then ''?'' @ url_RawQuery u else [])
         @ (if url_Fragment u \<noteq> [] then ''#'' @ EscapedFragment u else []))"

end
