(* ===== verification/Federation_Ids.thy ===== *)
theory Federation_Ids
  imports Domain_Types Go_Url
begin

text \<open>
  The string level of \<open>internal/federation/store.go\<close>: federated identities
  (\<open>cluster::local\<close>), and the extraction and normalisation of the addresses by which
  nodes of different clusters are recognised as the two ends of one connection.
\<close>

section \<open>Federated identities\<close>

definition globalID :: "string \<Rightarrow> string \<Rightarrow> string" where
  "globalID clusterID i =
     (if i = [] \<or> HasPrefix i (clusterID @ ''::'') then i else clusterID @ ''::'' @ i)"

definition localID :: "string \<Rightarrow> string \<Rightarrow> string" where
  "localID clusterID i = TrimPrefix i (clusterID @ ''::'')"

section \<open>Addresses\<close>

definition valuesWithPrefixes :: "string list \<Rightarrow> string list \<Rightarrow> string list" where
  "valuesWithPrefixes values prefixes =
     concat (map (\<lambda>value. map (TrimPrefix value) (filter (HasPrefix value) prefixes)) values)"

definition normalizeTarget :: "string \<Rightarrow> string" where
  "normalizeTarget value0 =
     (let value1 = TrimSpace (ToLower value0);
          value2 = (if Contains value1 ''://''
            then (case url_Parse value1 of
                    Some parsed \<Rightarrow> if url_Host parsed \<noteq> [] then url_Host parsed else value1
                  | None \<Rightarrow> value1)
            else value1);
          value3 = TrimSuffix (hd (SplitByte CHR ''/'' value2)) ''.''
      in case SplitHostPort value3 of
           Some (host, port) \<Rightarrow> host
         | None \<Rightarrow>
             if CountByte value3 CHR '':'' = 1 then hd (SplitByte CHR '':'' value3) else value3)"

definition add_normalized :: "string list \<Rightarrow> string \<Rightarrow> string list" where
  "add_normalized result value0 =
     (let value = normalizeTarget value0 in
      if value \<noteq> [] \<and> value \<noteq> ''*'' \<and> value \<notin> set result then result @ [value] else result)"

definition normalized :: "string list \<Rightarrow> string list" where
  "normalized values = foldl add_normalized [] values"

definition outboundKeys :: "TopologyNode \<Rightarrow> string list" where
  "outboundKeys node =
     (if node_Kind node \<noteq> TopologyNodeKindTransitHop \<and> node_Kind node \<noteq> TopologyNodeKindRegistry
         \<and> node_Kind node \<noteq> TopologyNodeKindService
      then []
      else normalized
        (valuesWithPrefixes (node_Conditions node) [''Destination='', ''Domain='', ''ExternalName='']))"

definition entryKeys :: "TopologyNode \<Rightarrow> string list" where
  "entryKeys node =
     (if node_Kind node \<noteq> TopologyNodeKindGateway \<and> node_Kind node \<noteq> TopologyNodeKindListener
         \<and> node_Kind node \<noteq> TopologyNodeKindIngress
      then []
      else normalized (valuesWithPrefixes (node_Conditions node) [''Address='', ''Hostname='']))"

definition nodeLocation :: "TopologyNode \<Rightarrow> string" where
  "nodeLocation node =
     node_ClusterID node @ ''/''
     @ (if node_Namespace node \<noteq> [] then node_Namespace node @ ''/'' else [])
     @ node_Name node"

definition entryEvidence :: "TopologyNode \<Rightarrow> string" where
  "entryEvidence node =
     (let location = node_ClusterID node @ ''/''
            @ (if node_Namespace node \<noteq> [] then node_Namespace node @ ''/'' else [])
            @ node_Name node
      in if node_Source node = [] then node_Kind node @ '' '' @ location
         else node_Kind node @ '' '' @ location @ '' ('' @ node_Source node @ '')'')"

definition transportOf :: "TopologyNode \<Rightarrow> string" where
  "transportOf node =
     (case valuesWithPrefixes (node_Conditions node) [''Transport='', ''Protocol=''] of
        [] \<Rightarrow> ''unknown'' | v # _ \<Rightarrow> v)"

definition intersect :: "string list \<Rightarrow> string list \<Rightarrow> string option" where
  "intersect left right = find (\<lambda>value. value \<in> set left) right"

definition edgeExists :: "TopologyEdge list \<Rightarrow> string \<Rightarrow> string \<Rightarrow> bool" where
  "edgeExists edges from to = list_ex (\<lambda>edge. edge_From edge = from \<and> edge_To edge = to) edges"

section \<open>Laws of identities\<close>

text \<open>
  A federated identity splits uniquely at its first double colon, provided the cluster name
  has none and does not end in a colon (Kubernetes names have neither).
\<close>

definition plain_cluster :: "string \<Rightarrow> bool" where
  "plain_cluster c \<longleftrightarrow> \<not> Contains (c @ '':'') ''::''"

lemma HasPrefix_global [simp]: "HasPrefix (c @ CHR '':'' # CHR '':'' # i) (c @ ''::'')"
  by (simp add: HasPrefix_iff)

lemma globalID_idem [simp]: "globalID c (globalID c i) = globalID c i"
  by (simp add: globalID_def)

lemma globalID_Nil [simp]: "globalID c [] = []"
  by (simp add: globalID_def)

lemma globalID_Nil_iff [simp]: "globalID c i = [] \<longleftrightarrow> i = []"
  by (simp add: globalID_def)

lemma globalID_prefix: "i \<noteq> [] \<Longrightarrow> \<exists>l. globalID c i = c @ ''::'' @ l"
  by (auto simp: globalID_def HasPrefix_iff)

lemma localID_globalID: "\<not> HasPrefix i (c @ ''::'') \<Longrightarrow> localID c (globalID c i) = i"
  using TrimPrefix_append [of "c @ ''::''" i]
  by (auto simp: globalID_def localID_def TrimPrefix_def HasPrefix_def)

lemma globalID_localID: "globalID c i = i \<Longrightarrow> i \<noteq> [] \<Longrightarrow> c @ ''::'' @ localID c i = i"
proof -
  assume "globalID c i = i" "i \<noteq> []"
  then have "HasPrefix i (c @ ''::'')"
    by (metis append_assoc globalID_prefix HasPrefix_append)
  from TrimPrefix_eq [OF this] show ?thesis by (simp add: localID_def)
qed

lemma Cut_global:
  "plain_cluster c \<Longrightarrow> Cut (c @ ''::'' @ l) ''::'' = Some (c, l)"
proof (induction c)
  case Nil
  then show ?case by (simp add: HasPrefix_def TrimPrefix_def)
next
  case (Cons x c)
  have plain: "plain_cluster c"
    using Cons.prems by (auto simp: plain_cluster_def Contains_iff) (metis append_Cons)
  have "\<not> HasPrefix (x # c @ ''::'' @ l) ''::''"
  proof
    assume "HasPrefix (x # c @ ''::'' @ l) ''::''"
    then have x: "x = CHR '':''" and c: "c = [] \<or> hd c = CHR '':''"
      by (cases c; simp add: HasPrefix_def)+
    have "Contains ((x # c) @ '':'') ''::''"
    proof (cases c)
      case Nil
      with x show ?thesis by (simp add: HasPrefix_def)
    next
      case (Cons y ys)
      with x c show ?thesis by (simp add: HasPrefix_def)
    qed
    with Cons.prems show False by (simp add: plain_cluster_def)
  qed
  with Cons.IH [OF plain] show ?case by simp
qed

lemma global_prefix_unique:
  assumes "plain_cluster c" "plain_cluster d" "c @ ''::'' @ l = d @ ''::'' @ m"
  shows "c = d \<and> l = m"
  using Cut_global [OF assms(1), of l] Cut_global [OF assms(2), of m]
  unfolding assms(3) by (metis option.inject prod.inject)

lemma globalID_disjoint:
  assumes "plain_cluster c" "plain_cluster d" "globalID c i = globalID d j" "i \<noteq> []"
  shows "c = d"
proof -
  have "j \<noteq> []" using assms(3,4) by (metis globalID_Nil_iff)
  then show ?thesis
    using globalID_prefix [OF assms(4), of c] globalID_prefix [of j d]
      global_prefix_unique [OF assms(1,2)] assms(3) by metis
qed

section \<open>Laws of addresses\<close>

lemma normalized_distinct: "distinct (normalized vals)"
  unfolding normalized_def
  by (rule foldl_invariant [where P = distinct]) (auto simp: add_normalized_def Let_def)

lemma normalized_set:
  "set (normalized vals) = {v. v \<in> normalizeTarget ` set vals \<and> v \<noteq> [] \<and> v \<noteq> ''*''}"
proof -
  have "set (foldl add_normalized acc vals) =
      set acc \<union> {v. v \<in> normalizeTarget ` set vals \<and> v \<noteq> [] \<and> v \<noteq> ''*''}" for acc
  proof (induction vals arbitrary: acc)
    case (Cons v vs)
    show ?case unfolding foldl_Cons Cons.IH by (auto simp: add_normalized_def Let_def)
  qed simp
  then show ?thesis by (simp add: normalized_def)
qed

lemma intersect_Some: "intersect left right = Some k \<Longrightarrow> k \<in> set left \<and> k \<in> set right"
  by (auto simp: intersect_def dest: find_Some_mem)

lemma intersect_None: "intersect left right = None \<longleftrightarrow> set left \<inter> set right = {}"
  by (auto simp: intersect_def find_None_iff)

lemma edgeExists_iff:
  "edgeExists edges a b \<longleftrightarrow> (\<exists>e \<in> set edges. edge_From e = a \<and> edge_To e = b)"
  by (simp add: edgeExists_def list_ex_iff)

end
