(* ===== verification/Link_Rules.thy ===== *)
theory Link_Rules
  imports Federation_Ids GateLens_Prelude
begin

text \<open>
  \<open>internal/federation/link_rules.go\<close>: edges between clusters are discovered by matching the
  addresses a node sends to with the entry addresses of nodes of other clusters. A rule
  (a Go interface value, here the record of its two methods) recognises an outbound node
  and names the matching entries; ambiguity and edge generation are shared.
\<close>

section \<open>Model\<close>

record linkCandidate =
  lc_node :: TopologyNode
  lc_keys :: "string list"
  lc_rank :: int
  lc_evidence :: string

record linkTargetMatch =
  ltm_target :: linkCandidate
  ltm_key :: string

record linkRuleResult =
  lrr_matches :: "linkTargetMatch list"
  lrr_transport :: string
  lrr_evidence :: string

record linkRuleContext =
  lrc_nodesByID :: "string \<rightharpoonup> TopologyNode"
  lrc_edges :: "TopologyEdge list"
  lrc_entries :: "linkCandidate list"

record linkRule =
  lr_name :: string
  lr_match :: "linkCandidate \<Rightarrow> linkRuleContext \<Rightarrow> linkRuleResult option"

definition best_step ::
    "linkCandidate \<Rightarrow> linkRuleContext \<Rightarrow> int \<times> linkTargetMatch list \<Rightarrow> linkCandidate
     \<Rightarrow> int \<times> linkTargetMatch list" where
  "best_step from ctx s to =
     (case s of (bestRank, matches) \<Rightarrow>
       if node_ClusterID (lc_node from) = node_ClusterID (lc_node to)
          \<or> edgeExists (lrc_edges ctx) (node_ID (lc_node from)) (node_ID (lc_node to))
       then s
       else (case intersect (lc_keys from) (lc_keys to) of
               None \<Rightarrow> s
             | Some key \<Rightarrow>
                 if lc_rank to < bestRank
                 then (lc_rank to, [\<lparr>ltm_target = to, ltm_key = key\<rparr>])
                 else if lc_rank to = bestRank
                 then (bestRank, matches @ [\<lparr>ltm_target = to, ltm_key = key\<rparr>])
                 else s))"

definition bestEntryMatches :: "linkCandidate \<Rightarrow> linkRuleContext \<Rightarrow> linkTargetMatch list" where
  "bestEntryMatches from ctx = snd (foldl (best_step from ctx) (99, []) (lrc_entries ctx))"

definition ingressSelectingRegistry ::
    "TopologyNode \<Rightarrow> linkRuleContext \<Rightarrow> TopologyNode option" where
  "ingressSelectingRegistry registry ctx =
     (let selecting = (\<lambda>edge.
            if edge_To edge \<noteq> node_ID registry \<or> edge_Relation edge \<noteq> ''selects'' then None
            else (case lrc_nodesByID ctx (edge_From edge) of
                    None \<Rightarrow> None
                  | Some node \<Rightarrow>
                      if node_Kind node = TopologyNodeKindIngress
                         \<and> node_ClusterID node = node_ClusterID registry
                      then Some node else None))
      in Option.bind (find (\<lambda>edge. selecting edge \<noteq> None) (lrc_edges ctx)) selecting)"

definition higress_match :: "linkCandidate \<Rightarrow> linkRuleContext \<Rightarrow> linkRuleResult option" where
  "higress_match from ctx =
     (let node = lc_node from in
      if node_Kind node \<noteq> TopologyNodeKindRegistry \<or> node_Source node \<noteq> ''McpBridge.spec.registries''
      then None
      else
        (let result = \<lparr>lrr_matches = bestEntryMatches from ctx, lrr_transport = transportOf node,
               lrr_evidence = ''auto-discovered by higress-mcpbridge rule: McpBridge registry ''
                 @ nodeLocation node @ '' declared upstream''\<rparr>
         in case ingressSelectingRegistry node ctx of
              None \<Rightarrow> Some result
            | Some ingress \<Rightarrow>
                Some (result\<lparr>
                  lrr_transport :=
                    (case valuesWithPrefixes (node_Conditions ingress)
                            [''higress.io/backend-protocol=''] of
                       [] \<Rightarrow> lrr_transport result | v # _ \<Rightarrow> v),
                  lrr_evidence := lrr_evidence result @ ''; Ingress '' @ nodeLocation ingress
                    @ '' selected registry '' @ node_Name node\<rparr>)))"

definition exact_match :: "linkCandidate \<Rightarrow> linkRuleContext \<Rightarrow> linkRuleResult option" where
  "exact_match from ctx =
     Some \<lparr>lrr_matches = bestEntryMatches from ctx, lrr_transport = transportOf (lc_node from),
       lrr_evidence = ''auto-discovered from configuration''\<rparr>"

definition defaultLinkRules :: "linkRule list" where
  "defaultLinkRules =
     [\<lparr>lr_name = ''higress-mcpbridge'', lr_match = higress_match\<rparr>,
      \<lparr>lr_name = ''exact-configuration-address'', lr_match = exact_match\<rparr>]"

definition entry_rank :: "TopologyNode \<Rightarrow> int" where
  "entry_rank node =
     (if node_Kind node = TopologyNodeKindListener then 0
      else if node_Kind node = TopologyNodeKindGateway then 1 else 2)"

definition nodes_by_id :: "TopologyNode list \<Rightarrow> string \<rightharpoonup> TopologyNode" where
  "nodes_by_id nodes = map_of (rev (map (\<lambda>node. (node_ID node, node)) nodes))"

definition outbound_candidates :: "TopologyNode list \<Rightarrow> linkCandidate list" where
  "outbound_candidates nodes =
     map (\<lambda>node. \<lparr>lc_node = node, lc_keys = outboundKeys node, lc_rank = 0, lc_evidence = []\<rparr>)
       (filter (\<lambda>node. outboundKeys node \<noteq> []) nodes)"

definition entry_candidates :: "TopologyNode list \<Rightarrow> linkCandidate list" where
  "entry_candidates nodes =
     map (\<lambda>node. \<lparr>lc_node = node, lc_keys = entryKeys node, lc_rank = entry_rank node,
                    lc_evidence = entryEvidence node\<rparr>)
       (filter (\<lambda>node. entryKeys node \<noteq> []) nodes)"

definition link_context :: "TopologyNode list \<Rightarrow> TopologyEdge list \<Rightarrow> linkRuleContext" where
  "link_context nodes existing =
     \<lparr>lrc_nodesByID = nodes_by_id nodes, lrc_edges = existing, lrc_entries = entry_candidates nodes\<rparr>"

text \<open>The first rule that handles the candidate, with its result.\<close>

fun handling_rule ::
    "linkRule list \<Rightarrow> linkCandidate \<Rightarrow> linkRuleContext \<Rightarrow> (linkRule \<times> linkRuleResult) option" where
  "handling_rule [] from ctx = None"
| "handling_rule (rule # rules) from ctx =
     (case lr_match rule from ctx of
        Some result \<Rightarrow> Some (rule, result)
      | None \<Rightarrow> handling_rule rules from ctx)"

definition link_edge :: "TopologyNode \<Rightarrow> linkRuleResult \<Rightarrow> linkTargetMatch \<Rightarrow> TopologyEdge" where
  "link_edge from result match =
     (let to = lc_node (ltm_target match) in
      \<lparr>edge_From = node_ID from, edge_To = node_ID to, edge_Relation = ''cross-cluster'',
       edge_Transport = lrr_transport result,
       edge_Destination = node_ClusterID to @ ''/'' @ node_Namespace to @ ''/'' @ node_Name to,
       edge_State = ''resolved'',
       edge_Evidence = lrr_evidence result @ '': target '' @ ltm_key match @ '' matched ''
         @ lc_evidence (ltm_target match)\<rparr>)"

definition ambiguous_link :: "TopologyNode \<Rightarrow> linkRule \<Rightarrow> nat \<Rightarrow> Finding" where
  "ambiguous_link from rule n =
     \<lparr>find_ID = ''ambiguous-cluster-link:'' @ node_ID from, find_Severity = StatusWarning,
      find_Title = ''Cross-cluster target is ambiguous'',
      find_Resource = node_ClusterID from @ ''/'' @ node_Name from,
      find_Basis = lr_name rule @ '' matched '' @ Itoa (int n) @ '' remote entries'',
      find_TargetID = node_ID from\<rparr>"

definition link_step ::
    "linkRule list \<Rightarrow> linkRuleContext \<Rightarrow> TopologyEdge list \<times> Finding list \<Rightarrow> linkCandidate
     \<Rightarrow> TopologyEdge list \<times> Finding list" where
  "link_step rules ctx s from =
     (case s of (links, findings) \<Rightarrow>
       (case handling_rule rules from ctx of
          None \<Rightarrow> (links, findings)
        | Some (rule, result) \<Rightarrow>
            (case lrr_matches result of
               [] \<Rightarrow> (links, findings)
             | [match] \<Rightarrow> (links @ [link_edge (lc_node from) result match], findings)
             | _ # _ # _ \<Rightarrow>
                 (links, findings
                    @ [ambiguous_link (lc_node from) rule (length (lrr_matches result))]))))"

definition discoverLinksWithRules ::
    "TopologyNode list \<Rightarrow> TopologyEdge list \<Rightarrow> linkRule list \<Rightarrow> TopologyEdge list \<times> Finding list" where
  "discoverLinksWithRules nodes existing rules =
     foldl (link_step rules (link_context nodes existing)) ([], []) (outbound_candidates nodes)"

definition discoverLinks ::
    "TopologyNode list \<Rightarrow> TopologyEdge list \<Rightarrow> TopologyEdge list \<times> Finding list" where
  "discoverLinks nodes existing = discoverLinksWithRules nodes existing defaultLinkRules"

section \<open>The best entries, without the loop\<close>

definition reachable_entry :: "linkCandidate \<Rightarrow> linkRuleContext \<Rightarrow> linkCandidate \<Rightarrow> bool" where
  "reachable_entry from ctx to \<longleftrightarrow>
     node_ClusterID (lc_node from) \<noteq> node_ClusterID (lc_node to)
     \<and> \<not> edgeExists (lrc_edges ctx) (node_ID (lc_node from)) (node_ID (lc_node to))
     \<and> set (lc_keys from) \<inter> set (lc_keys to) \<noteq> {}"

definition best_entries :: "linkCandidate \<Rightarrow> linkRuleContext \<Rightarrow> linkCandidate list" where
  "best_entries from ctx =
     (let reachable = filter (reachable_entry from ctx) (lrc_entries ctx) in
      filter (\<lambda>to. list_all (\<lambda>other. lc_rank to \<le> lc_rank other) reachable) reachable)"

lemma best_step_eq:
  "best_step from ctx (r, ms) to =
     (if \<not> reachable_entry from ctx to then (r, ms)
      else (let m = \<lparr>ltm_target = to, ltm_key = the (intersect (lc_keys from) (lc_keys to))\<rparr> in
            if lc_rank to < r then (lc_rank to, [m])
            else if lc_rank to = r then (r, ms @ [m]) else (r, ms)))"
  using intersect_None [of "lc_keys from" "lc_keys to"]
  by (cases "intersect (lc_keys from) (lc_keys to)")
    (auto simp: best_step_def reachable_entry_def Let_def)


definition best_inv ::
    "linkCandidate \<Rightarrow> linkRuleContext \<Rightarrow> linkCandidate list \<Rightarrow> int \<Rightarrow> linkTargetMatch list \<Rightarrow> bool" where
  "best_inv from ctx es r ms \<longleftrightarrow>
     map ltm_target ms = filter (\<lambda>to. lc_rank to = r) (filter (reachable_entry from ctx) es)
     \<and> (\<forall>to \<in> set (filter (reachable_entry from ctx) es). r \<le> lc_rank to)
     \<and> (if filter (reachable_entry from ctx) es = [] then r = 99
        else r \<in> lc_rank ` set (filter (reachable_entry from ctx) es))"

lemma best_inv_step:
  assumes inv: "best_inv from ctx es r ms" and rank: "lc_rank to < 99"
    and step: "best_step from ctx (r, ms) to = (r', ms')"
  shows "best_inv from ctx (es @ [to]) r' ms'"
proof (cases "reachable_entry from ctx to")
  case False
  with step have "r' = r" "ms' = ms" by (simp_all add: best_step_eq)
  with inv False show ?thesis unfolding best_inv_def by (auto split: if_splits)
next
  case reach: True
  consider "lc_rank to < r" | "lc_rank to = r" | "lc_rank to > r" by linarith
  then show ?thesis
  proof cases
    case 1
    with step reach have eq: "r' = lc_rank to" "map ltm_target ms' = [to]"
      by (auto simp: best_step_eq Let_def)
    from inv 1 have "\<forall>x \<in> set (filter (reachable_entry from ctx) es). lc_rank to < lc_rank x"
      unfolding best_inv_def by fastforce
    with eq reach show ?thesis by (fastforce simp: best_inv_def filter_empty_conv)
  next
    case 2
    with step reach have "r' = r" "map ltm_target ms' = map ltm_target ms @ [to]"
      by (auto simp: best_step_eq Let_def)
    with inv 2 reach show ?thesis by (auto simp: best_inv_def split: if_splits)
  next
    case 3
    with step reach have "r' = r" "ms' = ms" by (auto simp: best_step_eq Let_def)
    moreover from 3 rank inv have "filter (reachable_entry from ctx) es \<noteq> []"
      by (auto simp: best_inv_def)
    ultimately show ?thesis using inv 3 reach by (auto simp: best_inv_def)
  qed
qed

lemma best_inv_loop:
  "\<forall>to \<in> set es. lc_rank to < 99 \<Longrightarrow> foldl (best_step from ctx) (99, []) es = (r, ms) \<Longrightarrow>
    best_inv from ctx es r ms"
proof (induction es arbitrary: r ms rule: rev_induct)
  case Nil
  then show ?case by (simp add: best_inv_def)
next
  case (snoc to es)
  obtain r0 ms0 where s: "foldl (best_step from ctx) (99, []) es = (r0, ms0)" by force
  from snoc.prems s show ?case
    by (intro best_inv_step [OF snoc.IH [OF _ s]]) simp_all
qed

lemma bestEntryMatches_targets:
  assumes "\<forall>to \<in> set (lrc_entries ctx). lc_rank to < 99"
  shows "map ltm_target (bestEntryMatches from ctx) = best_entries from ctx"
proof -
  let ?R = "filter (reachable_entry from ctx) (lrc_entries ctx)"
  obtain r ms where s: "foldl (best_step from ctx) (99, []) (lrc_entries ctx) = (r, ms)" by force
  from best_inv_loop [OF assms s] have inv: "best_inv from ctx (lrc_entries ctx) r ms" .
  have "filter (\<lambda>to. lc_rank to = r) ?R = filter (\<lambda>to. list_all (\<lambda>x. lc_rank to \<le> lc_rank x) ?R) ?R"
  proof (rule filter_cong [OF refl])
    fix x assume x: "x \<in> set ?R"
    then have "?R \<noteq> []" by (metis list.set(1) empty_iff)
    with inv obtain y where "y \<in> set ?R" "lc_rank y = r" unfolding best_inv_def by auto
    with inv x show "lc_rank x = r \<longleftrightarrow> list_all (\<lambda>y. lc_rank x \<le> lc_rank y) ?R"
      unfolding best_inv_def list_all_iff by (metis order.antisym)
  qed
  with inv s show ?thesis
    by (simp add: bestEntryMatches_def best_entries_def best_inv_def Let_def)
qed

lemma bestEntryMatches_keys:
  assumes "m \<in> set (bestEntryMatches from ctx)"
  shows "ltm_key m \<in> set (lc_keys from)" "ltm_key m \<in> set (lc_keys (ltm_target m))"
proof -
  let ?ok = "\<lambda>m. ltm_key m \<in> set (lc_keys from) \<and> ltm_key m \<in> set (lc_keys (ltm_target m))"
  have "\<forall>m \<in> set (snd (foldl (best_step from ctx) (99, []) es)). ?ok m" for es :: "linkCandidate list"
  proof (rule foldl_invariant [where P = "\<lambda>s. \<forall>m \<in> set (snd s). ?ok m"])
    fix s :: "int \<times> linkTargetMatch list" and to
    assume "\<forall>m \<in> set (snd s). ?ok m"
    then show "\<forall>m \<in> set (snd (best_step from ctx s to)). ?ok m"
      using intersect_Some [of "lc_keys from" "lc_keys to"]
      by (cases s) (auto simp: best_step_def split: option.splits)
  qed simp
  with assms show "ltm_key m \<in> set (lc_keys from)" "ltm_key m \<in> set (lc_keys (ltm_target m))"
    by (auto simp: bestEntryMatches_def)
qed

lemma best_entries_member:
  "t \<in> set (best_entries from ctx) \<Longrightarrow> t \<in> set (lrc_entries ctx) \<and> reachable_entry from ctx t"
  by (auto simp: best_entries_def Let_def)

lemma best_entries_single:
  assumes "best_entries from ctx = [t]" "u \<in> set (lrc_entries ctx)" "reachable_entry from ctx u"
  shows "u = t \<or> lc_rank t < lc_rank u"
proof (rule ccontr)
  let ?R = "filter (reachable_entry from ctx) (lrc_entries ctx)"
  assume n: "\<not> (u = t \<or> lc_rank t < lc_rank u)"
  have "t \<in> set (best_entries from ctx)" using assms(1) by simp
  then have "\<forall>x \<in> set ?R. lc_rank t \<le> lc_rank x"
    unfolding best_entries_def Let_def list_all_iff by simp
  with n have "\<forall>x \<in> set ?R. lc_rank u \<le> lc_rank x" by fastforce
  with assms(2,3) have "u \<in> set (best_entries from ctx)"
    unfolding best_entries_def Let_def list_all_iff by simp
  with assms(1) n show False by simp
qed

section \<open>The rule interface\<close>

text \<open>
  What the discovery relies on: whichever rule handles a node names its best entries, and
  some rule handles every node.
\<close>

locale link_rule_set =
  fixes rules :: "linkRule list"
  assumes names_best: "\<lbrakk>rule \<in> set rules; lr_match rule from ctx = Some result\<rbrakk> \<Longrightarrow>
      lrr_matches result = bestEntryMatches from ctx"
    and some_rule: "\<exists>rule \<in> set rules. lr_match rule from ctx \<noteq> None"
begin

lemma handled:
  obtains rule result where "handling_rule rules from ctx = Some (rule, result)" "rule \<in> set rules"
    "lrr_matches result = bestEntryMatches from ctx"
proof -
  have "\<exists>rule result. handling_rule rs from ctx = Some (rule, result) \<and> rule \<in> set rs
      \<and> lr_match rule from ctx = Some result"
    if "\<exists>rule \<in> set rs. lr_match rule from ctx \<noteq> None" for rs :: "linkRule list"
    using that by (induction rs) (auto split: option.splits)
  from this [OF some_rule] that names_best show thesis by blast
qed

definition chosen :: "linkRuleContext \<Rightarrow> linkCandidate \<Rightarrow> TopologyEdge list \<times> Finding list" where
  "chosen ctx from = link_step rules ctx ([], []) from"

lemma steps:
  "foldl (link_step rules ctx) (ls, fs) froms =
     (ls @ concat (map (fst \<circ> chosen ctx) froms), fs @ concat (map (snd \<circ> chosen ctx) froms))"
proof (induction froms arbitrary: ls fs)
  case (Cons f froms)
  have "link_step rules ctx (ls, fs) f = (ls @ fst (chosen ctx f), fs @ snd (chosen ctx f))"
    by (auto simp: chosen_def link_step_def split: option.splits list.splits)
  then show ?case by (simp add: Cons.IH)
qed simp

lemma chosen_link:
  "map (\<lambda>e. (edge_From e, edge_To e)) (fst (chosen ctx from)) =
     (case map ltm_target (bestEntryMatches from ctx) of
        [to] \<Rightarrow> [(node_ID (lc_node from), node_ID (lc_node to))] | _ \<Rightarrow> [])"
  by (rule handled [of "from" ctx])
    (auto simp: chosen_def link_step_def link_edge_def Let_def split: list.splits)

lemma chosen_finding:
  "map find_TargetID (snd (chosen ctx from)) =
     (if length (bestEntryMatches from ctx) > 1 then [node_ID (lc_node from)] else [])"
  by (rule handled [of "from" ctx])
    (auto simp: chosen_def link_step_def ambiguous_link_def split: list.splits)

lemma chosen_detail:
  assumes "e \<in> set (fst (chosen ctx from))"
  obtains m where "bestEntryMatches from ctx = [m]"
    "edge_From e = node_ID (lc_node from)" "edge_To e = node_ID (lc_node (ltm_target m))"
    "edge_Relation e = ''cross-cluster''"
proof (rule handled [of "from" ctx])
  fix rule result
  assume "handling_rule rules from ctx = Some (rule, result)"
    "lrr_matches result = bestEntryMatches from ctx"
  with assms that show thesis
    by (auto simp: chosen_def link_step_def link_edge_def Let_def split: list.splits)
qed

end

lemma higress_names_best:
  "higress_match from ctx = Some result \<Longrightarrow> lrr_matches result = bestEntryMatches from ctx"
  by (auto simp: higress_match_def Let_def split: if_splits option.splits)

interpretation rules: link_rule_set defaultLinkRules
  by unfold_locales
    (auto simp: defaultLinkRules_def exact_match_def dest: higress_names_best)

lemma entry_candidates_rank: "\<forall>to \<in> set (entry_candidates nodes). lc_rank to < 99"
  by (simp add: entry_candidates_def entry_rank_def)

lemma link_context_fields [simp]:
  "lrc_entries (link_context nodes existing) = entry_candidates nodes"
  "lrc_edges (link_context nodes existing) = existing"
  by (simp_all add: link_context_def)

lemmas best_targets =
  bestEntryMatches_targets [where ctx = "link_context nodes existing" for nodes existing, simplified,
    OF entry_candidates_rank]

lemma length_bestEntryMatches:
  "length (bestEntryMatches from (link_context nodes existing)) =
     length (best_entries from (link_context nodes existing))"
  by (metis best_targets length_map)

section \<open>Properties\<close>

text \<open>
  C37: \<open>discoverLinks\<close> decides per outbound node as the specification over its best entries does
  (the entries of other clusters that share an address and are not linked yet, of the
  lowest rank among those): exactly one best entry gives exactly one link, several give no
  link and one ambiguity finding, none gives neither, in the order of the nodes.
\<close>

theorem discoverLinks_reference:
  "map (\<lambda>e. (edge_From e, edge_To e)) (fst (discoverLinks nodes existing)) =
     concat (map (\<lambda>f. case best_entries f (link_context nodes existing) of
         [to] \<Rightarrow> [(node_ID (lc_node f), node_ID (lc_node to))] | _ \<Rightarrow> [])
       (outbound_candidates nodes))
   \<and> map find_TargetID (snd (discoverLinks nodes existing)) =
     map (node_ID \<circ> lc_node)
       (filter (\<lambda>f. 1 < length (best_entries f (link_context nodes existing)))
         (outbound_candidates nodes))"
proof -
  have split: "concat (map (\<lambda>f. if P f then [g f] else []) xs) = map g (filter P xs)"
    for P and g :: "linkCandidate \<Rightarrow> string" and xs
    by (induction xs) auto
  show ?thesis
    unfolding discoverLinks_def discoverLinksWithRules_def rules.steps
    by (simp add: map_concat o_def rules.chosen_link rules.chosen_finding best_targets
        length_bestEntryMatches split)
qed

text \<open>
  C26: every link \<open>discoverLinks\<close> draws is a cross-cluster edge that is not there yet, from a node to
  an entry node of another cluster that accepts one of the addresses the first sends to; any
  other such entry has a worse rank.
\<close>

theorem discoverLinks_sound:
  assumes "e \<in> set (fst (discoverLinks nodes existing))"
  shows "\<exists>f \<in> set nodes. \<exists>t \<in> set nodes. edge_From e = node_ID f \<and> edge_To e = node_ID t
    \<and> edge_Relation e = ''cross-cluster'' \<and> node_ClusterID f \<noteq> node_ClusterID t
    \<and> \<not> edgeExists existing (node_ID f) (node_ID t)
    \<and> set (outboundKeys f) \<inter> set (entryKeys t) \<noteq> {}
    \<and> (\<forall>u \<in> set nodes. node_ClusterID f \<noteq> node_ClusterID u
          \<and> set (outboundKeys f) \<inter> set (entryKeys u) \<noteq> {}
          \<and> \<not> edgeExists existing (node_ID f) (node_ID u)
        \<longrightarrow> u = t \<or> entry_rank t < entry_rank u)"
proof -
  let ?ctx = "link_context nodes existing"
  from assms obtain f where f: "f \<in> set (outbound_candidates nodes)"
    and e: "e \<in> set (fst (rules.chosen ?ctx f))"
    by (auto simp: discoverLinks_def discoverLinksWithRules_def rules.steps)
  from e obtain m where m: "bestEntryMatches f ?ctx = [m]" and ids: "edge_From e = node_ID (lc_node f)"
      "edge_To e = node_ID (lc_node (ltm_target m))" "edge_Relation e = ''cross-cluster''"
    by (rule rules.chosen_detail)
  let ?t = "ltm_target m"
  from m have best: "best_entries f ?ctx = [?t]" using best_targets [of f nodes existing] by simp
  then have t: "?t \<in> set (entry_candidates nodes)" "reachable_entry f ?ctx ?t"
    using best_entries_member [of ?t f ?ctx] by simp_all
  have rank: "u = ?t \<or> lc_rank ?t < lc_rank u"
    if u: "u \<in> set (entry_candidates nodes)" "reachable_entry f ?ctx u" for u
    by (rule best_entries_single [OF best]) (use u in simp_all)
  from f have f': "lc_node f \<in> set nodes" "lc_keys f = outboundKeys (lc_node f)"
    by (auto simp: outbound_candidates_def)
  from t(1) have t': "lc_node ?t \<in> set nodes" "lc_keys ?t = entryKeys (lc_node ?t)"
      "lc_rank ?t = entry_rank (lc_node ?t)"
    by (auto simp: entry_candidates_def)
  have others: "u = lc_node ?t \<or> entry_rank (lc_node ?t) < entry_rank u"
    if u: "u \<in> set nodes" "node_ClusterID (lc_node f) \<noteq> node_ClusterID u"
      "set (outboundKeys (lc_node f)) \<inter> set (entryKeys u) \<noteq> {}"
      "\<not> edgeExists existing (node_ID (lc_node f)) (node_ID u)" for u
  proof -
    let ?u = "\<lparr>lc_node = u, lc_keys = entryKeys u, lc_rank = entry_rank u, lc_evidence = entryEvidence u\<rparr>"
    from u have "?u \<in> set (entry_candidates nodes)" by (auto simp: entry_candidates_def)
    moreover from u f' have "reachable_entry f ?ctx ?u" by (simp add: reachable_entry_def)
    ultimately have "?u = ?t \<or> lc_rank ?t < lc_rank ?u" by (rule rank)
    then show ?thesis
    proof
      assume "?u = ?t"
      then show ?thesis by (metis linkCandidate.select_convs(1))
    qed (simp add: t'(3))
  qed
  from t(2) f'(2) t'(2) have "node_ClusterID (lc_node f) \<noteq> node_ClusterID (lc_node ?t)"
      "\<not> edgeExists existing (node_ID (lc_node f)) (node_ID (lc_node ?t))"
      "set (outboundKeys (lc_node f)) \<inter> set (entryKeys (lc_node ?t)) \<noteq> {}"
    by (simp_all add: reachable_entry_def)
  with others f'(1) t'(1) ids show ?thesis by blast
qed

text \<open>Two clusters: a registry in the first declares the address of a gateway in the second.\<close>

definition sample_link_nodes :: "TopologyNode list" where
  "sample_link_nodes =
     [zero_TopologyNode\<lparr>node_ID := ''a::r'', node_Kind := TopologyNodeKindRegistry,
        node_ClusterID := ''a'', node_Conditions := [''Domain=10.0.0.1:443'']\<rparr>,
      zero_TopologyNode\<lparr>node_ID := ''b::g'', node_Kind := TopologyNodeKindGateway,
        node_ClusterID := ''b'', node_Conditions := [''Address=10.0.0.1'']\<rparr>]"

lemma sample_links:
  "map (\<lambda>e. (edge_From e, edge_To e)) (fst (discoverLinks sample_link_nodes [])) = [(''a::r'', ''b::g'')]"
  by code_simp

lemma discoverLinks_sound_witness:
  "\<exists>f \<in> set sample_link_nodes. \<exists>t \<in> set sample_link_nodes. node_ID f = ''a::r'' \<and> node_ID t = ''b::g''
    \<and> node_ClusterID f \<noteq> node_ClusterID t"
proof -
  obtain e where e: "e \<in> set (fst (discoverLinks sample_link_nodes []))"
      "edge_From e = ''a::r''" "edge_To e = ''b::g''"
    using sample_links by (auto simp: map_eq_Cons_conv)
  from discoverLinks_sound [OF e(1)] e(2,3) show ?thesis by metis
qed

end
