(* ===== verification/Probe_Protocol.thy ===== *)
theory Probe_Protocol
  imports Domain_Types
begin

text \<open>
  \<open>internal/domain/probe_protocol.go\<close>: the closed wire values of the probe protocol,
  deduplication of issues, and the validation the server applies to every agent result
  before it uses it.
\<close>

section \<open>Closed wire values\<close>

definition ProbeExecutionState_IsValid :: "ProbeExecutionState \<Rightarrow> bool" where
  "ProbeExecutionState_IsValid v \<longleftrightarrow>
     v \<in> set [ProbeExecutionStateRunning, ProbeExecutionStateCompleted, ProbeExecutionStateFailed]"

definition ProbeIssueScope_IsValid :: "ProbeIssueScope \<Rightarrow> bool" where
  "ProbeIssueScope_IsValid v \<longleftrightarrow>
     v \<in> set [ProbeIssueScopeExecution, ProbeIssueScopeCollection, ProbeIssueScopeRelation,
              ProbeIssueScopeInference]"

definition ProbeIssueCode_IsValid :: "ProbeIssueCode \<Rightarrow> bool" where
  "ProbeIssueCode_IsValid v \<longleftrightarrow>
     v \<in> set [ProbeIssueCodeResponseLimitExceeded, ProbeIssueCodeLogSourceRotated,
              ProbeIssueCodeLogWindowTruncated, ProbeIssueCodeLogOrderUnconfirmed,
              ProbeIssueCodeCollectionWindowEnded, ProbeIssueCodeCollectionCancelled,
              ProbeIssueCodeLogReadError, ProbeIssueCodeNoMatchingLog,
              ProbeIssueCodeAgentUnavailable, ProbeIssueCodeProbeProtocolUnsupported,
              ProbeIssueCodeRequestIdentityIncomplete, ProbeIssueCodeAttemptOrderUnconfirmed,
              ProbeIssueCodeRedirectNextMissing, ProbeIssueCodeTerminalAmbiguous,
              ProbeIssueCodeGatewayEvidenceMissing]"

definition ProbeCorrelation_IsValid :: "ProbeCorrelation \<Rightarrow> bool" where
  "ProbeCorrelation_IsValid v \<longleftrightarrow> v \<in> set [ProbeCorrelationProbeID, ProbeCorrelationTraceID]"

definition ProbeInferenceConfidence_IsValid :: "ProbeInferenceConfidence \<Rightarrow> bool" where
  "ProbeInferenceConfidence_IsValid v \<longleftrightarrow>
     v \<in> set [ProbeInferenceConfidenceHigh, ProbeInferenceConfidenceMedium,
              ProbeInferenceConfidenceLow, ProbeInferenceConfidenceAmbiguous]"

definition ProbeOrderBasis_IsValid :: "ProbeOrderBasis \<Rightarrow> bool" where
  "ProbeOrderBasis_IsValid v \<longleftrightarrow>
     v \<in> set [ProbeOrderBasisSourceSequence, ProbeOrderBasisUnavailable]"

definition AgentCommandKind_IsValid :: "AgentCommandKind \<Rightarrow> bool" where
  "AgentCommandKind_IsValid v \<longleftrightarrow>
     v \<in> set [AgentCommandEnvoyConfig, AgentCommandProbeHTTP, AgentCommandProbeObserve]"

definition ExtProcOutcome_IsValid :: "ExtProcOutcome \<Rightarrow> bool" where
  "ExtProcOutcome_IsValid v \<longleftrightarrow>
     v \<in> set [ExtProcOutcomeSuccess, ExtProcOutcomeTimeout, ExtProcOutcomeError,
              ExtProcOutcomeFailOpen, ExtProcOutcomeImmediateResponse, ExtProcOutcomeUnknown]"

definition SnapshotConsistency_IsValid :: "SnapshotConsistency \<Rightarrow> bool" where
  "SnapshotConsistency_IsValid v \<longleftrightarrow>
     v \<in> set [SnapshotConsistencySingleCluster, SnapshotConsistencyWaitingForAgents,
              SnapshotConsistencyConsistentWindow, SnapshotConsistencyRemoteUnavailable,
              SnapshotConsistencyTimeSkew]"

definition ObservationConfidence_IsValid :: "ObservationConfidence \<Rightarrow> bool" where
  "ObservationConfidence_IsValid v \<longleftrightarrow> v \<in> set [ObservationConfidenceObserved]"

definition ProbeHTTPMethod_IsValid :: "ProbeHTTPMethod \<Rightarrow> bool" where
  "ProbeHTTPMethod_IsValid v \<longleftrightarrow>
     v \<in> set [ProbeHTTPMethodGET, ProbeHTTPMethodHEAD, ProbeHTTPMethodPOST, ProbeHTTPMethodPUT,
              ProbeHTTPMethodPATCH, ProbeHTTPMethodDELETE, ProbeHTTPMethodOPTIONS]"

definition ProbeScheme_IsValid :: "ProbeScheme \<Rightarrow> bool" where
  "ProbeScheme_IsValid v \<longleftrightarrow> v \<in> set [ProbeSchemeHTTP, ProbeSchemeHTTPS]"

definition ProbeCollectionState_IsValid :: "ProbeCollectionState \<Rightarrow> bool" where
  "ProbeCollectionState_IsValid v \<longleftrightarrow>
     v \<in> set [ProbeCollectionStateSettled, ProbeCollectionStateWindowEnded,
              ProbeCollectionStateCancelled, ProbeCollectionStateReadError,
              ProbeCollectionStateUnknown]"

definition ProbeAttemptRelationState_IsValid :: "ProbeAttemptRelationState \<Rightarrow> bool" where
  "ProbeAttemptRelationState_IsValid v \<longleftrightarrow>
     v \<in> set [ProbeAttemptRelationStateLinked, ProbeAttemptRelationStateUnconfirmed,
              ProbeAttemptRelationStateMissingNext, ProbeAttemptRelationStateAmbiguous]"

section \<open>Issues\<close>

definition same_issue :: "ProbeIssue \<Rightarrow> ProbeIssue \<Rightarrow> bool" where
  "same_issue current issue \<longleftrightarrow>
     issue_Scope current = issue_Scope issue \<and> issue_Code current = issue_Code issue
     \<and> issue_ContextID current = issue_ContextID issue \<and> issue_HopID current = issue_HopID issue"

definition AppendProbeIssue :: "ProbeIssue list \<Rightarrow> ProbeIssue \<Rightarrow> ProbeIssue list" where
  "AppendProbeIssue issues issue =
     (if list_ex (\<lambda>current. same_issue current issue) issues then issues else issues @ [issue])"

definition BreaksLogOrder :: "ProbeIssue \<Rightarrow> bool" where
  "BreaksLogOrder issue \<longleftrightarrow>
     issue_Code issue \<in> set [ProbeIssueCodeLogSourceRotated, ProbeIssueCodeLogWindowTruncated,
                             ProbeIssueCodeLogOrderUnconfirmed]"

text \<open>The identity of an issue: everything but the display wording.\<close>

definition issue_key :: "ProbeIssue \<Rightarrow> string \<times> string \<times> string \<times> string" where
  "issue_key i = (issue_Scope i, issue_Code i, issue_ContextID i, issue_HopID i)"

lemma same_issue_key: "same_issue a b \<longleftrightarrow> issue_key a = issue_key b"
  by (auto simp: same_issue_def issue_key_def)

interpretation issues: keyed_append AppendProbeIssue issue_key
proof
  fix x :: ProbeIssue and xs
  show "issue_key x \<in> issue_key ` set xs \<Longrightarrow> AppendProbeIssue xs x = xs"
    by (auto simp: AppendProbeIssue_def same_issue_key list_ex_iff)
  show "issue_key x \<notin> issue_key ` set xs \<Longrightarrow> AppendProbeIssue xs x = xs @ [x]"
    by (auto simp: AppendProbeIssue_def same_issue_key list_ex_iff rev_image_eqI)
qed

section \<open>Validation of an agent result\<close>

definition ProbeSchemaVersion :: int where
  "ProbeSchemaVersion = 2"

datatype ProbeError =
    ErrProbeProtocolUnsupported int
  | ErrInvalidProbeResult string

definition hop_fields_valid :: "ObservedHop \<Rightarrow> bool" where
  "hop_fields_valid hop \<longleftrightarrow>
     (hop_Correlation hop = [] \<or> ProbeCorrelation_IsValid (hop_Correlation hop))
     \<and> ObservationConfidence_IsValid (hop_Confidence hop)"

text \<open>The loop over the records: the identities seen so far are its state.\<close>

fun validate_hops :: "string \<Rightarrow> string list \<Rightarrow> ObservedHop list \<Rightarrow> ProbeError + string list" where
  "validate_hops cluster seen [] = Inr seen"
| "validate_hops cluster seen (hop # hops) =
     (if hop_ID hop = [] \<or> hop_ID hop \<in> set seen \<or> hop_ClusterID hop \<noteq> cluster
      then Inl (ErrInvalidProbeResult ''record identity'')
      else if \<not> hop_fields_valid hop
      then Inl (ErrInvalidProbeResult ''record correlation/confidence'')
      else if list_ex (\<lambda>proc. \<not> ExtProcOutcome_IsValid (xp_Outcome proc)) (hop_ExtProcs hop)
      then Inl (ErrInvalidProbeResult ''ext_proc outcome'')
      else validate_hops cluster (hop_ID hop # seen) hops)"

definition issue_rejected :: "ProbeAgentResult \<Rightarrow> string list \<Rightarrow> ProbeIssue \<Rightarrow> bool" where
  "issue_rejected result seen issue \<longleftrightarrow>
     issue_HopID issue \<noteq> [] \<and> issue_HopID issue \<notin> set seen
     \<or> \<not> ProbeIssueScope_IsValid (issue_Scope issue) \<or> \<not> ProbeIssueCode_IsValid (issue_Code issue)
     \<or> issue_Scope issue = ProbeIssueScopeRelation \<or> issue_Scope issue = ProbeIssueScopeInference
     \<or> issue_Scope issue = ProbeIssueScopeExecution \<and> par_HTTP result = None"

definition command_identity :: "ProbeAgentResult \<Rightarrow> AgentCommand \<Rightarrow> bool" where
  "command_identity result command \<longleftrightarrow>
     (cmd_Kind command = AgentCommandProbeHTTP \<or> cmd_Kind command = AgentCommandProbeObserve)
     \<and> (case cmd_Probe command of None \<Rightarrow> False | Some probe \<Rightarrow>
          par_ProbeID result = pc_ProbeID probe \<and> par_TraceID result = pc_TraceID probe)
     \<and> par_ClusterID result = cmd_ClusterID command \<and> par_GatewayID result = cmd_GatewayID command"

definition Validate :: "ProbeAgentResult \<Rightarrow> AgentCommand \<Rightarrow> ProbeError + unit" where
  "Validate result command =
     (if par_SchemaVersion result \<noteq> ProbeSchemaVersion
      then Inl (ErrProbeProtocolUnsupported (par_SchemaVersion result))
      else if \<not> command_identity result command
      then Inl (ErrInvalidProbeResult ''command identity mismatch'')
      else if (case par_Collection result of None \<Rightarrow> True
               | Some c \<Rightarrow> \<not> ProbeCollectionState_IsValid (col_State c))
      then Inl (ErrInvalidProbeResult ''collection state'')
      else if (cmd_Kind command = AgentCommandProbeHTTP) \<noteq> (par_HTTP result \<noteq> None)
      then Inl (ErrInvalidProbeResult ''HTTP payload does not match command'')
      else if (case par_HTTP result of None \<Rightarrow> False
               | Some http \<Rightarrow> \<not> ProbeHTTPMethod_IsValid (http_Method http)
                   \<or> (case cmd_Probe command of None \<Rightarrow> True
                      | Some probe \<Rightarrow> http_Method http \<noteq> pc_Method probe))
      then Inl (ErrInvalidProbeResult ''HTTP method'')
      else (case validate_hops (par_ClusterID result) [] (par_Hops result) of
              Inl e \<Rightarrow> Inl e
            | Inr seen \<Rightarrow>
                if list_ex (issue_rejected result seen) (par_Issues result)
                then Inl (ErrInvalidProbeResult ''issue'')
                else Inr ()))"

section \<open>What an accepted result satisfies\<close>

text \<open>The contract of a probe result, stated without the order of the checks.\<close>

definition hop_admissible :: "string \<Rightarrow> ObservedHop \<Rightarrow> bool" where
  "hop_admissible cluster hop \<longleftrightarrow>
     hop_ID hop \<noteq> [] \<and> hop_ClusterID hop = cluster \<and> hop_fields_valid hop
     \<and> (\<forall>proc \<in> set (hop_ExtProcs hop). ExtProcOutcome_IsValid (xp_Outcome proc))"

definition issue_admissible :: "ProbeAgentResult \<Rightarrow> ProbeIssue \<Rightarrow> bool" where
  "issue_admissible result issue \<longleftrightarrow>
     (issue_HopID issue = [] \<or> issue_HopID issue \<in> set (map hop_ID (par_Hops result)))
     \<and> ProbeIssueCode_IsValid (issue_Code issue)
     \<and> (issue_Scope issue = ProbeIssueScopeCollection
        \<or> issue_Scope issue = ProbeIssueScopeExecution \<and> par_HTTP result \<noteq> None)"

definition probe_result_contract :: "ProbeAgentResult \<Rightarrow> AgentCommand \<Rightarrow> bool" where
  "probe_result_contract result command \<longleftrightarrow>
     par_SchemaVersion result = 2
     \<and> (\<exists>probe. cmd_Probe command = Some probe \<and> par_ProbeID result = pc_ProbeID probe
          \<and> par_TraceID result = pc_TraceID probe
          \<and> (cmd_Kind command = AgentCommandProbeHTTP
               \<and> (\<exists>http. par_HTTP result = Some http \<and> http_Method http = pc_Method probe
                    \<and> ProbeHTTPMethod_IsValid (http_Method http))
             \<or> cmd_Kind command = AgentCommandProbeObserve \<and> par_HTTP result = None))
     \<and> par_ClusterID result = cmd_ClusterID command \<and> par_GatewayID result = cmd_GatewayID command
     \<and> (\<exists>c. par_Collection result = Some c \<and> ProbeCollectionState_IsValid (col_State c))
     \<and> distinct (map hop_ID (par_Hops result))
     \<and> list_all (hop_admissible (par_ClusterID result)) (par_Hops result)
     \<and> list_all (issue_admissible result) (par_Issues result)"

lemma validate_hops_Inr:
  "validate_hops cluster seen hops = Inr seen' \<longleftrightarrow>
     seen' = rev (map hop_ID hops) @ seen \<and> list_all (hop_admissible cluster) hops
     \<and> distinct (map hop_ID hops) \<and> set (map hop_ID hops) \<inter> set seen = {}"
  by (induction hops arbitrary: seen) (auto simp: hop_admissible_def list_ex_iff)

lemma issue_rejected_iff:
  assumes "set seen = set (map hop_ID (par_Hops result))"
  shows "issue_rejected result seen issue \<longleftrightarrow> \<not> issue_admissible result issue"
  using assms by (auto simp: issue_rejected_def issue_admissible_def ProbeIssueScope_IsValid_def)

lemma validate_hops_cases:
  obtains (ok) "validate_hops c [] hops = Inr (rev (map hop_ID hops))"
      "list_all (hop_admissible c) hops" "distinct (map hop_ID hops)"
    | (error) m where "validate_hops c [] hops = Inl (ErrInvalidProbeResult m)"
      "\<not> (list_all (hop_admissible c) hops \<and> distinct (map hop_ID hops))"
proof (cases "validate_hops c [] hops")
  case (Inr seen)
  then show thesis using ok by (auto simp: validate_hops_Inr)
next
  case (Inl e)
  have "\<exists>m. e = ErrInvalidProbeResult m" if "validate_hops c seen hops = Inl e" for seen
    using that by (induction hops arbitrary: seen) (auto split: if_splits)
  with Inl obtain m where m: "e = ErrInvalidProbeResult m" by blast
  have "\<not> (list_all (hop_admissible c) hops \<and> distinct (map hop_ID hops))"
    using Inl validate_hops_Inr [of c "[]" hops "rev (map hop_ID hops)"] by auto
  with Inl m show thesis using error by blast
qed

lemma Validate_contract: "Validate result command = Inr () \<longleftrightarrow> probe_result_contract result command"
proof (cases rule: validate_hops_cases [of "par_ClusterID result" "par_Hops result"])
  case ok
  have iss: "list_ex (issue_rejected result (rev (map hop_ID (par_Hops result)))) (par_Issues result)
      \<longleftrightarrow> \<not> list_all (issue_admissible result) (par_Issues result)"
    by (auto simp: list_ex_iff list_all_iff issue_rejected_iff)
  show ?thesis
  proof (cases "par_ClusterID result = cmd_ClusterID command")
    case True
    note ok' = ok [unfolded True]
    show ?thesis
      unfolding Validate_def probe_result_contract_def command_identity_def ProbeSchemaVersion_def
      by (simp add: True ok' iss split: option.split) auto
  qed (simp add: Validate_def probe_result_contract_def command_identity_def)
next
  case (error m)
  then show ?thesis
    by (auto simp: Validate_def probe_result_contract_def)
qed

section \<open>Properties\<close>

text \<open>
  C1: \<open>Validate\<close> accepts an agent result exactly when it satisfies the result contract for the
  command it answers: protocol version 2, the command's probe, trace, cluster and gateway
  identity, an HTTP part exactly for the HTTP command and with the commanded method, a known
  collection state, distinct records of the agent's own cluster with closed wire values, and
  only collection issues, or execution issues next to an HTTP part, that refer to records of
  the result.
\<close>

theorem Validate_accepts_contract:
  "Validate result command = Inr () \<longleftrightarrow> probe_result_contract result command"
  by (rule Validate_contract)

text \<open>
  \<open>Validate\<close> reports the version error, which the caller turns into its own issue code,
  exactly for results of another protocol version, whatever else is wrong with them.
\<close>

theorem Validate_version_error:
  "Validate result command = Inl (ErrProbeProtocolUnsupported v) \<longleftrightarrow>
     par_SchemaVersion result = v \<and> v \<noteq> 2"
proof -
  have "validate_hops c seen hops \<noteq> Inl (ErrProbeProtocolUnsupported v)" for c seen hops
    by (induction hops arbitrary: seen) auto
  then show ?thesis
    by (auto simp: Validate_def ProbeSchemaVersion_def split: sum.splits)
qed

text \<open>
  Collecting issues with \<open>AppendProbeIssue\<close> keeps exactly one issue per identity (scope, code,
  context and record), and the earliest wording of it.
\<close>

theorem AppendProbeIssue_collects:
  "distinct (map issue_key (foldl AppendProbeIssue [] is))
   \<and> issue_key ` set (foldl AppendProbeIssue [] is) = issue_key ` set is
   \<and> map_of (map (\<lambda>i. (issue_key i, i)) (foldl AppendProbeIssue [] is))
       = map_of (map (\<lambda>i. (issue_key i, i)) is)"
proof -
  have "map_of (map (\<lambda>i. (issue_key i, i)) (foldl AppendProbeIssue xs is)) =
      map_of (map (\<lambda>i. (issue_key i, i)) (xs @ is))" for xs
  proof (induction "is" arbitrary: xs)
    case (Cons i "is")
    have "map_of (map (\<lambda>i. (issue_key i, i)) (AppendProbeIssue xs i)) k =
        map_of (map (\<lambda>i. (issue_key i, i)) (xs @ [i])) k" for k
    proof (cases "issue_key i \<in> issue_key ` set xs")
      case True
      then have "map_of (map (\<lambda>i. (issue_key i, i)) xs) (issue_key i) \<noteq> None"
        by (auto simp: map_of_eq_None_iff image_iff)
      then show ?thesis using True by (auto simp: issues.add_hit map_add_def split: option.splits)
    qed (simp add: issues.add_miss)
    then show ?case using Cons.IH [of "AppendProbeIssue xs i"]
      by (auto simp: map_add_def fun_eq_iff split: option.splits)
  qed simp
  from this [of "[]"] show ?thesis
    using issues.adds_keys [of "[]" "is"] issues.adds_distinct [of "[]" "is"] by simp
qed

end
