(* ===== verification/Wording.thy ===== *)
theory Wording
  imports Go_Strings
begin

text \<open>
  The Chinese display texts of the program, as the UTF-8 bytes of the source's literals,
  each with its meaning in English. Format strings are cut at their directives.
\<close>

text \<open>"runtime or original request identity incomplete"\<close>

definition msg_identity_incomplete :: string where
  "msg_identity_incomplete = utf8 [232, 191, 144, 232, 161, 140, 230, 151, 182, 230, 136, 150, 229, 142, 159, 229, 167,
     139, 232, 175, 183, 230, 177, 130, 232, 186, 171, 228, 187, 189, 228, 184, 141, 229,
     174, 140, 230, 149, 180]"

text \<open>"runtime identity or log order insufficient, attempts unconfirmed"\<close>

definition msg_order_unconfirmed :: string where
  "msg_order_unconfirmed = utf8 [232, 191, 144, 232, 161, 140, 230, 151, 182, 232, 186, 171, 228, 187, 189, 230, 136,
     150, 230, 151, 165, 229, 191, 151, 230, 157, 165, 230, 186, 144, 233, 161, 186, 229,
     186, 143, 228, 184, 141, 232, 182, 179, 239, 188, 140, 229, 176, 157, 232, 175, 149,
     229, 133, 179, 231, 179, 187, 230, 156, 170, 231, 161, 174, 232, 174, 164]"

text \<open>"several terminal candidates or re-entry, final attempt unconfirmed"\<close>

definition msg_terminal_ambiguous :: string where
  "msg_terminal_ambiguous = utf8 [229, 173, 152, 229, 156, 168, 229, 164, 154, 228, 184, 170, 231, 187, 136, 230, 173,
     162, 229, 128, 153, 233, 128, 137, 230, 136, 150, 233, 135, 141, 229, 133, 165, 232,
     174, 176, 229, 189, 149, 239, 188, 140, 230, 156, 128, 231, 187, 136, 229, 176, 157,
     232, 175, 149, 229, 189, 146, 229, 177, 158, 230, 156, 170, 231, 161, 174, 232, 174,
     164]"

text \<open>"internal redirect happened, the next attempt record is missing"\<close>

definition msg_redirect_next_missing :: string where
  "msg_redirect_next_missing = utf8 [229, 183, 178, 229, 143, 145, 231, 148, 159, 229, 134, 133, 233, 131, 168, 233, 135,
     141, 229, 174, 154, 229, 144, 145, 239, 188, 140, 229, 144, 142, 231, 187, 173, 229,
     176, 157, 232, 175, 149, 232, 174, 176, 229, 189, 149, 231, 188, 186, 229, 164, 177]"

text \<open>"several records of one request, relation unconfirmed"\<close>

definition msg_relation_unconfirmed :: string where
  "msg_relation_unconfirmed = utf8 [229, 144, 140, 232, 175, 183, 230, 177, 130, 229, 164, 154, 230, 157, 161, 232, 174,
     176, 229, 189, 149, 239, 188, 140, 229, 133, 179, 231, 179, 187, 230, 156, 170, 231,
     161, 174, 232, 174, 164]"

text \<open>"candidate gateway lacks runtime access-log evidence"\<close>

definition msg_gateway_evidence_missing :: string where
  "msg_gateway_evidence_missing = utf8 [229, 128, 153, 233, 128, 137, 231, 189, 145, 229, 133, 179, 231, 188, 186, 229, 176,
     145, 232, 191, 144, 232, 161, 140, 230, 151, 182, 232, 174, 191, 233, 151, 174, 230,
     151, 165, 229, 191, 151, 232, 175, 129, 230, 141, 174]"

text \<open>"association rule"\<close>

definition txt_rule_prefix :: string where
  "txt_rule_prefix = utf8 [229, 133, 179, 232, 129, 148, 232, 167, 132, 229, 136, 153, 32]"

text \<open>"matches at the same time"\<close>

definition txt_rule_matches :: string where
  "txt_rule_matches = utf8 [32, 229, 144, 140, 230, 151, 182, 229, 140, 185, 233, 133, 141, 32]"

text \<open>"gateways, cannot be attributed uniquely"\<close>

definition txt_rule_suffix :: string where
  "txt_rule_suffix = utf8 [32, 228, 184, 170, 231, 189, 145, 229, 133, 179, 239, 188, 140, 230, 151, 160, 230,
     179, 149, 229, 148, 175, 228, 184, 128, 229, 189, 146, 229, 177, 158]"

text \<open>"upstream_host of the previous hop"\<close>

definition txt_host_prefix :: string where
  "txt_host_prefix = utf8 [228, 184, 138, 228, 184, 128, 232, 183, 179, 32, 117, 112, 115, 116, 114, 101, 97,
     109, 95, 104, 111, 115, 116, 32]"

text \<open>"hits the entry address of this gateway"\<close>

definition txt_host_match_suffix :: string where
  "txt_host_match_suffix = utf8 [32, 229, 145, 189, 228, 184, 173, 232, 175, 165, 231, 189, 145, 229, 133, 179, 231,
     154, 132, 229, 133, 165, 229, 143, 163, 229, 156, 176, 229, 157, 128]"

text \<open>"gateway entries, cannot be attributed uniquely"\<close>

definition txt_host_ambiguous_suffix :: string where
  "txt_host_ambiguous_suffix = utf8 [32, 228, 184, 170, 231, 189, 145, 229, 133, 179, 229, 133, 165, 229, 143, 163, 239,
     188, 140, 230, 151, 160, 230, 179, 149, 229, 148, 175, 228, 184, 128, 229, 189, 146,
     229, 177, 158]"

text \<open>"upstream_cluster of the previous hop"\<close>

definition txt_cluster_prefix :: string where
  "txt_cluster_prefix = utf8 [228, 184, 138, 228, 184, 128, 232, 183, 179, 32, 117, 112, 115, 116, 114, 101, 97,
     109, 95, 99, 108, 117, 115, 116, 101, 114, 32]"

text \<open>"hits the McpBridge registry"\<close>

definition txt_registry_match :: string where
  "txt_registry_match = utf8 [32, 229, 145, 189, 228, 184, 173, 32, 77, 99, 112, 66, 114, 105, 100, 103, 101, 32,
     114, 101, 103, 105, 115, 116, 114, 121, 32]"

text \<open>"and resolves to the entry Service of this gateway"\<close>

definition txt_registry_match_suffix :: string where
  "txt_registry_match_suffix = utf8 [239, 188, 140, 229, 185, 182, 232, 167, 163, 230, 158, 144, 229, 136, 176, 232, 175,
     165, 231, 189, 145, 229, 133, 179, 231, 154, 132, 229, 133, 165, 229, 143, 163, 32,
     83, 101, 114, 118, 105, 99, 101]"

text \<open>"via McpBridge registry matches at the same time"\<close>

definition txt_registry_ambiguous :: string where
  "txt_registry_ambiguous = utf8 [32, 231, 187, 143, 32, 77, 99, 112, 66, 114, 105, 100, 103, 101, 32, 114, 101, 103,
     105, 115, 116, 114, 121, 32, 229, 144, 140, 230, 151, 182, 229, 140, 185, 233, 133,
     141, 32]"

text \<open>"gateway entry Services, cannot be attributed uniquely"\<close>

definition txt_registry_ambiguous_suffix :: string where
  "txt_registry_ambiguous_suffix = utf8 [32, 228, 184, 170, 231, 189, 145, 229, 133, 179, 229, 133, 165, 229, 143, 163, 32,
     83, 101, 114, 118, 105, 99, 101, 239, 188, 140, 230, 151, 160, 230, 179, 149, 229,
     148, 175, 228, 184, 128, 229, 189, 146, 229, 177, 158]"

text \<open>"hits the entry Service of this gateway"\<close>

definition txt_cluster_match_suffix :: string where
  "txt_cluster_match_suffix = utf8 [32, 229, 145, 189, 228, 184, 173, 232, 175, 165, 231, 189, 145, 229, 133, 179, 231,
     154, 132, 229, 133, 165, 229, 143, 163, 32, 83, 101, 114, 118, 105, 99, 101]"

text \<open>"the configured topology points from an observed gateway to"\<close>

definition txt_declared_prefix :: string where
  "txt_declared_prefix = utf8 [233, 133, 141, 231, 189, 174, 230, 139, 147, 230, 137, 145, 228, 187, 142, 229, 183,
     178, 232, 167, 130, 230, 181, 139, 231, 189, 145, 229, 133, 179, 230, 140, 135, 229,
     144, 145, 32]"

text \<open>"; no runtime log of that gateway was obtained"\<close>

definition txt_declared_suffix :: string where
  "txt_declared_suffix = utf8 [239, 188, 155, 230, 156, 170, 232, 142, 183, 229, 190, 151, 232, 175, 165, 231, 189,
     145, 229, 133, 179, 231, 154, 132, 232, 191, 144, 232, 161, 140, 230, 151, 182, 230,
     151, 165, 229, 191, 151]"

end
