(* ===== verification/Attempt_Groups.thy ===== *)
theory Attempt_Groups
  imports Probe_Protocol Wording
begin

text \<open>
  \<open>attemptGroups\<close> of \<open>internal/observed/probe_attempts.go\<close>: the access-log records of one
  gateway are grouped by the request they belong to, ordered by their log sequence where
  the sources allow it, and the attempts of one request are linked across internal
  redirects.
\<close>

section \<open>Model\<close>

record attemptGroup =
  ag_ID :: string
  ag_RuntimeSource :: string
  ag_HopIDs :: "string list"
  ag_RelationState :: ProbeAttemptRelationState
  ag_OrderBasis :: ProbeOrderBasis
  ag_Links :: "ProbeAttemptLink list"
  ag_TerminalCandidateIDs :: "string list"
  ag_LocalTerminalHopID :: string
  ag_Issues :: "ProbeIssue list"

text \<open>A log value is absent when it is blank or a dash.\<close>

definition validLogValue :: "string \<Rightarrow> string" where
  "validLogValue value = (let v = TrimSpace value in if v = ''-'' then [] else v)"

definition hop_source :: "ObservedHop \<Rightarrow> string" where
  "hop_source hop =
     (if hop_RuntimeSource hop = [] then ''unknown/'' @ hop_LogSourceID hop @ ''/'' @ hop_Pod hop
      else hop_RuntimeSource hop)"

definition request_key :: "ObservedHop \<Rightarrow> string" where
  "request_key hop =
     hop_source hop @ [byte 0] @ hop_RequestStartTime hop @ [byte 0]
     @ validLogValue (hop_DownstreamRemoteAddress hop) @ [byte 0]
     @ validLogValue (hop_DownstreamLocalAddress hop)"

text \<open>
  The buckets with the keys of the index map: a record joins the bucket of its key, a new
  key opens a bucket at the end.
\<close>

definition add_to_bucket ::
    "(string \<times> ObservedHop list) list \<Rightarrow> ObservedHop \<Rightarrow> (string \<times> ObservedHop list) list" where
  "add_to_bucket buckets hop =
     (let key = request_key hop in
      if list_ex (\<lambda>b. fst b = key) buckets
      then map (\<lambda>b. if fst b = key then (key, snd b @ [hop]) else b) buckets
      else buckets @ [(key, [hop])])"

definition hop_buckets :: "ObservedHop list \<Rightarrow> (string \<times> ObservedHop list) list" where
  "hop_buckets hops = foldl add_to_bucket [] hops"

text \<open>
  The scan of one bucket: whether its records have comparable log positions
  (\<open>ordered\<close>) and whether some record lacks part of its request identity.
\<close>

definition identity_missing :: "ObservedHop \<Rightarrow> bool" where
  "identity_missing hop \<longleftrightarrow>
     hop_RuntimeSource hop = [] \<or> hop_RequestStartTime hop = []
     \<or> validLogValue (hop_DownstreamRemoteAddress hop) = []"

definition position_unusable :: "string \<Rightarrow> int list \<Rightarrow> ObservedHop \<Rightarrow> bool" where
  "position_unusable source sequences hop \<longleftrightarrow>
     hop_RuntimeSource hop = [] \<or> hop_LogSourceID hop = [] \<or> hop_LogSequence hop \<le> 0
     \<or> hop_RequestStartTime hop = [] \<or> validLogValue (hop_DownstreamRemoteAddress hop) = []
     \<or> hop_LogSourceID hop \<noteq> source \<or> hop_LogSequence hop \<in> set sequences"

fun scan_records :: "string \<Rightarrow> int list \<Rightarrow> bool \<times> bool \<Rightarrow> ObservedHop list \<Rightarrow> bool \<times> bool" where
  "scan_records source sequences (ordered, incomplete) [] = (ordered, incomplete)"
| "scan_records source sequences (ordered, incomplete) (hop # hops) =
     scan_records source (hop_LogSequence hop # sequences)
       (ordered \<and> \<not> position_unusable source sequences hop, incomplete \<or> identity_missing hop)
       hops"

definition records_ordered :: "ObservedHop list \<Rightarrow> ProbeIssue list \<Rightarrow> bool" where
  "records_ordered records issues \<longleftrightarrow>
     fst (scan_records (hop_LogSourceID (hd records)) [] (True, False) records)
     \<and> \<not> list_ex BreaksLogOrder issues"

definition by_sequence :: "ObservedHop list \<Rightarrow> ObservedHop list" where
  "by_sequence = slice_stable (\<lambda>a b. hop_LogSequence a < hop_LogSequence b)"

definition relation_issue :: "string \<Rightarrow> ProbeIssueCode \<Rightarrow> string \<Rightarrow> ProbeIssue" where
  "relation_issue context code message =
     \<lparr>issue_Scope = ProbeIssueScopeRelation, issue_Code = code, issue_Message = message,
      issue_ContextID = context, issue_HopID = []\<rparr>"

definition order_issues :: "string \<Rightarrow> bool \<Rightarrow> bool \<Rightarrow> ProbeIssue list" where
  "order_issues context ordered incomplete =
     (if ordered then []
      else AppendProbeIssue
        (if incomplete
         then AppendProbeIssue []
           (relation_issue context ProbeIssueCodeRequestIdentityIncomplete msg_identity_incomplete)
         else [])
        (relation_issue context ProbeIssueCodeAttemptOrderUnconfirmed msg_order_unconfirmed))"

definition redirect_links :: "ObservedHop list \<Rightarrow> ProbeAttemptLink list" where
  "redirect_links records =
     map (\<lambda>(a, b). \<lparr>link_From = hop_ID a, link_To = hop_ID b\<rparr>)
       (filter (\<lambda>(a, b). hop_InternalRedirect a) (zip records (tl records)))"

definition terminals_of :: "ObservedHop list \<Rightarrow> string list" where
  "terminals_of records = map hop_ID (filter (\<lambda>h. \<not> hop_InternalRedirect h) records)"

definition invalid_order :: "ObservedHop list \<Rightarrow> bool" where
  "invalid_order records \<longleftrightarrow> list_ex (\<lambda>h. \<not> hop_InternalRedirect h) (butlast records)"

text \<open>
  The relation of one request's attempts: state, links and the issue the state raises, as
  the code's if-chain computes them from the (possibly sorted) records.
\<close>

definition relate_attempts ::
    "string \<Rightarrow> bool \<Rightarrow> ObservedHop list
     \<Rightarrow> ProbeAttemptRelationState \<times> ProbeAttemptLink list \<times> ProbeIssue option" where
  "relate_attempts context ordered records =
     (let redirects = length (filter hop_InternalRedirect records);
          terminalCount = length (terminals_of records)
      in
      if terminalCount > 1 \<or> ordered \<and> invalid_order records
      then (ProbeAttemptRelationStateAmbiguous, [],
            Some (relation_issue context ProbeIssueCodeTerminalAmbiguous msg_terminal_ambiguous))
      else
        (let links = (if ordered \<and> redirects > 0 then redirect_links records else []) in
         if redirects > 0 \<and> (terminalCount = 0 \<or> ordered \<and> hop_InternalRedirect (last records))
         then (ProbeAttemptRelationStateMissingNext, links,
               Some (relation_issue context ProbeIssueCodeRedirectNextMissing
                       msg_redirect_next_missing))
         else if ordered \<and> (redirects > 0 \<or> length records = 1)
         then (ProbeAttemptRelationStateLinked, links, None)
         else (ProbeAttemptRelationStateUnconfirmed, links,
               if length records > 1
               then Some (relation_issue context ProbeIssueCodeAttemptOrderUnconfirmed
                            msg_relation_unconfirmed)
               else None)))"

definition settled_cleanly :: "ProbeCollection option \<Rightarrow> ProbeIssue list \<Rightarrow> bool" where
  "settled_cleanly collection issues \<longleftrightarrow>
     (case collection of None \<Rightarrow> False | Some c \<Rightarrow> col_State c = ProbeCollectionStateSettled)
     \<and> issues = []"

definition attempt_group ::
    "nat \<Rightarrow> ObservedHop list \<Rightarrow> ProbeCollection option \<Rightarrow> ProbeIssue list \<Rightarrow> attemptGroup" where
  "attempt_group index records0 collection issues =
     (let context = ''context-'' @ Itoa (int index + 1);
          incomplete =
            snd (scan_records (hop_LogSourceID (hd records0)) [] (True, False) records0);
          ordered = records_ordered records0 issues;
          records = (if ordered then by_sequence records0 else records0);
          issues1 = order_issues context ordered incomplete;
          terminals = terminals_of records
      in case relate_attempts context ordered records of (state, links, raised) \<Rightarrow>
        \<lparr>ag_ID = context,
         ag_RuntimeSource = hop_RuntimeSource (hd records0),
         ag_HopIDs = map hop_ID records,
         ag_RelationState = state,
         ag_OrderBasis = (if ordered then ProbeOrderBasisSourceSequence
                          else ProbeOrderBasisUnavailable),
         ag_Links = links,
         ag_TerminalCandidateIDs = terminals,
         ag_LocalTerminalHopID =
           (if state = ProbeAttemptRelationStateLinked \<and> length terminals = 1
               \<and> settled_cleanly collection issues
            then hd terminals else []),
         ag_Issues = (case raised of None \<Rightarrow> issues1 | Some i \<Rightarrow> AppendProbeIssue issues1 i)\<rparr>)"

definition attemptGroups ::
    "ObservedHop list \<Rightarrow> ProbeCollection option \<Rightarrow> ProbeIssue list \<Rightarrow> attemptGroup list" where
  "attemptGroups hops collection issues =
     map (\<lambda>(index, bucket). attempt_group index (snd bucket) collection issues)
       (enumerate 0 (hop_buckets hops))"

section \<open>Buckets partition the records by request\<close>

definition bucket_inv :: "ObservedHop list \<Rightarrow> (string \<times> ObservedHop list) list \<Rightarrow> bool" where
  "bucket_inv hops buckets \<longleftrightarrow>
     distinct (map fst buckets) \<and> fst ` set buckets = request_key ` set hops
     \<and> (\<forall>(k, rs) \<in> set buckets. rs = filter (\<lambda>h. request_key h = k) hops)"

lemma has_bucket: "list_ex (\<lambda>b. fst b = k) buckets \<longleftrightarrow> k \<in> fst ` set buckets"
  by (force simp: list_ex_iff)

lemma add_to_bucket_hit:
  assumes "request_key hop \<in> fst ` set buckets"
  shows "add_to_bucket buckets hop =
    map (\<lambda>b. if fst b = request_key hop then (request_key hop, snd b @ [hop]) else b) buckets"
  using assms by (simp add: add_to_bucket_def Let_def has_bucket)

lemma add_to_bucket_miss:
  assumes "request_key hop \<notin> fst ` set buckets"
  shows "add_to_bucket buckets hop = buckets @ [(request_key hop, [hop])]"
  using assms by (simp add: add_to_bucket_def Let_def has_bucket)

lemma bucket_inv_step:
  assumes inv: "bucket_inv hops buckets"
  shows "bucket_inv (hops @ [hop]) (add_to_bucket buckets hop)"
proof (cases "request_key hop \<in> fst ` set buckets")
  case True
  let ?buckets = "add_to_bucket buckets hop"
  have keys: "map fst ?buckets = map fst buckets"
    by (auto simp: add_to_bucket_hit [OF True])
  then have "fst ` set ?buckets = fst ` set buckets" by (metis set_map)
  also have "\<dots> = request_key ` set (hops @ [hop])"
    using inv True by (auto simp: bucket_inv_def)
  finally have "fst ` set ?buckets = request_key ` set (hops @ [hop])" .
  moreover have "rs = filter (\<lambda>h. request_key h = k) (hops @ [hop])"
    if "(k, rs) \<in> set ?buckets" for k rs
    using that inv by (auto simp: add_to_bucket_hit [OF True] bucket_inv_def split: if_splits)
  ultimately show ?thesis
    using inv by (auto simp: bucket_inv_def keys)
next
  case False
  then have "\<forall>h \<in> set hops. request_key h \<noteq> request_key hop"
    using inv unfolding bucket_inv_def by (metis image_eqI)
  moreover have "k \<noteq> request_key hop" if "(k, rs) \<in> set buckets" for k rs
    using that False by (metis fst_conv image_eqI)
  moreover have "rs = filter (\<lambda>h. request_key h = k) hops" if "(k, rs) \<in> set buckets" for k rs
    using that inv by (auto simp: bucket_inv_def)
  ultimately show ?thesis
    using inv False by (auto simp: bucket_inv_def add_to_bucket_miss [OF False]) blast
qed

lemma hop_buckets_inv: "bucket_inv hops (hop_buckets hops)"
proof (induction hops rule: rev_induct)
  case Nil
  show ?case by (simp add: bucket_inv_def hop_buckets_def)
next
  case (snoc hop hops)
  then show ?case
    using bucket_inv_step [of hops "hop_buckets hops" hop] by (simp add: hop_buckets_def)
qed

lemma add_to_bucket_mset:
  assumes "distinct (map fst buckets)"
  shows "mset (concat (map snd (add_to_bucket buckets hop)))
    = add_mset hop (mset (concat (map snd buckets)))"
proof (cases "request_key hop \<in> fst ` set buckets")
  case True
  with assms have "mset (concat (map snd (map (\<lambda>b. if fst b = request_key hop
      then (request_key hop, snd b @ [hop]) else b) buckets)))
    = add_mset hop (mset (concat (map snd buckets)))"
  proof (induction buckets)
    case (Cons b bs)
    show ?case
    proof (cases "fst b = request_key hop")
      case True
      with Cons.prems have "\<forall>b' \<in> set bs. fst b' \<noteq> request_key hop"
        by (metis distinct.simps(2) image_eqI list.simps(9) set_map)
      then have "map (\<lambda>b. if fst b = request_key hop then (request_key hop, snd b @ [hop]) else b) bs = bs"
        by (intro map_idI) auto
      with True show ?thesis by simp
    qed (use Cons in auto)
  qed simp
  then show ?thesis by (simp only: add_to_bucket_hit [OF True])
qed (simp add: add_to_bucket_miss)

lemma hop_buckets_mset: "mset (concat (map snd (hop_buckets hops))) = mset hops"
proof (induction hops rule: rev_induct)
  case (snoc hop hops)
  have "distinct (map fst (hop_buckets hops))"
    using hop_buckets_inv by (simp add: bucket_inv_def)
  with snoc show ?case
    by (simp add: hop_buckets_def add_to_bucket_mset)
qed (simp add: hop_buckets_def)

lemma hop_buckets_member:
  assumes "(k, rs) \<in> set (hop_buckets hops)"
  shows "rs = filter (\<lambda>h. request_key h = k) hops" "rs \<noteq> []"
proof -
  from assms hop_buckets_inv [of hops] show rs: "rs = filter (\<lambda>h. request_key h = k) hops"
    by (auto simp: bucket_inv_def)
  from assms hop_buckets_inv [of hops] have "k \<in> request_key ` set hops"
    unfolding bucket_inv_def by (metis fst_conv image_eqI)
  with rs show "rs \<noteq> []" by (auto simp: filter_empty_conv)
qed

lemma attemptGroups_member:
  assumes "g \<in> set (attemptGroups hops c is)"
  obtains i k rs where "g = attempt_group i rs c is" "rs \<noteq> []"
    "rs = filter (\<lambda>h. request_key h = k) hops"
proof -
  from assms obtain i b where p: "(i, b) \<in> set (enumerate 0 (hop_buckets hops))"
    and g: "g = attempt_group i (snd b) c is"
    by (auto simp: attemptGroups_def)
  from p have b: "b \<in> set (hop_buckets hops)"
    by (metis in_set_enumerate_eq add.commute add_0 diff_zero nth_mem fst_conv snd_conv)
  obtain k rs where "b = (k, rs)" by force
  with b hop_buckets_member [of k rs hops] g show thesis by (intro that [of i rs k]) simp_all
qed

lemma length_attemptGroups: "length (attemptGroups hops c is) = card (request_key ` set hops)"
proof -
  have "card (set (map fst (hop_buckets hops))) = length (map fst (hop_buckets hops))"
    using hop_buckets_inv [of hops] by (intro distinct_card) (simp add: bucket_inv_def)
  then show ?thesis
    using hop_buckets_inv [of hops] by (simp add: attemptGroups_def bucket_inv_def)
qed

section \<open>One group\<close>

lemma scan_records_snd:
  "snd (scan_records src seqs (ok, inc) hops) \<longleftrightarrow> inc \<or> list_ex identity_missing hops"
  by (induction hops arbitrary: seqs ok inc) auto

lemma scan_records_fst:
  "fst (scan_records src seqs (ok, inc) hops) \<longleftrightarrow>
     ok \<and> list_all (\<lambda>h. \<not> position_unusable src [] h) hops
     \<and> distinct (map hop_LogSequence hops) \<and> set (map hop_LogSequence hops) \<inter> set seqs = {}"
  by (induction hops arbitrary: seqs ok inc) (auto simp: position_unusable_def)

text \<open>What "comparable log positions" means, without the loop.\<close>

lemma records_ordered_iff:
  "records_ordered records issues \<longleftrightarrow>
     (\<forall>h \<in> set records. hop_RuntimeSource h \<noteq> [] \<and> hop_LogSourceID h \<noteq> []
        \<and> 0 < hop_LogSequence h \<and> hop_RequestStartTime h \<noteq> []
        \<and> validLogValue (hop_DownstreamRemoteAddress h) \<noteq> []
        \<and> hop_LogSourceID h = hop_LogSourceID (hd records))
     \<and> distinct (map hop_LogSequence records) \<and> (\<forall>i \<in> set issues. \<not> BreaksLogOrder i)"
  by (auto simp: records_ordered_def scan_records_fst position_unusable_def list_all_iff list_ex_iff)

lemma by_sequence_props [simp]:
  "mset (by_sequence rs) = mset rs" "set (by_sequence rs) = set rs"
  "length (by_sequence rs) = length rs" "by_sequence rs = [] \<longleftrightarrow> rs = []"
  by (simp_all add: by_sequence_def)

lemma by_sequence_sorted: "sorted (map hop_LogSequence (by_sequence rs))"
  unfolding by_sequence_def by (rule sorted_slice_stable) simp

definition group_records :: "ObservedHop list \<Rightarrow> ProbeIssue list \<Rightarrow> ObservedHop list" where
  "group_records rs issues = (if records_ordered rs issues then by_sequence rs else rs)"

lemma group_records_props [simp]:
  "mset (group_records rs is) = mset rs" "set (group_records rs is) = set rs"
  "length (group_records rs is) = length rs" "group_records rs is = [] \<longleftrightarrow> rs = []"
  by (simp_all add: group_records_def)

lemma attempt_group_fields:
  "ag_HopIDs (attempt_group i rs c is) = map hop_ID (group_records rs is)"
  "ag_TerminalCandidateIDs (attempt_group i rs c is) = terminals_of (group_records rs is)"
  "ag_RelationState (attempt_group i rs c is) =
     fst (relate_attempts (''context-'' @ Itoa (int i + 1)) (records_ordered rs is) (group_records rs is))"
  "ag_Links (attempt_group i rs c is) =
     fst (snd (relate_attempts (''context-'' @ Itoa (int i + 1)) (records_ordered rs is)
       (group_records rs is)))"
  "ag_ID (attempt_group i rs c is) = ''context-'' @ Itoa (int i + 1)"
  by (simp_all add: attempt_group_def group_records_def Let_def split_beta)

lemma attempt_group_terminal:
  "ag_LocalTerminalHopID (attempt_group i rs c is) =
     (if ag_RelationState (attempt_group i rs c is) = ProbeAttemptRelationStateLinked
         \<and> length (terminals_of (group_records rs is)) = 1 \<and> settled_cleanly c is
      then hd (terminals_of (group_records rs is)) else [])"
  by (simp add: attempt_group_def group_records_def Let_def split_beta)

text \<open>
  A redirect chain: every attempt but the last was answered by an internal redirect, the
  last one was not.
\<close>

definition redirect_chain :: "ObservedHop list \<Rightarrow> bool" where
  "redirect_chain rs \<longleftrightarrow>
     rs \<noteq> [] \<and> (\<forall>h \<in> set (butlast rs). hop_InternalRedirect h) \<and> \<not> hop_InternalRedirect (last rs)"

lemma redirect_chain_terminals:
  assumes "redirect_chain rs"
  shows "terminals_of rs = [hop_ID (last rs)]"
proof -
  from assms have "rs = butlast rs @ [last rs]" by (simp add: redirect_chain_def)
  then have "filter (\<lambda>h. \<not> hop_InternalRedirect h) rs =
      filter (\<lambda>h. \<not> hop_InternalRedirect h) (butlast rs) @ filter (\<lambda>h. \<not> hop_InternalRedirect h) [last rs]"
    by (metis filter_append)
  with assms show ?thesis by (simp add: terminals_of_def redirect_chain_def)
qed

lemma linked_iff:
  assumes "rs \<noteq> []"
  shows "fst (relate_attempts ctx ordered rs) = ProbeAttemptRelationStateLinked \<longleftrightarrow>
    ordered \<and> redirect_chain rs"
proof
  assume l: "fst (relate_attempts ctx ordered rs) = ProbeAttemptRelationStateLinked"
  then have ord: "ordered" and inv: "\<not> invalid_order rs"
    by (auto simp: relate_attempts_def Let_def split: if_splits)
  from inv have bl: "\<forall>h \<in> set (butlast rs). hop_InternalRedirect h"
    by (auto simp: invalid_order_def list_ex_iff)
  have "\<not> hop_InternalRedirect (last rs)"
  proof
    assume "hop_InternalRedirect (last rs)"
    moreover from this assms have "filter hop_InternalRedirect rs \<noteq> []"
      by (auto simp: filter_empty_conv)
    ultimately show False using l ord by (auto simp: relate_attempts_def Let_def split: if_splits)
  qed
  with ord bl assms show "ordered \<and> redirect_chain rs" by (simp add: redirect_chain_def)
next
  assume r: "ordered \<and> redirect_chain rs"
  then have inv: "\<not> invalid_order rs" and t: "length (terminals_of rs) = 1"
    by (auto simp: invalid_order_def list_ex_iff redirect_chain_def
        redirect_chain_terminals [unfolded redirect_chain_def])
  have "filter hop_InternalRedirect rs \<noteq> [] \<or> length rs = 1"
  proof (cases "butlast rs")
    case Nil
    with assms have "length rs = 1" by (cases rs) (auto split: if_splits)
    then show ?thesis by simp
  next
    case (Cons h hs)
    with r have "hop_InternalRedirect h" by (simp add: redirect_chain_def)
    moreover from Cons have "h \<in> set rs" by (metis in_set_butlastD list.set_intros(1))
    ultimately show ?thesis by (auto simp: filter_empty_conv)
  qed
  with r inv t show "fst (relate_attempts ctx ordered rs) = ProbeAttemptRelationStateLinked"
    by (auto simp: relate_attempts_def Let_def redirect_chain_def)
qed

lemma redirect_links_chain:
  assumes "redirect_chain rs"
  shows "map link_From (redirect_links rs) = butlast (map hop_ID rs)"
    and "map link_To (redirect_links rs) = tl (map hop_ID rs)"
proof -
  have f0: "map fst (zip rs (tl rs)) = butlast rs"
    by (simp add: map_fst_zip_take butlast_conv_take)
  then have "fst ` set (zip rs (tl rs)) = set (butlast rs)" by (metis set_map)
  with assms have all: "filter (\<lambda>(a, b). hop_InternalRedirect a) (zip rs (tl rs)) = zip rs (tl rs)"
    by (intro filter_True) (force simp: redirect_chain_def)
  have links: "map link_From (redirect_links rs) = map hop_ID (map fst (zip rs (tl rs)))"
      "map link_To (redirect_links rs) = map hop_ID (map snd (zip rs (tl rs)))"
    by (simp_all add: redirect_links_def all split_beta)
  have t: "map snd (zip rs (tl rs)) = tl rs"
    by (simp add: map_snd_zip_take)
  show "map link_From (redirect_links rs) = butlast (map hop_ID rs)"
    by (simp only: links f0 map_butlast)
  show "map link_To (redirect_links rs) = tl (map hop_ID rs)"
    by (simp only: links t map_tl)
qed

lemma linked_links:
  assumes "rs \<noteq> []" "redirect_chain rs"
  shows "fst (snd (relate_attempts ctx True rs)) = redirect_links rs"
proof -
  from assms have inv: "\<not> invalid_order rs" and t: "length (terminals_of rs) = 1"
    by (auto simp: invalid_order_def list_ex_iff redirect_chain_def
        redirect_chain_terminals [unfolded redirect_chain_def])
  have "redirect_links rs = []" if "filter hop_InternalRedirect rs = []"
    using that by (auto simp: redirect_links_def filter_empty_conv dest: set_zip_leftD)
  with inv t assms(2) show ?thesis
    by (auto simp: relate_attempts_def Let_def redirect_chain_def)
qed

section \<open>Contexts are output only\<close>

text \<open>
  Grouping never reads the \<open>ContextID\<close> field it later determines, so analysing a segment
  again gives the same groups.
\<close>

definition strip_context :: "ObservedHop \<Rightarrow> ObservedHop" where
  "strip_context h = h\<lparr>hop_ContextID := []\<rparr>"

lemma strip_context_fields [simp]:
  "hop_ID (strip_context h) = hop_ID h"
  "hop_RuntimeSource (strip_context h) = hop_RuntimeSource h"
  "hop_LogSourceID (strip_context h) = hop_LogSourceID h"
  "hop_LogSequence (strip_context h) = hop_LogSequence h"
  "hop_RequestStartTime (strip_context h) = hop_RequestStartTime h"
  "hop_InternalRedirect (strip_context h) = hop_InternalRedirect h"
  "hop_DownstreamRemoteAddress (strip_context h) = hop_DownstreamRemoteAddress h"
  "request_key (strip_context h) = request_key h"
  by (simp_all add: strip_context_def request_key_def hop_source_def)

lemma hop_buckets_strip:
  "hop_buckets (map strip_context hops) = map (\<lambda>b. (fst b, map strip_context (snd b))) (hop_buckets hops)"
proof (induction hops rule: rev_induct)
  case (snoc hop hops)
  have "add_to_bucket (map (\<lambda>b. (fst b, map strip_context (snd b))) bs) (strip_context hop)
    = map (\<lambda>b. (fst b, map strip_context (snd b))) (add_to_bucket bs hop)" for bs
    by (auto simp: add_to_bucket_def Let_def list_ex_iff)
  with snoc show ?case by (simp add: hop_buckets_def)
qed (simp add: hop_buckets_def)

lemma scan_records_strip:
  "scan_records src seqs s (map strip_context hops) = scan_records src seqs s hops"
  by (induction src seqs s hops rule: scan_records.induct)
    (simp_all add: position_unusable_def identity_missing_def)

lemma relate_attempts_strip:
  assumes "rs \<noteq> []"
  shows "relate_attempts ctx ordered (map strip_context rs) = relate_attempts ctx ordered rs"
proof -
  have terms: "terminals_of (map strip_context rs) = terminals_of rs"
    by (simp add: terminals_of_def filter_map o_def)
  have links: "redirect_links (map strip_context rs) = redirect_links rs"
    by (simp add: redirect_links_def zip_map_map filter_map o_def case_prod_unfold flip: map_tl)
  have "invalid_order (map strip_context rs) = invalid_order rs"
    by (simp add: invalid_order_def list_ex_iff flip: map_butlast)
  with terms links show ?thesis
    using assms by (simp add: relate_attempts_def Let_def filter_map o_def last_map cong: if_cong)
qed

lemma terminals_of_strip: "terminals_of (map strip_context rs) = terminals_of rs"
  by (simp add: terminals_of_def filter_map o_def)

lemma by_sequence_strip: "by_sequence (map strip_context rs) = map strip_context (by_sequence rs)"
  unfolding by_sequence_def by (rule slice_stable_map) simp

lemma records_ordered_strip:
  "rs \<noteq> [] \<Longrightarrow> records_ordered (map strip_context rs) is = records_ordered rs is"
  by (simp add: records_ordered_def scan_records_strip hd_map)

lemma attempt_group_strip:
  assumes "rs \<noteq> []"
  shows "attempt_group i (map strip_context rs) c is = attempt_group i rs c is"
proof -
  note strips = records_ordered_strip [OF assms] terminals_of_strip scan_records_strip hd_map [OF assms]
  show ?thesis
  proof (cases "records_ordered rs is")
    case True
    have "by_sequence rs \<noteq> []" using assms by simp
    with True show ?thesis
      by (simp add: attempt_group_def Let_def strips by_sequence_strip relate_attempts_strip o_def
          cong: if_cong del: append_Cons)
  next
    case False
    with assms show ?thesis
      by (simp add: attempt_group_def Let_def strips relate_attempts_strip o_def
          cong: if_cong del: append_Cons)
  qed
qed

lemma attemptGroups_strip:
  "attemptGroups (map strip_context hops) c is = attemptGroups hops c is"
proof -
  have "attempt_group i (map strip_context (snd b)) c is = attempt_group i (snd b) c is"
    if "(i, b) \<in> set (enumerate 0 (hop_buckets hops))" for i b
  proof (rule attempt_group_strip)
    from that have "b \<in> set (hop_buckets hops)" by (metis set_zip_rightD enumerate_eq_zip)
    then show "snd b \<noteq> []" using hop_buckets_member(2) [of "fst b" "snd b" hops] by simp
  qed
  moreover have "enumerate 0 (map f bs) = map (\<lambda>(i, b). (i, f b)) (enumerate 0 bs)"
    for f :: "string \<times> ObservedHop list \<Rightarrow> string \<times> ObservedHop list" and bs
    by (simp add: enumerate_eq_zip zip_map2)
  ultimately show ?thesis
    by (auto simp: attemptGroups_def hop_buckets_strip)
qed

lemma attemptGroups_cong:
  "map strip_context hops = map strip_context hops' \<Longrightarrow>
    attemptGroups hops c is = attemptGroups hops' c is"
  by (metis attemptGroups_strip)

section \<open>Properties\<close>

text \<open>
  \<open>attemptGroups\<close> partitions the records: every record is in exactly one group, and
  there are as many groups as request identities.
\<close>

theorem attempt_groups_partition:
  "mset (concat (map ag_HopIDs (attemptGroups hops c is))) = mset (map hop_ID hops)
   \<and> length (attemptGroups hops c is) = card (request_key ` set hops)"
proof
  have "mset (concat (map (\<lambda>(i, b). map hop_ID (group_records (snd b) is)) (enumerate n bs)))
      = image_mset hop_ID (mset (concat (map snd bs)))" for n and bs :: "(string \<times> ObservedHop list) list"
    by (induction bs arbitrary: n) simp_all
  note all = this [of 0 "hop_buckets hops"]
  have "map ag_HopIDs (attemptGroups hops c is) =
      map (\<lambda>(i, b). map hop_ID (group_records (snd b) is)) (enumerate 0 (hop_buckets hops))"
    by (simp add: attemptGroups_def split_beta attempt_group_fields)
  with all show "mset (concat (map ag_HopIDs (attemptGroups hops c is))) = mset (map hop_ID hops)"
    by (simp only: hop_buckets_mset mset_map)
qed (rule length_attemptGroups)

text \<open>
  C3: a group of \<open>attemptGroups\<close> consists of all records of one request, and it is reported as
  linked exactly when the records have comparable log positions and, in log order, all but
  the last were answered by an internal redirect and the last one was not; its links then
  lead from the first record through all others to the last, the only terminal candidate.
\<close>

theorem attempt_group_linked:
  assumes "g \<in> set (attemptGroups hops c is)"
  shows "\<exists>k rs. rs \<noteq> [] \<and> mset rs = mset (filter (\<lambda>h. request_key h = k) hops)
    \<and> ag_HopIDs g = map hop_ID rs
    \<and> (ag_RelationState g = ProbeAttemptRelationStateLinked \<longleftrightarrow>
         records_ordered (filter (\<lambda>h. request_key h = k) hops) is \<and> redirect_chain rs)
    \<and> (ag_RelationState g = ProbeAttemptRelationStateLinked \<longrightarrow>
         sorted (map hop_LogSequence rs)
         \<and> map link_From (ag_Links g) = butlast (map hop_ID rs)
         \<and> map link_To (ag_Links g) = tl (map hop_ID rs)
         \<and> ag_TerminalCandidateIDs g = [hop_ID (last rs)])"
proof -
  from assms obtain i k rs where g: "g = attempt_group i rs c is" and ne: "rs \<noteq> []"
    and rs: "rs = filter (\<lambda>h. request_key h = k) hops" by (rule attemptGroups_member)
  let ?rs = "group_records rs is"
  have ne': "?rs \<noteq> []" using ne by simp
  have linked: "ag_RelationState g = ProbeAttemptRelationStateLinked \<longleftrightarrow>
      records_ordered rs is \<and> redirect_chain ?rs"
    unfolding g attempt_group_fields by (rule linked_iff [OF ne'])
  have "sorted (map hop_LogSequence ?rs) \<and> map link_From (ag_Links g) = butlast (map hop_ID ?rs)
      \<and> map link_To (ag_Links g) = tl (map hop_ID ?rs)
      \<and> ag_TerminalCandidateIDs g = [hop_ID (last ?rs)]"
    if l: "records_ordered rs is" "redirect_chain ?rs"
  proof -
    have "sorted (map hop_LogSequence ?rs)"
      using l(1) by (simp add: group_records_def by_sequence_sorted)
    moreover have "ag_Links g = redirect_links ?rs"
      unfolding g attempt_group_fields using l by (simp add: linked_links [OF ne'])
    moreover have "ag_TerminalCandidateIDs g = [hop_ID (last ?rs)]"
      unfolding g attempt_group_fields by (rule redirect_chain_terminals [OF l(2)])
    ultimately show ?thesis by (simp add: redirect_links_chain [OF l(2)])
  qed
  with linked ne' g rs show ?thesis
    by (intro exI [of _ k] exI [of _ ?rs]) (auto simp: attempt_group_fields)
qed

definition sample_hop :: "string \<Rightarrow> int \<Rightarrow> bool \<Rightarrow> ObservedHop" where
  "sample_hop i sequence redirect = zero_ObservedHop\<lparr>hop_ID := i, hop_RuntimeSource := ''pod-a'',
     hop_LogSourceID := ''log-a'', hop_LogSequence := sequence, hop_RequestStartTime := ''t0'',
     hop_DownstreamRemoteAddress := ''10.0.0.9:4711'', hop_InternalRedirect := redirect,
     hop_ResponseCode := 200, hop_Correlation := ProbeCorrelationProbeID\<rparr>"

text \<open>Two records of one request, logged in the wrong order: the redirect comes first.\<close>

definition sample_hops :: "ObservedHop list" where
  "sample_hops = [sample_hop ''b'' 2 False, sample_hop ''a'' 1 True]"

lemma sample_hops_linked:
  "map ag_RelationState (attemptGroups sample_hops None []) = [ProbeAttemptRelationStateLinked]
   \<and> map ag_HopIDs (attemptGroups sample_hops None []) = [[''a'', ''b'']]"
  by code_simp

lemma attempt_group_linked_witness:
  "\<exists>k rs. rs \<noteq> [] \<and> mset rs = mset (filter (\<lambda>h. request_key h = k) sample_hops)
    \<and> ag_HopIDs (hd (attemptGroups sample_hops None [])) = map hop_ID rs
    \<and> map link_From (ag_Links (hd (attemptGroups sample_hops None []))) = butlast (map hop_ID rs)"
proof -
  let ?g = "hd (attemptGroups sample_hops None [])"
  have g: "?g \<in> set (attemptGroups sample_hops None [])"
    and l: "ag_RelationState ?g = ProbeAttemptRelationStateLinked"
    using sample_hops_linked by (auto simp: map_eq_Cons_conv)
  from attempt_group_linked [OF g] l show ?thesis by blast
qed

end
