(* ===== verification/Enrich_Probe.thy ===== *)
theory Enrich_Probe
  imports Attempt_Groups
begin

text \<open>
  \<open>EnrichProbe\<close> of \<open>internal/observed/probe_attempts.go\<close>: per segment it qualifies record
  identities by the gateway, rebuilds the relation issues and links from the attempt groups,
  and decides whether one record is the final response (and the final upstream) of the probe.
  The segments the code mutates through pointers are returned as new values; nil and empty
  slices coincide, so the code's nil replacements are the identity here.
\<close>

section \<open>Model\<close>

definition relationRank :: "ProbeAttemptRelationState \<Rightarrow> nat" where
  "relationRank state =
     (if state = ProbeAttemptRelationStateAmbiguous then 3
      else if state = ProbeAttemptRelationStateUnconfirmed then 2
      else if state = ProbeAttemptRelationStateMissingNext then 1
      else 0)"

definition qualify :: "string \<Rightarrow> string \<Rightarrow> string" where
  "qualify gateway i = (if HasPrefix i (gateway @ ''/'') then i else gateway @ ''/'' @ i)"

definition qualify_issue :: "string \<Rightarrow> ProbeIssue \<Rightarrow> ProbeIssue" where
  "qualify_issue gateway issue =
     (if issue_HopID issue = [] then issue
      else issue\<lparr>issue_HopID := qualify gateway (issue_HopID issue)\<rparr>)"

definition collection_issues :: "string \<Rightarrow> ProbeIssue list \<Rightarrow> ProbeIssue list" where
  "collection_issues gateway issues =
     foldl AppendProbeIssue []
       (map (qualify_issue gateway)
         (filter (\<lambda>i. issue_Scope i \<noteq> ProbeIssueScopeRelation) issues))"

definition qualify_hop :: "string \<Rightarrow> nat \<times> ObservedHop \<Rightarrow> ObservedHop" where
  "qualify_hop gateway ih =
     (case ih of (index, hop) \<Rightarrow>
       hop\<lparr>hop_ID := qualify gateway
         (if hop_ID hop = [] then ''record-'' @ Itoa (int index + 1) else hop_ID hop)\<rparr>)"

definition qualify_hops :: "string \<Rightarrow> ObservedHop list \<Rightarrow> ObservedHop list" where
  "qualify_hops gateway hops = map (qualify_hop gateway) (enumerate 0 hops)"

text \<open>
  The map \<open>byID\<close> points at the last record that has an identity; writing through it
  changes that record only.
\<close>

fun byID :: "ObservedHop list \<Rightarrow> string \<Rightarrow> ObservedHop option" where
  "byID [] i = None"
| "byID (h # hs) i = (case byID hs i of Some x \<Rightarrow> Some x
     | None \<Rightarrow> if hop_ID h = i then Some h else None)"

fun set_context :: "string \<Rightarrow> string \<Rightarrow> ObservedHop list \<Rightarrow> ObservedHop list" where
  "set_context context i [] = []"
| "set_context context i (h # hs) =
     (if i \<in> set (map hop_ID hs) then h # set_context context i hs
      else if hop_ID h = i then h\<lparr>hop_ContextID := context\<rparr> # hs
      else h # hs)"

definition set_contexts :: "attemptGroup list \<Rightarrow> ObservedHop list \<Rightarrow> ObservedHop list" where
  "set_contexts groups hops =
     foldl (\<lambda>hs g. foldl (\<lambda>hs i. set_context (ag_ID g) i hs) hs (ag_HopIDs g)) hops groups"

definition worst_relation ::
    "ProbeAttemptRelationState \<Rightarrow> attemptGroup list \<Rightarrow> ProbeAttemptRelationState" where
  "worst_relation = foldl (\<lambda>state g.
     if relationRank (ag_RelationState g) > relationRank state then ag_RelationState g else state)"

definition segment_collection :: "ProbeSegment \<Rightarrow> ProbeCollection" where
  "segment_collection segment =
     (case seg_Collection segment of
        None \<Rightarrow> \<lparr>col_State = ProbeCollectionStateUnknown, col_CompletedAt = []\<rparr>
      | Some c \<Rightarrow> c)"

definition segment_groups :: "ProbeSegment \<Rightarrow> attemptGroup list" where
  "segment_groups segment =
     attemptGroups (qualify_hops (seg_GatewayID segment) (seg_Hops segment))
       (Some (segment_collection segment))
       (collection_issues (seg_GatewayID segment) (seg_Issues segment))"

definition enrich_segment :: "ProbeSegment \<Rightarrow> ProbeSegment" where
  "enrich_segment segment =
     (let gateway = seg_GatewayID segment; groups = segment_groups segment in
      segment\<lparr>
        seg_Hops := set_contexts groups (qualify_hops gateway (seg_Hops segment)),
        seg_Collection := Some (segment_collection segment),
        seg_RelationState :=
          worst_relation
            (if groups = [] then ProbeAttemptRelationStateUnconfirmed
             else ProbeAttemptRelationStateLinked) groups,
        seg_Links := concat (map ag_Links groups),
        seg_LocalTerminalHopIDs :=
          filter (\<lambda>i. i \<noteq> []) (map ag_LocalTerminalHopID groups),
        seg_Issues :=
          foldl (foldl AppendProbeIssue) (collection_issues gateway (seg_Issues segment))
            (map ag_Issues groups)\<rparr>)"

text \<open>
  The record a segment offers as the final response; \<open>segment\<close> is already enriched and
  \<open>groups\<close> are its groups.
\<close>

definition final_hop :: "ProbeExecution \<Rightarrow> ProbeSegment \<Rightarrow> attemptGroup list \<Rightarrow> string option" where
  "final_hop execution segment groups =
     (if exec_State execution \<noteq> ProbeExecutionStateCompleted \<or> exec_Error execution \<noteq> []
         \<or> exec_ResponseCode execution \<le> 0 \<or> seg_GatewayID segment \<noteq> exec_GatewayID execution
         \<or> length groups \<noteq> 1 \<or> length (seg_Issues segment) > 0
      then None
      else
        (let group = hd groups;
             exact = list_all (\<lambda>i. case byID (seg_Hops segment) i of None \<Rightarrow> False
                 | Some h \<Rightarrow> hop_Correlation h = ProbeCorrelationProbeID) (ag_HopIDs group)
         in case byID (seg_Hops segment) (ag_LocalTerminalHopID group) of
              None \<Rightarrow> None
            | Some hop \<Rightarrow>
                if exact \<and> hop_ResponseCode hop = exec_ResponseCode execution
                then Some (hop_ID hop) else None))"

definition enrich_step :: "ProbeExecution \<Rightarrow> ProbeSegment \<Rightarrow> ProbeExecution" where
  "enrich_step execution segment =
     (case final_hop execution (enrich_segment segment) (segment_groups segment) of
        None \<Rightarrow> execution
      | Some i \<Rightarrow>
          (let execution = execution\<lparr>exec_FinalResponseHopID := i\<rparr> in
           if length (exec_Segments execution) = 1 \<and> exec_Issues execution = []
           then execution\<lparr>exec_FinalUpstreamHopID := i\<rparr> else execution))"

definition EnrichProbe :: "ProbeExecution \<Rightarrow> ProbeExecution" where
  "EnrichProbe execution =
     (let execution = execution\<lparr>exec_FinalResponseHopID := [], exec_FinalUpstreamHopID := []\<rparr> in
      (foldl enrich_step execution (exec_Segments execution))
        \<lparr>exec_Segments := map enrich_segment (exec_Segments execution)\<rparr>)"

section \<open>Qualified identities\<close>

lemma HasPrefix_qualify [simp]: "HasPrefix (qualify g i) (g @ ''/'')"
  by (auto simp: qualify_def HasPrefix_iff)

lemma qualify_idem [simp]: "qualify g (qualify g i) = qualify g i"
  by (metis HasPrefix_qualify qualify_def)

lemma qualify_nonempty [simp]: "qualify g i \<noteq> []"
  by (auto simp: qualify_def HasPrefix_def)

lemma qualify_issue_idem [simp]: "qualify_issue g (qualify_issue g i) = qualify_issue g i"
  by (simp add: qualify_issue_def)

lemma issue_Scope_qualify [simp]: "issue_Scope (qualify_issue g i) = issue_Scope i"
  by (simp add: qualify_issue_def)

lemma collection_issues_member:
  assumes "i \<in> set (collection_issues g is)"
  shows "qualify_issue g i = i" "issue_Scope i \<noteq> ProbeIssueScopeRelation"
  using assms issues.adds_set [of "[]"] unfolding collection_issues_def by fastforce+

lemma collection_issues_distinct: "distinct (map issue_key (collection_issues g is))"
  unfolding collection_issues_def by (rule issues.adds_distinct) simp

lemma collection_issues_idem:
  assumes "\<And>i. i \<in> set rs \<Longrightarrow> issue_Scope i = ProbeIssueScopeRelation"
  shows "collection_issues g (collection_issues g is @ rs) = collection_issues g is"
proof -
  let ?c = "collection_issues g is"
  have "filter (\<lambda>i. issue_Scope i \<noteq> ProbeIssueScopeRelation) (?c @ rs) = ?c"
    using assms collection_issues_member(2) by (auto simp: filter_id_conv filter_empty_conv)
  moreover have "map (qualify_issue g) ?c = ?c"
    by (rule map_idI) (rule collection_issues_member)
  moreover have "foldl AppendProbeIssue [] ?c = ?c"
    using issues.adds_fresh [of "[]" ?c] collection_issues_distinct by simp
  ultimately show ?thesis
    unfolding collection_issues_def [of g "?c @ rs"] by simp
qed

lemma qualify_hops_props:
  assumes "h \<in> set (qualify_hops g hops)"
  shows "qualify g (hop_ID h) = hop_ID h" "hop_ID h \<noteq> []"
  using assms by (auto simp: qualify_hops_def qualify_hop_def)

lemma length_qualify_hops [simp]: "length (qualify_hops g hops) = length hops"
  by (simp add: qualify_hops_def)

lemma qualify_hops_id:
  assumes "\<And>h. h \<in> set hops \<Longrightarrow> qualify g (hop_ID h) = hop_ID h"
  shows "qualify_hops g hops = hops"
proof (rule nth_equalityI)
  fix i assume "i < length (qualify_hops g hops)"
  then have i: "i < length hops" by simp
  then have q: "qualify g (hop_ID (hops ! i)) = hop_ID (hops ! i)" by (intro assms) simp
  then have "hop_ID (hops ! i) \<noteq> []" by (metis qualify_nonempty)
  with i q show "qualify_hops g hops ! i = hops ! i"
    by (simp add: qualify_hops_def qualify_hop_def nth_enumerate_eq)
qed simp

section \<open>Writing contexts through the identity map\<close>

text \<open>All the writes together: each record's last occurrence gets the last context written.\<close>

fun apply_contexts :: "(string \<Rightarrow> string option) \<Rightarrow> ObservedHop list \<Rightarrow> ObservedHop list" where
  "apply_contexts m [] = []"
| "apply_contexts m (h # hs) =
     (case (if hop_ID h \<in> set (map hop_ID hs) then None else m (hop_ID h)) of
        None \<Rightarrow> h | Some c \<Rightarrow> h\<lparr>hop_ContextID := c\<rparr>) # apply_contexts m hs"

lemma apply_contexts_ids [simp]: "map hop_ID (apply_contexts m hs) = map hop_ID hs"
  by (induction hs) (auto split: option.splits)

lemma apply_contexts_id_set [simp]: "hop_ID ` set (apply_contexts m hs) = hop_ID ` set hs"
  by (metis apply_contexts_ids set_map)

lemma apply_contexts_empty: "apply_contexts (\<lambda>_. None) hs = hs"
  by (induction hs) auto

lemma apply_contexts_idem [simp]: "apply_contexts m (apply_contexts m hs) = apply_contexts m hs"
  by (induction hs) (auto split: option.splits)

lemma apply_contexts_other:
  "i \<notin> hop_ID ` set hs \<Longrightarrow> apply_contexts (m(i := v)) hs = apply_contexts m hs"
  by (induction hs) (auto split: option.splits)

lemma set_context_apply: "set_context c i (apply_contexts m hs) = apply_contexts (m(i \<mapsto> c)) hs"
  by (induction hs)
    (auto simp: fun_upd_def apply_contexts_other [unfolded fun_upd_def] split: option.splits)

lemma set_contexts_apply: "\<exists>m. \<forall>hs. set_contexts groups hs = apply_contexts m hs"
proof -
  have one: "\<exists>m'. \<forall>hs. foldl (\<lambda>hs i. set_context c i hs) (apply_contexts m hs) ids = apply_contexts m' hs"
    for c m ids
  proof (induction ids arbitrary: m)
    case (Cons i ids)
    then show ?case by (simp add: set_context_apply)
  qed auto
  have "\<exists>m'. \<forall>hs. foldl (\<lambda>hs g. foldl (\<lambda>hs i. set_context (ag_ID g) i hs) hs (ag_HopIDs g))
      (apply_contexts m hs) gs = apply_contexts m' hs" for m gs
  proof (induction gs arbitrary: m)
    case (Cons g gs)
    obtain m1 where "\<forall>hs. foldl (\<lambda>hs i. set_context (ag_ID g) i hs) (apply_contexts m hs) (ag_HopIDs g)
        = apply_contexts m1 hs" using one by blast
    with Cons [of m1] show ?case by simp
  qed auto
  from this [of "\<lambda>_. None" groups] show ?thesis
    by (simp add: set_contexts_def apply_contexts_empty)
qed

lemma strip_apply_contexts [simp]:
  "map strip_context (apply_contexts m hs) = map strip_context hs"
  by (induction hs) (auto simp: strip_context_def split: option.splits)

lemma strip_set_contexts: "map strip_context (set_contexts gs hs) = map strip_context hs"
  by (metis set_contexts_apply strip_apply_contexts)

lemma set_contexts_idem: "set_contexts gs (set_contexts gs hs) = set_contexts gs hs"
  by (metis set_contexts_apply apply_contexts_idem)

lemma set_contexts_ids: "map hop_ID (set_contexts gs hs) = map hop_ID hs"
  by (metis set_contexts_apply apply_contexts_ids)

section \<open>Repeating the analysis\<close>

lemma enrich_segment_fields [simp]:
  "seg_GatewayID (enrich_segment s) = seg_GatewayID s"
  "seg_Collection (enrich_segment s) = Some (segment_collection s)"
  "seg_Hops (enrich_segment s) =
     set_contexts (segment_groups s) (qualify_hops (seg_GatewayID s) (seg_Hops s))"
  by (simp_all add: enrich_segment_def Let_def)

lemma segment_collection_enrich [simp]:
  "segment_collection (enrich_segment s) = segment_collection s"
  by (simp add: segment_collection_def)

lemma AppendProbeIssue_all:
  "list_all P xs \<Longrightarrow> P x \<Longrightarrow> list_all P (AppendProbeIssue xs x)"
  by (simp add: AppendProbeIssue_def)

lemma attempt_group_issues:
  "list_all (\<lambda>i. issue_Scope i = ProbeIssueScopeRelation) (ag_Issues (attempt_group n rs c is))"
proof -
  let ?rel = "\<lambda>i. issue_Scope i = ProbeIssueScopeRelation"
  have ord: "list_all ?rel (order_issues ctx ordered incomplete)" for ctx ordered incomplete
    by (auto simp: order_issues_def relation_issue_def intro!: AppendProbeIssue_all)
  have raised: "?rel i" if "relate_attempts ctx ordered hs = (st, ls, Some i)" for ctx ordered hs st ls i
    using that by (auto simp: relate_attempts_def relation_issue_def Let_def split: if_splits)
  show ?thesis
    unfolding attempt_group_def Let_def
    by (auto simp: ord split: prod.split option.split intro!: AppendProbeIssue_all dest: raised)
qed

lemma relation_issues_only:
  "i \<in> set (ag_Issues g) \<Longrightarrow> g \<in> set (attemptGroups hs c is) \<Longrightarrow> issue_Scope i = ProbeIssueScopeRelation"
  using attempt_group_issues by (elim attemptGroups_member) (auto simp: list_all_iff)

lemma foldl_foldl_concat: "foldl (foldl f) s xss = foldl f s (concat xss)"
  by (induction xss arbitrary: s) simp_all

lemma collection_issues_enrich [simp]:
  "collection_issues (seg_GatewayID s) (seg_Issues (enrich_segment s)) =
     collection_issues (seg_GatewayID s) (seg_Issues s)"
proof -
  let ?base = "collection_issues (seg_GatewayID s) (seg_Issues s)"
  let ?raised = "concat (map ag_Issues (segment_groups s))"
  have eq: "seg_Issues (enrich_segment s) = foldl AppendProbeIssue ?base ?raised"
    by (simp add: enrich_segment_def Let_def foldl_foldl_concat)
  obtain zs where zs: "foldl AppendProbeIssue ?base ?raised = ?base @ zs"
    using issues.adds_prefix by blast
  have rel: "issue_Scope i = ProbeIssueScopeRelation" if "i \<in> set ?raised" for i
    using that relation_issues_only by (auto simp: segment_groups_def)
  have "distinct (map issue_key (?base @ zs))"
    unfolding zs [symmetric] by (rule issues.adds_distinct) (rule collection_issues_distinct)
  then have "set zs \<inter> set ?base = {}" by auto
  moreover have "set zs \<subseteq> set ?base \<union> set ?raised"
    using issues.adds_set [of ?base ?raised] unfolding zs by auto
  ultimately have "i \<in> set ?raised" if "i \<in> set zs" for i using that by blast
  with rel show ?thesis unfolding eq zs by (intro collection_issues_idem) blast
qed

lemma qualify_hops_enrich [simp]:
  "qualify_hops (seg_GatewayID s) (seg_Hops (enrich_segment s)) = seg_Hops (enrich_segment s)"
proof (rule qualify_hops_id)
  fix h assume "h \<in> set (seg_Hops (enrich_segment s))"
  then have "hop_ID h \<in> set (map hop_ID (qualify_hops (seg_GatewayID s) (seg_Hops s)))"
    unfolding enrich_segment_fields using set_contexts_ids by (metis image_eqI set_map)
  then show "qualify (seg_GatewayID s) (hop_ID h) = hop_ID h"
    using qualify_hops_props(1) by auto
qed

lemma segment_groups_enrich [simp]: "segment_groups (enrich_segment s) = segment_groups s"
proof -
  have "map strip_context (seg_Hops (enrich_segment s)) =
      map strip_context (qualify_hops (seg_GatewayID s) (seg_Hops s))"
    by (simp add: strip_set_contexts)
  then have "attemptGroups (seg_Hops (enrich_segment s)) c is =
      attemptGroups (qualify_hops (seg_GatewayID s) (seg_Hops s)) c is" for c "is"
    by (rule attemptGroups_cong)
  then show ?thesis
    unfolding segment_groups_def
    using qualify_hops_enrich [of s] collection_issues_enrich [of s] by simp
qed

lemma enrich_segment_derived:
  "seg_RelationState (enrich_segment s) =
     worst_relation (if segment_groups s = [] then ProbeAttemptRelationStateUnconfirmed
       else ProbeAttemptRelationStateLinked) (segment_groups s)"
  "seg_Links (enrich_segment s) = concat (map ag_Links (segment_groups s))"
  "seg_LocalTerminalHopIDs (enrich_segment s) =
     filter (\<lambda>i. i \<noteq> []) (map ag_LocalTerminalHopID (segment_groups s))"
  "seg_Issues (enrich_segment s) =
     foldl (foldl AppendProbeIssue) (collection_issues (seg_GatewayID s) (seg_Issues s))
       (map ag_Issues (segment_groups s))"
  by (simp_all add: enrich_segment_def Let_def)

lemma enrich_segment_kept [simp]:
  "seg_Index (enrich_segment s) = seg_Index s"
  "seg_ClusterID (enrich_segment s) = seg_ClusterID s"
  "seg_GatewayName (enrich_segment s) = seg_GatewayName s"
  "seg_SnapshotID (enrich_segment s) = seg_SnapshotID s"
  "seg_SnapshotObservedAt (enrich_segment s) = seg_SnapshotObservedAt s"
  "seg_LogSource (enrich_segment s) = seg_LogSource s"
  "seg_Transport (enrich_segment s) = seg_Transport s"
  "seg_Destination (enrich_segment s) = seg_Destination s"
  "seg_InferenceBasis (enrich_segment s) = seg_InferenceBasis s"
  "seg_InferenceConfidence (enrich_segment s) = seg_InferenceConfidence s"
  "ProbeSegment.more (enrich_segment s) = ProbeSegment.more s"
  by (simp_all add: enrich_segment_def Let_def)

lemma enrich_segment_idem: "enrich_segment (enrich_segment s) = enrich_segment s"
proof (rule ProbeSegment.equality)
  let ?e = "enrich_segment s"
  show "seg_Hops (enrich_segment ?e) = seg_Hops ?e"
    using qualify_hops_enrich [of s] by (simp add: set_contexts_idem)
  show "seg_Issues (enrich_segment ?e) = seg_Issues ?e"
    unfolding enrich_segment_derived [of ?e]
    using collection_issues_enrich [of s] by (simp add: enrich_segment_derived [of s])
qed (simp_all add: enrich_segment_derived)

lemma final_hop_cong:
  assumes "exec_State e = exec_State e'" "exec_Error e = exec_Error e'"
    "exec_ResponseCode e = exec_ResponseCode e'" "exec_GatewayID e = exec_GatewayID e'"
  shows "final_hop e s gs = final_hop e' s gs"
  by (simp only: final_hop_def assms)

lemma enrich_step_fields [simp]:
  "exec_State (enrich_step e s) = exec_State e" "exec_Error (enrich_step e s) = exec_Error e"
  "exec_ResponseCode (enrich_step e s) = exec_ResponseCode e"
  "exec_GatewayID (enrich_step e s) = exec_GatewayID e"
  "exec_Segments (enrich_step e s) = exec_Segments e" "exec_Issues (enrich_step e s) = exec_Issues e"
  by (auto simp: enrich_step_def Let_def split: option.splits)

text \<open>What the loop has chosen after a number of segments.\<close>

definition final_choice :: "ProbeExecution \<Rightarrow> ProbeSegment list \<Rightarrow> string \<Rightarrow> string" where
  "final_choice e segments chosen =
     foldl (\<lambda>c s. case final_hop e (enrich_segment s) (segment_groups s) of None \<Rightarrow> c | Some i \<Rightarrow> i)
       chosen segments"

lemma enrich_step_eq:
  "enrich_step e s = e\<lparr>exec_FinalResponseHopID := final_choice e [s] (exec_FinalResponseHopID e),
     exec_FinalUpstreamHopID :=
       (if length (exec_Segments e) = 1 \<and> exec_Issues e = []
        then final_choice e [s] (exec_FinalUpstreamHopID e) else exec_FinalUpstreamHopID e)\<rparr>"
  by (auto simp: enrich_step_def final_choice_def Let_def split: option.splits)

lemma final_choice_Cons: "final_choice e (s # ss) c = final_choice e ss (final_choice e [s] c)"
  by (simp add: final_choice_def)

lemma final_choice_cong:
  assumes "exec_State e = exec_State e'" "exec_Error e = exec_Error e'"
    "exec_ResponseCode e = exec_ResponseCode e'" "exec_GatewayID e = exec_GatewayID e'"
  shows "final_choice e ss c = final_choice e' ss c"
  by (simp only: final_choice_def final_hop_cong [OF assms])

lemma enrich_steps:
  "foldl enrich_step e ss =
     e\<lparr>exec_FinalResponseHopID := final_choice e ss (exec_FinalResponseHopID e),
       exec_FinalUpstreamHopID :=
         (if length (exec_Segments e) = 1 \<and> exec_Issues e = []
          then final_choice e ss (exec_FinalUpstreamHopID e) else exec_FinalUpstreamHopID e)\<rparr>"
proof (induction ss arbitrary: e)
  case Nil
  have "final_choice e [] c = c" for c by (simp add: final_choice_def)
  then show ?case by simp
next
  case (Cons s ss)
  have eq: "final_choice (enrich_step e s) ss c = final_choice e ss c" for c
    by (rule final_choice_cong) simp_all
  have "foldl enrich_step e (s # ss) = foldl enrich_step (enrich_step e s) ss" by simp
  also note Cons.IH [of "enrich_step e s", unfolded eq]
  finally show ?case
    by (simp add: final_choice_Cons [of e s ss] enrich_step_eq [of e s])
qed

lemma EnrichProbe_eq:
  "EnrichProbe e = e\<lparr>
     exec_FinalResponseHopID := final_choice e (exec_Segments e) [],
     exec_FinalUpstreamHopID :=
       (if length (exec_Segments e) = 1 \<and> exec_Issues e = []
        then final_choice e (exec_Segments e) [] else []),
     exec_Segments := map enrich_segment (exec_Segments e)\<rparr>"
proof -
  let ?e0 = "e\<lparr>exec_FinalResponseHopID := [], exec_FinalUpstreamHopID := []\<rparr>"
  have "final_choice ?e0 ss c = final_choice e ss c" for ss c
    by (rule final_choice_cong) simp_all
  then show ?thesis by (simp add: EnrichProbe_def Let_def enrich_steps)
qed

lemma EnrichProbe_fields:
  "exec_Segments (EnrichProbe e) = map enrich_segment (exec_Segments e)"
  "exec_Issues (EnrichProbe e) = exec_Issues e" "exec_State (EnrichProbe e) = exec_State e"
  "exec_Error (EnrichProbe e) = exec_Error e" "exec_GatewayID (EnrichProbe e) = exec_GatewayID e"
  "exec_ResponseCode (EnrichProbe e) = exec_ResponseCode e"
  "exec_FinalResponseHopID (EnrichProbe e) = final_choice e (exec_Segments e) []"
  "exec_FinalUpstreamHopID (EnrichProbe e) =
     (if length (exec_Segments e) = 1 \<and> exec_Issues e = []
      then final_choice e (exec_Segments e) [] else [])"
  by (simp_all add: EnrichProbe_eq)

lemma EnrichProbe_twice: "EnrichProbe (EnrichProbe e) = EnrichProbe e"
proof -
  define e' where "e' = EnrichProbe e"
  note fields = EnrichProbe_fields [of e, folded e'_def]
  have hop: "final_hop e' x gs = final_hop e x gs" for x gs
    by (rule final_hop_cong) (simp_all add: fields)
  have choice: "final_choice e' (map enrich_segment ss) c = final_choice e ss c" for ss c
    by (induction ss arbitrary: c) (simp_all add: final_choice_def hop enrich_segment_idem)
  have "map (enrich_segment \<circ> enrich_segment) ss = map enrich_segment ss" for ss
    by (simp add: enrich_segment_idem)
  then have "EnrichProbe e' = e'"
    unfolding EnrichProbe_eq [of e'] fields choice map_map
    by (simp add: e'_def EnrichProbe_eq [of e])
  then show ?thesis by (simp only: e'_def)
qed

section \<open>The evidence behind a final response\<close>

lemma byID_Some: "byID hs i = Some h \<Longrightarrow> h \<in> set hs \<and> hop_ID h = i"
  by (induction hs) (auto split: option.splits if_splits)

lemma byID_known: "i \<in> hop_ID ` set hs \<Longrightarrow> \<exists>h. byID hs i = Some h"
  by (induction hs) (auto split: option.splits)

lemma strip_context_eqD:
  assumes "strip_context h = strip_context q"
  shows "hop_ID h = hop_ID q" "hop_InternalRedirect h = hop_InternalRedirect q"
    "request_key h = request_key q"
  using assms by (metis strip_context_fields)+

lemma single_group:
  assumes "attemptGroups hs c is = [g]"
  obtains i where "g = attempt_group i hs c is" "hs \<noteq> []"
    "\<And>h h'. h \<in> set hs \<Longrightarrow> h' \<in> set hs \<Longrightarrow> request_key h = request_key h'"
proof -
  have one: "card (request_key ` set hs) = 1"
    using length_attemptGroups [of hs c "is"] assms by simp
  then obtain key where key: "request_key ` set hs = {key}" by (meson card_1_singletonE)
  from assms obtain i k rs where g: "g = attempt_group i rs c is" "rs \<noteq> []"
      "rs = filter (\<lambda>h. request_key h = k) hs"
  proof -
    have "g \<in> set (attemptGroups hs c is)" using assms by simp
    then show thesis using that by (elim attemptGroups_member)
  qed
  then obtain h where "h \<in> set hs" "request_key h = k" by (auto simp: filter_empty_conv)
  with key have "k = key" by blast
  have all: "request_key h = key" if "h \<in> set hs" for h using that key by blast
  with \<open>k = key\<close> have "rs = hs" unfolding g(3) by (intro filter_True) simp
  show thesis
  proof (rule that)
    show "g = attempt_group i hs c is" "hs \<noteq> []" using g(1,2) \<open>rs = hs\<close> by simp_all
  qed (simp add: all)
qed

lemma unique_terminal:
  assumes "ag_LocalTerminalHopID (attempt_group i hs c is) = x" "x \<noteq> []" "hs \<noteq> []"
  obtains t where "t \<in> set hs" "hop_ID t = x" "\<not> hop_InternalRedirect t"
    "\<And>h. h \<in> set hs \<Longrightarrow> \<not> hop_InternalRedirect h \<Longrightarrow> h = t"
    "settled_cleanly c is" "ag_RelationState (attempt_group i hs c is) = ProbeAttemptRelationStateLinked"
proof -
  let ?rs = "group_records hs is"
  from assms(1,2) have l: "ag_RelationState (attempt_group i hs c is) = ProbeAttemptRelationStateLinked"
    and one: "length (terminals_of ?rs) = 1" and s: "settled_cleanly c is"
    and x: "x = hd (terminals_of ?rs)"
    by (auto simp: attempt_group_terminal split: if_splits)
  from one obtain t where t: "filter (\<lambda>h. \<not> hop_InternalRedirect h) ?rs = [t]"
    by (auto simp: terminals_of_def length_Suc_conv)
  then have mem: "{h \<in> set hs. \<not> hop_InternalRedirect h} = {t}"
    by (metis group_records_props(2) list.set(1) list.simps(15) set_filter)
  from x t have "hop_ID t = x" by (simp add: terminals_of_def)
  with mem l s show thesis by (intro that [of t]) auto
qed

text \<open>
  What the records of an enriched segment have in common, given those before their contexts were
  written: one request, correlated by the probe, and all but the terminal record redirects.
\<close>

lemma enriched_records:
  assumes strip: "map strip_context E = map strip_context Q" and ids: "distinct (map hop_ID E)"
    and same: "\<And>a b. a \<in> set Q \<Longrightarrow> b \<in> set Q \<Longrightarrow> request_key a = request_key b"
    and exact: "\<And>q. q \<in> set Q \<Longrightarrow> case byID E (hop_ID q) of None \<Rightarrow> False
        | Some h \<Rightarrow> hop_Correlation h = ProbeCorrelationProbeID"
    and terminal: "\<And>a. a \<in> set Q \<Longrightarrow> \<not> hop_InternalRedirect a \<Longrightarrow> a = t"
    and h: "h \<in> set E" "hop_ID h = hop_ID t" and x: "x \<in> set E"
  shows "hop_Correlation x = ProbeCorrelationProbeID \<and> request_key x = request_key h
    \<and> (x \<noteq> h \<longrightarrow> hop_InternalRedirect x)"
proof (intro conjI impI)
  have twin: "\<exists>q \<in> set Q. strip_context y = strip_context q" if "y \<in> set E" for y
    using that strip by (metis (no_types, lifting) imageE image_eqI set_map)
  have inj: "a = b" if "a \<in> set E" "b \<in> set E" "hop_ID a = hop_ID b" for a b
    using that ids nth_mem_distinct_map [of hop_ID E a b] by (metis (no_types, lifting))
  obtain q where q: "q \<in> set Q" "strip_context x = strip_context q" using twin x by blast
  obtain r where r: "r \<in> set Q" "strip_context h = strip_context r" using twin h(1) by blast
  from same [OF q(1) r(1)] show "request_key x = request_key h"
    using strip_context_eqD(3) q(2) r(2) by metis
  from exact [OF q(1)] obtain y where y: "byID E (hop_ID x) = Some y"
    and "hop_Correlation y = ProbeCorrelationProbeID"
    using strip_context_eqD(1) [OF q(2)] by (auto split: option.splits)
  moreover from byID_Some [OF y] x have "y = x" using inj by blast
  ultimately show "hop_Correlation x = ProbeCorrelationProbeID" by simp
  assume "x \<noteq> h"
  show "hop_InternalRedirect x"
  proof (rule ccontr)
    assume "\<not> hop_InternalRedirect x"
    then have "q = t" using terminal [OF q(1)] strip_context_eqD(2) [OF q(2)] by blast
    then have "hop_ID x = hop_ID h" using strip_context_eqD(1) [OF q(2)] h(2) by simp
    with inj x h(1) \<open>x \<noteq> h\<close> show False by blast
  qed
qed

lemma final_hop_evidence:
  assumes final: "final_hop e (enrich_segment s) (segment_groups s) = Some i"
    and ids: "distinct (map hop_ID (qualify_hops (seg_GatewayID s) (seg_Hops s)))"
  obtains h where "h \<in> set (seg_Hops (enrich_segment s))" "hop_ID h = i" "i \<noteq> []"
    "\<not> hop_InternalRedirect h" "hop_ResponseCode h = exec_ResponseCode e"
    "\<And>h'. h' \<in> set (seg_Hops (enrich_segment s)) \<Longrightarrow>
      hop_Correlation h' = ProbeCorrelationProbeID \<and> request_key h' = request_key h
      \<and> (h' \<noteq> h \<longrightarrow> hop_InternalRedirect h')"
    "seg_RelationState (enrich_segment s) = ProbeAttemptRelationStateLinked"
    "seg_Issues (enrich_segment s) = []" "seg_GatewayID s = exec_GatewayID e"
    "col_State (segment_collection s) = ProbeCollectionStateSettled"
    "exec_State e = ProbeExecutionStateCompleted" "exec_Error e = []" "0 < exec_ResponseCode e"
    "seg_LocalTerminalHopIDs (enrich_segment s) = [i]"
proof -
  let ?E = "seg_Hops (enrich_segment s)" let ?g = "hd (segment_groups s)"
  let ?Q = "qualify_hops (seg_GatewayID s) (seg_Hops s)"
  have strip: "map strip_context ?E = map strip_context ?Q" by (simp add: strip_set_contexts)
  have idsE: "map hop_ID ?E = map hop_ID ?Q" by (simp add: set_contexts_ids)
  from final obtain h where h: "byID ?E (ag_LocalTerminalHopID ?g) = Some h"
    and i: "hop_ID h = i" and code: "hop_ResponseCode h = exec_ResponseCode e"
    and exact: "\<forall>j \<in> set (ag_HopIDs ?g). case byID ?E j of None \<Rightarrow> False
        | Some h \<Rightarrow> hop_Correlation h = ProbeCorrelationProbeID"
    and one: "length (segment_groups s) = 1" and noissue: "seg_Issues (enrich_segment s) = []"
    and gw: "seg_GatewayID s = exec_GatewayID e"
    and e: "exec_State e = ProbeExecutionStateCompleted" "exec_Error e = []" "0 < exec_ResponseCode e"
    by (auto simp: final_hop_def Let_def list_all_iff split: if_splits option.splits)
  from one have groups: "segment_groups s = [?g]" by (cases "segment_groups s") auto
  from byID_Some [OF h] have hE: "h \<in> set ?E" and hid: "ag_LocalTerminalHopID ?g = i"
    using i by auto
  from hE idsE have "i \<in> hop_ID ` set ?Q" unfolding i [symmetric] by (metis image_eqI set_map)
  then have ine: "i \<noteq> []" using qualify_hops_props(2) by fastforce
  from groups obtain n where g: "?g = attempt_group n ?Q (Some (segment_collection s))
      (collection_issues (seg_GatewayID s) (seg_Issues s))"
    and Qne: "?Q \<noteq> []" and same: "\<And>a b. a \<in> set ?Q \<Longrightarrow> b \<in> set ?Q \<Longrightarrow> request_key a = request_key b"
    unfolding segment_groups_def by (elim single_group) blast
  obtain t where t: "t \<in> set ?Q" "hop_ID t = i" "\<not> hop_InternalRedirect t"
      "\<And>a. a \<in> set ?Q \<Longrightarrow> \<not> hop_InternalRedirect a \<Longrightarrow> a = t"
    and settled: "settled_cleanly (Some (segment_collection s))
      (collection_issues (seg_GatewayID s) (seg_Issues s))"
    and linked: "ag_RelationState ?g = ProbeAttemptRelationStateLinked"
    using unique_terminal [OF hid [unfolded g] ine Qne] unfolding g by blast
  have twin: "\<exists>q \<in> set ?Q. strip_context x = strip_context q" if "x \<in> set ?E" for x
    using that strip by (metis (no_types, lifting) imageE image_eqI set_map)
  have injQ: "a = b" if "a \<in> set ?Q" "b \<in> set ?Q" "hop_ID a = hop_ID b" for a b
    using that ids nth_mem_distinct_map by metis
  have exactQ: "case byID ?E (hop_ID q) of None \<Rightarrow> False | Some h \<Rightarrow> hop_Correlation h = ProbeCorrelationProbeID"
    if "q \<in> set ?Q" for q
    using that exact by (simp add: g attempt_group_fields)
  have idsE': "distinct (map hop_ID ?E)" unfolding idsE by (rule ids)
  have others: "hop_Correlation x = ProbeCorrelationProbeID \<and> request_key x = request_key h
      \<and> (x \<noteq> h \<longrightarrow> hop_InternalRedirect x)" if "x \<in> set ?E" for x
    by (rule enriched_records [OF strip idsE' same exactQ t(4) hE _ that]) (use i t(2) in simp_all)
  have "\<not> hop_InternalRedirect h"
  proof -
    obtain r where r: "r \<in> set ?Q" "strip_context h = strip_context r" using twin hE by blast
    then have "r = t" using injQ t(1,2) i strip_context_eqD(1) [OF r(2)] by metis
    with t(3) strip_context_eqD(2) [OF r(2)] show ?thesis by blast
  qed
  moreover have "seg_RelationState (enrich_segment s) = ProbeAttemptRelationStateLinked"
  proof -
    have ne: "segment_groups s \<noteq> []" using one by auto
    have "worst_relation ProbeAttemptRelationStateLinked [?g] = ProbeAttemptRelationStateLinked"
      using linked by (simp add: worst_relation_def)
    then have "worst_relation ProbeAttemptRelationStateLinked (segment_groups s)
        = ProbeAttemptRelationStateLinked"
      by (simp only: groups [symmetric])
    with ne show ?thesis by (simp only: enrich_segment_derived if_False)
  qed
  moreover have "seg_LocalTerminalHopIDs (enrich_segment s) = [i]"
  proof -
    have "filter (\<lambda>j. j \<noteq> []) (map ag_LocalTerminalHopID [?g]) = [i]" using hid ine by simp
    then show ?thesis by (simp only: enrich_segment_derived groups [symmetric])
  qed
  moreover have "col_State (segment_collection s) = ProbeCollectionStateSettled"
    using settled by (simp add: settled_cleanly_def)
  ultimately show thesis
    using that [OF hE i ine _ code others _ noissue gw _ e] by blast
qed

lemma final_choice_source:
  "final_choice e ss c \<noteq> c \<Longrightarrow>
    \<exists>s \<in> set ss. final_hop e (enrich_segment s) (segment_groups s) = Some (final_choice e ss c)"
proof (induction ss arbitrary: c)
  case (Cons s ss)
  let ?c = "final_choice e [s] c"
  show ?case
  proof (cases "final_choice e ss ?c = ?c")
    case True
    with Cons.prems show ?thesis
      by (auto simp: final_choice_Cons [of e s ss] final_choice_def [of e "[s]"] split: option.splits)
  next
    case False
    from Cons.IH [OF this] show ?thesis by (simp add: final_choice_Cons [of e s ss])
  qed
qed (simp add: final_choice_def)

text \<open>The evidence one record must have to count as the answer the client saw.\<close>

definition answering_record :: "ProbeExecution \<Rightarrow> ProbeSegment \<Rightarrow> ObservedHop \<Rightarrow> bool" where
  "answering_record e s h \<longleftrightarrow>
     seg_GatewayID s = exec_GatewayID e \<and> seg_Issues s = []
     \<and> seg_RelationState s = ProbeAttemptRelationStateLinked
     \<and> map_option col_State (seg_Collection s) = Some ProbeCollectionStateSettled
     \<and> \<not> hop_InternalRedirect h \<and> hop_ResponseCode h = exec_ResponseCode e
     \<and> (\<forall>x \<in> set (seg_Hops s). hop_Correlation x = ProbeCorrelationProbeID
          \<and> request_key x = request_key h \<and> (x \<noteq> h \<longrightarrow> hop_InternalRedirect x))"

lemma answering_record_final:
  assumes f: "final_hop e (enrich_segment s) (segment_groups s) = Some i"
    and ids: "distinct (map hop_ID (qualify_hops (seg_GatewayID s) (seg_Hops s)))"
  shows "\<exists>h \<in> set (seg_Hops (enrich_segment s)). hop_ID h = i
    \<and> answering_record e (enrich_segment s) h
    \<and> exec_State e = ProbeExecutionStateCompleted \<and> exec_Error e = [] \<and> 0 < exec_ResponseCode e"
proof (rule final_hop_evidence [OF f ids])
  fix h
  assume h: "h \<in> set (seg_Hops (enrich_segment s))" "hop_ID h = i" "\<not> hop_InternalRedirect h"
      "hop_ResponseCode h = exec_ResponseCode e"
    and all: "\<And>x. x \<in> set (seg_Hops (enrich_segment s)) \<Longrightarrow>
      hop_Correlation x = ProbeCorrelationProbeID \<and> request_key x = request_key h
      \<and> (x \<noteq> h \<longrightarrow> hop_InternalRedirect x)"
    and s: "seg_RelationState (enrich_segment s) = ProbeAttemptRelationStateLinked"
      "seg_Issues (enrich_segment s) = []" "seg_GatewayID s = exec_GatewayID e"
      "col_State (segment_collection s) = ProbeCollectionStateSettled"
    and e: "exec_State e = ProbeExecutionStateCompleted" "exec_Error e = []" "0 < exec_ResponseCode e"
  have "answering_record e (enrich_segment s) h"
    unfolding answering_record_def using h(3,4) all s by simp
  with h(1,2) e show ?thesis by blast
qed

section \<open>Properties\<close>

text \<open>
  C28: \<open>EnrichProbe\<close> is idempotent: analysing an execution again changes nothing, although identities
  are qualified and issues, links and contexts are rebuilt each time.
\<close>

theorem EnrichProbe_idempotent: "EnrichProbe (EnrichProbe e) = EnrichProbe e"
  by (rule EnrichProbe_twice)

text \<open>
  C2: what \<open>EnrichProbe\<close> names as the final response is backed by evidence. The execution
  completed without error with a response code; the record is in a segment of the entry
  gateway whose collection settled, which has no issue and whose attempts are linked; it is
  the only record there not answered by an internal redirect, it carries the response code the
  client saw, and all records of the segment belong to its request and were matched by the
  probe identity. The final upstream is never another record, and is named only when the
  execution has that one segment and no issue. (Record identities are distinct, which
  \<open>Validate\<close> checks on arrival.)
\<close>

theorem final_response_evidence:
  assumes "exec_FinalResponseHopID (EnrichProbe e) \<noteq> []"
    and "\<And>s. s \<in> set (exec_Segments e) \<Longrightarrow>
      distinct (map hop_ID (qualify_hops (seg_GatewayID s) (seg_Hops s)))"
  shows "exec_State e = ProbeExecutionStateCompleted \<and> exec_Error e = [] \<and> 0 < exec_ResponseCode e
    \<and> (\<exists>s \<in> set (exec_Segments (EnrichProbe e)). \<exists>h \<in> set (seg_Hops s).
         hop_ID h = exec_FinalResponseHopID (EnrichProbe e) \<and> answering_record e s h)
    \<and> exec_FinalUpstreamHopID (EnrichProbe e) =
        (if length (exec_Segments e) = 1 \<and> exec_Issues e = []
         then exec_FinalResponseHopID (EnrichProbe e) else [])"
proof -
  let ?i = "final_choice e (exec_Segments e) []"
  have "?i \<noteq> []" using assms(1) by (simp add: EnrichProbe_fields)
  then obtain s where s: "s \<in> set (exec_Segments e)"
    and f: "final_hop e (enrich_segment s) (segment_groups s) = Some ?i"
    using final_choice_source [of e "exec_Segments e" "[]"] by blast
  obtain h where "h \<in> set (seg_Hops (enrich_segment s))" "hop_ID h = ?i"
      "answering_record e (enrich_segment s) h" "exec_State e = ProbeExecutionStateCompleted"
      "exec_Error e = []" "0 < exec_ResponseCode e"
    using answering_record_final [OF f assms(2) [OF s]] by blast
  with s show ?thesis by (auto simp: EnrichProbe_fields)
qed

text \<open>A completed probe with one segment of two attempts, the first redirected internally.\<close>

definition sample_execution :: ProbeExecution where
  "sample_execution = zero_ProbeExecution\<lparr>exec_State := ProbeExecutionStateCompleted,
     exec_ResponseCode := 200, exec_GatewayID := ''gw'',
     exec_Segments := [zero_ProbeSegment\<lparr>seg_GatewayID := ''gw'', seg_Hops := sample_hops,
       seg_Collection := Some \<lparr>col_State = ProbeCollectionStateSettled, col_CompletedAt = []\<rparr>\<rparr>]\<rparr>"

lemma final_response_evidence_witness:
  "exec_FinalResponseHopID (EnrichProbe sample_execution) = ''gw/b''
   \<and> (\<exists>s \<in> set (exec_Segments (EnrichProbe sample_execution)). \<exists>h \<in> set (seg_Hops s).
        hop_ID h = ''gw/b'' \<and> seg_RelationState s = ProbeAttemptRelationStateLinked)"
proof -
  have final: "exec_FinalResponseHopID (EnrichProbe sample_execution) = ''gw/b''" by code_simp
  have "\<forall>s \<in> set (exec_Segments sample_execution).
      distinct (map hop_ID (qualify_hops (seg_GatewayID s) (seg_Hops s)))" by code_simp
  then have "\<exists>s \<in> set (exec_Segments (EnrichProbe sample_execution)). \<exists>h \<in> set (seg_Hops s).
        hop_ID h = ''gw/b'' \<and> seg_RelationState s = ProbeAttemptRelationStateLinked"
    using final_response_evidence [of sample_execution] final unfolding answering_record_def by auto
  with final show ?thesis by blast
qed

end
