(* ===== verification/Go_Time.thy ===== *)
theory Go_Time
  imports Go_Strings
begin

text \<open>
  Go's \<open>time.Time\<close> as the program uses it: an instant in nanoseconds since the Unix epoch
  and the offset (in seconds) of the zone it prints in. \<open>parse_rfc3339\<close> is
  \<open>time.Parse(time.RFC3339, s)\<close>, which also accepts what \<open>RFC3339Nano\<close> accepts, with the
  leniencies of Go's parser (one-digit hours, a comma before the fraction);
  \<open>format_rfc3339\<close> and \<open>format_rfc3339nano\<close> are the two layouts the program prints.
\<close>

record GoTime =
  t_ns :: int
  t_offset :: int

definition days_from_civil :: "int \<Rightarrow> int \<Rightarrow> int \<Rightarrow> int" where
  "days_from_civil y m d =
     (let y' = (if m \<le> 2 then y - 1 else y);
          era = y' div 400;
          yoe = y' - era * 400;
          doy = (153 * (if m > 2 then m - 3 else m + 9) + 2) div 5 + d - 1;
          doe = yoe * 365 + yoe div 4 - yoe div 100 + doy
      in era * 146097 + doe - 719468)"

definition civil_from_days :: "int \<Rightarrow> int \<times> int \<times> int" where
  "civil_from_days n =
     (let z = n + 719468;
          era = z div 146097;
          doe = z - era * 146097;
          yoe = (doe - doe div 1460 + doe div 36524 - doe div 146096) div 365;
          doy = doe - (365 * yoe + yoe div 4 - yoe div 100);
          mp = (5 * doy + 2) div 153;
          d = doy - (153 * mp + 2) div 5 + 1;
          m = (if mp < 10 then mp + 3 else mp - 9)
      in (yoe + era * 400 + (if m \<le> 2 then 1 else 0), m, d))"

definition leap_year :: "int \<Rightarrow> bool" where
  "leap_year y \<longleftrightarrow> y mod 4 = 0 \<and> (y mod 100 \<noteq> 0 \<or> y mod 400 = 0)"

definition days_in_month :: "int \<Rightarrow> int \<Rightarrow> int" where
  "days_in_month y m =
     (if m = 2 then (if leap_year y then 29 else 28)
      else if m \<in> set [4, 6, 9, 11] then 30 else 31)"

definition nanos :: int where "nanos = 1000000000"

text \<open>\<open>time.Time{}\<close>: 1 January of year 1, UTC.\<close>

definition zero_time :: GoTime where
  "zero_time = \<lparr>t_ns = - 62135596800 * nanos, t_offset = 0\<rparr>"

definition IsZero :: "GoTime \<Rightarrow> bool" where
  "IsZero t \<longleftrightarrow> t_ns t = t_ns zero_time"

definition time_Before :: "GoTime \<Rightarrow> GoTime \<Rightarrow> bool" where
  "time_Before s t \<longleftrightarrow> t_ns s < t_ns t"

definition time_After :: "GoTime \<Rightarrow> GoTime \<Rightarrow> bool" where
  "time_After s t \<longleftrightarrow> t_ns t < t_ns s"

text \<open>\<open>t.Sub(u)\<close> saturates at the bounds of \<open>Duration\<close>.\<close>

definition time_Sub :: "GoTime \<Rightarrow> GoTime \<Rightarrow> int" where
  "time_Sub t u = clamp64 (t_ns t - t_ns u)"

definition time_Add :: "GoTime \<Rightarrow> int \<Rightarrow> GoTime" where
  "time_Add t d = t\<lparr>t_ns := t_ns t + d\<rparr>"

definition time_UTC :: "GoTime \<Rightarrow> GoTime" where
  "time_UTC t = t\<lparr>t_offset := 0\<rparr>"

section \<open>Parsing\<close>

text \<open>Small readers on byte strings: each returns the value and the rest.\<close>

definition two_digits :: "string \<Rightarrow> (int \<times> string) option" where
  "two_digits s =
     (case s of
        a # b # r \<Rightarrow> (if is_digit a \<and> is_digit b then Some (int (digits_val [a, b]), r) else None)
      | _ \<Rightarrow> None)"

text \<open>\<open>getnum(value, false)\<close>: one or two digits.\<close>

definition one_or_two_digits :: "string \<Rightarrow> (int \<times> string) option" where
  "one_or_two_digits s =
     (case s of
        [] \<Rightarrow> None
      | [a] \<Rightarrow> (if is_digit a then Some (int (digits_val [a]), []) else None)
      | a # b # r \<Rightarrow>
          (if \<not> is_digit a then None
           else if is_digit b then Some (int (digits_val [a, b]), r)
           else Some (int (digits_val [a]), b # r)))"

definition expect :: "char \<Rightarrow> string \<Rightarrow> string option" where
  "expect c s = (case s of d # r \<Rightarrow> (if c = d then Some r else None) | [] \<Rightarrow> None)"

definition read_year :: "string \<Rightarrow> (int \<times> string) option" where
  "read_year s =
     (if 4 \<le> length s \<and> list_all is_digit (take 4 s)
      then Some (int (digits_val (take 4 s)), drop 4 s) else None)"

definition in_range :: "int \<Rightarrow> int \<Rightarrow> int \<times> string \<Rightarrow> (int \<times> string) option" where
  "in_range lo hi vr = (if lo \<le> fst vr \<and> fst vr \<le> hi then Some vr else None)"

text \<open>
  A fraction the layout does not mention: a period or comma, then digits, of which the
  first nine count.
\<close>

definition read_fraction :: "string \<Rightarrow> int \<times> string" where
  "read_fraction s =
     (case s of
        p # a # r \<Rightarrow>
          (if (p = CHR ''.'' \<or> p = CHR '','') \<and> is_digit a
           then (let ds = takeWhile is_digit (a # r); used = take 9 ds
                 in (int (digits_val used) * 10 ^ (9 - length used), dropWhile is_digit (a # r)))
           else (0, s))
      | _ \<Rightarrow> (0, s))"

text \<open>The zone: \<open>Z\<close>, or a sign and \<open>hh:mm\<close>; the offset in seconds.\<close>

definition read_zone :: "string \<Rightarrow> (int \<times> string) option" where
  "read_zone s =
     (case s of
        [] \<Rightarrow> None
      | z # r \<Rightarrow>
          (if z = CHR ''Z'' then Some (0, r)
           else if z = CHR ''+'' \<or> z = CHR ''-'' then
             Option.bind (two_digits r) (\<lambda>(hh, r1).
             Option.bind (expect (CHR '':'') r1) (\<lambda>r2.
             Option.bind (two_digits r2) (\<lambda>(mm, r3).
               if hh \<le> 24 \<and> mm \<le> 60
               then Some ((if z = CHR ''-'' then - 1 else 1) * (hh * 60 + mm) * 60, r3)
               else None)))
           else None))"

definition make_time :: "int \<Rightarrow> int \<Rightarrow> int \<Rightarrow> int \<Rightarrow> int \<Rightarrow> int \<Rightarrow> int \<Rightarrow> int \<Rightarrow> GoTime" where
  "make_time y mo d h mi s ns off =
     \<lparr>t_ns = (days_from_civil y mo d * 86400 + h * 3600 + mi * 60 + s - off) * nanos + ns,
      t_offset = off\<rparr>"

definition parse_rfc3339 :: "string \<Rightarrow> GoTime option" where
  "parse_rfc3339 s0 =
     Option.bind (read_year s0) (\<lambda>(y, s1).
     Option.bind (expect (CHR ''-'') s1) (\<lambda>s2.
     Option.bind (Option.bind (two_digits s2) (in_range 1 12)) (\<lambda>(mo, s3).
     Option.bind (expect (CHR ''-'') s3) (\<lambda>s4.
     Option.bind (two_digits s4) (\<lambda>(d, s5).
     Option.bind (expect (CHR ''T'') s5) (\<lambda>s6.
     Option.bind (Option.bind (one_or_two_digits s6) (in_range 0 23)) (\<lambda>(h, s7).
     Option.bind (expect (CHR '':'') s7) (\<lambda>s8.
     Option.bind (Option.bind (two_digits s8) (in_range 0 59)) (\<lambda>(mi, s9).
     Option.bind (expect (CHR '':'') s9) (\<lambda>s10.
     Option.bind (Option.bind (two_digits s10) (in_range 0 59)) (\<lambda>(sec, s11).
     (case read_fraction s11 of (ns, s12) \<Rightarrow>
     Option.bind (read_zone s12) (\<lambda>(off, s13).
       if s13 = [] \<and> 1 \<le> d \<and> d \<le> days_in_month y mo
       then Some (make_time y mo d h mi sec ns off) else None)))))))))))))"

section \<open>Printing\<close>

definition pad_digits :: "nat \<Rightarrow> int \<Rightarrow> string" where
  "pad_digits w i =
     (let ds = nat_digits (nat \<bar>i\<bar>)
      in (if i < 0 then ''-'' else []) @ replicate (w - length ds) (CHR ''0'') @ ds)"

definition format_zone :: "int \<Rightarrow> string" where
  "format_zone off =
     (if off = 0 then ''Z''
      else (let m = \<bar>off\<bar> div 60
            in (if off < 0 then ''-'' else ''+'') @ pad_digits 2 (m div 60) @ '':''
               @ pad_digits 2 (m mod 60)))"

definition format_clock :: "GoTime \<Rightarrow> string" where
  "format_clock t =
     (let secs = t_ns t div nanos + t_offset t; rest = secs mod 86400
      in case civil_from_days (secs div 86400) of (y, m, d) \<Rightarrow>
           pad_digits 4 y @ ''-'' @ pad_digits 2 m @ ''-'' @ pad_digits 2 d @ ''T''
           @ pad_digits 2 (rest div 3600) @ '':'' @ pad_digits 2 (rest mod 3600 div 60) @ '':''
           @ pad_digits 2 (rest mod 60))"

definition format_rfc3339 :: "GoTime \<Rightarrow> string" where
  "format_rfc3339 t = format_clock t @ format_zone (t_offset t)"

text \<open>The layout \<open>.999999999\<close>: the fraction without trailing zeros, nothing when it is zero.\<close>

definition format_fraction :: "int \<Rightarrow> string" where
  "format_fraction ns =
     (if ns = 0 then []
      else CHR ''.'' # rev (dropWhile (\<lambda>c. c = CHR ''0'') (rev (pad_digits 9 ns))))"

definition format_rfc3339nano :: "GoTime \<Rightarrow> string" where
  "format_rfc3339nano t =
     format_clock t @ format_fraction (t_ns t mod nanos) @ format_zone (t_offset t)"

lemma format_clock_nonempty [simp]: "format_clock t \<noteq> []"
  unfolding format_clock_def Let_def split_beta
  by (simp only: append_is_Nil_conv list.distinct simp_thms)

lemma format_nonempty [simp]: "format_rfc3339 t \<noteq> []" "format_rfc3339nano t \<noteq> []"
  by (simp_all add: format_rfc3339_def format_rfc3339nano_def)

end
