(* ===== verification/Federation_Store.thy ===== *)
theory Federation_Store
  imports Link_Rules Enrich_Probe Go_Time
begin

text \<open>
  The state of the federation server (\<open>Store\<close> of \<open>internal/federation/store.go\<close>) and the
  operations on the received snapshots: \<open>ReceiveSnapshot\<close>, \<open>Context\<close>, \<open>Resources\<close>,
  \<open>federated\<close> (behind \<open>Topology\<close> and \<open>Findings\<close>), \<open>resolveGateway\<close> and
  \<open>resolveProbeEntry\<close>. The clock readings are arguments. Go maps that are iterated are
  association lists in iteration order; a command queue is the list of commands in the
  channel, a pending command holds the content of its one-slot result channel.
\<close>

section \<open>State\<close>

record receivedSnapshot =
  rs_payload :: AgentSnapshot
  rs_receivedAt :: GoTime

record pendingCommand =
  pend_clusterID :: string
  pend_result :: "AgentCommandResult option"

record Store =
  st_preferredClusterID :: string
  st_staleAfter :: int
  st_snapshots :: "(string \<times> receivedSnapshot) list"
  st_commandQueues :: "string \<rightharpoonup> AgentCommand list"
  st_pendingCommands :: "string \<rightharpoonup> pendingCommand"
  st_probes :: "string \<rightharpoonup> ProbeExecution"

definition NewStore :: "string \<Rightarrow> int \<Rightarrow> Store" where
  "NewStore preferredClusterID staleAfter =
     \<lparr>st_preferredClusterID = preferredClusterID,
      st_staleAfter = (if staleAfter \<le> 0 then 2 * 60 * nanos else staleAfter),
      st_snapshots = [], st_commandQueues = Map.empty, st_pendingCommands = Map.empty,
      st_probes = Map.empty\<rparr>"

section \<open>Receiving a snapshot\<close>

datatype ReceiveError =
    ClusterIDRequired
  | ContextClusterMismatch string string
  | NodeOfOtherCluster string string

text \<open>The loop over the nodes: an absent cluster is filled in, another cluster is an error.\<close>

fun receive_nodes :: "string \<Rightarrow> TopologyNode list \<Rightarrow> ReceiveError + TopologyNode list" where
  "receive_nodes clusterID [] = Inr []"
| "receive_nodes clusterID (node0 # nodes) =
     (let node = (if node_ClusterID node0 = [] then node0\<lparr>node_ClusterID := clusterID\<rparr> else node0) in
      if node_ClusterID node \<noteq> clusterID
      then Inl (NodeOfOtherCluster (node_ID node) (node_ClusterID node))
      else map_sum id (\<lambda>rest. node # rest) (receive_nodes clusterID nodes))"

definition payload_cluster :: "AgentSnapshot \<Rightarrow> string" where
  "payload_cluster payload =
     (let clusterID = TrimSpace (tc_ID (as_Cluster payload)) in
      if clusterID = [] then TrimSpace (cl_ID (ctx_Cluster (as_Context payload))) else clusterID)"

definition accept_payload ::
    "GoTime \<Rightarrow> string \<Rightarrow> TopologyNode list \<Rightarrow> AgentSnapshot \<Rightarrow> AgentSnapshot" where
  "accept_payload now clusterID nodes payload =
     (let cluster = as_Cluster payload in
      payload\<lparr>
        as_Cluster := cluster\<lparr>
          tc_ID := clusterID,
          tc_Name := (if tc_Name cluster = [] then clusterID else tc_Name cluster),
          tc_ConnectionState :=
            (if tc_ConnectionState cluster = [] then ''connected'' else tc_ConnectionState cluster),
          tc_Snapshot :=
            (if sn_ID (tc_Snapshot cluster) = [] then ctx_Snapshot (as_Context payload)
             else tc_Snapshot cluster)\<rparr>,
        as_Topology := (as_Topology payload)\<lparr>topo_Nodes := nodes\<rparr>,
        as_SentAt := (if as_SentAt payload = [] then format_rfc3339 (time_UTC now)
                      else as_SentAt payload)\<rparr>)"

definition receive_payload ::
    "GoTime \<Rightarrow> AgentSnapshot \<Rightarrow> ReceiveError + string \<times> AgentSnapshot" where
  "receive_payload now payload =
     (let clusterID = payload_cluster payload;
          contextCluster = cl_ID (ctx_Cluster (as_Context payload))
      in
      if clusterID = [] then Inl ClusterIDRequired
      else if contextCluster \<noteq> [] \<and> contextCluster \<noteq> clusterID
      then Inl (ContextClusterMismatch contextCluster clusterID)
      else
        (case receive_nodes clusterID (topo_Nodes (as_Topology payload)) of
           Inl e \<Rightarrow> Inl e
         | Inr nodes \<Rightarrow> Inr (clusterID, accept_payload now clusterID nodes payload)))"

definition ReceiveSnapshot ::
    "GoTime \<Rightarrow> GoTime \<Rightarrow> AgentSnapshot \<Rightarrow> Store \<Rightarrow> (ReceiveError + unit) \<times> Store" where
  "ReceiveSnapshot now receivedAt payload s =
     (case receive_payload now payload of
        Inl e \<Rightarrow> (Inl e, s)
      | Inr (clusterID, payload') \<Rightarrow>
          (Inr (), s\<lparr>st_snapshots :=
             AList.update clusterID \<lparr>rs_payload = payload', rs_receivedAt = receivedAt\<rparr>
               (st_snapshots s)\<rparr>))"

section \<open>Reading the snapshots\<close>

abbreviation snapshot_id :: "receivedSnapshot \<Rightarrow> string" where
  "snapshot_id r \<equiv> tc_ID (as_Cluster (rs_payload r))"

definition snapshotList :: "Store \<Rightarrow> receivedSnapshot list" where
  "snapshotList s =
     slice_stable (\<lambda>a b. snapshot_id a < snapshot_id b) (map snd (st_snapshots s))"

definition Context_of :: "Store \<Rightarrow> Context" where
  "Context_of s =
     (case snapshotList s of
        [] \<Rightarrow> zero_Context\<lparr>
          ctx_Cluster := zero_Cluster\<lparr>cl_ID := st_preferredClusterID s, cl_Name := st_preferredClusterID s\<rparr>,
          ctx_Snapshot := zero_Snapshot\<lparr>sn_State := ''waiting-for-agents''\<rparr>\<rparr>
      | first # rest \<Rightarrow>
          (let selected = (case find (\<lambda>r. snapshot_id r = st_preferredClusterID s) (first # rest) of
                 Some r \<Rightarrow> rs_payload r | None \<Rightarrow> rs_payload first);
               cluster = as_Cluster selected
           in (as_Context selected)\<lparr>
                ctx_Cluster := \<lparr>cl_ID = tc_ID cluster, cl_Name = tc_Name cluster,
                                cl_Version = tc_Version cluster\<rparr>,
                ctx_Snapshot := tc_Snapshot cluster\<rparr>))"

definition resource_matches :: "string \<Rightarrow> string \<Rightarrow> Resource \<Rightarrow> bool" where
  "resource_matches query clusterID resource \<longleftrightarrow>
     query = [] \<or> Contains (ToLower (res_Kind resource @ '' '' @ res_Name resource @ '' ''
       @ res_Namespace resource @ '' '' @ clusterID)) query"

definition Resources :: "string \<Rightarrow> Store \<Rightarrow> Resource list" where
  "Resources query0 s =
     (let query = ToLower (TrimSpace query0) in
      concat (map (\<lambda>r.
          filter (resource_matches query (snapshot_id r))
            (map (\<lambda>resource. resource\<lparr>res_ID := globalID (snapshot_id r) (res_ID resource)\<rparr>)
              (as_Resources (rs_payload r))))
        (snapshotList s)))"

section \<open>The federated topology\<close>

record Federation =
  fed_topology :: Topology
  fed_findings :: "Finding list"
  fed_snapshotKeys :: "string list"
  fed_earliest :: GoTime
  fed_latest :: GoTime
  fed_stale :: bool

definition global_node :: "string \<Rightarrow> TopologyNode \<Rightarrow> TopologyNode" where
  "global_node c node = node\<lparr>node_ID := globalID c (node_ID node)\<rparr>"

definition global_edge :: "string \<Rightarrow> TopologyEdge \<Rightarrow> TopologyEdge" where
  "global_edge c edge =
     edge\<lparr>edge_From := globalID c (edge_From edge), edge_To := globalID c (edge_To edge)\<rparr>"

definition global_entry :: "string \<Rightarrow> ProbeEntry \<Rightarrow> ProbeEntry" where
  "global_entry c entry =
     entry\<lparr>entry_ID := globalID c (entry_ID entry),
           entry_GatewayID := globalID c (entry_GatewayID entry), entry_ClusterID := c\<rparr>"

definition global_finding :: "string \<Rightarrow> Finding \<Rightarrow> Finding" where
  "global_finding c finding =
     finding\<lparr>find_ID := c @ '':'' @ find_ID finding,
             find_TargetID := globalID c (find_TargetID finding)\<rparr>"

definition received_cluster :: "GoTime \<Rightarrow> int \<Rightarrow> receivedSnapshot \<Rightarrow> TopologyCluster" where
  "received_cluster now staleAfter received =
     (let cluster = as_Cluster (rs_payload received) in
      if time_Sub now (rs_receivedAt received) > staleAfter
      then cluster\<lparr>tc_ConnectionState := ''stale''\<rparr> else cluster)"

definition federate_step ::
    "GoTime \<Rightarrow> string \<Rightarrow> int \<Rightarrow> Federation \<Rightarrow> receivedSnapshot \<Rightarrow> Federation" where
  "federate_step now preferred staleAfter fed received =
     (let payload = rs_payload received;
          cluster = received_cluster now staleAfter received;
          c = tc_ID cluster;
          snapshot = tc_Snapshot cluster;
          observed = parse_rfc3339 (sn_ObservedAt snapshot);
          topology = fed_topology fed
      in
      \<lparr>fed_topology = topology\<lparr>
         topo_Clusters := topo_Clusters topology @ [cluster],
         topo_Nodes := topo_Nodes topology @ map (global_node c) (topo_Nodes (as_Topology payload)),
         topo_Edges := topo_Edges topology @ map (global_edge c) (topo_Edges (as_Topology payload)),
         topo_ProbeEntries := topo_ProbeEntries topology
           @ map (global_entry c) (topo_ProbeEntries (as_Topology payload)),
         topo_SnapshotID :=
           (if c = preferred \<or> topo_SnapshotID topology = [] then sn_ID snapshot
            else topo_SnapshotID topology)\<rparr>,
       fed_findings = fed_findings fed @ map (global_finding c) (as_Findings payload),
       fed_snapshotKeys = fed_snapshotKeys fed @ [c @ '':'' @ sn_ID snapshot],
       fed_earliest = (case observed of None \<Rightarrow> fed_earliest fed
         | Some t \<Rightarrow> if IsZero (fed_earliest fed) \<or> time_Before t (fed_earliest fed) then t
                    else fed_earliest fed),
       fed_latest = (case observed of None \<Rightarrow> fed_latest fed
         | Some t \<Rightarrow> if IsZero (fed_latest fed) \<or> time_After t (fed_latest fed) then t
                    else fed_latest fed),
       fed_stale = (fed_stale fed \<or> time_Sub now (rs_receivedAt received) > staleAfter)\<rparr>)"

definition federation_start :: Federation where
  "federation_start = \<lparr>fed_topology = zero_Topology, fed_findings = [], fed_snapshotKeys = [],
     fed_earliest = zero_time, fed_latest = zero_time, fed_stale = False\<rparr>"

text \<open>
  \<open>digest\<close> stands for the first eight bytes of SHA-256 in hexadecimal; the clock is read once
  per snapshot in the code, here once.
\<close>

definition federated :: "(string \<Rightarrow> string) \<Rightarrow> GoTime \<Rightarrow> Store \<Rightarrow> Topology \<times> Finding list" where
  "federated digest now s =
     (let snapshots = snapshotList s in
      if snapshots = []
      then (zero_Topology\<lparr>topo_Consistency := SnapshotConsistencyWaitingForAgents\<rparr>, [])
      else
        (let fed = foldl (federate_step now (st_preferredClusterID s) (st_staleAfter s))
               federation_start snapshots;
             topology = fed_topology fed
         in case discoverLinks (topo_Nodes topology) (topo_Edges topology) of (links, linkFindings) \<Rightarrow>
           (topology\<lparr>
              topo_Edges := topo_Edges topology @ links,
              topo_ObservedAt := format_rfc3339 (fed_latest fed),
              topo_Consistency :=
                (if fed_stale fed then SnapshotConsistencyRemoteUnavailable
                 else if \<not> IsZero (fed_earliest fed)
                         \<and> time_Sub (fed_latest fed) (fed_earliest fed) > 60 * nanos
                 then SnapshotConsistencyTimeSkew
                 else SnapshotConsistencyConsistentWindow),
              topo_FederatedSnapshotID := ''federated-'' @ digest (Join (fed_snapshotKeys fed) ''|'')\<rparr>,
            fed_findings fed @ linkFindings)))"

definition Topology_of :: "(string \<Rightarrow> string) \<Rightarrow> GoTime \<Rightarrow> Store \<Rightarrow> Topology" where
  "Topology_of digest now s = fst (federated digest now s)"

definition Findings_of :: "(string \<Rightarrow> string) \<Rightarrow> GoTime \<Rightarrow> Store \<Rightarrow> Finding list" where
  "Findings_of digest now s = snd (federated digest now s)"

section \<open>Resolving what a client names\<close>

definition snapshotHasGateway :: "AgentSnapshot \<Rightarrow> string \<Rightarrow> bool" where
  "snapshotHasGateway snapshot gatewayID \<longleftrightarrow>
     list_ex (\<lambda>node. node_Kind node = TopologyNodeKindGateway \<and> node_ID node = gatewayID)
       (topo_Nodes (as_Topology snapshot))"

datatype ResolveError =
    GatewayIDRequired
  | OwnerNotRegistered string
  | GatewayNotInCluster string string
  | GatewayInSeveralClusters string
  | GatewayNotFound string

text \<open>The scan over the snapshot map: the second owner ends it with an error.\<close>

fun scan_owners ::
    "string \<Rightarrow> string \<Rightarrow> (string \<times> receivedSnapshot) list \<Rightarrow> ResolveError + string" where
  "scan_owners gatewayID owner [] = Inr owner"
| "scan_owners gatewayID owner ((clusterID, received) # rest) =
     (if snapshotHasGateway (rs_payload received) gatewayID
      then (if owner \<noteq> [] then Inl (GatewayInSeveralClusters gatewayID)
            else scan_owners gatewayID clusterID rest)
      else scan_owners gatewayID owner rest)"

definition resolveGateway :: "string \<Rightarrow> Store \<Rightarrow> ResolveError + string \<times> string" where
  "resolveGateway gatewayID0 s =
     (let gatewayID = TrimSpace gatewayID0 in
      if gatewayID = [] then Inl GatewayIDRequired
      else
        (case Cut gatewayID ''::'' of
           Some (clusterID, local_id) \<Rightarrow>
             (case map_of (st_snapshots s) clusterID of
                None \<Rightarrow> Inl (OwnerNotRegistered clusterID)
              | Some received \<Rightarrow>
                  if snapshotHasGateway (rs_payload received) local_id
                  then Inr (clusterID, local_id)
                  else Inl (GatewayNotInCluster local_id clusterID))
         | None \<Rightarrow>
             (case scan_owners gatewayID [] (st_snapshots s) of
                Inl e \<Rightarrow> Inl e
              | Inr owner \<Rightarrow>
                  if owner = [] then Inl (GatewayNotFound gatewayID) else Inr (owner, gatewayID))))"

datatype EntryError =
    EntryFieldsRequired
  | GatewayOfOtherCluster string string
  | EntryOfOtherCluster string string
  | SourceNotRegistered string
  | EntryGatewayNotFound string string
  | EntrySchemeUnsupported string
  | EntryNotFound string string string

text \<open>An identity qualified by a cluster must name the source cluster.\<close>

definition local_part :: "string \<Rightarrow> string \<Rightarrow> string + string" where
  "local_part clusterID i =
     (case Cut i ''::'' of
        None \<Rightarrow> Inr i
      | Some (owner, local_id) \<Rightarrow> if owner \<noteq> clusterID then Inl owner else Inr local_id)"

definition resolveProbeEntry ::
    "string \<Rightarrow> string \<Rightarrow> string \<Rightarrow> Store \<Rightarrow> EntryError + string \<times> string \<times> ProbeEntry" where
  "resolveProbeEntry clusterID0 gatewayID0 entryID0 s =
     (let clusterID = TrimSpace clusterID0; gatewayID1 = TrimSpace gatewayID0;
          entryID1 = TrimSpace entryID0
      in
      if clusterID = [] \<or> gatewayID1 = [] \<or> entryID1 = [] then Inl EntryFieldsRequired
      else
        (case local_part clusterID gatewayID1 of
           Inl owner \<Rightarrow> Inl (GatewayOfOtherCluster owner clusterID)
         | Inr gatewayID \<Rightarrow>
        (case local_part clusterID entryID1 of
           Inl owner \<Rightarrow> Inl (EntryOfOtherCluster owner clusterID)
         | Inr entryID \<Rightarrow>
        (case map_of (st_snapshots s) clusterID of
           None \<Rightarrow> Inl (SourceNotRegistered clusterID)
         | Some received \<Rightarrow>
             if \<not> snapshotHasGateway (rs_payload received) gatewayID
             then Inl (EntryGatewayNotFound gatewayID clusterID)
             else
               (case find (\<lambda>entry. entry_ID entry = entryID \<and> entry_GatewayID entry = gatewayID)
                       (topo_ProbeEntries (as_Topology (rs_payload received))) of
                  None \<Rightarrow> Inl (EntryNotFound entryID gatewayID clusterID)
                | Some entry \<Rightarrow>
                    if \<not> ProbeScheme_IsValid (entry_Scheme entry)
                    then Inl (EntrySchemeUnsupported (entry_Scheme entry))
                    else Inr (clusterID, gatewayID, entry))))))"

section \<open>The snapshots of a store\<close>

text \<open>
  Every snapshot is filed under its own cluster identity, which is trimmed and not empty,
  and holds nodes of that cluster only.
\<close>

definition payload_ok :: "string \<Rightarrow> AgentSnapshot \<Rightarrow> bool" where
  "payload_ok c payload \<longleftrightarrow>
     c \<noteq> [] \<and> TrimSpace c = c \<and> tc_ID (as_Cluster payload) = c
     \<and> tc_Name (as_Cluster payload) \<noteq> [] \<and> tc_ConnectionState (as_Cluster payload) \<noteq> []
     \<and> cl_ID (ctx_Cluster (as_Context payload)) \<in> {[], c}
     \<and> list_all (\<lambda>node. node_ClusterID node = c) (topo_Nodes (as_Topology payload))
     \<and> as_SentAt payload \<noteq> []"

definition snapshots_ok :: "Store \<Rightarrow> bool" where
  "snapshots_ok s \<longleftrightarrow>
     distinct (map fst (st_snapshots s))
     \<and> list_all (\<lambda>(c, r). payload_ok c (rs_payload r)) (st_snapshots s)"

lemma receive_nodes_Inr:
  "receive_nodes c nodes = Inr nodes' \<longleftrightarrow>
     list_all (\<lambda>n. node_ClusterID n \<in> {[], c}) nodes
     \<and> nodes' = map (\<lambda>n. n\<lparr>node_ClusterID := c\<rparr>) nodes"
proof (induction nodes arbitrary: nodes')
  case (Cons n nodes)
  show ?case
  proof (cases "receive_nodes c nodes")
    case (Inl e)
    with Cons [of "map (\<lambda>n. n\<lparr>node_ClusterID := c\<rparr>) nodes"] show ?thesis by (auto simp: Let_def)
  next
    case (Inr r)
    with Cons [of r] show ?thesis by (auto simp: Let_def)
  qed
qed auto

lemma receive_payload_Inr:
  "receive_payload now payload = Inr (c, payload') \<longleftrightarrow>
     c = payload_cluster payload \<and> c \<noteq> [] \<and> cl_ID (ctx_Cluster (as_Context payload)) \<in> {[], c}
     \<and> (\<exists>nodes. receive_nodes c (topo_Nodes (as_Topology payload)) = Inr nodes
          \<and> payload' = accept_payload now c nodes payload)"
  by (cases "receive_nodes (payload_cluster payload) (topo_Nodes (as_Topology payload))")
    (auto simp: receive_payload_def Let_def)

lemma receive_payload_ok:
  assumes "receive_payload now payload = Inr (c, payload')"
  shows "payload_ok c payload'"
proof -
  from assms obtain nodes where p: "payload' = accept_payload now c nodes payload"
    and c: "c = payload_cluster payload" "c \<noteq> []" "cl_ID (ctx_Cluster (as_Context payload)) \<in> {[], c}"
    and nodes: "receive_nodes c (topo_Nodes (as_Topology payload)) = Inr nodes"
    by (auto simp: receive_payload_Inr)
  have "TrimSpace c = c" using c(1) by (simp add: payload_cluster_def Let_def)
  moreover have "list_all (\<lambda>node. node_ClusterID node = c) nodes"
    using nodes by (auto simp: receive_nodes_Inr list_all_iff)
  ultimately show ?thesis
    using c(2,3) unfolding p payload_ok_def accept_payload_def by (simp add: Let_def)
qed

lemma snapshots_ok_receive [gl_inv]:
  assumes "snapshots_ok s"
  shows "snapshots_ok (snd (ReceiveSnapshot now at payload s))"
proof (cases "receive_payload now payload")
  case (Inr cp)
  obtain c p where cp: "cp = (c, p)" by force
  with Inr have ok: "payload_ok c p" by (simp add: receive_payload_ok)
  from assms have d: "distinct (map fst (st_snapshots s))" by (simp add: snapshots_ok_def)
  have "payload_ok k (rs_payload r)"
    if "(k, r) \<in> set (AList.update c \<lparr>rs_payload = p, rs_receivedAt = at\<rparr> (st_snapshots s))" for k r
    using set_update_cases [OF that d] ok assms by (auto simp: snapshots_ok_def list_all_iff)
  with d show ?thesis
    by (auto simp: ReceiveSnapshot_def Inr cp snapshots_ok_def list_all_iff distinct_update)
qed (use assms in \<open>simp add: ReceiveSnapshot_def\<close>)

lemma ReceiveSnapshot_other_fields [simp]:
  "st_commandQueues (snd (ReceiveSnapshot now at payload s)) = st_commandQueues s"
  "st_pendingCommands (snd (ReceiveSnapshot now at payload s)) = st_pendingCommands s"
  "st_probes (snd (ReceiveSnapshot now at payload s)) = st_probes s"
  by (simp_all add: ReceiveSnapshot_def split: sum.split prod.split)

lemma snapshots_ok_id:
  "snapshots_ok s \<Longrightarrow> map snapshot_id (map snd (st_snapshots s)) = map fst (st_snapshots s)"
  by (auto simp: snapshots_ok_def list_all_iff payload_ok_def)

lemma snapshotList_sort:
  "snapshotList s = sort_key snapshot_id (map snd (st_snapshots s))"
  unfolding snapshotList_def by (rule slice_stable_key) simp

lemma set_snapshotList: "set (snapshotList s) = snd ` set (st_snapshots s)"
  by (simp add: snapshotList_def)

lemma snapshotList_order:
  assumes "snapshots_ok s" "mset (st_snapshots s) = mset (st_snapshots s')"
  shows "snapshotList s = snapshotList s'"
proof -
  let ?xs = "map snd (st_snapshots s)" let ?ys = "map snd (st_snapshots s')"
  have "distinct (map snapshot_id ?xs)"
    unfolding snapshots_ok_id [OF assms(1)] using assms(1) by (simp add: snapshots_ok_def)
  note dx = this
  have m: "mset ?xs = mset ?ys" using assms(2) by simp
  then have s: "set ?xs = set ?ys" by (rule mset_eq_setD)
  from m have "mset (map snapshot_id ?xs) = mset (map snapshot_id ?ys)" by (simp only: mset_map)
  from mset_eq_imp_distinct_iff [OF this] dx have "distinct (map snapshot_id ?ys)" by blast
  note d = dx this
  have sorted: "distinct (map snapshot_id (sort_key snapshot_id zs))"
    if "distinct (map snapshot_id zs)" for zs
    using that mset_eq_imp_distinct_iff
      [of "map snapshot_id (sort_key snapshot_id zs)" "map snapshot_id zs"] by simp
  have "sort_key snapshot_id ?xs = sort_key snapshot_id ?ys"
  proof (rule map_sorted_distinct_set_unique)
    show "inj_on snapshot_id (set (sort_key snapshot_id ?xs) \<union> set (sort_key snapshot_id ?ys))"
      unfolding set_sort s [symmetric] Un_absorb using d(1) by (simp only: distinct_map)
  qed (simp_all only: sorted d set_sort s sorted_sort_key)
  then show ?thesis by (simp add: snapshotList_sort)
qed

section \<open>The loop over the snapshots\<close>

lemma received_cluster_id [simp]: "tc_ID (received_cluster now w r) = snapshot_id r"
  "tc_Snapshot (received_cluster now w r) = tc_Snapshot (as_Cluster (rs_payload r))"
  by (simp_all add: received_cluster_def Let_def)

definition global_nodes :: "receivedSnapshot list \<Rightarrow> TopologyNode list" where
  "global_nodes rs =
     concat (map (\<lambda>r. map (global_node (snapshot_id r)) (topo_Nodes (as_Topology (rs_payload r)))) rs)"

definition global_edges :: "receivedSnapshot list \<Rightarrow> TopologyEdge list" where
  "global_edges rs =
     concat (map (\<lambda>r. map (global_edge (snapshot_id r)) (topo_Edges (as_Topology (rs_payload r)))) rs)"

definition observed_times :: "receivedSnapshot list \<Rightarrow> GoTime list" where
  "observed_times rs =
     List.map_filter (\<lambda>r. parse_rfc3339 (sn_ObservedAt (tc_Snapshot (as_Cluster (rs_payload r))))) rs"

definition earlier :: "GoTime \<Rightarrow> GoTime \<Rightarrow> GoTime" where
  "earlier e t = (if IsZero e \<or> time_Before t e then t else e)"

definition later :: "GoTime \<Rightarrow> GoTime \<Rightarrow> GoTime" where
  "later l t = (if IsZero l \<or> time_After t l then t else l)"

lemma federate_loop:
  "topo_Nodes (fed_topology (foldl (federate_step now p w) fed rs)) =
     topo_Nodes (fed_topology fed) @ global_nodes rs"
  "topo_Edges (fed_topology (foldl (federate_step now p w) fed rs)) =
     topo_Edges (fed_topology fed) @ global_edges rs"
  "fed_stale (foldl (federate_step now p w) fed rs) \<longleftrightarrow>
     fed_stale fed \<or> list_ex (\<lambda>r. time_Sub now (rs_receivedAt r) > w) rs"
  "fed_earliest (foldl (federate_step now p w) fed rs) =
     foldl earlier (fed_earliest fed) (observed_times rs)"
  "fed_latest (foldl (federate_step now p w) fed rs) =
     foldl later (fed_latest fed) (observed_times rs)"
  by (induction rs arbitrary: fed)
    (simp_all add: federate_step_def Let_def global_nodes_def global_edges_def observed_times_def
      List.map_filter_simps earlier_def later_def disj_assoc split: option.split)

lemma federated_parts:
  "topo_Nodes (Topology_of digest now s) = global_nodes (snapshotList s)"
  "topo_Edges (Topology_of digest now s) = global_edges (snapshotList s)
     @ fst (discoverLinks (global_nodes (snapshotList s)) (global_edges (snapshotList s)))"
proof -
  have "discoverLinks [] [] = ([], [])"
    by (simp add: discoverLinks_def discoverLinksWithRules_def outbound_candidates_def)
  then show "topo_Nodes (Topology_of digest now s) = global_nodes (snapshotList s)"
    "topo_Edges (Topology_of digest now s) = global_edges (snapshotList s)
     @ fst (discoverLinks (global_nodes (snapshotList s)) (global_edges (snapshotList s)))"
    by (simp_all add: Topology_of_def federated_def Let_def federate_loop federation_start_def
        zero_Topology_def global_nodes_def [of "[]"] global_edges_def [of "[]"] split: prod.split)
qed

lemma earliest_time:
  assumes "\<forall>t \<in> set ts. \<not> IsZero t" "ts \<noteq> []"
  shows "foldl earlier zero_time ts \<in> set ts
    \<and> (\<forall>t \<in> set ts. t_ns (foldl earlier zero_time ts) \<le> t_ns t)"
  using assms
proof (induction ts rule: rev_induct)
  case (snoc t ts)
  show ?case
  proof (cases "ts = []")
    case True
    then show ?thesis by (simp add: earlier_def IsZero_def)
  next
    case False
    let ?e = "foldl earlier zero_time ts"
    from snoc False have IH: "?e \<in> set ts" "\<forall>u \<in> set ts. t_ns ?e \<le> t_ns u" by auto
    with snoc.prems have "foldl earlier zero_time (ts @ [t]) = (if t_ns t < t_ns ?e then t else ?e)"
      by (simp add: earlier_def time_Before_def)
    with IH show ?thesis by (cases "t_ns t < t_ns ?e") fastforce+
  qed
qed simp

lemma latest_time:
  assumes "\<forall>t \<in> set ts. \<not> IsZero t" "ts \<noteq> []"
  shows "foldl later zero_time ts \<in> set ts
    \<and> (\<forall>t \<in> set ts. t_ns t \<le> t_ns (foldl later zero_time ts))"
  using assms
proof (induction ts rule: rev_induct)
  case (snoc t ts)
  show ?case
  proof (cases "ts = []")
    case True
    then show ?thesis by (simp add: later_def IsZero_def)
  next
    case False
    let ?l = "foldl later zero_time ts"
    from snoc False have IH: "?l \<in> set ts" "\<forall>u \<in> set ts. t_ns u \<le> t_ns ?l" by auto
    with snoc.prems have "foldl later zero_time (ts @ [t]) = (if t_ns ?l < t_ns t then t else ?l)"
      by (simp add: later_def time_After_def)
    with IH show ?thesis by (cases "t_ns ?l < t_ns t") fastforce+
  qed
qed simp

lemma time_Sub_mono: "t_ns a \<le> t_ns a' \<Longrightarrow> t_ns b' \<le> t_ns b \<Longrightarrow> time_Sub a b \<le> time_Sub a' b'"
  by (auto simp: time_Sub_def clamp64_def int64_min_def int64_max_def)

text \<open>The window is skewed when two clusters were observed more than a minute apart.\<close>

lemma skew_iff:
  assumes "\<forall>t \<in> set ts. \<not> IsZero t"
  shows "\<not> IsZero (foldl earlier zero_time ts)
      \<and> time_Sub (foldl later zero_time ts) (foldl earlier zero_time ts) > 60 * nanos
    \<longleftrightarrow> (\<exists>t1 \<in> set ts. \<exists>t2 \<in> set ts. time_Sub t2 t1 > 60 * nanos)"
proof (cases "ts = []")
  case True
  then show ?thesis by (simp add: IsZero_def)
next
  case False
  note ext = earliest_time [OF assms False] latest_time [OF assms False]
  have "time_Sub t2 t1 \<le> time_Sub (foldl later zero_time ts) (foldl earlier zero_time ts)"
    if "t1 \<in> set ts" "t2 \<in> set ts" for t1 t2
    using that ext by (intro time_Sub_mono) auto
  then show ?thesis using ext assms by (meson less_le_trans)
qed

section \<open>Owners of a gateway\<close>

definition owners :: "string \<Rightarrow> (string \<times> receivedSnapshot) list \<Rightarrow> string list" where
  "owners g xs = map fst (filter (\<lambda>(c, r). snapshotHasGateway (rs_payload r) g) xs)"

lemma owners_simps [simp]:
  "owners g [] = []"
  "owners g ((c, r) # xs) =
     (if snapshotHasGateway (rs_payload r) g then c # owners g xs else owners g xs)"
  by (simp_all add: owners_def)

lemma scan_owners_Inr:
  assumes "[] \<notin> fst ` set xs"
  shows "scan_owners g ow xs = Inr c \<longleftrightarrow>
    (if ow = [] then owners g xs = [c] \<or> owners g xs = [] \<and> c = [] else owners g xs = [] \<and> c = ow)"
  using assms by (induction g ow xs rule: scan_owners.induct) auto

lemma set_owners: "set (owners g xs) = {c. \<exists>r. (c, r) \<in> set xs \<and> snapshotHasGateway (rs_payload r) g}"
  by (auto simp: owners_def image_iff)

lemma distinct_owners: "distinct (map fst xs) \<Longrightarrow> distinct (owners g xs)"
  unfolding owners_def by (rule distinct_map_filter)

lemma owners_single:
  assumes "distinct (map fst xs)"
  shows "owners g xs = [c] \<longleftrightarrow> set (owners g xs) = {c}"
proof
  assume "set (owners g xs) = {c}"
  then show "owners g xs = [c]"
    using distinct_owners [OF assms, of g] by (metis distinct_card card_1_singleton_iff
        length_0_conv length_Suc_conv list.set(1) list.simps(15) One_nat_def insert_not_empty
        singleton_insert_inj_eq')
qed simp

lemma resolveGateway_cases:
  assumes "snapshots_ok s"
  shows "resolveGateway g s = Inr (c, l) \<longleftrightarrow>
    TrimSpace g \<noteq> [] \<and> c \<in> set (owners l (st_snapshots s))
    \<and> (if Contains (TrimSpace g) ''::'' then Cut (TrimSpace g) ''::'' = Some (c, l)
       else l = TrimSpace g \<and> set (owners l (st_snapshots s)) = {c})"
proof -
  have d: "distinct (map fst (st_snapshots s))" and ne: "[] \<notin> fst ` set (st_snapshots s)"
    using assms by (auto simp: snapshots_ok_def list_all_iff payload_ok_def)
  show ?thesis
  proof (cases "Cut (TrimSpace g) ''::''")
    case None
    then have "\<not> Contains (TrimSpace g) ''::''" by (simp add: Cut_None)
    moreover have nil: "[] \<notin> set (owners l (st_snapshots s))" for l
      using ne by (auto simp: set_owners image_iff)
    moreover note scan = scan_owners_Inr [OF ne, of "TrimSpace g" "[]"]
    ultimately show ?thesis
    proof (cases "scan_owners (TrimSpace g) [] (st_snapshots s)")
      case (Inl e)
      with scan [of c] have "owners (TrimSpace g) (st_snapshots s) \<noteq> [c]" by simp
      with Inl None \<open>\<not> Contains (TrimSpace g) ''::''\<close> show ?thesis
        unfolding owners_single [OF d] by (auto simp: resolveGateway_def Let_def)
    next
      case (Inr ow)
      with nil [of "TrimSpace g"] scan [of ow] scan [of c] None \<open>\<not> Contains (TrimSpace g) ''::''\<close> show ?thesis
        by (auto simp: resolveGateway_def Let_def simp flip: owners_single [OF d])
    qed
  next
    case (Some p)
    obtain o' l' where p: "p = (o', l')" by force
    from Some have contains: "Contains (TrimSpace g) ''::''" by (metis Cut_None option.distinct(1))
    have ne: "TrimSpace g \<noteq> []" using Some by auto
    have res: "resolveGateway g s = (case map_of (st_snapshots s) o' of None \<Rightarrow> Inl (OwnerNotRegistered o')
        | Some r \<Rightarrow> if snapshotHasGateway (rs_payload r) l' then Inr (o', l')
                   else Inl (GatewayNotInCluster l' o'))"
      by (simp add: resolveGateway_def Let_def Some p ne)
    have own: "c \<in> set (owners l (st_snapshots s)) \<longleftrightarrow>
        (\<exists>r. map_of (st_snapshots s) c = Some r \<and> snapshotHasGateway (rs_payload r) l)"
      using d by (simp add: set_owners map_of_eq_Some_iff)
    show ?thesis
      unfolding res own using contains ne Some p by (auto split: option.split)
  qed
qed

section \<open>Properties\<close>

text \<open>
  C27: \<open>ReceiveSnapshot\<close> keeps the snapshot invariant (one snapshot per cluster, filed under the
  trimmed identity it claims, with nodes of that cluster only), and either stores the
  checked payload under its cluster, leaving all other clusters' snapshots alone, or reports
  an error and leaves the store unchanged.
\<close>

theorem ReceiveSnapshot_files_payload:
  assumes "snapshots_ok s"
  shows "snapshots_ok (snd (ReceiveSnapshot now at payload s))
    \<and> (case fst (ReceiveSnapshot now at payload s) of
         Inl e \<Rightarrow> snd (ReceiveSnapshot now at payload s) = s
       | Inr u \<Rightarrow> \<exists>payload'. receive_payload now payload = Inr (payload_cluster payload, payload')
           \<and> map_of (st_snapshots (snd (ReceiveSnapshot now at payload s))) =
             (map_of (st_snapshots s))(payload_cluster payload \<mapsto>
                \<lparr>rs_payload = payload', rs_receivedAt = at\<rparr>))"
proof (rule conjI [OF snapshots_ok_receive [OF assms]])
  show "case fst (ReceiveSnapshot now at payload s) of
      Inl e \<Rightarrow> snd (ReceiveSnapshot now at payload s) = s
    | Inr u \<Rightarrow> \<exists>payload'. receive_payload now payload = Inr (payload_cluster payload, payload')
        \<and> map_of (st_snapshots (snd (ReceiveSnapshot now at payload s))) =
          (map_of (st_snapshots s))(payload_cluster payload \<mapsto>
             \<lparr>rs_payload = payload', rs_receivedAt = at\<rparr>)"
  proof (cases "receive_payload now payload")
    case (Inr p)
    moreover obtain payload' where "p = (payload_cluster payload, payload')"
      using Inr receive_payload_Inr by (cases p) blast
    ultimately show ?thesis by (simp add: ReceiveSnapshot_def update_conv')
  qed (simp add: ReceiveSnapshot_def)
qed

definition sample_payload :: "string \<Rightarrow> TopologyNode list \<Rightarrow> AgentSnapshot" where
  "sample_payload c nodes = zero_AgentSnapshot\<lparr>as_Cluster := zero_TopologyCluster\<lparr>tc_ID := c\<rparr>,
     as_Topology := zero_Topology\<lparr>topo_Nodes := nodes\<rparr>, as_SentAt := ''sent''\<rparr>"

definition sample_gateway :: "string \<Rightarrow> TopologyNode" where
  "sample_gateway i = zero_TopologyNode\<lparr>node_ID := i, node_Kind := TopologyNodeKindGateway\<rparr>"

definition sample_store :: Store where
  "sample_store =
     snd (ReceiveSnapshot zero_time zero_time (sample_payload ''b'' [sample_gateway ''gw2''])
       (snd (ReceiveSnapshot zero_time zero_time (sample_payload ''a'' [sample_gateway ''gw1''])
          (NewStore ''a'' 0))))"

lemma sample_store_ok: "snapshots_ok sample_store"
  unfolding sample_store_def
  by (intro snapshots_ok_receive) (simp add: NewStore_def snapshots_ok_def)

lemma ReceiveSnapshot_files_payload_witness:
  "snapshots_ok (snd (ReceiveSnapshot zero_time zero_time (sample_payload ''b'' []) sample_store))"
  using ReceiveSnapshot_files_payload [OF sample_store_ok] by blast

text \<open>
  The answers of the server do not depend on the iteration order of the snapshot map:
  \<open>Topology\<close>, \<open>Findings\<close>, \<open>Context\<close> and \<open>Resources\<close> are the same for every order.
\<close>

theorem federated_order_independent:
  assumes "snapshots_ok s" "mset xs = mset (st_snapshots s)"
  shows "federated digest now (s\<lparr>st_snapshots := xs\<rparr>) = federated digest now s
    \<and> Context_of (s\<lparr>st_snapshots := xs\<rparr>) = Context_of s
    \<and> Resources q (s\<lparr>st_snapshots := xs\<rparr>) = Resources q s"
proof -
  have "snapshotList (s\<lparr>st_snapshots := xs\<rparr>) = snapshotList s"
    using snapshotList_order [OF assms(1), of "s\<lparr>st_snapshots := xs\<rparr>"] assms(2) by simp
  then show ?thesis
    by (auto simp: federated_def Context_of_def Resources_def Let_def split: list.split)
qed

lemma federated_order_independent_witness:
  "federated id zero_time (sample_store\<lparr>st_snapshots := rev (st_snapshots sample_store)\<rparr>) =
     federated id zero_time sample_store"
  using federated_order_independent [OF sample_store_ok, of "rev (st_snapshots sample_store)" id]
  by simp

text \<open>
  C29: in the federated topology node identities are unique, and each leads back to its source:
  cut at the first double colon it gives the owning cluster and the identity that cluster's
  agent reported. (Cluster names contain no double colon; an agent's own identities are
  unique and not qualified.)
\<close>

theorem federated_nodes_unique:
  assumes "snapshots_ok s"
    and plain: "\<And>c r. (c, r) \<in> set (st_snapshots s) \<Longrightarrow> plain_cluster c"
    and local: "\<And>c r. (c, r) \<in> set (st_snapshots s) \<Longrightarrow>
      distinct (map node_ID (topo_Nodes (as_Topology (rs_payload r))))
      \<and> list_all (\<lambda>n. node_ID n \<noteq> [] \<and> \<not> HasPrefix (node_ID n) (c @ ''::''))
          (topo_Nodes (as_Topology (rs_payload r)))"
  shows "distinct (map node_ID (topo_Nodes (Topology_of digest now s)))
    \<and> (\<forall>n \<in> set (topo_Nodes (Topology_of digest now s)). \<exists>(c, r) \<in> set (st_snapshots s).
         \<exists>m \<in> set (topo_Nodes (as_Topology (rs_payload r))).
           Cut (node_ID n) ''::'' = Some (c, node_ID m) \<and> node_ClusterID n = c
           \<and> localID c (node_ID n) = node_ID m)"
proof (intro conjI ballI)
  let ?ids = "\<lambda>r. map (node_ID \<circ> global_node (snapshot_id r)) (topo_Nodes (as_Topology (rs_payload r)))"
  have gid: "globalID c (node_ID m) = c @ ''::'' @ node_ID m" and cid: "node_ClusterID m = c"
    and rid: "snapshot_id r = c"
    if "(c, r) \<in> set (st_snapshots s)" "m \<in> set (topo_Nodes (as_Topology (rs_payload r)))" for c r m
    using local [OF that(1)] that assms(1)
    by (auto simp: globalID_def list_all_iff snapshots_ok_def payload_ok_def)
  have sid: "snapshot_id r = c" if "(c, r) \<in> set (st_snapshots s)" for c r
    using that assms(1) by (auto simp: list_all_iff snapshots_ok_def payload_ok_def)
  show "\<exists>(c, r) \<in> set (st_snapshots s). \<exists>m \<in> set (topo_Nodes (as_Topology (rs_payload r))).
      Cut (node_ID n) ''::'' = Some (c, node_ID m) \<and> node_ClusterID n = c
      \<and> localID c (node_ID n) = node_ID m"
    if n: "n \<in> set (topo_Nodes (Topology_of digest now s))" for n
  proof -
    from n obtain c r m where cr: "(c, r) \<in> set (st_snapshots s)"
      and m: "m \<in> set (topo_Nodes (as_Topology (rs_payload r)))" and nm: "n = global_node (snapshot_id r) m"
      by (auto simp: federated_parts global_nodes_def set_snapshotList)
    from nm gid [OF cr m] rid [OF cr m] have "node_ID n = c @ ''::'' @ node_ID m"
      by (simp add: global_node_def)
    then have "Cut (node_ID n) ''::'' = Some (c, node_ID m)" "localID c (node_ID n) = node_ID m"
      using Cut_global [OF plain [OF cr]] TrimPrefix_append [of "c @ ''::''" "node_ID m"]
      by (simp_all add: localID_def)
    with cr m nm cid [OF cr m] show ?thesis by (auto simp: global_node_def)
  qed
  have snaps: "distinct (map snapshot_id (snapshotList s))"
    unfolding snapshotList_def distinct_map_slice_stable snapshots_ok_id [OF assms(1)]
    using assms(1) by (simp add: snapshots_ok_def)
  have ids: "?ids r = map (\<lambda>m. c @ ''::'' @ node_ID m) (topo_Nodes (as_Topology (rs_payload r)))"
    if "(c, r) \<in> set (st_snapshots s)" for c r
    using gid [OF that] sid [OF that] by (auto simp: global_node_def)
  have one: "distinct (?ids r)" if "r \<in> set (snapshotList s)" for r
  proof -
    from that obtain c where cr: "(c, r) \<in> set (st_snapshots s)" by (auto simp: set_snapshotList)
    from local [OF cr] show ?thesis
      unfolding ids [OF cr] by (simp add: distinct_map inj_on_def)
  qed
  have two: "set (?ids r) \<inter> set (?ids r') = {}"
    if "r \<in> set (snapshotList s)" "r' \<in> set (snapshotList s)" "snapshot_id r \<noteq> snapshot_id r'" for r r'
  proof -
    from that obtain c c' where cr: "(c, r) \<in> set (st_snapshots s)" "(c', r') \<in> set (st_snapshots s)"
      by (auto simp: set_snapshotList)
    with that(3) sid have "c \<noteq> c'" by metis
    with global_prefix_unique [OF plain [OF cr(1)] plain [OF cr(2)]] show ?thesis
      unfolding ids [OF cr(1)] ids [OF cr(2)] by auto
  qed
  have "distinct (concat (map ?ids (snapshotList s)))"
    by (rule distinct_concat_map [OF snaps one two])
  then show "distinct (map node_ID (topo_Nodes (Topology_of digest now s)))"
    by (simp only: federated_parts global_nodes_def map_concat map_map o_def)
qed

lemma federated_nodes_unique_witness:
  "distinct (map node_ID (topo_Nodes (Topology_of id zero_time sample_store)))
   \<and> set (map node_ID (topo_Nodes (Topology_of id zero_time sample_store))) = {''a::gw1'', ''b::gw2''}"
proof -
  have ok: "\<forall>(c, r) \<in> set (st_snapshots sample_store). plain_cluster c
      \<and> distinct (map node_ID (topo_Nodes (as_Topology (rs_payload r))))
      \<and> list_all (\<lambda>n. node_ID n \<noteq> [] \<and> \<not> HasPrefix (node_ID n) (c @ ''::''))
          (topo_Nodes (as_Topology (rs_payload r)))"
    by code_simp
  have "map node_ID (global_nodes (snapshotList sample_store)) = [''a::gw1'', ''b::gw2'']"
    by code_simp
  then have "map node_ID (topo_Nodes (Topology_of id zero_time sample_store)) = [''a::gw1'', ''b::gw2'']"
    by (simp only: federated_parts)
  moreover have "distinct (map node_ID (topo_Nodes (Topology_of id zero_time sample_store)))"
    by (rule federated_nodes_unique [OF sample_store_ok, THEN conjunct1]) (use ok in blast)+
  ultimately show ?thesis by simp
qed

text \<open>
  The consistency the federated topology reports: waiting without snapshots; remote
  unavailable when some snapshot is older than the staleness bound; otherwise time skew when
  two clusters were observed more than a minute apart, and a consistent window when not.
  (Observation times that parse are not the zero time, which the code takes for unset.)
\<close>

theorem federated_consistency:
  assumes "\<And>t. t \<in> set (observed_times (map snd (st_snapshots s))) \<Longrightarrow> \<not> IsZero t"
  shows "topo_Consistency (Topology_of digest now s) =
    (if st_snapshots s = [] then SnapshotConsistencyWaitingForAgents
     else if \<exists>(c, r) \<in> set (st_snapshots s). time_Sub now (rs_receivedAt r) > st_staleAfter s
     then SnapshotConsistencyRemoteUnavailable
     else if \<exists>t1 \<in> set (observed_times (map snd (st_snapshots s))).
               \<exists>t2 \<in> set (observed_times (map snd (st_snapshots s))). time_Sub t2 t1 > 60 * nanos
     then SnapshotConsistencyTimeSkew
     else SnapshotConsistencyConsistentWindow)"
proof -
  let ?rs = "snapshotList s"
  have times: "set (observed_times ?rs) = set (observed_times (map snd (st_snapshots s)))"
    by (simp add: observed_times_def List.map_filter_def snapshotList_def)
  with assms have nz: "\<forall>t \<in> set (observed_times ?rs). \<not> IsZero t" by blast
  have empty: "?rs = [] \<longleftrightarrow> st_snapshots s = []" by (simp add: snapshotList_def)
  have stale: "list_ex (\<lambda>r. time_Sub now (rs_receivedAt r) > w) ?rs \<longleftrightarrow>
      (\<exists>(c, r) \<in> set (st_snapshots s). time_Sub now (rs_receivedAt r) > w)" for w
    by (force simp: list_ex_iff set_snapshotList)
  show ?thesis
    unfolding times [symmetric] skew_iff [OF nz, symmetric] stale [symmetric] empty [symmetric]
    by (simp add: Topology_of_def federated_def Let_def federate_loop federation_start_def
        split: prod.split)
qed

lemma federated_consistency_witness:
  "topo_Consistency (Topology_of id zero_time sample_store) = SnapshotConsistencyConsistentWindow"
proof -
  have times: "observed_times (map snd (st_snapshots sample_store)) = []" by code_simp
  have fresh: "\<not> (\<exists>(c, r) \<in> set (st_snapshots sample_store).
      time_Sub zero_time (rs_receivedAt r) > st_staleAfter sample_store)" by code_simp
  have "st_snapshots sample_store \<noteq> []" by code_simp
  then show ?thesis
    using federated_consistency [of sample_store id zero_time] times fresh by simp
qed

text \<open>
  \<open>resolveGateway\<close> finds exactly one owner: a qualified identity names a registered cluster
  whose snapshot has the gateway, a bare one resolves when exactly one cluster has it, and in
  every other case there is an error; the order of the snapshot map does not matter.
\<close>

theorem resolveGateway_exact:
  assumes "snapshots_ok s"
  shows "resolveGateway g s = Inr (c, l) \<longleftrightarrow>
    TrimSpace g \<noteq> []
    \<and> (\<exists>r. (c, r) \<in> set (st_snapshots s) \<and> snapshotHasGateway (rs_payload r) l)
    \<and> (if Contains (TrimSpace g) ''::'' then Cut (TrimSpace g) ''::'' = Some (c, l)
       else l = TrimSpace g
         \<and> {d. \<exists>r. (d, r) \<in> set (st_snapshots s) \<and> snapshotHasGateway (rs_payload r) l} = {c})"
  unfolding resolveGateway_cases [OF assms] set_owners by simp

lemma resolveGateway_exact_witness:
  "resolveGateway ''gw2'' sample_store = Inr (''b'', ''gw2'')"
proof -
  have "TrimSpace ''gw2'' = ''gw2''" "\<not> Contains ''gw2'' ''::''" by code_simp+
  moreover have "map fst (filter (\<lambda>(c, r). snapshotHasGateway (rs_payload r) ''gw2'')
      (st_snapshots sample_store)) = [''b'']" by code_simp
  then have "{d. \<exists>r. (d, r) \<in> set (st_snapshots sample_store)
      \<and> snapshotHasGateway (rs_payload r) ''gw2''} = {''b''}"
    unfolding set_owners [symmetric] owners_def by simp
  moreover from this have "\<exists>r. (''b'', r) \<in> set (st_snapshots sample_store)
      \<and> snapshotHasGateway (rs_payload r) ''gw2''" by blast
  ultimately show ?thesis
    by (simp only: resolveGateway_exact [OF sample_store_ok] if_False simp_thms) simp
qed

text \<open>
  The identity the federated topology shows for a gateway resolves back to the cluster that
  runs it and the identity its agent knows (round trip through \<open>globalID\<close> and
  \<open>resolveGateway\<close>), whatever other clusters call their gateways.
\<close>

theorem resolveGateway_globalID:
  assumes "snapshots_ok s" "(c, r) \<in> set (st_snapshots s)" "plain_cluster c"
    and "snapshotHasGateway (rs_payload r) i" "i \<noteq> []" "\<not> HasPrefix i (c @ ''::'')"
    and "TrimSpace (globalID c i) = globalID c i"
  shows "resolveGateway (globalID c i) s = Inr (c, i)"
proof -
  have g: "globalID c i = c @ ''::'' @ i" using assms(5,6) by (simp add: globalID_def)
  have "Contains (c @ ''::'' @ i) ''::''" unfolding Contains_iff by blast
  moreover have "c \<in> set (owners i (st_snapshots s))" using assms(2,4) by (auto simp: set_owners)
  ultimately show ?thesis
    unfolding resolveGateway_cases [OF assms(1)] assms(7) unfolding g
    using Cut_global [OF assms(3), of i] by simp
qed

lemma resolveGateway_globalID_witness:
  "resolveGateway ''b::gw2'' sample_store = Inr (''b'', ''gw2'')"
proof -
  have "snapshotHasGateway (rs_payload (snd (st_snapshots sample_store ! 1))) ''gw2''"
    "fst (st_snapshots sample_store ! 1) = ''b''" "1 < length (st_snapshots sample_store)" by code_simp+
  then have "(''b'', snd (st_snapshots sample_store ! 1)) \<in> set (st_snapshots sample_store)"
    by (metis nth_mem prod.collapse)
  moreover have "plain_cluster ''b''" "\<not> HasPrefix ''gw2'' (''b'' @ ''::'')"
    "TrimSpace (globalID ''b'' ''gw2'') = globalID ''b'' ''gw2''" "globalID ''b'' ''gw2'' = ''b::gw2''"
    by code_simp+
  ultimately show ?thesis
    using resolveGateway_globalID [OF sample_store_ok, of "''b''" _ "''gw2''"]
      \<open>snapshotHasGateway _ ''gw2''\<close> by fastforce
qed

text \<open>
  \<open>resolveProbeEntry\<close> succeeds only with an entry the snapshot of the named cluster declares
  for the named gateway, which is a gateway of that snapshot, with a scheme the probe supports;
  identities qualified by the cluster and bare ones are the same request.
\<close>

theorem resolveProbeEntry_sound:
  assumes "resolveProbeEntry c0 g0 e0 s = Inr (c, g, entry)"
  shows "c = TrimSpace c0 \<and> TrimSpace g0 \<in> {g} \<union> {c @ ''::'' @ g} \<and> entry_GatewayID entry = g
    \<and> TrimSpace e0 \<in> {entry_ID entry} \<union> {c @ ''::'' @ entry_ID entry}
    \<and> entry_Scheme entry \<in> {ProbeSchemeHTTP, ProbeSchemeHTTPS}
    \<and> (\<exists>r. map_of (st_snapshots s) c = Some r \<and> snapshotHasGateway (rs_payload r) g
         \<and> entry \<in> set (topo_ProbeEntries (as_Topology (rs_payload r))))"
proof -
  have lp: "i \<in> {l} \<union> {c @ ''::'' @ l}" if "local_part c i = Inr l" for c i l
    using that by (auto simp: local_part_def dest: Cut_Some split: option.splits if_splits)
  let ?c = "TrimSpace c0"
  from assms obtain eid r where parts: "local_part ?c (TrimSpace g0) = Inr g"
      "local_part ?c (TrimSpace e0) = Inr eid" "map_of (st_snapshots s) ?c = Some r"
      "snapshotHasGateway (rs_payload r) g"
    and f: "find (\<lambda>entry. entry_ID entry = eid \<and> entry_GatewayID entry = g)
      (topo_ProbeEntries (as_Topology (rs_payload r))) = Some entry"
    and scheme: "ProbeScheme_IsValid (entry_Scheme entry)" and c: "c = ?c"
    by (auto simp: resolveProbeEntry_def Let_def split: if_splits sum.splits option.splits)
  from find_Some_mem [OF f] lp [OF parts(1)] lp [OF parts(2)] parts(3,4) scheme c show ?thesis
    by (auto simp: ProbeScheme_IsValid_def)
qed

definition sample_entry_store :: Store where
  "sample_entry_store = sample_store\<lparr>st_snapshots := [(''b'',
     \<lparr>rs_payload = (sample_payload ''b'' [sample_gateway ''gw2''])\<lparr>as_Topology :=
        zero_Topology\<lparr>topo_Nodes := [sample_gateway ''gw2''],
          topo_ProbeEntries := [zero_ProbeEntry\<lparr>entry_ID := ''e'', entry_GatewayID := ''gw2'',
            entry_Scheme := ProbeSchemeHTTPS\<rparr>]\<rparr>\<rparr>, rs_receivedAt = zero_time\<rparr>)]\<rparr>"

lemma resolveProbeEntry_sound_witness:
  "\<exists>entry. resolveProbeEntry ''b'' ''b::gw2'' ''e'' sample_entry_store = Inr (''b'', ''gw2'', entry)
    \<and> entry_ID entry = ''e'' \<and> entry_GatewayID entry = ''gw2''"
proof -
  have "map_sum id (\<lambda>(c, g, e). (c, g, entry_ID e))
      (resolveProbeEntry ''b'' ''b::gw2'' ''e'' sample_entry_store) = Inr (''b'', ''gw2'', ''e'')"
    by code_simp
  then obtain entry where "resolveProbeEntry ''b'' ''b::gw2'' ''e'' sample_entry_store
      = Inr (''b'', ''gw2'', entry)" "entry_ID entry = ''e''"
    by (cases "resolveProbeEntry ''b'' ''b::gw2'' ''e'' sample_entry_store") auto
  moreover from resolveProbeEntry_sound [OF this(1)] have "entry_GatewayID entry = ''gw2''" by blast
  ultimately show ?thesis by blast
qed

end
