(* ===== verification/Command_Broker.thy ===== *)
theory Command_Broker
  imports Federation_Store
begin

text \<open>
  The command exchange between the server and the cluster agents (\<open>internal/federation/store.go\<close>):
  the server registers a command as pending, offers it to the bounded queue of its cluster
  and waits for the one result; an agent polls its queue and reports results. A queue is
  the list in the channel, a result channel the content of its one slot. Waiting on
  several events at once (Go's \<open>select\<close>) takes the event as an argument; what other
  goroutines do to the store meanwhile is a function on the store.
\<close>

section \<open>Errors\<close>

datatype CtxError = CtxCanceled | CtxDeadlineExceeded

datatype CommandError =
    RandFailed string
  | QueueFull string
  | CtxDone CtxError
  | AgentReported string
  | AgentReportedFrom string string
  | EmptyConfig string
  | EmptyProbe
  | InvalidResult ProbeError
  | WaitTimedOut
  | WaitTimedOutFor string

fun CtxError_text :: "CtxError \<Rightarrow> string" where
  "CtxError_text CtxCanceled = ''context canceled''"
| "CtxError_text CtxDeadlineExceeded = ''context deadline exceeded''"

fun ProbeError_text :: "ProbeError \<Rightarrow> string" where
  "ProbeError_text (ErrProbeProtocolUnsupported v) =
     ''probe protocol version is not supported: '' @ Itoa v"
| "ProbeError_text (ErrInvalidProbeResult m) = ''invalid probe result: '' @ m"

fun CommandError_text :: "CommandError \<Rightarrow> string" where
  "CommandError_text (RandFailed m) = m"
| "CommandError_text (QueueFull c) = ''cluster agent '' @ quoted c @ '' command queue is full''"
| "CommandError_text (CtxDone e) = CtxError_text e"
| "CommandError_text (AgentReported m) = ''cluster agent: '' @ m"
| "CommandError_text (AgentReportedFrom c m) = ''cluster agent '' @ quoted c @ '': '' @ m"
| "CommandError_text (EmptyConfig c) =
     ''cluster agent '' @ quoted c @ '' returned an empty Envoy config''"
| "CommandError_text EmptyProbe = ''invalid probe result: empty probe result''"
| "CommandError_text (InvalidResult e) = ProbeError_text e"
| "CommandError_text WaitTimedOut = ''timed out waiting for cluster agent''"
| "CommandError_text (WaitTimedOutFor c) = ''timed out waiting for cluster agent '' @ quoted c"

section \<open>Atomic operations on the store\<close>

definition agentCommandQueueSize :: nat where "agentCommandQueueSize = 32"
definition envoyCommandQueueWait :: int where "envoyCommandQueueWait = 45 * nanos"
definition envoyCommandExecutionTimeout :: int where "envoyCommandExecutionTimeout = 35 * nanos"
definition probeCommandQueueWait :: int where "probeCommandQueueWait = 30 * nanos"
definition probeObserveQueueWait :: int where "probeObserveQueueWait = 12 * nanos"
definition probeObserveExecutionTimeout :: int where "probeObserveExecutionTimeout = 8 * nanos"

definition ensure_queue ::
    "string \<Rightarrow> (string \<rightharpoonup> AgentCommand list) \<Rightarrow> (string \<rightharpoonup> AgentCommand list)" where
  "ensure_queue c queues = (case queues c of None \<Rightarrow> queues(c \<mapsto> []) | Some q \<Rightarrow> queues)"

definition queue_of :: "Store \<Rightarrow> string \<Rightarrow> AgentCommand list" where
  "queue_of s c = (case st_commandQueues s c of None \<Rightarrow> [] | Some q \<Rightarrow> q)"

definition register_command :: "AgentCommand \<Rightarrow> Store \<Rightarrow> Store" where
  "register_command command s =
     s\<lparr>st_commandQueues := ensure_queue (cmd_ClusterID command) (st_commandQueues s),
       st_pendingCommands := (st_pendingCommands s)(cmd_ID command \<mapsto>
         \<lparr>pend_clusterID = cmd_ClusterID command, pend_result = None\<rparr>)\<rparr>"

definition unregister_command :: "string \<Rightarrow> Store \<Rightarrow> Store" where
  "unregister_command i s = s\<lparr>st_pendingCommands := (st_pendingCommands s)(i := None)\<rparr>"

definition offer_command :: "AgentCommand \<Rightarrow> Store \<Rightarrow> Store option" where
  "offer_command command s =
     (let q = queue_of s (cmd_ClusterID command) in
      if length q < agentCommandQueueSize
      then Some (s\<lparr>st_commandQueues := (st_commandQueues s)(cmd_ClusterID command \<mapsto> q @ [command])\<rparr>)
      else None)"

definition receive_result :: "string \<Rightarrow> Store \<Rightarrow> (AgentCommandResult \<times> Store) option" where
  "receive_result i s =
     (case st_pendingCommands s i of
        None \<Rightarrow> None
      | Some pending \<Rightarrow>
          (case pend_result pending of
             None \<Rightarrow> None
           | Some result \<Rightarrow> Some (result, s\<lparr>st_pendingCommands :=
               (st_pendingCommands s)(i \<mapsto> pending\<lparr>pend_result := None\<rparr>)\<rparr>)))"

section \<open>The agent's side\<close>

datatype NextError =
    NextClusterRequired
  | NextNotRegistered string
  | NextCtx CtxError

text \<open>A polled command is skipped when it is past its deadline or nobody of this cluster waits.\<close>

definition deliverable :: "GoTime \<Rightarrow> string \<Rightarrow> Store \<Rightarrow> AgentCommand \<Rightarrow> bool" where
  "deliverable now clusterID s command \<longleftrightarrow>
     \<not> (case parse_rfc3339 (cmd_Deadline command) of None \<Rightarrow> False
        | Some deadline \<Rightarrow> time_After now deadline)
     \<and> (case st_pendingCommands s (cmd_ID command) of None \<Rightarrow> False
        | Some pending \<Rightarrow> pend_clusterID pending = clusterID)"

fun poll_queue :: "(AgentCommand \<Rightarrow> bool) \<Rightarrow> AgentCommand list \<Rightarrow> AgentCommand option \<times> AgentCommand list" where
  "poll_queue ok [] = (None, [])"
| "poll_queue ok (command # queue) =
     (if ok command then (Some command, queue) else poll_queue ok queue)"

text \<open>
  \<open>ended\<close> tells how an empty queue ends the wait: by the timer or by the context. A command
  that arrives while the poll waits is the same scan of a later store.
\<close>

definition NextAgentCommand ::
    "GoTime \<Rightarrow> CtxError option \<Rightarrow> string \<Rightarrow> Store \<Rightarrow> (NextError + AgentCommand option) \<times> Store" where
  "NextAgentCommand now ended clusterID0 s =
     (let clusterID = TrimSpace clusterID0 in
      if clusterID = [] then (Inl NextClusterRequired, s)
      else if map_of (st_snapshots s) clusterID = None then (Inl (NextNotRegistered clusterID), s)
      else
        (let queues = ensure_queue clusterID (st_commandQueues s) in
         case poll_queue (deliverable now clusterID s) (queue_of s clusterID) of
           (found, rest) \<Rightarrow>
             ((case found of Some command \<Rightarrow> Inr (Some command)
               | None \<Rightarrow> (case ended of None \<Rightarrow> Inr None | Some e \<Rightarrow> Inl (NextCtx e))),
              s\<lparr>st_commandQueues := queues(clusterID \<mapsto> rest)\<rparr>)))"

datatype CompleteError =
    CompleteIDsRequired
  | CompleteEmpty
  | CompleteNotPending string
  | CompleteOtherCluster string string
  | CompleteCtx CtxError
  | CompleteAlreadyHasResult string

definition trimmed_result :: "AgentCommandResult \<Rightarrow> AgentCommandResult" where
  "trimmed_result result =
     result\<lparr>acr_CommandID := TrimSpace (acr_CommandID result),
            acr_ClusterID := TrimSpace (acr_ClusterID result)\<rparr>"

text \<open>
  The checks, up to the attempt to send; \<open>ended\<close>: the context is done and \<open>select\<close> picks that
  case. A result that passes goes into the slot.
\<close>

definition complete_check ::
    "CtxError option \<Rightarrow> AgentCommandResult \<Rightarrow> Store \<Rightarrow> CompleteError + pendingCommand" where
  "complete_check ended result s =
     (let i = acr_CommandID result in
      if i = [] \<or> acr_ClusterID result = [] then Inl CompleteIDsRequired
      else if acr_Config result = None \<and> acr_Probe result = None \<and> TrimSpace (acr_Error result) = []
      then Inl CompleteEmpty
      else
        (case st_pendingCommands s i of
           None \<Rightarrow> Inl (CompleteNotPending i)
         | Some pending \<Rightarrow>
             if pend_clusterID pending \<noteq> acr_ClusterID result
             then Inl (CompleteOtherCluster i (pend_clusterID pending))
             else
               (case ended of
                  Some e \<Rightarrow> Inl (CompleteCtx e)
                | None \<Rightarrow>
                    if pend_result pending \<noteq> None then Inl (CompleteAlreadyHasResult i)
                    else Inr pending)))"

definition CompleteAgentCommand ::
    "CtxError option \<Rightarrow> AgentCommandResult \<Rightarrow> Store \<Rightarrow> (CompleteError + unit) \<times> Store" where
  "CompleteAgentCommand ended result0 s =
     (let result = trimmed_result result0 in
      case complete_check ended result s of
        Inl e \<Rightarrow> (Inl e, s)
      | Inr pending \<Rightarrow> (Inr (), s\<lparr>st_pendingCommands := (st_pendingCommands s)
          (acr_CommandID result \<mapsto> pending\<lparr>pend_result := Some result\<rparr>)\<rparr>))"

lemma complete_check_Inr:
  "complete_check ended r s = Inr p \<longleftrightarrow>
     acr_CommandID r \<noteq> [] \<and> acr_ClusterID r \<noteq> []
     \<and> (acr_Config r \<noteq> None \<or> acr_Probe r \<noteq> None \<or> TrimSpace (acr_Error r) \<noteq> [])
     \<and> st_pendingCommands s (acr_CommandID r) = Some p \<and> pend_clusterID p = acr_ClusterID r
     \<and> ended = None \<and> pend_result p = None"
  by (cases "st_pendingCommands s (acr_CommandID r)"; cases ended)
    (auto simp: complete_check_def Let_def)

section \<open>The server's side\<close>

text \<open>
  How the wait for a result ends when it is not by the result: \<open>environment\<close> returns the store
  as the other goroutines leave it and, if the context or the timer fires first, which.
  Without a result the timer fires in the end.
\<close>

datatype Stop = StopCtx CtxError | StopTimer

type_synonym environment = "Store \<Rightarrow> Store \<times> Stop option"

definition await_result ::
    "string \<Rightarrow> environment \<Rightarrow> Store \<Rightarrow> (Stop + AgentCommandResult) \<times> Store" where
  "await_result i env s =
     (case env s of
        (s', Some stop) \<Rightarrow> (Inl stop, s')
      | (s', None) \<Rightarrow>
          (case receive_result i s' of
             None \<Rightarrow> (Inl StopTimer, s')
           | Some (result, s'') \<Rightarrow> (Inr result, s'')))"

text \<open>
  Registering, offering, waiting and the deferred removal, which \<open>EnvoyConfig\<close>,
  \<open>executeProbeCommand\<close> and \<open>CreateProbe\<close> write out each.
\<close>

datatype Exchange = OfferCtx CtxError | OfferFull | Stopped Stop | Answered AgentCommandResult

definition exchange ::
    "AgentCommand \<Rightarrow> CtxError option \<Rightarrow> environment \<Rightarrow> Store \<Rightarrow> Exchange \<times> Store" where
  "exchange command offer_ctx env s =
     (case offer_ctx of
        Some e \<Rightarrow> (OfferCtx e, s)
      | None \<Rightarrow>
          (case offer_command command s of
             None \<Rightarrow> (OfferFull, s)
           | Some s1 \<Rightarrow>
               (case await_result (cmd_ID command) env s1 of
                  (Inl stop, s2) \<Rightarrow> (Stopped stop, s2)
                | (Inr result, s2) \<Rightarrow> (Answered result, s2))))"

definition run_exchange ::
    "AgentCommand \<Rightarrow> CtxError option \<Rightarrow> environment \<Rightarrow> Store \<Rightarrow> Exchange \<times> Store" where
  "run_exchange command offer_ctx env s =
     (case exchange command offer_ctx env (register_command command s) of
        (x, s') \<Rightarrow> (x, unregister_command (cmd_ID command) s'))"

datatype EnvoyConfigError =
    EnvoyResolve ResolveError
  | EnvoyCommand CommandError
  | EnvoyCreate string

definition envoy_command :: "GoTime \<Rightarrow> string \<Rightarrow> string \<Rightarrow> string \<Rightarrow> AgentCommand" where
  "envoy_command now commandID clusterID localGatewayID =
     zero_AgentCommand\<lparr>cmd_ID := commandID, cmd_ClusterID := clusterID,
       cmd_Kind := AgentCommandEnvoyConfig, cmd_GatewayID := localGatewayID,
       cmd_Deadline := format_rfc3339nano (time_UTC (time_Add now envoyCommandQueueWait)),
       cmd_ExecutionTimeoutSeconds := envoyCommandExecutionTimeout div nanos\<rparr>"

text \<open>\<open>fresh\<close> is the outcome of \<open>newCommandID\<close>: sixteen random bytes in hexadecimal, or an error.\<close>

definition EnvoyConfig_of ::
    "GoTime \<Rightarrow> string + string \<Rightarrow> CtxError option \<Rightarrow> environment \<Rightarrow> string \<Rightarrow> Store
     \<Rightarrow> (EnvoyConfigError + EnvoyConfig) \<times> Store" where
  "EnvoyConfig_of now fresh offer_ctx env gatewayID s =
     (case resolveGateway gatewayID s of
        Inl e \<Rightarrow> (Inl (EnvoyResolve e), s)
      | Inr (clusterID, localGatewayID) \<Rightarrow>
          (case fresh of
             Inl m \<Rightarrow> (Inl (EnvoyCreate m), s)
           | Inr commandID \<Rightarrow>
               (case run_exchange (envoy_command now commandID clusterID localGatewayID)
                       offer_ctx env s of
                  (OfferCtx e, s') \<Rightarrow> (Inl (EnvoyCommand (CtxDone e)), s')
                | (OfferFull, s') \<Rightarrow> (Inl (EnvoyCommand (QueueFull clusterID)), s')
                | (Stopped (StopCtx e), s') \<Rightarrow> (Inl (EnvoyCommand (CtxDone e)), s')
                | (Stopped StopTimer, s') \<Rightarrow> (Inl (EnvoyCommand (WaitTimedOutFor clusterID)), s')
                | (Answered result, s') \<Rightarrow>
                    (if acr_Error result \<noteq> []
                     then Inl (EnvoyCommand (AgentReportedFrom clusterID (acr_Error result)))
                     else (case acr_Config result of
                             None \<Rightarrow> Inl (EnvoyCommand (EmptyConfig clusterID))
                           | Some config \<Rightarrow> Inr (config\<lparr>ec_GatewayID := gatewayID\<rparr>)), s'))))"

definition executeProbeCommand ::
    "AgentCommand \<Rightarrow> CtxError option \<Rightarrow> environment \<Rightarrow> Store
     \<Rightarrow> (CommandError + ProbeAgentResult) \<times> Store" where
  "executeProbeCommand command offer_ctx env s =
     (case run_exchange command offer_ctx env s of
        (OfferCtx e, s') \<Rightarrow> (Inl (CtxDone e), s')
      | (OfferFull, s') \<Rightarrow> (Inl (QueueFull (cmd_ClusterID command)), s')
      | (Stopped (StopCtx e), s') \<Rightarrow> (Inl (CtxDone e), s')
      | (Stopped StopTimer, s') \<Rightarrow> (Inl WaitTimedOut, s')
      | (Answered result, s') \<Rightarrow>
          (if acr_Error result \<noteq> [] then Inl (AgentReported (acr_Error result))
           else (case acr_Probe result of
                   None \<Rightarrow> Inl EmptyProbe
                 | Some probe \<Rightarrow>
                     (case Validate probe command of
                        Inl e \<Rightarrow> Inl (InvalidResult e)
                      | Inr u \<Rightarrow> Inr probe)), s'))"

definition GetProbe :: "string \<Rightarrow> Store \<Rightarrow> ProbeExecution option" where
  "GetProbe i s = st_probes s (TrimSpace i)"

definition failProbe :: "GoTime \<Rightarrow> string \<Rightarrow> string \<Rightarrow> Store \<Rightarrow> ProbeExecution \<times> Store" where
  "failProbe now i message s =
     (let probe0 = (case st_probes s i of None \<Rightarrow> zero_ProbeExecution | Some p \<Rightarrow> p);
          probe = probe0\<lparr>exec_State := ProbeExecutionStateFailed, exec_Error := message,
            exec_CompletedAt := format_rfc3339nano (time_UTC now)\<rparr>
      in (probe, s\<lparr>st_probes := (st_probes s)(i \<mapsto> probe)\<rparr>))"

end
