(* ===== verification/Gateway_Discovery.thy ===== *)
theory Gateway_Discovery
  imports Link_Rules
begin

text \<open>
  Which gateways a probe asks for access-log evidence (\<open>discoverProbeGatewayTargets\<close> and its
  helpers in \<open>internal/federation/store.go\<close>): a bounded breadth-first search along the
  configured edges finds the declared ones, every other observable gateway follows. Both
  searches are total: they visit at most 4096 and 128 nodes beyond the one at hand.
\<close>

section \<open>Model\<close>

record probeGatewayTarget =
  tgt_ClusterID :: string
  tgt_GatewayID :: string
  tgt_GlobalID :: string
  tgt_GatewayName :: string
  tgt_SnapshotID :: string
  tgt_ObservedAt :: string
  tgt_Transport :: string
  tgt_Destination :: string
  tgt_Declared :: bool
  tgt_PredecessorGatewayID :: string

definition zero_probeGatewayTarget :: probeGatewayTarget where
  "zero_probeGatewayTarget = \<lparr>tgt_ClusterID = [], tgt_GatewayID = [], tgt_GlobalID = [],
     tgt_GatewayName = [], tgt_SnapshotID = [], tgt_ObservedAt = [], tgt_Transport = [],
     tgt_Destination = [], tgt_Declared = False, tgt_PredecessorGatewayID = []\<rparr>"

text \<open>Lookups in Go maps built from the topology; an absent key gives the zero value.\<close>

definition node_at :: "TopologyNode list \<Rightarrow> string \<Rightarrow> TopologyNode" where
  "node_at nodes i = (case nodes_by_id nodes i of None \<Rightarrow> zero_TopologyNode | Some n \<Rightarrow> n)"

definition snapshot_at :: "TopologyCluster list \<Rightarrow> string \<Rightarrow> Snapshot" where
  "snapshot_at clusters i =
     (case map_of (rev (map (\<lambda>c. (tc_ID c, tc_Snapshot c)) clusters)) i of
        None \<Rightarrow> zero_Snapshot | Some s \<Rightarrow> s)"

definition reverse_edges :: "TopologyEdge list \<Rightarrow> string \<Rightarrow> TopologyEdge list" where
  "reverse_edges edges i = filter (\<lambda>e. edge_To e = i) edges"

definition edge_before :: "TopologyEdge \<Rightarrow> TopologyEdge \<Rightarrow> bool" where
  "edge_before a b =
     (if edge_Relation a \<noteq> edge_Relation b then edge_Relation a < edge_Relation b
      else edge_To a < edge_To b)"

definition forward_edges :: "TopologyEdge list \<Rightarrow> string \<Rightarrow> TopologyEdge list" where
  "forward_edges edges i = slice_stable edge_before (filter (\<lambda>e. edge_From e = i) edges)"

text \<open>
  \<open>owningGateway\<close>: one round looks at the edges into the current node; a gateway of the same
  cluster ends the search.
\<close>

fun own_round ::
    "TopologyNode list \<Rightarrow> string \<Rightarrow> TopologyEdge list \<Rightarrow> string list \<Rightarrow> string list
     \<Rightarrow> string + string list \<times> string list" where
  "own_round nodes cluster [] queue visited = Inr (queue, visited)"
| "own_round nodes cluster (edge # edges) queue visited =
     (let candidate = node_at nodes (edge_From edge) in
      if node_Kind candidate = TopologyNodeKindGateway \<and> node_ClusterID candidate = cluster
      then Inl (node_ID candidate)
      else if node_ClusterID candidate = cluster \<and> node_ID candidate \<notin> set visited
      then own_round nodes cluster edges (queue @ [node_ID candidate]) (node_ID candidate # visited)
      else own_round nodes cluster edges queue visited)"

lemma own_round_grows:
  "own_round nodes cluster edges queue visited = Inr (queue', visited') \<Longrightarrow>
    queue' = queue \<and> visited' = visited \<or> length visited < length visited'"
  by (induction nodes cluster edges queue visited rule: own_round.induct)
    (fastforce simp: Let_def split: if_splits)+

function own_loop ::
    "TopologyNode list \<Rightarrow> TopologyEdge list \<Rightarrow> string \<Rightarrow> string list \<Rightarrow> string list \<Rightarrow> string" where
  "own_loop nodes edges cluster [] visited = []"
| "own_loop nodes edges cluster (current # queue) visited =
     (if length visited > 128 then []
      else (case own_round nodes cluster (reverse_edges edges current) queue visited of
              Inl gateway \<Rightarrow> gateway
            | Inr (queue', visited') \<Rightarrow> own_loop nodes edges cluster queue' visited'))"
  by pat_completeness auto
termination
  by (relation "measures [\<lambda>(n, e, c, q, v). 129 - length v, \<lambda>(n, e, c, q, v). length q]")
    (auto dest: own_round_grows)

definition owningGateway :: "string \<Rightarrow> TopologyNode list \<Rightarrow> TopologyEdge list \<Rightarrow> string" where
  "owningGateway nodeID nodes edges =
     (if node_Kind (node_at nodes nodeID) = TopologyNodeKindGateway then nodeID
      else own_loop nodes edges (node_ClusterID (node_at nodes nodeID)) [nodeID] [nodeID])"

text \<open>\<open>discoverDeclaredProbeGatewayTargets\<close>: the state of the search and one edge of it.\<close>

record Search =
  sr_queue :: "string list"
  sr_visited :: "string list"
  sr_seen :: "string list"
  sr_result :: "probeGatewayTarget list"

definition visit :: "string \<Rightarrow> Search \<Rightarrow> Search" where
  "visit i s =
     (if i \<in> set (sr_visited s) then s
      else s\<lparr>sr_visited := i # sr_visited s, sr_queue := sr_queue s @ [i]\<rparr>)"

definition declared_target :: "Topology \<Rightarrow> TopologyEdge \<Rightarrow> probeGatewayTarget" where
  "declared_target topology edge =
     (let nodes = topo_Nodes topology;
          gatewayID = owningGateway (edge_To edge) nodes (topo_Edges topology);
          gateway = node_at nodes gatewayID;
          snapshot = snapshot_at (topo_Clusters topology) (node_ClusterID gateway)
      in
      \<lparr>tgt_ClusterID = node_ClusterID gateway,
       tgt_GatewayID = localID (node_ClusterID gateway) gatewayID, tgt_GlobalID = gatewayID,
       tgt_GatewayName = node_Name gateway, tgt_SnapshotID = sn_ID snapshot,
       tgt_ObservedAt = sn_ObservedAt snapshot, tgt_Transport = edge_Transport edge,
       tgt_Destination = edge_Destination edge, tgt_Declared = True,
       tgt_PredecessorGatewayID = owningGateway (edge_From edge) nodes (topo_Edges topology)\<rparr>)"

definition search_edge :: "Topology \<Rightarrow> Search \<Rightarrow> TopologyEdge \<Rightarrow> Search" where
  "search_edge topology s edge =
     (let target = declared_target topology edge; gatewayID = tgt_GlobalID target;
          s1 = (if edge_Relation edge = ''cross-cluster'' \<and> gatewayID \<noteq> []
                   \<and> gatewayID \<notin> set (sr_seen s)
                then visit gatewayID
                  (s\<lparr>sr_seen := gatewayID # sr_seen s, sr_result := sr_result s @ [target]\<rparr>)
                else s)
      in visit (edge_To edge) s1)"

lemma visit_grows:
  "visit i s = s \<or> length (sr_visited s) < length (sr_visited (visit i s))"
  by (auto simp: visit_def)

lemma visit_mono: "length (sr_visited s) \<le> length (sr_visited (visit i s))"
  using visit_grows [of i s] by (auto simp: visit_def)

lemma search_edge_grows:
  "sr_queue (search_edge t s e) = sr_queue s \<and> sr_visited (search_edge t s e) = sr_visited s
   \<or> length (sr_visited s) < length (sr_visited (search_edge t s e))"
  by (auto simp: search_edge_def visit_def Let_def)

lemma search_edges_grow:
  "sr_queue (foldl (search_edge t) s es) = sr_queue s \<and> sr_visited (foldl (search_edge t) s es) = sr_visited s
   \<or> length (sr_visited s) < length (sr_visited (foldl (search_edge t) s es))"
proof (induction es arbitrary: s)
  case (Cons e es)
  from Cons.IH [of "search_edge t s e"] search_edge_grows [of t s e] show ?case by fastforce
qed simp

function search_loop :: "Topology \<Rightarrow> Search \<Rightarrow> Search" where
  "search_loop topology s =
     (case sr_queue s of
        [] \<Rightarrow> s
      | current # queue \<Rightarrow>
          if length (sr_visited s) > 4096 then s
          else search_loop topology
            (foldl (search_edge topology) (s\<lparr>sr_queue := queue\<rparr>)
              (forward_edges (topo_Edges topology) current)))"
  by pat_completeness auto
termination
proof (relation "measures [\<lambda>(t, s). 4097 - length (sr_visited s), \<lambda>(t, s). length (sr_queue s)]")
  fix topology :: Topology and s :: Search and current queue
  assume q: "sr_queue s = current # queue" and v: "\<not> 4096 < length (sr_visited s)"
  from q v search_edges_grow [of topology "s\<lparr>sr_queue := queue\<rparr>"
      "forward_edges (topo_Edges topology) current"]
  show "((topology, foldl (search_edge topology) (s\<lparr>sr_queue := queue\<rparr>)
        (forward_edges (topo_Edges topology) current)), topology, s)
      \<in> measures [\<lambda>(t, s). 4097 - length (sr_visited s), \<lambda>(t, s). length (sr_queue s)]"
    by auto
qed simp

declare search_loop.simps [simp del]

definition discoverDeclaredProbeGatewayTargets ::
    "Topology \<Rightarrow> string \<Rightarrow> probeGatewayTarget list" where
  "discoverDeclaredProbeGatewayTargets topology source =
     sr_result (search_loop topology
       \<lparr>sr_queue = [source], sr_visited = [source], sr_seen = [source], sr_result = []\<rparr>)"

definition gatewayHasObservableRuntime :: "TopologyNode \<Rightarrow> bool" where
  "gatewayHasObservableRuntime node \<longleftrightarrow>
     node_Kind node = TopologyNodeKindGateway \<and> ''EnvoyConfig=available'' \<in> set (node_Conditions node)"

definition undeclared_target :: "Topology \<Rightarrow> TopologyNode \<Rightarrow> probeGatewayTarget" where
  "undeclared_target topology gateway =
     (let snapshot = snapshot_at (topo_Clusters topology) (node_ClusterID gateway) in
      zero_probeGatewayTarget\<lparr>tgt_ClusterID := node_ClusterID gateway,
        tgt_GatewayID := localID (node_ClusterID gateway) (node_ID gateway),
        tgt_GlobalID := node_ID gateway, tgt_GatewayName := node_Name gateway,
        tgt_SnapshotID := sn_ID snapshot, tgt_ObservedAt := sn_ObservedAt snapshot\<rparr>)"

definition discoverProbeGatewayTargets :: "Topology \<Rightarrow> string \<Rightarrow> probeGatewayTarget list" where
  "discoverProbeGatewayTargets topology source =
     (let nodes = topo_Nodes topology;
          declared = filter (\<lambda>t. gatewayHasObservableRuntime (node_at nodes (tgt_GlobalID t)))
            (discoverDeclaredProbeGatewayTargets topology source);
          seen = source # map tgt_GlobalID declared;
          gateways = slice_stable (\<lambda>a b. node_ID a < node_ID b)
            (filter (\<lambda>n. gatewayHasObservableRuntime n \<and> node_ID n \<notin> set seen) nodes)
      in declared @ map (undeclared_target topology) gateways)"

definition targetForGateway :: "Topology \<Rightarrow> string \<Rightarrow> probeGatewayTarget" where
  "targetForGateway topology gatewayID =
     (case find (\<lambda>n. node_ID n = gatewayID) (topo_Nodes topology) of
        None \<Rightarrow> zero_probeGatewayTarget\<lparr>tgt_GlobalID := gatewayID\<rparr>
      | Some node \<Rightarrow>
          (let target = zero_probeGatewayTarget\<lparr>tgt_ClusterID := node_ClusterID node,
                 tgt_GatewayID := localID (node_ClusterID node) (node_ID node),
                 tgt_GlobalID := node_ID node, tgt_GatewayName := node_Name node\<rparr>
           in case find (\<lambda>c. tc_ID c = node_ClusterID node) (topo_Clusters topology) of
                None \<Rightarrow> target
              | Some cluster \<Rightarrow>
                  target\<lparr>tgt_SnapshotID := sn_ID (tc_Snapshot cluster),
                         tgt_ObservedAt := sn_ObservedAt (tc_Snapshot cluster)\<rparr>))"

section \<open>The search for declared gateways\<close>

text \<open>
  What the configured edges lead to from the source: along an edge, and from the far end of a
  cross-cluster edge to the gateway that owns it.
\<close>

inductive declared_reach :: "Topology \<Rightarrow> string \<Rightarrow> string \<Rightarrow> bool" for topology source where
  start: "declared_reach topology source source"
| along: "declared_reach topology source (edge_From e) \<Longrightarrow> e \<in> set (topo_Edges topology) \<Longrightarrow>
    declared_reach topology source (edge_To e)"
| owner: "declared_reach topology source (edge_From e) \<Longrightarrow> e \<in> set (topo_Edges topology) \<Longrightarrow>
    edge_Relation e = ''cross-cluster'' \<Longrightarrow>
    declared_reach topology source
      (owningGateway (edge_To e) (topo_Nodes topology) (topo_Edges topology))"

definition declared_by :: "Topology \<Rightarrow> string \<Rightarrow> probeGatewayTarget \<Rightarrow> bool" where
  "declared_by topology source t \<longleftrightarrow>
     tgt_GlobalID t \<noteq> [] \<and>
     (\<exists>e \<in> set (topo_Edges topology). edge_Relation e = ''cross-cluster''
        \<and> declared_reach topology source (edge_From e) \<and> t = declared_target topology e)"

definition search_inv :: "Topology \<Rightarrow> string \<Rightarrow> Search \<Rightarrow> bool" where
  "search_inv topology source s \<longleftrightarrow>
     distinct (map tgt_GlobalID (sr_result s))
     \<and> set (sr_seen s) = insert source (tgt_GlobalID ` set (sr_result s))
     \<and> source \<notin> tgt_GlobalID ` set (sr_result s)
     \<and> (\<forall>t \<in> set (sr_result s). declared_by topology source t)
     \<and> (\<forall>i \<in> set (sr_queue s). declared_reach topology source i)"

lemma visit_fields [simp]:
  "sr_seen (visit i s) = sr_seen s" "sr_result (visit i s) = sr_result s"
  by (auto simp: visit_def)

lemma visit_queue: "x \<in> set (sr_queue (visit i s)) \<Longrightarrow> x = i \<or> x \<in> set (sr_queue s)"
  by (auto simp: visit_def split: if_splits)

lemma declared_target_global [simp]:
  "tgt_GlobalID (declared_target topology e) =
     owningGateway (edge_To e) (topo_Nodes topology) (topo_Edges topology)"
  "tgt_Declared (declared_target topology e)"
  by (simp_all add: declared_target_def Let_def)

lemma search_inv_edge [gl_inv]:
  assumes inv: "search_inv topology source s" and e: "e \<in> set (topo_Edges topology)"
    and reach: "declared_reach topology source (edge_From e)"
  shows "search_inv topology source (search_edge topology s e)"
proof -
  let ?t = "declared_target topology e" let ?g = "tgt_GlobalID ?t"
  have to: "declared_reach topology source (edge_To e)" by (rule along [OF reach e])
  show ?thesis
  proof (cases "edge_Relation e = ''cross-cluster'' \<and> ?g \<noteq> [] \<and> ?g \<notin> set (sr_seen s)")
    case False
    then have "search_edge topology s e = visit (edge_To e) s"
      by (auto simp: search_edge_def Let_def)
    then show ?thesis using inv to by (auto simp: search_inv_def dest: visit_queue)
  next
    case True
    let ?s = "s\<lparr>sr_seen := ?g # sr_seen s, sr_result := sr_result s @ [?t]\<rparr>"
    from True have eq: "search_edge topology s e = visit (edge_To e) (visit ?g ?s)"
      by (auto simp: search_edge_def Let_def)
    have g: "declared_reach topology source ?g" using owner [OF reach e] True by simp
    have "declared_by topology source ?t" using True e reach by (auto simp: declared_by_def)
    moreover have "\<forall>x \<in> set (sr_queue (visit (edge_To e) (visit ?g ?s))). declared_reach topology source x"
    proof
      fix x assume "x \<in> set (sr_queue (visit (edge_To e) (visit ?g ?s)))"
      then have "x = edge_To e \<or> x = ?g \<or> x \<in> set (sr_queue s)"
        by (auto dest!: visit_queue)
      with inv to g show "declared_reach topology source x" unfolding search_inv_def by blast
    qed
    ultimately show ?thesis
      unfolding eq using inv True to g by (auto simp: search_inv_def)
  qed
qed

lemma set_forward_edges:
  "set (forward_edges edges i) = {e \<in> set edges. edge_From e = i}"
  by (simp add: forward_edges_def)

lemma search_inv_loop: "search_inv topology source s \<Longrightarrow> search_inv topology source (search_loop topology s)"
proof (induction topology s rule: search_loop.induct)
  case (1 topology s)
  show ?case
  proof (cases "sr_queue s")
    case Nil
    then show ?thesis using "1.prems" by (simp add: search_loop.simps [of topology s])
  next
    case (Cons current queue)
    let ?next = "foldl (search_edge topology) (s\<lparr>sr_queue := queue\<rparr>)
      (forward_edges (topo_Edges topology) current)"
    have "search_inv topology source ?next"
    proof (rule foldl_invariant [where P = "search_inv topology source"])
      show "search_inv topology source (s\<lparr>sr_queue := queue\<rparr>)"
        using "1.prems" Cons by (simp add: search_inv_def)
      have "declared_reach topology source current"
        using "1.prems" Cons by (simp add: search_inv_def)
      then show "search_inv topology source (search_edge topology s' e)"
        if "search_inv topology source s'" "e \<in> set (forward_edges (topo_Edges topology) current)" for s' e
        using that by (intro search_inv_edge) (auto simp: set_forward_edges)
    qed
    with "1.IH" "1.prems" Cons show ?thesis by (simp add: search_loop.simps [of topology s])
  qed
qed

lemma declared_targets:
  "distinct (map tgt_GlobalID (discoverDeclaredProbeGatewayTargets topology source))"
  "source \<notin> tgt_GlobalID ` set (discoverDeclaredProbeGatewayTargets topology source)"
  "t \<in> set (discoverDeclaredProbeGatewayTargets topology source) \<Longrightarrow> declared_by topology source t"
proof -
  have "search_inv topology source \<lparr>sr_queue = [source], sr_visited = [source], sr_seen = [source],
      sr_result = []\<rparr>"
    by (simp add: search_inv_def declared_reach.start)
  from search_inv_loop [OF this] show
    "distinct (map tgt_GlobalID (discoverDeclaredProbeGatewayTargets topology source))"
    "source \<notin> tgt_GlobalID ` set (discoverDeclaredProbeGatewayTargets topology source)"
    "t \<in> set (discoverDeclaredProbeGatewayTargets topology source) \<Longrightarrow> declared_by topology source t"
    by (auto simp: search_inv_def discoverDeclaredProbeGatewayTargets_def)
qed

section \<open>The gateway that owns a node\<close>

text \<open>A path of edges backwards from a node through nodes of one cluster.\<close>

inductive cluster_path :: "TopologyNode list \<Rightarrow> TopologyEdge list \<Rightarrow> string \<Rightarrow> string \<Rightarrow> bool"
  for nodes edges start where
  here: "cluster_path nodes edges start start"
| step: "cluster_path nodes edges start (edge_To e) \<Longrightarrow> e \<in> set edges \<Longrightarrow>
    nodes_by_id nodes (edge_From e) \<noteq> None \<Longrightarrow>
    node_ClusterID (node_at nodes (edge_From e)) = node_ClusterID (node_at nodes start) \<Longrightarrow>
    cluster_path nodes edges start (edge_From e)"

lemma nodes_by_id_mem: "nodes_by_id nodes i = Some n \<Longrightarrow> n \<in> set nodes \<and> node_ID n = i"
  by (auto simp: nodes_by_id_def dest!: map_of_SomeD)

lemma node_at_ID: "nodes_by_id nodes i \<noteq> None \<Longrightarrow> node_ID (node_at nodes i) = i"
  using nodes_by_id_mem by (fastforce simp: node_at_def split: option.split)

lemma node_at_known: "node_ClusterID (node_at nodes i) \<noteq> [] \<Longrightarrow> nodes_by_id nodes i \<noteq> None"
  by (cases "nodes_by_id nodes i") (auto simp: node_at_def zero_TopologyNode_def)

definition own_inv ::
    "TopologyNode list \<Rightarrow> TopologyEdge list \<Rightarrow> string \<Rightarrow> string list \<Rightarrow> string list \<Rightarrow> bool" where
  "own_inv nodes edges start queue visited \<longleftrightarrow>
     start \<in> set visited \<and> set queue \<subseteq> set visited \<and> distinct visited
     \<and> (\<forall>i \<in> set visited. cluster_path nodes edges start i)
     \<and> (\<forall>e \<in> set edges. edge_To e \<in> set visited - set queue
          \<and> node_ClusterID (node_at nodes (edge_From e)) = node_ClusterID (node_at nodes start) \<longrightarrow>
          node_Kind (node_at nodes (edge_From e)) \<noteq> TopologyNodeKindGateway
          \<and> edge_From e \<in> set visited)"

lemma own_round_gateway:
  assumes "own_round nodes cluster es queue visited = Inl g" "cluster \<noteq> []"
  shows "\<exists>e \<in> set es. g = edge_From e \<and> node_Kind (node_at nodes g) = TopologyNodeKindGateway
    \<and> node_ClusterID (node_at nodes g) = cluster"
  using assms
proof (induction nodes cluster es queue visited rule: own_round.induct)
  case (2 nodes cluster e es queue visited)
  let ?n = "node_at nodes (edge_From e)"
  show ?case
  proof (cases "node_Kind ?n = TopologyNodeKindGateway \<and> node_ClusterID ?n = cluster")
    case True
    then have "node_ID ?n = edge_From e" using "2.prems"(2) node_at_known node_at_ID by metis
    with True "2.prems" show ?thesis by (auto simp: Let_def)
  next
    case False
    with 2 show ?thesis by (auto simp: Let_def split: if_splits)
  qed
qed simp

text \<open>A round that goes on has put every predecessor in the cluster on the list of visited nodes.\<close>

definition round_news ::
    "TopologyNode list \<Rightarrow> string \<Rightarrow> TopologyEdge list \<Rightarrow> string list \<Rightarrow> string list \<Rightarrow> bool" where
  "round_news nodes cluster es visited news \<longleftrightarrow>
     distinct news \<and> set news \<inter> set visited = {}
     \<and> (\<forall>i \<in> set news. (\<exists>e \<in> set es. i = edge_From e) \<and> node_ClusterID (node_at nodes i) = cluster)
     \<and> (\<forall>e \<in> set es. node_ClusterID (node_at nodes (edge_From e)) = cluster \<longrightarrow>
          node_Kind (node_at nodes (edge_From e)) \<noteq> TopologyNodeKindGateway
          \<and> edge_From e \<in> set news \<union> set visited)"

lemma own_round_continues:
  assumes "own_round nodes cluster es queue visited = Inr (queue', visited')" "cluster \<noteq> []"
  shows "\<exists>news. queue' = queue @ news \<and> visited' = rev news @ visited
    \<and> round_news nodes cluster es visited news"
  using assms
proof (induction nodes cluster es queue visited rule: own_round.induct)
  case (1 nodes cluster queue visited)
  then show ?case by (auto simp: round_news_def)
next
  case (2 nodes cluster e es queue visited)
  let ?n = "node_at nodes (edge_From e)"
  have id: "node_ID ?n = edge_From e" if "node_ClusterID ?n = cluster"
    using that "2.prems"(2) node_at_known node_at_ID by metis
  have ng: "\<not> (node_Kind ?n = TopologyNodeKindGateway \<and> node_ClusterID ?n = cluster)"
    using "2.prems"(1) by (auto simp: Let_def)
  show ?case
  proof (cases "node_ClusterID ?n = cluster \<and> node_ID ?n \<notin> set visited")
    case True
    with "2.prems" ng have "own_round nodes cluster es (queue @ [node_ID ?n]) (node_ID ?n # visited)
        = Inr (queue', visited')" by (auto simp: Let_def)
    with "2.IH"(1) [OF refl ng True] "2.prems"(2) obtain news where
      "queue' = (queue @ [node_ID ?n]) @ news" "visited' = rev news @ node_ID ?n # visited"
      "round_news nodes cluster es (node_ID ?n # visited) news" by blast
    moreover from this(3) True id ng have "round_news nodes cluster (e # es) visited (node_ID ?n # news)"
      by (auto simp: round_news_def)
    ultimately show ?thesis by (intro exI [of _ "node_ID ?n # news"]) simp
  next
    case False
    with "2.prems" ng have "own_round nodes cluster es queue visited = Inr (queue', visited')"
      by (auto simp: Let_def split: if_splits)
    with "2.IH"(2) [OF refl ng False] "2.prems"(2) obtain news where
      "queue' = queue @ news" "visited' = rev news @ visited"
      "round_news nodes cluster es visited news" by blast
    moreover from this(3) False id ng have "round_news nodes cluster (e # es) visited news"
      by (auto simp: round_news_def)
    ultimately show ?thesis by blast
  qed
qed

lemma own_inv_step:
  assumes inv: "own_inv nodes edges start (current # queue) visited"
    and cl: "node_ClusterID (node_at nodes start) = cluster" "cluster \<noteq> []"
    and round: "own_round nodes cluster (reverse_edges edges current) queue visited = Inr (queue', visited')"
  shows "own_inv nodes edges start queue' visited'"
proof -
  obtain news where eqs: "queue' = queue @ news" "visited' = rev news @ visited"
    and news: "round_news nodes cluster (reverse_edges edges current) visited news"
    using own_round_continues [OF round cl(2)] by blast
  have path: "cluster_path nodes edges start i" if "i \<in> set news" for i
  proof -
    from that news obtain e where e: "e \<in> set edges" "edge_To e = current" "i = edge_From e"
      and ci: "node_ClusterID (node_at nodes i) = cluster"
      by (auto simp: round_news_def reverse_edges_def)
    from inv have "cluster_path nodes edges start current" by (auto simp: own_inv_def)
    with e ci cl node_at_known [of nodes i] show ?thesis
      by (auto intro: cluster_path.step [of nodes edges start e])
  qed
  have closed: "node_Kind (node_at nodes (edge_From e)) \<noteq> TopologyNodeKindGateway
      \<and> edge_From e \<in> set visited'"
    if e: "e \<in> set edges" "edge_To e \<in> set visited' - set queue'"
      "node_ClusterID (node_at nodes (edge_From e)) = node_ClusterID (node_at nodes start)" for e
  proof (cases "edge_To e = current")
    case True
    with e cl news show ?thesis by (auto simp: round_news_def reverse_edges_def eqs)
  next
    case False
    with e eqs have "edge_To e \<in> set visited - set (current # queue)" by auto
    with inv e show ?thesis by (auto simp: own_inv_def eqs)
  qed
  from inv news path closed show ?thesis
    unfolding own_inv_def eqs by (auto simp: round_news_def)
qed

lemma own_loop_found:
  assumes "own_inv nodes edges start queue visited"
    "node_ClusterID (node_at nodes start) = cluster" "cluster \<noteq> []"
    "own_loop nodes edges cluster queue visited = g" "g \<noteq> []"
  shows "cluster_path nodes edges start g \<and> node_Kind (node_at nodes g) = TopologyNodeKindGateway"
  using assms
proof (induction nodes edges cluster queue visited rule: own_loop.induct)
  case (2 nodes edges cluster current queue visited)
  from "2.prems"(4,5) have short: "\<not> length visited > 128" by auto
  show ?case
  proof (cases "own_round nodes cluster (reverse_edges edges current) queue visited")
    case (Inl h)
    with "2.prems"(4) short have "h = g" by simp
    with Inl own_round_gateway [of nodes cluster "reverse_edges edges current" queue visited g]
      "2.prems"(3) obtain e where e: "e \<in> set edges" "edge_To e = current" "g = edge_From e"
      "node_Kind (node_at nodes g) = TopologyNodeKindGateway" "node_ClusterID (node_at nodes g) = cluster"
      by (auto simp: reverse_edges_def)
    from "2.prems"(1) have "cluster_path nodes edges start current" by (auto simp: own_inv_def)
    with e "2.prems"(2,3) node_at_known [of nodes g] show ?thesis
      by (auto intro: cluster_path.step [of nodes edges start e])
  next
    case (Inr qv)
    obtain q v where qv: "qv = (q, v)" by force
    from own_inv_step [OF "2.prems"(1-3)] Inr qv have "own_inv nodes edges start q v" by blast
    with "2.IH" [OF short Inr qv [symmetric]] "2.prems" Inr qv short show ?thesis by simp
  qed
qed simp

lemma cluster_path_cluster:
  "cluster_path nodes edges start i \<Longrightarrow>
    node_ClusterID (node_at nodes i) = node_ClusterID (node_at nodes start)"
  by (induction rule: cluster_path.induct) auto

lemma own_loop_missed:
  assumes "own_inv nodes edges start queue visited"
    "node_ClusterID (node_at nodes start) = cluster" "cluster \<noteq> []"
    "own_loop nodes edges cluster queue visited = []"
    and ids: "\<And>n. n \<in> set nodes \<Longrightarrow> node_ID n \<noteq> []"
    and few: "\<And>is. distinct is \<Longrightarrow> (\<forall>i \<in> set is. node_ClusterID (node_at nodes i) = cluster) \<Longrightarrow>
      length is \<le> 128"
  shows "\<exists>v. own_inv nodes edges start [] v"
  using assms
proof (induction nodes edges cluster queue visited rule: own_loop.induct)
  case (2 nodes edges cluster current queue visited)
  have "\<forall>i \<in> set visited. node_ClusterID (node_at nodes i) = cluster"
    using "2.prems"(1,2) cluster_path_cluster unfolding own_inv_def by metis
  with "2.prems"(1) "2.prems"(6) have short: "\<not> length visited > 128"
    by (auto simp: own_inv_def not_less)
  show ?case
  proof (cases "own_round nodes cluster (reverse_edges edges current) queue visited")
    case (Inl g)
    with "2.prems"(4) short have "g = []" by simp
    with Inl own_round_gateway [of nodes cluster "reverse_edges edges current" queue visited g]
      "2.prems"(3) have "nodes_by_id nodes [] \<noteq> None" using node_at_known by metis
    then have "\<exists>n \<in> set nodes. node_ID n = []" using nodes_by_id_mem by blast
    with "2.prems"(5) show ?thesis by blast
  next
    case (Inr qv)
    obtain q v where qv: "qv = (q, v)" by force
    from own_inv_step [OF "2.prems"(1-3)] Inr qv have "own_inv nodes edges start q v" by blast
    with "2.IH" [OF short Inr qv [symmetric]] "2.prems" Inr qv short show ?thesis by simp
  qed
qed blast

lemma own_inv_start: "own_inv nodes edges start [start] [start]"
  by (auto simp: own_inv_def cluster_path.here)

lemma own_inv_closed:
  assumes "own_inv nodes edges start [] v" "cluster_path nodes edges start i"
  shows "i \<in> set v \<and> (i \<noteq> start \<longrightarrow> node_Kind (node_at nodes i) \<noteq> TopologyNodeKindGateway)"
  using assms(2)
proof induction
  case here
  then show ?case using assms(1) by (simp add: own_inv_def)
next
  case (step e)
  then show ?case using assms(1) by (auto simp: own_inv_def)
qed

lemma same_cluster_few:
  assumes "length (filter (\<lambda>n. node_ClusterID n = cluster) nodes) \<le> 128" "cluster \<noteq> []"
    "distinct is" "\<forall>i \<in> set is. node_ClusterID (node_at nodes i) = cluster"
  shows "length is \<le> 128"
proof -
  let ?same = "filter (\<lambda>n. node_ClusterID n = cluster) nodes"
  have "set is \<subseteq> node_ID ` set ?same"
  proof
    fix i assume "i \<in> set is"
    with assms(4) have c: "node_ClusterID (node_at nodes i) = cluster" by blast
    with assms(2) obtain n where "nodes_by_id nodes i = Some n" using node_at_known [of nodes i] by auto
    with c nodes_by_id_mem show "i \<in> node_ID ` set ?same" by (fastforce simp: node_at_def)
  qed
  then have "card (set is) \<le> card (node_ID ` set ?same)" by (intro card_mono) simp_all
  also have "\<dots> \<le> length ?same" using card_image_le card_length by (metis List.finite_set order_trans)
  finally show ?thesis using assms(1,3) by (simp add: distinct_card)
qed

section \<open>Properties\<close>

text \<open>
  \<open>owningGateway\<close> is correct on a cluster of at most 128 nodes, cyclic graphs included: it
  returns a gateway from which edges inside the cluster lead to the node, and it returns
  none only if there is no such gateway.
\<close>

theorem owningGateway_correct:
  assumes "node_ClusterID (node_at nodes i) \<noteq> []"
    and "\<And>n. n \<in> set nodes \<Longrightarrow> node_ID n \<noteq> []"
    and "length (filter (\<lambda>n. node_ClusterID n = node_ClusterID (node_at nodes i)) nodes) \<le> 128"
  shows "let g = owningGateway i nodes edges in
    if g \<noteq> [] then cluster_path nodes edges i g \<and> node_Kind (node_at nodes g) = TopologyNodeKindGateway
    else \<not> (\<exists>g. cluster_path nodes edges i g \<and> node_Kind (node_at nodes g) = TopologyNodeKindGateway)"
proof (cases "node_Kind (node_at nodes i) = TopologyNodeKindGateway")
  case True
  have "i \<noteq> []" using assms(1,2) node_at_known nodes_by_id_mem by (metis not_None_eq)
  with True show ?thesis by (simp add: owningGateway_def Let_def cluster_path.here)
next
  case False
  let ?g = "own_loop nodes edges (node_ClusterID (node_at nodes i)) [i] [i]"
  have g: "owningGateway i nodes edges = ?g" using False by (simp add: owningGateway_def)
  show ?thesis
  proof (cases "?g = []")
    case True
    from own_loop_missed [OF own_inv_start refl assms(1) this assms(2)
        same_cluster_few [OF assms(3,1)]]
    obtain v where "own_inv nodes edges i [] v" by blast
    from own_inv_closed [OF this] False True g show ?thesis by (auto simp: Let_def)
  next
    case False
    from own_loop_found [OF own_inv_start refl assms(1) refl this] False g show ?thesis
      by (simp add: Let_def)
  qed
qed

text \<open>A listener and a service that point at each other, and the gateway that owns the listener.\<close>

definition sample_owned :: "TopologyNode list" where
  "sample_owned = map (\<lambda>(i, k). zero_TopologyNode\<lparr>node_ID := i, node_Kind := k, node_ClusterID := ''a''\<rparr>)
     [(''g'', TopologyNodeKindGateway), (''l'', TopologyNodeKindListener), (''s'', TopologyNodeKindService)]"

definition sample_edge :: "string \<Rightarrow> string \<Rightarrow> string \<Rightarrow> TopologyEdge" where
  "sample_edge relation a b = zero_TopologyEdge\<lparr>edge_From := a, edge_To := b, edge_Relation := relation\<rparr>"

definition sample_owned_edges :: "TopologyEdge list" where
  "sample_owned_edges = [sample_edge ''routes'' ''s'' ''l'', sample_edge ''routes'' ''l'' ''s'',
     sample_edge ''owns'' ''g'' ''l'']"

lemma owningGateway_correct_witness:
  "owningGateway ''s'' sample_owned sample_owned_edges = ''g''
   \<and> cluster_path sample_owned sample_owned_edges ''s'' ''g''"
proof -
  have g: "owningGateway ''s'' sample_owned sample_owned_edges = ''g''" by code_simp
  have "node_ClusterID (node_at sample_owned ''s'') = ''a''" "\<forall>n \<in> set sample_owned. node_ID n \<noteq> []"
    "length (filter (\<lambda>n. node_ClusterID n = ''a'') sample_owned) \<le> 128" by code_simp+
  then show ?thesis
    using owningGateway_correct [of sample_owned "''s''" sample_owned_edges] g by (auto simp: Let_def)
qed

text \<open>
  C30: \<open>discoverProbeGatewayTargets\<close> asks every observable gateway except the source exactly once,
  whatever the configured edges say; those edges only add display data.
\<close>

theorem discoverProbeGatewayTargets_complete:
  assumes "distinct (map node_ID (topo_Nodes topology))"
  shows "distinct (map tgt_GlobalID (discoverProbeGatewayTargets topology source))
    \<and> tgt_GlobalID ` set (discoverProbeGatewayTargets topology source) =
      {node_ID n | n. n \<in> set (topo_Nodes topology) \<and> gatewayHasObservableRuntime n} - {source}"
proof -
  let ?nodes = "topo_Nodes topology"
  let ?declared = "filter (\<lambda>t. gatewayHasObservableRuntime (node_at ?nodes (tgt_GlobalID t)))
    (discoverDeclaredProbeGatewayTargets topology source)"
  let ?rest = "slice_stable (\<lambda>a b. node_ID a < node_ID b) (filter (\<lambda>n. gatewayHasObservableRuntime n
    \<and> node_ID n \<notin> set (source # map tgt_GlobalID ?declared)) ?nodes)"
  have eq: "discoverProbeGatewayTargets topology source = ?declared @ map (undeclared_target topology) ?rest"
    by (simp only: discoverProbeGatewayTargets_def Let_def)
  have ids: "map tgt_GlobalID (map (undeclared_target topology) xs) = map node_ID xs" for xs
    by (simp add: undeclared_target_def Let_def)
  have known: "\<exists>n \<in> set ?nodes. node_ID n = i \<and> gatewayHasObservableRuntime n"
    if "gatewayHasObservableRuntime (node_at ?nodes i)" for i
  proof (cases "nodes_by_id ?nodes i")
    case None
    with that show ?thesis
      by (simp add: node_at_def gatewayHasObservableRuntime_def zero_TopologyNode_def)
  next
    case (Some n)
    with that nodes_by_id_mem [OF Some] show ?thesis by (auto simp: node_at_def)
  qed
  have d1: "distinct (map tgt_GlobalID ?declared)" by (rule distinct_map_filter [OF declared_targets(1)])
  have d2: "distinct (map node_ID ?rest)" using assms by (simp add: distinct_map_filter)
  have src: "source \<notin> tgt_GlobalID ` set ?declared" using declared_targets(2) by auto
  define D where "D = set (map tgt_GlobalID ?declared)"
  have rest: "set (map node_ID ?rest) =
      {node_ID n | n. n \<in> set ?nodes \<and> gatewayHasObservableRuntime n \<and> node_ID n \<notin> insert source D}"
    unfolding D_def by auto
  have "distinct (map tgt_GlobalID (?declared @ map (undeclared_target topology) ?rest))"
    unfolding map_append ids distinct_append rest using d1 d2 unfolding D_def [symmetric] by auto
  moreover have "D \<subseteq> {node_ID n | n. n \<in> set ?nodes \<and> gatewayHasObservableRuntime n} - {source}"
  proof
    fix i assume i: "i \<in> D"
    then have "gatewayHasObservableRuntime (node_at ?nodes i)" by (auto simp: D_def)
    with known [of i] i src show "i \<in> {node_ID n | n. n \<in> set ?nodes
        \<and> gatewayHasObservableRuntime n} - {source}" by (auto simp: D_def)
  qed
  then have "set (map tgt_GlobalID (?declared @ map (undeclared_target topology) ?rest)) =
      {node_ID n | n. n \<in> set ?nodes \<and> gatewayHasObservableRuntime n} - {source}"
    unfolding map_append ids set_append rest unfolding D_def [symmetric] by auto
  ultimately show ?thesis unfolding eq by (simp only: set_map)
qed

text \<open>
  A target \<open>discoverDeclaredProbeGatewayTargets\<close> finds rests on configuration: some
  cross-cluster edge, reachable from the source along edges and owning gateways, leads to a
  node the target owns; transport and destination are that edge's and the predecessor is
  the gateway owning its near end. No target is named twice and none is the source.
\<close>

theorem declared_targets_evidence:
  "distinct (map tgt_GlobalID (discoverDeclaredProbeGatewayTargets topology source))
   \<and> source \<notin> tgt_GlobalID ` set (discoverDeclaredProbeGatewayTargets topology source)
   \<and> (\<forall>t \<in> set (discoverDeclaredProbeGatewayTargets topology source).
        \<exists>e \<in> set (topo_Edges topology). edge_Relation e = ''cross-cluster''
          \<and> declared_reach topology source (edge_From e)
          \<and> tgt_GlobalID t = owningGateway (edge_To e) (topo_Nodes topology) (topo_Edges topology)
          \<and> tgt_PredecessorGatewayID t =
              owningGateway (edge_From e) (topo_Nodes topology) (topo_Edges topology)
          \<and> tgt_Transport t = edge_Transport e \<and> tgt_Destination t = edge_Destination e)"
proof -
  have "\<exists>e \<in> set (topo_Edges topology). edge_Relation e = ''cross-cluster''
      \<and> declared_reach topology source (edge_From e)
      \<and> tgt_GlobalID t = owningGateway (edge_To e) (topo_Nodes topology) (topo_Edges topology)
      \<and> tgt_PredecessorGatewayID t =
          owningGateway (edge_From e) (topo_Nodes topology) (topo_Edges topology)
      \<and> tgt_Transport t = edge_Transport e \<and> tgt_Destination t = edge_Destination e"
    if "declared_by topology source t" for t
    using that by (auto simp: declared_by_def declared_target_def Let_def)
  with declared_targets show ?thesis by metis
qed

definition sample_topology :: Topology where
  "sample_topology = zero_Topology\<lparr>
     topo_Nodes := map (\<lambda>(i, c). zero_TopologyNode\<lparr>node_ID := i, node_Kind := TopologyNodeKindGateway,
         node_ClusterID := c, node_Conditions := [''EnvoyConfig=available'']\<rparr>)
       [(''a::g'', ''a''), (''b::g'', ''b''), (''c::g'', ''c'')],
     topo_Edges := [sample_edge ''cross-cluster'' ''a::g'' ''b::g'']\<rparr>"

lemma discoverProbeGatewayTargets_complete_witness:
  "map tgt_GlobalID (discoverProbeGatewayTargets sample_topology ''a::g'') = [''b::g'', ''c::g'']
   \<and> distinct (map tgt_GlobalID (discoverProbeGatewayTargets sample_topology ''a::g''))"
proof -
  have "map tgt_GlobalID (discoverProbeGatewayTargets sample_topology ''a::g'') = [''b::g'', ''c::g'']"
    by code_simp
  moreover have "distinct (map node_ID (topo_Nodes sample_topology))" by code_simp
  ultimately show ?thesis
    using discoverProbeGatewayTargets_complete [of sample_topology "''a::g''"] by blast
qed

lemma declared_targets_evidence_witness:
  "\<exists>t \<in> set (discoverDeclaredProbeGatewayTargets sample_topology ''a::g'').
     \<exists>e \<in> set (topo_Edges sample_topology). tgt_GlobalID t =
       owningGateway (edge_To e) (topo_Nodes sample_topology) (topo_Edges sample_topology)"
proof -
  have "map tgt_GlobalID (discoverDeclaredProbeGatewayTargets sample_topology ''a::g'') = [''b::g'']"
    by code_simp
  then have "discoverDeclaredProbeGatewayTargets sample_topology ''a::g'' \<noteq> []" by auto
  then obtain t where "t \<in> set (discoverDeclaredProbeGatewayTargets sample_topology ''a::g'')"
    by (meson hd_in_set)
  with declared_targets_evidence [of sample_topology "''a::g''"] show ?thesis by blast
qed

end
