(* ===== verification/Association_Rules.thy ===== *)
theory Association_Rules
  imports Gateway_Discovery Wording
begin

text \<open>
  \<open>internal/federation/probe_association_rules.go\<close>: candidate gateways without access-log
  records of their own are associated with a probe by rules over runtime and configuration
  evidence. A rule is a Go interface value, here the record of its two methods; ranking by
  strength and the treatment of ambiguity are shared.
\<close>

section \<open>Normalised hosts and cluster tokens\<close>

definition Trim_cutset :: "string \<Rightarrow> string \<Rightarrow> string" where
  "Trim_cutset s cutset =
     rev (dropWhile (\<lambda>c. c \<in> set cutset) (rev (dropWhile (\<lambda>c. c \<in> set cutset) s)))"

definition normalizedUpstreamHost :: "string \<Rightarrow> string" where
  "normalizedUpstreamHost value0 =
     (let value = TrimSpace value0;
          bare = (case SplitHostPort value of
              Some (host, port) \<Rightarrow> ToLower (TrimSuffix (Trim_cutset host ''[]'') ''.'')
            | None \<Rightarrow> ToLower (TrimSuffix (Trim_cutset value ''[]'') ''.''))
      in
      if value = [] then []
      else (case url_Parse value of
              Some parsed \<Rightarrow>
                if url_Hostname parsed \<noteq> [] then ToLower (TrimSuffix (url_Hostname parsed) ''.'')
                else bare
            | None \<Rightarrow> bare))"

definition token_separator :: "char \<Rightarrow> bool" where
  "token_separator c \<longleftrightarrow> c \<in> set (''|:;,/()[] '' @ [byte 9, byte 13, byte 10])"

definition upstreamClusterTokens :: "string \<Rightarrow> string list" where
  "upstreamClusterTokens upstreamCluster =
     filter (\<lambda>token. token \<noteq> [])
       (map normalizeTarget (FieldsFunc token_separator (ToLower upstreamCluster)))"

section \<open>Matching a target\<close>

definition gatewayTargetServiceKeys ::
    "probeGatewayTarget \<Rightarrow> ProbeEntry list \<Rightarrow> TopologyNode \<Rightarrow> string list" where
  "gatewayTargetServiceKeys target entries gateway =
     map (\<lambda>entry. (if entry_ClusterID entry = [] then tgt_ClusterID target else entry_ClusterID entry)
            @ ''::'' @ entry_Namespace entry @ ''/'' @ entry_ServiceName entry)
       (filter (\<lambda>entry. entry_Namespace entry \<noteq> [] \<and> entry_ServiceName entry \<noteq> []) entries)
     @ map (\<lambda>service. tgt_ClusterID target @ ''::'' @ service)
       (filter (\<lambda>service. Contains service ''/'')
         (List.map_filter (\<lambda>condition. CutPrefix condition ''Service='') (node_Conditions gateway)))"

definition gatewayTargetMatchesAddress :: "ProbeEntry list \<Rightarrow> TopologyNode \<Rightarrow> string \<Rightarrow> bool" where
  "gatewayTargetMatchesAddress entries gateway host \<longleftrightarrow>
     list_ex (\<lambda>entry. list_ex (\<lambda>address. normalizedUpstreamHost address = host) (entry_Addresses entry))
       entries
     \<or> list_ex (\<lambda>condition. case CutPrefix condition ''Address='' of None \<Rightarrow> False
          | Some address \<Rightarrow> normalizedUpstreamHost address = host) (node_Conditions gateway)"

definition entry_aliases :: "ProbeEntry \<Rightarrow> string list" where
  "entry_aliases entry =
     ToLower (TrimSuffix (entry_DNSName entry) ''.'')
     # map normalizedUpstreamHost (entry_Addresses entry)
     @ (if entry_ServiceName entry \<noteq> [] \<and> entry_Namespace entry \<noteq> []
        then [ToLower (entry_ServiceName entry @ ''.'' @ entry_Namespace entry @ ''.svc''),
              ToLower (entry_ServiceName entry @ ''.'' @ entry_Namespace entry)]
        else [])"

definition condition_aliases :: "string \<Rightarrow> string list" where
  "condition_aliases condition =
     concat (map (\<lambda>prefix. case CutPrefix condition prefix of None \<Rightarrow> []
         | Some value \<Rightarrow>
             (let alias = normalizedUpstreamHost value in
              alias # (if HasSuffix alias ''.svc.cluster.local''
                       then [TrimSuffix alias ''.cluster.local''] else [])))
       [''ServiceDNS='', ''Address='', ''Hostname=''])"

definition token_matches :: "string \<Rightarrow> string \<Rightarrow> bool" where
  "token_matches token alias \<longleftrightarrow>
     alias \<noteq> [] \<and> (token = alias \<or> HasSuffix alias ''.svc'' \<and> HasPrefix token (alias @ ''.''))"

definition gatewayTargetMatchesCluster ::
    "ProbeEntry list \<Rightarrow> TopologyNode \<Rightarrow> TopologyNode list \<Rightarrow> string \<Rightarrow> bool" where
  "gatewayTargetMatchesCluster entries gateway owned upstreamCluster =
     (let aliases = concat (map entry_aliases entries)
            @ concat (map (\<lambda>node. concat (map condition_aliases (node_Conditions node)))
                (gateway # owned))
      in list_ex (\<lambda>token. list_ex (token_matches token) aliases)
           (upstreamClusterTokens upstreamCluster))"

section \<open>Rules\<close>

record probeAssociationMatch =
  pam_gatewayID :: string
  pam_basis :: string

record probeAssociationRuleResult =
  pas_matches :: "probeAssociationMatch list"
  pas_confidence :: ProbeInferenceConfidence
  pas_strength :: int
  pas_ambiguousBasis :: string

record probeAssociationContext =
  pac_topology :: Topology
  pac_targets :: "probeGatewayTarget list"
  pac_hops :: "ObservedHop list"
  pac_observedGatewayIDs :: "string \<Rightarrow> bool"
  pac_entriesByGateway :: "string \<Rightarrow> ProbeEntry list"
  pac_nodesByID :: "string \<Rightarrow> TopologyNode"
  pac_ownedNodes :: "string \<Rightarrow> TopologyNode list"
  pac_forwardEdges :: "string \<Rightarrow> TopologyEdge list"

record probeAssociationRule =
  rule_name :: string
  rule_infer :: "probeAssociationContext \<Rightarrow> probeAssociationRuleResult list"

record probeGatewayInference =
  inf_Basis :: string
  inf_Confidence :: ProbeInferenceConfidence

definition probeAssociationStrengthDeclared :: int where "probeAssociationStrengthDeclared = 100"
definition probeAssociationStrengthCluster :: int where "probeAssociationStrengthCluster = 200"
definition probeAssociationStrengthHost :: int where "probeAssociationStrengthHost = 300"

definition newProbeAssociationContext ::
    "Topology \<Rightarrow> probeGatewayTarget list \<Rightarrow> ObservedHop list \<Rightarrow> (string \<Rightarrow> bool)
     \<Rightarrow> probeAssociationContext" where
  "newProbeAssociationContext topology targets hops observed =
     (let nodes = topo_Nodes topology; edges = topo_Edges topology in
      \<lparr>pac_topology = topology, pac_targets = targets, pac_hops = hops,
       pac_observedGatewayIDs = observed,
       pac_entriesByGateway =
         (\<lambda>g. filter (\<lambda>entry. entry_GatewayID entry = g) (topo_ProbeEntries topology)),
       pac_nodesByID = node_at nodes,
       pac_ownedNodes = (\<lambda>g. map (\<lambda>edge. node_at nodes (edge_To edge))
         (filter (\<lambda>edge. edge_From edge = g \<and> edge_Relation edge = ''owns''
              \<and> node_Kind (node_at nodes (edge_From edge)) = TopologyNodeKindGateway) edges)),
       pac_forwardEdges = (\<lambda>i. filter (\<lambda>edge. edge_From edge = i) edges)\<rparr>)"

fun unique_matches ::
    "string list \<Rightarrow> probeAssociationMatch list \<Rightarrow> probeAssociationMatch list" where
  "unique_matches seen [] = []"
| "unique_matches seen (match # matches) =
     (if pam_gatewayID match = [] \<or> pam_gatewayID match \<in> set seen then unique_matches seen matches
      else match # unique_matches (pam_gatewayID match # seen) matches)"

definition uniqueProbeAssociationMatches ::
    "probeAssociationMatch list \<Rightarrow> probeAssociationMatch list" where
  "uniqueProbeAssociationMatches matches = unique_matches [] matches"

definition host_association ::
    "probeAssociationContext \<Rightarrow> ObservedHop \<Rightarrow> string \<Rightarrow> probeAssociationRuleResult" where
  "host_association ctx hop host =
     \<lparr>pas_matches =
        map (\<lambda>target. \<lparr>pam_gatewayID = tgt_GlobalID target,
              pam_basis = txt_host_prefix @ hop_UpstreamHost hop @ txt_host_match_suffix\<rparr>)
          (filter (\<lambda>target. gatewayTargetMatchesAddress
               (pac_entriesByGateway ctx (tgt_GlobalID target))
               (pac_nodesByID ctx (tgt_GlobalID target)) host) (pac_targets ctx)),
      pas_confidence = ProbeInferenceConfidenceHigh,
      pas_strength = probeAssociationStrengthHost,
      pas_ambiguousBasis = txt_host_prefix @ hop_UpstreamHost hop @ txt_rule_matches @ ''%d''
        @ txt_host_ambiguous_suffix\<rparr>"

definition host_infer :: "probeAssociationContext \<Rightarrow> probeAssociationRuleResult list" where
  "host_infer ctx =
     List.map_filter (\<lambda>hop.
       (let host = normalizedUpstreamHost (hop_UpstreamHost hop) in
        if host = [] then None else Some (host_association ctx hop host))) (pac_hops ctx)"

text \<open>The services a registry the upstream cluster names resolves to, with the registry's name.\<close>

definition resolved_services ::
    "probeAssociationContext \<Rightarrow> string list \<Rightarrow> (string \<times> string) list" where
  "resolved_services ctx tokens =
     concat (map (\<lambda>node.
       (case valuesWithPrefixes (node_Conditions node) [''Type=''] of
          [] \<Rightarrow> []
        | t # _ \<Rightarrow>
            if node_Kind node \<noteq> TopologyNodeKindRegistry
               \<or> normalizeTarget (node_Name node @ ''.'' @ t) \<notin> set tokens
            then []
            else List.map_filter (\<lambda>edge.
                (let service = pac_nodesByID ctx (edge_To edge) in
                 if edge_Relation edge = ''resolves'' \<and> node_Kind service = TopologyNodeKindService
                 then Some (node_ClusterID service @ ''::'' @ node_Namespace service @ ''/''
                              @ node_Name service,
                            node_Namespace node @ ''/'' @ node_Name node @ ''.'' @ t)
                 else None)) (pac_forwardEdges ctx (node_ID node))))
       (topo_Nodes (pac_topology ctx)))"

definition registry_infer :: "probeAssociationContext \<Rightarrow> probeAssociationRuleResult list" where
  "registry_infer ctx =
     List.map_filter (\<lambda>hop.
       (let tokens = upstreamClusterTokens (hop_UpstreamCluster hop);
            resolved = resolved_services ctx tokens
        in
        if tokens = [] then None
        else Some \<lparr>pas_matches =
               List.map_filter (\<lambda>target.
                 (let services = gatewayTargetServiceKeys target
                        (pac_entriesByGateway ctx (tgt_GlobalID target))
                        (pac_nodesByID ctx (tgt_GlobalID target))
                  in map_option (\<lambda>service. \<lparr>pam_gatewayID = tgt_GlobalID target,
                       pam_basis = txt_cluster_prefix @ hop_UpstreamCluster hop @ txt_registry_match
                         @ snd service @ txt_registry_match_suffix\<rparr>)
                     (find (\<lambda>service. fst service \<in> set services) resolved))) (pac_targets ctx),
             pas_confidence = ProbeInferenceConfidenceMedium,
             pas_strength = probeAssociationStrengthCluster,
             pas_ambiguousBasis = txt_cluster_prefix @ hop_UpstreamCluster hop
               @ txt_registry_ambiguous @ ''%d'' @ txt_registry_ambiguous_suffix\<rparr>)) (pac_hops ctx)"

definition cluster_infer :: "probeAssociationContext \<Rightarrow> probeAssociationRuleResult list" where
  "cluster_infer ctx =
     List.map_filter (\<lambda>hop.
       if TrimSpace (hop_UpstreamCluster hop) = [] then None
       else Some \<lparr>pas_matches =
              map (\<lambda>target. \<lparr>pam_gatewayID = tgt_GlobalID target,
                    pam_basis = txt_cluster_prefix @ hop_UpstreamCluster hop @ txt_cluster_match_suffix\<rparr>)
                (filter (\<lambda>target. gatewayTargetMatchesCluster
                     (pac_entriesByGateway ctx (tgt_GlobalID target))
                     (pac_nodesByID ctx (tgt_GlobalID target))
                     (pac_ownedNodes ctx (tgt_GlobalID target)) (hop_UpstreamCluster hop))
                  (pac_targets ctx)),
            pas_confidence = ProbeInferenceConfidenceMedium,
            pas_strength = probeAssociationStrengthCluster,
            pas_ambiguousBasis = txt_cluster_prefix @ hop_UpstreamCluster hop @ txt_rule_matches
              @ ''%d'' @ txt_host_ambiguous_suffix\<rparr>) (pac_hops ctx)"

definition declared_infer :: "probeAssociationContext \<Rightarrow> probeAssociationRuleResult list" where
  "declared_infer ctx =
     List.map_filter (\<lambda>target.
       if \<not> tgt_Declared target \<or> \<not> pac_observedGatewayIDs ctx (tgt_PredecessorGatewayID target)
       then None
       else
         (let destination0 = TrimSpace (tgt_Destination target);
              destination = (if destination0 = [] then tgt_GatewayName target else destination0)
          in Some \<lparr>pas_matches = [\<lparr>pam_gatewayID = tgt_GlobalID target,
                     pam_basis = txt_declared_prefix @ destination @ txt_declared_suffix\<rparr>],
                   pas_confidence = ProbeInferenceConfidenceLow,
                   pas_strength = probeAssociationStrengthDeclared,
                   pas_ambiguousBasis = []\<rparr>)) (pac_targets ctx)"

definition defaultProbeAssociationRules :: "probeAssociationRule list" where
  "defaultProbeAssociationRules =
     [\<lparr>rule_name = ''upstream-host-entry-address'', rule_infer = host_infer\<rparr>,
      \<lparr>rule_name = ''higress-mcpbridge-registry-service'', rule_infer = registry_infer\<rparr>,
      \<lparr>rule_name = ''upstream-cluster-entry-service'', rule_infer = cluster_infer\<rparr>,
      \<lparr>rule_name = ''observed-predecessor-declared-edge'', rule_infer = declared_infer\<rparr>]"

section \<open>Ranking\<close>

text \<open>The inference one matched gateway gets from one association.\<close>

definition match_inference ::
    "probeAssociationRule \<Rightarrow> probeAssociationRuleResult \<Rightarrow> nat \<Rightarrow> probeAssociationMatch
     \<Rightarrow> probeGatewayInference" where
  "match_inference rule association n match =
     (if n > 1
      then \<lparr>inf_Basis =
              (if pas_ambiguousBasis association \<noteq> []
               then sprintf_int (pas_ambiguousBasis association) (int n) False
               else txt_rule_prefix @ rule_name rule @ txt_rule_matches @ Itoa (int n) @ txt_rule_suffix),
            inf_Confidence = ProbeInferenceConfidenceAmbiguous\<rparr>
      else \<lparr>inf_Basis = pam_basis match, inf_Confidence = pas_confidence association\<rparr>)"

definition rank_match ::
    "probeAssociationRule \<Rightarrow> probeAssociationRuleResult \<Rightarrow> nat
     \<Rightarrow> (string \<rightharpoonup> probeGatewayInference \<times> int) \<Rightarrow> probeAssociationMatch
     \<Rightarrow> (string \<rightharpoonup> probeGatewayInference \<times> int)" where
  "rank_match rule association n ranked match =
     (let inference = match_inference rule association n match in
      case ranked (pam_gatewayID match) of
        None \<Rightarrow> ranked(pam_gatewayID match \<mapsto> (inference, pas_strength association))
      | Some (current, strength) \<Rightarrow>
          if pas_strength association > strength
          then ranked(pam_gatewayID match \<mapsto> (inference, pas_strength association)) else ranked)"

definition rank_association ::
    "probeAssociationRule \<Rightarrow> (string \<rightharpoonup> probeGatewayInference \<times> int) \<Rightarrow> probeAssociationRuleResult
     \<Rightarrow> (string \<rightharpoonup> probeGatewayInference \<times> int)" where
  "rank_association rule ranked association =
     (let matches = uniqueProbeAssociationMatches (pas_matches association) in
      foldl (rank_match rule association (length matches)) ranked matches)"

definition inferProbeGatewayCandidatesWithRules ::
    "Topology \<Rightarrow> probeGatewayTarget list \<Rightarrow> ObservedHop list \<Rightarrow> (string \<Rightarrow> bool)
     \<Rightarrow> probeAssociationRule list \<Rightarrow> (string \<rightharpoonup> probeGatewayInference)" where
  "inferProbeGatewayCandidatesWithRules topology targets hops observed rules =
     (let ctx = newProbeAssociationContext topology targets hops observed;
          ranked = foldl (\<lambda>ranked rule. foldl (rank_association rule) ranked (rule_infer rule ctx))
            Map.empty rules
      in (\<lambda>g. map_option fst (ranked g)))"

definition inferProbeGatewayCandidates ::
    "Topology \<Rightarrow> probeGatewayTarget list \<Rightarrow> ObservedHop list \<Rightarrow> (string \<Rightarrow> bool)
     \<Rightarrow> (string \<rightharpoonup> probeGatewayInference)" where
  "inferProbeGatewayCandidates topology targets hops observed =
     inferProbeGatewayCandidatesWithRules topology targets hops observed defaultProbeAssociationRules"

section \<open>Ranking as a choice among all the evidence\<close>

type_synonym evidence = "(string \<times> probeGatewayInference \<times> int) list"

text \<open>What one association says about each gateway it matches, in order, and all the evidence.\<close>

definition association_evidence ::
    "probeAssociationRule \<Rightarrow> probeAssociationRuleResult \<Rightarrow> evidence" where
  "association_evidence rule a =
     (let matches = uniqueProbeAssociationMatches (pas_matches a) in
      map (\<lambda>m. (pam_gatewayID m, match_inference rule a (length matches) m, pas_strength a)) matches)"

definition all_evidence :: "probeAssociationRule list \<Rightarrow> probeAssociationContext \<Rightarrow> evidence" where
  "all_evidence rules ctx =
     concat (map (\<lambda>rule. concat (map (association_evidence rule) (rule_infer rule ctx))) rules)"

definition rank_one ::
    "(string \<rightharpoonup> probeGatewayInference \<times> int) \<Rightarrow> string \<times> probeGatewayInference \<times> int
     \<Rightarrow> (string \<rightharpoonup> probeGatewayInference \<times> int)" where
  "rank_one ranked e =
     (case e of (g, i, s) \<Rightarrow>
       (case ranked g of None \<Rightarrow> ranked(g \<mapsto> (i, s))
        | Some (i0, s0) \<Rightarrow> if s > s0 then ranked(g \<mapsto> (i, s)) else ranked))"

text \<open>The first piece of evidence among the strongest for a gateway.\<close>

definition chosen_evidence :: "evidence \<Rightarrow> string \<Rightarrow> probeGatewayInference \<Rightarrow> int \<Rightarrow> bool" where
  "chosen_evidence es g i s \<longleftrightarrow>
     (\<exists>as bs. es = as @ (g, i, s) # bs
        \<and> (\<forall>(g', i', s') \<in> set as. g' = g \<longrightarrow> s' < s)
        \<and> (\<forall>(g', i', s') \<in> set bs. g' = g \<longrightarrow> s' \<le> s))"

lemma foldl_map_as: "foldl f s (map g xs) = foldl (\<lambda>s x. f s (g x)) s xs"
  by (induction xs arbitrary: s) simp_all

lemma foldl_concat_as: "foldl f s (concat xss) = foldl (foldl f) s xss"
  by (induction xss arbitrary: s) simp_all

lemma rank_match_one:
  "rank_match rule a n ranked m =
     rank_one ranked (pam_gatewayID m, match_inference rule a n m, pas_strength a)"
  by (simp add: rank_match_def rank_one_def Let_def)

lemma rank_association_evidence:
  "rank_association rule ranked a = foldl rank_one ranked (association_evidence rule a)"
proof -
  have "rank_match rule a n = (\<lambda>ranked m.
      rank_one ranked (pam_gatewayID m, match_inference rule a n m, pas_strength a))" for n
    using rank_match_one by fast
  then show ?thesis by (simp add: rank_association_def association_evidence_def Let_def foldl_map_as)
qed

lemma ranked_all_evidence:
  "foldl (\<lambda>ranked rule. foldl (rank_association rule) ranked (rule_infer rule ctx)) ranked0 rules =
     foldl rank_one ranked0 (all_evidence rules ctx)"
proof -
  have "foldl (rank_association rule) ranked as =
      foldl rank_one ranked (concat (map (association_evidence rule) as))" for rule ranked "as"
    by (induction "as" arbitrary: ranked) (simp_all add: rank_association_evidence)
  then show ?thesis
    by (induction rules arbitrary: ranked0) (simp_all add: all_evidence_def)
qed

lemma rank_one_at:
  "rank_one ranked (g, i, s) g' =
     (if g' \<noteq> g then ranked g'
      else (case ranked g of None \<Rightarrow> Some (i, s)
            | Some (i0, s0) \<Rightarrow> if s > s0 then Some (i, s) else Some (i0, s0)))"
  by (auto simp: rank_one_def split: option.split)

lemma rank_one_chosen:
  "(case foldl rank_one Map.empty es g of
      None \<Rightarrow> g \<notin> fst ` set es | Some (i, s) \<Rightarrow> chosen_evidence es g i s)"
proof (induction es rule: rev_induct)
  case (snoc e es)
  obtain g0 i0 s0 where e: "e = (g0, i0, s0)" by (cases e)
  let ?r = "foldl rank_one Map.empty es"
  have after: "foldl rank_one Map.empty (es @ [e]) g =
      (if g \<noteq> g0 then ?r g else (case ?r g0 of None \<Rightarrow> Some (i0, s0)
         | Some (i1, s1) \<Rightarrow> if s0 > s1 then Some (i0, s0) else Some (i1, s1)))"
    by (simp add: e rank_one_at)
  show ?case
  proof (cases "g0 = g")
    case False
    then have "foldl rank_one Map.empty (es @ [e]) g = ?r g" by (simp only: after) simp
    moreover have "chosen_evidence es g i s \<Longrightarrow> chosen_evidence (es @ [e]) g i s" for i s
      unfolding chosen_evidence_def e using False by fastforce
    ultimately show ?thesis
      using snoc.IH False e by (auto split: option.splits)
  next
    case True
    show ?thesis
    proof (cases "?r g")
      case None
      with snoc.IH have "g \<notin> fst ` set es" by simp
      then have "chosen_evidence (es @ [e]) g i0 s0"
        unfolding chosen_evidence_def e True by (intro exI [of _ es] exI [of _ "[]"]) force
      with None True show ?thesis by (simp only: after) simp
    next
      case (Some p)
      obtain i s where p: "p = (i, s)" by force
      with snoc.IH Some have ch: "chosen_evidence es g i s" by simp
      then obtain as bs where es: "es = as @ (g, i, s) # bs"
          "\<forall>(g', i', s') \<in> set as. g' = g \<longrightarrow> s' < s" "\<forall>(g', i', s') \<in> set bs. g' = g \<longrightarrow> s' \<le> s"
        unfolding chosen_evidence_def by blast
      show ?thesis
      proof (cases "s0 > s")
        case True': True
        have "\<forall>(g', i', s') \<in> set es. g' = g \<longrightarrow> s' < s0" using es True' by fastforce
        then have "chosen_evidence (es @ [e]) g i0 s0"
          unfolding chosen_evidence_def e True by (intro exI [of _ es] exI [of _ "[]"]) simp
        with Some p True True' show ?thesis by (simp only: after) simp
      next
        case False
        with es have "chosen_evidence (es @ [e]) g i s"
          unfolding chosen_evidence_def e True
          by (intro exI [of _ as] exI [of _ "bs @ [(g, i0, s0)]"]) auto
        with Some p True False show ?thesis by (simp only: after) simp
      qed
    qed
  qed
qed simp

lemma chosen_unique:
  assumes "chosen_evidence es g i s" "chosen_evidence es g j r"
  shows "i = j \<and> s = r"
proof -
  from assms(1) obtain as bs where
    a: "es = as @ (g, i, s) # bs" "\<forall>(g', i', s') \<in> set as. g' = g \<longrightarrow> s' < s"
      "\<forall>(g', i', s') \<in> set bs. g' = g \<longrightarrow> s' \<le> s"
    unfolding chosen_evidence_def by blast
  from assms(2) obtain cs ds where
    c: "es = cs @ (g, j, r) # ds" "\<forall>(g', i', s') \<in> set cs. g' = g \<longrightarrow> s' < r"
      "\<forall>(g', i', s') \<in> set ds. g' = g \<longrightarrow> s' \<le> r"
    unfolding chosen_evidence_def by blast
  from a(1) c(1) have "as @ (g, i, s) # bs = cs @ (g, j, r) # ds" by simp
  then consider "(g, i, s) \<in> set cs \<and> (g, j, r) \<in> set bs" | "(g, j, r) \<in> set as \<and> (g, i, s) \<in> set ds"
    | "(g, i, s) = (g, j, r)"
    by (auto simp: append_eq_append_conv2 append_eq_Cons_conv Cons_eq_append_conv)
  then show ?thesis using a(2,3) c(2,3) by cases fastforce+
qed

lemma infer_chosen:
  "inferProbeGatewayCandidatesWithRules topology targets hops observed rules g = Some i \<longleftrightarrow>
     (\<exists>s. chosen_evidence
        (all_evidence rules (newProbeAssociationContext topology targets hops observed)) g i s)"
proof -
  let ?es = "all_evidence rules (newProbeAssociationContext topology targets hops observed)"
  have eq: "inferProbeGatewayCandidatesWithRules topology targets hops observed rules g =
      map_option fst (foldl rank_one Map.empty ?es g)"
    by (simp add: inferProbeGatewayCandidatesWithRules_def Let_def ranked_all_evidence)
  have none: "\<not> chosen_evidence ?es g i s" if "g \<notin> fst ` set ?es" for s
    using that unfolding chosen_evidence_def by force
  show ?thesis
  proof (cases "foldl rank_one Map.empty ?es g")
    case None
    with rank_one_chosen [where es = ?es and g = g] none show ?thesis unfolding eq by simp
  next
    case (Some p)
    obtain j r where p: "p = (j, r)" by force
    with rank_one_chosen [where es = ?es and g = g] Some have "chosen_evidence ?es g j r" by simp
    with Some p show ?thesis unfolding eq using chosen_unique by auto
  qed
qed

lemma evidence_chosen:
  assumes "(g, i, s) \<in> set es"
  shows "\<exists>j r. chosen_evidence es g j r"
  using rank_one_chosen [where es = es and g = g] assms
  by (auto simp: image_iff split: option.splits)

section \<open>The rule interface\<close>

text \<open>
  What the ranking may rely on: a rule names known targets only, and its confidence is the
  one its kind of evidence has.
\<close>

definition confidence_of_strength :: "int \<Rightarrow> ProbeInferenceConfidence" where
  "confidence_of_strength s =
     (if s = probeAssociationStrengthHost then ProbeInferenceConfidenceHigh
      else if s = probeAssociationStrengthCluster then ProbeInferenceConfidenceMedium
      else ProbeInferenceConfidenceLow)"

locale association_rule_set =
  fixes rules :: "probeAssociationRule list"
  assumes names_targets: "\<lbrakk>rule \<in> set rules; a \<in> set (rule_infer rule ctx); m \<in> set (pas_matches a)\<rbrakk> \<Longrightarrow>
      pam_gatewayID m \<in> tgt_GlobalID ` set (pac_targets ctx)"
    and strength_levels: "\<lbrakk>rule \<in> set rules; a \<in> set (rule_infer rule ctx)\<rbrakk> \<Longrightarrow>
      pas_strength a \<in> {probeAssociationStrengthDeclared, probeAssociationStrengthCluster,
        probeAssociationStrengthHost} \<and> pas_confidence a = confidence_of_strength (pas_strength a)"
begin

lemma evidence_source:
  assumes "(g, i, s) \<in> set (all_evidence rules ctx)"
  obtains rule a m where "rule \<in> set rules" "a \<in> set (rule_infer rule ctx)" "s = pas_strength a"
    "m \<in> set (uniqueProbeAssociationMatches (pas_matches a))" "g = pam_gatewayID m"
    "i = match_inference rule a (length (uniqueProbeAssociationMatches (pas_matches a))) m"
  using assms by (auto simp: all_evidence_def association_evidence_def Let_def)

lemma evidence_confidence:
  assumes "(g, i, s) \<in> set (all_evidence rules ctx)"
  shows "inf_Confidence i \<in> {confidence_of_strength s, ProbeInferenceConfidenceAmbiguous}"
  using assms by (elim evidence_source) (auto simp: match_inference_def dest: strength_levels)

end

lemma unique_matches_subset: "set (unique_matches seen ms) \<subseteq> set ms"
  by (induction seen ms rule: unique_matches.induct) auto

lemma unique_matches_ids:
  "m \<in> set (unique_matches seen ms) \<Longrightarrow> pam_gatewayID m \<noteq> [] \<and> pam_gatewayID m \<notin> set seen"
  by (induction seen ms rule: unique_matches.induct) (auto split: if_splits)

lemma unique_matches_distinct: "distinct (map pam_gatewayID (unique_matches seen ms))"
  by (induction seen ms rule: unique_matches.induct) (auto dest: unique_matches_ids)

lemma unique_matches_all:
  "m \<in> set ms \<Longrightarrow> pam_gatewayID m \<noteq> [] \<Longrightarrow> pam_gatewayID m \<notin> set seen \<Longrightarrow>
    pam_gatewayID m \<in> pam_gatewayID ` set (unique_matches seen ms)"
  by (induction seen ms rule: unique_matches.induct) auto

lemma set_map_filter: "set (List.map_filter f xs) = {y. \<exists>x \<in> set xs. f x = Some y}"
  by (force simp: List.map_filter_def)

lemmas rule_infer_defs = host_infer_def host_association_def registry_infer_def cluster_infer_def declared_infer_def

interpretation assoc: association_rule_set defaultProbeAssociationRules
proof
  fix rule a ctx m
  assume r: "rule \<in> set defaultProbeAssociationRules" and a: "a \<in> set (rule_infer rule ctx)"
  then have inf: "a \<in> set (host_infer ctx) \<or> a \<in> set (registry_infer ctx)
      \<or> a \<in> set (cluster_infer ctx) \<or> a \<in> set (declared_infer ctx)"
    by (auto simp: defaultProbeAssociationRules_def)
  then show "pas_strength a \<in> {probeAssociationStrengthDeclared, probeAssociationStrengthCluster,
      probeAssociationStrengthHost} \<and> pas_confidence a = confidence_of_strength (pas_strength a)"
    by (elim disjE)
      (auto simp: rule_infer_defs set_map_filter Let_def confidence_of_strength_def
        probeAssociationStrengthHost_def probeAssociationStrengthCluster_def
        probeAssociationStrengthDeclared_def split: if_splits)
  assume "m \<in> set (pas_matches a)"
  with inf show "pam_gatewayID m \<in> tgt_GlobalID ` set (pac_targets ctx)"
    by (elim disjE) (auto simp: rule_infer_defs set_map_filter Let_def split: if_splits)
qed

lemma host_evidence:
  assumes "hop \<in> set (pac_hops ctx)" "t \<in> set (pac_targets ctx)" "tgt_GlobalID t \<noteq> []"
    "normalizedUpstreamHost (hop_UpstreamHost hop) \<noteq> []"
    "gatewayTargetMatchesAddress (pac_entriesByGateway ctx (tgt_GlobalID t))
       (pac_nodesByID ctx (tgt_GlobalID t)) (normalizedUpstreamHost (hop_UpstreamHost hop))"
  shows "\<exists>i. (tgt_GlobalID t, i, probeAssociationStrengthHost)
    \<in> set (all_evidence defaultProbeAssociationRules ctx)"
proof -
  define a where "a = host_association ctx hop (normalizedUpstreamHost (hop_UpstreamHost hop))"
  have a: "a \<in> set (host_infer ctx)"
    unfolding host_infer_def set_map_filter Let_def
    using assms(1,4) by (intro CollectI bexI [of _ hop]) (simp_all add: a_def)
  have strength: "pas_strength a = probeAssociationStrengthHost"
    and matches: "pas_matches a = map (\<lambda>target. \<lparr>pam_gatewayID = tgt_GlobalID target,
        pam_basis = txt_host_prefix @ hop_UpstreamHost hop @ txt_host_match_suffix\<rparr>)
      (filter (\<lambda>target. gatewayTargetMatchesAddress (pac_entriesByGateway ctx (tgt_GlobalID target))
         (pac_nodesByID ctx (tgt_GlobalID target)) (normalizedUpstreamHost (hop_UpstreamHost hop)))
        (pac_targets ctx))"
    by (simp_all add: a_def host_association_def)
  have "map pam_gatewayID (pas_matches a) = map tgt_GlobalID (filter (\<lambda>target.
      gatewayTargetMatchesAddress (pac_entriesByGateway ctx (tgt_GlobalID target))
         (pac_nodesByID ctx (tgt_GlobalID target)) (normalizedUpstreamHost (hop_UpstreamHost hop)))
      (pac_targets ctx))"
    by (simp add: matches)
  then have "tgt_GlobalID t \<in> set (map pam_gatewayID (pas_matches a))" using assms(2,5) by simp
  then obtain m0 where "m0 \<in> set (pas_matches a)" "pam_gatewayID m0 = tgt_GlobalID t" by auto
  with unique_matches_all [of m0 "pas_matches a" "[]"] assms(3) obtain m where
    "m \<in> set (uniqueProbeAssociationMatches (pas_matches a))" "pam_gatewayID m = tgt_GlobalID t"
    by (auto simp: uniqueProbeAssociationMatches_def)
  then have "\<exists>i. (tgt_GlobalID t, i, probeAssociationStrengthHost) \<in> set (association_evidence r a)" for r
    by (force simp: association_evidence_def Let_def strength)
  with a show ?thesis
    by (fastforce simp: all_evidence_def defaultProbeAssociationRules_def)
qed

section \<open>Properties\<close>

text \<open>
  C31: \<open>inferProbeGatewayCandidates\<close> gives a gateway the first piece of evidence among the
  strongest the rules find for it, and nothing to a gateway without evidence, although the
  code keeps only a running best per gateway.
\<close>

theorem inferProbeGatewayCandidates_strongest:
  "inferProbeGatewayCandidates topology targets hops observed g = Some i \<longleftrightarrow>
     (\<exists>s. chosen_evidence (all_evidence defaultProbeAssociationRules
            (newProbeAssociationContext topology targets hops observed)) g i s)"
  unfolding inferProbeGatewayCandidates_def by (rule infer_chosen)

text \<open>
  C32: an inference names one of the targets, and it claims a confidence other than ambiguous only
  when the evidence behind it matches that gateway alone; then its wording and confidence
  are that evidence's.
\<close>

theorem inference_unambiguous:
  assumes "inferProbeGatewayCandidates topology targets hops observed g = Some i"
  shows "g \<in> tgt_GlobalID ` set targets \<and> g \<noteq> [] \<and>
    (inf_Confidence i = ProbeInferenceConfidenceAmbiguous \<or>
     (\<exists>rule \<in> set defaultProbeAssociationRules.
      \<exists>a \<in> set (rule_infer rule (newProbeAssociationContext topology targets hops observed)).
      \<exists>m. uniqueProbeAssociationMatches (pas_matches a) = [m] \<and> pam_gatewayID m = g
        \<and> inf_Basis i = pam_basis m \<and> inf_Confidence i = pas_confidence a))"
proof -
  let ?ctx = "newProbeAssociationContext topology targets hops observed"
  from assms obtain s where "chosen_evidence (all_evidence defaultProbeAssociationRules ?ctx) g i s"
    unfolding inferProbeGatewayCandidates_def infer_chosen by blast
  then have "(g, i, s) \<in> set (all_evidence defaultProbeAssociationRules ?ctx)"
    unfolding chosen_evidence_def by auto
  then obtain rule a m where r: "rule \<in> set defaultProbeAssociationRules" "a \<in> set (rule_infer rule ?ctx)"
    and m: "m \<in> set (uniqueProbeAssociationMatches (pas_matches a))" "g = pam_gatewayID m"
    and i: "i = match_inference rule a (length (uniqueProbeAssociationMatches (pas_matches a))) m"
    by (rule assoc.evidence_source)
  from m(1) have "m \<in> set (pas_matches a)"
    using unique_matches_subset unfolding uniqueProbeAssociationMatches_def by blast
  from assoc.names_targets [OF r this] m(2) have t: "g \<in> tgt_GlobalID ` set targets"
    by (simp add: newProbeAssociationContext_def Let_def)
  have ne: "g \<noteq> []"
    using unique_matches_ids [OF m(1) [unfolded uniqueProbeAssociationMatches_def]] m(2) by simp
  show ?thesis
  proof (cases "length (uniqueProbeAssociationMatches (pas_matches a)) > 1")
    case True
    with i t ne show ?thesis by (simp add: match_inference_def)
  next
    case False
    with m(1) have "uniqueProbeAssociationMatches (pas_matches a) = [m]"
      by (cases "uniqueProbeAssociationMatches (pas_matches a)") (auto split: if_splits)
    with i m(2) r t ne show ?thesis by (auto simp: match_inference_def)
  qed
qed

text \<open>
  Address evidence outranks all other: a target one of whose entry addresses is the upstream
  host of an observed record gets high confidence, or is ambiguous, whatever the upstream
  clusters and the configured edges say.
\<close>

theorem upstream_host_outranks:
  assumes "hop \<in> set hops" "t \<in> set targets" "tgt_GlobalID t \<noteq> []"
    and "normalizedUpstreamHost (hop_UpstreamHost hop) \<noteq> []"
    and "gatewayTargetMatchesAddress
      (filter (\<lambda>e. entry_GatewayID e = tgt_GlobalID t) (topo_ProbeEntries topology))
      (node_at (topo_Nodes topology) (tgt_GlobalID t)) (normalizedUpstreamHost (hop_UpstreamHost hop))"
  shows "\<exists>i. inferProbeGatewayCandidates topology targets hops observed (tgt_GlobalID t) = Some i
    \<and> inf_Confidence i \<in> {ProbeInferenceConfidenceHigh, ProbeInferenceConfidenceAmbiguous}"
proof -
  let ?ctx = "newProbeAssociationContext topology targets hops observed" and ?g = "tgt_GlobalID t"
  let ?es = "all_evidence defaultProbeAssociationRules ?ctx"
  have fields: "pac_hops ?ctx = hops" "pac_targets ?ctx = targets"
    "pac_entriesByGateway ?ctx ?g = filter (\<lambda>e. entry_GatewayID e = ?g) (topo_ProbeEntries topology)"
    "pac_nodesByID ?ctx ?g = node_at (topo_Nodes topology) ?g"
    by (simp_all add: newProbeAssociationContext_def Let_def)
  from host_evidence [OF _ _ assms(3,4), where ctx = ?ctx] assms(1,2,5) fields obtain i where
    e: "(?g, i, probeAssociationStrengthHost) \<in> set ?es" by fastforce
  from evidence_chosen [OF e] obtain j s where ch: "chosen_evidence ?es ?g j s" by blast
  then have s: "s \<ge> probeAssociationStrengthHost" and mem: "(?g, j, s) \<in> set ?es"
    using e unfolding chosen_evidence_def by fastforce+
  from mem have "s \<in> {probeAssociationStrengthDeclared, probeAssociationStrengthCluster,
      probeAssociationStrengthHost}"
    by (rule assoc.evidence_source) (use assoc.strength_levels in blast)
  with s have "s = probeAssociationStrengthHost"
    by (auto simp: probeAssociationStrengthHost_def probeAssociationStrengthCluster_def
        probeAssociationStrengthDeclared_def)
  with assoc.evidence_confidence [OF mem]
  have "inf_Confidence j \<in> {ProbeInferenceConfidenceHigh, ProbeInferenceConfidenceAmbiguous}"
    by (simp add: confidence_of_strength_def)
  with ch show ?thesis unfolding inferProbeGatewayCandidates_def infer_chosen by blast
qed

text \<open>A record sent upstream to the entry address of a second gateway.\<close>

definition sample_targets :: "probeGatewayTarget list" where
  "sample_targets = map (\<lambda>i. zero_probeGatewayTarget\<lparr>tgt_GlobalID := i\<rparr>) [''b::g'', ''c::g'']"

definition sample_address_topology :: Topology where
  "sample_address_topology = zero_Topology\<lparr>topo_ProbeEntries :=
     [zero_ProbeEntry\<lparr>entry_GatewayID := ''b::g'', entry_Addresses := [''10.0.0.1'']\<rparr>]\<rparr>"

definition sample_upstream_hop :: ObservedHop where
  "sample_upstream_hop = zero_ObservedHop\<lparr>hop_UpstreamHost := ''10.0.0.1''\<rparr>"

lemma sample_address_facts:
  "normalizedUpstreamHost (hop_UpstreamHost sample_upstream_hop) = ''10.0.0.1''"
  "gatewayTargetMatchesAddress (filter (\<lambda>e. entry_GatewayID e = ''b::g'')
     (topo_ProbeEntries sample_address_topology))
     (node_at (topo_Nodes sample_address_topology) ''b::g'') ''10.0.0.1''"
  "tgt_GlobalID (hd sample_targets) = ''b::g''" "sample_targets \<noteq> []"
  by code_simp+

lemma upstream_host_outranks_witness:
  "\<exists>i. inferProbeGatewayCandidates sample_address_topology sample_targets [sample_upstream_hop]
      (\<lambda>_. False) ''b::g'' = Some i
    \<and> inf_Confidence i \<in> {ProbeInferenceConfidenceHigh, ProbeInferenceConfidenceAmbiguous}"
  using upstream_host_outranks [of sample_upstream_hop "[sample_upstream_hop]" "hd sample_targets"
      sample_targets sample_address_topology "\<lambda>_. False"]
  by (simp add: sample_address_facts hd_in_set)

lemma inference_unambiguous_witness:
  "inferProbeGatewayCandidates sample_address_topology sample_targets [sample_upstream_hop]
     (\<lambda>_. False) ''b::g'' \<noteq> None \<and> ''b::g'' \<in> tgt_GlobalID ` set sample_targets"
proof -
  let ?ctx = "newProbeAssociationContext sample_address_topology sample_targets
    [sample_upstream_hop] (\<lambda>_. False)"
  have "\<exists>i. (''b::g'', i, probeAssociationStrengthHost) \<in> set (all_evidence defaultProbeAssociationRules ?ctx)"
    using host_evidence [of sample_upstream_hop ?ctx "hd sample_targets"]
    by (simp add: sample_address_facts hd_in_set newProbeAssociationContext_def Let_def)
  then obtain i where "inferProbeGatewayCandidates sample_address_topology sample_targets
      [sample_upstream_hop] (\<lambda>_. False) ''b::g'' = Some i"
    unfolding inferProbeGatewayCandidates_def infer_chosen using evidence_chosen by blast
  with inference_unambiguous [OF this] show ?thesis by simp
qed

text \<open>
  The text for an ambiguous host is a format string with the logged host pasted in; a percent
  sign in the host (the zone of a link-local address) is read as a directive, takes the
  operand and leaves the count missing.
\<close>

lemma percent_free: "list_all (\<lambda>n. n < 256 \<and> n \<noteq> 37) ns \<Longrightarrow> CHR ''%'' \<notin> set (utf8 ns)"
proof
  assume all: "list_all (\<lambda>n. n < 256 \<and> n \<noteq> 37) ns" and "CHR ''%'' \<in> set (utf8 ns)"
  then obtain n where n: "n \<in> set ns" "byte n = CHR ''%''" by (auto simp: utf8_def)
  have "byte_val (CHR ''%'') = 37" by code_simp
  with n all byte_val_byte [of n] show False by (auto simp: list_all_iff)
qed

lemma ambiguous_text_garbled:
  "sprintf_int (pas_ambiguousBasis (host_association ctx
      (zero_ObservedHop\<lparr>hop_UpstreamHost := ''fe80::1%eth0''\<rparr>) host)) 2 False
   = txt_host_prefix @ ''fe80::1%!e(int=2)th0'' @ txt_rule_matches @ ''%!d(MISSING)''
     @ txt_host_ambiguous_suffix"
proof -
  have plain: "CHR ''%'' \<notin> set txt_host_prefix" "CHR ''%'' \<notin> set txt_rule_matches"
    "CHR ''%'' \<notin> set txt_host_ambiguous_suffix"
    unfolding txt_host_prefix_def txt_rule_matches_def txt_host_ambiguous_suffix_def
    by (rule percent_free; simp)+
  have two: "Itoa 2 = ''2''" by code_simp
  have "sprintf_int (txt_host_prefix @ ''fe80::1%eth0'' @ txt_rule_matches @ ''%d''
      @ txt_host_ambiguous_suffix) 2 False
    = txt_host_prefix @ sprintf_int (''fe80::1'' @ ''%eth0'' @ txt_rule_matches @ ''%d''
      @ txt_host_ambiguous_suffix) 2 False"
    using sprintf_int_plain [OF plain(1)] by simp
  also have "sprintf_int (''fe80::1'' @ ''%eth0'' @ txt_rule_matches @ ''%d''
      @ txt_host_ambiguous_suffix) 2 False = ''fe80::1'' @ ''%!e(int=2)''
      @ sprintf_int (''th0'' @ txt_rule_matches @ ''%d'' @ txt_host_ambiguous_suffix) 2 True"
    using two by (subst sprintf_int_plain) simp_all
  also have "sprintf_int (''th0'' @ txt_rule_matches @ ''%d'' @ txt_host_ambiguous_suffix) 2 True =
      ''th0'' @ txt_rule_matches @ ''%!d(MISSING)'' @ txt_host_ambiguous_suffix"
    using sprintf_int_plain [of "''th0''"] sprintf_int_plain [OF plain(2)]
      sprintf_int_plain_end [OF plain(3)] by simp
  finally show ?thesis by (simp add: host_association_def zero_ObservedHop_def)
qed

end
