(* ===== verification/Probe_Creation.thy ===== *)
theory Probe_Creation
  imports Command_Broker Association_Rules "HOL-Library.Product_Lexorder"
begin

text \<open>
  \<open>CreateProbe\<close>, \<open>completeFederatedProbe\<close> and \<open>observeProbeGateway\<close> of
  \<open>internal/federation/store.go\<close>: a probe request is checked, executed by the agent of the source
  cluster, and its path is reconstructed from what the gateways of all clusters logged and
  what the rules infer. The observations of the other gateways run concurrently in the
  code; here they are taken in the order of the targets, each with its own environment
  (theory \<open>Broker_Protocol\<close> has the interleavings).
\<close>

section \<open>Segments\<close>

definition segmentFromAgent :: "ProbeAgentResult \<Rightarrow> probeGatewayTarget \<Rightarrow> ProbeSegment" where
  "segmentFromAgent local_result target =
     zero_ProbeSegment\<lparr>
       seg_ClusterID := tgt_ClusterID target, seg_GatewayID := tgt_GlobalID target,
       seg_GatewayName := tgt_GatewayName target, seg_SnapshotID := tgt_SnapshotID target,
       seg_SnapshotObservedAt := tgt_ObservedAt target, seg_Transport := tgt_Transport target,
       seg_Destination := tgt_Destination target, seg_Hops := par_Hops local_result,
       seg_Collection := par_Collection local_result,
       seg_LogSource :=
         (case find (\<lambda>hop. hop_EvidenceSource hop \<noteq> []) (par_Hops local_result) of
            None \<Rightarrow> [] | Some hop \<Rightarrow> hop_EvidenceSource hop),
       seg_Issues := foldl AppendProbeIssue []
         (filter (\<lambda>issue. issue_Scope issue \<noteq> ProbeIssueScopeExecution) (par_Issues local_result))\<rparr>"

definition observation_failed ::
    "GoTime \<Rightarrow> CommandError \<Rightarrow> ProbeSegment \<Rightarrow> ProbeSegment" where
  "observation_failed now err segment =
     (let canceled = (err = CtxDone CtxCanceled);
          invalid = (case err of EmptyProbe \<Rightarrow> True | InvalidResult e \<Rightarrow> True | _ \<Rightarrow> False);
          state = (if canceled then ProbeCollectionStateCancelled else ProbeCollectionStateReadError);
          code = (if invalid then ProbeIssueCodeProbeProtocolUnsupported
                  else if canceled then ProbeIssueCodeCollectionCancelled
                  else ProbeIssueCodeAgentUnavailable)
      in segment\<lparr>
        seg_Collection := Some \<lparr>col_State = state,
          col_CompletedAt = format_rfc3339nano (time_UTC now)\<rparr>,
        seg_Issues := AppendProbeIssue (seg_Issues segment)
          \<lparr>issue_Scope = ProbeIssueScopeCollection, issue_Code = code,
           issue_Message = CommandError_text err, issue_ContextID = [], issue_HopID = []\<rparr>\<rparr>)"

definition observe_command ::
    "GoTime \<Rightarrow> string \<Rightarrow> ProbeExecution \<Rightarrow> probeGatewayTarget \<Rightarrow> AgentCommand" where
  "observe_command now commandID execution target =
     \<lparr>cmd_ID = commandID, cmd_ClusterID = tgt_ClusterID target, cmd_Kind = AgentCommandProbeObserve,
      cmd_GatewayID = tgt_GatewayID target,
      cmd_Deadline = format_rfc3339nano (time_UTC (time_Add now probeObserveQueueWait)),
      cmd_ExecutionTimeoutSeconds = probeObserveExecutionTimeout div nanos,
      cmd_Probe = Some (zero_ProbeCommand\<lparr>pc_ProbeID := exec_ID execution,
        pc_TraceID := exec_TraceID execution, pc_GatewayID := tgt_GatewayID target,
        pc_StartedAt := exec_StartedAt execution\<rparr>)\<rparr>"

text \<open>What one observation meets: clock readings, the fresh identity, and its waits.\<close>

record Circumstances =
  cir_now :: GoTime
  cir_failed_at :: GoTime
  cir_fresh :: "string + string"
  cir_offer :: "CtxError option"
  cir_environment :: environment

definition observeProbeGateway ::
    "Circumstances \<Rightarrow> ProbeExecution \<Rightarrow> probeGatewayTarget \<Rightarrow> Store \<Rightarrow> ProbeSegment \<times> Store" where
  "observeProbeGateway cir execution target s =
     (let failed = (\<lambda>err. observation_failed (cir_failed_at cir) err
            (segmentFromAgent zero_ProbeAgentResult target))
      in case cir_fresh cir of
           Inl m \<Rightarrow> (failed (RandFailed m), s)
         | Inr commandID \<Rightarrow>
             (case executeProbeCommand (observe_command (cir_now cir) commandID execution target)
                     (cir_offer cir) (cir_environment cir) s of
                (Inl err, s') \<Rightarrow> (failed err, s')
              | (Inr local_result, s') \<Rightarrow> (segmentFromAgent local_result target, s')))"

fun observe_all ::
    "(nat \<Rightarrow> Circumstances) \<Rightarrow> ProbeExecution \<Rightarrow> nat \<Rightarrow> probeGatewayTarget list \<Rightarrow> Store
     \<Rightarrow> ProbeSegment list \<times> Store" where
  "observe_all cir execution index [] s = ([], s)"
| "observe_all cir execution index (target # targets) s =
     (case observeProbeGateway (cir index) execution target s of
        (segment, s1) \<Rightarrow>
          (case observe_all cir execution (Suc index) targets s1 of
             (segments, s2) \<Rightarrow> (segment\<lparr>seg_Index := int index + 2\<rparr> # segments, s2)))"

section \<open>The federated path\<close>

definition evidence_missing :: ProbeIssue where
  "evidence_missing =
     \<lparr>issue_Scope = ProbeIssueScopeInference, issue_Code = ProbeIssueCodeGatewayEvidenceMissing,
      issue_Message = msg_gateway_evidence_missing, issue_ContextID = [], issue_HopID = []\<rparr>"

text \<open>Whether and how the segment of a target becomes part of the path.\<close>

definition path_segment ::
    "(string \<rightharpoonup> probeGatewayInference) \<Rightarrow> probeGatewayTarget \<times> ProbeSegment \<Rightarrow> ProbeSegment option" where
  "path_segment inferences ts =
     (case ts of (target, segment) \<Rightarrow>
       (let protocolFailed =
              list_ex (\<lambda>issue. issue_Code issue = ProbeIssueCodeProbeProtocolUnsupported)
                (seg_Issues segment)
        in
        if seg_Hops segment \<noteq> [] then Some segment
        else (case inferences (tgt_GlobalID target) of
                Some inference \<Rightarrow>
                  Some (segment\<lparr>seg_InferenceBasis := inf_Basis inference,
                    seg_InferenceConfidence := inf_Confidence inference,
                    seg_Issues := AppendProbeIssue (seg_Issues segment) evidence_missing\<rparr>)
              | None \<Rightarrow> if protocolFailed then Some segment else None)))"

definition segment_before :: "ProbeSegment \<Rightarrow> ProbeSegment \<Rightarrow> bool" where
  "segment_before left right =
     (if seg_Hops left = [] \<or> seg_Hops right = []
      then length (seg_Hops left) > length (seg_Hops right)
      else hop_ObservedAt (hd (seg_Hops left)) < hop_ObservedAt (hd (seg_Hops right)))"

definition number_segments :: "ProbeSegment list \<Rightarrow> ProbeSegment list" where
  "number_segments segments =
     map (\<lambda>(index, segment). segment\<lparr>seg_Index := int index + 1\<rparr>) (enumerate 0 segments)"

definition federated_segments ::
    "Topology \<Rightarrow> probeGatewayTarget list \<Rightarrow> string \<Rightarrow> ProbeSegment \<Rightarrow> ProbeSegment list
     \<Rightarrow> ProbeSegment list" where
  "federated_segments topology targets sourceGateway source segments =
     (let pairs = zip targets segments;
          seen = filter (\<lambda>(t, s). seg_Hops s \<noteq> []) pairs;
          observed = (\<lambda>g. g \<in> tgt_GlobalID ` fst ` set seen
            \<or> g = sourceGateway \<and> seg_Hops source \<noteq> []);
          hops = seg_Hops source @ concat (map (seg_Hops \<circ> snd) seen);
          inferences = inferProbeGatewayCandidates topology targets hops observed;
          kept = List.map_filter (path_segment inferences) pairs
      in source # (if length kept > 1 then slice_stable segment_before kept else kept))"

definition completeFederatedProbe ::
    "(nat \<Rightarrow> Circumstances) \<Rightarrow> ProbeExecution \<Rightarrow> Topology \<Rightarrow> probeGatewayTarget list \<Rightarrow> Store
     \<Rightarrow> ProbeExecution \<times> Store" where
  "completeFederatedProbe cir execution0 topology targets s =
     (let source = (hd (exec_Segments execution0))\<lparr>seg_Index := 1\<rparr>;
          execution = execution0\<lparr>exec_Segments := source # tl (exec_Segments execution0)\<rparr>
      in
      if targets = [] then (EnrichProbe execution, s)
      else
        (case observe_all cir execution 0 targets s of
           (segments, s') \<Rightarrow>
             (EnrichProbe (execution\<lparr>exec_Segments := number_segments
                (federated_segments topology targets (exec_GatewayID execution) source segments)\<rparr>),
              s')))"

section \<open>Creating a probe\<close>

datatype CreateError =
    CreateEntry EntryError
  | MethodUnsupported string
  | BodyTooLarge
  | PathInvalid
  | HostLineBreak
  | KeyTooLong
  | KeyLineBreak
  | TimeoutTooLong
  | CreateRand string
  | CreateCommand CommandError

definition line_breaks :: string where
  "line_breaks = [byte 13, byte 10]"

definition probe_method :: "ProbeRequest \<Rightarrow> ProbeHTTPMethod" where
  "probe_method request =
     (let method = ToUpper (TrimSpace (req_Method request)) in
      if method = [] then ProbeHTTPMethodGET else method)"

definition probe_timeout :: "ProbeRequest \<Rightarrow> int" where
  "probe_timeout request = (if req_TimeoutSeconds request \<le> 0 then 15 else req_TimeoutSeconds request)"

text \<open>The checks on the request after its entry has been resolved; the result is the parsed path.\<close>

definition check_request :: "ProbeRequest \<Rightarrow> CreateError + URL" where
  "check_request request =
     (if \<not> ProbeHTTPMethod_IsValid (probe_method request)
      then Inl (MethodUnsupported (probe_method request))
      else if length (req_Body request) > 65536 then Inl BodyTooLarge
      else
        (case url_ParseRequestURI (TrimSpace (req_Path request)) of
           None \<Rightarrow> Inl PathInvalid
         | Some path \<Rightarrow>
             if url_IsAbs path \<or> url_Host path \<noteq> [] \<or> \<not> HasPrefix (url_Path path) ''/''
                \<or> url_Fragment path \<noteq> []
             then Inl PathInvalid
             else if ContainsAny (req_Host request) line_breaks then Inl HostLineBreak
             else if length (req_APIKey request) > 8192 then Inl KeyTooLong
             else if ContainsAny (req_APIKey request) line_breaks then Inl KeyLineBreak
             else if probe_timeout request > 30 then Inl TimeoutTooLong
             else Inr path))"

record ProbeRun =
  run_digest :: "string \<Rightarrow> string"
  run_started :: GoTime
  run_completed :: GoTime
  run_probeID :: "string + string"
  run_traceID :: "string + string"
  run_commandID :: "string + string"
  run_offer :: "CtxError option"
  run_environment :: environment
  run_observations :: "nat \<Rightarrow> Circumstances"

definition probe_target :: "ProbeEntry \<Rightarrow> URL \<Rightarrow> string" where
  "probe_target entry path =
     url_String (empty_url\<lparr>url_Scheme := entry_Scheme entry,
       url_Host := entry_DNSName entry @ '':'' @ Itoa (entry_Port entry),
       url_Path := url_Path path, url_RawPath := url_RawPath path\<rparr>)"

definition probe_execution ::
    "ProbeRun \<Rightarrow> string \<Rightarrow> string \<Rightarrow> string \<Rightarrow> string \<Rightarrow> ProbeHTTPMethod \<Rightarrow> string \<Rightarrow> Topology
     \<Rightarrow> ProbeExecution" where
  "probe_execution run probeID traceID clusterID sourceGatewayID method target topology =
     zero_ProbeExecution\<lparr>
       exec_SchemaVersion := ProbeSchemaVersion, exec_ID := probeID, exec_TraceID := traceID,
       exec_SourceCluster := clusterID, exec_GatewayID := sourceGatewayID, exec_Method := method,
       exec_Target := target, exec_State := ProbeExecutionStateRunning,
       exec_StartedAt := format_rfc3339nano (time_UTC (run_started run)),
       exec_FederatedSnapshotID := topo_FederatedSnapshotID topology,
       exec_SnapshotConsistency := topo_Consistency topology\<rparr>"

definition probe_command ::
    "ProbeRun \<Rightarrow> string \<Rightarrow> string \<Rightarrow> string \<Rightarrow> string \<Rightarrow> string \<Rightarrow> string \<Rightarrow> ProbeRequest \<Rightarrow> AgentCommand" where
  "probe_command run commandID probeID traceID clusterID gatewayID entryID request =
     \<lparr>cmd_ID = commandID, cmd_ClusterID = clusterID, cmd_Kind = AgentCommandProbeHTTP,
      cmd_GatewayID = gatewayID,
      cmd_Deadline =
        format_rfc3339nano (time_Add (time_UTC (run_started run)) probeCommandQueueWait),
      cmd_ExecutionTimeoutSeconds = probe_timeout request + 5,
      cmd_Probe = Some
        \<lparr>pc_ProbeID = probeID, pc_TraceID = traceID, pc_GatewayID = gatewayID,
         pc_EntryID = entryID, pc_Method = probe_method request, pc_Path = req_Path request,
         pc_Host = req_Host request, pc_APIKey = req_APIKey request,
         pc_ContentType = req_ContentType request, pc_Body = req_Body request,
         pc_StartedAt = format_rfc3339nano (time_UTC (run_started run))\<rparr>\<rparr>"

text \<open>
  What a valid result of the source agent makes of the execution. \<open>None\<close> is the panic of
  \<open>local.HTTP.ResponseCode\<close> on a result without an HTTP part.
\<close>

definition answered_execution ::
    "ProbeExecution \<Rightarrow> Topology \<Rightarrow> ProbeAgentResult \<Rightarrow> ProbeExecution option" where
  "answered_execution execution topology local_result =
     map_option (\<lambda>http.
       execution\<lparr>exec_ResponseCode := http_ResponseCode http,
         exec_ResponseBytes := http_ResponseBytes http,
         exec_DurationMillis := http_DurationMillis http, exec_Error := http_Error http,
         exec_State := (if http_Error http \<noteq> [] then ProbeExecutionStateFailed
                        else ProbeExecutionStateCompleted),
         exec_Segments :=
           [segmentFromAgent local_result (targetForGateway topology (exec_GatewayID execution))],
         exec_Issues := foldl AppendProbeIssue (exec_Issues execution)
           (filter (\<lambda>issue. issue_Scope issue = ProbeIssueScopeExecution) (par_Issues local_result))\<rparr>)
       (par_HTTP local_result)"

text \<open>
  The outcome: the execution returned, the error returned with it, the store; \<open>None\<close> is a panic.
\<close>

type_synonym create_outcome = "(ProbeExecution \<times> CreateError option \<times> Store) option"

definition probe_failed ::
    "ProbeRun \<Rightarrow> string \<Rightarrow> string \<Rightarrow> CreateError option \<Rightarrow> Store \<Rightarrow> create_outcome" where
  "probe_failed run probeID message err s =
     (case failProbe (run_completed run) probeID message s of (probe, s') \<Rightarrow> Some (probe, err, s'))"

definition finish_probe ::
    "ProbeRun \<Rightarrow> ProbeExecution \<Rightarrow> Topology \<Rightarrow> AgentCommand \<Rightarrow> Exchange \<Rightarrow> Store \<Rightarrow> create_outcome" where
  "finish_probe run execution topology command x s =
     (let probeID = exec_ID execution; clusterID = cmd_ClusterID command in
      case x of
        OfferCtx e \<Rightarrow> probe_failed run probeID (CtxError_text e) (Some (CreateCommand (CtxDone e))) s
      | OfferFull \<Rightarrow> probe_failed run probeID (CommandError_text (QueueFull clusterID))
          (Some (CreateCommand (QueueFull clusterID))) s
      | Stopped (StopCtx e) \<Rightarrow>
          probe_failed run probeID (CtxError_text e) (Some (CreateCommand (CtxDone e))) s
      | Stopped StopTimer \<Rightarrow> probe_failed run probeID (CommandError_text WaitTimedOut) None s
      | Answered result \<Rightarrow>
          if acr_Error result \<noteq> [] then probe_failed run probeID (acr_Error result) None s
          else
            (case acr_Probe result of
               None \<Rightarrow> probe_failed run probeID ''cluster agent returned an empty probe result'' None s
             | Some local_result \<Rightarrow>
                 (case Validate local_result command of
                    Inl e \<Rightarrow> probe_failed run probeID (ProbeError_text e) None s
                  | Inr u \<Rightarrow>
                      (case answered_execution execution topology local_result of
                         None \<Rightarrow> None
                       | Some answered \<Rightarrow>
                           (case completeFederatedProbe (run_observations run) answered topology
                                   (discoverProbeGatewayTargets topology (exec_GatewayID execution)) s of
                              (done0, s1) \<Rightarrow>
                                (let done = done0\<lparr>exec_CompletedAt :=
                                       format_rfc3339nano (time_UTC (run_completed run))\<rparr>
                                 in Some (done, None,
                                      s1\<lparr>st_probes := (st_probes s1)(probeID \<mapsto> done)\<rparr>)))))))"

definition CreateProbe :: "ProbeRun \<Rightarrow> ProbeRequest \<Rightarrow> Store \<Rightarrow> create_outcome" where
  "CreateProbe run request s =
     (case resolveProbeEntry (req_SourceCluster request) (req_GatewayID request)
             (req_EntryID request) s of
        Inl e \<Rightarrow> Some (zero_ProbeExecution, Some (CreateEntry e), s)
      | Inr (clusterID, gatewayID, entry) \<Rightarrow>
     (case check_request request of
        Inl e \<Rightarrow> Some (zero_ProbeExecution, Some e, s)
      | Inr path \<Rightarrow>
     (case (run_probeID run, run_traceID run, run_commandID run) of
        (Inr probeID, Inr traceID, Inr commandID) \<Rightarrow>
          (let topology = Topology_of (run_digest run) (run_started run) s;
               sourceGatewayID = globalID clusterID gatewayID;
               execution = probe_execution run probeID traceID clusterID sourceGatewayID
                 (probe_method request) (probe_target entry path) topology;
               command = probe_command run commandID probeID traceID clusterID gatewayID
                 (entry_ID entry) request;
               s1 = register_command command s;
               s2 = s1\<lparr>st_probes := (st_probes s1)(probeID \<mapsto> execution)\<rparr>
           in case exchange command (run_offer run) (run_environment run) s2 of
                (x, s3) \<Rightarrow>
                  map_option (\<lambda>(probe, err, s4). (probe, err, unregister_command commandID s4))
                    (finish_probe run execution topology command x s3))
      | (Inl m, _, _) \<Rightarrow> Some (zero_ProbeExecution, Some (CreateRand m), s)
      | (Inr _, Inl m, _) \<Rightarrow> Some (zero_ProbeExecution, Some (CreateRand m), s)
      | (Inr _, Inr _, Inl m) \<Rightarrow> Some (zero_ProbeExecution, Some (CreateRand m), s))))"

end
