(* ===== verification/Source_Interfaces.thy ===== *)
theory Source_Interfaces
  imports Probe_Creation
begin

text \<open>
  The interfaces of \<open>internal/source/source.go\<close>, each a record of its methods over the state
  \<open>'s\<close> of the implementation, and the federation store as the implementation of all of them
  that server mode uses (\<open>Run\<close> in \<open>internal/app/app.go\<close>). An error arrives at the clients as
  its text.
\<close>

section \<open>The interfaces\<close>

record 's Reader =
  rd_Context :: "'s \<Rightarrow> Context"
  rd_Topology :: "'s \<Rightarrow> Topology"
  rd_EnvoyConfig :: "string \<Rightarrow> 's \<Rightarrow> (string + EnvoyConfig) \<times> 's"
  rd_Findings :: "'s \<Rightarrow> Finding list"
  rd_Resources :: "string \<Rightarrow> 's \<Rightarrow> Resource list"

record 's SnapshotReceiver =
  sr_ReceiveSnapshot :: "AgentSnapshot \<Rightarrow> 's \<Rightarrow> (string + unit) \<times> 's"

record 's AgentCommandBroker =
  cb_NextAgentCommand :: "string \<Rightarrow> 's \<Rightarrow> (string + AgentCommand option) \<times> 's"
  cb_CompleteAgentCommand :: "AgentCommandResult \<Rightarrow> 's \<Rightarrow> (string + unit) \<times> 's"

record 's ProbeStore =
  ps_CreateProbe :: "ProbeRequest \<Rightarrow> 's \<Rightarrow> (string + ProbeExecution) \<times> 's"
  ps_GetProbe :: "string \<Rightarrow> 's \<Rightarrow> ProbeExecution option"

section \<open>Error texts of the store\<close>

fun ReceiveError_text :: "ReceiveError \<Rightarrow> string" where
  "ReceiveError_text ClusterIDRequired = ''cluster.id is required''"
| "ReceiveError_text (ContextClusterMismatch a b) =
     ''context cluster '' @ quoted a @ '' does not match cluster '' @ quoted b"
| "ReceiveError_text (NodeOfOtherCluster n c) =
     ''node '' @ quoted n @ '' belongs to cluster '' @ quoted c"

fun ResolveError_text :: "ResolveError \<Rightarrow> string" where
  "ResolveError_text GatewayIDRequired = ''gatewayID is required''"
| "ResolveError_text (OwnerNotRegistered c) =
     ''owning cluster '' @ quoted c @ '' is not registered''"
| "ResolveError_text (GatewayNotInCluster g c) =
     ''Gateway '' @ quoted g @ '' was not found in cluster '' @ quoted c"
| "ResolveError_text (GatewayInSeveralClusters g) =
     ''Gateway '' @ quoted g @ '' exists in multiple clusters; use the federated gateway ID''"
| "ResolveError_text (GatewayNotFound g) = ''Gateway '' @ quoted g @ '' was not found''"

fun EntryError_text :: "EntryError \<Rightarrow> string" where
  "EntryError_text EntryFieldsRequired = ''sourceCluster, gatewayID and entryID are required''"
| "EntryError_text (GatewayOfOtherCluster o1 c) =
     ''gateway belongs to cluster '' @ quoted o1 @ '', not '' @ quoted c"
| "EntryError_text (EntryOfOtherCluster o1 c) =
     ''probe entry belongs to cluster '' @ quoted o1 @ '', not '' @ quoted c"
| "EntryError_text (SourceNotRegistered c) =
     ''source cluster '' @ quoted c @ '' is not registered''"
| "EntryError_text (EntryGatewayNotFound g c) =
     ''Gateway '' @ quoted g @ '' was not found in cluster '' @ quoted c"
| "EntryError_text (EntrySchemeUnsupported s) = ''unsupported probe entry scheme '' @ quoted s"
| "EntryError_text (EntryNotFound e g c) =
     ''probe entry '' @ quoted e @ '' was not found for Gateway '' @ quoted g
     @ '' in cluster '' @ quoted c"

fun EnvoyConfigError_text :: "EnvoyConfigError \<Rightarrow> string" where
  "EnvoyConfigError_text (EnvoyResolve e) = ResolveError_text e"
| "EnvoyConfigError_text (EnvoyCommand e) = CommandError_text e"
| "EnvoyConfigError_text (EnvoyCreate m) = ''create Envoy command: '' @ m"

fun NextError_text :: "NextError \<Rightarrow> string" where
  "NextError_text NextClusterRequired = ''clusterID is required''"
| "NextError_text (NextNotRegistered c) =
     ''cluster '' @ quoted c @ '' has not registered a snapshot''"
| "NextError_text (NextCtx e) = CtxError_text e"

fun CompleteError_text :: "CompleteError \<Rightarrow> string" where
  "CompleteError_text CompleteIDsRequired = ''commandID and clusterID are required''"
| "CompleteError_text CompleteEmpty = ''command result must contain config, probe or error''"
| "CompleteError_text (CompleteNotPending i) = ''command '' @ quoted i @ '' is no longer pending''"
| "CompleteError_text (CompleteOtherCluster i c) =
     ''command '' @ quoted i @ '' belongs to cluster '' @ quoted c"
| "CompleteError_text (CompleteCtx e) = CtxError_text e"
| "CompleteError_text (CompleteAlreadyHasResult i) =
     ''command '' @ quoted i @ '' already has a result''"

fun CreateError_text :: "CreateError \<Rightarrow> string" where
  "CreateError_text (CreateEntry e) = EntryError_text e"
| "CreateError_text (MethodUnsupported m) = ''unsupported probe method '' @ quoted m"
| "CreateError_text BodyTooLarge = ''probe body exceeds 65536 bytes''"
| "CreateError_text PathInvalid = ''probe path must be an absolute HTTP path beginning with /''"
| "CreateError_text HostLineBreak = ''probe host must not contain line breaks''"
| "CreateError_text KeyTooLong = ''probe API key exceeds 8192 bytes''"
| "CreateError_text KeyLineBreak = ''probe API key must not contain line breaks''"
| "CreateError_text TimeoutTooLong = ''probe timeout must not exceed 30 seconds''"
| "CreateError_text (CreateRand m) = m"
| "CreateError_text (CreateCommand e) = CommandError_text e"

section \<open>The store behind the interfaces\<close>

text \<open>
  What a call of the store meets: clocks, fresh identities, the fate of its waits and the other
  goroutines. A client that sees \<open>None\<close> from \<open>CreateProbe\<close> has panicked; \<open>CreateProbe\<close> never does
  (theory \<open>Probe_Lifecycle\<close>), so the branch is dead.
\<close>

record Ambient =
  amb_digest :: "string \<Rightarrow> string"
  amb_now :: GoTime
  amb_received :: GoTime
  amb_fresh :: "string + string"
  amb_offer :: "CtxError option"
  amb_environment :: environment
  amb_poll_end :: "CtxError option"
  amb_complete_end :: "CtxError option"
  amb_run :: ProbeRun

definition text_of :: "('e \<Rightarrow> string) \<Rightarrow> ('e + 'a) \<times> 's \<Rightarrow> (string + 'a) \<times> 's" where
  "text_of f r = map_prod (map_sum f id) id r"

definition hub_Reader :: "Ambient \<Rightarrow> Store Reader" where
  "hub_Reader amb =
     \<lparr>rd_Context = Context_of,
      rd_Topology = Topology_of (amb_digest amb) (amb_now amb),
      rd_EnvoyConfig = (\<lambda>g s. text_of EnvoyConfigError_text
        (EnvoyConfig_of (amb_now amb) (amb_fresh amb) (amb_offer amb) (amb_environment amb) g s)),
      rd_Findings = Findings_of (amb_digest amb) (amb_now amb),
      rd_Resources = Resources\<rparr>"

definition hub_SnapshotReceiver :: "Ambient \<Rightarrow> Store SnapshotReceiver" where
  "hub_SnapshotReceiver amb =
     \<lparr>sr_ReceiveSnapshot = (\<lambda>p s. text_of ReceiveError_text
        (ReceiveSnapshot (amb_now amb) (amb_received amb) p s))\<rparr>"

definition hub_AgentCommandBroker :: "Ambient \<Rightarrow> Store AgentCommandBroker" where
  "hub_AgentCommandBroker amb =
     \<lparr>cb_NextAgentCommand = (\<lambda>c s. text_of NextError_text
        (NextAgentCommand (amb_now amb) (amb_poll_end amb) c s)),
      cb_CompleteAgentCommand = (\<lambda>r s. text_of CompleteError_text
        (CompleteAgentCommand (amb_complete_end amb) r s))\<rparr>"

definition hub_ProbeStore :: "Ambient \<Rightarrow> Store ProbeStore" where
  "hub_ProbeStore amb =
     \<lparr>ps_CreateProbe = (\<lambda>r s. case CreateProbe (amb_run amb) r s of
          None \<Rightarrow> (Inl ''panic'', s)
        | Some (probe, None, s') \<Rightarrow> (Inr probe, s')
        | Some (probe, Some e, s') \<Rightarrow> (Inl (CreateError_text e), s')),
      ps_GetProbe = GetProbe\<rparr>"

end
