(* ===== verification/Go_Query.thy ===== *)
theory Go_Query
  imports Go_Url
begin

text \<open>
  Query strings of \<open>net/url\<close>: \<open>QueryEscape\<close>, and \<open>URL.Query().Get\<close>, which drops the pairs it
  cannot decode. A value that is escaped into a query comes out of it unchanged.
\<close>

definition query_plain :: "char \<Rightarrow> bool" where
  "query_plain c \<longleftrightarrow> is_alnum c \<or> c \<in> set ''-_.~''"

definition query_byte :: "char \<Rightarrow> string" where
  "query_byte c =
     (if c = CHR '' '' then ''+''
      else if query_plain c then [c]
      else [CHR ''%'', hex_upper (byte_val c div 16), hex_upper (byte_val c mod 16)])"

definition QueryEscape :: "string \<Rightarrow> string" where
  "QueryEscape s = concat (map query_byte s)"

fun QueryUnescape :: "string \<Rightarrow> string option" where
  "QueryUnescape [] = Some []"
| "QueryUnescape (c # s) =
     (if c = CHR ''%'' then
        (case s of
           x # y # r \<Rightarrow>
             (case (hex_val x, hex_val y) of
                (Some a, Some b) \<Rightarrow> map_option ((#) (byte (16 * a + b))) (QueryUnescape r)
              | _ \<Rightarrow> None)
         | _ \<Rightarrow> None)
      else map_option ((#) (if c = CHR ''+'' then CHR '' '' else c)) (QueryUnescape s))"

text \<open>One pair of the query; \<open>None\<close> when it is skipped.\<close>

definition query_pair :: "string \<Rightarrow> (string \<times> string) option" where
  "query_pair pair =
     (if CHR '';'' \<in> set pair \<or> pair = [] then None
      else
        (let (key, val) = (case Cut pair ''='' of None \<Rightarrow> (pair, []) | Some kv \<Rightarrow> kv) in
         Option.bind (QueryUnescape key) (\<lambda>k. map_option (Pair k) (QueryUnescape val))))"

definition ParseQuery :: "string \<Rightarrow> (string \<times> string) list" where
  "ParseQuery query = List.map_filter query_pair (SplitByte (CHR ''&'') query)"

definition Query_Get :: "string \<Rightarrow> string \<Rightarrow> string" where
  "Query_Get query key = (case map_of (ParseQuery query) key of None \<Rightarrow> [] | Some v \<Rightarrow> v)"

section \<open>A round trip\<close>

lemma hex_val_upper [simp]: "n < 16 \<Longrightarrow> hex_val (hex_upper n) = Some n"
  by (auto simp: hex_upper_def hex_val_def is_digit_def)

lemma plain_not_special:
  "query_plain c \<Longrightarrow> c \<notin> set ''%+&=;''"
  by (auto simp: query_plain_def is_alnum_def is_lower_def is_upper_def is_digit_def byte_val_def)

lemma byte_byte_val [simp]: "byte (byte_val c) = c"
  by (simp add: byte_def byte_val_def)

lemma QueryUnescape_byte: "QueryUnescape (query_byte c @ s) = map_option ((#) c) (QueryUnescape s)"
proof (cases "query_plain c \<or> c = CHR '' ''")
  case True
  then show ?thesis using plain_not_special [of c] by (auto simp: query_byte_def)
next
  case False
  have "byte (16 * (byte_val c div 16) + byte_val c mod 16) = c" by simp
  moreover have "byte_val c div 16 < 16" using byte_val_less [of c] by arith
  ultimately show ?thesis using False by (simp add: query_byte_def)
qed

lemma QueryUnescape_QueryEscape [simp]: "QueryUnescape (QueryEscape s) = Some s"
proof (induction s)
  case (Cons c s)
  have "QueryEscape (c # s) = query_byte c @ QueryEscape s" by (simp add: QueryEscape_def)
  with Cons QueryUnescape_byte [of c "QueryEscape s"] show ?case by simp
qed (simp add: QueryEscape_def)

lemma QueryEscape_plain: "list_all query_plain s \<Longrightarrow> QueryEscape s = s"
  by (induction s) (auto simp: QueryEscape_def query_byte_def query_plain_def is_alnum_def
    is_lower_def is_upper_def is_digit_def byte_val_def)

lemma hex_upper_special: "n < 16 \<Longrightarrow> hex_upper n \<notin> set ''&=;''"
proof -
  have "list_all (\<lambda>n. hex_upper n \<notin> set ''&=;'') [0..<16]" by code_simp
  then show "n < 16 \<Longrightarrow> hex_upper n \<notin> set ''&=;''" by (simp add: list_all_iff)
qed

lemma QueryEscape_special: "set (QueryEscape s) \<inter> set ''&=;'' = {}"
proof -
  have "set (query_byte c) \<inter> set ''&=;'' = {}" for c
  proof -
    have "byte_val c div 16 < 16" using byte_val_less [of c] by arith
    then show ?thesis
      using hex_upper_special [of "byte_val c div 16"] hex_upper_special [of "byte_val c mod 16"]
        plain_not_special [of c] by (auto simp: query_byte_def)
  qed
  then show ?thesis by (auto simp: QueryEscape_def)
qed

lemma SplitByte_none: "sep \<notin> set s \<Longrightarrow> SplitByte sep s = [s]"
  by (induction s) auto

lemma Cut_first: "CHR ''='' \<notin> set k \<Longrightarrow> Cut (k @ ''='' @ v) ''='' = Some (k, v)"
  by (induction k) (auto simp: HasPrefix_def)

text \<open>The value written by \<open>"?" + key + "=" + url.QueryEscape(value)\<close> is the value read.\<close>

lemma Query_Get_escaped:
  assumes "list_all query_plain key" "key \<noteq> []"
  shows "Query_Get (key @ ''='' @ QueryEscape v) key = v"
proof -
  let ?q = "key @ ''='' @ QueryEscape v"
  have plain: "set key \<inter> set ''%+&=;'' = {}"
    using assms(1) plain_not_special by (auto simp: list_all_iff)
  then have "CHR ''&'' \<notin> set ?q" "CHR '';'' \<notin> set ?q" and cut: "Cut ?q ''='' = Some (key, QueryEscape v)"
    using QueryEscape_special [of v] Cut_first [of key "QueryEscape v"] by auto
  moreover have "QueryUnescape key = Some key"
    using QueryEscape_plain [OF assms(1)] QueryUnescape_QueryEscape [of key] by simp
  ultimately have "ParseQuery ?q = [(key, v)]"
    using assms(2) by (simp add: ParseQuery_def SplitByte_none query_pair_def List.map_filter_simps)
  then show ?thesis by (simp add: Query_Get_def)
qed

end
