(* ===== verification/Api_Handler.thy ===== *)
theory Api_Handler
  imports Source_Interfaces Go_Query
begin

text \<open>
  The HTTP interface, \<open>internal/api/handler.go\<close>: routing, agent authorization, the handlers over
  the interfaces of the source package, and the middleware. \<open>net/http\<close> hands a handler the
  request and a response under construction; requests the multiplexer redirects before any
  handler runs (paths it cleans) are not considered. The JSON text of a value is left to
  the codec, an argument.
\<close>

section \<open>Requests, responses and the codec\<close>

record HttpRequest =
  rq_Method :: string
  rq_URL :: URL
  rq_Header :: "string \<Rightarrow> string"
  rq_Body :: string
  rq_Done :: bool

record HttpResponse =
  rs_Status :: nat
  rs_Header :: "string \<Rightarrow> string list"
  rs_Body :: string

text \<open>A handler that writes nothing leaves an empty response with status 200.\<close>

definition fresh_response :: HttpResponse where
  "fresh_response = \<lparr>rs_Status = 200, rs_Header = (\<lambda>_. []), rs_Body = []\<rparr>"

record Codec =
  enc_strings :: "(string \<times> string) list \<Rightarrow> string"
  enc_Context :: "Context \<Rightarrow> string"
  enc_Topology :: "Topology \<Rightarrow> string"
  enc_EnvoyConfig :: "EnvoyConfig \<Rightarrow> string"
  enc_Findings :: "Finding list \<Rightarrow> string"
  enc_Resources :: "Resource list \<Rightarrow> string"
  enc_ProbeExecution :: "ProbeExecution \<Rightarrow> string"
  enc_AgentCommand :: "AgentCommand \<Rightarrow> string"
  enc_AgentCommandResult :: "AgentCommandResult \<Rightarrow> string"
  enc_AgentSnapshot :: "AgentSnapshot \<Rightarrow> string"
  dec_ProbeRequest :: "string \<Rightarrow> ProbeRequest option"
  dec_AgentSnapshot :: "string \<Rightarrow> AgentSnapshot option"
  dec_AgentCommand :: "string \<Rightarrow> AgentCommand option"
  dec_AgentCommandResult :: "string \<Rightarrow> AgentCommandResult option"

definition set_header :: "string \<Rightarrow> string \<Rightarrow> HttpResponse \<Rightarrow> HttpResponse" where
  "set_header k v w = w\<lparr>rs_Header := (rs_Header w)(k := [v])\<rparr>"

definition add_header :: "string \<Rightarrow> string \<Rightarrow> HttpResponse \<Rightarrow> HttpResponse" where
  "add_header k v w = w\<lparr>rs_Header := (rs_Header w)(k := rs_Header w k @ [v])\<rparr>"

definition writeJSON :: "nat \<Rightarrow> string \<Rightarrow> HttpResponse \<Rightarrow> HttpResponse" where
  "writeJSON status body w =
     (set_header ''Content-Type'' ''application/json; charset=utf-8'' w)
       \<lparr>rs_Status := status, rs_Body := body @ [byte 10]\<rparr>"

definition writeError :: "Codec \<Rightarrow> nat \<Rightarrow> string \<Rightarrow> HttpResponse \<Rightarrow> HttpResponse" where
  "writeError codec status message = writeJSON status (enc_strings codec [(''error'', message)])"

section \<open>The handler\<close>

record 's Handler =
  hd_store :: "'s Reader"
  hd_allowedOrigins :: "string list"
  hd_snapshotReceiver :: "'s SnapshotReceiver option"
  hd_agentCommands :: "'s AgentCommandBroker option"
  hd_probes :: "'s ProbeStore option"
  hd_agentToken :: string

definition WithAllowedOrigins :: "string list \<Rightarrow> 's Handler \<Rightarrow> 's Handler" where
  "WithAllowedOrigins origins h =
     h\<lparr>hd_allowedOrigins := hd_allowedOrigins h
         @ filter (\<lambda>origin. origin \<noteq> []) (map TrimSpace origins)\<rparr>"

definition WithSnapshotReceiver :: "'s SnapshotReceiver \<Rightarrow> string \<Rightarrow> 's Handler \<Rightarrow> 's Handler" where
  "WithSnapshotReceiver receiver token h =
     h\<lparr>hd_snapshotReceiver := Some receiver, hd_agentToken := token\<rparr>"

definition WithAgentCommandBroker :: "'s AgentCommandBroker \<Rightarrow> string \<Rightarrow> 's Handler \<Rightarrow> 's Handler" where
  "WithAgentCommandBroker broker token h =
     h\<lparr>hd_agentCommands := Some broker, hd_agentToken := token\<rparr>"

definition WithProbeStore :: "'s ProbeStore \<Rightarrow> 's Handler \<Rightarrow> 's Handler" where
  "WithProbeStore store h = h\<lparr>hd_probes := Some store\<rparr>"

definition new_handler :: "'s Reader \<Rightarrow> ('s Handler \<Rightarrow> 's Handler) list \<Rightarrow> 's Handler" where
  "new_handler store options =
     foldl (\<lambda>h option. option h)
       \<lparr>hd_store = store, hd_allowedOrigins = [], hd_snapshotReceiver = None,
        hd_agentCommands = None, hd_probes = None, hd_agentToken = []\<rparr> options"

type_synonym 's endpoint = "HttpRequest \<Rightarrow> HttpResponse \<Rightarrow> 's \<Rightarrow> HttpResponse \<times> 's"

definition authorized :: "'s Handler \<Rightarrow> HttpRequest \<Rightarrow> bool" where
  "authorized h r \<longleftrightarrow>
     hd_agentToken h = [] \<or> TrimPrefix (rq_Header r ''Authorization'') ''Bearer '' = hd_agentToken h"

text \<open>Runs the continuation when authorized; otherwise the response is written here.\<close>

definition authorizeAgent :: "Codec \<Rightarrow> 's Handler \<Rightarrow> 's endpoint \<Rightarrow> 's endpoint" where
  "authorizeAgent codec h continue r w s =
     (if authorized h r then continue r w s
      else (writeError codec 401 ''invalid agent credentials'' w, s))"

definition createProbe_endpoint :: "Codec \<Rightarrow> 's Handler \<Rightarrow> 's endpoint" where
  "createProbe_endpoint codec h r w s =
     (case hd_probes h of
        None \<Rightarrow> (writeError codec 404 ''active probes are not enabled'' w, s)
      | Some probes \<Rightarrow>
          (case dec_ProbeRequest codec (take (128 * 1024) (rq_Body r)) of
             None \<Rightarrow> (writeError codec 400 ''invalid probe request'' w, s)
           | Some request \<Rightarrow>
               (case ps_CreateProbe probes request s of
                  (Inl e, s') \<Rightarrow> (writeError codec 400 e w, s')
                | (Inr result, s') \<Rightarrow> (writeJSON 201 (enc_ProbeExecution codec result) w, s'))))"

definition getProbe_endpoint :: "Codec \<Rightarrow> 's Handler \<Rightarrow> string \<Rightarrow> 's endpoint" where
  "getProbe_endpoint codec h i r w s =
     (case hd_probes h of
        None \<Rightarrow> (writeError codec 404 ''active probes are not enabled'' w, s)
      | Some probes \<Rightarrow>
          (case ps_GetProbe probes i s of
             None \<Rightarrow> (writeError codec 404 ''probe not found'' w, s)
           | Some result \<Rightarrow> (writeJSON 200 (enc_ProbeExecution codec result) w, s)))"

definition envoyConfig_endpoint :: "Codec \<Rightarrow> 's Handler \<Rightarrow> 's endpoint" where
  "envoyConfig_endpoint codec h r w s =
     (let gatewayID = Query_Get (url_RawQuery (rq_URL r)) ''gatewayID'' in
      if gatewayID = [] then (writeError codec 400 ''gatewayID is required'' w, s)
      else (case rd_EnvoyConfig (hd_store h) gatewayID s of
              (Inl e, s') \<Rightarrow> (writeError codec 502 e w, s')
            | (Inr config, s') \<Rightarrow> (writeJSON 200 (enc_EnvoyConfig codec config) w, s')))"

definition receiveSnapshot_endpoint :: "Codec \<Rightarrow> 's Handler \<Rightarrow> 's endpoint" where
  "receiveSnapshot_endpoint codec h r w s =
     (case hd_snapshotReceiver h of
        None \<Rightarrow> (writeError codec 404 ''snapshot receiver is not enabled'' w, s)
      | Some receiver \<Rightarrow>
          authorizeAgent codec h (\<lambda>r w s.
            (case dec_AgentSnapshot codec (take (16 * 1024 * 1024) (rq_Body r)) of
               None \<Rightarrow> (writeError codec 400 ''invalid agent snapshot'' w, s)
             | Some snapshot \<Rightarrow>
                 (case sr_ReceiveSnapshot receiver snapshot s of
                    (Inl e, s') \<Rightarrow> (writeError codec 400 e w, s')
                  | (Inr u, s') \<Rightarrow> (writeJSON 202 (enc_strings codec
                       [(''clusterID'', tc_ID (as_Cluster snapshot)),
                        (''snapshotID'', topo_SnapshotID (as_Topology snapshot)),
                        (''status'', ''accepted'')]) w, s')))) r w s)"

definition nextAgentCommand_endpoint :: "Codec \<Rightarrow> 's Handler \<Rightarrow> 's endpoint" where
  "nextAgentCommand_endpoint codec h r w s =
     (case hd_agentCommands h of
        None \<Rightarrow> (writeError codec 404 ''agent command broker is not enabled'' w, s)
      | Some broker \<Rightarrow>
          authorizeAgent codec h (\<lambda>r w s.
            (let clusterID = TrimSpace (Query_Get (url_RawQuery (rq_URL r)) ''clusterID'') in
             if clusterID = [] then (writeError codec 400 ''clusterID is required'' w, s)
             else (case cb_NextAgentCommand broker clusterID s of
                     (Inl e, s') \<Rightarrow> (if rq_Done r then w else writeError codec 400 e w, s')
                   | (Inr None, s') \<Rightarrow> (w\<lparr>rs_Status := 204\<rparr>, s')
                   | (Inr (Some command), s') \<Rightarrow>
                       (writeJSON 200 (enc_AgentCommand codec command) w, s')))) r w s)"

definition completeAgentCommand_endpoint :: "Codec \<Rightarrow> 's Handler \<Rightarrow> 's endpoint" where
  "completeAgentCommand_endpoint codec h r w s =
     (case hd_agentCommands h of
        None \<Rightarrow> (writeError codec 404 ''agent command broker is not enabled'' w, s)
      | Some broker \<Rightarrow>
          authorizeAgent codec h (\<lambda>r w s.
            (case dec_AgentCommandResult codec (take (32 * 1024 * 1024) (rq_Body r)) of
               None \<Rightarrow> (writeError codec 400 ''invalid agent command result'' w, s)
             | Some result \<Rightarrow>
                 (case cb_CompleteAgentCommand broker result s of
                    (Inl e, s') \<Rightarrow> (writeError codec 400 e w, s')
                  | (Inr u, s') \<Rightarrow> (writeJSON 202 (enc_strings codec
                       [(''commandID'', acr_CommandID result), (''status'', ''accepted'')]) w, s')))) r w s)"

section \<open>Routing\<close>

datatype Route =
    R_health | R_preflight | R_context | R_topology | R_envoyConfig | R_resources | R_findings
  | R_createProbe | R_getProbe string | R_receiveSnapshot | R_nextAgentCommand
  | R_completeAgentCommand | R_notFound

definition path_unescape :: "string \<Rightarrow> string" where
  "path_unescape s = (case unescape s encodePath of None \<Rightarrow> s | Some t \<Rightarrow> t)"

definition path_segments :: "string \<Rightarrow> string list" where
  "path_segments path = map path_unescape (tl (SplitByte (CHR ''/'') path))"

text \<open>
  The patterns of \<open>NewHandler\<close> under \<open>ServeMux\<close>'s rules: a pattern for GET also matches HEAD, a
  wildcard takes one segment that is not empty, \<open>/\<close> takes whatever no other pattern matches.
\<close>

definition mux_route :: "string \<Rightarrow> string list \<Rightarrow> Route" where
  "mux_route verb segments =
     (let get = (verb = ''GET'' \<or> verb = ''HEAD''); post = (verb = ''POST'') in
      if get \<and> segments = [''healthz''] then R_health
      else if verb = ''OPTIONS'' \<and> length segments > 1 \<and> hd segments = ''api'' then R_preflight
      else if get \<and> segments = [''api'', ''v1'', ''context''] then R_context
      else if get \<and> segments = [''api'', ''v1'', ''topology''] then R_topology
      else if get \<and> segments = [''api'', ''v1'', ''envoy'', ''config''] then R_envoyConfig
      else if get \<and> segments = [''api'', ''v1'', ''resources''] then R_resources
      else if get \<and> segments = [''api'', ''v1'', ''health'', ''findings''] then R_findings
      else if post \<and> segments = [''api'', ''v1'', ''probes''] then R_createProbe
      else if get \<and> length segments = 4 \<and> take 3 segments = [''api'', ''v1'', ''probes'']
          \<and> segments ! 3 \<notin> {[], ''/''} then R_getProbe (segments ! 3)
      else if post \<and> segments = [''api'', ''v1'', ''agent'', ''snapshots''] then R_receiveSnapshot
      else if get \<and> segments = [''api'', ''v1'', ''agent'', ''commands'', ''next''] then R_nextAgentCommand
      else if post \<and> segments = [''api'', ''v1'', ''agent'', ''command-results'']
        then R_completeAgentCommand
      else R_notFound)"

fun run_route :: "Codec \<Rightarrow> 's Handler \<Rightarrow> Route \<Rightarrow> 's endpoint" where
  "run_route codec h R_health r w s = (writeJSON 200 (enc_strings codec [(''status'', ''ok'')]) w, s)"
| "run_route codec h R_preflight r w s = (w\<lparr>rs_Status := 204\<rparr>, s)"
| "run_route codec h R_context r w s =
     (writeJSON 200 (enc_Context codec (rd_Context (hd_store h) s)) w, s)"
| "run_route codec h R_topology r w s =
     (writeJSON 200 (enc_Topology codec (rd_Topology (hd_store h) s)) w, s)"
| "run_route codec h R_envoyConfig r w s = envoyConfig_endpoint codec h r w s"
| "run_route codec h R_resources r w s =
     (writeJSON 200 (enc_Resources codec
        (rd_Resources (hd_store h) (Query_Get (url_RawQuery (rq_URL r)) ''q'') s)) w, s)"
| "run_route codec h R_findings r w s =
     (writeJSON 200 (enc_Findings codec (rd_Findings (hd_store h) s)) w, s)"
| "run_route codec h R_createProbe r w s = createProbe_endpoint codec h r w s"
| "run_route codec h (R_getProbe i) r w s = getProbe_endpoint codec h i r w s"
| "run_route codec h R_receiveSnapshot r w s = receiveSnapshot_endpoint codec h r w s"
| "run_route codec h R_nextAgentCommand r w s = nextAgentCommand_endpoint codec h r w s"
| "run_route codec h R_completeAgentCommand r w s = completeAgentCommand_endpoint codec h r w s"
| "run_route codec h R_notFound r w s = (writeError codec 404 ''not found'' w, s)"

section \<open>Middleware and the whole handler\<close>

definition logging :: "HttpRequest \<Rightarrow> HttpResponse \<Rightarrow> HttpResponse" where
  "logging r w =
     (if HasPrefix (url_Path (rq_URL r)) ''/api/'' \<or> url_Path (rq_URL r) = ''/healthz''
      then set_header ''Cache-Control'' ''no-store'' w else w)"

definition cors :: "string list \<Rightarrow> HttpRequest \<Rightarrow> HttpResponse \<Rightarrow> HttpResponse" where
  "cors allowedOrigins r w =
     (let origin = rq_Header r ''Origin'';
          w1 = (if origin \<noteq> [] then add_header ''Vary'' ''Origin'' w else w)
      in if origin \<noteq> [] \<and> origin \<in> set allowedOrigins
         then set_header ''Vary'' ''Origin''
           (set_header ''Access-Control-Allow-Headers'' ''Content-Type''
           (set_header ''Access-Control-Allow-Methods'' ''GET, POST, OPTIONS''
           (set_header ''Access-Control-Allow-Origin'' origin w1)))
         else w1)"

definition request_route :: "HttpRequest \<Rightarrow> Route" where
  "request_route r = mux_route (rq_Method r) (path_segments (EscapedPath (rq_URL r)))"

definition ServeHTTP :: "Codec \<Rightarrow> 's Handler \<Rightarrow> HttpRequest \<Rightarrow> 's \<Rightarrow> HttpResponse \<times> 's" where
  "ServeHTTP codec h r s =
     run_route codec h (request_route r) r
       (cors (hd_allowedOrigins h) r (logging r fresh_response)) s"

section \<open>Headers survive the handlers\<close>

lemma writeJSON_fields [simp]:
  "rs_Status (writeJSON status body w) = status"
  "rs_Body (writeJSON status body w) = body @ [byte 10]"
  "rs_Header (writeJSON status body w) =
     (rs_Header w)(''Content-Type'' := [''application/json; charset=utf-8''])"
  by (simp_all add: writeJSON_def set_header_def)

lemma writeError_fields [simp]:
  "rs_Status (writeError codec status message w) = status"
  "rs_Header (writeError codec status message w) =
     (rs_Header w)(''Content-Type'' := [''application/json; charset=utf-8''])"
  by (simp_all add: writeError_def)

lemmas endpoint_defs = createProbe_endpoint_def getProbe_endpoint_def envoyConfig_endpoint_def
  receiveSnapshot_endpoint_def nextAgentCommand_endpoint_def completeAgentCommand_endpoint_def
  authorizeAgent_def

lemma run_route_headers:
  "k \<noteq> ''Content-Type'' \<Longrightarrow> rs_Header (fst (run_route codec h route r w s)) k = rs_Header w k"
  by (cases route) (auto simp: endpoint_defs Let_def split: option.split prod.split sum.split)

lemma cors_origin:
  "rs_Header (cors origins r w) ''Access-Control-Allow-Origin'' =
     (if rq_Header r ''Origin'' \<noteq> [] \<and> rq_Header r ''Origin'' \<in> set origins
      then [rq_Header r ''Origin''] else rs_Header w ''Access-Control-Allow-Origin'')"
  by (simp add: cors_def set_header_def add_header_def Let_def)

lemma logging_origin:
  "rs_Header (logging r w) ''Access-Control-Allow-Origin'' = rs_Header w ''Access-Control-Allow-Origin''"
  by (simp add: logging_def set_header_def)

lemma WithAllowedOrigins_set:
  "set (hd_allowedOrigins (WithAllowedOrigins origins h)) =
     set (hd_allowedOrigins h) \<union> (TrimSpace ` set origins - {[]})"
  by (auto simp: WithAllowedOrigins_def)

section \<open>Authorization\<close>

text \<open>The routes that only an agent may use.\<close>

definition agent_route :: "Route \<Rightarrow> bool" where
  "agent_route route \<longleftrightarrow> route \<in> {R_receiveSnapshot, R_nextAgentCommand, R_completeAgentCommand}"

lemma unauthorized_untouched:
  assumes "agent_route route" "\<not> authorized h r"
  shows "snd (run_route codec h route r w s) = s
    \<and> rs_Status (fst (run_route codec h route r w s)) \<in> {401, 404}"
  using assms
  by (cases "hd_snapshotReceiver h"; cases "hd_agentCommands h") (auto simp: agent_route_def endpoint_defs)

lemma mux_route_post:
  "mux_route verb segments \<in> {R_createProbe, R_receiveSnapshot, R_completeAgentCommand} \<Longrightarrow> verb = ''POST''"
  by (simp add: mux_route_def Let_def split: if_split_asm)

text \<open>Other routes than these three, the polls and the Envoy queries write nothing.\<close>

lemma read_only_routes:
  assumes "request_route r \<notin> {R_createProbe, R_receiveSnapshot, R_completeAgentCommand,
    R_envoyConfig, R_nextAgentCommand}"
  shows "snd (ServeHTTP codec h r s) = s"
  using assms
  by (cases "request_route r") (simp_all add: ServeHTTP_def getProbe_endpoint_def split: option.split)

section \<open>Properties\<close>

text \<open>
  C9: without the agent token nobody speaks for an agent: a request to one of the agent endpoints
  (snapshot upload, command poll, result upload) whose \<open>Authorization\<close> header does not carry
  the configured token is answered 401 (or 404 when the endpoint is disabled) before its
  body is looked at, and changes nothing.
\<close>

theorem agent_endpoints_authorized:
  assumes "agent_route (request_route r)"
    and "hd_agentToken h \<noteq> []" "TrimPrefix (rq_Header r ''Authorization'') ''Bearer '' \<noteq> hd_agentToken h"
  shows "snd (ServeHTTP codec h r s) = s \<and> rs_Status (fst (ServeHTTP codec h r s)) \<in> {401, 404}"
proof -
  have "\<not> authorized h r" using assms(2,3) by (simp add: authorized_def)
  from unauthorized_untouched [OF assms(1) this] show ?thesis by (simp add: ServeHTTP_def)
qed

text \<open>
  Cross-origin access is granted exactly to the configured origins: whatever the route and
  its handler do, the response allows the request's origin if that is one of the trimmed,
  non-empty origins of the configuration, and otherwise allows none.
\<close>

theorem cors_grants_configured:
  "rs_Header (fst (ServeHTTP codec (WithAllowedOrigins origins (new_handler store [])) r s))
     ''Access-Control-Allow-Origin'' =
   (if rq_Header r ''Origin'' \<in> TrimSpace ` set origins - {[]} then [rq_Header r ''Origin''] else [])"
  by (auto simp: ServeHTTP_def run_route_headers cors_origin logging_origin fresh_response_def
    WithAllowedOrigins_set new_handler_def)

definition sample_agent_request :: HttpRequest where
  "sample_agent_request = \<lparr>rq_Method = ''POST'',
     rq_URL = empty_url\<lparr>url_Path := ''/api/v1/agent/snapshots''\<rparr>, rq_Header = (\<lambda>_. []),
     rq_Body = [], rq_Done = False\<rparr>"

lemma sample_agent_request_route: "request_route sample_agent_request = R_receiveSnapshot"
  by code_simp

lemma agent_endpoints_authorized_witness:
  "\<forall>codec receiver store (s :: Store). snd (ServeHTTP codec
     (WithSnapshotReceiver receiver ''secret'' (new_handler store [])) sample_agent_request s) = s"
proof (intro allI)
  fix codec and receiver :: "Store SnapshotReceiver" and store :: "Store Reader" and s :: Store
  let ?h = "WithSnapshotReceiver receiver ''secret'' (new_handler store [])"
  have "rq_Header sample_agent_request ''Authorization'' = []"
    by (simp add: sample_agent_request_def)
  then have "TrimPrefix (rq_Header sample_agent_request ''Authorization'') ''Bearer '' \<noteq> hd_agentToken ?h"
    by (simp add: WithSnapshotReceiver_def TrimPrefix_def HasPrefix_def)
  then show "snd (ServeHTTP codec ?h sample_agent_request s) = s"
    using agent_endpoints_authorized [of sample_agent_request ?h codec s]
    by (simp add: sample_agent_request_route agent_route_def WithSnapshotReceiver_def)
qed

end
