(* ===== verification/Agent_Runner.thy ===== *)
theory Agent_Runner
  imports Api_Handler
begin

text \<open>
  The cluster agent, \<open>internal/agent/agent.go\<close>: it uploads snapshots at an interval, polls the
  server for commands, executes them on its reader and uploads the results. The server as
  the agent's HTTP client sees it is a function on the state of the server and the network;
  how its waits end (the timer, or the end of the process) is an argument.
\<close>

section \<open>Configuration\<close>

record AgentConfig =
  cfg_ServerURL :: string
  cfg_Token :: string
  cfg_ClusterID :: string
  cfg_ClusterName :: string
  cfg_Interval :: int

text \<open>The context a command is executed under.\<close>

datatype CommandContext = CtxInherited | CtxTimeout int | CtxDeadline GoTime

record 'r ProbeExecutor =
  pe_ExecuteProbe :: "CommandContext \<Rightarrow> ProbeCommand \<Rightarrow> 'r \<Rightarrow> (string + ProbeAgentResult) \<times> 'r"
  pe_ObserveProbe :: "CommandContext \<Rightarrow> ProbeCommand \<Rightarrow> 'r \<Rightarrow> (string + ProbeAgentResult) \<times> 'r"

text \<open>The reader is taken at the context of the call; it is also the probe executor if it can be.\<close>

record 'r Runner =
  rn_reader :: "CommandContext \<Rightarrow> 'r Reader"
  rn_probeExecutor :: "'r ProbeExecutor option"
  rn_config :: AgentConfig

definition new_runner ::
    "(CommandContext \<Rightarrow> 'r Reader) \<Rightarrow> 'r ProbeExecutor option \<Rightarrow> AgentConfig \<Rightarrow> string + 'r Runner" where
  "new_runner reader executor config0 =
     (let config = config0\<lparr>cfg_ServerURL := TrimRightByte (CHR ''/'') (TrimSpace (cfg_ServerURL config0))\<rparr> in
      if cfg_ServerURL config = [] then Inl ''server URL is required''
      else if cfg_ClusterID config = [] then Inl ''cluster ID is required''
      else Inr \<lparr>rn_reader = reader, rn_probeExecutor = executor,
        rn_config = config\<lparr>
          cfg_ClusterName := (if cfg_ClusterName config = [] then cfg_ClusterID config
                              else cfg_ClusterName config),
          cfg_Interval := (if cfg_Interval config \<le> 0 then 30 * nanos else cfg_Interval config)\<rparr>\<rparr>)"

section \<open>Requests to the server\<close>

datatype AgentError =
    LocalSnapshotNotReady
  | BadURL
  | TransportFailed string
  | ServerReturned nat string
  | CommandUndecodable
  | CommandIdentityInvalid

type_synonym 'n http = "HttpRequest \<Rightarrow> 'n \<Rightarrow> (string + HttpResponse) \<times> 'n"

definition agent_request ::
    "AgentConfig \<Rightarrow> string \<Rightarrow> string \<Rightarrow> string \<Rightarrow> HttpRequest option" where
  "agent_request config verb path body =
     map_option (\<lambda>u.
       \<lparr>rq_Method = verb, rq_URL = u,
        rq_Header = (\<lambda>k.
          if k = ''Authorization'' \<and> cfg_Token config \<noteq> [] then ''Bearer '' @ cfg_Token config
          else if k = ''Content-Type'' \<and> verb = ''POST'' then ''application/json'' else []),
        rq_Body = body, rq_Done = False\<rparr>)
     (url_Parse (cfg_ServerURL config @ path))"

definition success_status :: "nat \<Rightarrow> bool" where
  "success_status status \<longleftrightarrow> 200 \<le> status \<and> status < 300"

definition server_error :: "HttpResponse \<Rightarrow> AgentError" where
  "server_error response =
     ServerReturned (rs_Status response) (TrimSpace (take 4096 (rs_Body response)))"

text \<open>A POST of the agent: only the status of the response counts.\<close>

definition agent_post :: "'n http \<Rightarrow> AgentConfig \<Rightarrow> string \<Rightarrow> string \<Rightarrow> 'n \<Rightarrow> AgentError option \<times> 'n" where
  "agent_post http config path body s =
     (case agent_request config ''POST'' path body of
        None \<Rightarrow> (Some BadURL, s)
      | Some request \<Rightarrow>
          (case http request s of
             (Inl e, s') \<Rightarrow> (Some (TransportFailed e), s')
           | (Inr response, s') \<Rightarrow>
               (if success_status (rs_Status response) then None else Some (server_error response), s')))"

definition snapshot_payload :: "AgentConfig \<Rightarrow> GoTime \<Rightarrow> 'r Reader \<Rightarrow> 'r \<Rightarrow> AgentSnapshot" where
  "snapshot_payload config now reader r =
     (let localContext = rd_Context reader r in
      zero_AgentSnapshot\<lparr>
        as_Cluster := zero_TopologyCluster\<lparr>tc_ID := cfg_ClusterID config,
          tc_Name := cfg_ClusterName config, tc_Version := cl_Version (ctx_Cluster localContext),
          tc_ConnectionState := ''connected'', tc_Namespaces := ctx_Namespaces localContext,
          tc_Snapshot := ctx_Snapshot localContext\<rparr>,
        as_Context := localContext, as_Topology := rd_Topology reader r,
        as_Findings := rd_Findings reader r, as_Resources := rd_Resources reader [] r,
        as_SentAt := format_rfc3339 (time_UTC now)\<rparr>)"

definition SendOnce ::
    "Codec \<Rightarrow> 'n http \<Rightarrow> 'r Runner \<Rightarrow> GoTime \<Rightarrow> 'r \<Rightarrow> 'n \<Rightarrow> AgentError option \<times> 'n" where
  "SendOnce codec http runner now r s =
     (let reader = rn_reader runner CtxInherited in
      if topo_SnapshotID (rd_Topology reader r) = [] \<or> sn_ID (ctx_Snapshot (rd_Context reader r)) = []
      then (Some LocalSnapshotNotReady, s)
      else agent_post http (rn_config runner) ''/api/v1/agent/snapshots''
        (enc_AgentSnapshot codec (snapshot_payload (rn_config runner) now reader r)) s)"

definition nextCommand ::
    "Codec \<Rightarrow> 'n http \<Rightarrow> 'r Runner \<Rightarrow> 'n \<Rightarrow> (AgentError + AgentCommand option) \<times> 'n" where
  "nextCommand codec http runner s =
     (let config = rn_config runner in
      case agent_request config ''GET''
             (''/api/v1/agent/commands/next?clusterID='' @ QueryEscape (cfg_ClusterID config)) [] of
        None \<Rightarrow> (Inl BadURL, s)
      | Some request \<Rightarrow>
          (case http request s of
             (Inl e, s') \<Rightarrow> (Inl (TransportFailed e), s')
           | (Inr response, s') \<Rightarrow>
               ((if rs_Status response = 204 then Inr None
                 else if \<not> success_status (rs_Status response) then Inl (server_error response)
                 else (case dec_AgentCommand codec (take (64 * 1024) (rs_Body response)) of
                         None \<Rightarrow> Inl CommandUndecodable
                       | Some command \<Rightarrow>
                           if cmd_ID command = [] \<or> cmd_ClusterID command \<noteq> cfg_ClusterID config
                           then Inl CommandIdentityInvalid else Inr (Some command))), s')))"

definition sendCommandResult ::
    "Codec \<Rightarrow> 'n http \<Rightarrow> 'r Runner \<Rightarrow> AgentCommandResult \<Rightarrow> 'n \<Rightarrow> AgentError option \<times> 'n" where
  "sendCommandResult codec http runner result s =
     agent_post http (rn_config runner) ''/api/v1/agent/command-results''
       (enc_AgentCommandResult codec result) s"

section \<open>Executing a command\<close>

text \<open>The context of the execution, or the deadline that has passed.\<close>

definition command_context :: "GoTime \<Rightarrow> AgentCommand \<Rightarrow> CommandContext option" where
  "command_context now command =
     (if cmd_ExecutionTimeoutSeconds command > 0
      then Some (CtxTimeout (cmd_ExecutionTimeoutSeconds command))
      else (case parse_rfc3339 (cmd_Deadline command) of
              None \<Rightarrow> Some CtxInherited
            | Some deadline \<Rightarrow>
                if time_After now deadline then None else Some (CtxDeadline deadline)))"

text \<open>A probe command on the executor: the texts tell what is missing.\<close>

definition run_probe ::
    "string \<Rightarrow> string \<Rightarrow> (ProbeCommand \<Rightarrow> 'r \<Rightarrow> (string + ProbeAgentResult) \<times> 'r) option
     \<Rightarrow> AgentCommand \<Rightarrow> AgentCommandResult \<Rightarrow> 'r \<Rightarrow> AgentCommandResult \<times> 'r" where
  "run_probe unsupported missing operation command result r =
     (case operation of
        None \<Rightarrow> (result\<lparr>acr_Error := unsupported\<rparr>, r)
      | Some run \<Rightarrow>
          (case cmd_Probe command of
             None \<Rightarrow> (result\<lparr>acr_Error := missing\<rparr>, r)
           | Some probe \<Rightarrow>
               (case run probe r of
                  (Inl e, r') \<Rightarrow> (result\<lparr>acr_Error := e\<rparr>, r')
                | (Inr p, r') \<Rightarrow> (result\<lparr>acr_Probe := Some p\<rparr>, r'))))"

definition executeCommand ::
    "'r Runner \<Rightarrow> GoTime \<Rightarrow> AgentCommand \<Rightarrow> 'r \<Rightarrow> AgentCommandResult \<times> 'r" where
  "executeCommand runner now command r =
     (let result = zero_AgentCommandResult\<lparr>acr_CommandID := cmd_ID command,
            acr_ClusterID := cfg_ClusterID (rn_config runner)\<rparr>
      in
      case command_context now command of
        None \<Rightarrow> (result\<lparr>acr_Error := ''command deadline exceeded before execution''\<rparr>, r)
      | Some ctx \<Rightarrow>
          if cmd_Kind command = AgentCommandEnvoyConfig then
            (case rd_EnvoyConfig (rn_reader runner ctx) (cmd_GatewayID command) r of
               (Inl e, r') \<Rightarrow> (result\<lparr>acr_Error := e\<rparr>, r')
             | (Inr config, r') \<Rightarrow> (result\<lparr>acr_Config := Some config\<rparr>, r'))
          else if cmd_Kind command = AgentCommandProbeHTTP then
            run_probe ''probe execution is not supported by this agent''
              ''probe command payload is required''
              (map_option (\<lambda>pe. pe_ExecuteProbe pe ctx) (rn_probeExecutor runner)) command result r
          else if cmd_Kind command = AgentCommandProbeObserve then
            run_probe ''probe observation is not supported by this agent''
              ''probe observation payload is required''
              (map_option (\<lambda>pe. pe_ObserveProbe pe ctx) (rn_probeExecutor runner)) command result r
          else (result\<lparr>acr_Error := ''unsupported agent command kind '' @ quoted (cmd_Kind command)\<rparr>, r))"

text \<open>
  The upload of a result: at most three attempts; \<open>http\<close> gives the fate of each attempt,
  \<open>waited\<close> whether the wait after it elapsed.
\<close>

fun send_attempts ::
    "(nat \<Rightarrow> 'n \<Rightarrow> AgentError option \<times> 'n) \<Rightarrow> (nat \<Rightarrow> bool) \<Rightarrow> nat list \<Rightarrow> 'n \<Rightarrow> AgentError option \<times> 'n" where
  "send_attempts send waited [] s = (None, s)"
| "send_attempts send waited (attempt # attempts) s =
     (case send attempt s of
        (None, s') \<Rightarrow> (None, s')
      | (Some e, s') \<Rightarrow>
          if attempt = 3 \<or> \<not> waited attempt then (Some e, s')
          else send_attempts send waited attempts s')"

definition executeAndSendCommand ::
    "Codec \<Rightarrow> (nat \<Rightarrow> 'n http) \<Rightarrow> (nat \<Rightarrow> bool) \<Rightarrow> 'r Runner \<Rightarrow> GoTime \<Rightarrow> AgentCommand \<Rightarrow> 'r \<times> 'n
     \<Rightarrow> AgentError option \<times> 'r \<times> 'n" where
  "executeAndSendCommand codec http waited runner now command rs =
     (case rs of (r, s) \<Rightarrow>
       (case executeCommand runner now command r of
          (result, r') \<Rightarrow>
            (case send_attempts (\<lambda>attempt. sendCommandResult codec (http attempt) runner result)
                    waited [1, 2, 3] s of
               (e, s') \<Rightarrow> (e, r', s'))))"

end
