(* ===== verification/Broker_Protocol.thy ===== *)
theory Broker_Protocol
  imports Command_Broker
begin

text \<open>
  All interleavings of the command exchange. The waiting goroutines of the server, the polls
  and the result uploads of the agents and the snapshot uploads are the steps of a
  transition system over the store; each step is what the code does in one critical
  section or channel operation. Ghost components record which goroutine is where, which
  command was handed to whom and which result reached whom. Command identities are fresh
  (sixteen random bytes).
\<close>

section \<open>Transition system\<close>

datatype Phase = Offering | Waiting | Leaving | Done

record Client =
  cli_command :: AgentCommand
  cli_phase :: Phase
  cli_outcome :: "AgentCommandResult option"

record Broker =
  br_store :: Store
  br_clients :: "string \<rightharpoonup> Client"
  br_delivered :: "(string \<times> AgentCommand) list"

definition initial_broker :: "string \<Rightarrow> int \<Rightarrow> Broker" where
  "initial_broker preferred staleAfter =
     \<lparr>br_store = NewStore preferred staleAfter, br_clients = Map.empty, br_delivered = []\<rparr>"

definition set_client :: "string \<Rightarrow> Client \<Rightarrow> Broker \<Rightarrow> Broker" where
  "set_client i c b = b\<lparr>br_clients := (br_clients b)(i \<mapsto> c)\<rparr>"

definition log_delivery :: "string \<Rightarrow> NextError + AgentCommand option \<Rightarrow> Broker \<Rightarrow> Broker" where
  "log_delivery c res b =
     (case res of Inr (Some command) \<Rightarrow>
        b\<lparr>br_delivered := (TrimSpace c, command) # br_delivered b\<rparr>
      | _ \<Rightarrow> b)"

inductive broker_step :: "Broker \<Rightarrow> Broker \<Rightarrow> bool" where
  begin_command: "br_clients b (cmd_ID command) = None \<Longrightarrow>
    broker_step b (set_client (cmd_ID command)
      \<lparr>cli_command = command, cli_phase = Offering, cli_outcome = None\<rparr>
      (b\<lparr>br_store := register_command command (br_store b)\<rparr>))"
| offer_taken: "br_clients b i = Some c \<Longrightarrow> cli_phase c = Offering \<Longrightarrow>
    offer_command (cli_command c) (br_store b) = Some s \<Longrightarrow>
    broker_step b (set_client i (c\<lparr>cli_phase := Waiting\<rparr>) (b\<lparr>br_store := s\<rparr>))"
| offer_refused: "br_clients b i = Some c \<Longrightarrow> cli_phase c = Offering \<Longrightarrow>
    broker_step b (set_client i (c\<lparr>cli_phase := Leaving\<rparr>) b)"
| answered: "br_clients b i = Some c \<Longrightarrow> cli_phase c = Waiting \<Longrightarrow>
    receive_result i (br_store b) = Some (r, s) \<Longrightarrow>
    broker_step b (set_client i (c\<lparr>cli_phase := Leaving, cli_outcome := Some r\<rparr>) (b\<lparr>br_store := s\<rparr>))"
| stopped: "br_clients b i = Some c \<Longrightarrow> cli_phase c = Waiting \<Longrightarrow>
    broker_step b (set_client i (c\<lparr>cli_phase := Leaving\<rparr>) b)"
| leave: "br_clients b i = Some c \<Longrightarrow> cli_phase c = Leaving \<Longrightarrow>
    broker_step b (set_client i (c\<lparr>cli_phase := Done\<rparr>)
      (b\<lparr>br_store := unregister_command i (br_store b)\<rparr>))"
| poll: "NextAgentCommand now ended c (br_store b) = (res, s) \<Longrightarrow>
    broker_step b (log_delivery c res (b\<lparr>br_store := s\<rparr>))"
| complete: "CompleteAgentCommand ended r (br_store b) = (res, s) \<Longrightarrow>
    broker_step b (b\<lparr>br_store := s\<rparr>)"
| upload: "ReceiveSnapshot now at payload (br_store b) = (res, s) \<Longrightarrow>
    broker_step b (b\<lparr>br_store := s\<rparr>)"

lemma broker_step_upload:
  "broker_step b (b\<lparr>br_store := snd (ReceiveSnapshot now at payload (br_store b))\<rparr>)"
  by (rule broker_step.upload) (rule prod.collapse [symmetric])

lemma broker_step_poll:
  "broker_step b (log_delivery c (fst (NextAgentCommand now ended c (br_store b)))
    (b\<lparr>br_store := snd (NextAgentCommand now ended c (br_store b))\<rparr>))"
  by (rule broker_step.poll) (rule prod.collapse [symmetric])

lemma broker_step_complete:
  "broker_step b (b\<lparr>br_store := snd (CompleteAgentCommand ended r (br_store b))\<rparr>)"
  by (rule broker_step.complete) (rule prod.collapse [symmetric])

inductive broker_reach :: "string \<Rightarrow> int \<Rightarrow> Broker \<Rightarrow> bool" for preferred staleAfter where
  start: "broker_reach preferred staleAfter (initial_broker preferred staleAfter)"
| step: "broker_reach preferred staleAfter b \<Longrightarrow> broker_step b b' \<Longrightarrow> broker_reach preferred staleAfter b'"

section \<open>Invariant\<close>

definition queue_inv :: "Broker \<Rightarrow> bool" where
  "queue_inv b \<longleftrightarrow>
     (\<forall>c. length (queue_of (br_store b) c) \<le> agentCommandQueueSize
        \<and> distinct (map cmd_ID (queue_of (br_store b) c)))
     \<and> (\<forall>c. \<forall>command \<in> set (queue_of (br_store b) c). cmd_ClusterID command = c
        \<and> cmd_ID command \<notin> cmd_ID ` snd ` set (br_delivered b)
        \<and> (\<exists>cl. br_clients b (cmd_ID command) = Some cl \<and> cli_command cl = command
              \<and> cli_phase cl \<noteq> Offering))"

definition delivered_inv :: "Broker \<Rightarrow> bool" where
  "delivered_inv b \<longleftrightarrow>
     distinct (map (cmd_ID \<circ> snd) (br_delivered b))
     \<and> (\<forall>(c, command) \<in> set (br_delivered b). cmd_ClusterID command = c
        \<and> (\<exists>cl. br_clients b (cmd_ID command) = Some cl \<and> cli_command cl = command
              \<and> cli_phase cl \<noteq> Offering))"

definition answers :: "AgentCommand \<Rightarrow> AgentCommandResult \<Rightarrow> bool" where
  "answers command r \<longleftrightarrow>
     acr_CommandID r = cmd_ID command \<and> acr_ClusterID r = cmd_ClusterID command"

definition pending_at :: "string \<Rightarrow> Client option \<Rightarrow> pendingCommand option \<Rightarrow> bool" where
  "pending_at i client p \<longleftrightarrow>
     (case client of
        None \<Rightarrow> p = None
      | Some cl \<Rightarrow> cmd_ID (cli_command cl) = i
          \<and> (\<forall>r. cli_outcome cl = Some r \<longrightarrow> answers (cli_command cl) r)
          \<and> (case p of
               None \<Rightarrow> cli_phase cl = Done
             | Some p \<Rightarrow> cli_phase cl \<noteq> Done \<and> pend_clusterID p = cmd_ClusterID (cli_command cl)
                 \<and> (\<forall>r. pend_result p = Some r \<longrightarrow> answers (cli_command cl) r)))"

definition pending_inv :: "Broker \<Rightarrow> bool" where
  "pending_inv b \<longleftrightarrow>
     (\<forall>i. pending_at i (br_clients b i) (st_pendingCommands (br_store b) i))"

definition broker_inv :: "Broker \<Rightarrow> bool" where
  "broker_inv b \<longleftrightarrow> queue_inv b \<and> delivered_inv b \<and> pending_inv b"

subsection \<open>What the operations touch\<close>

lemma set_client_simps [simp]:
  "br_store (set_client i c b) = br_store b" "br_clients (set_client i c b) = (br_clients b)(i \<mapsto> c)"
  "br_delivered (set_client i c b) = br_delivered b"
  by (simp_all add: set_client_def)

lemma log_delivery_simps [simp]:
  "br_store (log_delivery c res b) = br_store b" "br_clients (log_delivery c res b) = br_clients b"
  by (simp_all add: log_delivery_def split: sum.split option.split)

lemma queue_register [simp]: "queue_of (register_command command s) c = queue_of s c"
  by (auto simp: register_command_def queue_of_def ensure_queue_def split: option.split)

lemma queue_unregister [simp]: "queue_of (unregister_command i s) c = queue_of s c"
  by (simp add: unregister_command_def queue_of_def)

lemma offer_command_Some:
  assumes "offer_command command s = Some s'"
  shows "st_pendingCommands s' = st_pendingCommands s"
    "queue_of s' c = (if c = cmd_ClusterID command then queue_of s c @ [command] else queue_of s c)"
    "length (queue_of s (cmd_ClusterID command)) < agentCommandQueueSize"
  using assms by (auto simp: offer_command_def Let_def queue_of_def split: if_splits)

lemma receive_result_Some:
  assumes "receive_result i s = Some (r, s')"
  obtains p where "st_pendingCommands s i = Some p" "pend_result p = Some r"
    "st_pendingCommands s' = (st_pendingCommands s)(i \<mapsto> p\<lparr>pend_result := None\<rparr>)"
    "st_commandQueues s' = st_commandQueues s"
  using assms by (auto simp: receive_result_def split: option.splits)

lemma CompleteAgentCommand_cases:
  assumes "CompleteAgentCommand ended r s = (res, s')"
  obtains (same) "s' = s" "\<exists>e. res = Inl e"
    | (stored) p r' where "res = Inr ()" "st_pendingCommands s (acr_CommandID r') = Some p"
        "pend_clusterID p = acr_ClusterID r'" "pend_result p = None"
        "s' = s\<lparr>st_pendingCommands := (st_pendingCommands s)
          (acr_CommandID r' \<mapsto> p\<lparr>pend_result := Some r'\<rparr>)\<rparr>"
        "r' = trimmed_result r"
proof (cases "complete_check ended (trimmed_result r) s")
  case (Inl e)
  with assms have "s' = s" "res = Inl e" by (simp_all add: CompleteAgentCommand_def)
  with same show thesis by blast
next
  case (Inr p)
  with assms have "res = Inr ()" "s' = s\<lparr>st_pendingCommands := (st_pendingCommands s)
      (acr_CommandID (trimmed_result r) \<mapsto> p\<lparr>pend_result := Some (trimmed_result r)\<rparr>)\<rparr>"
    by (simp_all add: CompleteAgentCommand_def Let_def)
  with Inr stored [of "trimmed_result r" p] show thesis by (simp add: complete_check_Inr)
qed

lemma poll_queue_parts:
  "poll_queue ok q = (found, rest) \<Longrightarrow>
    \<exists>skipped. q = skipped @ (case found of None \<Rightarrow> [] | Some x \<Rightarrow> [x]) @ rest
      \<and> (\<forall>x \<in> set skipped. \<not> ok x) \<and> (case found of None \<Rightarrow> rest = [] | Some x \<Rightarrow> ok x)"
proof (induction ok q rule: poll_queue.induct)
  case (2 ok x q)
  show ?case
  proof (cases "ok x")
    case True
    with 2 show ?thesis by (intro exI [of _ "[]"]) auto
  next
    case False
    with 2 obtain skipped where
      "q = skipped @ (case found of None \<Rightarrow> [] | Some x \<Rightarrow> [x]) @ rest"
      "\<forall>x \<in> set skipped. \<not> ok x" "case found of None \<Rightarrow> rest = [] | Some x \<Rightarrow> ok x" by auto
    with False show ?thesis by (intro exI [of _ "x # skipped"]) auto
  qed
qed simp

lemma NextAgentCommand_cases:
  assumes "NextAgentCommand now ended c s = (res, s')"
  obtains (same) "s' = s" "\<exists>e. res = Inl e"
    | (polled) found rest where
        "poll_queue (deliverable now (TrimSpace c) s) (queue_of s (TrimSpace c)) = (found, rest)"
        "\<And>command. res = Inr (Some command) \<longleftrightarrow> found = Some command"
        "st_pendingCommands s' = st_pendingCommands s"
        "\<And>d. queue_of s' d = (if d = TrimSpace c then rest else queue_of s d)"
proof (cases "TrimSpace c = [] \<or> map_of (st_snapshots s) (TrimSpace c) = None")
  case True
  then have "s' = s \<and> (\<exists>e. res = Inl e)"
    using assms unfolding NextAgentCommand_def Let_def by (auto split: if_splits)
  with same show thesis by blast
next
  case False
  obtain found rest where f:
    "poll_queue (deliverable now (TrimSpace c) s) (queue_of s (TrimSpace c)) = (found, rest)" by force
  from assms False f have r: "res = (case found of Some command \<Rightarrow> Inr (Some command)
      | None \<Rightarrow> (case ended of None \<Rightarrow> Inr None | Some e \<Rightarrow> Inl (NextCtx e)))"
    and s': "s' = s\<lparr>st_commandQueues := (ensure_queue (TrimSpace c) (st_commandQueues s))(TrimSpace c \<mapsto> rest)\<rparr>"
    by (auto simp: NextAgentCommand_def Let_def)
  show thesis
  proof (rule polled [OF f])
    show "res = Inr (Some command) \<longleftrightarrow> found = Some command" for command
      using r by (auto split: option.splits)
    show "queue_of s' d = (if d = TrimSpace c then rest else queue_of s d)" for d
      by (auto simp: s' queue_of_def ensure_queue_def split: option.splits)
  qed (simp add: s')
qed

subsection \<open>Preservation\<close>

text \<open>The parts of the invariant depend on a few views of the state only.\<close>

lemma queue_invD:
  assumes "queue_inv b"
  shows "length (queue_of (br_store b) k) \<le> agentCommandQueueSize"
    "distinct (map cmd_ID (queue_of (br_store b) k))"
    "x \<in> set (queue_of (br_store b) k) \<Longrightarrow> cmd_ClusterID x = k"
    "x \<in> set (queue_of (br_store b) k) \<Longrightarrow> cmd_ID x \<notin> cmd_ID ` snd ` set (br_delivered b)"
    "x \<in> set (queue_of (br_store b) k) \<Longrightarrow>
      \<exists>cl. br_clients b (cmd_ID x) = Some cl \<and> cli_command cl = x \<and> cli_phase cl \<noteq> Offering"
  using assms unfolding queue_inv_def by blast+

lemma queue_invI:
  assumes "\<And>k. length (queue_of (br_store b) k) \<le> agentCommandQueueSize"
    "\<And>k. distinct (map cmd_ID (queue_of (br_store b) k))"
    "\<And>k x. x \<in> set (queue_of (br_store b) k) \<Longrightarrow> cmd_ClusterID x = k"
    "\<And>k x. x \<in> set (queue_of (br_store b) k) \<Longrightarrow> cmd_ID x \<notin> cmd_ID ` snd ` set (br_delivered b)"
    "\<And>k x. x \<in> set (queue_of (br_store b) k) \<Longrightarrow>
      \<exists>cl. br_clients b (cmd_ID x) = Some cl \<and> cli_command cl = x \<and> cli_phase cl \<noteq> Offering"
  shows "queue_inv b"
  using assms unfolding queue_inv_def by blast

lemma queue_inv_shrink:
  assumes q: "queue_inv b" and sub: "\<And>k. set (queue_of s k) \<subseteq> set (queue_of (br_store b) k)"
    "\<And>k. length (queue_of s k) \<le> length (queue_of (br_store b) k)"
    "\<And>k. distinct (map cmd_ID (queue_of s k))"
  shows "queue_inv (b\<lparr>br_store := s\<rparr>)"
proof (rule queue_invI, goal_cases)
  case (1 k)
  show ?case using sub(2) [of k] queue_invD(1) [OF q, of k] by simp
next
  case (2 k)
  show ?case using sub(3) by simp
next
  case (3 k x)
  then show ?case using sub(1) [of k] queue_invD(3) [OF q, of x k] by auto
next
  case (4 k x)
  then show ?case using sub(1) [of k] queue_invD(4) [OF q, of x k] by auto
next
  case (5 k x)
  then show ?case using sub(1) [of k] queue_invD(5) [OF q, of x k] by auto
qed

lemma queue_inv_clients:
  assumes q: "queue_inv b" and same: "\<And>k. queue_of (br_store b') k = queue_of (br_store b) k"
      "br_delivered b' = br_delivered b"
    and kept: "\<And>i c. br_clients b i = Some c \<Longrightarrow> cli_phase c \<noteq> Offering \<Longrightarrow>
      \<exists>c'. br_clients b' i = Some c' \<and> cli_command c' = cli_command c \<and> cli_phase c' \<noteq> Offering"
  shows "queue_inv b'"
proof (rule queue_invI, goal_cases)
  case (5 k x)
  then obtain cl where "br_clients b (cmd_ID x) = Some cl" "cli_command cl = x" "cli_phase cl \<noteq> Offering"
    using queue_invD(5) [OF q, of x k] same(1) by auto
  with kept show ?case by metis
qed (use queue_invD [OF q] in \<open>simp_all add: same\<close>)

lemma queue_inv_client:
  assumes "queue_inv b" "br_clients b i = Some c" "cli_command c' = cli_command c"
    "cli_phase c \<noteq> Offering \<longrightarrow> cli_phase c' \<noteq> Offering"
    "\<And>d. queue_of s d = queue_of (br_store b) d"
  shows "queue_inv (set_client i c' (b\<lparr>br_store := s\<rparr>))"
  by (rule queue_inv_clients [OF assms(1)]) (use assms in auto)

lemma delivered_inv_client:
  assumes "delivered_inv b" "br_clients b i = Some c" "cli_command c' = cli_command c"
    "cli_phase c \<noteq> Offering \<longrightarrow> cli_phase c' \<noteq> Offering"
  shows "delivered_inv (set_client i c' (b\<lparr>br_store := s\<rparr>))"
  using assms unfolding delivered_inv_def by fastforce

lemma delivered_inv_store [simp]: "delivered_inv (b\<lparr>br_store := s\<rparr>) \<longleftrightarrow> delivered_inv b"
  by (simp add: delivered_inv_def)

lemma queue_inv_store:
  "queue_inv b \<Longrightarrow> (\<And>c. queue_of s c = queue_of (br_store b) c) \<Longrightarrow> queue_inv (b\<lparr>br_store := s\<rparr>)"
  by (simp add: queue_inv_def)

lemma pending_inv_store:
  "pending_inv b \<Longrightarrow> st_pendingCommands s = st_pendingCommands (br_store b) \<Longrightarrow>
    pending_inv (b\<lparr>br_store := s\<rparr>)"
  by (simp add: pending_inv_def)

lemma pending_client:
  assumes "pending_inv b" "br_clients b i = Some c" "cli_phase c \<noteq> Done"
  obtains p where "st_pendingCommands (br_store b) i = Some p" "cmd_ID (cli_command c) = i"
    "pend_clusterID p = cmd_ClusterID (cli_command c)"
    "\<And>r. pend_result p = Some r \<Longrightarrow> answers (cli_command c) r"
    "\<And>r. cli_outcome c = Some r \<Longrightarrow> answers (cli_command c) r"
proof -
  from assms have "pending_at i (Some c) (st_pendingCommands (br_store b) i)"
    unfolding pending_inv_def by metis
  with assms(3) that show thesis by (auto simp: pending_at_def split: option.splits)
qed

lemma pending_owner:
  assumes "pending_inv b" "st_pendingCommands (br_store b) i = Some p"
  obtains c where "br_clients b i = Some c" "cli_phase c \<noteq> Done"
proof -
  from assms have "pending_at i (br_clients b i) (Some p)"
    unfolding pending_inv_def by metis
  with that show thesis by (auto simp: pending_at_def split: option.splits)
qed

lemma pending_inv_client:
  assumes "pending_inv b" "\<And>j. j \<noteq> i \<Longrightarrow> st_pendingCommands s j = st_pendingCommands (br_store b) j"
    "pending_at i (Some c') (st_pendingCommands s i)"
  shows "pending_inv (set_client i c' (b\<lparr>br_store := s\<rparr>))"
  using assms by (simp add: pending_inv_def)

lemma inv_begin:
  assumes inv: "broker_inv b" and fresh: "br_clients b (cmd_ID command) = None"
  shows "broker_inv (set_client (cmd_ID command)
    \<lparr>cli_command = command, cli_phase = Offering, cli_outcome = None\<rparr>
    (b\<lparr>br_store := register_command command (br_store b)\<rparr>))"
proof -
  let ?b = "set_client (cmd_ID command) \<lparr>cli_command = command, cli_phase = Offering, cli_outcome = None\<rparr>
    (b\<lparr>br_store := register_command command (br_store b)\<rparr>)"
  have "queue_inv b" using inv by (simp add: broker_inv_def)
  then have "queue_inv ?b"
    by (rule queue_inv_clients) (use fresh in auto)
  moreover have "delivered_inv ?b"
    using inv fresh unfolding broker_inv_def delivered_inv_def by fastforce
  moreover have "pending_inv ?b"
    using inv by (auto simp: broker_inv_def pending_inv_def register_command_def pending_at_def)
  ultimately show ?thesis by (simp add: broker_inv_def)
qed

lemma inv_offer:
  assumes inv: "broker_inv b" and c: "br_clients b i = Some c" "cli_phase c = Offering"
    and offer: "offer_command (cli_command c) (br_store b) = Some s"
  shows "broker_inv (set_client i (c\<lparr>cli_phase := Waiting\<rparr>) (b\<lparr>br_store := s\<rparr>))"
proof -
  let ?b = "set_client i (c\<lparr>cli_phase := Waiting\<rparr>) (b\<lparr>br_store := s\<rparr>)"
  from inv have q: "queue_inv b" and d: "delivered_inv b" and p: "pending_inv b"
    by (simp_all add: broker_inv_def)
  note off = offer_command_Some [OF offer]
  obtain pd where pd: "st_pendingCommands (br_store b) i = Some pd" "cmd_ID (cli_command c) = i"
    by (rule pending_client [OF p c(1)]) (use c(2) in simp_all)
  have unq: "cmd_ID x \<noteq> i" if "x \<in> set (queue_of (br_store b) k)" for x k
    using queue_invD(5) [OF q that] c by auto
  have und: "i \<notin> cmd_ID ` snd ` set (br_delivered b)"
    using d c unfolding delivered_inv_def by fastforce
  have mem: "x \<in> set (queue_of (br_store b) k) \<or> x = cli_command c \<and> k = cmd_ClusterID x"
    if "x \<in> set (queue_of (br_store ?b) k)" for x k
    using that off(2) [of k] by (auto split: if_splits)
  have "queue_inv ?b"
  proof (rule queue_invI, goal_cases)
    case (1 k)
    show ?case using off(2) [of k] off(3) queue_invD(1) [OF q, of k] by auto
  next
    case (2 k)
    have "i \<notin> cmd_ID ` set (queue_of (br_store b) k)" using unq by blast
    then show ?case using off(2) [of k] pd(2) queue_invD(2) [OF q, of k] by auto
  next
    case (3 k x)
    with mem [OF this] show ?case using queue_invD(3) [OF q] by blast
  next
    case (4 k x)
    with mem [OF this] show ?case using queue_invD(4) [OF q] und pd(2) by auto
  next
    case (5 k x)
    then consider "x \<in> set (queue_of (br_store b) k)" | "x = cli_command c" using mem by blast
    then show ?case
    proof cases
      case 1
      with queue_invD(5) [OF q 1] unq [OF 1] show ?thesis by auto
    qed (simp add: pd(2))
  qed
  moreover have "delivered_inv ?b" by (rule delivered_inv_client [OF d c(1)]) simp_all
  moreover have "pending_inv ?b"
  proof (rule pending_inv_client [OF p])
    from p c have "pending_at i (Some c) (st_pendingCommands (br_store b) i)"
      unfolding pending_inv_def by metis
    with c(2) show "pending_at i (Some (c\<lparr>cli_phase := Waiting\<rparr>)) (st_pendingCommands s i)"
      by (auto simp: pending_at_def off(1) split: option.splits)
  qed (simp add: off(1))
  ultimately show ?thesis by (simp add: broker_inv_def)
qed

text \<open>A goroutine that moves on without the queues.\<close>

lemma inv_move:
  assumes inv: "broker_inv b" and c: "br_clients b i = Some c"
    and c': "cli_command c' = cli_command c" "cli_phase c' \<noteq> Offering"
    and s: "\<And>d. queue_of s d = queue_of (br_store b) d"
      "\<And>j. j \<noteq> i \<Longrightarrow> st_pendingCommands s j = st_pendingCommands (br_store b) j"
      "pending_at i (Some c') (st_pendingCommands s i)"
  shows "broker_inv (set_client i c' (b\<lparr>br_store := s\<rparr>))"
  using inv queue_inv_client [OF _ c c'(1) _ s(1)] delivered_inv_client [OF _ c c'(1)]
    pending_inv_client [OF _ s(2,3)] c'(2)
  by (simp add: broker_inv_def)

lemma client_pending_at:
  "broker_inv b \<Longrightarrow> br_clients b i = Some c \<Longrightarrow>
    pending_at i (Some c) (st_pendingCommands (br_store b) i)"
  unfolding broker_inv_def pending_inv_def by metis

lemma inv_poll:
  assumes inv: "broker_inv b" and nxt: "NextAgentCommand now ended c (br_store b) = (res, s)"
  shows "broker_inv (log_delivery c res (b\<lparr>br_store := s\<rparr>))"
  using nxt
proof (cases rule: NextAgentCommand_cases)
  case same
  then show ?thesis using inv by (auto simp: log_delivery_def)
next
  case (polled found rest)
  let ?c = "TrimSpace c" let ?q = "queue_of (br_store b) ?c"
  from inv have q: "queue_inv b" and d: "delivered_inv b" and p: "pending_inv b"
    by (simp_all add: broker_inv_def)
  from poll_queue_parts [OF polled(1)] obtain skipped where
    parts: "?q = skipped @ (case found of None \<Rightarrow> [] | Some x \<Rightarrow> [x]) @ rest" by blast
  have dq: "distinct (map cmd_ID ?q)" using q by (simp add: queue_inv_def)
  have rest: "set rest \<subseteq> set ?q" "distinct (map cmd_ID rest)" "length rest \<le> length ?q"
    using dq unfolding parts by auto
  have sub: "set (queue_of s k) \<subseteq> set (queue_of (br_store b) k)"
      "length (queue_of s k) \<le> length (queue_of (br_store b) k)"
      "distinct (map cmd_ID (queue_of s k))" for k
    using rest queue_invD(2) [OF q, of k] unfolding polled(4) by auto
  have qs: "queue_inv (b\<lparr>br_store := s\<rparr>)" by (rule queue_inv_shrink [OF q sub])
  have ps: "pending_inv (b\<lparr>br_store := s\<rparr>)" by (rule pending_inv_store [OF p polled(3)])
  show ?thesis
  proof (cases found)
    case None
    then have "\<And>x. res \<noteq> Inr (Some x)" using polled(2) by simp
    then have "log_delivery c res (b\<lparr>br_store := s\<rparr>) = b\<lparr>br_store := s\<rparr>"
      by (auto simp: log_delivery_def split: sum.split option.split)
    with qs d ps show ?thesis by (simp add: broker_inv_def)
  next
    case (Some x)
    then have res: "res = Inr (Some x)" using polled(2) by simp
    let ?b = "log_delivery c res (b\<lparr>br_store := s\<rparr>)"
    have del: "br_delivered ?b = (?c, x) # br_delivered b" by (simp add: log_delivery_def res)
    from parts Some have xq: "x \<in> set ?q" and xr: "cmd_ID x \<notin> cmd_ID ` set rest"
      using dq by auto
    have xk: "cmd_ID y \<noteq> cmd_ID x" if y: "y \<in> set (queue_of s k)" for y k
    proof
      assume eq: "cmd_ID y = cmd_ID x"
      from y sub(1) [of k] have yq: "y \<in> set (queue_of (br_store b) k)" by blast
      obtain cl where "br_clients b (cmd_ID y) = Some cl" "cli_command cl = y"
        using queue_invD(5) [OF q yq] by blast
      moreover obtain cl' where "br_clients b (cmd_ID x) = Some cl'" "cli_command cl' = x"
        using queue_invD(5) [OF q xq] by blast
      ultimately have "y = x" using eq by simp
      with queue_invD(3) [OF q yq] queue_invD(3) [OF q xq] have "k = ?c" by simp
      with y polled(4) xr \<open>y = x\<close> show False by auto
    qed
    have "queue_inv ?b"
    proof (rule queue_invI, goal_cases)
      case (4 k y)
      then have "y \<in> set (queue_of s k)" by simp
      with queue_invD(4) [OF qs, of y k] xk show ?case unfolding del by auto
    qed (use queue_invD [OF qs] in simp_all)
    moreover have "delivered_inv ?b"
      using d queue_invD(3-5) [OF q xq] unfolding delivered_inv_def log_delivery_simps del by auto
    moreover have "pending_inv ?b" using ps by (simp add: pending_inv_def)
    ultimately show ?thesis by (simp add: broker_inv_def)
  qed
qed

lemma inv_complete:
  assumes inv: "broker_inv b" and comp: "CompleteAgentCommand ended r (br_store b) = (res, s)"
  shows "broker_inv (b\<lparr>br_store := s\<rparr>)"
  using comp
proof (cases rule: CompleteAgentCommand_cases)
  case same
  then show ?thesis using inv by simp
next
  case (stored p r')
  let ?i = "acr_CommandID r'"
  from inv have q: "queue_inv b" and d: "delivered_inv b" and pi: "pending_inv b"
    by (simp_all add: broker_inv_def)
  have "queue_inv (b\<lparr>br_store := s\<rparr>)"
    by (rule queue_inv_store [OF q]) (simp add: stored(5) queue_of_def)
  moreover have "pending_inv (b\<lparr>br_store := s\<rparr>)"
    unfolding pending_inv_def
  proof
    fix j
    from pi have old: "pending_at j (br_clients b j) (st_pendingCommands (br_store b) j)"
      by (simp add: pending_inv_def)
    show "pending_at j (br_clients (b\<lparr>br_store := s\<rparr>) j) (st_pendingCommands (br_store (b\<lparr>br_store := s\<rparr>)) j)"
      using old stored(2-5)
      by (cases "j = ?i") (auto simp: pending_at_def answers_def split: option.splits)
  qed
  ultimately show ?thesis using d by (simp add: broker_inv_def)
qed

lemma broker_inv_step: "broker_step b b' \<Longrightarrow> broker_inv b \<Longrightarrow> broker_inv b'"
proof (induction rule: broker_step.induct)
  case (begin_command b command)
  then show ?case by (intro inv_begin)
next
  case (offer_taken b i c s)
  then show ?case by (intro inv_offer)
next
  case (offer_refused b i c)
  then have "pending_at i (Some (c\<lparr>cli_phase := Leaving\<rparr>)) (st_pendingCommands (br_store b) i)"
    using client_pending_at [of b i c] by (auto simp: pending_at_def split: option.splits)
  with offer_refused inv_move [of b i c "c\<lparr>cli_phase := Leaving\<rparr>" "br_store b"] show ?case by simp
next
  case (answered b i c r s)
  from answered(3) obtain p where p: "st_pendingCommands (br_store b) i = Some p" "pend_result p = Some r"
      "st_pendingCommands s = (st_pendingCommands (br_store b))(i \<mapsto> p\<lparr>pend_result := None\<rparr>)"
      "st_commandQueues s = st_commandQueues (br_store b)"
    by (rule receive_result_Some)
  from client_pending_at [OF answered(4,1)] p answered(2) show ?case
    by (intro inv_move [OF answered(4,1)]) (auto simp: pending_at_def queue_of_def)
next
  case (stopped b i c)
  then have "pending_at i (Some (c\<lparr>cli_phase := Leaving\<rparr>)) (st_pendingCommands (br_store b) i)"
    using client_pending_at [of b i c] by (auto simp: pending_at_def split: option.splits)
  with stopped inv_move [of b i c "c\<lparr>cli_phase := Leaving\<rparr>" "br_store b"] show ?case by simp
next
  case (leave b i c)
  from client_pending_at [OF leave(3,1)] show ?case
    by (intro inv_move [OF leave(3,1)])
      (auto simp: pending_at_def unregister_command_def queue_of_def split: option.splits)
next
  case (poll now ended c b res s)
  then show ?case by (intro inv_poll)
next
  case (complete ended r b res s)
  then show ?case by (intro inv_complete)
next
  case (upload now at payload b res s)
  then have s: "s = snd (ReceiveSnapshot now at payload (br_store b))" by simp
  have "queue_inv (b\<lparr>br_store := s\<rparr>)"
    using upload by (intro queue_inv_store) (simp_all add: broker_inv_def s queue_of_def)
  with upload show ?case by (auto simp: broker_inv_def s intro: pending_inv_store)
qed

lemma broker_inv_reach: "broker_reach preferred staleAfter b \<Longrightarrow> broker_inv b"
proof (induction rule: broker_reach.induct)
  case start
  show ?case
    by (simp add: broker_inv_def queue_inv_def delivered_inv_def pending_inv_def pending_at_def
        initial_broker_def NewStore_def queue_of_def)
qed (rule broker_inv_step)

section \<open>Properties\<close>

text \<open>
  C5: in every reachable state of the command exchange each command has been handed to an agent at
  most once and only to an agent of its own cluster, and no queue holds more than 32
  commands, whatever the interleaving of probes, polls, result uploads, timeouts and
  cancellations.
\<close>

theorem commands_delivered_once:
  assumes "broker_reach preferred staleAfter b"
  shows "distinct (map (cmd_ID \<circ> snd) (br_delivered b))
    \<and> (\<forall>(c, command) \<in> set (br_delivered b). cmd_ClusterID command = c)
    \<and> (\<forall>c. length (queue_of (br_store b) c) \<le> 32)"
proof -
  from broker_inv_reach [OF assms] have q: "queue_inv b" and d: "delivered_inv b"
    by (simp_all add: broker_inv_def)
  from queue_invD(1) [OF q] d show ?thesis
    by (fastforce simp: delivered_inv_def agentCommandQueueSize_def)
qed

text \<open>
  C4: a goroutine that waits for a command only ever receives a result that was uploaded for this
  command by an agent of the command's cluster, and a command is pending exactly as long as
  its goroutine has not returned: nothing is left behind in the store.
\<close>

theorem results_reach_their_command:
  assumes "broker_reach preferred staleAfter b"
  shows "(\<forall>i cl r. br_clients b i = Some cl \<and> cli_outcome cl = Some r \<longrightarrow>
      acr_CommandID r = i \<and> acr_ClusterID r = cmd_ClusterID (cli_command cl))
    \<and> (\<forall>i. st_pendingCommands (br_store b) i \<noteq> None \<longleftrightarrow>
        (\<exists>cl. br_clients b i = Some cl \<and> cli_phase cl \<noteq> Done))"
proof -
  from broker_inv_reach [OF assms] have p: "pending_at i (br_clients b i) (st_pendingCommands (br_store b) i)" for i
    by (simp add: broker_inv_def pending_inv_def)
  have "acr_CommandID r = i \<and> acr_ClusterID r = cmd_ClusterID (cli_command cl)"
    if "br_clients b i = Some cl" "cli_outcome cl = Some r" for i cl r
    using p [of i] that by (simp add: pending_at_def answers_def)
  moreover have "st_pendingCommands (br_store b) i \<noteq> None \<longleftrightarrow>
      (\<exists>cl. br_clients b i = Some cl \<and> cli_phase cl \<noteq> Done)" for i
    using p [of i] by (auto simp: pending_at_def split: option.splits)
  ultimately show ?thesis by blast
qed

text \<open>A run in which a command is registered, offered, polled, answered and received.\<close>

definition sample_command :: AgentCommand where
  "sample_command = zero_AgentCommand\<lparr>cmd_ID := ''k1'', cmd_ClusterID := ''a'',
     cmd_Kind := AgentCommandEnvoyConfig\<rparr>"

definition sample_result :: AgentCommandResult where
  "sample_result = zero_AgentCommandResult\<lparr>acr_CommandID := ''k1'', acr_ClusterID := ''a'',
     acr_Error := ''no such gateway''\<rparr>"

definition sample_offered :: Store where
  "sample_offered = the (offer_command sample_command (register_command sample_command
     (snd (ReceiveSnapshot zero_time zero_time (sample_payload ''a'' []) (NewStore ''a'' 0)))))"

definition sample_polled :: Store where
  "sample_polled = snd (NextAgentCommand zero_time None ''a'' sample_offered)"

definition sample_completed :: Store where
  "sample_completed = snd (CompleteAgentCommand None sample_result sample_polled)"

lemma sample_run_facts:
  "offer_command sample_command (register_command sample_command
     (snd (ReceiveSnapshot zero_time zero_time (sample_payload ''a'' []) (NewStore ''a'' 0)))) \<noteq> None"
  "map_sum (\<lambda>_. ()) (map_option cmd_ID) (fst (NextAgentCommand zero_time None ''a'' sample_offered))
     = Inr (Some ''k1'')"
  "map_option (acr_Error \<circ> fst) (receive_result ''k1'' sample_completed) = Some ''no such gateway''"
  "TrimSpace ''a'' = ''a''"
  by code_simp+

lemma sample_reach:
  "\<exists>b cl r. broker_reach ''a'' 0 b \<and> br_delivered b \<noteq> [] \<and> br_clients b ''k1'' = Some cl
     \<and> cli_outcome cl = Some r"
proof -
  let ?id = "cmd_ID sample_command"
  have id: "?id = ''k1''" by (simp add: sample_command_def)
  let ?s1 = "snd (ReceiveSnapshot zero_time zero_time (sample_payload ''a'' []) (NewStore ''a'' 0))"
  let ?b1 = "(initial_broker ''a'' 0)\<lparr>br_store := ?s1\<rparr>"
  let ?c = "\<lparr>cli_command = sample_command, cli_phase = Offering, cli_outcome = None\<rparr>"
  let ?b2 = "set_client ?id ?c (?b1\<lparr>br_store := register_command sample_command ?s1\<rparr>)"
  let ?b3 = "set_client ?id (?c\<lparr>cli_phase := Waiting\<rparr>) (?b2\<lparr>br_store := sample_offered\<rparr>)"
  let ?b4 = "log_delivery ''a'' (fst (NextAgentCommand zero_time None ''a'' sample_offered))
    (?b3\<lparr>br_store := sample_polled\<rparr>)"
  let ?b5 = "?b4\<lparr>br_store := sample_completed\<rparr>"
  have 0: "broker_reach ''a'' 0 (initial_broker ''a'' 0)" by (rule broker_reach.start)
  have 1: "broker_reach ''a'' 0 ?b1"
    using broker_reach.step [OF 0 broker_step_upload] by (simp add: initial_broker_def)
  have 2: "broker_reach ''a'' 0 ?b2"
    using broker_step.begin_command [of ?b1 sample_command]
    by (intro broker_reach.step [OF 1]) (simp add: initial_broker_def)
  have 3: "broker_reach ''a'' 0 ?b3"
    using sample_run_facts(1) by (intro broker_reach.step [OF 2] broker_step.offer_taken)
      (auto simp: sample_offered_def)
  have 4: "broker_reach ''a'' 0 ?b4"
    using broker_reach.step [OF 3 broker_step_poll [of _ "''a''" zero_time None]]
    by (simp add: sample_polled_def)
  have 5: "broker_reach ''a'' 0 ?b5"
    using broker_reach.step [OF 4 broker_step_complete [of _ None sample_result]]
    by (simp add: sample_completed_def)
  obtain r s where r: "receive_result ?id sample_completed = Some (r, s)"
    using sample_run_facts(3) id by auto
  have 6: "broker_reach ''a'' 0 (set_client ?id (?c\<lparr>cli_phase := Leaving, cli_outcome := Some r\<rparr>)
      (?b5\<lparr>br_store := s\<rparr>))"
    using broker_step.answered [of ?b5 ?id "?c\<lparr>cli_phase := Waiting\<rparr>" r s] r
    by (intro broker_reach.step [OF 5]) simp
  have del: "br_delivered ?b4 \<noteq> []"
    using sample_run_facts(2) by (auto simp: log_delivery_def split: sum.splits option.splits)
  show ?thesis using 6 del id by (intro exI conjI) (assumption | simp)+
qed

lemma commands_delivered_once_witness:
  "\<exists>b. broker_reach ''a'' 0 b \<and> br_delivered b \<noteq> [] \<and> distinct (map (cmd_ID \<circ> snd) (br_delivered b))"
  using sample_reach commands_delivered_once [of "''a''" 0] by blast

lemma results_reach_their_command_witness:
  "\<exists>b cl r. broker_reach ''a'' 0 b \<and> br_clients b ''k1'' = Some cl \<and> cli_outcome cl = Some r
    \<and> acr_CommandID r = ''k1''"
  using sample_reach results_reach_their_command [of "''a''" 0] by metis

end
