(* ===== verification/Probe_Path.thy ===== *)
theory Probe_Path
  imports Probe_Creation
begin

text \<open>
  What \<open>completeFederatedProbe\<close> makes of the observations: the path starts at the source, keeps
  every record any gateway logged for the probe exactly once, is in the order of the first
  records, and says of every segment without records why it is there.
\<close>

section \<open>Segments of observations\<close>

text \<open>A segment speaks of its target, and its issues are the agent's or the server's, not the analysis'.\<close>

definition segment_of :: "probeGatewayTarget \<Rightarrow> ProbeSegment \<Rightarrow> bool" where
  "segment_of target segment \<longleftrightarrow>
     seg_GatewayID segment = tgt_GlobalID target \<and> seg_ClusterID segment = tgt_ClusterID target
     \<and> list_all (\<lambda>i. issue_Scope i \<noteq> ProbeIssueScopeRelation) (seg_Issues segment)"

definition has_code :: "ProbeIssueCode \<Rightarrow> ProbeIssue list \<Rightarrow> bool" where
  "has_code code issues \<longleftrightarrow> code \<in> issue_Code ` set issues"

lemma segmentFromAgent_fields [simp]:
  "seg_GatewayID (segmentFromAgent r t) = tgt_GlobalID t"
  "seg_ClusterID (segmentFromAgent r t) = tgt_ClusterID t"
  "seg_Hops (segmentFromAgent r t) = par_Hops r"
  "seg_Index (segmentFromAgent r t) = 0"
  "seg_Issues (segmentFromAgent r t) = foldl AppendProbeIssue []
     (filter (\<lambda>issue. issue_Scope issue \<noteq> ProbeIssueScopeExecution) (par_Issues r))"
  by (simp_all add: segmentFromAgent_def zero_ProbeSegment_def)

lemma segmentFromAgent_of:
  assumes "\<And>i. i \<in> set (par_Issues r) \<Longrightarrow> issue_Scope i \<noteq> ProbeIssueScopeRelation"
  shows "segment_of t (segmentFromAgent r t)"
  using assms issues.adds_set [of "[]"] by (fastforce simp: segment_of_def list_all_iff)

lemma zero_result_of: "segment_of t (segmentFromAgent zero_ProbeAgentResult t)"
  by (rule segmentFromAgent_of) (simp add: zero_ProbeAgentResult_def)

lemma observation_failed_of:
  assumes "segment_of t s"
  shows "segment_of t (observation_failed now err s)"
  using assms by (auto simp: segment_of_def observation_failed_def Let_def intro!: AppendProbeIssue_all)

lemma accepted_scope:
  assumes "Validate r command = Inr ()" "i \<in> set (par_Issues r)"
  shows "issue_Scope i \<noteq> ProbeIssueScopeRelation"
  using assms
  by (auto simp: Validate_contract probe_result_contract_def issue_admissible_def list_all_iff)

lemma executeProbeCommand_accepted:
  assumes "executeProbeCommand command offer env s = (Inr r, s')"
  shows "Validate r command = Inr ()"
  using assms by (auto simp: executeProbeCommand_def
    split: prod.splits Exchange.splits Stop.splits option.splits sum.splits if_splits)

lemma observeProbeGateway_of: "segment_of t (fst (observeProbeGateway cir e t s))"
proof -
  have "segment_of t (segmentFromAgent r t)"
    if "executeProbeCommand command offer env s = (Inr r, s')" for command offer env r s'
    using accepted_scope [OF executeProbeCommand_accepted [OF that]] by (rule segmentFromAgent_of)
  then show ?thesis
    by (auto simp: observeProbeGateway_def Let_def observation_failed_of zero_result_of
      split: sum.split prod.split)
qed

lemma segment_of_index [simp]: "segment_of t (s\<lparr>seg_Index := n\<rparr>) = segment_of t s"
  by (simp add: segment_of_def)

lemma observe_all_of: "list_all2 segment_of targets (fst (observe_all cir e n targets s))"
proof (induction targets arbitrary: n s)
  case (Cons t ts)
  have "segment_of t (fst (observeProbeGateway (cir n) e t s))" by (rule observeProbeGateway_of)
  with Cons show ?case by (auto split: prod.split) (metis fst_conv)+
qed simp

section \<open>Which segments enter the path\<close>

text \<open>Evidence for a segment of the path: records, or an issue that explains their absence.\<close>

definition segment_explained :: "ProbeSegment \<Rightarrow> bool" where
  "segment_explained segment \<longleftrightarrow>
     seg_Hops segment \<noteq> []
     \<or> has_code ProbeIssueCodeGatewayEvidenceMissing (seg_Issues segment)
     \<or> has_code ProbeIssueCodeProbeProtocolUnsupported (seg_Issues segment)"

lemma has_code_append [simp]:
  "has_code c (AppendProbeIssue is i) \<longleftrightarrow> has_code c is \<or> issue_Code i = c"
proof (cases "\<exists>j \<in> set is. same_issue j i")
  case True
  then have "AppendProbeIssue is i = is" by (simp add: AppendProbeIssue_def list_ex_iff)
  moreover from True have "issue_Code i \<in> issue_Code ` set is"
    by (auto simp: same_issue_def intro: rev_image_eqI)
  ultimately show ?thesis by (auto simp: has_code_def)
next
  case False
  then show ?thesis by (auto simp: AppendProbeIssue_def list_ex_iff has_code_def)
qed

lemma has_code_ex: "list_ex (\<lambda>i. issue_Code i = c) is \<longleftrightarrow> has_code c is"
  by (auto simp: has_code_def list_ex_iff)

lemma path_segment_Some:
  assumes "path_segment inferences (t, s) = Some s'" "segment_of t s"
  shows "segment_of t s'" "seg_Hops s' = seg_Hops s" "segment_explained s'"
  using assms
  by (auto simp: path_segment_def Let_def segment_explained_def has_code_ex segment_of_def
      evidence_missing_def intro!: AppendProbeIssue_all split: if_splits option.splits)

lemma path_segment_None: "path_segment inferences (t, s) = None \<Longrightarrow> seg_Hops s = []"
  by (auto simp: path_segment_def Let_def split: if_splits option.splits)

lemma kept_segments:
  assumes "list_all2 segment_of targets segments"
    and kept: "kept = List.map_filter (path_segment inferences) (zip targets segments)"
  shows "list_all segment_explained kept"
    and "list_all (\<lambda>s. \<exists>t \<in> set targets. segment_of t s) kept"
    and "concat (map seg_Hops kept) = concat (map seg_Hops segments)"
  using assms(1) unfolding kept
proof (induction rule: list_all2_induct)
  case (Cons t ts s ss)
  case 1 with Cons show ?case
    by (auto simp: List.map_filter_simps path_segment_Some split: option.split)
  case 2 with Cons show ?case
    by (auto simp: List.map_filter_simps list_all_iff dest!: path_segment_Some(1) split: option.splits)
  case 3 with Cons show ?case
    by (auto simp: List.map_filter_simps path_segment_Some path_segment_None split: option.split)
qed (simp_all add: List.map_filter_simps)

section \<open>The order of the path\<close>

text \<open>
  The comparator is that of a key: segments with records come first, by the time of their
  first record.
\<close>

definition path_key :: "ProbeSegment \<Rightarrow> nat \<times> string" where
  "path_key s = (if seg_Hops s = [] then (1, []) else (0, hop_ObservedAt (hd (seg_Hops s))))"

lemma segment_before_key: "segment_before a b \<longleftrightarrow> path_key a < path_key b"
  by (auto simp: segment_before_def path_key_def less_prod_def')

lemma federated_segments_eq:
  "\<exists>inferences. federated_segments topology targets gateway source segments =
     source # slice_stable segment_before
       (List.map_filter (path_segment inferences) (zip targets segments))"
proof -
  have "(if length xs > 1 then slice_stable segment_before xs else xs) = slice_stable segment_before xs"
    for xs by (cases xs rule: remdups_adj.cases) (simp_all add: slice_stable_def)
  then show ?thesis by (auto simp: federated_segments_def Let_def)
qed

lemma sorted_path: "sorted (map path_key (slice_stable segment_before xs))"
  by (rule sorted_slice_stable) (rule segment_before_key)

lemma sorted_path_wrt:
  "sorted (map path_key xs) \<longleftrightarrow> sorted_wrt (\<lambda>a b. \<not> segment_before b a) xs"
  by (simp add: sorted_map segment_before_key not_less)

section \<open>The analysis keeps the path\<close>

text \<open>What the analysis of a segment does not touch: everything of a record but its two identities.\<close>

declare enrich_segment_fields(3) [simp del]

definition hop_core :: "ObservedHop \<Rightarrow> ObservedHop" where
  "hop_core h = h\<lparr>hop_ID := [], hop_ContextID := []\<rparr>"

lemma hop_core_strip: "hop_core h = (strip_context h)\<lparr>hop_ID := []\<rparr>"
  by (simp add: hop_core_def strip_context_def)

lemma hop_core_ObservedAt [simp]: "hop_ObservedAt (hop_core h) = hop_ObservedAt h"
  by (simp add: hop_core_def)

lemma hop_core_qualify: "map hop_core (qualify_hops g hs) = map hop_core hs"
proof -
  have "map hop_core (map (qualify_hop g) (enumerate n hs)) = map hop_core hs" for n
    by (induction hs arbitrary: n) (simp_all add: hop_core_def qualify_hop_def)
  then show ?thesis by (simp add: qualify_hops_def)
qed

lemma hop_core_enrich: "map hop_core (seg_Hops (enrich_segment s)) = map hop_core (seg_Hops s)"
proof -
  have "map hop_core hs = map (\<lambda>h. h\<lparr>hop_ID := []\<rparr>) (map strip_context hs)" for hs
    by (simp add: hop_core_strip)
  then show ?thesis
    using strip_set_contexts [of "segment_groups s"] hop_core_qualify
    by (metis enrich_segment_fields(3))
qed

lemma enrich_hops_Nil [simp]: "seg_Hops (enrich_segment s) = [] \<longleftrightarrow> seg_Hops s = []"
  by (metis hop_core_enrich map_is_Nil_conv)

lemma path_key_enrich [simp]: "path_key (enrich_segment s) = path_key s"
proof (cases "seg_Hops s = []")
  case False
  then have "hop_core (hd (seg_Hops (enrich_segment s))) = hop_core (hd (seg_Hops s))"
    using hop_core_enrich [of s] by (metis enrich_hops_Nil hd_map)
  then have "hop_ObservedAt (hd (seg_Hops (enrich_segment s))) = hop_ObservedAt (hd (seg_Hops s))"
    by (metis hop_core_ObservedAt)
  with False enrich_hops_Nil [of s] show ?thesis unfolding path_key_def by simp
qed (simp add: path_key_def)

lemma has_code_key: "has_code c is \<longleftrightarrow> c \<in> (\<lambda>k. fst (snd k)) ` issue_key ` set is"
  by (simp add: has_code_def image_image issue_key_def)

lemma has_code_enrich:
  assumes "list_all (\<lambda>i. issue_Scope i \<noteq> ProbeIssueScopeRelation) (seg_Issues s)"
    and "has_code c (seg_Issues s)"
  shows "has_code c (seg_Issues (enrich_segment s))"
proof -
  let ?col = "collection_issues (seg_GatewayID s) (seg_Issues s)"
  have "filter (\<lambda>i. issue_Scope i \<noteq> ProbeIssueScopeRelation) (seg_Issues s) = seg_Issues s"
    using assms(1) by (simp add: list_all_iff filter_id_conv)
  then have "?col = foldl AppendProbeIssue [] (map (qualify_issue (seg_GatewayID s)) (seg_Issues s))"
    by (simp add: collection_issues_def)
  moreover have "issue_Code (qualify_issue g i) = issue_Code i" for g i
    by (simp add: qualify_issue_def)
  ultimately have "has_code c ?col"
    using assms(2) issues.adds_keys [of "[]" "map (qualify_issue (seg_GatewayID s)) (seg_Issues s)"]
    by (simp only: has_code_key) (auto simp: has_code_def image_image issue_key_def)
  moreover have "set ?col \<subseteq> set (seg_Issues (enrich_segment s))"
    unfolding enrich_segment_derived foldl_foldl_concat by (rule issues.adds_mono)
  ultimately show ?thesis by (auto simp: has_code_def)
qed

lemma explained_enrich:
  assumes "segment_explained s" "segment_of t s"
  shows "segment_explained (enrich_segment s)"
  using assms(1) has_code_enrich assms(2) [unfolded segment_of_def]
  by (auto simp: segment_explained_def)

section \<open>The completed path\<close>

lemma number_segments_index: "map seg_Index (number_segments ss) = map int [1..<Suc (length ss)]"
  by (rule nth_equalityI) (auto simp: number_segments_def nth_enumerate_eq simp del: upt_Suc)

lemma number_segments_map:
  assumes "\<And>s n. f (s\<lparr>seg_Index := n\<rparr>) = f s"
  shows "map f (number_segments ss) = map f ss"
proof -
  have "map (\<lambda>(i, s). f s) (enumerate n ss) = map f ss" for n
    by (induction ss arbitrary: n) simp_all
  from this [of 0] show ?thesis by (simp add: number_segments_def o_def split_def assms)
qed

text \<open>The segments of the result, before numbering and analysis.\<close>

lemma completeFederatedProbe_segments:
  assumes "exec_Segments e = [source]"
    and "completeFederatedProbe cir e topology targets s = (probe, s')"
    and "observe_all cir (e\<lparr>exec_Segments := [source\<lparr>seg_Index := 1\<rparr>]\<rparr>) 0 targets s = (observed, s'')"
  shows "\<exists>inferences. exec_Segments probe = map enrich_segment (number_segments
      (source\<lparr>seg_Index := 1\<rparr> # slice_stable segment_before
        (List.map_filter (path_segment inferences) (zip targets observed))))"
proof (cases "targets = []")
  case True
  with assms show ?thesis
    by (auto simp: completeFederatedProbe_def Let_def EnrichProbe_fields number_segments_def
      List.map_filter_simps slice_stable_def)
next
  case False
  with assms have "exec_Segments probe = map enrich_segment (number_segments
      (federated_segments topology targets (exec_GatewayID e) (source\<lparr>seg_Index := 1\<rparr>) observed))"
    by (auto simp: completeFederatedProbe_def Let_def EnrichProbe_fields)
  with federated_segments_eq show ?thesis by metis
qed

lemma enrich_segment_index:
  "enrich_segment (s\<lparr>seg_Index := n\<rparr>) = (enrich_segment s)\<lparr>seg_Index := n\<rparr>"
  by (simp add: enrich_segment_def Let_def segment_groups_def segment_collection_def)

lemma enrich_number_segments:
  "map enrich_segment (number_segments ss) = number_segments (map enrich_segment ss)"
proof -
  have "map (enrich_segment \<circ> (\<lambda>(i, s). s\<lparr>seg_Index := int i + 1\<rparr>)) (enumerate n ss)
      = map (\<lambda>(i, s). s\<lparr>seg_Index := int i + 1\<rparr>) (enumerate n (map enrich_segment ss))" for n
    by (induction ss arbitrary: n) (simp_all add: enrich_segment_index)
  then show ?thesis by (simp add: number_segments_def)
qed

text \<open>The promises of the path.\<close>

definition federated_path_ok ::
    "ProbeSegment \<Rightarrow> probeGatewayTarget list \<Rightarrow> ProbeSegment list \<Rightarrow> ProbeSegment list \<Rightarrow> bool" where
  "federated_path_ok source targets observed path \<longleftrightarrow>
     map seg_Index path = map int [1..<Suc (length path)]
     \<and> path \<noteq> [] \<and> seg_GatewayID (hd path) = seg_GatewayID source
     \<and> map hop_core (seg_Hops (hd path)) = map hop_core (seg_Hops source)
     \<and> mset (map hop_core (concat (map seg_Hops path)))
         = mset (map hop_core (seg_Hops source @ concat (map seg_Hops observed)))
     \<and> sorted_wrt (\<lambda>a b. \<not> segment_before b a) (tl path)
     \<and> list_all segment_explained (tl path)
     \<and> list_all (\<lambda>s. \<exists>t \<in> set targets.
          seg_GatewayID s = tgt_GlobalID t \<and> seg_ClusterID s = tgt_ClusterID t) (tl path)"

lemma path_of_observations:
  assumes "list_all2 segment_of targets observed"
    and path: "path = map enrich_segment (number_segments
      (source\<lparr>seg_Index := 1\<rparr> # slice_stable segment_before
        (List.map_filter (path_segment inferences) (zip targets observed))))"
  shows "federated_path_ok source targets observed path"
proof -
  define kept where "kept = List.map_filter (path_segment inferences) (zip targets observed)"
  define ss where "ss = slice_stable segment_before kept"
  note kept = kept_segments [OF assms(1) kept_def]
  have path: "path = number_segments (enrich_segment (source\<lparr>seg_Index := 1\<rparr>) # map enrich_segment ss)"
    unfolding path kept_def [symmetric] ss_def [symmetric] enrich_number_segments by simp
  have fields: "map f path = f (enrich_segment (source\<lparr>seg_Index := 1\<rparr>)) # map (f \<circ> enrich_segment) ss"
    if "\<And>s n. f (s\<lparr>seg_Index := n\<rparr>) = f s" for f :: "ProbeSegment \<Rightarrow> 'a"
    by (simp add: path number_segments_map [of f, OF that])
  have tail: "map f (tl path) = map (f \<circ> enrich_segment) ss"
    if "\<And>s n. f (s\<lparr>seg_Index := n\<rparr>) = f s" for f :: "ProbeSegment \<Rightarrow> 'a"
    using fields [of f, OF that] by (simp add: map_tl)
  have hops: "map hop_core (concat (map seg_Hops path)) =
      map hop_core (seg_Hops source @ concat (map seg_Hops ss))"
  proof -
    have "map (map hop_core \<circ> seg_Hops) path =
        map hop_core (seg_Hops source) # map (map hop_core \<circ> seg_Hops) ss"
      using fields [of "map hop_core \<circ> seg_Hops"] by (simp add: hop_core_enrich o_def)
    then have "concat (map (map hop_core \<circ> seg_Hops) path) =
        map hop_core (seg_Hops source) @ concat (map (map hop_core \<circ> seg_Hops) ss)" by simp
    then show ?thesis by (simp add: map_concat o_def)
  qed
  have "mset (concat (map seg_Hops ss)) = mset (concat (map seg_Hops kept))"
    by (simp add: mset_concat ss_def flip: sum_mset_sum_list)
  then have all: "mset (map hop_core (concat (map seg_Hops path))) =
      mset (map hop_core (seg_Hops source @ concat (map seg_Hops observed)))"
    unfolding hops by (simp add: kept(3))
  have "map path_key (tl path) = map path_key ss"
  proof -
    have "map path_key (tl path) = map (path_key \<circ> enrich_segment) ss"
      by (rule tail) (simp add: path_key_def)
    then show ?thesis by (simp add: o_def)
  qed
  then have sorted: "sorted_wrt (\<lambda>a b. \<not> segment_before b a) (tl path)"
    by (metis sorted_path sorted_path_wrt ss_def)
  have set_ss: "set ss = set kept" by (simp add: ss_def)
  have "list_all (segment_explained \<circ> enrich_segment) ss"
    using kept(1,2) explained_enrich by (auto simp: list_all_iff set_ss)
  moreover have "map segment_explained (tl path) = map (segment_explained \<circ> enrich_segment) ss"
    by (rule tail) (simp add: segment_explained_def)
  then have "list_all id (map segment_explained (tl path)) =
      list_all id (map (segment_explained \<circ> enrich_segment) ss)" by simp
  ultimately have explained: "list_all segment_explained (tl path)" by (simp add: list_all_iff)
  have "list_all (\<lambda>s. \<exists>t \<in> set targets. seg_GatewayID s = tgt_GlobalID t
      \<and> seg_ClusterID s = tgt_ClusterID t) (tl path)"
  proof -
    let ?P = "\<lambda>s. \<exists>t \<in> set targets. seg_GatewayID s = tgt_GlobalID t \<and> seg_ClusterID s = tgt_ClusterID t"
    have "list_all id (map (?P \<circ> enrich_segment) ss)"
      using kept(2) by (auto simp: list_all_iff set_ss segment_of_def)
    then have "list_all id (map ?P (tl path))" by (simp add: tail [of ?P])
    then show ?thesis by (simp add: list_all_iff)
  qed
  moreover have "path \<noteq> []" "seg_GatewayID (hd path) = seg_GatewayID source"
    "map hop_core (seg_Hops (hd path)) = map hop_core (seg_Hops source)"
    by (simp_all add: path number_segments_def hop_core_enrich)
  moreover have "map seg_Index path = map int [1..<Suc (length path)]"
    unfolding path number_segments_index by (simp add: number_segments_def)
  ultimately show ?thesis
    using all sorted explained unfolding federated_path_ok_def by blast
qed

section \<open>Properties\<close>

text \<open>
  C35: \<open>completeFederatedProbe\<close> loses and invents nothing. The path starts with the source
  segment and is numbered from one; together its segments hold exactly the records of the
  source and of all observed gateways, each once; the segments after the source are of
  targets, ordered with recorded ones first by the time of their first record; and a segment
  without records carries an issue that says why it is in the path (missing evidence of an
  inferred gateway, or an agent with an unsupported protocol).
\<close>

theorem completeFederatedProbe_path:
  assumes "exec_Segments e = [source]"
  shows "federated_path_ok source targets
    (fst (observe_all cir (e\<lparr>exec_Segments := [source\<lparr>seg_Index := 1\<rparr>]\<rparr>) 0 targets s))
    (exec_Segments (fst (completeFederatedProbe cir e topology targets s)))"
proof -
  let ?e = "e\<lparr>exec_Segments := [source\<lparr>seg_Index := 1\<rparr>]\<rparr>"
  obtain probe s' where c: "completeFederatedProbe cir e topology targets s = (probe, s')" by fastforce
  obtain observed s'' where o: "observe_all cir ?e 0 targets s = (observed, s'')" by fastforce
  obtain inferences where p: "exec_Segments probe = map enrich_segment (number_segments
      (source\<lparr>seg_Index := 1\<rparr> # slice_stable segment_before
        (List.map_filter (path_segment inferences) (zip targets observed))))"
    using completeFederatedProbe_segments [OF assms c o] by blast
  have "list_all2 segment_of targets observed" using observe_all_of [of targets cir ?e 0 s] o by simp
  from path_of_observations [OF this p] show ?thesis by (simp add: c o)
qed

definition sample_source :: ProbeSegment where
  "sample_source = zero_ProbeSegment\<lparr>seg_GatewayID := ''a::gw'', seg_Hops := [sample_upstream_hop]\<rparr>"

definition sample_circumstances :: Circumstances where
  "sample_circumstances = \<lparr>cir_now = zero_time, cir_failed_at = zero_time,
     cir_fresh = Inl ''no entropy'', cir_offer = None, cir_environment = (\<lambda>s. (s, None))\<rparr>"

definition sample_answered :: ProbeExecution where
  "sample_answered = zero_ProbeExecution\<lparr>exec_GatewayID := ''a::gw'', exec_Segments := [sample_source]\<rparr>"

definition sample_federated :: "ProbeSegment list" where
  "sample_federated = exec_Segments (fst (completeFederatedProbe (\<lambda>_. sample_circumstances)
     sample_answered sample_address_topology sample_targets (NewStore ''a'' 0)))"

lemma completeFederatedProbe_path_witness:
  "seg_GatewayID (hd sample_federated) = ''a::gw''
   \<and> map hop_core (seg_Hops (hd sample_federated)) = [hop_core sample_upstream_hop]
   \<and> list_all segment_explained (tl sample_federated)"
  using completeFederatedProbe_path [of sample_answered sample_source sample_targets
      "\<lambda>_. sample_circumstances" "NewStore ''a'' 0" sample_address_topology]
  by (simp add: federated_path_ok_def sample_answered_def sample_federated_def sample_source_def)

end
