(* ===== verification/Probe_Lifecycle.thy ===== *)
theory Probe_Lifecycle
  imports Probe_Path "HOL-Library.Sublist"
begin

text \<open>
  The life of a probe: \<open>CreateProbe\<close> either rejects the request and leaves the store alone, or
  registers a running probe and leaves it settled, completed or failed, with nothing pending;
  it never panics. Whatever it enqueues for an agent has passed the request checks.
\<close>

section \<open>The stages of CreateProbe\<close>

definition probe_identity :: "ProbeExecution \<Rightarrow> string list" where
  "probe_identity e = [exec_ID e, exec_TraceID e, exec_SourceCluster e, exec_GatewayID e,
     exec_Method e, exec_Target e, exec_StartedAt e]"

text \<open>What an accepted request registers: the execution, its command and the store holding both.\<close>

definition started_topology :: "ProbeRun \<Rightarrow> Store \<Rightarrow> Topology" where
  "started_topology run s = Topology_of (run_digest run) (run_started run) s"

definition started_execution ::
    "ProbeRun \<Rightarrow> ProbeRequest \<Rightarrow> Store \<Rightarrow> string \<times> string \<times> ProbeEntry \<Rightarrow> URL \<Rightarrow> string \<times> string
     \<Rightarrow> ProbeExecution" where
  "started_execution run request s entry path ids =
     (case (entry, ids) of ((clusterID, gatewayID, e), (probeID, traceID)) \<Rightarrow>
        probe_execution run probeID traceID clusterID (globalID clusterID gatewayID)
          (probe_method request) (probe_target e path) (started_topology run s))"

definition started_command ::
    "ProbeRun \<Rightarrow> ProbeRequest \<Rightarrow> string \<times> string \<times> ProbeEntry \<Rightarrow> string \<times> string \<Rightarrow> string
     \<Rightarrow> AgentCommand" where
  "started_command run request entry ids commandID =
     (case (entry, ids) of ((clusterID, gatewayID, e), (probeID, traceID)) \<Rightarrow>
        probe_command run commandID probeID traceID clusterID gatewayID (entry_ID e) request)"

definition started_store :: "ProbeExecution \<Rightarrow> AgentCommand \<Rightarrow> Store \<Rightarrow> Store" where
  "started_store execution command s =
     (let s1 = register_command command s
      in s1\<lparr>st_probes := (st_probes s1)(exec_ID execution \<mapsto> execution)\<rparr>)"

lemma probe_execution_fields [simp]:
  "exec_ID (probe_execution run pid tid c g m t topology) = pid"
  "exec_State (probe_execution run pid tid c g m t topology) = ProbeExecutionStateRunning"
  "exec_Error (probe_execution run pid tid c g m t topology) = []"
  "exec_GatewayID (probe_execution run pid tid c g m t topology) = g"
  "probe_identity (probe_execution run pid tid c g m t topology) =
     [pid, tid, c, g, m, t, format_rfc3339nano (time_UTC (run_started run))]"
  by (simp_all add: probe_execution_def probe_identity_def zero_ProbeExecution_def)

text \<open>An accepted request goes through the exchange of its command; all others change nothing.\<close>

lemma CreateProbe_cases:
  obtains (rejected) e where "CreateProbe run request s = Some (zero_ProbeExecution, Some e, s)"
      "\<not> ((\<exists>r. resolveProbeEntry (req_SourceCluster request) (req_GatewayID request)
            (req_EntryID request) s = Inr r) \<and> (\<exists>p. check_request request = Inr p)
          \<and> (\<exists>i. run_probeID run = Inr i) \<and> (\<exists>i. run_traceID run = Inr i)
          \<and> (\<exists>i. run_commandID run = Inr i))"
    | (accepted) entry path probeID traceID commandID x s' where
      "resolveProbeEntry (req_SourceCluster request) (req_GatewayID request)
         (req_EntryID request) s = Inr entry"
      "check_request request = Inr path" "run_probeID run = Inr probeID"
      "run_traceID run = Inr traceID" "run_commandID run = Inr commandID"
      "exchange (started_command run request entry (probeID, traceID) commandID)
         (run_offer run) (run_environment run)
         (started_store (started_execution run request s entry path (probeID, traceID))
           (started_command run request entry (probeID, traceID) commandID) s) = (x, s')"
      "CreateProbe run request s = map_option (\<lambda>(probe, err, s2). (probe, err, unregister_command commandID s2))
         (finish_probe run (started_execution run request s entry path (probeID, traceID))
           (started_topology run s)
           (started_command run request entry (probeID, traceID) commandID) x s')"
proof (cases "resolveProbeEntry (req_SourceCluster request) (req_GatewayID request) (req_EntryID request) s")
  case (Inl e)
  show thesis by (rule rejected) (simp_all add: CreateProbe_def Inl)
next
  case (Inr entry)
  note entry = this
  obtain clusterID gatewayID e where entry3: "entry = (clusterID, gatewayID, e)" by (cases entry)
  show thesis
  proof (cases "check_request request")
    case (Inl e)
    show thesis by (rule rejected) (simp_all add: CreateProbe_def Inl entry entry3)
  next
    case (Inr path)
    note path = this
    show thesis
    proof (cases "(\<exists>i. run_probeID run = Inr i) \<and> (\<exists>i. run_traceID run = Inr i)
        \<and> (\<exists>i. run_commandID run = Inr i)")
      case True
      then obtain pid tid cid where ids: "run_probeID run = Inr pid" "run_traceID run = Inr tid"
        "run_commandID run = Inr cid" by blast
      let ?c = "started_command run request entry (pid, tid) cid"
      let ?e = "started_execution run request s entry path (pid, tid)"
      obtain x s' where x: "exchange ?c (run_offer run) (run_environment run)
          (started_store ?e ?c s) = (x, s')" by fastforce
      show thesis
        by (rule accepted [OF entry path ids x])
          (use x in \<open>simp add: CreateProbe_def entry path ids entry3 Let_def started_store_def
            started_command_def started_execution_def started_topology_def\<close>)
    next
      case False
      then show thesis
        by (intro rejected [of "case run_probeID run of Inl m \<Rightarrow> CreateRand m | Inr _ \<Rightarrow>
            (case run_traceID run of Inl m \<Rightarrow> CreateRand m | Inr _ \<Rightarrow>
              (case run_commandID run of Inl m \<Rightarrow> CreateRand m | Inr _ \<Rightarrow> BodyTooLarge))"])
          (auto simp: CreateProbe_def entry path entry3 split: sum.splits)
    qed
  qed
qed

section \<open>Settling\<close>

lemma answered_execution_accepted:
  assumes "Validate local_result command = Inr u" "cmd_Kind command = AgentCommandProbeHTTP"
  shows "\<exists>e. answered_execution execution topology local_result = Some e"
proof -
  from assms(1) have "probe_result_contract local_result command" by (simp add: Validate_contract)
  with assms(2) show ?thesis
    by (auto simp: answered_execution_def probe_result_contract_def)
qed

lemma answered_execution_fields:
  assumes "answered_execution execution topology local_result = Some e"
  shows "probe_identity e = probe_identity execution"
    "exec_State e = (if exec_Error e \<noteq> [] then ProbeExecutionStateFailed else ProbeExecutionStateCompleted)"
    "exec_GatewayID e = exec_GatewayID execution"
    "\<exists>source. exec_Segments e = [source] \<and> seg_Hops source = par_Hops local_result"
    "\<exists>http. par_HTTP local_result = Some http \<and> exec_Error e = http_Error http"
  using assms by (auto simp: answered_execution_def probe_identity_def)

lemma completeFederatedProbe_fields:
  "probe_identity (fst (completeFederatedProbe cir e topology targets s)) = probe_identity e"
  "exec_State (fst (completeFederatedProbe cir e topology targets s)) = exec_State e"
  "exec_Error (fst (completeFederatedProbe cir e topology targets s)) = exec_Error e"
  "exec_Issues (fst (completeFederatedProbe cir e topology targets s)) = exec_Issues e"
  by (simp_all add: completeFederatedProbe_def Let_def EnrichProbe_eq probe_identity_def split: prod.split)

text \<open>
  An answer of the source agent: a result without an error whose probe result passes \<open>Validate\<close>.
  Whatever ended the exchange, the outcome is a settled execution, which is what the store
  has; it completed iff such an answer came and reports no failure of the HTTP request.
\<close>

definition good_answer :: "AgentCommand \<Rightarrow> AgentCommandResult \<Rightarrow> ProbeAgentResult \<Rightarrow> bool" where
  "good_answer command result agent_result \<longleftrightarrow>
     acr_Error result = [] \<and> acr_Probe result = Some agent_result \<and> Validate agent_result command = Inr ()"

definition settled_outcome :: "Exchange \<Rightarrow> AgentCommand \<Rightarrow> string \<Rightarrow> ProbeExecution \<Rightarrow> Store \<Rightarrow> bool" where
  "settled_outcome x command probeID probe s' \<longleftrightarrow>
     st_probes s' probeID = Some probe
     \<and> exec_State probe \<in> {ProbeExecutionStateFailed, ProbeExecutionStateCompleted}
     \<and> (exec_State probe = ProbeExecutionStateCompleted \<longrightarrow> exec_Error probe = [])
     \<and> (exec_State probe = ProbeExecutionStateCompleted \<longleftrightarrow>
          (\<exists>result agent_result http. x = Answered result \<and> good_answer command result agent_result
             \<and> par_HTTP agent_result = Some http \<and> http_Error http = []))"

lemma probe_failed_outcome:
  "\<exists>probe s'. probe_failed run probeID message err s = Some (probe, err, s')
     \<and> st_probes s' probeID = Some probe \<and> exec_State probe = ProbeExecutionStateFailed
     \<and> (\<forall>e. st_probes s probeID = Some e \<longrightarrow> probe_identity probe = probe_identity e)"
  by (auto simp: probe_failed_def failProbe_def Let_def probe_identity_def)

lemma probe_failed_settles:
  assumes "finish_probe run execution topology command x s =
      probe_failed run (exec_ID execution) message err s"
    and "\<And>result agent_result. x = Answered result \<Longrightarrow> \<not> good_answer command result agent_result"
  shows "\<exists>probe err s'. finish_probe run execution topology command x s = Some (probe, err, s')
    \<and> settled_outcome x command (exec_ID execution) probe s'
    \<and> (\<forall>e. st_probes s (exec_ID execution) = Some e \<longrightarrow> probe_identity e = probe_identity execution
        \<longrightarrow> probe_identity probe = probe_identity execution)"
proof -
  obtain probe s' where "finish_probe run execution topology command x s = Some (probe, err, s')"
      "st_probes s' (exec_ID execution) = Some probe" "exec_State probe = ProbeExecutionStateFailed"
      "\<forall>e. st_probes s (exec_ID execution) = Some e \<longrightarrow> probe_identity probe = probe_identity e"
    using probe_failed_outcome [of run "exec_ID execution" message err s] assms(1) by auto
  moreover from this assms(2) have "settled_outcome x command (exec_ID execution) probe s'"
    by (auto simp: settled_outcome_def)
  ultimately show ?thesis by (intro exI [of _ probe] exI [of _ err] exI [of _ s']) simp
qed

lemma finish_probe_settles:
  assumes kind: "cmd_Kind command = AgentCommandProbeHTTP"
  shows "\<exists>probe err s'. finish_probe run execution topology command x s = Some (probe, err, s')
    \<and> settled_outcome x command (exec_ID execution) probe s'
    \<and> (\<forall>e. st_probes s (exec_ID execution) = Some e \<longrightarrow> probe_identity e = probe_identity execution
        \<longrightarrow> probe_identity probe = probe_identity execution)"
proof -
  note failed = probe_failed_settles [of run execution topology command x s]
  show ?thesis
  proof (cases x)
    case (OfferCtx e) then show ?thesis by (intro failed) (simp_all add: finish_probe_def)
  next
    case OfferFull then show ?thesis by (intro failed) (simp_all add: finish_probe_def Let_def)
  next
    case (Stopped stop) then show ?thesis
      by (cases stop; intro failed) (simp_all add: finish_probe_def)
  next
    case (Answered result)
    note x = this
    show ?thesis
    proof (cases "acr_Error result = []")
      case False with x show ?thesis by (intro failed) (auto simp: finish_probe_def good_answer_def)
    next
      case True
      note ok = this
      show ?thesis
      proof (cases "acr_Probe result")
        case None with x ok show ?thesis by (intro failed) (auto simp: finish_probe_def good_answer_def)
      next
        case (Some r)
        note r = this
        show ?thesis
        proof (cases "Validate r command")
          case (Inl e) with x ok r show ?thesis by (intro failed) (auto simp: finish_probe_def good_answer_def)
        next
          case (Inr u)
          obtain answered where a: "answered_execution execution topology r = Some answered"
            using answered_execution_accepted [OF Inr kind] by blast
          note fields = answered_execution_fields [OF a]
          obtain probe0 s1 where c: "completeFederatedProbe (run_observations run) answered topology
              (discoverProbeGatewayTargets topology (exec_GatewayID execution)) s = (probe0, s1)"
            by fastforce
          note kept = completeFederatedProbe_fields [of "run_observations run" answered topology
            "discoverProbeGatewayTargets topology (exec_GatewayID execution)" s, unfolded c fst_conv]
          let ?probe = "probe0\<lparr>exec_CompletedAt := format_rfc3339nano (time_UTC (run_completed run))\<rparr>"
          have "finish_probe run execution topology command x s =
              Some (?probe, None, s1\<lparr>st_probes := (st_probes s1)(exec_ID execution \<mapsto> ?probe)\<rparr>)"
            by (simp add: finish_probe_def x ok r Inr a c Let_def)
          moreover have "settled_outcome x command (exec_ID execution) ?probe
              (s1\<lparr>st_probes := (st_probes s1)(exec_ID execution \<mapsto> ?probe)\<rparr>)"
            using fields(2,5) kept Inr by (auto simp: settled_outcome_def good_answer_def x ok r)
          moreover have "probe_identity ?probe = probe_identity execution"
            using fields(1) kept(1) by (simp add: probe_identity_def)
          ultimately show ?thesis by blast
        qed
      qed
    qed
  qed
qed

lemma started_command_fields:
  "cmd_Kind (started_command run request entry ids commandID) = AgentCommandProbeHTTP"
  "cmd_ID (started_command run request entry ids commandID) = commandID"
  "\<exists>p. cmd_Probe (started_command run request entry ids commandID) = Some p \<and> pc_ProbeID p = fst ids"
  by (simp_all add: started_command_def probe_command_def split: prod.split)

lemma started_execution_ID:
  "exec_ID (started_execution run request s entry path (probeID, traceID)) = probeID"
  by (simp add: started_execution_def split: prod.split)

lemma exchange_answered:
  assumes "exchange command offer env s = (x, s')"
  shows "x = Answered result \<longleftrightarrow>
    offer = None \<and> (\<exists>offered left received. offer_command command s = Some offered \<and> env offered = (left, None)
      \<and> receive_result (cmd_ID command) left = Some (result, received))"
  using assms
  by (cases "offer_command command s"; cases "env (the (offer_command command s))")
    (auto simp: exchange_def await_result_def split: option.splits)

text \<open>
  The source agent's answer in a run: the command was offered, and while the call waited, neither context
  nor timer fired and the result arrived in the slot of this command. It is a result of the
  command's cluster and gateway for its probe and trace.
\<close>

definition source_answer ::
    "ProbeRun \<Rightarrow> AgentCommand \<Rightarrow> Store \<Rightarrow> AgentCommandResult \<Rightarrow> ProbeAgentResult \<Rightarrow> bool" where
  "source_answer run command started result agent_result \<longleftrightarrow>
     run_offer run = None
     \<and> (\<exists>offered left received. offer_command command started = Some offered
          \<and> run_environment run offered = (left, None)
          \<and> receive_result (cmd_ID command) left = Some (result, received))
     \<and> good_answer command result agent_result
     \<and> par_ClusterID agent_result = cmd_ClusterID command \<and> par_GatewayID agent_result = cmd_GatewayID command
     \<and> (\<exists>p. cmd_Probe command = Some p \<and> par_ProbeID agent_result = pc_ProbeID p \<and> par_TraceID agent_result = pc_TraceID p)"

lemma exchange_source_answer:
  assumes "exchange command (run_offer run) (run_environment run) started = (x, s')"
  shows "x = Answered result \<and> good_answer command result agent_result \<longleftrightarrow>
    source_answer run command started result agent_result"
  using exchange_answered [OF assms, of result]
  by (auto simp: source_answer_def good_answer_def Validate_contract probe_result_contract_def)

definition request_accepted :: "ProbeRun \<Rightarrow> ProbeRequest \<Rightarrow> Store \<Rightarrow> bool" where
  "request_accepted run request s \<longleftrightarrow>
     (\<exists>r. resolveProbeEntry (req_SourceCluster request) (req_GatewayID request) (req_EntryID request) s = Inr r)
     \<and> (\<exists>p. check_request request = Inr p) \<and> (\<exists>i. run_probeID run = Inr i) \<and> (\<exists>i. run_traceID run = Inr i)
     \<and> (\<exists>i. run_commandID run = Inr i)"

text \<open>How an accepted request ends.\<close>

definition probe_settled :: "ProbeRun \<Rightarrow> ProbeRequest \<Rightarrow> Store \<Rightarrow> ProbeExecution \<Rightarrow> Store \<Rightarrow> bool" where
  "probe_settled run request s probe s' \<longleftrightarrow>
     (\<exists>clusterID gatewayID entry path probeID traceID commandID command started.
        resolveProbeEntry (req_SourceCluster request) (req_GatewayID request) (req_EntryID request) s
          = Inr (clusterID, gatewayID, entry)
        \<and> check_request request = Inr path \<and> run_probeID run = Inr probeID
        \<and> run_traceID run = Inr traceID \<and> run_commandID run = Inr commandID
        \<and> command = probe_command run commandID probeID traceID clusterID gatewayID (entry_ID entry) request
        \<and> started = started_store
            (started_execution run request s (clusterID, gatewayID, entry) path (probeID, traceID)) command s
        \<and> st_probes s' probeID = Some probe \<and> st_pendingCommands s' commandID = None
        \<and> exec_State probe \<in> {ProbeExecutionStateFailed, ProbeExecutionStateCompleted}
        \<and> (exec_State probe = ProbeExecutionStateCompleted \<longrightarrow> exec_Error probe = [])
        \<and> (exec_State probe = ProbeExecutionStateCompleted \<longleftrightarrow>
             (\<exists>result agent_result http. source_answer run command started result agent_result
                \<and> par_HTTP agent_result = Some http \<and> http_Error http = [])))"

lemma CreateProbe_settled:
  assumes "CreateProbe run request s = Some (probe, err, s')"
  shows "(probe = zero_ProbeExecution \<and> err \<noteq> None \<and> s' = s \<and> \<not> request_accepted run request s)
    \<or> probe_settled run request s probe s'"
proof (cases rule: CreateProbe_cases [of run request s])
  case (rejected e)
  with assms show ?thesis by (auto simp: request_accepted_def)
next
  case (accepted entry path probeID traceID commandID x s1)
  let ?e = "started_execution run request s entry path (probeID, traceID)"
  let ?c = "started_command run request entry (probeID, traceID) commandID"
  obtain clusterID gatewayID e where entry: "entry = (clusterID, gatewayID, e)" by (cases entry)
  obtain probe' err' s2 where f: "finish_probe run ?e (started_topology run s) ?c x s1 = Some (probe', err', s2)"
    "settled_outcome x ?c probeID probe' s2"
    using finish_probe_settles [of ?c run ?e "started_topology run s" x s1]
    by (auto simp: started_command_fields started_execution_ID)
  with accepted(7) assms have same: "probe' = probe" "s' = unregister_command commandID s2" by auto
  have probes: "st_probes s' = st_probes s2" by (simp add: same unregister_command_def)
  have out: "settled_outcome x ?c probeID probe s'" using f(2) unfolding settled_outcome_def probes same(1) .
  have settled: "st_probes s' probeID = Some probe" "st_pendingCommands s' commandID = None"
    "exec_State probe \<in> {ProbeExecutionStateFailed, ProbeExecutionStateCompleted}"
    "exec_State probe = ProbeExecutionStateCompleted \<longrightarrow> exec_Error probe = []"
    using out unfolding settled_outcome_def by (blast, simp add: same unregister_command_def, blast, blast)
  have "exec_State probe = ProbeExecutionStateCompleted \<longleftrightarrow>
      (\<exists>result agent_result http. source_answer run ?c (started_store ?e ?c s) result agent_result
         \<and> par_HTTP agent_result = Some http \<and> http_Error http = [])"
    using out unfolding settled_outcome_def exchange_source_answer [OF accepted(6), symmetric] by blast
  moreover have "?c = probe_command run commandID probeID traceID clusterID gatewayID (entry_ID e) request"
    by (simp add: started_command_def entry)
  ultimately show ?thesis
    using settled accepted(1-5) unfolding probe_settled_def entry by blast
qed

lemma CreateProbe_returns: "CreateProbe run request s \<noteq> None"
proof (cases rule: CreateProbe_cases [of run request s])
  case (accepted entry path probeID traceID commandID x s1)
  let ?e = "started_execution run request s entry path (probeID, traceID)"
  let ?c = "started_command run request entry (probeID, traceID) commandID"
  have "finish_probe run ?e (started_topology run s) ?c x s1 \<noteq> None"
    using finish_probe_settles [of ?c run ?e "started_topology run s" x s1]
    by (auto simp: started_command_fields)
  with accepted(7) show ?thesis by simp
qed simp

section \<open>What the rest of the exchange leaves alone\<close>

definition keeps_probe :: "string \<Rightarrow> environment \<Rightarrow> bool" where
  "keeps_probe probeID env \<longleftrightarrow> (\<forall>s. st_probes (fst (env s)) probeID = st_probes s probeID)"

lemma offer_command_probes: "offer_command c s = Some s' \<Longrightarrow> st_probes s' = st_probes s"
  by (auto simp: offer_command_def Let_def split: if_splits)

lemma receive_result_probes: "receive_result i s = Some (r, s') \<Longrightarrow> st_probes s' = st_probes s"
  by (auto simp: receive_result_def split: option.splits)

lemma await_result_probes:
  assumes "keeps_probe probeID env" "await_result i env s = (y, s')"
  shows "st_probes s' probeID = st_probes s probeID"
proof -
  have "st_probes (fst (env s)) probeID = st_probes s probeID"
    using assms(1) by (simp add: keeps_probe_def)
  with assms(2) show ?thesis
    by (auto simp: await_result_def dest: receive_result_probes split: prod.splits option.splits)
qed

lemma exchange_probes:
  assumes "keeps_probe probeID env" "exchange c offer env s = (x, s')"
  shows "st_probes s' probeID = st_probes s probeID"
  using assms(2) await_result_probes [OF assms(1)]
  by (auto simp: exchange_def split: option.splits prod.splits sum.splits dest!: offer_command_probes)

lemma CreateProbe_identifies:
  assumes "CreateProbe run request s = Some (probe, err, s')"
    and "resolveProbeEntry (req_SourceCluster request) (req_GatewayID request) (req_EntryID request) s
      = Inr (clusterID, gatewayID, entry)"
    and "check_request request = Inr path"
    and "run_probeID run = Inr probeID" "run_traceID run = Inr traceID" "run_commandID run = Inr commandID"
    and keeps: "keeps_probe probeID (run_environment run)"
  shows "probe_identity probe = [probeID, traceID, clusterID, globalID clusterID gatewayID,
      probe_method request, probe_target entry path, format_rfc3339nano (time_UTC (run_started run))]"
proof (cases rule: CreateProbe_cases [of run request s])
  case (rejected e)
  with assms show ?thesis by auto
next
  case (accepted entry' path' probeID' traceID' commandID' x s1)
  with assms have same: "entry' = (clusterID, gatewayID, entry)" "path' = path" "probeID' = probeID"
    "traceID' = traceID" "commandID' = commandID" by auto
  let ?e = "started_execution run request s (clusterID, gatewayID, entry) path (probeID, traceID)"
  let ?c = "started_command run request (clusterID, gatewayID, entry) (probeID, traceID) commandID"
  have ID: "exec_ID ?e = probeID" by (rule started_execution_ID)
  have e: "probe_identity ?e = [probeID, traceID, clusterID, globalID clusterID gatewayID,
      probe_method request, probe_target entry path, format_rfc3339nano (time_UTC (run_started run))]"
    by (simp add: started_execution_def)
  have "st_probes s1 probeID = Some ?e"
    using exchange_probes [OF keeps accepted(6) [unfolded same]]
    by (simp add: started_store_def Let_def ID)
  moreover obtain probe' err' s2 where f:
    "finish_probe run ?e (started_topology run s) ?c x s1 = Some (probe', err', s2)"
    "\<forall>e. st_probes s1 probeID = Some e \<longrightarrow> probe_identity e = probe_identity ?e
      \<longrightarrow> probe_identity probe' = probe_identity ?e"
    using finish_probe_settles [of ?c run ?e "started_topology run s" x s1]
    by (auto simp: started_command_fields ID)
  moreover from f(1) accepted(7) [unfolded same] assms(1) have "probe' = probe" by simp
  ultimately show ?thesis by (simp add: e)
qed

section \<open>What is enqueued\<close>
























section \<open>Properties\<close>

text \<open>
  C33: \<open>CreateProbe\<close> settles what it starts and never panics, whatever the agents answer, the
  other goroutines do, or the observations of the other gateways bring. A request that is not accepted (the
  entry is not resolved, a check fails, there is no randomness) returns an error and leaves the store as it was.
  For any other the store has the returned execution under its identity in a final state, and
  its command is no longer pending. It completed iff the command for the source cluster
  was enqueued and, before the wait ended otherwise, a result arrived in the slot of this very command
  that reports no error and whose probe result (of the source cluster and gateway, for this probe and
  trace) passed \<open>Validate\<close> for the command and reports no failed HTTP request.
\<close>

theorem CreateProbe_settles:
  "case CreateProbe run request s of None \<Rightarrow> False
   | Some (probe, err, s') \<Rightarrow>
       probe = zero_ProbeExecution \<and> err \<noteq> None \<and> s' = s \<and> \<not> request_accepted run request s
       \<or> probe_settled run request s probe s'"
  using CreateProbe_returns [of run request s] CreateProbe_settled [of run request s]
  by (auto split: option.split)

text \<open>
  The execution \<open>CreateProbe\<close> returns is the one that was asked for: identity, trace, source
  cluster and gateway, method and target are those of the request and the resolved entry,
  also after a failure, as long as no other goroutine writes this probe.
\<close>

theorem CreateProbe_identity:
  assumes "CreateProbe run request s = Some (probe, err, s')"
    and "resolveProbeEntry (req_SourceCluster request) (req_GatewayID request) (req_EntryID request) s
      = Inr (clusterID, gatewayID, entry)"
    and "check_request request = Inr path"
    and "run_probeID run = Inr probeID" "run_traceID run = Inr traceID" "run_commandID run = Inr commandID"
    and "keeps_probe probeID (run_environment run)"
  shows "probe_identity probe = [probeID, traceID, clusterID, globalID clusterID gatewayID,
      probe_method request, probe_target entry path, format_rfc3339nano (time_UTC (run_started run))]"
  using assms by (rule CreateProbe_identifies)


definition sample_run :: ProbeRun where
  "sample_run = \<lparr>run_digest = id, run_started = zero_time, run_completed = zero_time,
     run_probeID = Inr ''p1'', run_traceID = Inr ''t1'', run_commandID = Inr ''c1'',
     run_offer = None, run_environment = (\<lambda>s. (s, Some StopTimer)),
     run_observations = (\<lambda>_. sample_circumstances)\<rparr>"

definition sample_request :: ProbeRequest where
  "sample_request = zero_ProbeRequest\<lparr>req_SourceCluster := ''b'', req_GatewayID := ''b::gw2'',
     req_EntryID := ''e'', req_Path := ''/a'', req_Method := ''get''\<rparr>"

lemma sample_request_entry:
  "map_sum id (\<lambda>(c, g, e). (c, g, entry_ID e)) (resolveProbeEntry (req_SourceCluster sample_request)
     (req_GatewayID sample_request) (req_EntryID sample_request) sample_entry_store)
     = Inr (''b'', ''gw2'', ''e'')"
  by code_simp

lemma sample_request_method: "probe_method sample_request = ''GET''"
  by code_simp

lemma sample_request_path:
  "map_option (\<lambda>u. (url_Path u, url_IsAbs u, url_Host u, url_Fragment u))
     (url_ParseRequestURI (TrimSpace (req_Path sample_request))) = Some (''/a'', False, [], [])"
  by code_simp

lemma sample_request_fields:
  "req_Host sample_request = []" "req_APIKey sample_request = []" "req_Body sample_request = []"
  "req_TimeoutSeconds sample_request = 0"
  by (simp_all add: sample_request_def zero_ProbeRequest_def)

lemma sample_request_checked: "\<exists>path. check_request sample_request = Inr path"
  using sample_request_path
  by (auto simp: check_request_def sample_request_method ProbeHTTPMethod_IsValid_def HasPrefix_def
    probe_timeout_def sample_request_fields ContainsAny_def)

lemma sample_created:
  "\<exists>entry path probe err s'. CreateProbe sample_run sample_request sample_entry_store = Some (probe, err, s')
    \<and> resolveProbeEntry (req_SourceCluster sample_request) (req_GatewayID sample_request)
        (req_EntryID sample_request) sample_entry_store = Inr (''b'', ''gw2'', entry)
    \<and> check_request sample_request = Inr path"
proof -
  obtain probe err s' where "CreateProbe sample_run sample_request sample_entry_store = Some (probe, err, s')"
    using CreateProbe_returns [of sample_run sample_request sample_entry_store] by auto
  moreover obtain entry where "resolveProbeEntry (req_SourceCluster sample_request)
      (req_GatewayID sample_request) (req_EntryID sample_request) sample_entry_store = Inr (''b'', ''gw2'', entry)"
    using sample_request_entry
    by (cases "resolveProbeEntry (req_SourceCluster sample_request)
      (req_GatewayID sample_request) (req_EntryID sample_request) sample_entry_store") auto
  ultimately show ?thesis using sample_request_checked by blast
qed

lemma CreateProbe_identity_witness:
  "\<exists>probe err s' entry path. CreateProbe sample_run sample_request sample_entry_store = Some (probe, err, s')
    \<and> probe_identity probe = [''p1'', ''t1'', ''b'', globalID ''b'' ''gw2'', ''GET'', probe_target entry path,
        format_rfc3339nano (time_UTC zero_time)]"
proof -
  obtain entry path probe err s' where c: "CreateProbe sample_run sample_request sample_entry_store
      = Some (probe, err, s')" and r: "resolveProbeEntry (req_SourceCluster sample_request)
        (req_GatewayID sample_request) (req_EntryID sample_request) sample_entry_store
      = Inr (''b'', ''gw2'', entry)" and p: "check_request sample_request = Inr path"
    using sample_created by blast
  show ?thesis
    using CreateProbe_identity [OF c r p, of "''p1''" "''t1''" "''c1''"] c
    by (auto simp: sample_run_def keeps_probe_def sample_request_method)
qed



end
