(* ===== verification/Agent_Exchange.thy ===== *)
theory Agent_Exchange
  imports Agent_Runner Broker_Protocol Probe_Lifecycle
begin

text \<open>
  Agent and server together: the agent's client code against the server's handlers over a
  network that may lose a request or a response, and beside the server's other goroutines. A result
  that is sent again is filed again only if its waiter has taken the first copy, and a command
  that an agent polls comes back to the waiting server with the agent's result.
\<close>

section \<open>The network\<close>

datatype Transport = Delivered | RequestLost string | ResponseLost string

definition over :: "Transport \<Rightarrow> (HttpRequest \<Rightarrow> 's \<Rightarrow> HttpResponse \<times> 's) \<Rightarrow> 's http" where
  "over transport server request s =
     (case transport of
        RequestLost e \<Rightarrow> (Inl e, s)
      | ResponseLost e \<Rightarrow> (Inl e, snd (server request s))
      | Delivered \<Rightarrow> map_prod Inr id (server request s))"

definition reaches :: "Transport \<Rightarrow> bool" where
  "reaches transport \<longleftrightarrow> (case transport of RequestLost e \<Rightarrow> False | _ \<Rightarrow> True)"

section \<open>Filing a result more than once\<close>

text \<open>
  The receiver's state after some attempts to send it a result: before each, other goroutines take
  their steps, and then it completes the result if the attempt reaches it.
\<close>

primrec uploaded ::
    "(nat \<Rightarrow> bool) \<Rightarrow> (nat \<Rightarrow> 's \<Rightarrow> 's) \<Rightarrow> ('s \<Rightarrow> ('e + unit) \<times> 's) \<Rightarrow> 's \<Rightarrow> nat \<Rightarrow> 's" where
  "uploaded arrives others complete s 0 = s"
| "uploaded arrives others complete s (Suc n) =
     (let t = others (Suc n) (uploaded arrives others complete s n) in if arrives (Suc n) then snd (complete t) else t)"

text \<open>What attempt \<open>n\<close> finds, and whether the receiver files the result then.\<close>

definition found ::
    "(nat \<Rightarrow> bool) \<Rightarrow> (nat \<Rightarrow> 's \<Rightarrow> 's) \<Rightarrow> ('s \<Rightarrow> ('e + unit) \<times> 's) \<Rightarrow> 's \<Rightarrow> nat \<Rightarrow> 's" where
  "found arrives others complete s n = others n (uploaded arrives others complete s (n - 1))"

definition filed ::
    "(nat \<Rightarrow> bool) \<Rightarrow> (nat \<Rightarrow> 's \<Rightarrow> 's) \<Rightarrow> ('s \<Rightarrow> ('e + unit) \<times> 's) \<Rightarrow> 's \<Rightarrow> nat \<Rightarrow> bool" where
  "filed arrives others complete s n \<longleftrightarrow>
     arrives n \<and> fst (complete (found arrives others complete s n)) = Inr ()"

lemma uploaded_step:
  "uploaded arrives others complete s (Suc n) =
     (if arrives (Suc n) then snd (complete (found arrives others complete s (Suc n))) else found arrives others complete s (Suc n))"
  by (simp add: found_def Let_def)

text \<open>The retrying client: its last attempt is the one whose outcome it reports.\<close>

lemma attempts_uploaded:
  assumes "\<And>a t. snd (send a t) = (if arrives a then snd (complete (others a t)) else others a t)"
    and "\<And>a t. fst (send a t) = None \<longleftrightarrow> delivered a \<and> fst (complete (others a t)) = Inr ()"
    and "\<And>a. delivered a \<Longrightarrow> arrives a"
    and "send_attempts send waited [1, 2, 3] s = (outcome, s')"
  shows "\<exists>k \<in> {1..3}. s' = uploaded arrives others complete s k
    \<and> (outcome = None \<longleftrightarrow> delivered k \<and> filed arrives others complete s k)"
proof -
  let ?at = "uploaded arrives others complete s"
  have step: "snd (send (Suc n) (?at n)) = ?at (Suc n)"
    "fst (send (Suc n) (?at n)) = None \<longleftrightarrow> delivered (Suc n) \<and> filed arrives others complete s (Suc n)" for n
    using assms(1-3) by (auto simp: Let_def filed_def found_def)
  obtain o1 o2 o3 where sent: "send 1 s = (o1, ?at 1)" "send 2 (?at 1) = (o2, ?at 2)" "send 3 (?at 2) = (o3, ?at 3)"
    using step(1) [of 0] step(1) [of 1] step(1) [of 2] by (simp add: prod_eq_iff numeral_2_eq_2 numeral_3_eq_3 del: uploaded.simps(2))
  have outcomes: "o1 = None \<longleftrightarrow> delivered 1 \<and> filed arrives others complete s 1"
    "o2 = None \<longleftrightarrow> delivered 2 \<and> filed arrives others complete s 2"
    "o3 = None \<longleftrightarrow> delivered 3 \<and> filed arrives others complete s 3"
    using step(2) [of 0] step(2) [of 1] step(2) [of 2] sent
    by (simp_all add: numeral_2_eq_2 numeral_3_eq_3 del: uploaded.simps(2))
  from assms(4) have "(outcome, s') \<in> {(o1, ?at 1), (o2, ?at 2), (o3, ?at 3)}"
    unfolding send_attempts.simps sent prod.case by (cases o1; cases o2; cases o3) (auto simp del: uploaded.simps split: if_splits)
  with outcomes show ?thesis by fastforce
qed

text \<open>
  What the client needs of the receiver: a rejected result changes nothing, and an accepted one
  closes the receiver to the result; while it is closed, it rejects the result.
\<close>

locale result_receiver =
  fixes complete :: "AgentCommandResult \<Rightarrow> 's \<Rightarrow> ('e + unit) \<times> 's"
    and closed :: "AgentCommandResult \<Rightarrow> 's \<Rightarrow> bool"
  assumes complete_error: "complete r s = (Inl e, s') \<Longrightarrow> s' = s"
    and complete_closes: "complete r s = (Inr (), s') \<Longrightarrow> closed r s'"
    and closed_rejects: "closed r s \<Longrightarrow> fst (complete r s) \<noteq> Inr ()"
begin

lemma rejected_unchanged: "fst (complete r s) \<noteq> Inr () \<Longrightarrow> snd (complete r s) = s"
  using complete_error by (cases "complete r s"; cases "fst (complete r s)") auto

lemma filed_closes:
  assumes "filed arrives others (complete r) s n" "n = Suc m"
  shows "closed r (uploaded arrives others (complete r) s n)"
proof -
  have "complete r (found arrives others (complete r) s n) = (Inr (), uploaded arrives others (complete r) s n)"
    using assms by (simp add: filed_def uploaded_step prod_eq_iff del: uploaded.simps(2))
  then show ?thesis by (rule complete_closes)
qed

text \<open>Only others can open the receiver again, so that a second copy is filed.\<close>

lemma filed_again:
  assumes "1 \<le> i" "i < j" "filed arrives others (complete r) s i" "filed arrives others (complete r) s j"
  shows "\<exists>m. i < m \<and> m \<le> j \<and> closed r (uploaded arrives others (complete r) s (m - 1))
    \<and> \<not> closed r (found arrives others (complete r) s m)"
proof (rule ccontr)
  let ?at = "uploaded arrives others (complete r) s" and ?found = "found arrives others (complete r) s"
  assume "\<nexists>m. i < m \<and> m \<le> j \<and> closed r (?at (m - 1)) \<and> \<not> closed r (?found m)"
  then have kept: "closed r (?found (Suc m))" if "i \<le> m" "m < j" "closed r (?at m)" for m
    using that by (metis Suc_leI diff_Suc_1 le_imp_less_Suc)
  have "closed r (?at m)" if "i \<le> m" "m < j" for m
    using that
  proof (induction m rule: dec_induct)
    case base
    from assms(1) obtain n where "i = Suc n" by (cases i) auto
    with assms(3) show ?case by (rule filed_closes)
  next
    case (step m)
    then have "closed r (?found (Suc m))" by (intro kept) auto
    then show ?case using rejected_unchanged closed_rejects by (auto simp: uploaded_step simp del: uploaded.simps(2))
  qed
  then have "closed r (?found (Suc (j - 1)))" using assms(2) by (intro kept) auto
  then have "\<not> filed arrives others (complete r) s j"
    using closed_rejects assms(2) by (auto simp: filed_def)
  with assms(4) show False by contradiction
qed

text \<open>When the others do nothing, the attempts are as good as one or none.\<close>

lemma alone_uploaded:
  assumes "\<And>n t. others n t = t"
  shows "uploaded arrives others (complete r) s n \<in> {s, snd (complete r s)}"
proof (induction n)
  case (Suc n)
  have "snd (complete r (snd (complete r s))) = snd (complete r s)"
    using rejected_unchanged closed_rejects complete_closes [of r s "snd (complete r s)"] by (metis prod.collapse)
  with Suc show ?case by (auto simp: assms Let_def)
qed simp

end

section \<open>The store as the receiver\<close>

text \<open>The store wants no copy of a result: nobody waits for it, or one is in its slot.\<close>

definition closed_to :: "AgentCommandResult \<Rightarrow> Store \<Rightarrow> bool" where
  "closed_to result s \<longleftrightarrow>
     (case st_pendingCommands s (acr_CommandID (trimmed_result result)) of
        None \<Rightarrow> True
      | Some pending \<Rightarrow> pend_result pending \<noteq> None)"

interpretation hub_results: result_receiver "CompleteAgentCommand ended" closed_to
  for ended
proof
  fix r e and s s' :: Store
  assume "CompleteAgentCommand ended r s = (Inl e, s')"
  then show "s' = s" by (auto simp: CompleteAgentCommand_def Let_def split: sum.splits)
next
  fix r and s s' :: Store
  assume "CompleteAgentCommand ended r s = (Inr (), s')"
  then show "closed_to r s'"
    by (auto simp: closed_to_def CompleteAgentCommand_def Let_def split: sum.splits)
next
  fix r and s :: Store
  assume "closed_to r s"
  then have "complete_check ended (trimmed_result r) s \<noteq> Inr p" for p
    by (auto simp: complete_check_Inr closed_to_def)
  then show "fst (CompleteAgentCommand ended r s) \<noteq> Inr ()"
    by (auto simp: CompleteAgentCommand_def Let_def split: sum.splits)
qed

lemma hub_completes:
  "snd (cb_CompleteAgentCommand (hub_AgentCommandBroker amb) r s) = snd (CompleteAgentCommand (amb_complete_end amb) r s)"
  "fst (cb_CompleteAgentCommand (hub_AgentCommandBroker amb) r s) = Inr () \<longleftrightarrow>
     fst (CompleteAgentCommand (amb_complete_end amb) r s) = Inr ()"
  by (simp_all add: hub_AgentCommandBroker_def text_of_def)
    (cases "fst (CompleteAgentCommand (amb_complete_end amb) r s)"; simp)

section \<open>The agent's requests at the server\<close>

text \<open>The configured URL is one under which the server's endpoints are found.\<close>

definition url_serves :: "string \<Rightarrow> string \<Rightarrow> string \<Rightarrow> bool" where
  "url_serves base path query \<longleftrightarrow>
     (case url_Parse (base @ path @ (if query = [] then [] else ''?'' @ query)) of
        None \<Rightarrow> False
      | Some u \<Rightarrow> EscapedPath u = path \<and> url_RawQuery u = query)"

definition server_url :: "AgentConfig \<Rightarrow> bool" where
  "server_url config \<longleftrightarrow>
     url_serves (cfg_ServerURL config) ''/api/v1/agent/snapshots'' []
     \<and> url_serves (cfg_ServerURL config) ''/api/v1/agent/command-results'' []
     \<and> url_serves (cfg_ServerURL config) ''/api/v1/agent/commands/next''
         (''clusterID='' @ QueryEscape (cfg_ClusterID config))"

definition trusts :: "'s Handler \<Rightarrow> AgentConfig \<Rightarrow> bool" where
  "trusts h config \<longleftrightarrow> hd_agentToken h = [] \<or> hd_agentToken h = cfg_Token config"

lemmas TrimPrefix_bearer = TrimPrefix_append [of "''Bearer ''" t for t, unfolded append_Cons append_Nil]

lemma agent_request_fields:
  assumes "agent_request config verb path body = Some r"
  shows "rq_Method r = verb" "rq_Body r = body" "\<not> rq_Done r"
    "trusts h config \<Longrightarrow> authorized h r"
  using assms
  by (cases "cfg_Token config = []";
      auto simp: agent_request_def trusts_def authorized_def TrimPrefix_bearer)+

lemma agent_paths:
  "path_segments ''/api/v1/agent/snapshots'' = [''api'', ''v1'', ''agent'', ''snapshots'']"
  "path_segments ''/api/v1/agent/command-results'' = [''api'', ''v1'', ''agent'', ''command-results'']"
  "path_segments ''/api/v1/agent/commands/next'' = [''api'', ''v1'', ''agent'', ''commands'', ''next'']"
  by code_simp+

lemma post_request:
  assumes "url_serves (cfg_ServerURL config) path []"
  obtains r where "agent_request config ''POST'' path body = Some r"
    "request_route r = mux_route ''POST'' (path_segments path)"
  using assms
  by (auto simp: url_serves_def agent_request_def request_route_def split: option.splits)

lemma poll_request:
  assumes "server_url config"
  obtains r where "agent_request config ''GET''
      (''/api/v1/agent/commands/next?clusterID='' @ QueryEscape (cfg_ClusterID config)) [] = Some r"
    "request_route r = R_nextAgentCommand"
    "Query_Get (url_RawQuery (rq_URL r)) ''clusterID'' = cfg_ClusterID config"
proof -
  have "Query_Get (''clusterID='' @ QueryEscape v) ''clusterID'' = v" for v
    using Query_Get_escaped [of "''clusterID''" v] by (simp add: query_plain_def is_alnum_def
      is_lower_def is_upper_def is_digit_def byte_val_def)
  with assms that show thesis
    by (auto simp: server_url_def url_serves_def agent_request_def request_route_def agent_paths
      mux_route_def split: option.splits)
qed

section \<open>Sending a result to the store\<close>

text \<open>The codec carries this result: documented behaviour of \<open>encoding/json\<close> on a value it encoded.\<close>

definition carries_result :: "Codec \<Rightarrow> AgentCommandResult \<Rightarrow> bool" where
  "carries_result codec r \<longleftrightarrow>
     length (enc_AgentCommandResult codec r) \<le> 32 * 1024 * 1024
     \<and> dec_AgentCommandResult codec (enc_AgentCommandResult codec r) = Some r"

lemma serve_result:
  assumes "hd_agentCommands h = Some broker" "authorized h r" "request_route r = R_completeAgentCommand"
    and "dec_AgentCommandResult codec (take (32 * 1024 * 1024) (rq_Body r)) = Some result"
  shows "snd (ServeHTTP codec h r s) = snd (cb_CompleteAgentCommand broker result s)"
    "success_status (rs_Status (fst (ServeHTTP codec h r s))) \<longleftrightarrow>
       fst (cb_CompleteAgentCommand broker result s) = Inr ()"
  using assms
  by (auto simp: ServeHTTP_def completeAgentCommand_endpoint_def authorizeAgent_def success_status_def
    split: prod.split sum.split)

lemma sendCommandResult_over:
  assumes "hd_agentCommands h = Some (hub_AgentCommandBroker amb)" "trusts h (rn_config runner)"
    and "server_url (rn_config runner)" "carries_result codec result"
  shows "snd (sendCommandResult codec (\<lambda>request t. over transport (ServeHTTP codec h) request (others t)) runner result s) =
      (if reaches transport then snd (CompleteAgentCommand (amb_complete_end amb) result (others s)) else others s)"
    and "fst (sendCommandResult codec (\<lambda>request t. over transport (ServeHTTP codec h) request (others t)) runner result s) = None
      \<longleftrightarrow> transport = Delivered \<and> fst (CompleteAgentCommand (amb_complete_end amb) result (others s)) = Inr ()"
proof -
  obtain r where r: "agent_request (rn_config runner) ''POST'' ''/api/v1/agent/command-results''
      (enc_AgentCommandResult codec result) = Some r" "request_route r = R_completeAgentCommand"
  proof (rule post_request)
    show "url_serves (cfg_ServerURL (rn_config runner)) ''/api/v1/agent/command-results'' []"
      using assms(3) by (simp add: server_url_def)
  qed (simp add: agent_paths mux_route_def)
  have "dec_AgentCommandResult codec (take (32 * 1024 * 1024) (rq_Body r)) = Some result"
    using assms(4) agent_request_fields(2) [OF r(1)] by (simp add: carries_result_def)
  note served = serve_result [OF assms(1) agent_request_fields(4) [OF r(1) assms(2)] r(2) this, unfolded hub_completes]
  show "snd (sendCommandResult codec (\<lambda>request t. over transport (ServeHTTP codec h) request (others t)) runner result s) =
      (if reaches transport then snd (CompleteAgentCommand (amb_complete_end amb) result (others s)) else others s)"
    "fst (sendCommandResult codec (\<lambda>request t. over transport (ServeHTTP codec h) request (others t)) runner result s) = None
      \<longleftrightarrow> transport = Delivered \<and> fst (CompleteAgentCommand (amb_complete_end amb) result (others s)) = Inr ()"
    using served
    by (cases transport; auto simp: reaches_def sendCommandResult_def agent_post_def r(1) over_def map_prod_def split_def)+
qed

section \<open>What an execution reports\<close>

text \<open>An error of the reader or the executor says something (\<open>error\<close> values have a text).\<close>

definition errors_speak :: "'r Runner \<Rightarrow> bool" where
  "errors_speak runner \<longleftrightarrow>
     (\<forall>ctx g r e. fst (rd_EnvoyConfig (rn_reader runner ctx) g r) = Inl e \<longrightarrow> TrimSpace e \<noteq> [])
     \<and> (\<forall>pe ctx p r e. rn_probeExecutor runner = Some pe
          \<longrightarrow> fst (pe_ExecuteProbe pe ctx p r) = Inl e \<or> fst (pe_ObserveProbe pe ctx p r) = Inl e
          \<longrightarrow> TrimSpace e \<noteq> [])"

definition reports :: "AgentCommandResult \<Rightarrow> bool" where
  "reports result \<longleftrightarrow>
     acr_Config result \<noteq> None \<or> acr_Probe result \<noteq> None \<or> TrimSpace (acr_Error result) \<noteq> []"

lemma agent_texts_speak:
  "TrimSpace ''command deadline exceeded before execution'' \<noteq> []"
  "TrimSpace ''probe execution is not supported by this agent'' \<noteq> []"
  "TrimSpace ''probe command payload is required'' \<noteq> []"
  "TrimSpace ''probe observation is not supported by this agent'' \<noteq> []"
  "TrimSpace ''probe observation payload is required'' \<noteq> []"
  "TrimSpace (''unsupported agent command kind '' @ quoted kind) \<noteq> []"
proof -
  have "plain_ends (''unsupported agent command kind '' @ quoted kind)"
    by (simp add: plain_ends_def quoted_def)
  from TrimSpace_plain [OF this] show "TrimSpace (''unsupported agent command kind '' @ quoted kind) \<noteq> []"
    by simp
qed (subst TrimSpace_plain; simp add: plain_ends_def)+

lemma run_probe_fields:
  "acr_CommandID (fst (run_probe u m op command result r)) = acr_CommandID result"
  "acr_ClusterID (fst (run_probe u m op command result r)) = acr_ClusterID result"
  by (auto simp: run_probe_def split: option.split prod.split sum.split)

lemma run_probe_reports:
  assumes "TrimSpace u \<noteq> []" "TrimSpace m \<noteq> []"
    and "\<And>f p r e. op = Some f \<Longrightarrow> fst (f p r) = Inl e \<Longrightarrow> TrimSpace e \<noteq> []"
  shows "reports (fst (run_probe u m op command result r))"
  using assms
  by (auto simp: run_probe_def reports_def split: option.split prod.split sum.split)
    (metis fst_conv)

lemma executeCommand_fields:
  "acr_CommandID (fst (executeCommand runner now command r)) = cmd_ID command"
  "acr_ClusterID (fst (executeCommand runner now command r)) = cfg_ClusterID (rn_config runner)"
  by (auto simp: executeCommand_def Let_def run_probe_fields split: option.split prod.split sum.split)

lemma executeCommand_reports:
  assumes "errors_speak runner"
  shows "reports (fst (executeCommand runner now command r))"
proof (cases "command_context now command")
  case None
  then show ?thesis using agent_texts_speak(1) by (simp add: executeCommand_def reports_def)
next
  case (Some ctx)
  let ?result = "zero_AgentCommandResult\<lparr>acr_CommandID := cmd_ID command,
    acr_ClusterID := cfg_ClusterID (rn_config runner)\<rparr>"
  have http: "reports (fst (run_probe ''probe execution is not supported by this agent''
      ''probe command payload is required''
      (map_option (\<lambda>pe. pe_ExecuteProbe pe ctx) (rn_probeExecutor runner)) command ?result r))"
    using assms agent_texts_speak by (intro run_probe_reports) (auto simp: errors_speak_def)
  have observe: "reports (fst (run_probe ''probe observation is not supported by this agent''
      ''probe observation payload is required''
      (map_option (\<lambda>pe. pe_ObserveProbe pe ctx) (rn_probeExecutor runner)) command ?result r))"
    using assms agent_texts_speak by (intro run_probe_reports) (auto simp: errors_speak_def)
  have envoy: "TrimSpace e \<noteq> []" if "rd_EnvoyConfig (rn_reader runner ctx) g r = (Inl e, r')" for g e r'
    using assms that unfolding errors_speak_def by (metis fst_conv)
  have "reports (fst (executeCommand runner now command r))" if "cmd_Kind command = AgentCommandEnvoyConfig"
    using that Some envoy
    by (auto simp: executeCommand_def reports_def Let_def split: prod.splits sum.splits)
  moreover have "reports (fst (executeCommand runner now command r))"
    if "cmd_Kind command \<notin> {AgentCommandEnvoyConfig, AgentCommandProbeHTTP, AgentCommandProbeObserve}"
    using that Some agent_texts_speak(6) by (simp add: executeCommand_def reports_def)
  ultimately show ?thesis using http observe Some by (auto simp: executeCommand_def Let_def)
qed

section \<open>Polling the store\<close>

definition carries_command :: "Codec \<Rightarrow> AgentCommand \<Rightarrow> bool" where
  "carries_command codec command \<longleftrightarrow>
     length (enc_AgentCommand codec command) < 64 * 1024
     \<and> dec_AgentCommand codec (enc_AgentCommand codec command @ [byte 10]) = Some command"

text \<open>The command an agent of this cluster gets next.\<close>

definition next_up :: "GoTime \<Rightarrow> string \<Rightarrow> AgentCommand \<Rightarrow> Store \<Rightarrow> bool" where
  "next_up now clusterID command s \<longleftrightarrow>
     TrimSpace clusterID = clusterID \<and> clusterID \<noteq> [] \<and> map_of (st_snapshots s) clusterID \<noteq> None
     \<and> (\<exists>rest. queue_of s clusterID = command # rest) \<and> deliverable now clusterID s command"

definition polled_store :: "string \<Rightarrow> Store \<Rightarrow> Store" where
  "polled_store clusterID s =
     s\<lparr>st_commandQueues := (ensure_queue clusterID (st_commandQueues s))
         (clusterID \<mapsto> tl (queue_of s clusterID))\<rparr>"

lemma NextAgentCommand_next_up:
  "next_up now clusterID command s \<Longrightarrow>
     NextAgentCommand now ended clusterID s = (Inr (Some command), polled_store clusterID s)"
  by (auto simp: next_up_def NextAgentCommand_def Let_def polled_store_def)

lemma poll_response:
  assumes "hd_agentCommands h = Some (hub_AgentCommandBroker amb)" "trusts h (rn_config runner)"
    and "server_url (rn_config runner)"
    and next_up: "next_up (amb_now amb) (cfg_ClusterID (rn_config runner)) command s"
  obtains r w where "agent_request (rn_config runner) ''GET'' (''/api/v1/agent/commands/next?clusterID=''
      @ QueryEscape (cfg_ClusterID (rn_config runner))) [] = Some r"
    and "ServeHTTP codec h r s = (w, polled_store (cfg_ClusterID (rn_config runner)) s)"
    and "rs_Status w = 200" "rs_Body w = enc_AgentCommand codec command @ [byte 10]"
proof -
  let ?c = "cfg_ClusterID (rn_config runner)"
  obtain r where r: "agent_request (rn_config runner) ''GET''
      (''/api/v1/agent/commands/next?clusterID='' @ QueryEscape ?c) [] = Some r"
    "request_route r = R_nextAgentCommand" "Query_Get (url_RawQuery (rq_URL r)) ''clusterID'' = ?c"
    using assms(3) by (rule poll_request)
  have c: "TrimSpace ?c = ?c" "?c \<noteq> []" using next_up by (auto simp: next_up_def)
  have "cb_NextAgentCommand (hub_AgentCommandBroker amb) ?c s = (Inr (Some command), polled_store ?c s)"
    using NextAgentCommand_next_up [OF next_up] by (simp add: hub_AgentCommandBroker_def text_of_def)
  then have "ServeHTTP codec h r s = (writeJSON 200 (enc_AgentCommand codec command)
      (cors (hd_allowedOrigins h) r (logging r fresh_response)), polled_store ?c s)"
    using agent_request_fields(4) [OF r(1) assms(2)] c
    by (simp add: ServeHTTP_def r(2,3) nextAgentCommand_endpoint_def assms(1) authorizeAgent_def)
  with that [OF r(1)] show thesis by simp
qed

lemma nextCommand_polls:
  assumes "hd_agentCommands h = Some (hub_AgentCommandBroker amb)" "trusts h (rn_config runner)"
    and "server_url (rn_config runner)"
    and "next_up (amb_now amb) (cfg_ClusterID (rn_config runner)) command s"
  shows "nextCommand codec (over Delivered (ServeHTTP codec h)) runner s =
    ((case dec_AgentCommand codec (take (64 * 1024) (enc_AgentCommand codec command @ [byte 10])) of
        None \<Rightarrow> Inl CommandUndecodable
      | Some c \<Rightarrow> if cmd_ID c = [] \<or> cmd_ClusterID c \<noteq> cfg_ClusterID (rn_config runner)
          then Inl CommandIdentityInvalid else Inr (Some c)),
     polled_store (cfg_ClusterID (rn_config runner)) s)"
proof -
  obtain r w where "agent_request (rn_config runner) ''GET'' (''/api/v1/agent/commands/next?clusterID=''
      @ QueryEscape (cfg_ClusterID (rn_config runner))) [] = Some r"
    and "ServeHTTP codec h r s = (w, polled_store (cfg_ClusterID (rn_config runner)) s)"
    and "rs_Status w = 200" "rs_Body w = enc_AgentCommand codec command @ [byte 10]"
    using assms by (rule poll_response)
  then show ?thesis by (simp add: nextCommand_def Let_def over_def success_status_def)
qed

section \<open>There and back\<close>

lemma command_answered:
  assumes "hd_agentCommands h = Some (hub_AgentCommandBroker amb)" "trusts h (rn_config runner)"
    and "server_url (rn_config runner)" "carries_result codec result"
    and "amb_complete_end amb = None" "reports result"
    and "TrimSpace (acr_CommandID result) = acr_CommandID result" "acr_CommandID result \<noteq> []"
    and "TrimSpace (acr_ClusterID result) = acr_ClusterID result" "acr_ClusterID result \<noteq> []"
    and "st_pendingCommands s (acr_CommandID result) =
      Some \<lparr>pend_clusterID = acr_ClusterID result, pend_result = None\<rparr>"
  shows "\<exists>s'. sendCommandResult codec (over Delivered (ServeHTTP codec h)) runner result s = (None, s')
    \<and> (\<exists>s''. receive_result (acr_CommandID result) s' = Some (result, s''))"
proof -
  have t: "trimmed_result result = result" using assms(7,9) by (simp add: trimmed_result_def)
  have "complete_check None result s = Inr \<lparr>pend_clusterID = acr_ClusterID result, pend_result = None\<rparr>"
    using assms by (simp add: complete_check_Inr reports_def)
  then have c: "cb_CompleteAgentCommand (hub_AgentCommandBroker amb) result s =
      (Inr (), s\<lparr>st_pendingCommands := (st_pendingCommands s)(acr_CommandID result \<mapsto>
        \<lparr>pend_clusterID = acr_ClusterID result, pend_result = Some result\<rparr>)\<rparr>)"
    by (simp add: hub_AgentCommandBroker_def text_of_def CompleteAgentCommand_def Let_def t assms(5))
  obtain r where r: "agent_request (rn_config runner) ''POST'' ''/api/v1/agent/command-results''
      (enc_AgentCommandResult codec result) = Some r" "request_route r = R_completeAgentCommand"
  proof (rule post_request)
    show "url_serves (cfg_ServerURL (rn_config runner)) ''/api/v1/agent/command-results'' []"
      using assms(3) by (simp add: server_url_def)
  qed (simp add: agent_paths mux_route_def)
  have "dec_AgentCommandResult codec (take (32 * 1024 * 1024) (rq_Body r)) = Some result"
    using assms(4) agent_request_fields(2) [OF r(1)] by (simp add: carries_result_def)
  from serve_result [OF assms(1) agent_request_fields(4) [OF r(1) assms(2)] r(2) this, of s] c
  show ?thesis
    by (auto simp: sendCommandResult_def agent_post_def r(1) over_def map_prod_def split_def receive_result_def)
qed

lemma round_trip:
  assumes h: "hd_agentCommands h = Some (hub_AgentCommandBroker amb)" "trusts h (rn_config runner)"
    "server_url (rn_config runner)" "amb_complete_end amb = None"
    and command: "next_up (amb_now amb) (cfg_ClusterID (rn_config runner)) command s"
      "cmd_ClusterID command = cfg_ClusterID (rn_config runner)"
      "TrimSpace (cmd_ID command) = cmd_ID command" "cmd_ID command \<noteq> []"
      "st_pendingCommands s (cmd_ID command) =
        Some \<lparr>pend_clusterID = cmd_ClusterID command, pend_result = None\<rparr>"
    and agent: "errors_speak runner"
    and codec: "carries_command codec command"
      "carries_result codec (fst (executeCommand runner now command r))"
  shows "\<exists>s1 r' s2 s3. nextCommand codec (over Delivered (ServeHTTP codec h)) runner s = (Inr (Some command), s1)
    \<and> executeAndSendCommand codec (\<lambda>_. over Delivered (ServeHTTP codec h)) waited runner now command (r, s1)
        = (None, r', s2)
    \<and> receive_result (cmd_ID command) s2 = Some (fst (executeCommand runner now command r), s3)"
proof -
  let ?result = "fst (executeCommand runner now command r)"
  let ?s1 = "polled_store (cfg_ClusterID (rn_config runner)) s"
  have fits: "take (64 * 1024) (enc_AgentCommand codec command @ [byte 10])
      = enc_AgentCommand codec command @ [byte 10]"
    using codec(1) by (intro take_all) (simp add: carries_command_def)
  have poll: "nextCommand codec (over Delivered (ServeHTTP codec h)) runner s = (Inr (Some command), ?s1)"
    unfolding nextCommand_polls [OF h(1-3) command(1)] fits
    using codec(1) command by (simp add: carries_command_def)
  have "TrimSpace (cfg_ClusterID (rn_config runner)) = cfg_ClusterID (rn_config runner)"
    "cfg_ClusterID (rn_config runner) \<noteq> []" using command(1) by (auto simp: next_up_def)
  then obtain s2 s3 where send: "sendCommandResult codec (over Delivered (ServeHTTP codec h)) runner ?result ?s1
      = (None, s2)" and got: "receive_result (cmd_ID command) s2 = Some (?result, s3)"
    using command_answered [OF h(1-3) codec(2) h(4) executeCommand_reports [OF agent], of ?s1] command
    by (auto simp: executeCommand_fields polled_store_def)
  have "executeAndSendCommand codec (\<lambda>_. over Delivered (ServeHTTP codec h)) waited runner now command
      (r, ?s1) = (None, snd (executeCommand runner now command r), s2)"
    using send by (simp add: executeAndSendCommand_def split_def)
  with poll got show ?thesis by blast
qed

section \<open>Properties\<close>

text \<open>
  C6: a command makes it to the agent and its result back. When the server's queue of the agent's
  cluster starts with a deliverable command, the agent's poll gets exactly it, executes it
  and uploads the result in one attempt, and the goroutine that waits for the command
  receives what the execution returned. (The agent's URL and token are those of the server,
  the messages fit the size limits and survive their JSON encoding, and errors of the
  agent's services have a text.)
\<close>

theorem command_round_trip:
  assumes "hd_agentCommands h = Some (hub_AgentCommandBroker amb)" "trusts h (rn_config runner)"
    "server_url (rn_config runner)" "amb_complete_end amb = None"
    and "next_up (amb_now amb) (cfg_ClusterID (rn_config runner)) command s"
      "cmd_ClusterID command = cfg_ClusterID (rn_config runner)"
      "TrimSpace (cmd_ID command) = cmd_ID command" "cmd_ID command \<noteq> []"
      "st_pendingCommands s (cmd_ID command) =
        Some \<lparr>pend_clusterID = cmd_ClusterID command, pend_result = None\<rparr>"
    and "errors_speak runner" "carries_command codec command"
      "carries_result codec (fst (executeCommand runner now command r))"
  shows "\<exists>s1 r' s2 s3. nextCommand codec (over Delivered (ServeHTTP codec h)) runner s = (Inr (Some command), s1)
    \<and> executeAndSendCommand codec (\<lambda>_. over Delivered (ServeHTTP codec h)) waited runner now command (r, s1)
        = (None, r', s2)
    \<and> receive_result (cmd_ID command) s2 = Some (fst (executeCommand runner now command r), s3)"
  using assms by (rule round_trip)

text \<open>
  C8: however the network treats the at most three attempts to upload a result (lost requests, lost
  responses), and whatever the server's other goroutines do to its store before each of them: the store
  ends as these steps leave it with the result completed at the attempts that arrived, and the
  agent believes that the upload succeeded iff the last attempt was answered and the
  result filed then. A second copy is filed only after others have opened the command again: the
  store had a copy in the command's slot, or nobody waiting, and then somebody was waiting with an empty slot. (So it is when the
  waiting goroutine has taken the copy and not yet removed its registration.) If the others leave the store alone, it ends as if the result had been completed once or
  not at all.
\<close>

theorem result_filed_once:
  assumes "hd_agentCommands h = Some (hub_AgentCommandBroker amb)" "trusts h (rn_config runner)"
    and "server_url (rn_config runner)" "executeCommand runner now command r = (result, r')"
    and "carries_result codec result"
    and "executeAndSendCommand codec (\<lambda>attempt request t. over (transports attempt) (ServeHTTP codec h) request (others attempt t))
      waited runner now command (r, s) = (outcome, r'', s')"
    and "complete = CompleteAgentCommand (amb_complete_end amb) result" "arrives = (\<lambda>n. reaches (transports n))"
  shows "(\<exists>k \<in> {1..3}. s' = uploaded arrives others complete s k
        \<and> (outcome = None \<longleftrightarrow> transports k = Delivered \<and> filed arrives others complete s k))
    \<and> (\<forall>i j. 1 \<le> i \<and> i < j \<and> filed arrives others complete s i \<and> filed arrives others complete s j \<longrightarrow>
        (\<exists>m. i < m \<and> m \<le> j \<and> closed_to result (uploaded arrives others complete s (m - 1))
           \<and> \<not> closed_to result (found arrives others complete s m)))
    \<and> ((\<forall>n t. others n t = t) \<longrightarrow> s' \<in> {s, snd (complete s)})"
proof -
  let ?send = "\<lambda>attempt. sendCommandResult codec
    (\<lambda>request t. over (transports attempt) (ServeHTTP codec h) request (others attempt t)) runner result"
  have send: "send_attempts ?send waited [1, 2, 3] s = (outcome, s')"
    using assms(4,6) by (auto simp: executeAndSendCommand_def split: prod.splits)
  have last: "\<exists>k \<in> {1..3}. s' = uploaded arrives others complete s k
      \<and> (outcome = None \<longleftrightarrow> transports k = Delivered \<and> filed arrives others complete s k)"
    by (rule attempts_uploaded [OF _ _ _ send])
      (simp_all add: sendCommandResult_over [OF assms(1,2,3,5)] assms(7,8) reaches_def)
  with hub_results.filed_again hub_results.alone_uploaded show ?thesis unfolding assms(7) by blast
qed

text \<open>
  C39: a command whose encoding does not fit the 64 KiB the agent reads is lost: the poll fails, and
  the server has already taken the command from its queue, so no agent gets it again. (A
  probe request may carry a body of 64 KiB, whose command is larger.)
\<close>

theorem oversized_command_lost:
  assumes "hd_agentCommands h = Some (hub_AgentCommandBroker amb)" "trusts h (rn_config runner)"
    "server_url (rn_config runner)"
    and "next_up (amb_now amb) (cfg_ClusterID (rn_config runner)) command s"
    and "length (enc_AgentCommand codec command) > 64 * 1024"
    and "dec_AgentCommand codec (take (64 * 1024) (enc_AgentCommand codec command)) = None"
  shows "\<exists>s'. nextCommand codec (over Delivered (ServeHTTP codec h)) runner s = (Inl CommandUndecodable, s')
    \<and> queue_of s' (cfg_ClusterID (rn_config runner)) = tl (queue_of s (cfg_ClusterID (rn_config runner)))"
proof -
  have "take (64 * 1024) (enc_AgentCommand codec command @ [byte 10])
      = take (64 * 1024) (enc_AgentCommand codec command)"
    using assms(5) by simp
  with nextCommand_polls [OF assms(1-4)] assms(6)
  have "nextCommand codec (over Delivered (ServeHTTP codec h)) runner s =
      (Inl CommandUndecodable, polled_store (cfg_ClusterID (rn_config runner)) s)" by simp
  moreover have "queue_of (polled_store c s) c = tl (queue_of s c)" for c
    by (simp add: polled_store_def queue_of_def)
  ultimately show ?thesis by blast
qed

section \<open>A server and its agent\<close>

definition sample_config :: AgentConfig where
  "sample_config = \<lparr>cfg_ServerURL = ''http://gatelens'', cfg_Token = ''t'', cfg_ClusterID = ''a'',
     cfg_ClusterName = ''a'', cfg_Interval = 30 * nanos\<rparr>"

definition sample_runner :: "unit Runner" where
  "sample_runner = \<lparr>rn_reader = (\<lambda>_. \<lparr>rd_Context = (\<lambda>_. zero_Context), rd_Topology = (\<lambda>_. zero_Topology),
     rd_EnvoyConfig = (\<lambda>_ u. (Inl ''no such gateway'', u)), rd_Findings = (\<lambda>_. []),
     rd_Resources = (\<lambda>_ _. [])\<rparr>), rn_probeExecutor = None, rn_config = sample_config\<rparr>"

definition sample_ambient :: Ambient where
  "sample_ambient = \<lparr>amb_digest = id, amb_now = zero_time, amb_received = zero_time,
     amb_fresh = Inr ''k1'', amb_offer = None, amb_environment = (\<lambda>s. (s, None)),
     amb_poll_end = None, amb_complete_end = None, amb_run = sample_run\<rparr>"

definition sample_handler :: "Store Handler" where
  "sample_handler = WithAgentCommandBroker (hub_AgentCommandBroker sample_ambient) ''t''
     (new_handler (hub_Reader sample_ambient) [])"

text \<open>A codec that knows the messages of the sample, their texts given.\<close>

definition sample_codec :: "string \<Rightarrow> Codec" where
  "sample_codec t =
     \<lparr>enc_strings = (\<lambda>_. []), enc_Context = (\<lambda>_. []), enc_Topology = (\<lambda>_. []),
      enc_EnvoyConfig = (\<lambda>_. []), enc_Findings = (\<lambda>_. []), enc_Resources = (\<lambda>_. []),
      enc_ProbeExecution = (\<lambda>_. []), enc_AgentCommand = (\<lambda>_. t),
      enc_AgentCommandResult = (\<lambda>_. t), enc_AgentSnapshot = (\<lambda>_. []),
      dec_ProbeRequest = (\<lambda>_. None), dec_AgentSnapshot = (\<lambda>_. None),
      dec_AgentCommand = (\<lambda>x. if length x \<le> length t \<and> length t > 64 * 1024 then None else Some sample_command),
      dec_AgentCommandResult = (\<lambda>_. Some (fst (executeCommand sample_runner zero_time sample_command ())))\<rparr>"

lemma sample_server_url: "server_url (rn_config sample_runner)"
proof -
  have "server_url sample_config" by code_simp
  then show ?thesis by (simp add: sample_runner_def)
qed

lemma sample_handler_fields:
  "hd_agentCommands sample_handler = Some (hub_AgentCommandBroker sample_ambient)"
  "trusts sample_handler (rn_config sample_runner)"
  by (simp_all add: sample_handler_def WithAgentCommandBroker_def trusts_def sample_runner_def sample_config_def)

lemma sample_next_up:
  "next_up zero_time ''a'' sample_command sample_offered"
  "st_pendingCommands sample_offered ''k1'' = Some \<lparr>pend_clusterID = ''a'', pend_result = None\<rparr>"
proof -
  let ?s = "snd (ReceiveSnapshot zero_time zero_time (sample_payload ''a'' []) (NewStore ''a'' 0))"
  have "st_commandQueues ?s = (\<lambda>_. None)"
    by (simp add: ReceiveSnapshot_def NewStore_def split: sum.split)
  note facts = this NewStore_def sample_offered_def offer_command_def Let_def queue_of_def register_command_def
    ensure_queue_def agentCommandQueueSize_def sample_command_def
  have q: "queue_of sample_offered ''a'' = [sample_command]" by (simp add: facts)
  show p: "st_pendingCommands sample_offered ''k1'' = Some \<lparr>pend_clusterID = ''a'', pend_result = None\<rparr>"
    by (simp add: facts)
  have "map_of (st_snapshots sample_offered) ''a'' \<noteq> None" by code_simp
  moreover have "parse_rfc3339 (cmd_Deadline sample_command) = None" by code_simp
  ultimately show "next_up zero_time ''a'' sample_command sample_offered"
    using sample_run_facts(4) p q by (simp add: next_up_def deliverable_def sample_command_def)
qed

lemma sample_errors_speak: "errors_speak sample_runner"
proof -
  have "TrimSpace ''no such gateway'' \<noteq> []" by code_simp
  then show ?thesis by (simp add: errors_speak_def sample_runner_def)
qed

lemma sample_carries:
  "carries_command (sample_codec ''{}'') sample_command"
  "carries_result (sample_codec ''{}'') (fst (executeCommand sample_runner zero_time sample_command ()))"
  by (simp_all add: carries_command_def carries_result_def sample_codec_def)

lemma sample_identities:
  "cfg_ClusterID (rn_config sample_runner) = ''a''" "cmd_ClusterID sample_command = ''a''"
  "cmd_ID sample_command = ''k1''" "TrimSpace ''k1'' = ''k1''" "amb_now sample_ambient = zero_time"
  "amb_complete_end sample_ambient = None"
  by (simp_all add: sample_runner_def sample_config_def sample_command_def sample_ambient_def
    TrimSpace_plain plain_ends_def)

lemma command_round_trip_witness:
  "\<exists>s1 r' s2 s3. executeAndSendCommand (sample_codec ''{}'')
      (\<lambda>_. over Delivered (ServeHTTP (sample_codec ''{}'') sample_handler)) (\<lambda>_. True) sample_runner
      zero_time sample_command ((), s1) = (None, r', s2)
    \<and> receive_result ''k1'' s2 = Some (fst (executeCommand sample_runner zero_time sample_command ()), s3)"
  using command_round_trip [OF sample_handler_fields sample_server_url _ _ _ _ _ _ sample_errors_speak
      sample_carries, of sample_offered] sample_next_up
  by (simp add: sample_identities) blast

text \<open>
  The first response is lost; before the second attempt the waiting goroutine takes the result, so
  that the second copy is filed as well, for nobody.
\<close>

abbreviation sample_transports :: "nat \<Rightarrow> Transport" where
  "sample_transports attempt \<equiv> (if attempt = 1 then ResponseLost ''reset'' else Delivered)"

definition sample_taken :: "nat \<Rightarrow> Store \<Rightarrow> Store" where
  "sample_taken attempt s = (if attempt = 2 then (case receive_result ''k1'' s of None \<Rightarrow> s | Some (result, s') \<Rightarrow> s') else s)"

lemma result_filed_once_witness:
  "\<exists>result outcome s'.
     executeAndSendCommand (sample_codec ''{}'') (\<lambda>attempt request t.
       over (sample_transports attempt) (ServeHTTP (sample_codec ''{}'') sample_handler) request (sample_taken attempt t))
       (\<lambda>_. True) sample_runner zero_time sample_command ((), sample_polled) = (outcome, (), s')
     \<and> filed (\<lambda>n. reaches (sample_transports n)) sample_taken (CompleteAgentCommand None result) sample_polled 1
     \<and> filed (\<lambda>n. reaches (sample_transports n)) sample_taken (CompleteAgentCommand None result) sample_polled 2
     \<and> \<not> closed_to result (found (\<lambda>n. reaches (sample_transports n)) sample_taken (CompleteAgentCommand None result) sample_polled 2)"
proof -
  let ?result = "fst (executeCommand sample_runner zero_time sample_command ())"
  let ?complete = "CompleteAgentCommand None ?result" and ?arrives = "\<lambda>n. reaches (sample_transports n)"
  obtain outcome r'' s' where run: "executeAndSendCommand (sample_codec ''{}'') (\<lambda>attempt request t.
       over (sample_transports attempt) (ServeHTTP (sample_codec ''{}'') sample_handler) request (sample_taken attempt t))
       (\<lambda>_. True) sample_runner zero_time sample_command ((), sample_polled) = (outcome, r'', s')"
    by (rule prod_cases3)
  have executed: "executeCommand sample_runner zero_time sample_command () = (?result, ())" by (simp add: prod_eq_iff)
  have ended: "CompleteAgentCommand None ?result = CompleteAgentCommand (amb_complete_end sample_ambient) ?result"
    by (simp add: sample_identities)
  have trimmed: "trimmed_result ?result = ?result"
    by (simp add: trimmed_result_def executeCommand_fields sample_identities TrimSpace_plain plain_ends_def)
  have accepts: "fst (?complete s) = Inr () \<and> st_pendingCommands (snd (?complete s)) ''k1'' = Some \<lparr>pend_clusterID = ''a'', pend_result = Some ?result\<rparr>"
    if "st_pendingCommands s ''k1'' = Some \<lparr>pend_clusterID = ''a'', pend_result = None\<rparr>" for s
  proof -
    have "complete_check None ?result s = Inr \<lparr>pend_clusterID = ''a'', pend_result = None\<rparr>"
      using that executeCommand_reports [OF sample_errors_speak, of zero_time sample_command "()"]
      by (simp add: complete_check_Inr executeCommand_fields sample_identities reports_def)
    then show ?thesis
      by (simp add: CompleteAgentCommand_def Let_def trimmed executeCommand_fields sample_identities)
  qed
  have "st_pendingCommands sample_polled ''k1'' = Some \<lparr>pend_clusterID = ''a'', pend_result = None\<rparr>"
    using sample_next_up(2) NextAgentCommand_next_up [OF sample_next_up(1)] by (simp add: sample_polled_def polled_store_def)
  note first = accepts [OF this]
  have filed1: "filed ?arrives sample_taken ?complete sample_polled 1"
    using first by (simp add: filed_def found_def reaches_def sample_taken_def)
  have state1: "uploaded ?arrives sample_taken ?complete sample_polled 1 = snd (?complete sample_polled)"
    by (simp add: reaches_def sample_taken_def)
  have "st_pendingCommands (found ?arrives sample_taken ?complete sample_polled 2) ''k1''
      = Some \<lparr>pend_clusterID = ''a'', pend_result = None\<rparr>"
    using first by (simp add: found_def sample_taken_def receive_result_def reaches_def)
  from accepts [OF this] have filed2: "filed ?arrives sample_taken ?complete sample_polled 2"
    by (simp add: filed_def reaches_def)
  from result_filed_once [OF sample_handler_fields sample_server_url executed sample_carries(2) run ended refl] filed1 filed2
  obtain m where "1 < m" "m \<le> 2" "\<not> closed_to ?result (found ?arrives sample_taken ?complete sample_polled m)"
    by (metis le_refl one_less_numeral_iff semiring_norm(76))
  then have "\<not> closed_to ?result (found ?arrives sample_taken ?complete sample_polled 2)" by (metis le_antisym Suc_1 Suc_leI One_nat_def)
  with run filed1 filed2 show ?thesis by (intro exI conjI) auto
qed

lemma oversized_command_lost_witness:
  "\<exists>s'. nextCommand (sample_codec (replicate 65537 (CHR ''x'')))
      (over Delivered (ServeHTTP (sample_codec (replicate 65537 (CHR ''x''))) sample_handler))
      sample_runner sample_offered = (Inl CommandUndecodable, s')"
  using oversized_command_lost [OF sample_handler_fields sample_server_url, of sample_command
      sample_offered "sample_codec (replicate 65537 (CHR ''x''))"] sample_next_up
  by (simp add: sample_identities sample_codec_def) blast

end
