(* ===== verification/Agent_Loop.thy ===== *)
theory Agent_Loop
  imports Agent_Runner
begin

text \<open>
  The two loops of the agent (\<open>Run\<close> and \<open>runCommands\<close> in \<open>internal/agent/agent.go\<close>): uploading at
  an interval, and polling for commands with exponential backoff, one command at a time
  except for observations, of which up to eight run beside the polling.
\<close>

definition snapshotReadyRetryDelay :: int where "snapshotReadyRetryDelay = 2 * nanos"
definition commandRetryDelay :: int where "commandRetryDelay = 2 * nanos"
definition maxCommandPollRetryDelay :: int where "maxCommandPollRetryDelay = 30 * nanos"
definition maxConcurrentObservers :: nat where "maxConcurrentObservers = 8"

section \<open>Uploading\<close>

text \<open>One round of \<open>Run\<close>: the delay until the next, and whether it starts the command loop.\<close>

definition run_round :: "int \<Rightarrow> bool \<Rightarrow> AgentError option \<Rightarrow> int \<times> bool" where
  "run_round interval commandsStarted err =
     (if err = None \<and> \<not> commandsStarted then (interval, True)
      else if err = Some LocalSnapshotNotReady then (snapshotReadyRetryDelay, False)
      else (interval, False))"

text \<open>The rounds of \<open>Run\<close> over the outcomes of its uploads, with the rounds that start the loop.\<close>

fun run_rounds :: "int \<Rightarrow> bool \<Rightarrow> AgentError option list \<Rightarrow> (int \<times> bool) list" where
  "run_rounds interval commandsStarted [] = []"
| "run_rounds interval commandsStarted (err # errs) =
     (let (delay, start) = run_round interval commandsStarted err in
      (delay, start) # run_rounds interval (commandsStarted \<or> start) errs)"

lemma run_rounds_started: "list_all (\<lambda>r. \<not> snd r) (run_rounds interval True errs)"
  by (induction errs) (simp_all add: run_round_def)

text \<open>The command loop starts once, with the first accepted upload, and never without one.\<close>

lemma run_rounds_start_once:
  "length (filter snd (run_rounds interval False errs)) = (if None \<in> set errs then 1 else 0)"
proof (induction errs)
  case (Cons err errs)
  then show ?case
    using run_rounds_started [of interval errs]
    by (cases err) (auto simp: run_round_def list_all_iff filter_empty_conv dest!: bspec)
qed simp

section \<open>Polling for commands\<close>

datatype PollerPhase =
    Polling
  | BackingOff
  | Executing AgentCommand
  | Admitting AgentCommand
  | PollerStopped

record Poller =
  pl_phase :: PollerPhase
  pl_retryDelay :: int
  pl_observers :: "AgentCommand list"

definition initial_poller :: Poller where
  "initial_poller = \<lparr>pl_phase = Polling, pl_retryDelay = commandRetryDelay, pl_observers = []\<rparr>"

text \<open>
  What can happen: the poll returns, a wait elapses, a command is done, a slot for an observation
  becomes free, or the agent is told to stop. \<open>None\<close>: not in this phase.
\<close>

datatype PollerEvent =
    PollFailed
  | PollEmpty
  | PollCommand AgentCommand
  | RetryElapsed
  | CommandDone
  | SlotTaken
  | ObserverDone AgentCommand
  | Cancelled

fun poller_step :: "PollerEvent \<Rightarrow> Poller \<Rightarrow> Poller option" where
  "poller_step PollFailed p =
     (if pl_phase p = Polling then Some (p\<lparr>pl_phase := BackingOff\<rparr>) else None)"
| "poller_step PollEmpty p =
     (if pl_phase p = Polling then Some (p\<lparr>pl_retryDelay := commandRetryDelay\<rparr>) else None)"
| "poller_step (PollCommand command) p =
     (if pl_phase p = Polling
      then Some (p\<lparr>pl_retryDelay := commandRetryDelay,
        pl_phase := (if cmd_Kind command = AgentCommandProbeObserve then Admitting command
                     else Executing command)\<rparr>)
      else None)"
| "poller_step RetryElapsed p =
     (if pl_phase p = BackingOff
      then Some (p\<lparr>pl_phase := Polling,
        pl_retryDelay := (if pl_retryDelay p * 2 > maxCommandPollRetryDelay
                          then maxCommandPollRetryDelay else pl_retryDelay p * 2)\<rparr>)
      else None)"
| "poller_step CommandDone p =
     (case pl_phase p of Executing command \<Rightarrow> Some (p\<lparr>pl_phase := Polling\<rparr>) | _ \<Rightarrow> None)"
| "poller_step SlotTaken p =
     (case pl_phase p of
        Admitting command \<Rightarrow>
          (if length (pl_observers p) < maxConcurrentObservers
           then Some (p\<lparr>pl_phase := Polling, pl_observers := command # pl_observers p\<rparr>) else None)
      | _ \<Rightarrow> None)"
| "poller_step (ObserverDone command) p =
     (if command \<in> set (pl_observers p)
      then Some (p\<lparr>pl_observers := remove1 command (pl_observers p)\<rparr>) else None)"
| "poller_step Cancelled p = Some (p\<lparr>pl_phase := PollerStopped\<rparr>)"

text \<open>The states after a sequence of events.\<close>

inductive poller_trace :: "PollerEvent list \<Rightarrow> Poller \<Rightarrow> bool" where
  start: "poller_trace [] initial_poller"
| step: "poller_trace events p \<Longrightarrow> poller_step event p = Some p' \<Longrightarrow> poller_trace (events @ [event]) p'"

text \<open>The failed polls since the last answered one determine the delay.\<close>

definition answered_poll :: "PollerEvent \<Rightarrow> bool" where
  "answered_poll event \<longleftrightarrow> (case event of PollEmpty \<Rightarrow> True | PollCommand command \<Rightarrow> True | _ \<Rightarrow> False)"

definition failed_polls :: "PollerEvent list \<Rightarrow> nat" where
  "failed_polls events = length (filter (\<lambda>e. e = PollFailed) (takeWhile (\<lambda>e. \<not> answered_poll e) (rev events)))"

definition backoff :: "nat \<Rightarrow> int" where
  "backoff n = min (30 * nanos) (2 * nanos * 2 ^ n)"

definition poller_inv :: "PollerEvent list \<Rightarrow> Poller \<Rightarrow> bool" where
  "poller_inv events p \<longleftrightarrow>
     (\<exists>n. pl_retryDelay p = backoff n)
     \<and> (pl_phase p = BackingOff \<longrightarrow> failed_polls events \<ge> 1 \<and> pl_retryDelay p = backoff (failed_polls events - 1))
     \<and> (pl_phase p \<notin> {BackingOff, PollerStopped} \<longrightarrow> pl_retryDelay p = backoff (failed_polls events))
     \<and> length (pl_observers p) \<le> maxConcurrentObservers
     \<and> list_all (\<lambda>c. cmd_Kind c = AgentCommandProbeObserve) (pl_observers p)
     \<and> (case pl_phase p of Executing c \<Rightarrow> cmd_Kind c \<noteq> AgentCommandProbeObserve
        | Admitting c \<Rightarrow> cmd_Kind c = AgentCommandProbeObserve | _ \<Rightarrow> True)"

lemma failed_polls_step:
  "failed_polls (events @ [event]) =
     (if answered_poll event then 0 else if event = PollFailed then Suc (failed_polls events) else failed_polls events)"
  by (simp add: failed_polls_def)

lemma backoff_0: "commandRetryDelay = backoff 0"
  by (simp add: backoff_def commandRetryDelay_def nanos_def)

lemma backoff_Suc:
  "(if backoff n * 2 > maxCommandPollRetryDelay then maxCommandPollRetryDelay else backoff n * 2)
     = backoff (Suc n)"
  by (auto simp: backoff_def maxCommandPollRetryDelay_def nanos_def min_def)

lemma backoff_values: "backoff n \<in> {2 * nanos, 4 * nanos, 8 * nanos, 16 * nanos, 30 * nanos}"
proof (cases "n < 4")
  case True
  then have "n = 0 \<or> n = 1 \<or> n = 2 \<or> n = 3" by auto
  then show ?thesis by (auto simp: backoff_def nanos_def)
next
  case False
  then have "(2::int) ^ 4 \<le> 2 ^ n" by (intro power_increasing) auto
  then show ?thesis by (simp add: backoff_def nanos_def min_def)
qed

lemma poller_inv_step:
  assumes inv: "poller_inv events p" and step: "poller_step event p = Some p'"
  shows "poller_inv (events @ [event]) p'"
proof (cases event)
  case PollFailed
  with assms show ?thesis by (auto simp: poller_inv_def failed_polls_step answered_poll_def split: if_splits)
next
  case PollEmpty
  with assms show ?thesis by (auto simp: poller_inv_def backoff_0 failed_polls_step answered_poll_def split: if_splits)
next
  case (PollCommand c)
  with assms show ?thesis by (auto simp: poller_inv_def backoff_0 failed_polls_step answered_poll_def split: if_splits)
next
  case RetryElapsed
  then have phase: "pl_phase p = BackingOff" using step by (simp split: if_splits)
  with inv obtain n where n: "pl_retryDelay p = backoff n" "failed_polls events = Suc n"
    unfolding poller_inv_def by (metis Suc_diff_le diff_Suc_1 Suc_le_eq One_nat_def Suc_pred)
  with RetryElapsed step phase backoff_Suc [of n]
  have "p' = p\<lparr>pl_phase := Polling, pl_retryDelay := backoff (Suc n)\<rparr>" by (simp split: if_splits)
  with inv n show ?thesis by (auto simp: RetryElapsed poller_inv_def failed_polls_step answered_poll_def)
next
  case CommandDone
  with assms show ?thesis
    by (auto simp: poller_inv_def failed_polls_step answered_poll_def split: PollerPhase.splits)
next
  case SlotTaken
  with assms show ?thesis
    by (auto simp: poller_inv_def failed_polls_step answered_poll_def split: PollerPhase.splits if_splits)
next
  case (ObserverDone c)
  with step have p': "p' = p\<lparr>pl_observers := remove1 c (pl_observers p)\<rparr>" by (simp split: if_splits)
  have "length (remove1 c (pl_observers p)) \<le> length (pl_observers p)"
    by (simp add: length_remove1)
  with inv show ?thesis unfolding p'
    by (auto simp: poller_inv_def ObserverDone failed_polls_step answered_poll_def list_all_iff
        dest: set_remove1_subset [THEN subsetD])
next
  case Cancelled
  with assms show ?thesis by (auto simp: poller_inv_def)
qed

lemma poller_inv_trace: "poller_trace events p \<Longrightarrow> poller_inv events p"
proof (induction rule: poller_trace.induct)
  case start
  show ?case using backoff_0 by (auto simp: poller_inv_def initial_poller_def failed_polls_def)
qed (rule poller_inv_step)

lemma executing_steps:
  "pl_phase p = Executing c \<Longrightarrow> poller_step event p \<noteq> None \<Longrightarrow>
     event = CommandDone \<or> event = Cancelled \<or> (\<exists>observation. event = ObserverDone observation)"
  by (cases event) simp_all

section \<open>Properties\<close>

text \<open>
  C38: after every sequence of events of the command loop at most eight commands run beside it, all of
  them observations. Any other command is executed by the loop itself: while it runs, the loop does not
  poll and starts nothing; only observations may end. The wait after a failed poll takes 2, 4, 8, 16 or 30
  seconds: 2 seconds after the first failure since the last answered poll, and twice as long with
  every further failure in a row, up to the maximum.
\<close>

theorem command_loop_bounded:
  assumes "poller_trace events p"
  shows "length (pl_observers p) \<le> 8
    \<and> (\<forall>c \<in> set (pl_observers p). cmd_Kind c = AgentCommandProbeObserve)
    \<and> (\<forall>c. pl_phase p = Executing c \<longrightarrow> cmd_Kind c \<noteq> AgentCommandProbeObserve
         \<and> (\<forall>event. poller_step event p \<noteq> None \<longrightarrow>
              event = CommandDone \<or> event = Cancelled \<or> (\<exists>observation. event = ObserverDone observation)))
    \<and> pl_retryDelay p \<in> {2 * nanos, 4 * nanos, 8 * nanos, 16 * nanos, 30 * nanos}
    \<and> (pl_phase p = BackingOff \<longrightarrow>
         failed_polls events \<ge> 1 \<and> pl_retryDelay p = min (30 * nanos) (2 * nanos * 2 ^ (failed_polls events - 1)))"
proof -
  have inv: "poller_inv events p" by (rule poller_inv_trace [OF assms])
  then obtain n where "pl_retryDelay p = backoff n" by (auto simp: poller_inv_def)
  with backoff_values [of n] have delay: "pl_retryDelay p \<in> {2 * nanos, 4 * nanos, 8 * nanos, 16 * nanos, 30 * nanos}"
    by (simp only:)
  have "\<forall>c. pl_phase p = Executing c \<longrightarrow> cmd_Kind c \<noteq> AgentCommandProbeObserve
      \<and> (\<forall>event. poller_step event p \<noteq> None \<longrightarrow>
           event = CommandDone \<or> event = Cancelled \<or> (\<exists>observation. event = ObserverDone observation))"
    using inv executing_steps [of p] by (auto simp: poller_inv_def)
  with inv delay show ?thesis by (auto simp: poller_inv_def maxConcurrentObservers_def list_all_iff backoff_def)
qed

text \<open>Two failed polls in a row: the second wait takes four seconds.\<close>

lemma command_loop_bounded_witness:
  "\<exists>p. poller_trace [PollEmpty, PollFailed, RetryElapsed, PollFailed] p \<and> pl_phase p = BackingOff
     \<and> pl_retryDelay p = 4 * nanos \<and> length (pl_observers p) \<le> 8"
proof -
  let ?p = "\<lambda>phase delay. initial_poller\<lparr>pl_phase := phase, pl_retryDelay := delay\<rparr>"
  have "poller_trace ([] @ [PollEmpty]) initial_poller"
    by (rule poller_trace.step [OF poller_trace.start]) (simp add: initial_poller_def)
  then have "poller_trace (([] @ [PollEmpty]) @ [PollFailed]) (?p BackingOff commandRetryDelay)"
    by (rule poller_trace.step) (simp add: initial_poller_def)
  then have "poller_trace ((([] @ [PollEmpty]) @ [PollFailed]) @ [RetryElapsed]) (?p Polling (4 * nanos))"
    by (rule poller_trace.step) (simp add: initial_poller_def commandRetryDelay_def maxCommandPollRetryDelay_def nanos_def)
  then have "poller_trace (((([] @ [PollEmpty]) @ [PollFailed]) @ [RetryElapsed]) @ [PollFailed]) (?p BackingOff (4 * nanos))"
    by (rule poller_trace.step) (simp add: initial_poller_def)
  then have run: "poller_trace [PollEmpty, PollFailed, RetryElapsed, PollFailed] (?p BackingOff (4 * nanos))" by simp
  with command_loop_bounded [OF run] show ?thesis by (intro exI [of _ "?p BackingOff (4 * nanos)"]) simp
qed

end
