(* ===== verification/Demo_Data.thy ===== *)
theory Demo_Data
  imports Domain_Types
begin

text \<open>
  The built-in data of demo mode, \<open>internal/demo/store.go\<close>: two clusters, their topology, the
  findings, the resources and one gateway's proxy configuration, literal for literal.
  The Chinese texts are the UTF-8 bytes of the source's literals, each with its meaning.
\<close>

section \<open>Texts\<close>

text \<open>"accepted"\<close>

definition demo_accepted :: string where
  "demo_accepted = utf8 [229, 183, 178, 230, 142, 165, 229, 143, 151]"

text \<open>"the Gateway of the public API, handled by the Higress workload"\<close>

definition demo_public_gateway :: string where
  "demo_public_gateway = utf8 [233, 157, 162, 229, 144, 145, 229, 133, 172, 231, 189, 145, 32, 65, 80, 73, 32, 231,
     154, 132, 32, 71, 97, 116, 101, 119, 97, 121, 239, 188, 140, 231, 148, 177, 32, 72,
     105, 103, 114, 101, 115, 115, 32, 229, 183, 165, 228, 189, 156, 232, 180, 159, 232,
     189, 189, 229, 164, 132, 231, 144, 134, 227, 128, 130]"

text \<open>"the HTTPS entry that matches api.ai.example.com"\<close>

definition demo_https_entry :: string where
  "demo_https_entry = utf8 [229, 140, 185, 233, 133, 141, 32, 97, 112, 105, 46, 97, 105, 46, 101, 120, 97, 109,
     112, 108, 101, 46, 99, 111, 109, 32, 231, 154, 132, 32, 72, 84, 84, 80, 83, 32, 229,
     133, 165, 229, 143, 163, 227, 128, 130]"

text \<open>"resolved"\<close>

definition demo_resolved :: string where
  "demo_resolved = utf8 [229, 183, 178, 232, 167, 163, 230, 158, 144]"

text \<open>"the chat route, attached to the entry Listener across namespaces"\<close>

definition demo_chat_route :: string where
  "demo_chat_route = utf8 [232, 183, 168, 229, 145, 189, 229, 144, 141, 231, 169, 186, 233, 151, 180, 233, 153,
     132, 231, 157, 128, 229, 136, 176, 229, 133, 165, 229, 143, 163, 32, 76, 105, 115,
     116, 101, 110, 101, 114, 32, 231, 154, 132, 232, 129, 138, 229, 164, 169, 232, 183,
     175, 231, 148, 177, 227, 128, 130]"

text \<open>"1 warning"\<close>

definition demo_one_warning :: string where
  "demo_one_warning = utf8 [49, 32, 228, 184, 170, 232, 173, 166, 229, 145, 138]"

text \<open>"matches embeddings requests, but the target Service has no ready endpoint"\<close>

definition demo_embeddings_route :: string where
  "demo_embeddings_route = utf8 [229, 140, 185, 233, 133, 141, 32, 101, 109, 98, 101, 100, 100, 105, 110, 103, 115,
     32, 232, 175, 183, 230, 177, 130, 239, 188, 140, 228, 189, 134, 231, 155, 174, 230,
     160, 135, 32, 83, 101, 114, 118, 105, 99, 101, 32, 230, 178, 161, 230, 156, 137, 32,
     82, 101, 97, 100, 121, 32, 69, 110, 100, 112, 111, 105, 110, 116, 227, 128, 130]"

text \<open>"the model's candidate pool; one endpoint is excluded"\<close>

definition demo_candidate_pool :: string where
  "demo_candidate_pool = utf8 [230, 168, 161, 229, 158, 139, 229, 128, 153, 233, 128, 137, 230, 177, 160, 239, 188,
     155, 228, 184, 128, 228, 184, 170, 231, 171, 175, 231, 130, 185, 232, 162, 171, 230,
     142, 146, 233, 153, 164, 227, 128, 130]"

text \<open>"endpoint not available"\<close>

definition demo_endpoint_unavailable :: string where
  "demo_endpoint_unavailable = utf8 [231, 171, 175, 231, 130, 185, 228, 184, 141, 229, 143, 175, 231, 148, 168]"

text \<open>"the Service is resolved but has no ready endpoint"\<close>

definition demo_service_unready :: string where
  "demo_service_unready = utf8 [83, 101, 114, 118, 105, 99, 101, 32, 229, 183, 178, 232, 167, 163, 230, 158, 144,
     239, 188, 140, 228, 189, 134, 230, 178, 161, 230, 156, 137, 32, 82, 101, 97, 100,
     121, 32, 69, 110, 100, 112, 111, 105, 110, 116, 227, 128, 130]"

text \<open>"qwen2.5-72b-instruct, replica A"\<close>

definition demo_replica_a :: string where
  "demo_replica_a = utf8 [113, 119, 101, 110, 50, 46, 53, 45, 55, 50, 98, 45, 105, 110, 115, 116, 114, 117,
     99, 116, 32, 229, 137, 175, 230, 156, 172, 32, 65, 227, 128, 130]"

text \<open>"qwen2.5-72b-instruct, replica B"\<close>

definition demo_replica_b :: string where
  "demo_replica_b = utf8 [113, 119, 101, 110, 50, 46, 53, 45, 55, 50, 98, 45, 105, 110, 115, 116, 114, 117,
     99, 116, 32, 229, 137, 175, 230, 156, 172, 32, 66, 227, 128, 130]"

text \<open>"readiness=false, excluded from the candidates"\<close>

definition demo_excluded :: string where
  "demo_excluded = utf8 [114, 101, 97, 100, 105, 110, 101, 115, 115, 61, 102, 97, 108, 115, 101, 239, 188,
     140, 229, 183, 178, 228, 187, 142, 229, 128, 153, 233, 128, 137, 233, 155, 134, 228,
     184, 173, 230, 142, 146, 233, 153, 164, 227, 128, 130]"

text \<open>"remote side not connected"\<close>

definition demo_remote_unconnected :: string where
  "demo_remote_unconnected = utf8 [232, 191, 156, 231, 171, 175, 230, 156, 170, 230, 142, 165, 229, 133, 165]"

text \<open>"boundary of the Istio IngressGateway of a separate inference cluster; only the HTTPS+mTLS target is known"\<close>

definition demo_transit_boundary :: string where
  "demo_transit_boundary = utf8 [231, 139, 172, 231, 171, 139, 230, 142, 168, 231, 144, 134, 233, 155, 134, 231, 190,
     164, 231, 154, 132, 32, 73, 115, 116, 105, 111, 32, 73, 110, 103, 114, 101, 115,
     115, 71, 97, 116, 101, 119, 97, 121, 32, 232, 190, 185, 231, 149, 140, 227, 128,
     130, 229, 143, 170, 231, 159, 165, 233, 129, 147, 32, 72, 84, 84, 80, 83, 43, 109,
     84, 76, 83, 32, 231, 155, 174, 230, 160, 135, 239, 188, 140, 229, 176, 154, 230,
     156, 170, 230, 142, 165, 229, 133, 165, 232, 191, 156, 231, 171, 175, 233, 133, 141,
     231, 189, 174, 227, 128, 130]"

text \<open>"a middle dot"\<close>

definition demo_dot :: string where
  "demo_dot = utf8 [194, 183]"

text \<open>"the backend has no available endpoint"\<close>

definition demo_no_endpoint :: string where
  "demo_no_endpoint = utf8 [229, 144, 142, 231, 171, 175, 230, 178, 161, 230, 156, 137, 229, 143, 175, 231, 148,
     168, 32, 69, 110, 100, 112, 111, 105, 110, 116]"

text \<open>"the endpoint is excluded from the inference pool"\<close>

definition demo_endpoint_excluded :: string where
  "demo_endpoint_excluded = utf8 [69, 110, 100, 112, 111, 105, 110, 116, 32, 232, 162, 171, 230, 142, 168, 231, 144,
     134, 230, 177, 160, 230, 142, 146, 233, 153, 164]"

text \<open>"there is an unsupported extension filter"\<close>

definition demo_unknown_filter :: string where
  "demo_unknown_filter = utf8 [229, 173, 152, 229, 156, 168, 230, 156, 170, 230, 148, 175, 230, 140, 129, 231, 154,
     132, 230, 137, 169, 229, 177, 149, 232, 191, 135, 230, 187, 164, 229, 153, 168]"

text \<open>"2 minutes ago"\<close>

definition demo_two_minutes :: string where
  "demo_two_minutes = utf8 [50, 32, 229, 136, 134, 233, 146, 159, 229, 137, 141]"

text \<open>"1 minute ago"\<close>

definition demo_one_minute :: string where
  "demo_one_minute = utf8 [49, 32, 229, 136, 134, 233, 146, 159, 229, 137, 141]"

text \<open>"available"\<close>

definition demo_available :: string where
  "demo_available = utf8 [229, 143, 175, 231, 148, 168]"

text \<open>"no endpoint"\<close>

definition demo_without_endpoint :: string where
  "demo_without_endpoint = utf8 [230, 151, 160, 32, 69, 110, 100, 112, 111, 105, 110, 116]"

section \<open>Topology\<close>

definition demoClusters :: "Snapshot \<Rightarrow> TopologyCluster list" where
  "demoClusters edgeSnapshot =
    (let gpuSnapshot = zero_Snapshot\<lparr>sn_ID := ''snapshot-gpu-prod-20260724-104246'',
    sn_ObservedAt := ''2026-07-24T10:42:46+08:00'', sn_State := ''complete''\<rparr> in
    [(zero_TopologyCluster\<lparr>tc_ID := ''edge-prod'', tc_Name := ''prod-cn-shanghai'',
    tc_Environment := ''production'', tc_Version := ''Kubernetes 1.31'',
    tc_ConnectionState := ''connected'', tc_Namespaces := [''higress-system'', ''ai-platform'',
    ''inference''], tc_Snapshot := edgeSnapshot\<rparr>),
    (zero_TopologyCluster\<lparr>tc_ID := ''gpu-prod'', tc_Name := ''prod-cn-shanghai-gpu'',
    tc_Environment := ''production'', tc_Version := ''Kubernetes 1.30'',
    tc_ConnectionState := ''connected'', tc_Namespaces := [''istio-system'', ''inference''],
    tc_Snapshot := gpuSnapshot\<rparr>)])"

definition demoNodes :: "TopologyNode list" where
  "demoNodes =
    [(zero_TopologyNode\<lparr>node_ID := ''gateway-public'', node_Name := ''ai-public-gateway'',
    node_Kind := TopologyNodeKindGateway, node_Namespace := ''ai-platform'',
    node_ClusterID := ''edge-prod'', node_Status := StatusHealthy, node_StatusText := demo_accepted,
    node_Summary := demo_public_gateway, node_Conditions := [''Accepted=True'', ''Programmed=True'',
    ''EnvoyConfig=available'', ''Controller=higress.io/gateway-controller'',
    ''Workload=higress-system/higress-gateway'', ''ReadyReplicas=3''],
    node_Source := ''gateway.networking.k8s.io/v1 Gateway'',
    node_WorkloadScope := ''higress-system''\<rparr>),
    (zero_TopologyNode\<lparr>node_ID := ''listener-https'', node_Name := ''https-api'',
    node_Kind := TopologyNodeKindListener, node_Namespace := ''ai-platform'',
    node_ClusterID := ''edge-prod'', node_Status := StatusHealthy, node_StatusText := demo_accepted,
    node_Summary := demo_https_entry, node_Conditions := [''Accepted=True'', ''ResolvedRefs=True''],
    node_Source := ''Gateway.spec.listeners[0]''\<rparr>),
    (zero_TopologyNode\<lparr>node_ID := ''route-chat'', node_Name := ''chat-completions'',
    node_Kind := TopologyNodeKindHTTPRoute, node_Namespace := ''inference'',
    node_ClusterID := ''edge-prod'', node_Status := StatusHealthy, node_StatusText := demo_resolved,
    node_Summary := demo_chat_route, node_Conditions := [''Accepted=True'', ''ResolvedRefs=True''],
    node_Source := ''gateway.networking.k8s.io/v1 HTTPRoute''\<rparr>),
    (zero_TopologyNode\<lparr>node_ID := ''route-embeddings'', node_Name := ''embeddings-v1'',
    node_Kind := TopologyNodeKindHTTPRoute, node_Namespace := ''inference'',
    node_ClusterID := ''edge-prod'', node_Status := StatusWarning, node_StatusText := demo_one_warning,
    node_Summary := demo_embeddings_route, node_Conditions := [''Accepted=True'', ''BackendNotReady=True''],
    node_Source := ''gateway.networking.k8s.io/v1 HTTPRoute''\<rparr>),
    (zero_TopologyNode\<lparr>node_ID := ''pool-qwen'', node_Name := ''qwen-production'',
    node_Kind := TopologyNodeKindInferencePool, node_Namespace := ''inference'',
    node_ClusterID := ''edge-prod'', node_Status := StatusHealthy, node_StatusText := ''2/3 Ready'',
    node_Summary := demo_candidate_pool, node_Conditions := [''Resolved=True'', ''AvailableEndpoints=2/3''],
    node_Source := ''inference.networking.k8s.io/v1 InferencePool''\<rparr>),
    (zero_TopologyNode\<lparr>node_ID := ''service-embedding'', node_Name := ''embedding-backend'',
    node_Kind := TopologyNodeKindService, node_Namespace := ''inference'', node_ClusterID := ''edge-prod'',
    node_Status := StatusError, node_StatusText := demo_endpoint_unavailable,
    node_Summary := demo_service_unready, node_Conditions := [''ReadyEndpoints=0''],
    node_Source := ''v1 Service''\<rparr>),
    (zero_TopologyNode\<lparr>node_ID := ''endpoint-qwen-a'', node_Name := ''qwen-72b-a'',
    node_Kind := TopologyNodeKindEndpoint, node_Namespace := ''inference'', node_ClusterID := ''edge-prod'',
    node_Status := StatusHealthy, node_StatusText := ''Ready'', node_Summary := demo_replica_a,
    node_Conditions := [''Ready=True'', ''Address=10.42.3.18'', ''TargetRef=Pod/inference/qwen-72b-a'',
    ''Port=8080'', ''Weight=50''], node_Source := ''discovery.k8s.io/v1 EndpointSlice''\<rparr>),
    (zero_TopologyNode\<lparr>node_ID := ''endpoint-qwen-b'', node_Name := ''qwen-72b-b'',
    node_Kind := TopologyNodeKindEndpoint, node_Namespace := ''inference'', node_ClusterID := ''edge-prod'',
    node_Status := StatusHealthy, node_StatusText := ''Ready'', node_Summary := demo_replica_b,
    node_Conditions := [''Ready=True'', ''Address=10.42.4.22'', ''Port=8080'', ''Weight=50''],
    node_Source := ''discovery.k8s.io/v1 EndpointSlice''\<rparr>),
    (zero_TopologyNode\<lparr>node_ID := ''endpoint-qwen-c'', node_Name := ''qwen-72b-c'',
    node_Kind := TopologyNodeKindEndpoint, node_Namespace := ''inference'', node_ClusterID := ''edge-prod'',
    node_Status := StatusWarning, node_StatusText := ''NotReady'', node_Summary := demo_excluded,
    node_Conditions := [''Ready=False'', ''Address=10.42.7.9'', ''Port=8080'', ''Excluded=True''],
    node_Source := ''discovery.k8s.io/v1 EndpointSlice''\<rparr>),
    (zero_TopologyNode\<lparr>node_ID := ''transit-inference'', node_Name := ''inference-gw.example'',
    node_Kind := TopologyNodeKindTransitHop, node_Namespace := [], node_ClusterID := ''edge-prod'',
    node_Status := StatusWarning, node_StatusText := demo_remote_unconnected,
    node_Summary := demo_transit_boundary, node_Conditions := [''Transport=HTTPS+mTLS'',
    ''RemoteCluster=unknown''], node_Source := ''Higress upstream configuration''\<rparr>),
    (zero_TopologyNode\<lparr>node_ID := ''gpu-ingress'', node_Name := ''inference-ingress'',
    node_Kind := TopologyNodeKindGateway, node_Namespace := ''istio-system'',
    node_ClusterID := ''gpu-prod'', node_Status := StatusHealthy, node_StatusText := ''Connected'',
    node_Summary := ''Istio ingress gateway for traffic from the edge cluster.'',
    node_Conditions := [''Programmed=True'', ''mTLS=STRICT'', ''ReadyReplicas=3''],
    node_Source := ''networking.istio.io/v1 Gateway'',
    node_WorkloadScope := ''gpu-prod/istio-system''\<rparr>),
    (zero_TopologyNode\<lparr>node_ID := ''gpu-listener'', node_Name := ''https-inference'',
    node_Kind := TopologyNodeKindListener, node_Namespace := ''istio-system'',
    node_ClusterID := ''gpu-prod'', node_Status := StatusHealthy, node_StatusText := ''Accepted'',
    node_Summary := ''TLS listener for the registered inference ingress endpoint.'',
    node_Conditions := [''Protocol=HTTPS'', ''TLS=PASSTHROUGH''],
    node_Source := ''Istio Gateway server''\<rparr>),
    (zero_TopologyNode\<lparr>node_ID := ''gpu-route-chat'', node_Name := ''qwen-chat'',
    node_Kind := TopologyNodeKindHTTPRoute, node_Namespace := ''inference'', node_ClusterID := ''gpu-prod'',
    node_Status := StatusHealthy, node_StatusText := ''Resolved'',
    node_Summary := ''Maps chat API traffic to the Qwen inference service.'',
    node_Conditions := [''ResolvedRefs=True'', ''Evidence=configuration''],
    node_Source := ''networking.istio.io/v1 VirtualService''\<rparr>),
    (zero_TopologyNode\<lparr>node_ID := ''gpu-service-qwen'', node_Name := ''qwen-72b-server'',
    node_Kind := TopologyNodeKindService, node_Namespace := ''inference'', node_ClusterID := ''gpu-prod'',
    node_Status := StatusHealthy, node_StatusText := ''2 Ready'',
    node_Summary := ''GPU inference service for qwen2.5-72b-instruct.'',
    node_Conditions := [''ReadyEndpoints=2''], node_Source := ''v1 Service''\<rparr>),
    (zero_TopologyNode\<lparr>node_ID := ''gpu-pool-qwen'', node_Name := ''qwen-production'',
    node_Kind := TopologyNodeKindInferencePool, node_Namespace := ''inference'',
    node_ClusterID := ''gpu-prod'', node_Status := StatusHealthy, node_StatusText := ''2/3 Ready'',
    node_Summary := ''Model candidate pool; one endpoint is excluded by readiness.'',
    node_Conditions := [''Resolved=True'', ''AvailableEndpoints=2/3''],
    node_Source := ''inference.networking.k8s.io/v1 InferencePool''\<rparr>),
    (zero_TopologyNode\<lparr>node_ID := ''gpu-endpoint-qwen-a'', node_Name := ''qwen-72b-a'',
    node_Kind := TopologyNodeKindEndpoint, node_Namespace := ''inference'', node_ClusterID := ''gpu-prod'',
    node_Status := StatusHealthy, node_StatusText := ''Ready'',
    node_Summary := ''qwen2.5-72b-instruct replica on gpu-a100-01.'', node_Conditions := [''Ready=True'',
    ''Service=inference/qwen-72b-server'', ''Address=10.42.3.18'', ''TargetRef=Pod/inference/qwen-72b-a'',
    ''Port=8080'', ''Node=gpu-a100-01'', ''GPU=A100-80G'', ''Weight=50''],
    node_Source := ''discovery.k8s.io/v1 EndpointSlice''\<rparr>),
    (zero_TopologyNode\<lparr>node_ID := ''gpu-endpoint-qwen-b'', node_Name := ''qwen-72b-b'',
    node_Kind := TopologyNodeKindEndpoint, node_Namespace := ''inference'', node_ClusterID := ''gpu-prod'',
    node_Status := StatusHealthy, node_StatusText := ''Ready'',
    node_Summary := ''qwen2.5-72b-instruct replica on gpu-a100-02.'', node_Conditions := [''Ready=True'',
    ''Service=inference/qwen-72b-server'', ''Address=10.42.4.22'', ''Port=8080'', ''Node=gpu-a100-02'',
    ''GPU=A100-80G'', ''Weight=50''], node_Source := ''discovery.k8s.io/v1 EndpointSlice''\<rparr>)]"

definition demoEdges :: "TopologyEdge list" where
  "demoEdges =
    [(zero_TopologyEdge\<lparr>edge_From := ''gateway-public'', edge_To := ''listener-https'',
    edge_Relation := ''owns''\<rparr>),
    (zero_TopologyEdge\<lparr>edge_From := ''listener-https'', edge_To := ''route-chat'',
    edge_Relation := ''attaches''\<rparr>),
    (zero_TopologyEdge\<lparr>edge_From := ''listener-https'', edge_To := ''route-embeddings'',
    edge_Relation := ''attaches''\<rparr>),
    (zero_TopologyEdge\<lparr>edge_From := ''route-chat'', edge_To := ''transit-inference'',
    edge_Relation := ''transit'', edge_Transport := ''HTTPS + mTLS'',
    edge_Destination := ''inference-gw.example'', edge_State := ''verified'',
    edge_Evidence := ''Higress upstream and TLS policy''\<rparr>),
    (zero_TopologyEdge\<lparr>edge_From := ''transit-inference'', edge_To := ''gpu-ingress'',
    edge_Relation := ''cross-cluster'', edge_Transport := ''HTTPS + mTLS'',
    edge_Destination := ''gpu-prod/istio-system/inference-ingress'', edge_State := ''resolved'',
    edge_Evidence := ''configuration target inference-gw.example matched remote Gateway address''\<rparr>),
    (zero_TopologyEdge\<lparr>edge_From := ''gpu-ingress'', edge_To := ''gpu-listener'',
    edge_Relation := ''owns''\<rparr>),
    (zero_TopologyEdge\<lparr>edge_From := ''gpu-listener'', edge_To := ''gpu-route-chat'',
    edge_Relation := ''attaches''\<rparr>),
    (zero_TopologyEdge\<lparr>edge_From := ''gpu-route-chat'', edge_To := ''gpu-service-qwen'',
    edge_Relation := ''routes''\<rparr>),
    (zero_TopologyEdge\<lparr>edge_From := ''gpu-service-qwen'', edge_To := ''gpu-pool-qwen'',
    edge_Relation := ''selects''\<rparr>),
    (zero_TopologyEdge\<lparr>edge_From := ''gpu-pool-qwen'', edge_To := ''gpu-endpoint-qwen-a'',
    edge_Relation := ''selects''\<rparr>),
    (zero_TopologyEdge\<lparr>edge_From := ''gpu-pool-qwen'', edge_To := ''gpu-endpoint-qwen-b'',
    edge_Relation := ''selects''\<rparr>),
    (zero_TopologyEdge\<lparr>edge_From := ''route-embeddings'', edge_To := ''service-embedding'',
    edge_Relation := ''routes''\<rparr>),
    (zero_TopologyEdge\<lparr>edge_From := ''pool-qwen'', edge_To := ''endpoint-qwen-a'',
    edge_Relation := ''selects''\<rparr>),
    (zero_TopologyEdge\<lparr>edge_From := ''pool-qwen'', edge_To := ''endpoint-qwen-b'',
    edge_Relation := ''selects''\<rparr>),
    (zero_TopologyEdge\<lparr>edge_From := ''pool-qwen'', edge_To := ''endpoint-qwen-c'',
    edge_Relation := ''excludes''\<rparr>)]"

section \<open>Proxy configuration\<close>

abbreviation demo_newline :: string where "demo_newline \<equiv> [byte 10]"

definition demoRawEnvoyConfig :: string where
  "demoRawEnvoyConfig =
    ''{'' @ demo_newline @
    ''  \"configs\": ['' @ demo_newline @
    ''    {'' @ demo_newline @
    ''      \"@type\": \"type.googleapis.com/envoy.admin.v3.ListenersConfigDump\",'' @ demo_newline @
    ''      \"dynamic_listeners\": ['' @ demo_newline @
    ''        {'' @ demo_newline @
    ''          \"name\": \"0.0.0.0_8443\",'' @ demo_newline @
    ''          \"active_state\": {'' @ demo_newline @
    ''            \"listener\": {'' @ demo_newline @
    ''              \"name\": \"0.0.0.0_8443\",'' @ demo_newline @
    ''              \"address\": {\"socket_address\": {\"address\": \"0.0.0.0\", \"port_value\": 8443}},'' @ demo_newline @
    ''              \"filter_chains\": ['' @ demo_newline @
    ''                {'' @ demo_newline @
    ''                  \"name\": \"https-api\",'' @ demo_newline @
    ''                  \"filter_chain_match\": {\"server_names\": [\"api.ai.example.com\"], \"transport_protocol\": \"tls\"},'' @ demo_newline @
    ''                  \"filters\": ['' @ demo_newline @
    ''                    {'' @ demo_newline @
    ''                      \"name\": \"envoy.filters.network.http_connection_manager\",'' @ demo_newline @
    ''                      \"typed_config\": {'' @ demo_newline @
    ''                        \"@type\": \"type.googleapis.com/envoy.extensions.filters.network.http_connection_manager.v3.HttpConnectionManager\",'' @ demo_newline @
    ''                        \"stat_prefix\": \"https-api\",'' @ demo_newline @
    ''                        \"http_filters\": ['' @ demo_newline @
    ''                          {\"name\": \"envoy.filters.http.cors\"},'' @ demo_newline @
    ''                          {'' @ demo_newline @
    ''                            \"name\": \"ai-platform.ai-guard\",'' @ demo_newline @
    ''                            \"config_discovery\": {'' @ demo_newline @
    ''                              \"config_source\": {\"ads\": {}},'' @ demo_newline @
    ''                              \"type_urls\": [\"type.googleapis.com/envoy.extensions.filters.http.wasm.v3.Wasm\"]'' @ demo_newline @
    ''                            }'' @ demo_newline @
    ''                          },'' @ demo_newline @
    ''                          {'' @ demo_newline @
    ''                            \"name\": \"envoy.filters.http.ext_proc\",'' @ demo_newline @
    ''                            \"typed_config\": {'' @ demo_newline @
    ''                              \"@type\": \"type.googleapis.com/envoy.extensions.filters.http.ext_proc.v3.ExternalProcessor\",'' @ demo_newline @
    ''                              \"grpc_service\": {\"envoy_grpc\": {\"cluster_name\": \"ext-proc-ai-policy\"}},'' @ demo_newline @
    ''                              \"message_timeout\": \"200ms\",'' @ demo_newline @
    ''                              \"failure_mode_allow\": false'' @ demo_newline @
    ''                            }'' @ demo_newline @
    ''                          },'' @ demo_newline @
    ''                          {\"name\": \"envoy.filters.http.router\"}'' @ demo_newline @
    ''                        ],'' @ demo_newline @
    ''                        \"route_config\": {'' @ demo_newline @
    ''                          \"name\": \"https-api-routes\",'' @ demo_newline @
    ''                          \"virtual_hosts\": ['' @ demo_newline @
    ''                            {'' @ demo_newline @
    ''                              \"name\": \"api.ai.example.com\",'' @ demo_newline @
    ''                              \"domains\": [\"api.ai.example.com\"],'' @ demo_newline @
    ''                              \"routes\": ['' @ demo_newline @
    ''                                {\"name\": \"chat-completions\", \"match\": {\"prefix\": \"/v1/chat/completions\"}, \"route\": {\"cluster\": \"inference|qwen-production\"}},'' @ demo_newline @
    ''                                {\"name\": \"embeddings\", \"match\": {\"prefix\": \"/v1/embeddings\"}, \"route\": {\"cluster\": \"inference|embedding-backend\"}}'' @ demo_newline @
    ''                              ]'' @ demo_newline @
    ''                            }'' @ demo_newline @
    ''                          ]'' @ demo_newline @
    ''                        }'' @ demo_newline @
    ''                      }'' @ demo_newline @
    ''                    }'' @ demo_newline @
    ''                  ]'' @ demo_newline @
    ''                }'' @ demo_newline @
    ''              ]'' @ demo_newline @
    ''            }'' @ demo_newline @
    ''          }'' @ demo_newline @
    ''        }'' @ demo_newline @
    ''      ]'' @ demo_newline @
    ''    },'' @ demo_newline @
    ''    {'' @ demo_newline @
    ''      \"@type\": \"type.googleapis.com/envoy.admin.v3.EcdsConfigDump\",'' @ demo_newline @
    ''      \"ecds_filters\": ['' @ demo_newline @
    ''        {'' @ demo_newline @
    ''          \"ecds_filter\": {'' @ demo_newline @
    ''            \"name\": \"ai-platform.ai-guard\",'' @ demo_newline @
    ''            \"typed_config\": {'' @ demo_newline @
    ''              \"@type\": \"type.googleapis.com/envoy.extensions.filters.http.wasm.v3.Wasm\",'' @ demo_newline @
    ''              \"config\": {'' @ demo_newline @
    ''                \"name\": \"ai-guard\",'' @ demo_newline @
    ''                \"root_id\": \"guard-root\",'' @ demo_newline @
    ''                \"vm_config\": {'' @ demo_newline @
    ''                  \"vm_id\": \"ai-guard-vm\",'' @ demo_newline @
    ''                  \"runtime\": \"envoy.wasm.runtime.v8\",'' @ demo_newline @
    ''                  \"code\": {\"local\": {\"filename\": \"/var/local/lib/ai-guard.wasm\"}}'' @ demo_newline @
    ''                }'' @ demo_newline @
    ''              }'' @ demo_newline @
    ''            }'' @ demo_newline @
    ''          }'' @ demo_newline @
    ''        }'' @ demo_newline @
    ''      ]'' @ demo_newline @
    ''    },'' @ demo_newline @
    ''    {'' @ demo_newline @
    ''      \"@type\": \"type.googleapis.com/envoy.admin.v3.ClustersConfigDump\",'' @ demo_newline @
    ''      \"dynamic_active_clusters\": ['' @ demo_newline @
    ''        {\"cluster\": {\"name\": \"inference|qwen-production\", \"type\": \"EDS\", \"connect_timeout\": \"2s\"}},'' @ demo_newline @
    ''        {\"cluster\": {\"name\": \"inference|embedding-backend\", \"type\": \"EDS\", \"connect_timeout\": \"2s\"}},'' @ demo_newline @
    ''        {\"cluster\": {\"name\": \"redirect-to-https\", \"type\": \"STATIC\", \"connect_timeout\": \"1s\"}},'' @ demo_newline @
    ''        {'' @ demo_newline @
    ''          \"cluster\": {'' @ demo_newline @
    ''            \"name\": \"ext-proc-ai-policy\",'' @ demo_newline @
    ''            \"type\": \"STATIC\",'' @ demo_newline @
    ''            \"connect_timeout\": \"1s\",'' @ demo_newline @
    ''            \"load_assignment\": {'' @ demo_newline @
    ''              \"cluster_name\": \"ext-proc-ai-policy\",'' @ demo_newline @
    ''              \"endpoints\": [{\"lb_endpoints\": [{\"health_status\": \"HEALTHY\", \"endpoint\": {\"address\": {\"socket_address\": {\"address\": \"10.42.12.7\", \"port_value\": 9002}}}}]}]'' @ demo_newline @
    ''            }'' @ demo_newline @
    ''          }'' @ demo_newline @
    ''        }'' @ demo_newline @
    ''      ]'' @ demo_newline @
    ''    }'' @ demo_newline @
    ''  ]'' @ demo_newline @
    ''}''"

definition demo_envoyConfig :: "Snapshot \<Rightarrow> EnvoyConfig" where
  "demo_envoyConfig snapshot =
    zero_EnvoyConfig\<lparr>ec_SnapshotID := sn_ID snapshot, ec_ObservedAt := sn_ObservedAt snapshot,
    ec_State := ''complete'', ec_Source := ''Envoy admin /config_dump'', ec_Proxy := ''higress-gateway '' @
    demo_dot @ '' Envoy 1.31'', ec_Listeners := [(zero_EnvoyListener\<lparr>el_ID :=
    ''0.0.0.0_8443|0.0.0.0:8443|0'', el_Name := ''0.0.0.0_8443'', el_Address := ''0.0.0.0'',
    el_Port := 8443, el_Protocol := ''HTTPS'', el_Status := StatusHealthy,
    el_FilterChains := [(zero_EnvoyFilterChain\<lparr>efc_Name := ''https-api'',
    efc_Match := ''SNI: api.ai.example.com'', efc_Transport := ''TLS'',
    efc_HTTPFilters := [(zero_EnvoyHTTPFilter\<lparr>ehf_Name := ''envoy.filters.http.cors'',
    ehf_Type := ''HTTP filter'', ehf_Stage := ''request'',
    ehf_ConfigSummary := ''allow_origin: https://console.ai.example.com''\<rparr>),
    (zero_EnvoyHTTPFilter\<lparr>ehf_Name := ''ai-platform.ai-guard'', ehf_Type := ''HTTP filter'',
    ehf_Stage := ''request'', ehf_ConfigSummary := ''ai-guard '' @ demo_dot @ '' root guard-root '' @
    demo_dot @ '' envoy.wasm.runtime.v8''\<rparr>),
    (zero_EnvoyHTTPFilter\<lparr>ehf_Name := ''envoy.filters.http.ext_proc'', ehf_Type := ''HTTP filter'',
    ehf_Stage := ''request'', ehf_ConfigSummary := ''gRPC: ext-proc-ai-policy '' @ demo_dot @
    '' timeout 200ms '' @ demo_dot @ '' failure closed''\<rparr>),
    (zero_EnvoyHTTPFilter\<lparr>ehf_Name := ''envoy.filters.http.router'', ehf_Type := ''HTTP filter'',
    ehf_Stage := ''terminal'', ehf_ConfigSummary := ''routes the request to the selected cluster'',
    ehf_Terminal := True\<rparr>)], efc_Routes := [(zero_EnvoyRoute\<lparr>er_Name := ''chat-completions'',
    er_Match := ''POST api.ai.example.com /v1/chat/completions'',
    er_Cluster := ''inference|qwen-production''\<rparr>),
    (zero_EnvoyRoute\<lparr>er_Name := ''embeddings'',
    er_Match := ''POST api.ai.example.com /v1/embeddings'',
    er_Cluster := ''inference|embedding-backend''\<rparr>)]\<rparr>),
    (zero_EnvoyFilterChain\<lparr>efc_Name := ''http-fallback'', efc_Match := ''all non-TLS traffic'',
    efc_Transport := ''raw_buffer'', efc_HTTPFilters := [(zero_EnvoyHTTPFilter\<lparr>ehf_Name :=
    ''envoy.filters.http.router'', ehf_Type := ''HTTP filter'', ehf_Stage := ''terminal'',
    ehf_ConfigSummary := ''direct response: 301 HTTPS redirect'', ehf_Terminal := True\<rparr>)],
    efc_Routes := [(zero_EnvoyRoute\<lparr>er_Name := ''redirect'', er_Match := ''GET * /'',
    er_Cluster := ''redirect-to-https''\<rparr>)]\<rparr>)]\<rparr>)],
    ec_Extensions := [(zero_EnvoyExtension\<lparr>ex_ID := ''Wasm|ai-platform.ai-guard|demo'',
    ex_Name := ''ai-platform.ai-guard'', ex_Kind := ''Wasm'',
    ex_TypeURL := ''type.googleapis.com/envoy.extensions.filters.http.wasm.v3.Wasm'',
    ex_Status := StatusHealthy, ex_ConfigSource := ''ECDS'', ex_ConfigSummary := ''ai-guard '' @ demo_dot @
    '' root guard-root '' @ demo_dot @ '' envoy.wasm.runtime.v8'',
    ex_Attachments := [(zero_EnvoyExtensionAttachment\<lparr>exa_ListenerID :=
    ''0.0.0.0_8443|0.0.0.0:8443|0'', exa_ListenerName := ''0.0.0.0_8443'', exa_FilterChain := ''https-api'',
    exa_FilterName := ''ai-platform.ai-guard'', exa_FilterType := ''HTTP filter'',
    exa_Position := 2\<rparr>)], ex_Dependencies := [(zero_EnvoyExtensionDependency\<lparr>exd_Kind :=
    ''ECDS'', exd_Name := ''ai-platform.ai-guard'', exd_Relation := ''resolves through'',
    exd_Evidence := ''http_filters[].config_discovery + EcdsConfigDump'', exd_Resolved := True\<rparr>),
    (zero_EnvoyExtensionDependency\<lparr>exd_Kind := ''Wasm module'',
    exd_Name := ''/var/local/lib/ai-guard.wasm'', exd_Relation := ''loads'',
    exd_Evidence := ''typed_config.config.vm_config.code'', exd_Resolved := True\<rparr>)]\<rparr>),
    (zero_EnvoyExtension\<lparr>ex_ID := ''ext_proc|envoy.filters.http.ext_proc|demo'',
    ex_Name := ''envoy.filters.http.ext_proc'', ex_Kind := ''ext_proc'',
    ex_TypeURL := ''type.googleapis.com/envoy.extensions.filters.http.ext_proc.v3.ExternalProcessor'',
    ex_Status := StatusHealthy, ex_ConfigSource := ''inline typed_config'',
    ex_ConfigSummary := ''gRPC: ext-proc-ai-policy '' @ demo_dot @ '' timeout 200ms '' @ demo_dot @
    '' failure closed'', ex_Attachments := [(zero_EnvoyExtensionAttachment\<lparr>exa_ListenerID :=
    ''0.0.0.0_8443|0.0.0.0:8443|0'', exa_ListenerName := ''0.0.0.0_8443'', exa_FilterChain := ''https-api'',
    exa_FilterName := ''envoy.filters.http.ext_proc'', exa_FilterType := ''HTTP filter'',
    exa_Position := 3\<rparr>)], ex_Dependencies := [(zero_EnvoyExtensionDependency\<lparr>exd_Kind :=
    ''Cluster'', exd_Name := ''ext-proc-ai-policy'', exd_Relation := ''calls'',
    exd_Evidence := ''typed_config grpc_service/envoy_grpc.cluster_name'',
    exd_Resolved := True\<rparr>)]\<rparr>),
    (zero_EnvoyExtension\<lparr>ex_ID := ''Envoy Filter|envoy.filters.http.cors|demo'',
    ex_Name := ''envoy.filters.http.cors'', ex_Kind := ''Envoy Filter'', ex_Status := StatusHealthy,
    ex_ConfigSource := ''filter name'', ex_ConfigSummary := ''configured'',
    ex_Attachments := [(zero_EnvoyExtensionAttachment\<lparr>exa_ListenerID :=
    ''0.0.0.0_8443|0.0.0.0:8443|0'', exa_ListenerName := ''0.0.0.0_8443'', exa_FilterChain := ''https-api'',
    exa_FilterName := ''envoy.filters.http.cors'', exa_FilterType := ''HTTP filter'',
    exa_Position := 1\<rparr>)], ex_Dependencies := []\<rparr>)],
    ec_Clusters := [(zero_EnvoyCluster\<lparr>ecl_Name := ''inference|qwen-production'',
    ecl_Type := ''EDS'', ecl_Discovery := ''xDS / istiod'', ecl_ConnectTimeout := ''2s'',
    ecl_Endpoints := [(zero_EnvoyEndpoint\<lparr>ee_Address := ''10.42.3.18'', ee_Port := 8080,
    ee_Status := StatusHealthy, ee_Health := ''healthy'', ee_Weight := 50\<rparr>),
    (zero_EnvoyEndpoint\<lparr>ee_Address := ''10.42.4.22'', ee_Port := 8080, ee_Status := StatusHealthy,
    ee_Health := ''healthy'', ee_Weight := 50\<rparr>),
    (zero_EnvoyEndpoint\<lparr>ee_Address := ''10.42.7.9'', ee_Port := 8080, ee_Status := StatusWarning,
    ee_Health := ''warming''\<rparr>)]\<rparr>),
    (zero_EnvoyCluster\<lparr>ecl_Name := ''inference|embedding-backend'', ecl_Type := ''EDS'',
    ecl_Discovery := ''xDS / istiod'', ecl_ConnectTimeout := ''2s'',
    ecl_Endpoints := [(zero_EnvoyEndpoint\<lparr>ee_Address := ''10.42.9.12'', ee_Port := 8080,
    ee_Status := StatusError, ee_Health := ''no healthy hosts''\<rparr>)]\<rparr>),
    (zero_EnvoyCluster\<lparr>ecl_Name := ''redirect-to-https'', ecl_Type := ''STATIC'',
    ecl_Discovery := ''static'', ecl_ConnectTimeout := ''1s''\<rparr>),
    (zero_EnvoyCluster\<lparr>ecl_Name := ''ext-proc-ai-policy'', ecl_Type := ''STATIC'',
    ecl_Discovery := ''inline'', ecl_ConnectTimeout := ''1s'',
    ecl_Endpoints := [(zero_EnvoyEndpoint\<lparr>ee_Address := ''10.42.12.7'', ee_Port := 9002,
    ee_Status := StatusHealthy, ee_Health := ''healthy'', ee_Weight := 1\<rparr>)]\<rparr>)],
    ec_RawConfig := demoRawEnvoyConfig\<rparr>"

section \<open>The store\<close>

record DemoStore =
  ds_context :: Context
  ds_topology :: Topology
  ds_findings :: "Finding list"
  ds_resources :: "Resource list"
  ds_envoy :: EnvoyConfig
  ds_probes :: "(string \<times> ProbeExecution) list"

definition demo_snapshot :: "Snapshot" where
  "demo_snapshot =
    zero_Snapshot\<lparr>sn_ID := ''snapshot-prod-20260724-104218'',
    sn_ObservedAt := ''2026-07-24T10:42:18+08:00'', sn_State := ''complete''\<rparr>"

definition demo_findings :: "Finding list" where
  "demo_findings =
    [(zero_Finding\<lparr>find_ID := ''no-ready-endpoints'', find_Severity := StatusError,
    find_Title := demo_no_endpoint, find_Resource := ''Service / inference/embedding-backend'',
    find_Basis := ''ReadyEndpoints=0'', find_TargetID := ''service-embedding''\<rparr>),
    (zero_Finding\<lparr>find_ID := ''excluded-endpoint'', find_Severity := StatusWarning,
    find_Title := demo_endpoint_excluded, find_Resource := ''Endpoint / inference/qwen-72b-c'',
    find_Basis := ''readiness=false'', find_TargetID := ''endpoint-qwen-c''\<rparr>),
    (zero_Finding\<lparr>find_ID := ''unknown-filter'', find_Severity := StatusWarning,
    find_Title := demo_unknown_filter, find_Resource := ''HTTPRoute / inference/embeddings-v1'',
    find_Basis := ''higress.io/ai-cache'', find_TargetID := ''route-embeddings''\<rparr>)]"

definition demo_resources :: "Resource list" where
  "demo_resources =
    [(zero_Resource\<lparr>res_ID := ''gateway-public'', res_Kind := ''Gateway'',
    res_Name := ''ai-public-gateway'', res_Namespace := ''ai-platform'', res_Status := StatusHealthy,
    res_StatusText := demo_accepted, res_UpdatedAt := demo_two_minutes\<rparr>),
    (zero_Resource\<lparr>res_ID := ''route-chat'', res_Kind := ''HTTPRoute'',
    res_Name := ''chat-completions'', res_Namespace := ''inference'', res_Status := StatusHealthy,
    res_StatusText := demo_resolved, res_UpdatedAt := demo_one_minute\<rparr>),
    (zero_Resource\<lparr>res_ID := ''route-embeddings'', res_Kind := ''HTTPRoute'',
    res_Name := ''embeddings-v1'', res_Namespace := ''inference'', res_Status := StatusWarning,
    res_StatusText := demo_resolved, res_UpdatedAt := demo_one_minute, res_Findings := 1\<rparr>),
    (zero_Resource\<lparr>res_ID := ''pool-qwen'', res_Kind := ''InferencePool'',
    res_Name := ''qwen-production'', res_Namespace := ''inference'', res_Status := StatusHealthy,
    res_StatusText := demo_available, res_UpdatedAt := demo_one_minute\<rparr>),
    (zero_Resource\<lparr>res_ID := ''service-embedding'', res_Kind := ''Service'',
    res_Name := ''embedding-backend'', res_Namespace := ''inference'', res_Status := StatusError,
    res_StatusText := demo_without_endpoint, res_UpdatedAt := demo_two_minutes, res_Findings := 1\<rparr>)]"

definition demo_topology :: "Topology" where
  "demo_topology =
    zero_Topology\<lparr>topo_SnapshotID := sn_ID demo_snapshot,
    topo_FederatedSnapshotID := ''federated-prod-20260724-104218'', topo_ObservedAt := sn_ObservedAt
    demo_snapshot, topo_Consistency := SnapshotConsistencyConsistentWindow, topo_Clusters := demoClusters
    demo_snapshot, topo_Nodes := demoNodes, topo_Edges := demoEdges,
    topo_ProbeEntries := [(zero_ProbeEntry\<lparr>entry_ID := ''demo-entry'',
    entry_GatewayID := ''gateway-public'', entry_ClusterID := ''edge-prod'',
    entry_Namespace := ''higress-system'', entry_ServiceName := ''higress-gateway'',
    entry_DNSName := ''higress-gateway.higress-system.svc.cluster.local'', entry_Port := 80,
    entry_Scheme := ProbeSchemeHTTP, entry_Protocol := ''HTTP'',
    entry_DisplayName := ''higress-system/higress-gateway:80 (HTTP)''\<rparr>)]\<rparr>"

definition demo_context :: "Context" where
  "demo_context =
    zero_Context\<lparr>ctx_Cluster := (zero_Cluster\<lparr>cl_ID := ''edge-prod'',
    cl_Name := ''prod-cn-shanghai'', cl_Version := ''Kubernetes 1.31''\<rparr>), ctx_Namespaces := [''all'',
    ''higress-system'', ''ai-platform'', ''inference''], ctx_Snapshot := demo_snapshot,
    ctx_Capabilities := [''gateway-api'', ''higress'', ''inference-extension'', ''transit-hop'']\<rparr>"

definition demo_NewStore :: DemoStore where
  "demo_NewStore =
    \<lparr>ds_context = demo_context, ds_topology = demo_topology, ds_findings = demo_findings,
     ds_resources = demo_resources, ds_envoy = demo_envoyConfig demo_snapshot, ds_probes = []\<rparr>"

end
