(* ===== verification/Demo_Store.thy ===== *)
theory Demo_Store
  imports Demo_Data Source_Interfaces
begin

text \<open>
  The operations of \<open>internal/demo/store.go\<close> on the data of theory \<open>Demo_Data\<close>, and the store
  behind the interfaces \<open>Reader\<close> and \<open>ProbeStore\<close>. The map of probes is an association list,
  because the code numbers a probe by the size of the map. The mutex makes each operation atomic.
\<close>

section \<open>Operations\<close>

definition before_query :: "string \<Rightarrow> string" where
  "before_query path = hd (SplitByte (CHR ''?'') path)"

definition demo_ext_procs :: "ExtProcObservation list" where
  "demo_ext_procs =
     [zero_ExtProcObservation\<lparr>xp_Processor := ''BBR'', xp_RuleID := ''body-model-match'',
        xp_SelectedPool := ''qwen-production'', xp_ReasonCode := ''model_match'', xp_RequestHeaderCalls := 1,
        xp_RequestBodyCalls := 1, xp_RequestHeaderLatencyUS := 410, xp_RequestBodyLatencyUS := 1740,
        xp_GRPCStatus := ''0'', xp_Invoked := True, xp_Outcome := ExtProcOutcomeSuccess\<rparr>,
      zero_ExtProcObservation\<lparr>xp_Processor := ''EPP'', xp_SelectedEndpoint := ''10.42.3.18:8080'',
        xp_ReasonCode := ''fallback_to_cached_endpoint'', xp_RequestHeaderCalls := 1,
        xp_RequestHeaderLatencyUS := 3200, xp_GRPCStatus := ''DeadlineExceeded'', xp_FailureModeAllowed := True,
        xp_MessageTimeout := True, xp_Invoked := True, xp_Outcome := ExtProcOutcomeFailOpen\<rparr>]"

definition demo_hop :: "string \<Rightarrow> ProbeHTTPMethod \<Rightarrow> ProbeRequest \<Rightarrow> ObservedHop" where
  "demo_hop now verb request =
     zero_ObservedHop\<lparr>
       hop_ID := ''record-1'', hop_RuntimeSource := ''edge-prod/higress-system/higress-gateway-demo/demo/proxy'',
       hop_LogSourceID := ''demo-log'', hop_LogSequence := 1, hop_RequestStartTime := now,
       hop_DownstreamRemoteAddress := ''192.0.2.1:1234'', hop_DownstreamLocalAddress := ''192.0.2.2:80'',
       hop_ObservedAt := now, hop_ClusterID := ''edge-prod'', hop_Pod := ''higress-system/higress-gateway-demo'',
       hop_Authority := req_Host request, hop_Method := verb, hop_Path := before_query (req_Path request),
       hop_Protocol := ''HTTP/2'', hop_RouteName := ''inference.chat-completions.0'',
       hop_UpstreamCluster := ''outbound|8080||qwen-72b-server.inference.svc.cluster.local'',
       hop_UpstreamHost := ''10.42.3.18:8080'', hop_ResponseCode := 200, hop_ResponseFlags := ''-'',
       hop_ResponseCodeDetails := ''via_upstream'', hop_DurationMillis := 18, hop_UpstreamServiceTimeMillis := 9,
       hop_EvidenceSource := ''demo-higress-json-log'', hop_Correlation := ProbeCorrelationProbeID,
       hop_Confidence := ObservationConfidenceObserved, hop_ExtProcs := demo_ext_procs\<rparr>"

definition demo_segment :: "string \<Rightarrow> string \<Rightarrow> ObservedHop \<Rightarrow> ProbeSegment" where
  "demo_segment snapshotID now hop =
     zero_ProbeSegment\<lparr>
       seg_Index := 1, seg_ClusterID := ''edge-prod'', seg_GatewayID := ''gateway-public'',
       seg_GatewayName := ''ai-public-gateway'', seg_SnapshotID := snapshotID, seg_SnapshotObservedAt := now,
       seg_LogSource := ''demo-higress-json-log'', seg_Hops := [hop],
       seg_Collection := Some (zero_ProbeCollection\<lparr>col_State := ProbeCollectionStateSettled\<rparr>)\<rparr>"

definition demo_execution :: "GoTime \<Rightarrow> nat \<Rightarrow> ProbeHTTPMethod \<Rightarrow> ProbeRequest \<Rightarrow> Topology \<Rightarrow> ProbeExecution" where
  "demo_execution now n verb request topology =
     zero_ProbeExecution\<lparr>
       exec_SchemaVersion := ProbeSchemaVersion, exec_ID := ''demo-probe-'' @ Itoa (int n),
       exec_TraceID := ''demo-trace-'' @ Itoa (int n), exec_SourceCluster := ''edge-prod'',
       exec_GatewayID := ''gateway-public'', exec_Method := verb,
       exec_Target := ''http://higress-gateway.higress-system.svc.cluster.local:80'' @ before_query (req_Path request),
       exec_State := ProbeExecutionStateCompleted,
       exec_StartedAt := format_rfc3339nano (time_Add now (- 18000000)),
       exec_CompletedAt := format_rfc3339nano now, exec_ResponseCode := 200, exec_ResponseBytes := 842,
       exec_DurationMillis := 18, exec_FederatedSnapshotID := topo_FederatedSnapshotID topology,
       exec_SnapshotConsistency := topo_Consistency topology,
       exec_Segments := [demo_segment (topo_SnapshotID topology) (format_rfc3339nano now)
         (demo_hop (format_rfc3339nano now) verb request)]\<rparr>"

text \<open>\<open>t\<close> is the clock's time at the call.\<close>

definition demo_CreateProbe :: "GoTime \<Rightarrow> ProbeRequest \<Rightarrow> DemoStore \<Rightarrow> (string + ProbeExecution) \<times> DemoStore" where
  "demo_CreateProbe t request s =
     (if req_EntryID request \<noteq> ''demo-entry'' \<or> req_SourceCluster request \<noteq> ''edge-prod''
      then (Inl ''demo probe entry not found'', s)
      else if \<not> ProbeHTTPMethod_IsValid (probe_method request)
      then (Inl (''unsupported probe method '' @ quoted (probe_method request)), s)
      else (let execution = EnrichProbe (demo_execution (time_UTC t) (length (ds_probes s) + 1)
                  (probe_method request) request (ds_topology s))
            in (Inr execution, s\<lparr>ds_probes := AList.update (''demo-probe-'' @ Itoa (int (length (ds_probes s) + 1)))
                  execution (ds_probes s)\<rparr>)))"

definition demo_GetProbe :: "string \<Rightarrow> DemoStore \<Rightarrow> ProbeExecution option" where
  "demo_GetProbe i s = map_of (ds_probes s) i"

definition demo_EnvoyConfig :: "string \<Rightarrow> DemoStore \<Rightarrow> EnvoyConfig" where
  "demo_EnvoyConfig gatewayID s = (ds_envoy s)\<lparr>ec_GatewayID := gatewayID,
     ec_Controller := ''higress.io/gateway-controller'', ec_Workload := ''higress-system/higress-gateway'',
     ec_SampledPod := ''higress-system/higress-gateway-7d8f-abcde'', ec_ReadyReplicas := 3\<rparr>"

definition demo_Resources :: "string \<Rightarrow> DemoStore \<Rightarrow> Resource list" where
  "demo_Resources query s =
     (if query = [] then ds_resources s
      else filter (\<lambda>r. Contains (ToLower (res_Kind r @ '' '' @ res_Name r @ '' '' @ res_Namespace r)) (ToLower query))
        (ds_resources s))"

section \<open>The store behind the interfaces\<close>

definition demo_Reader :: "DemoStore Reader" where
  "demo_Reader = \<lparr>rd_Context = ds_context, rd_Topology = ds_topology,
     rd_EnvoyConfig = (\<lambda>gatewayID s. (Inr (demo_EnvoyConfig gatewayID s), s)),
     rd_Findings = ds_findings, rd_Resources = demo_Resources\<rparr>"

definition demo_ProbeStore :: "GoTime \<Rightarrow> DemoStore ProbeStore" where
  "demo_ProbeStore t = \<lparr>ps_CreateProbe = demo_CreateProbe t, ps_GetProbe = demo_GetProbe\<rparr>"

section \<open>The demo probe is explained\<close>

text \<open>A record that is complete and no redirect is a linked group of its own, and its end.\<close>

definition complete_record :: "ObservedHop \<Rightarrow> bool" where
  "complete_record h \<longleftrightarrow> \<not> identity_missing h \<and> hop_LogSourceID h \<noteq> [] \<and> hop_LogSequence h > 0 \<and> \<not> hop_InternalRedirect h"

lemma single_record_group:
  assumes "complete_record h" "col_State c = ProbeCollectionStateSettled"
  obtains g where "attemptGroups [h] (Some c) [] = [g]" "ag_RelationState g = ProbeAttemptRelationStateLinked"
    "ag_LocalTerminalHopID g = hop_ID h" "ag_HopIDs g = [hop_ID h]" "ag_Issues g = []" "ag_Links g = []"
proof -
  have ordered: "records_ordered [h] []"
    using assms(1) by (auto simp: records_ordered_def complete_record_def position_unusable_def identity_missing_def)
  have sorted: "by_sequence [h] = [h]" by (simp add: by_sequence_def slice_stable_def)
  have "relate_attempts x True [h] = (ProbeAttemptRelationStateLinked, [], None)" for x
    using assms(1) by (simp add: relate_attempts_def terminals_of_def invalid_order_def complete_record_def)
  then show thesis
    using assms that ordered sorted
    by (simp add: attemptGroups_def hop_buckets_def add_to_bucket_def attempt_group_def Let_def order_issues_def
        terminals_of_def settled_cleanly_def complete_record_def)
qed

lemma byID_single: "byID [h] i = (if hop_ID h = i then Some h else None)"
  by simp

lemma EnrichProbe_single_record:
  assumes "exec_Segments e = [segment]" "seg_Hops segment = [h]" "seg_Issues segment = []"
    and "seg_Collection segment = Some c" "col_State c = ProbeCollectionStateSettled"
    and "complete_record h" "hop_ID h \<noteq> []" "hop_Correlation h = ProbeCorrelationProbeID"
    and "seg_GatewayID segment = exec_GatewayID e" "exec_State e = ProbeExecutionStateCompleted" "exec_Error e = []"
    and "exec_ResponseCode e = hop_ResponseCode h" "hop_ResponseCode h > 0" "exec_Issues e = []"
    and i: "i = qualify (exec_GatewayID e) (hop_ID h)"
  shows "exec_FinalResponseHopID (EnrichProbe e) = i" "exec_FinalUpstreamHopID (EnrichProbe e) = i"
    "\<exists>segment'. exec_Segments (EnrichProbe e) = [segment'] \<and> map hop_ID (seg_Hops segment') = [i] \<and> seg_Issues segment' = []
       \<and> seg_RelationState segment' = ProbeAttemptRelationStateLinked \<and> seg_LocalTerminalHopIDs segment' = [i]"
proof -
  let ?h = "h\<lparr>hop_ID := i\<rparr>"
  have hops: "qualify_hops (seg_GatewayID segment) (seg_Hops segment) = [?h]"
    using assms by (simp add: qualify_hops_def qualify_hop_def)
  have none: "collection_issues (seg_GatewayID segment) (seg_Issues segment) = []"
    using assms(3) by (simp add: collection_issues_def)
  have "complete_record ?h"
    using assms(6) by (simp add: complete_record_def identity_missing_def)
  then obtain g where g: "attemptGroups [?h] (Some c) [] = [g]" "ag_RelationState g = ProbeAttemptRelationStateLinked"
    "ag_LocalTerminalHopID g = i" "ag_HopIDs g = [i]" "ag_Issues g = []" "ag_Links g = []"
    using assms(5) by (rule single_record_group) simp
  have groups: "segment_groups segment = [g]"
    using g(1) assms(4) by (simp add: segment_groups_def hops none segment_collection_def)
  define segment' where "segment' = enrich_segment segment"
  have i_nonempty: "i \<noteq> []" by (simp add: i)
  have fields: "seg_Hops segment' = [?h\<lparr>hop_ContextID := ag_ID g\<rparr>]" "seg_Issues segment' = []"
    "seg_RelationState segment' = ProbeAttemptRelationStateLinked" "seg_LocalTerminalHopIDs segment' = [i]"
    "seg_GatewayID segment' = exec_GatewayID e"
    using assms(9) i_nonempty
    by (simp_all add: segment'_def enrich_segment_def groups hops [unfolded assms(9)] none [unfolded assms(9)] Let_def set_contexts_def g worst_relation_def
        relationRank_def)
  have "final_hop (e\<lparr>exec_FinalResponseHopID := [], exec_FinalUpstreamHopID := []\<rparr>) segment' [g] = Some i"
    using assms(8,10-13) by (simp add: final_hop_def fields g Let_def)
  then have enriched: "EnrichProbe e =
      e\<lparr>exec_FinalResponseHopID := i, exec_FinalUpstreamHopID := i, exec_Segments := [segment']\<rparr>"
    using assms(1,14) by (simp add: EnrichProbe_def enrich_step_def groups Let_def segment'_def [symmetric])
  show "exec_FinalResponseHopID (EnrichProbe e) = i" "exec_FinalUpstreamHopID (EnrichProbe e) = i" by (simp_all add: enriched)
  show "\<exists>segment'. exec_Segments (EnrichProbe e) = [segment'] \<and> map hop_ID (seg_Hops segment') = [i] \<and> seg_Issues segment' = []
       \<and> seg_RelationState segment' = ProbeAttemptRelationStateLinked \<and> seg_LocalTerminalHopIDs segment' = [i]"
    by (rule exI [of _ segment']) (simp add: enriched fields)
qed

lemma demo_record_complete: "now \<noteq> [] \<Longrightarrow> complete_record (demo_hop now verb request)"
proof -
  assume "now \<noteq> []"
  moreover have "validLogValue ''192.0.2.1:1234'' \<noteq> []" by code_simp
  ultimately show ?thesis
    by (simp add: complete_record_def identity_missing_def demo_hop_def zero_ObservedHop_def)
qed

text \<open>What creates an execution.\<close>

lemma demo_CreateProbe_cases:
  assumes "demo_CreateProbe t request s = (Inr probe, s')"
  obtains n where "n = length (ds_probes s) + 1" "ProbeHTTPMethod_IsValid (probe_method request)"
    "probe = EnrichProbe (demo_execution (time_UTC t) n (probe_method request) request (ds_topology s))"
    "s' = s\<lparr>ds_probes := AList.update (''demo-probe-'' @ Itoa (int n)) probe (ds_probes s)\<rparr>"
  using assms by (auto simp: demo_CreateProbe_def Let_def split: if_splits)

lemma before_query_plain: "CHR ''?'' \<notin> set (before_query path)"
proof -
  have "CHR ''?'' \<notin> set w" if "w \<in> set (SplitByte (CHR ''?'') path)" for w
    using that by (induction path arbitrary: w) (auto split: if_splits list.splits)
  then show ?thesis by (simp add: before_query_def)
qed

section \<open>Sequences of calls\<close>

definition demo_calls :: "(GoTime \<times> ProbeRequest) list \<Rightarrow> DemoStore" where
  "demo_calls calls = foldl (\<lambda>s (t, request). snd (demo_CreateProbe t request s)) demo_NewStore calls"

abbreviation demo_ID :: "nat \<Rightarrow> string" where
  "demo_ID n \<equiv> ''demo-probe-'' @ Itoa (int n)"

definition demo_ok :: "DemoStore \<Rightarrow> bool" where
  "demo_ok s \<longleftrightarrow> s\<lparr>ds_probes := []\<rparr> = demo_NewStore
     \<and> map fst (ds_probes s) = map demo_ID [1..<Suc (length (ds_probes s))]"

lemma demo_ok_fresh: "demo_ok s \<Longrightarrow> demo_ID (Suc (length (ds_probes s))) \<notin> fst ` set (ds_probes s)"
proof -
  assume "demo_ok s"
  then have "set (map fst (ds_probes s)) = set (map demo_ID [1..<Suc (length (ds_probes s))])"
    unfolding demo_ok_def by simp
  then show ?thesis by (auto simp: Itoa_inj)
qed

lemma update_fresh: "k \<notin> fst ` set xs \<Longrightarrow> AList.update k v xs = xs @ [(k, v)]"
  by (induction xs) auto

lemma demo_ok_create:
  assumes "demo_ok s"
  shows "demo_ok (snd (demo_CreateProbe t request s))"
proof (cases "demo_CreateProbe t request s")
  case (Pair outcome s')
  show ?thesis
  proof (cases outcome)
    case (Inl e)
    with Pair have "s' = s" by (auto simp: demo_CreateProbe_def Let_def split: if_splits)
    with Pair assms show ?thesis by simp
  next
    case (Inr probe)
    with Pair obtain n where "n = length (ds_probes s) + 1"
      "s' = s\<lparr>ds_probes := AList.update (demo_ID n) probe (ds_probes s)\<rparr>"
      by (auto elim: demo_CreateProbe_cases)
    with Pair assms update_fresh [OF demo_ok_fresh [OF assms], of probe] show ?thesis
      by (simp add: demo_ok_def)
  qed
qed

lemma demo_calls_ok: "demo_ok (demo_calls calls)"
proof -
  have "demo_ok s \<Longrightarrow> demo_ok (foldl (\<lambda>s (t, request). snd (demo_CreateProbe t request s)) s calls)" for s
    by (induction calls arbitrary: s) (auto simp: demo_ok_create)
  moreover have "demo_ok demo_NewStore" by (simp add: demo_ok_def demo_NewStore_def)
  ultimately show ?thesis unfolding demo_calls_def by blast
qed

text \<open>
  A demo probe is numbered, kept and explained like a real one. After any calls, an accepted
  probe gets an identity no earlier probe has, is found under it from then on, and every
  earlier probe stays as it was. Its trace is one gateway with one linked record and no issue, which
  is the final response and the final upstream, and its target carries no query.
\<close>

theorem demo_probe_explained:
  assumes "s = demo_calls calls" "demo_CreateProbe t request s = (Inr probe, s')"
  shows "demo_GetProbe (exec_ID probe) s = None \<and> demo_GetProbe (exec_ID probe) s' = Some probe
    \<and> (\<forall>i. i \<noteq> exec_ID probe \<longrightarrow> demo_GetProbe i s' = demo_GetProbe i s)
    \<and> CHR ''?'' \<notin> set (exec_Target probe)
    \<and> exec_FinalResponseHopID probe = ''gateway-public/record-1'' \<and> exec_FinalUpstreamHopID probe = ''gateway-public/record-1''
    \<and> (\<exists>segment. exec_Segments probe = [segment] \<and> map hop_ID (seg_Hops segment) = [''gateway-public/record-1'']
         \<and> seg_Issues segment = [] \<and> seg_RelationState segment = ProbeAttemptRelationStateLinked)"
proof -
  obtain n where n: "n = length (ds_probes s) + 1"
    and e: "probe = EnrichProbe (demo_execution (time_UTC t) n (probe_method request) request (ds_topology s))"
      (is "_ = EnrichProbe ?e")
    and s': "s' = s\<lparr>ds_probes := AList.update (demo_ID n) probe (ds_probes s)\<rparr>"
    using assms(2) by (rule demo_CreateProbe_cases)
  have ID: "exec_ID probe = demo_ID n" and Target: "exec_Target probe = exec_Target ?e"
    by (simp_all add: e EnrichProbe_eq demo_execution_def)
  have "demo_ID n \<notin> fst ` set (ds_probes s)"
    using demo_ok_fresh [OF demo_calls_ok, of calls] by (simp add: assms(1) n)
  then have kept: "demo_GetProbe (exec_ID probe) s = None" "demo_GetProbe (exec_ID probe) s' = Some probe"
    "i \<noteq> exec_ID probe \<Longrightarrow> demo_GetProbe i s' = demo_GetProbe i s" for i
    by (simp_all add: demo_GetProbe_def s' ID update_conv' map_of_eq_None_iff)
  let ?h = "demo_hop (format_rfc3339nano (time_UTC t)) (probe_method request) request"
  have i: "''gateway-public/record-1'' = qualify (exec_GatewayID ?e) (hop_ID ?h)"
    by (simp add: demo_execution_def demo_hop_def qualify_def HasPrefix_def)
  have complete: "complete_record ?h" by (rule demo_record_complete) simp
  let ?c = "zero_ProbeCollection\<lparr>col_State := ProbeCollectionStateSettled\<rparr>"
  let ?segment = "demo_segment (topo_SnapshotID (ds_topology s)) (format_rfc3339nano (time_UTC t)) ?h"
  have execution: "exec_Segments ?e = [?segment]" "exec_GatewayID ?e = ''gateway-public''"
    "exec_State ?e = ProbeExecutionStateCompleted" "exec_Error ?e = []" "exec_ResponseCode ?e = 200" "exec_Issues ?e = []"
    by (simp_all add: demo_execution_def zero_ProbeExecution_def)
  have segment: "seg_Hops ?segment = [?h]" "seg_Issues ?segment = []" "seg_Collection ?segment = Some ?c"
    "seg_GatewayID ?segment = ''gateway-public''"
    by (simp_all add: demo_segment_def zero_ProbeSegment_def)
  have hop: "hop_ID ?h \<noteq> []" "hop_Correlation ?h = ProbeCorrelationProbeID" "hop_ResponseCode ?h = 200"
    by (simp_all add: demo_hop_def)
  have "seg_GatewayID ?segment = exec_GatewayID ?e" "exec_ResponseCode ?e = hop_ResponseCode ?h" "hop_ResponseCode ?h > 0"
    "col_State ?c = ProbeCollectionStateSettled"
    by (simp_all only: segment execution hop zero_less_numeral) simp
  note rest = EnrichProbe_single_record [OF execution(1) segment(1-3) this(4) complete hop(1,2) this(1) execution(3,4)
      this(2,3) execution(6) i, folded e]
  have query: "CHR ''?'' \<notin> set (exec_Target probe)"
    using before_query_plain [of "req_Path request"] by (simp add: Target demo_execution_def)
  from rest(3) obtain g where g: "exec_Segments probe = [g]" "map hop_ID (seg_Hops g) = [''gateway-public/record-1'']"
    "seg_Issues g = []" "seg_RelationState g = ProbeAttemptRelationStateLinked" by (elim exE conjE)
  show ?thesis by (intro conjI allI impI exI [of _ g]; rule kept query rest g)
qed

definition sample_demo_request :: ProbeRequest where
  "sample_demo_request = zero_ProbeRequest\<lparr>req_SourceCluster := ''edge-prod'', req_EntryID := ''demo-entry'',
     req_Method := ''get'', req_Path := ''/v1/chat/completions?stream=true''\<rparr>"

lemma demo_probe_explained_witness:
  "\<exists>probe s'. demo_CreateProbe zero_time sample_demo_request (demo_calls [(zero_time, sample_demo_request)]) = (Inr probe, s')
     \<and> demo_GetProbe (exec_ID probe) s' = Some probe \<and> exec_FinalResponseHopID probe = ''gateway-public/record-1''"
proof -
  have "ToUpper (TrimSpace ''get'') = ''GET''" by code_simp
  then have "ProbeHTTPMethod_IsValid (probe_method sample_demo_request)"
    by (simp add: ProbeHTTPMethod_IsValid_def probe_method_def sample_demo_request_def)
  moreover have "req_EntryID sample_demo_request = ''demo-entry''" "req_SourceCluster sample_demo_request = ''edge-prod''"
    by (simp_all add: sample_demo_request_def)
  ultimately obtain probe s' where call:
    "demo_CreateProbe zero_time sample_demo_request (demo_calls [(zero_time, sample_demo_request)]) = (Inr probe, s')"
    unfolding demo_CreateProbe_def by (metis (no_types, lifting))
  from demo_probe_explained [OF refl call] have "demo_GetProbe (exec_ID probe) s' = Some probe" by (elim conjE)
  moreover from demo_probe_explained [OF refl call]
  have "exec_FinalResponseHopID probe = ''gateway-public/record-1''" by (elim conjE)
  ultimately show ?thesis using call by (intro exI [of _ probe] exI [of _ s'] conjI)
qed

section \<open>The data is consistent\<close>

text \<open>
  The demo topology is one the application could have produced: identities are unique, edges join
  nodes, nodes lie in known clusters, and the probe entry, the resources and the findings
  name nodes.
\<close>

lemma demo_topology_consistent:
  "distinct (map node_ID demoNodes)"
  "list_all (\<lambda>e. edge_From e \<in> set (map node_ID demoNodes) \<and> edge_To e \<in> set (map node_ID demoNodes)) demoEdges"
  "list_all (\<lambda>n. node_ClusterID n \<in> set (map tc_ID (topo_Clusters demo_topology))) demoNodes"
  "list_all (\<lambda>e. (entry_GatewayID e, entry_ClusterID e, TopologyNodeKindGateway)
     \<in> set (map (\<lambda>n. (node_ID n, node_ClusterID n, node_Kind n)) demoNodes)) (topo_ProbeEntries demo_topology)"
  "list_all (\<lambda>r. res_ID r \<in> set (map node_ID demoNodes)) demo_resources"
  "list_all (\<lambda>f. find_TargetID f \<in> set (map node_ID demoNodes)) demo_findings"
  by (simp_all add: demoNodes_def demoEdges_def demo_topology_def demoClusters_def demo_resources_def demo_findings_def Let_def
      zero_TopologyNode_def zero_TopologyEdge_def zero_TopologyCluster_def zero_ProbeEntry_def zero_Resource_def
      zero_Finding_def)

end
