(* ===== verification/Kube_Objects.thy ===== *)
theory Kube_Objects
  imports Domain_Types Go_Strings
begin

text \<open>
  The Kubernetes objects \<open>internal/kube\<close> reads, with the fields it uses: typed objects are
  records, unstructured ones carry a name and their content as a tree of Go values. A cache
  store is the list of objects its \<open>List\<close> returns; every loop skips the items that are not of
  the type it expects. Labels and annotations are maps, read with the zero value for a missing
  key.

  The functions of \<open>k8s.io/apimachinery\<close> that read nested fields and evaluate label selectors are
  parameters, the fields of \<open>KubeLib\<close>.
\<close>

section \<open>Unstructured values\<close>

text \<open>
  What decoding leaves in a \<open>map[string]any\<close>; a \<open>float64\<close> is given by the text \<open>fmt\<close> prints for it,
  which identifies it.
\<close>

datatype uval =
    UNil
  | UBool bool
  | UInt int
  | UFloat string
  | UString string
  | UList "uval list"
  | UMap "(string \<times> uval) list"

type_synonym umap = "(string \<times> uval) list"

text \<open>\<open>raw.(map[string]any)\<close> with the success dropped: the nil map on failure.\<close>

fun as_map :: "uval \<Rightarrow> umap" where
  "as_map (UMap m) = m"
| "as_map v = []"

definition bool_text :: "bool \<Rightarrow> string" where
  "bool_text b = (if b then ''true'' else ''false'')"

definition key_before :: "string \<times> 'a \<Rightarrow> string \<times> 'a \<Rightarrow> bool" where
  "key_before a b \<longleftrightarrow> fst a < fst b"

text \<open>\<open>fmt.Sprint\<close>; maps are printed in the order of their keys.\<close>

definition sprint_entry :: "string \<times> string \<Rightarrow> string" where
  "sprint_entry e = fst e @ '':'' @ snd e"

fun sprint :: "uval \<Rightarrow> string" where
  "sprint UNil = ''<nil>''"
| "sprint (UBool b) = bool_text b"
| "sprint (UInt i) = Itoa i"
| "sprint (UFloat t) = t"
| "sprint (UString s) = s"
| "sprint (UList vs) = ''['' @ Join (map sprint vs) '' '' @ '']''"
| "sprint (UMap m) =
     ''map['' @ Join (map sprint_entry (slice_stable key_before (map (\<lambda>e. (fst e, sprint (snd e))) m))) '' '' @ '']''"

definition umap_get :: "umap \<Rightarrow> string \<Rightarrow> uval" where
  "umap_get m key = (case map_of m key of None \<Rightarrow> UNil | Some v \<Rightarrow> v)"

definition kube_stringValue :: "umap \<Rightarrow> string \<Rightarrow> string \<Rightarrow> string" where
  "kube_stringValue vals key fallback =
     (case map_of vals key of
        Some (UString v) \<Rightarrow> if v \<noteq> [] then v else fallback
      | _ \<Rightarrow> fallback)"

record Unstructured =
  un_Name :: string
  un_Namespace :: string
  un_APIVersion :: string
  un_Kind :: string
  un_Object :: umap

section \<open>Typed objects\<close>

type_synonym labels = "string \<rightharpoonup> string"

definition label :: "labels \<Rightarrow> string \<Rightarrow> string" where
  "label m key = (case m key of None \<Rightarrow> [] | Some v \<Rightarrow> v)"

record LabelSelector =
  ls_MatchLabels :: "(string \<times> string) list"
  ls_MatchExpressions :: "(string \<times> string \<times> string list) list"

record Container =
  ct_Name :: string
  ct_Image :: string
  ct_Ports :: "(string \<times> int) list"

record Pod =
  pd_Name :: string
  pd_Namespace :: string
  pd_UID :: string
  pd_Labels :: labels
  pd_Deleting :: bool
  pd_Containers :: "Container list"
  pd_Phase :: string
  pd_Conditions :: "(string \<times> string) list"

record Deployment =
  dp_Name :: string
  dp_Namespace :: string
  dp_Labels :: labels
  dp_Selector :: "LabelSelector option"

record ServicePort =
  sp_Name :: string
  sp_Protocol :: string
  sp_AppProtocol :: "string option"
  sp_Port :: int

text \<open>An address of a load balancer has an IP address or a host name.\<close>

record LoadBalancerIngress =
  lb_IP :: string
  lb_Hostname :: string

record Service =
  sv_Name :: string
  sv_Namespace :: string
  sv_Type :: string
  sv_ExternalName :: string
  sv_Selector :: "(string \<times> string) list"
  sv_ClusterIP :: string
  sv_ClusterIPs :: "string list"
  sv_ExternalIPs :: "string list"
  sv_Ports :: "ServicePort list"
  sv_LoadBalancer :: "LoadBalancerIngress list"

record TargetRef =
  tr_Kind :: string
  tr_Namespace :: string
  tr_Name :: string

record Endpoint =
  ep_Addresses :: "string list"
  ep_Ready :: "bool option"
  ep_Serving :: "bool option"
  ep_Terminating :: "bool option"
  ep_Hostname :: "string option"
  ep_TargetRef :: "TargetRef option"
  ep_NodeName :: "string option"

record EndpointPort =
  epp_Name :: "string option"
  epp_Port :: "int option"
  epp_Protocol :: "string option"

record EndpointSlice =
  es_Name :: string
  es_Namespace :: string
  es_Labels :: labels
  es_Endpoints :: "Endpoint list"
  es_Ports :: "EndpointPort list"

record ResourceRef =
  rr_APIGroup :: "string option"
  rr_Kind :: string
  rr_Name :: string

text \<open>A path's backend names a resource, a service, or neither; a rule may lack its HTTP part.\<close>

record IngressPath =
  ip_Resource :: "ResourceRef option"
  ip_Service :: "string option"

record IngressRule =
  ir_Host :: string
  ir_HTTP :: "IngressPath list option"

record Ingress =
  in_Name :: string
  in_Namespace :: string
  in_Annotations :: labels
  in_ClassName :: "string option"
  in_Rules :: "IngressRule list"
  in_LoadBalancer :: "LoadBalancerIngress list"

record IngressClass =
  ic_Name :: string
  ic_Controller :: string

section \<open>Cache stores\<close>

datatype kobj =
    KNamespace string
  | KService Service
  | KEndpointSlice EndpointSlice
  | KPod Pod
  | KDeployment Deployment
  | KIngress Ingress
  | KIngressClass IngressClass
  | KUnstructured Unstructured
  | KOther

type_synonym store = "kobj list"

fun as_namespace :: "kobj \<Rightarrow> string option" where
  "as_namespace (KNamespace n) = Some n" | "as_namespace _ = None"
fun as_service :: "kobj \<Rightarrow> Service option" where
  "as_service (KService s) = Some s" | "as_service _ = None"
fun as_slice :: "kobj \<Rightarrow> EndpointSlice option" where
  "as_slice (KEndpointSlice s) = Some s" | "as_slice _ = None"
fun as_pod :: "kobj \<Rightarrow> Pod option" where
  "as_pod (KPod p) = Some p" | "as_pod _ = None"
fun as_deployment :: "kobj \<Rightarrow> Deployment option" where
  "as_deployment (KDeployment d) = Some d" | "as_deployment _ = None"
fun as_ingress :: "kobj \<Rightarrow> Ingress option" where
  "as_ingress (KIngress i) = Some i" | "as_ingress _ = None"
fun as_ingress_class :: "kobj \<Rightarrow> IngressClass option" where
  "as_ingress_class (KIngressClass i) = Some i" | "as_ingress_class _ = None"
fun as_unstructured :: "kobj \<Rightarrow> Unstructured option" where
  "as_unstructured (KUnstructured u) = Some u" | "as_unstructured _ = None"

section \<open>The functions of apimachinery\<close>

text \<open>
  \<open>NestedSlice\<close>, \<open>NestedStringSlice\<close> and \<open>NestedString\<close> are used with their errors dropped, so an
  absent or ill-typed field reads as the zero value; \<open>NestedMap\<close> tells an error, absence and the
  map apart. A selector is the predicate \<open>Matches\<close> on labels.
\<close>

type_synonym Selector = "labels \<Rightarrow> bool"

record KubeLib =
  lib_NestedSlice :: "umap \<Rightarrow> string list \<Rightarrow> uval list"
  lib_NestedStringSlice :: "umap \<Rightarrow> string list \<Rightarrow> string list"
  lib_NestedString :: "umap \<Rightarrow> string list \<Rightarrow> string"
  lib_NestedMap :: "umap \<Rightarrow> string list \<Rightarrow> string + umap option"
  lib_FromUnstructured :: "umap \<Rightarrow> string + LabelSelector"
  lib_AsSelector :: "LabelSelector option \<Rightarrow> string + Selector"
  lib_SelectorFromSet :: "(string \<times> string) list \<Rightarrow> Selector"

end
