(* ===== verification/Kube_Topology_Wording.thy ===== *)
theory Kube_Topology_Wording
  imports Go_Strings
begin

text \<open>
  The Chinese texts of the topology that \<open>internal/kube\<close> builds, as the UTF-8 bytes of the
  source's literals, each with its meaning in English. Format strings are cut at their
  directives.
\<close>

text \<open>"discovered"\<close>

definition txt_discovered :: string where
  "txt_discovered = utf8 [229, 183, 178, 229, 143, 145, 231, 142, 176]"

text \<open>"Gateway API configuration object."\<close>

definition txt_gateway_object :: string where
  "txt_gateway_object = utf8 [71, 97, 116, 101, 119, 97, 121, 32, 65, 80, 73, 32, 233, 133, 141, 231, 189, 174,
     229, 175, 185, 232, 177, 161, 227, 128, 130]"

text \<open>"configured"\<close>

definition txt_configured :: string where
  "txt_configured = utf8 [229, 183, 178, 233, 133, 141, 231, 189, 174]"

text \<open>"HTTP route; Host: "\<close>

definition txt_route_hosts :: string where
  "txt_route_hosts = utf8 [72, 84, 84, 80, 32, 232, 183, 175, 231, 148, 177, 239, 188, 155, 72, 111, 115, 116,
     58, 32]"

text \<open>"parent Gateway does not exist"\<close>

definition txt_parent_missing :: string where
  "txt_parent_missing = utf8 [231, 136, 182, 32, 71, 97, 116, 101, 119, 97, 121, 32, 228, 184, 141, 229, 173, 152,
     229, 156, 168]"

text \<open>"parentRef cannot be resolved"\<close>

definition txt_parent_unresolved :: string where
  "txt_parent_unresolved = utf8 [112, 97, 114, 101, 110, 116, 82, 101, 102, 32, 230, 151, 160, 230, 179, 149, 232,
     167, 163, 230, 158, 144]"

text \<open>"Service has "\<close>

definition txt_service_has :: string where
  "txt_service_has = utf8 [83, 101, 114, 118, 105, 99, 101, 32, 230, 156, 137, 32]"

text \<open>" ready endpoints."\<close>

definition txt_ready_endpoints :: string where
  "txt_ready_endpoints = utf8 [32, 228, 184, 170, 32, 82, 101, 97, 100, 121, 32, 69, 110, 100, 112, 111, 105, 110,
     116, 227, 128, 130]"

text \<open>"backend InferencePool does not exist"\<close>

definition txt_pool_missing :: string where
  "txt_pool_missing = utf8 [229, 144, 142, 231, 171, 175, 32, 73, 110, 102, 101, 114, 101, 110, 99, 101, 80,
     111, 111, 108, 32, 228, 184, 141, 229, 173, 152, 229, 156, 168]"

text \<open>"ReferenceGrant missing"\<close>

definition txt_grant_missing :: string where
  "txt_grant_missing = utf8 [82, 101, 102, 101, 114, 101, 110, 99, 101, 71, 114, 97, 110, 116, 32, 231, 188, 186,
     229, 164, 177]"

text \<open>"cross-namespace InferencePool backendRef is not allowed by a ReferenceGrant."\<close>

definition txt_pool_not_granted :: string where
  "txt_pool_not_granted = utf8 [232, 183, 168, 229, 145, 189, 229, 144, 141, 231, 169, 186, 233, 151, 180, 32, 73,
     110, 102, 101, 114, 101, 110, 99, 101, 80, 111, 111, 108, 32, 66, 97, 99, 107, 101,
     110, 100, 82, 101, 102, 32, 230, 156, 170, 232, 162, 171, 32, 82, 101, 102, 101,
     114, 101, 110, 99, 101, 71, 114, 97, 110, 116, 32, 229, 133, 129, 232, 174, 184,
     227, 128, 130]"

text \<open>"cross-namespace reference is not authorized"\<close>

definition txt_not_authorized :: string where
  "txt_not_authorized = utf8 [232, 183, 168, 229, 145, 189, 229, 144, 141, 231, 169, 186, 233, 151, 180, 229, 188,
     149, 231, 148, 168, 230, 156, 170, 230, 142, 136, 230, 157, 131]"

text \<open>"unsupported HTTPRoute backend kind"\<close>

definition txt_backend_unsupported :: string where
  "txt_backend_unsupported = utf8 [228, 184, 141, 230, 148, 175, 230, 140, 129, 231, 154, 132, 32, 72, 84, 84, 80, 82,
     111, 117, 116, 101, 32, 229, 144, 142, 231, 171, 175, 231, 177, 187, 229, 158, 139]"

text \<open>"backend Service does not exist"\<close>

definition txt_service_missing :: string where
  "txt_service_missing = utf8 [229, 144, 142, 231, 171, 175, 32, 83, 101, 114, 118, 105, 99, 101, 32, 228, 184,
     141, 229, 173, 152, 229, 156, 168]"

text \<open>"cross-namespace backendRef is not allowed by a ReferenceGrant."\<close>

definition txt_ref_not_granted :: string where
  "txt_ref_not_granted = utf8 [232, 183, 168, 229, 145, 189, 229, 144, 141, 231, 169, 186, 233, 151, 180, 32, 66,
     97, 99, 107, 101, 110, 100, 82, 101, 102, 32, 230, 156, 170, 232, 162, 171, 32, 82,
     101, 102, 101, 114, 101, 110, 99, 101, 71, 114, 97, 110, 116, 32, 229, 133, 129,
     232, 174, 184, 227, 128, 130]"

text \<open>"no ready endpoint"\<close>

definition txt_no_ready_endpoint :: string where
  "txt_no_ready_endpoint = utf8 [230, 151, 160, 32, 82, 101, 97, 100, 121, 32, 69, 110, 100, 112, 111, 105, 110, 116]"

text \<open>"Service has no usable endpoint."\<close>

definition txt_service_no_endpoint :: string where
  "txt_service_no_endpoint = utf8 [83, 101, 114, 118, 105, 99, 101, 32, 230, 178, 161, 230, 156, 137, 229, 143, 175,
     231, 148, 168, 32, 69, 110, 100, 112, 111, 105, 110, 116, 227, 128, 130]"

text \<open>"backend has no usable endpoint"\<close>

definition txt_backend_no_endpoint :: string where
  "txt_backend_no_endpoint = utf8 [229, 144, 142, 231, 171, 175, 230, 178, 161, 230, 156, 137, 229, 143, 175, 231, 148,
     168, 32, 69, 110, 100, 112, 111, 105, 110, 116]"

text \<open>"'s endpoint address "\<close>

definition txt_endpoint_address :: string where
  "txt_endpoint_address = utf8 [32, 231, 154, 132, 32, 69, 110, 100, 112, 111, 105, 110, 116, 32, 229, 156, 176,
     229, 157, 128, 32]"

text \<open>", from EndpointSlice "\<close>

definition txt_from_slice :: string where
  "txt_from_slice = utf8 [239, 188, 140, 230, 157, 165, 232, 135, 170, 32, 69, 110, 100, 112, 111, 105, 110,
     116, 83, 108, 105, 99, 101, 32]"

text \<open>"(full stop)"\<close>

definition txt_full_stop :: string where
  "txt_full_stop = utf8 [227, 128, 130]"

text \<open>"'s "\<close>

definition txt_of :: string where
  "txt_of = utf8 [32, 231, 154, 132, 32]"

text \<open>", address "\<close>

definition txt_address :: string where
  "txt_address = utf8 [239, 188, 140, 229, 156, 176, 229, 157, 128, 32]"

text \<open>"current snapshot"\<close>

definition txt_current_snapshot :: string where
  "txt_current_snapshot = utf8 [229, 189, 147, 229, 137, 141, 229, 191, 171, 231, 133, 167]"

text \<open>"data-plane gateway recognised from a Deployment and its ready pods."\<close>

definition txt_standalone_gateway :: string where
  "txt_standalone_gateway = utf8 [230, 160, 185, 230, 141, 174, 32, 68, 101, 112, 108, 111, 121, 109, 101, 110, 116,
     32, 229, 146, 140, 32, 82, 101, 97, 100, 121, 32, 80, 111, 100, 32, 232, 135, 170,
     229, 138, 168, 232, 175, 134, 229, 136, 171, 231, 154, 132, 230, 149, 176, 230, 141,
     174, 233, 157, 162, 231, 189, 145, 229, 133, 179, 227, 128, 130]"

text \<open>"no Envoy workload found for the gateway"\<close>

definition txt_no_envoy_workload :: string where
  "txt_no_envoy_workload = utf8 [230, 156, 170, 230, 137, 190, 229, 136, 176, 32, 71, 97, 116, 101, 119, 97, 121, 32,
     229, 175, 185, 229, 186, 148, 231, 154, 132, 32, 69, 110, 118, 111, 121, 32, 229,
     183, 165, 228, 189, 156, 232, 180, 159, 232, 189, 189]"

text \<open>"the gateway workload has no ready Envoy pod"\<close>

definition txt_no_envoy_pod :: string where
  "txt_no_envoy_pod = utf8 [71, 97, 116, 101, 119, 97, 121, 32, 229, 183, 165, 228, 189, 156, 232, 180, 159,
     232, 189, 189, 230, 178, 161, 230, 156, 137, 32, 82, 101, 97, 100, 121, 32, 69, 110,
     118, 111, 121, 32, 80, 111, 100]"

text \<open>"Kubernetes port-forward is not configured"\<close>

definition txt_no_port_forward :: string where
  "txt_no_port_forward = utf8 [75, 117, 98, 101, 114, 110, 101, 116, 101, 115, 32, 112, 111, 114, 116, 45, 102,
     111, 114, 119, 97, 114, 100, 32, 229, 176, 154, 230, 156, 170, 233, 133, 141, 231,
     189, 174]"

text \<open>"cannot read the Envoy config_dump: "\<close>

definition txt_config_dump_unreadable :: string where
  "txt_config_dump_unreadable = utf8 [230, 151, 160, 230, 179, 149, 232, 175, 187, 229, 143, 150, 32, 69, 110, 118, 111,
     121, 32, 99, 111, 110, 102, 105, 103, 95, 100, 117, 109, 112, 58, 32]"

text \<open>"the InferencePool selects "\<close>

definition txt_pool_selects :: string where
  "txt_pool_selects = utf8 [73, 110, 102, 101, 114, 101, 110, 99, 101, 80, 111, 111, 108, 32, 233, 128, 137,
     230, 139, 169, 228, 186, 134, 32]"

text \<open>" model server pods, of which "\<close>

definition txt_model_pods :: string where
  "txt_model_pods = utf8 [32, 228, 184, 170, 230, 168, 161, 229, 158, 139, 230, 156, 141, 229, 138, 161, 32,
     80, 111, 100, 239, 188, 140, 229, 133, 182, 228, 184, 173, 32]"

text \<open>" are ready."\<close>

definition txt_are_ready :: string where
  "txt_are_ready = utf8 [32, 228, 184, 170, 32, 82, 101, 97, 100, 121, 227, 128, 130]"

text \<open>"selector invalid"\<close>

definition txt_selector_invalid :: string where
  "txt_selector_invalid = utf8 [83, 101, 108, 101, 99, 116, 111, 114, 32, 230, 151, 160, 230, 149, 136]"

text \<open>"the InferencePool selector cannot be read: "\<close>

definition txt_selector_unreadable :: string where
  "txt_selector_unreadable = utf8 [73, 110, 102, 101, 114, 101, 110, 99, 101, 80, 111, 111, 108, 32, 115, 101, 108,
     101, 99, 116, 111, 114, 32, 230, 151, 160, 230, 179, 149, 232, 167, 163, 230, 158,
     144, 239, 188, 154]"

text \<open>"no ready pod"\<close>

definition txt_no_ready_pool_pod :: string where
  "txt_no_ready_pool_pod = utf8 [230, 151, 160, 32, 82, 101, 97, 100, 121, 32, 80, 111, 100]"

text \<open>"Service selector and InferencePool "\<close>

definition txt_selector_and_pool :: string where
  "txt_selector_and_pool = utf8 [83, 101, 114, 118, 105, 99, 101, 32, 115, 101, 108, 101, 99, 116, 111, 114, 32, 228,
     184, 142, 32, 73, 110, 102, 101, 114, 101, 110, 99, 101, 80, 111, 111, 108, 32]"

text \<open>" match."\<close>

definition txt_match :: string where
  "txt_match = utf8 [32, 229, 140, 185, 233, 133, 141, 227, 128, 130]"

text \<open>"no endpoint"\<close>

definition txt_no_endpoint :: string where
  "txt_no_endpoint = utf8 [230, 151, 160, 32, 69, 110, 100, 112, 111, 105, 110, 116]"

text \<open>"Service and InferencePool selector match, but there is no EndpointSlice address."\<close>

definition txt_service_no_slice :: string where
  "txt_service_no_slice = utf8 [83, 101, 114, 118, 105, 99, 101, 32, 228, 184, 142, 32, 73, 110, 102, 101, 114, 101,
     110, 99, 101, 80, 111, 111, 108, 32, 115, 101, 108, 101, 99, 116, 111, 114, 32, 229,
     140, 185, 233, 133, 141, 239, 188, 140, 228, 189, 134, 230, 178, 161, 230, 156, 137,
     32, 69, 110, 100, 112, 111, 105, 110, 116, 83, 108, 105, 99, 101, 32, 229, 156, 176,
     229, 157, 128, 227, 128, 130]"

text \<open>" selects this model server pod."\<close>

definition txt_selected_pod :: string where
  "txt_selected_pod = utf8 [32, 233, 128, 137, 230, 139, 169, 231, 154, 132, 230, 168, 161, 229, 158, 139, 230,
     156, 141, 229, 138, 161, 32, 80, 111, 100, 227, 128, 130]"

text \<open>"endpoint picker extension the InferencePool uses."\<close>

definition txt_endpoint_picker :: string where
  "txt_endpoint_picker = utf8 [73, 110, 102, 101, 114, 101, 110, 99, 101, 80, 111, 111, 108, 32, 228, 189, 191,
     231, 148, 168, 231, 154, 132, 32, 69, 110, 100, 112, 111, 105, 110, 116, 32, 80,
     105, 99, 107, 101, 114, 32, 230, 137, 169, 229, 177, 149, 227, 128, 130]"

text \<open>"no registry"\<close>

definition txt_no_registry :: string where
  "txt_no_registry = utf8 [230, 151, 160, 230, 179, 168, 229, 134, 140, 228, 184, 173, 229, 191, 131]"

text \<open>"Higress McpBridge with "\<close>

definition txt_bridge_with :: string where
  "txt_bridge_with = utf8 [72, 105, 103, 114, 101, 115, 115, 32, 77, 99, 112, 66, 114, 105, 100, 103, 101, 239,
     188, 140, 229, 140, 133, 229, 144, 171, 32]"

text \<open>" registries."\<close>

definition txt_registries :: string where
  "txt_registries = utf8 [32, 228, 184, 170, 230, 179, 168, 229, 134, 140, 228, 184, 173, 229, 191, 131, 227,
     128, 130]"

text \<open>"McpBridge has no registry configured"\<close>

definition txt_bridge_no_registry :: string where
  "txt_bridge_no_registry = utf8 [77, 99, 112, 66, 114, 105, 100, 103, 101, 32, 230, 156, 170, 233, 133, 141, 231,
     189, 174, 230, 179, 168, 229, 134, 140, 228, 184, 173, 229, 191, 131]"

text \<open>"the registry resolves to a Service without usable endpoints."\<close>

definition txt_registry_no_endpoint :: string where
  "txt_registry_no_endpoint = utf8 [82, 101, 103, 105, 115, 116, 114, 121, 32, 229, 183, 178, 232, 167, 163, 230, 158,
     144, 229, 136, 176, 32, 83, 101, 114, 118, 105, 99, 101, 239, 188, 140, 228, 189,
     134, 32, 83, 101, 114, 118, 105, 99, 101, 32, 230, 178, 161, 230, 156, 137, 229,
     143, 175, 231, 148, 168, 32, 69, 110, 100, 112, 111, 105, 110, 116, 227, 128, 130]"

text \<open>"registry Service has no usable endpoint"\<close>

definition txt_registry_service_no_endpoint :: string where
  "txt_registry_service_no_endpoint = utf8 [82, 101, 103, 105, 115, 116, 114, 121, 32, 83, 101, 114, 118, 105, 99, 101, 32, 230,
     178, 161, 230, 156, 137, 229, 143, 175, 231, 148, 168, 32, 69, 110, 100, 112, 111,
     105, 110, 116]"

text \<open>"Higress Ingress route."\<close>

definition txt_higress_ingress :: string where
  "txt_higress_ingress = utf8 [72, 105, 103, 114, 101, 115, 115, 32, 73, 110, 103, 114, 101, 115, 115, 32, 232,
     183, 175, 231, 148, 177, 227, 128, 130]"

text \<open>"McpBridge does not exist"\<close>

definition txt_bridge_missing :: string where
  "txt_bridge_missing = utf8 [77, 99, 112, 66, 114, 105, 100, 103, 101, 32, 228, 184, 141, 229, 173, 152, 229,
     156, 168]"

text \<open>"Higress destination unresolved"\<close>

definition txt_destination_unresolved :: string where
  "txt_destination_unresolved = utf8 [72, 105, 103, 114, 101, 115, 115, 32, 100, 101, 115, 116, 105, 110, 97, 116, 105,
     111, 110, 32, 230, 156, 170, 232, 167, 163, 230, 158, 144]"

text \<open>"Ingress backend has no usable endpoint"\<close>

definition txt_ingress_no_endpoint :: string where
  "txt_ingress_no_endpoint = utf8 [73, 110, 103, 114, 101, 115, 115, 32, 229, 144, 142, 231, 171, 175, 230, 178, 161,
     230, 156, 137, 229, 143, 175, 231, 148, 168, 32, 69, 110, 100, 112, 111, 105, 110,
     116]"

text \<open>"Ingress backend Service does not exist"\<close>

definition txt_ingress_service_missing :: string where
  "txt_ingress_service_missing = utf8 [73, 110, 103, 114, 101, 115, 115, 32, 229, 144, 142, 231, 171, 175, 32, 83, 101,
     114, 118, 105, 99, 101, 32, 228, 184, 141, 229, 173, 152, 229, 156, 168]"

text \<open>"Kubernetes Ingress entry."\<close>

definition txt_ingress_entry :: string where
  "txt_ingress_entry = utf8 [75, 117, 98, 101, 114, 110, 101, 116, 101, 115, 32, 73, 110, 103, 114, 101, 115,
     115, 32, 229, 133, 165, 229, 143, 163, 227, 128, 130]"

text \<open>"Ingress belongs to several gateways"\<close>

definition txt_several_gateways :: string where
  "txt_several_gateways = utf8 [73, 110, 103, 114, 101, 115, 115, 32, 229, 175, 185, 229, 186, 148, 229, 164, 154,
     228, 184, 170, 231, 189, 145, 229, 133, 179]"

end
