(* ===== verification/Kube_Snapshot.thy ===== *)
theory Kube_Snapshot
  imports Kube_Objects Kube_Topology_Wording Go_Time GateLens_Prelude
begin

text \<open>
  The state of the Kubernetes store (\<open>internal/kube/store.go\<close>) and the small operations on the
  snapshot under construction. The map of runtimes, which the program iterates, is an
  association list in the order of the iteration; the probe entries are only looked up.
\<close>

section \<open>State\<close>

record proxyPod =
  pod_Name :: string
  pod_Namespace :: string
  pod_UID :: string
  pod_Container :: string
  pod_AdminPort :: int
  pod_Labels :: labels

record gatewayRuntime =
  rt_GatewayID :: string
  rt_Controller :: string
  rt_WorkloadID :: string
  rt_WorkloadName :: string
  rt_Namespace :: string
  rt_Pods :: "proxyPod list"

record cachedEnvoyConfig =
  ce_PodUID :: string
  ce_ExpiresAt :: GoTime
  ce_Config :: EnvoyConfig

record snapshot =
  snap_context :: Context
  snap_topology :: Topology
  snap_findings :: "Finding list"
  snap_resources :: "Resource list"
  snap_runtimes :: "(string \<times> gatewayRuntime) list"
  snap_probeEntries :: "string \<rightharpoonup> ProbeEntry"

text \<open>\<open>ks_restHost\<close> is the host of the REST configuration, None without a configuration.\<close>

record KubeStore =
  ks_clusterID :: string
  ks_capabilities :: "string list"
  ks_snapshot :: snapshot
  ks_restHost :: "string option"
  ks_envoyCache :: "string \<rightharpoonup> cachedEnvoyConfig"
  ks_probeLogFile :: string

definition empty_snapshot :: snapshot where
  "empty_snapshot = \<lparr>snap_context = zero_Context, snap_topology = zero_Topology, snap_findings = [],
     snap_resources = [], snap_runtimes = [], snap_probeEntries = Map.empty\<rparr>"

definition New :: "string \<Rightarrow> string \<Rightarrow> KubeStore" where
  "New clusterID host = \<lparr>ks_clusterID = clusterID, ks_capabilities = [], ks_snapshot = empty_snapshot,
     ks_restHost = Some host, ks_envoyCache = Map.empty, ks_probeLogFile = []\<rparr>"

definition SetProbeLogFile :: "string \<Rightarrow> KubeStore \<Rightarrow> KubeStore" where
  "SetProbeLogFile path s = s\<lparr>ks_probeLogFile := TrimSpace path\<rparr>"

section \<open>Nodes, edges and findings\<close>

abbreviation snap_nodes :: "snapshot \<Rightarrow> TopologyNode list" where
  "snap_nodes snap \<equiv> topo_Nodes (snap_topology snap)"

abbreviation snap_edges :: "snapshot \<Rightarrow> TopologyEdge list" where
  "snap_edges snap \<equiv> topo_Edges (snap_topology snap)"

definition set_nodes :: "TopologyNode list \<Rightarrow> snapshot \<Rightarrow> snapshot" where
  "set_nodes nodes snap = snap\<lparr>snap_topology := (snap_topology snap)\<lparr>topo_Nodes := nodes\<rparr>\<rparr>"

definition appendUnique :: "TopologyNode list \<Rightarrow> TopologyNode \<Rightarrow> TopologyNode list" where
  "appendUnique nodes n = (if list_ex (\<lambda>existing. node_ID existing = node_ID n) nodes then nodes else nodes @ [n])"

definition push_node :: "TopologyNode \<Rightarrow> snapshot \<Rightarrow> snapshot" where
  "push_node n snap = set_nodes (snap_nodes snap @ [n]) snap"

definition add_node :: "TopologyNode \<Rightarrow> snapshot \<Rightarrow> snapshot" where
  "add_node n snap = set_nodes (appendUnique (snap_nodes snap) n) snap"

definition kube_edge :: "string \<Rightarrow> string \<Rightarrow> string \<Rightarrow> TopologyEdge" where
  "kube_edge from to relation = zero_TopologyEdge\<lparr>edge_From := from, edge_To := to, edge_Relation := relation\<rparr>"

definition add_edge :: "TopologyEdge \<Rightarrow> snapshot \<Rightarrow> snapshot" where
  "add_edge e snap = snap\<lparr>snap_topology := (snap_topology snap)\<lparr>topo_Edges := snap_edges snap @ [e]\<rparr>\<rparr>"

definition addFinding :: "Status \<Rightarrow> string \<Rightarrow> string \<Rightarrow> string \<Rightarrow> string \<Rightarrow> snapshot \<Rightarrow> snapshot" where
  "addFinding severity title resource basis target s =
     s\<lparr>snap_findings := snap_findings s @
       [\<lparr>find_ID = Itoa (int (length (snap_findings s)) + 1), find_Severity = severity, find_Title = title,
         find_Resource = resource, find_Basis = basis, find_TargetID = target\<rparr>]\<rparr>"

text \<open>The first node with an identity is changed.\<close>

fun update_node :: "string \<Rightarrow> (TopologyNode \<Rightarrow> TopologyNode) \<Rightarrow> TopologyNode list \<Rightarrow> TopologyNode list" where
  "update_node i f [] = []"
| "update_node i f (n # ns) = (if node_ID n = i then f n # ns else n # update_node i f ns)"

definition mark_error :: "string \<Rightarrow> string \<Rightarrow> TopologyNode \<Rightarrow> TopologyNode" where
  "mark_error statusText summary n =
     n\<lparr>node_Status := StatusError, node_StatusText := statusText, node_Summary := summary\<rparr>"

definition markNodeError :: "string \<Rightarrow> string \<Rightarrow> string \<Rightarrow> snapshot \<Rightarrow> snapshot" where
  "markNodeError i statusText summary snap =
     set_nodes (update_node i (mark_error statusText summary) (snap_nodes snap)) snap"

definition kube_node ::
    "string \<Rightarrow> string \<Rightarrow> Unstructured \<Rightarrow> TopologyNodeKind \<Rightarrow> Status \<Rightarrow> string \<Rightarrow> string \<Rightarrow> TopologyNode" where
  "kube_node clusterID i obj kind status statusText summary =
     zero_TopologyNode\<lparr>node_ID := i, node_Name := un_Name obj, node_Kind := kind, node_Namespace := un_Namespace obj,
       node_ClusterID := clusterID, node_Status := status, node_StatusText := statusText, node_Summary := summary,
       node_Source := un_APIVersion obj @ '' '' @ un_Kind obj\<rparr>"

definition add_endpoint :: "string \<Rightarrow> TopologyNode \<Rightarrow> snapshot \<Rightarrow> snapshot" where
  "add_endpoint serviceID n snap = add_edge (kube_edge serviceID (node_ID n) ''selects'') (add_node n snap)"

definition appendServiceEndpoints :: "string \<Rightarrow> TopologyNode list \<Rightarrow> snapshot \<Rightarrow> snapshot" where
  "appendServiceEndpoints serviceID endpoints snap = fold (add_endpoint serviceID) endpoints snap"

section \<open>Resources\<close>

definition node_resource :: "Finding list \<Rightarrow> TopologyNode \<Rightarrow> Resource" where
  "node_resource findings n =
     \<lparr>res_ID = node_ID n, res_Kind = node_Kind n, res_Name = node_Name n, res_Namespace = node_Namespace n,
      res_Status = node_Status n, res_StatusText = node_StatusText n, res_UpdatedAt = txt_current_snapshot,
      res_Findings = int (length (filter (\<lambda>f. find_TargetID f = node_ID n) findings))\<rparr>"

definition resourcesFromNodes :: "TopologyNode list \<Rightarrow> Finding list \<Rightarrow> Resource list" where
  "resourcesFromNodes nodes findings = map (node_resource findings) nodes"

definition kube_resource_matches :: "string \<Rightarrow> Resource \<Rightarrow> bool" where
  "kube_resource_matches query r \<longleftrightarrow>
     Contains (ToLower (res_Kind r @ '' '' @ res_Name r @ '' '' @ res_Namespace r)) (ToLower query)"

definition filterResources :: "Resource list \<Rightarrow> string \<Rightarrow> Resource list" where
  "filterResources resources query =
     (if query = [] then resources else filter (kube_resource_matches query) resources)"

section \<open>Reading\<close>

definition store_Context :: "KubeStore \<Rightarrow> Context" where
  "store_Context s = snap_context (ks_snapshot s)"

definition store_Topology :: "KubeStore \<Rightarrow> Topology" where
  "store_Topology s = snap_topology (ks_snapshot s)"

definition store_Findings :: "KubeStore \<Rightarrow> Finding list" where
  "store_Findings s = snap_findings (ks_snapshot s)"

definition store_Resources :: "KubeStore \<Rightarrow> string \<Rightarrow> Resource list" where
  "store_Resources s query = filterResources (snap_resources (ks_snapshot s)) query"

section \<open>Lemmas\<close>

interpretation nodes: keyed_append appendUnique node_ID
  by unfold_locales (auto simp: appendUnique_def list_ex_iff rev_image_eqI)

lemma set_nodes_simps [simp]:
  "snap_nodes (set_nodes nodes snap) = nodes" "snap_edges (set_nodes nodes snap) = snap_edges snap"
  "snap_findings (set_nodes nodes snap) = snap_findings snap" "snap_runtimes (set_nodes nodes snap) = snap_runtimes snap"
  "snap_probeEntries (set_nodes nodes snap) = snap_probeEntries snap"
  "snap_context (set_nodes nodes snap) = snap_context snap"
  "topo_ProbeEntries (snap_topology (set_nodes nodes snap)) = topo_ProbeEntries (snap_topology snap)"
  by (simp_all add: set_nodes_def)

lemma add_edge_simps [simp]:
  "snap_nodes (add_edge e snap) = snap_nodes snap" "snap_edges (add_edge e snap) = snap_edges snap @ [e]"
  "snap_findings (add_edge e snap) = snap_findings snap" "snap_runtimes (add_edge e snap) = snap_runtimes snap"
  "snap_probeEntries (add_edge e snap) = snap_probeEntries snap" "snap_context (add_edge e snap) = snap_context snap"
  "topo_ProbeEntries (snap_topology (add_edge e snap)) = topo_ProbeEntries (snap_topology snap)"
  by (simp_all add: add_edge_def)

lemma addFinding_simps [simp]:
  "snap_topology (addFinding severity title resource basis target snap) = snap_topology snap"
  "snap_runtimes (addFinding severity title resource basis target snap) = snap_runtimes snap"
  "snap_probeEntries (addFinding severity title resource basis target snap) = snap_probeEntries snap"
  "snap_context (addFinding severity title resource basis target snap) = snap_context snap"
  by (simp_all add: addFinding_def)

lemma addFinding_findings [simp]:
  "set (snap_findings (addFinding severity title resource basis target s)) =
     insert \<lparr>find_ID = Itoa (int (length (snap_findings s)) + 1), find_Severity = severity, find_Title = title,
       find_Resource = resource, find_Basis = basis, find_TargetID = target\<rparr> (set (snap_findings s))"
  by (simp add: addFinding_def)

lemma push_node_simps [simp]:
  "snap_nodes (push_node n s) = snap_nodes s @ [n]" "snap_edges (push_node n s) = snap_edges s"
  "snap_findings (push_node n s) = snap_findings s" "snap_context (push_node n s) = snap_context s"
  "snap_runtimes (push_node n s) = snap_runtimes s" "snap_probeEntries (push_node n s) = snap_probeEntries s"
  "topo_ProbeEntries (snap_topology (push_node n s)) = topo_ProbeEntries (snap_topology s)"
  by (simp_all add: push_node_def)

lemma add_node_simps [simp]:
  "snap_nodes (add_node n s) = appendUnique (snap_nodes s) n" "snap_edges (add_node n s) = snap_edges s"
  "snap_findings (add_node n s) = snap_findings s" "snap_context (add_node n s) = snap_context s"
  "snap_runtimes (add_node n s) = snap_runtimes s" "snap_probeEntries (add_node n s) = snap_probeEntries s"
  "topo_ProbeEntries (snap_topology (add_node n s)) = topo_ProbeEntries (snap_topology s)"
  by (simp_all add: add_node_def)

lemma markNodeError_simps [simp]:
  "snap_nodes (markNodeError i t m s) = update_node i (mark_error t m) (snap_nodes s)"
  "snap_edges (markNodeError i t m s) = snap_edges s" "snap_findings (markNodeError i t m s) = snap_findings s"
  "snap_context (markNodeError i t m s) = snap_context s" "snap_runtimes (markNodeError i t m s) = snap_runtimes s"
  "snap_probeEntries (markNodeError i t m s) = snap_probeEntries s"
  "topo_ProbeEntries (snap_topology (markNodeError i t m s)) = topo_ProbeEntries (snap_topology s)"
  by (simp_all add: markNodeError_def)

end
