(* ===== verification/Kube_Endpoints.thy ===== *)
theory Kube_Endpoints
  imports Kube_Snapshot
begin

text \<open>
  \<open>internal/kube/store.go\<close>: the endpoints of the services, from the EndpointSlices, and the
  reference grants that allow routes to name backends of other namespaces.
\<close>

section \<open>Endpoints\<close>

definition service_label :: string where "service_label = ''kubernetes.io/service-name''"

definition optional :: "string \<Rightarrow> string option \<Rightarrow> string list" where
  "optional prefix v = (case v of Some t \<Rightarrow> if t \<noteq> [] then [prefix @ t] else [] | None \<Rightarrow> [])"

definition port_conditions :: "EndpointPort \<Rightarrow> string list" where
  "port_conditions port =
     (case epp_Port port of
        None \<Rightarrow> []
      | Some p \<Rightarrow>
          [''Port='' @ Itoa p] @ optional ''PortName='' (epp_Name port)
          @ (case epp_Protocol port of Some t \<Rightarrow> [''Protocol='' @ t] | None \<Rightarrow> []))"

definition state_condition :: "string \<Rightarrow> bool option \<Rightarrow> string list" where
  "state_condition prefix v = (case v of Some b \<Rightarrow> [prefix @ bool_text b] | None \<Rightarrow> [])"

text \<open>The name, summary and first conditions: of the target object, the host name, or the address.\<close>

definition endpoint_target ::
    "EndpointSlice \<Rightarrow> Endpoint \<Rightarrow> string \<Rightarrow> string \<Rightarrow> string \<times> string \<times> string list" where
  "endpoint_target slice endpoint service address =
     (let plain = ''Service '' @ service @ txt_endpoint_address @ address @ txt_from_slice @ es_Name slice @ txt_full_stop;
          unnamed = (case ep_Hostname endpoint of
              Some h \<Rightarrow> if h \<noteq> [] then (h, plain, [''Hostname='' @ h]) else (address, plain, [])
            | None \<Rightarrow> (address, plain, []))
      in case ep_TargetRef endpoint of
           None \<Rightarrow> unnamed
         | Some target \<Rightarrow>
             if tr_Name target = [] then unnamed
             else
               (let namespace = (if tr_Namespace target = [] then es_Namespace slice else tr_Namespace target);
                    kind = (if tr_Kind target = [] then ''Object'' else tr_Kind target)
                in (tr_Name target,
                    ''Service '' @ service @ txt_of @ kind @ '' '' @ tr_Name target @ txt_address @ address
                      @ txt_from_slice @ es_Name slice @ txt_full_stop,
                    [''TargetRef='' @ kind @ ''/'' @ namespace @ ''/'' @ tr_Name target])))"

definition endpointIdentity ::
    "EndpointSlice \<Rightarrow> Endpoint \<Rightarrow> string \<Rightarrow> string \<Rightarrow> bool \<Rightarrow> string \<times> string \<times> string list" where
  "endpointIdentity slice endpoint serviceName address isReady =
     (let service = es_Namespace slice @ ''/'' @ serviceName;
          (name, summary, target) = endpoint_target slice endpoint service address
      in (name, summary,
          [''Service='' @ service, ''Address='' @ address,
           ''EndpointSlice='' @ es_Namespace slice @ ''/'' @ es_Name slice, ''Ready='' @ bool_text isReady]
          @ target @ optional ''Node='' (ep_NodeName endpoint) @ concat (map port_conditions (es_Ports slice))
          @ state_condition ''Serving='' (ep_Serving endpoint)
          @ state_condition ''Terminating='' (ep_Terminating endpoint)))"

definition endpoint_ready :: "Endpoint \<Rightarrow> bool" where
  "endpoint_ready endpoint = (case ep_Ready endpoint of None \<Rightarrow> True | Some r \<Rightarrow> r)"

definition endpoint_id :: "EndpointSlice \<Rightarrow> string \<Rightarrow> string \<Rightarrow> string" where
  "endpoint_id slice serviceName address =
     ''endpoint/'' @ es_Namespace slice @ ''/'' @ (if serviceName \<noteq> [] then serviceName @ ''/'' else []) @ address"

definition endpoint_node :: "string \<Rightarrow> EndpointSlice \<Rightarrow> string \<Rightarrow> Endpoint \<Rightarrow> string \<Rightarrow> TopologyNode" where
  "endpoint_node clusterID slice serviceName endpoint address =
     (let isReady = endpoint_ready endpoint;
          (name, summary, conditions) = endpointIdentity slice endpoint serviceName address isReady
      in zero_TopologyNode\<lparr>node_ID := endpoint_id slice serviceName address, node_Name := name,
           node_Kind := TopologyNodeKindEndpoint, node_Namespace := es_Namespace slice, node_ClusterID := clusterID,
           node_Status := (if isReady then StatusHealthy else StatusWarning),
           node_StatusText := (if isReady then ''Ready'' else ''NotReady''), node_Summary := summary,
           node_Conditions := conditions, node_Source := ''discovery.k8s.io/v1 EndpointSlice''\<rparr>)"

text \<open>The number of ready endpoints of each service and its endpoint nodes.\<close>

type_synonym readiness = "(string \<rightharpoonup> int) \<times> (string \<rightharpoonup> TopologyNode list)"

definition ready_count :: "(string \<rightharpoonup> int) \<Rightarrow> string \<Rightarrow> int" where
  "ready_count ready key = (case ready key of None \<Rightarrow> 0 | Some n \<Rightarrow> n)"

definition endpoints_at :: "(string \<rightharpoonup> TopologyNode list) \<Rightarrow> string \<Rightarrow> TopologyNode list" where
  "endpoints_at nodes key = (case nodes key of None \<Rightarrow> [] | Some ns \<Rightarrow> ns)"

definition count_endpoint :: "string \<Rightarrow> EndpointSlice \<Rightarrow> Endpoint \<Rightarrow> readiness \<Rightarrow> readiness" where
  "count_endpoint clusterID slice endpoint acc =
     (let (ready, nodes) = acc;
          serviceName = label (es_Labels slice) service_label;
          key = es_Namespace slice @ ''/'' @ serviceName
      in (if endpoint_ready endpoint then ready(key \<mapsto> ready_count ready key + 1) else ready,
          if ep_Addresses endpoint = [] then nodes
          else nodes(key \<mapsto> endpoints_at nodes key
            @ map (endpoint_node clusterID slice serviceName endpoint) (ep_Addresses endpoint))))"

definition count_slice :: "string \<Rightarrow> EndpointSlice \<Rightarrow> readiness \<Rightarrow> readiness" where
  "count_slice clusterID slice acc = fold (count_endpoint clusterID slice) (es_Endpoints slice) acc"

definition endpointReadiness :: "store \<Rightarrow> string \<Rightarrow> readiness" where
  "endpointReadiness items clusterID =
     fold (count_slice clusterID) (List.map_filter as_slice items) (Map.empty, Map.empty)"

section \<open>Reference grants\<close>

definition grantKey :: "string \<Rightarrow> string \<Rightarrow> string \<Rightarrow> string \<Rightarrow> string \<Rightarrow> string" where
  "grantKey fromNamespace toNamespace grp kind name =
     fromNamespace @ ''->'' @ toNamespace @ ''/'' @ grp @ ''/'' @ kind @ ''/'' @ name"

definition grants_routes :: "umap \<Rightarrow> bool" where
  "grants_routes f \<longleftrightarrow>
     kube_stringValue f ''group'' ''gateway.networking.k8s.io'' = ''gateway.networking.k8s.io''
     \<and> kube_stringValue f ''kind'' [] = ''HTTPRoute''"

definition granted_key :: "string \<Rightarrow> umap \<Rightarrow> umap \<Rightarrow> string" where
  "granted_key namespace f t =
     grantKey (kube_stringValue f ''namespace'' []) namespace (kube_stringValue t ''group'' [])
       (kube_stringValue t ''kind'' []) (kube_stringValue t ''name'' ''*'')"

definition grant_keys :: "KubeLib \<Rightarrow> Unstructured \<Rightarrow> string list" where
  "grant_keys lib obj =
     concat (map (\<lambda>f. map (granted_key (un_Namespace obj) f)
         (map as_map (lib_NestedSlice lib (un_Object obj) [''spec'', ''to''])))
       (filter grants_routes (map as_map (lib_NestedSlice lib (un_Object obj) [''spec'', ''from'']))))"

definition collectGrants :: "KubeLib \<Rightarrow> store \<Rightarrow> string list" where
  "collectGrants lib items = concat (map (grant_keys lib) (List.map_filter as_unstructured items))"

definition grantsAllow :: "string list \<Rightarrow> string \<Rightarrow> string \<Rightarrow> string \<Rightarrow> string \<Rightarrow> string \<Rightarrow> bool" where
  "grantsAllow grants fromNamespace toNamespace grp kind name \<longleftrightarrow>
     List.member grants (grantKey fromNamespace toNamespace grp kind name)
     \<or> List.member grants (grantKey fromNamespace toNamespace grp kind ''*'')"

section \<open>Gateway addresses\<close>

text \<open>Items that are not maps are skipped, and so are addresses without a value.\<close>

fun address_condition :: "uval \<Rightarrow> string list" where
  "address_condition (UMap address) =
     (let v = kube_stringValue address ''value'' [] in if v \<noteq> [] then [''Address='' @ v] else [])"
| "address_condition v = []"

definition gatewayAddressConditions :: "KubeLib \<Rightarrow> Unstructured \<Rightarrow> string list" where
  "gatewayAddressConditions lib obj =
     concat (map address_condition (lib_NestedSlice lib (un_Object obj) [''status'', ''addresses'']))"

end
