(* ===== verification/Kube_Runtime.thy ===== *)
theory Kube_Runtime
  imports Kube_Endpoints
begin

text \<open>
  \<open>internal/kube/envoy_runtime.go\<close>: which pods run the proxies of a gateway, found from the
  gateway's class and the labels of ready pods, or from a Deployment that looks like a
  gateway; and the services through which probes can enter a gateway.
\<close>

section \<open>Controllers\<close>

definition collectGatewayClasses :: "KubeLib \<Rightarrow> store \<Rightarrow> string \<rightharpoonup> string" where
  "collectGatewayClasses lib items =
     map_of (rev (map (\<lambda>class. (un_Name class, lib_NestedString lib (un_Object class) [''spec'', ''controllerName'']))
       (List.map_filter as_unstructured items)))"

definition gatewayControllerKind :: "string \<Rightarrow> string" where
  "gatewayControllerKind controller =
     (let v = ToLower controller in
      if Contains v ''higress'' then ''higress''
      else if Contains v ''istio'' then ''istio''
      else if Contains v ''envoy'' then ''envoy''
      else [])"

definition inferredController :: "string \<Rightarrow> string" where
  "inferredController kind =
     (if kind = ''higress'' then ''higress.io/gateway-controller''
      else if kind = ''istio'' then ''istio.io/gateway-controller''
      else if kind = ''envoy'' then ''gateway.envoyproxy.io/gatewayclass-controller''
      else [])"

section \<open>Pods and their proxy container\<close>

definition podReady :: "Pod \<Rightarrow> bool" where
  "podReady pod \<longleftrightarrow>
     pd_Phase pod = ''Running'' \<and> \<not> pd_Deleting pod
     \<and> (case map_of (pd_Conditions pod) ''Ready'' of None \<Rightarrow> False | Some status \<Rightarrow> status = ''True'')"

definition is_proxy_container :: "string \<Rightarrow> Container \<Rightarrow> bool" where
  "is_proxy_container kind container \<longleftrightarrow>
     (let identity = ToLower (ct_Name container @ '' '' @ ct_Image container) in
      kind = ''istio'' \<and> (ct_Name container = ''istio-proxy'' \<or> Contains identity ''proxyv2'')
      \<or> kind = ''higress'' \<and> (ToLower (ct_Name container) = ''higress-gateway''
           \<or> Contains identity ''higress'' \<and> Contains identity ''gateway'')
      \<or> kind = ''envoy'' \<and> (ct_Name container = ''envoy'' \<or> Contains (ToLower (ct_Image container)) ''envoyproxy/envoy''))"

definition proxyContainer :: "Pod \<Rightarrow> string \<Rightarrow> string" where
  "proxyContainer pod kind =
     (case find (is_proxy_container kind) (pd_Containers pod) of None \<Rightarrow> [] | Some c \<Rightarrow> ct_Name c)"

definition istioEnvoyAdminPort :: int where "istioEnvoyAdminPort = 15000"
definition envoyGatewayAdminPort :: int where "envoyGatewayAdminPort = 19000"

definition is_admin_port :: "string \<times> int \<Rightarrow> bool" where
  "is_admin_port port \<longleftrightarrow> Contains (ToLower (fst port)) ''admin''"

text \<open>The first admin port of the containers of that name.\<close>

definition proxyAdminPort :: "Pod \<Rightarrow> string \<Rightarrow> string \<Rightarrow> int" where
  "proxyAdminPort pod containerName kind =
     (case find is_admin_port
         (concat (map ct_Ports (filter (\<lambda>c. ct_Name c = containerName) (pd_Containers pod)))) of
        Some port \<Rightarrow> snd port
      | None \<Rightarrow> if kind = ''envoy'' then envoyGatewayAdminPort else istioEnvoyAdminPort)"

definition proxy_pod :: "string \<Rightarrow> Pod \<Rightarrow> proxyPod" where
  "proxy_pod kind pod =
     \<lparr>pod_Name = pd_Name pod, pod_Namespace = pd_Namespace pod, pod_UID = pd_UID pod,
      pod_Container = proxyContainer pod kind, pod_AdminPort = proxyAdminPort pod (proxyContainer pod kind) kind,
      pod_Labels = pd_Labels pod\<rparr>"

section \<open>The runtime of a Gateway object\<close>

definition pod_identity_text :: "Pod \<Rightarrow> string" where
  "pod_identity_text pod =
     ToLower (pd_Name pod @ '' '' @ label (pd_Labels pod) ''app'' @ '' ''
       @ label (pd_Labels pod) ''app.kubernetes.io/name'' @ '' '' @ label (pd_Labels pod) ''istio'')"

definition gatewayPodScore :: "Unstructured \<Rightarrow> Pod \<Rightarrow> string \<Rightarrow> int" where
  "gatewayPodScore gateway pod kind =
     (let identity = pod_identity_text pod in
      if label (pd_Labels pod) ''gateway.networking.k8s.io/gateway-name'' = un_Name gateway
         \<and> pd_Namespace pod = un_Namespace gateway then 100
      else if Contains identity (ToLower (un_Name gateway)) then 70
      else if kind \<in> set [''higress'', ''istio'', ''envoy''] \<and> Contains identity kind \<and> Contains identity ''gateway'' then 40
      else 0)"

text \<open>The ready proxy pods of the best score, in the order of the store.\<close>

definition score_pod ::
    "Unstructured \<Rightarrow> string \<Rightarrow> Pod \<Rightarrow> int \<times> Pod list \<Rightarrow> int \<times> Pod list" where
  "score_pod gateway kind pod acc =
     (let (bestScore, candidates) = acc; score = gatewayPodScore gateway pod kind in
      if \<not> podReady pod \<or> proxyContainer pod kind = [] then acc
      else if score = 0 \<or> score < bestScore then acc
      else if score > bestScore then (score, [pod])
      else (bestScore, candidates @ [pod]))"

definition pod_before :: "Pod \<Rightarrow> Pod \<Rightarrow> bool" where
  "pod_before a b \<longleftrightarrow> pd_Name a < pd_Name b"

definition deployment_before :: "Deployment \<Rightarrow> Deployment \<Rightarrow> bool" where
  "deployment_before a b \<longleftrightarrow> dp_Name a < dp_Name b"

definition deployment_matches :: "KubeLib \<Rightarrow> Pod \<Rightarrow> Deployment \<Rightarrow> bool" where
  "deployment_matches lib pod deployment \<longleftrightarrow>
     dp_Namespace deployment = pd_Namespace pod
     \<and> (case lib_AsSelector lib (dp_Selector deployment) of Inl e \<Rightarrow> False | Inr selector \<Rightarrow> selector (pd_Labels pod))"

definition matchingDeployment :: "KubeLib \<Rightarrow> Pod \<Rightarrow> store \<Rightarrow> Deployment option" where
  "matchingDeployment lib pod items =
     (case slice_stable deployment_before (filter (deployment_matches lib pod) (List.map_filter as_deployment items)) of
        [] \<Rightarrow> None
      | d # ds \<Rightarrow> Some d)"

definition selected_pods :: "KubeLib \<Rightarrow> Deployment \<Rightarrow> Pod list \<Rightarrow> Pod list" where
  "selected_pods lib deployment candidates =
     (case lib_AsSelector lib (dp_Selector deployment) of
        Inl e \<Rightarrow> candidates
      | Inr selector \<Rightarrow> filter (\<lambda>pod. selector (pd_Labels pod)) candidates)"

definition gateway_id :: "Unstructured \<Rightarrow> string" where
  "gateway_id gateway = ''gateway/'' @ un_Namespace gateway @ ''/'' @ un_Name gateway"

definition workload_id :: "Deployment \<Rightarrow> string" where
  "workload_id deployment = ''gateway-workload/'' @ dp_Namespace deployment @ ''/'' @ dp_Name deployment"

text \<open>
  The code filters the candidates in place; the Deployment was chosen because its selector
  matches the first of them, which therefore stays the first.
\<close>

definition resolveGatewayRuntime ::
    "KubeLib \<Rightarrow> Unstructured \<Rightarrow> (string \<rightharpoonup> string) \<Rightarrow> store \<Rightarrow> store \<Rightarrow> gatewayRuntime option" where
  "resolveGatewayRuntime lib gateway classes deploymentItems podItems =
     (let className = lib_NestedString lib (un_Object gateway) [''spec'', ''gatewayClassName''];
          controller = (case classes className of None \<Rightarrow> [] | Some c \<Rightarrow> c);
          kind = gatewayControllerKind controller
      in if kind = [] then None
         else
           (case slice_stable pod_before (snd (fold (score_pod gateway kind) (List.map_filter as_pod podItems) (0, []))) of
              [] \<Rightarrow> None
            | first # rest \<Rightarrow>
                (let (selected, workloadName, workloadID) =
                       (case matchingDeployment lib first deploymentItems of
                          None \<Rightarrow> (first # rest, pd_Name first, ''pod/'' @ pd_Namespace first @ ''/'' @ pd_Name first)
                        | Some d \<Rightarrow> (selected_pods lib d (first # rest), dp_Name d, workload_id d));
                     runtime = \<lparr>rt_GatewayID = gateway_id gateway, rt_Controller = controller,
                       rt_WorkloadID = workloadID, rt_WorkloadName = workloadName, rt_Namespace = pd_Namespace first,
                       rt_Pods = map (proxy_pod kind) selected\<rparr>
                 in if rt_Pods runtime = [] then None else Some runtime)))"

definition gatewayRuntimeConditions :: "gatewayRuntime \<Rightarrow> string list" where
  "gatewayRuntimeConditions runtime =
     [''EnvoyConfig=available'', ''Controller='' @ rt_Controller runtime,
      ''Workload='' @ rt_Namespace runtime @ ''/'' @ rt_WorkloadName runtime,
      ''ReadyReplicas='' @ Itoa (int (length (rt_Pods runtime)))]"

definition set_runtime :: "gatewayRuntime \<Rightarrow> snapshot \<Rightarrow> snapshot" where
  "set_runtime runtime snap =
     snap\<lparr>snap_runtimes := AList.update (rt_GatewayID runtime) runtime (snap_runtimes snap)\<rparr>"

definition runtime_node :: "gatewayRuntime \<Rightarrow> TopologyNode \<Rightarrow> TopologyNode" where
  "runtime_node runtime n =
     n\<lparr>node_Status := StatusHealthy, node_StatusText := Itoa (int (length (rt_Pods runtime))) @ '' Ready'',
       node_Conditions := node_Conditions n @ gatewayRuntimeConditions runtime\<rparr>"

definition addGatewayRuntime ::
    "KubeLib \<Rightarrow> Unstructured \<Rightarrow> (string \<rightharpoonup> string) \<Rightarrow> store \<Rightarrow> store \<Rightarrow> snapshot \<Rightarrow> snapshot" where
  "addGatewayRuntime lib gateway classes deployments pods snap =
     (case resolveGatewayRuntime lib gateway classes deployments pods of
        None \<Rightarrow> snap
      | Some runtime \<Rightarrow>
          set_nodes (update_node (rt_GatewayID runtime) (runtime_node runtime) (snap_nodes snap)) (set_runtime runtime snap))"

section \<open>Gateways known from their Deployment only\<close>

definition gateway_labels :: "labels \<Rightarrow> string list" where
  "gateway_labels m = [label m ''app'', label m ''app.kubernetes.io/name'', label m ''app.kubernetes.io/component'']"

definition isStandaloneHigressGateway :: "Deployment \<Rightarrow> Pod \<Rightarrow> bool" where
  "isStandaloneHigressGateway deployment pod \<longleftrightarrow>
     list_ex (\<lambda>v. ToLower v = ''higress-gateway'')
       (dp_Name deployment # gateway_labels (dp_Labels deployment) @ gateway_labels (pd_Labels pod))"

definition standalone_identity :: "Deployment \<Rightarrow> Pod \<Rightarrow> string" where
  "standalone_identity deployment pod =
     ToLower (Join (dp_Name deployment # gateway_labels (dp_Labels deployment) @ pd_Name pod # gateway_labels (pd_Labels pod)
       @ label (pd_Labels pod) ''gateway.networking.k8s.io/gateway-name''
       # concat (map (\<lambda>c. [ct_Name c, ct_Image c]) (pd_Containers pod))) '' '')"

definition runs_kind :: "Deployment \<Rightarrow> Pod \<Rightarrow> string \<Rightarrow> bool" where
  "runs_kind deployment pod kind \<longleftrightarrow>
     proxyContainer pod kind \<noteq> [] \<and> Contains (standalone_identity deployment pod) kind
     \<and> Contains (standalone_identity deployment pod) ''gateway''"

definition standaloneGatewayKind :: "Deployment \<Rightarrow> Pod \<Rightarrow> string" where
  "standaloneGatewayKind deployment pod =
     (if isStandaloneHigressGateway deployment pod \<and> proxyContainer pod ''higress'' \<noteq> [] then ''higress''
      else (case find (runs_kind deployment pod) [''istio'', ''envoy''] of None \<Rightarrow> [] | Some kind \<Rightarrow> kind))"

text \<open>The pods of the kind of the first one that has a kind.\<close>

definition select_pod ::
    "Deployment \<Rightarrow> Selector \<Rightarrow> Pod \<Rightarrow> string \<times> Pod list \<Rightarrow> string \<times> Pod list" where
  "select_pod deployment selector pod acc =
     (let (kind, selected) = acc in
      if pd_Namespace pod \<noteq> dp_Namespace deployment \<or> \<not> podReady pod \<or> \<not> selector (pd_Labels pod) then acc
      else
        (let podKind = standaloneGatewayKind deployment pod in
         if podKind = [] \<or> kind \<noteq> [] \<and> podKind \<noteq> kind then acc else (podKind, selected @ [pod])))"

definition standalone_runtime :: "Deployment \<Rightarrow> string \<Rightarrow> Pod list \<Rightarrow> gatewayRuntime" where
  "standalone_runtime deployment kind selected =
     \<lparr>rt_GatewayID = ''gateway-runtime/'' @ dp_Namespace deployment @ ''/'' @ dp_Name deployment,
      rt_Controller = inferredController kind, rt_WorkloadID = workload_id deployment,
      rt_WorkloadName = dp_Name deployment, rt_Namespace = dp_Namespace deployment,
      rt_Pods = map (proxy_pod kind) (slice_stable pod_before selected)\<rparr>"

definition standalone_node :: "string \<Rightarrow> gatewayRuntime \<Rightarrow> TopologyNode" where
  "standalone_node clusterID runtime =
     zero_TopologyNode\<lparr>node_ID := rt_GatewayID runtime, node_Name := rt_WorkloadName runtime,
       node_Kind := TopologyNodeKindGateway, node_Namespace := rt_Namespace runtime, node_ClusterID := clusterID,
       node_Status := StatusHealthy, node_StatusText := Itoa (int (length (rt_Pods runtime))) @ '' Ready'',
       node_Summary := txt_standalone_gateway, node_Conditions := gatewayRuntimeConditions runtime,
       node_Source := ''apps/v1 Deployment / v1 Pod'', node_WorkloadScope := rt_Namespace runtime\<rparr>"

definition add_standalone ::
    "KubeLib \<Rightarrow> string set \<Rightarrow> Pod list \<Rightarrow> Deployment \<Rightarrow> snapshot \<Rightarrow> snapshot" where
  "add_standalone lib claimed pods deployment snap =
     (if dp_Selector deployment = None \<or> workload_id deployment \<in> claimed then snap
      else
        (case lib_AsSelector lib (dp_Selector deployment) of
           Inl e \<Rightarrow> snap
         | Inr selector \<Rightarrow>
             (case fold (select_pod deployment selector) pods ([], []) of
                (kind, selected) \<Rightarrow>
                  if kind = [] \<or> selected = [] then snap
                  else
                    (let runtime = standalone_runtime deployment kind selected in
                     add_node (standalone_node (cl_ID (ctx_Cluster (snap_context snap))) runtime)
                       (set_runtime runtime snap)))))"

text \<open>Deployments come first, in the order of namespace and name.\<close>

definition item_before :: "kobj \<Rightarrow> kobj \<Rightarrow> bool" where
  "item_before a b \<longleftrightarrow>
     (case (as_deployment a, as_deployment b) of
        (Some l, Some r) \<Rightarrow> dp_Namespace l @ ''/'' @ dp_Name l < dp_Namespace r @ ''/'' @ dp_Name r
      | (Some l, None) \<Rightarrow> True
      | _ \<Rightarrow> False)"

definition addStandaloneGatewayRuntimes :: "KubeLib \<Rightarrow> store \<Rightarrow> store \<Rightarrow> snapshot \<Rightarrow> snapshot" where
  "addStandaloneGatewayRuntimes lib deployments pods snap =
     fold (add_standalone lib (set (map (\<lambda>r. rt_WorkloadID (snd r)) (snap_runtimes snap))) (List.map_filter as_pod pods))
       (List.map_filter as_deployment (slice_stable item_before deployments)) snap"

section \<open>Lemmas\<close>

lemma set_runtime_simps [simp]:
  "snap_topology (set_runtime r s) = snap_topology s" "snap_findings (set_runtime r s) = snap_findings s"
  "snap_context (set_runtime r s) = snap_context s" "snap_probeEntries (set_runtime r s) = snap_probeEntries s"
  by (simp_all add: set_runtime_def)

end
