(* ===== verification/Kube_Entries.thy ===== *)
theory Kube_Entries
  imports Kube_Runtime
begin

text \<open>
  \<open>internal/kube/envoy_runtime.go\<close>: the services that select a gateway's pods are entries for
  probes; their addresses become conditions of the gateway's node. The iterations over the maps
  of runtimes and services follow the order of the association lists.
\<close>

section \<open>Services of a gateway\<close>

definition add_address :: "string \<Rightarrow> string list \<Rightarrow> string list" where
  "add_address v0 result =
     (let v = ToLower (TrimSuffix (TrimSpace v0) ''.'') in
      if v = [] \<or> EqualFold v ''None'' \<or> List.member result v then result else result @ [v])"

definition load_balancer_addresses :: "LoadBalancerIngress list \<Rightarrow> string list" where
  "load_balancer_addresses ingress = concat (map (\<lambda>i. [lb_IP i, lb_Hostname i]) ingress)"

definition service_addresses :: "Service \<Rightarrow> TopologyNode list \<Rightarrow> string list" where
  "service_addresses service endpoints =
     sv_ClusterIP service # sv_ClusterIPs service @ sv_ExternalIPs service
     @ load_balancer_addresses (sv_LoadBalancer service)
     @ List.map_filter (\<lambda>condition. CutPrefix condition ''Address='') (concat (map node_Conditions endpoints))"

definition gatewayServiceAddresses :: "Service \<Rightarrow> TopologyNode list \<Rightarrow> string list" where
  "gatewayServiceAddresses service endpoints =
     slice_stable (<) (fold add_address (service_addresses service endpoints) [])"

definition serviceSelectsRuntime :: "KubeLib \<Rightarrow> Service \<Rightarrow> gatewayRuntime \<Rightarrow> bool" where
  "serviceSelectsRuntime lib service runtime \<longleftrightarrow>
     list_ex (\<lambda>pod. lib_SelectorFromSet lib (sv_Selector service) (pod_Labels pod)) (rt_Pods runtime)"

definition protocol_hint :: "ServicePort \<Rightarrow> string" where
  "protocol_hint port =
     (case sp_AppProtocol port of
        Some p \<Rightarrow> if TrimSpace p \<noteq> [] then ToLower (TrimSpace p) else ToLower (TrimSpace (sp_Name port))
      | None \<Rightarrow> ToLower (TrimSpace (sp_Name port)))"

definition is_https_hint :: "string \<Rightarrow> bool" where
  "is_https_hint hint \<longleftrightarrow>
     hint \<in> set [''https'', ''tls''] \<or> HasPrefix hint ''https-'' \<or> HasSuffix hint ''/https'' \<or> HasSuffix hint ''/wss''"

definition is_http_hint :: "string \<Rightarrow> bool" where
  "is_http_hint hint \<longleftrightarrow>
     hint \<in> set [''http'', ''http2'', ''h2c'', ''ws''] \<or> HasPrefix hint ''http-'' \<or> HasPrefix hint ''http2-''
     \<or> list_ex (HasSuffix hint) [''/http'', ''/http2'', ''/h2c'', ''/ws'']"

definition probePortProtocol :: "ServicePort \<Rightarrow> (ProbeScheme \<times> string) option" where
  "probePortProtocol port =
     (if sp_Protocol port \<notin> set [[], ''TCP''] then None
      else if is_https_hint (protocol_hint port) then Some (ProbeSchemeHTTPS, ''https'')
      else if is_http_hint (protocol_hint port) then Some (ProbeSchemeHTTP, ''http'')
      else None)"

section \<open>Conditions of the gateway\<close>

definition service_dns :: "Service \<Rightarrow> string" where
  "service_dns service = sv_Name service @ ''.'' @ sv_Namespace service @ ''.svc.cluster.local''"

definition add_condition :: "string \<Rightarrow> string list \<Rightarrow> string list" where
  "add_condition condition existing = (if List.member existing condition then existing else existing @ [condition])"

definition service_conditions :: "Service \<Rightarrow> string list \<Rightarrow> string list" where
  "service_conditions service addresses =
     [''Service='' @ sv_Namespace service @ ''/'' @ sv_Name service, ''ServiceDNS='' @ service_dns service]
     @ map (\<lambda>address. ''Address='' @ address) addresses"

definition with_conditions :: "string list \<Rightarrow> TopologyNode \<Rightarrow> TopologyNode" where
  "with_conditions conditions n = n\<lparr>node_Conditions := fold add_condition conditions (node_Conditions n)\<rparr>"

definition addGatewayServiceMetadata :: "string \<Rightarrow> Service \<Rightarrow> string list \<Rightarrow> snapshot \<Rightarrow> snapshot" where
  "addGatewayServiceMetadata gatewayID service addresses snap =
     set_nodes (update_node gatewayID (with_conditions (service_conditions service addresses)) (snap_nodes snap)) snap"

section \<open>Entries\<close>

definition entry_id :: "gatewayRuntime \<Rightarrow> Service \<Rightarrow> ServicePort \<Rightarrow> string" where
  "entry_id runtime service port =
     rt_GatewayID runtime @ ''/probe-entry/'' @ sv_Namespace service @ ''/'' @ sv_Name service @ ''/'' @ Itoa (sp_Port port)"

definition service_entry ::
    "string \<Rightarrow> gatewayRuntime \<Rightarrow> Service \<Rightarrow> string list \<Rightarrow> ServicePort \<Rightarrow> ProbeScheme \<times> string \<Rightarrow> ProbeEntry" where
  "service_entry clusterID runtime service addresses port sp =
     zero_ProbeEntry\<lparr>entry_ID := entry_id runtime service port, entry_GatewayID := rt_GatewayID runtime,
       entry_ClusterID := clusterID, entry_Namespace := sv_Namespace service, entry_ServiceName := sv_Name service,
       entry_DNSName := service_dns service, entry_Port := sp_Port port, entry_Scheme := fst sp, entry_Protocol := snd sp,
       entry_DisplayName := sv_Namespace service @ ''/'' @ sv_Name service @ '':'' @ Itoa (sp_Port port) @ '' (''
         @ ToUpper (snd sp) @ '')'',
       entry_Addresses := addresses\<rparr>"

definition file_entry :: "ProbeEntry \<Rightarrow> snapshot \<Rightarrow> snapshot" where
  "file_entry entry snap =
     snap\<lparr>snap_probeEntries := (snap_probeEntries snap)(entry_ID entry \<mapsto> entry),
       snap_topology := (snap_topology snap)\<lparr>topo_ProbeEntries := topo_ProbeEntries (snap_topology snap) @ [entry]\<rparr>\<rparr>"

definition add_port ::
    "gatewayRuntime \<Rightarrow> Service \<Rightarrow> string list \<Rightarrow> ServicePort \<Rightarrow> snapshot \<Rightarrow> snapshot" where
  "add_port runtime service addresses port snap =
     (case probePortProtocol port of
        None \<Rightarrow> snap
      | Some sp \<Rightarrow>
          file_entry (service_entry (cl_ID (ctx_Cluster (snap_context snap))) runtime service addresses port sp) snap)"

definition enters :: "KubeLib \<Rightarrow> gatewayRuntime \<Rightarrow> Service \<Rightarrow> bool" where
  "enters lib runtime service \<longleftrightarrow>
     sv_Namespace service = rt_Namespace runtime \<and> sv_Selector service \<noteq> [] \<and> sv_Type service \<noteq> ''ExternalName''
     \<and> serviceSelectsRuntime lib service runtime"

definition add_entry_service ::
    "KubeLib \<Rightarrow> (string \<rightharpoonup> TopologyNode list) \<Rightarrow> gatewayRuntime \<Rightarrow> string \<times> Service \<Rightarrow> snapshot \<Rightarrow> snapshot" where
  "add_entry_service lib endpoints runtime ks snap =
     (if enters lib runtime (snd ks) then
        (let addresses = gatewayServiceAddresses (snd ks) (endpoints_at endpoints (fst ks)) in
         fold (add_port runtime (snd ks) addresses) (sv_Ports (snd ks))
           (addGatewayServiceMetadata (rt_GatewayID runtime) (snd ks) addresses snap))
      else snap)"

definition entry_before :: "ProbeEntry \<Rightarrow> ProbeEntry \<Rightarrow> bool" where
  "entry_before a b \<longleftrightarrow>
     (if entry_Namespace a \<noteq> entry_Namespace b then entry_Namespace a < entry_Namespace b
      else if entry_ServiceName a \<noteq> entry_ServiceName b then entry_ServiceName a < entry_ServiceName b
      else if entry_Port a \<noteq> entry_Port b then entry_Port a < entry_Port b
      else entry_Protocol a < entry_Protocol b)"

definition add_entries ::
    "KubeLib \<Rightarrow> (string \<times> Service) list \<Rightarrow> (string \<rightharpoonup> TopologyNode list) \<Rightarrow> gatewayRuntime \<Rightarrow> snapshot \<Rightarrow> snapshot" where
  "add_entries lib services endpoints runtime snap = fold (add_entry_service lib endpoints runtime) services snap"

definition sort_entries :: "snapshot \<Rightarrow> snapshot" where
  "sort_entries snap = snap\<lparr>snap_topology := (snap_topology snap)\<lparr>topo_ProbeEntries :=
     slice_stable entry_before (topo_ProbeEntries (snap_topology snap))\<rparr>\<rparr>"

definition discoverGatewayProbeEntries ::
    "KubeLib \<Rightarrow> (string \<times> Service) list \<Rightarrow> (string \<rightharpoonup> TopologyNode list) \<Rightarrow> snapshot \<Rightarrow> snapshot" where
  "discoverGatewayProbeEntries lib services endpoints snap =
     sort_entries (fold (add_entries lib services endpoints) (map snd (snap_runtimes snap)) snap)"

section \<open>Lemmas\<close>

lemma file_entry_simps [simp]:
  "snap_nodes (file_entry e s) = snap_nodes s" "snap_edges (file_entry e s) = snap_edges s"
  "snap_findings (file_entry e s) = snap_findings s" "snap_context (file_entry e s) = snap_context s"
  "snap_runtimes (file_entry e s) = snap_runtimes s"
  by (simp_all add: file_entry_def)

lemma sort_entries_simps [simp]:
  "snap_nodes (sort_entries s) = snap_nodes s" "snap_edges (sort_entries s) = snap_edges s"
  "snap_findings (sort_entries s) = snap_findings s" "snap_context (sort_entries s) = snap_context s"
  "snap_runtimes (sort_entries s) = snap_runtimes s" "snap_probeEntries (sort_entries s) = snap_probeEntries s"
  by (simp_all add: sort_entries_def)

end
