(* ===== verification/Kube_Inference.thy ===== *)
theory Kube_Inference
  imports Kube_Runtime
begin

text \<open>
  \<open>internal/kube/inference.go\<close>: an InferencePool in the topology, with its endpoint picker and the
  services whose selector the pool's selector matches, or else the pods it selects.
\<close>

section \<open>Selectors\<close>

fun string_labels :: "umap \<Rightarrow> string + (string \<times> string) list" where
  "string_labels [] = Inr []"
| "string_labels ((key, UString t) # rest) =
     (case string_labels rest of Inl e \<Rightarrow> Inl e | Inr ls \<Rightarrow> Inr ((key, t) # ls))"
| "string_labels ((key, v) # rest) = Inl (''spec.selector.'' @ key @ '' is not a string'')"

definition inferencePoolSelector :: "KubeLib \<Rightarrow> Unstructured \<Rightarrow> string + Selector" where
  "inferencePoolSelector lib pool =
     (case lib_NestedMap lib (un_Object pool) [''spec'', ''selector''] of
        Inl e \<Rightarrow> Inl e
      | Inr found \<Rightarrow>
          (case found of
             None \<Rightarrow> Inl ''spec.selector is empty''
           | Some raw \<Rightarrow>
               if raw = [] then Inl ''spec.selector is empty''
               else
                 (case lib_FromUnstructured lib raw of
                    Inl e \<Rightarrow> Inl (''convert spec.selector: '' @ e)
                  | Inr selector \<Rightarrow>
                      if ls_MatchLabels selector = [] \<and> ls_MatchExpressions selector = [] then
                        (case string_labels raw of
                           Inl e \<Rightarrow> Inl e
                         | Inr ls \<Rightarrow> lib_AsSelector lib (Some (selector\<lparr>ls_MatchLabels := ls\<rparr>)))
                      else lib_AsSelector lib (Some selector))))"

definition serviceSelectorMatches :: "Service \<Rightarrow> Selector \<Rightarrow> bool" where
  "serviceSelectorMatches service selector \<longleftrightarrow> sv_Selector service \<noteq> [] \<and> selector (map_of (sv_Selector service))"

section \<open>The endpoint picker\<close>

definition picker_id :: "string \<Rightarrow> string \<Rightarrow> string" where
  "picker_id namespace name = ''endpoint-picker/'' @ namespace @ ''/'' @ name"

definition picker_port :: "umap \<Rightarrow> int" where
  "picker_port ref =
     (case umap_get ref ''port'' of
        UMap portRef \<Rightarrow> (case umap_get portRef ''number'' of UInt n \<Rightarrow> n | _ \<Rightarrow> 0)
      | _ \<Rightarrow> 0)"

definition picker_node :: "string \<Rightarrow> Unstructured \<Rightarrow> umap \<Rightarrow> TopologyNode" where
  "picker_node clusterID pool ref =
     (let name = kube_stringValue ref ''name'' [];
          namespace = kube_stringValue ref ''namespace'' (un_Namespace pool);
          port = picker_port ref
      in zero_TopologyNode\<lparr>node_ID := picker_id namespace name, node_Name := name,
           node_Kind := TopologyNodeKindEndpointPicker, node_Namespace := namespace, node_ClusterID := clusterID,
           node_Status := StatusHealthy, node_StatusText := txt_configured, node_Summary := txt_endpoint_picker,
           node_Conditions :=
             [''Ref='' @ kube_stringValue ref ''group'' [] @ ''/'' @ kube_stringValue ref ''kind'' ''Service'' @ '' ''
                @ namespace @ ''/'' @ name] @ (if port > 0 then [''Port='' @ Itoa port] else []),
           node_Source := un_APIVersion pool @ '' InferencePool.spec.endpointPickerRef''\<rparr>)"

text \<open>The picker's identity, empty without one.\<close>

definition addEndpointPicker :: "KubeLib \<Rightarrow> Unstructured \<Rightarrow> snapshot \<Rightarrow> string \<times> snapshot" where
  "addEndpointPicker lib pool snap =
     (case lib_NestedMap lib (un_Object pool) [''spec'', ''endpointPickerRef''] of
        Inr (Some ref) \<Rightarrow>
          if kube_stringValue ref ''name'' [] = [] then ([], snap)
          else
            (let n = picker_node (cl_ID (ctx_Cluster (snap_context snap))) pool ref in (node_ID n, add_node n snap))
      | _ \<Rightarrow> ([], snap))"

section \<open>The pool\<close>

definition pool_id :: "Unstructured \<Rightarrow> string" where
  "pool_id pool = ''inferencepool/'' @ un_Namespace pool @ ''/'' @ un_Name pool"

definition count_text :: "nat \<Rightarrow> string" where "count_text n = Itoa (int n)"

definition pool_pods :: "Unstructured \<Rightarrow> string + Selector \<Rightarrow> Pod list \<Rightarrow> Pod list" where
  "pool_pods pool selector pods =
     (case selector of
        Inl e \<Rightarrow> []
      | Inr sel \<Rightarrow> filter (\<lambda>pod. pd_Namespace pod = un_Namespace pool \<and> sel (pd_Labels pod)) pods)"

definition pool_node :: "string \<Rightarrow> Unstructured \<Rightarrow> string + Selector \<Rightarrow> Pod list \<Rightarrow> TopologyNode" where
  "pool_node clusterID pool selector matched =
     (let ready = length (filter podReady matched); total = length matched;
          base = zero_TopologyNode\<lparr>node_ID := pool_id pool, node_Name := un_Name pool,
            node_Kind := TopologyNodeKindInferencePool, node_Namespace := un_Namespace pool, node_ClusterID := clusterID,
            node_Status := StatusHealthy, node_StatusText := count_text ready @ ''/'' @ count_text total @ '' Ready'',
            node_Summary := txt_pool_selects @ count_text total @ txt_model_pods @ count_text ready @ txt_are_ready,
            node_Conditions := [''ReadyPods='' @ count_text ready @ ''/'' @ count_text total],
            node_Source := un_APIVersion pool @ '' InferencePool''\<rparr>
      in case selector of
           Inl e \<Rightarrow> base\<lparr>node_Status := StatusError, node_StatusText := txt_selector_invalid,
             node_Summary := txt_selector_unreadable @ e, node_Conditions := node_Conditions base @ [''Resolved=False'']\<rparr>
         | Inr sel \<Rightarrow>
             if ready = 0 then base\<lparr>node_Status := StatusError, node_StatusText := txt_no_ready_pool_pod\<rparr>
             else if ready < total then base\<lparr>node_Status := StatusWarning\<rparr>
             else base)"

definition pool_services :: "Unstructured \<Rightarrow> string + Selector \<Rightarrow> (string \<times> Service) list \<Rightarrow> string list" where
  "pool_services pool selector services =
     (case selector of
        Inl e \<Rightarrow> []
      | Inr sel \<Rightarrow> slice_stable (<) (map fst (filter
          (\<lambda>ks. sv_Namespace (snd ks) = un_Namespace pool \<and> serviceSelectorMatches (snd ks) sel) services)))"

definition pool_service_node ::
    "string \<Rightarrow> Unstructured \<Rightarrow> string \<Rightarrow> Service \<Rightarrow> TopologyNode list \<Rightarrow> TopologyNode" where
  "pool_service_node clusterID pool key service endpoints =
     zero_TopologyNode\<lparr>node_ID := ''service/'' @ key, node_Name := sv_Name service,
       node_Kind := TopologyNodeKindService, node_Namespace := sv_Namespace service, node_ClusterID := clusterID,
       node_Status := (if endpoints = [] then StatusError else StatusHealthy),
       node_StatusText := (if endpoints = [] then txt_no_endpoint else count_text (length endpoints) @ '' Ready''),
       node_Summary := (if endpoints = [] then txt_service_no_slice else txt_selector_and_pool @ un_Name pool @ txt_match),
       node_Conditions := [''InferencePool='' @ un_Namespace pool @ ''/'' @ un_Name pool,
         ''Endpoints='' @ count_text (length endpoints)],
       node_Source := ''v1 Service selector''\<rparr>"

definition selects_edge :: "string \<Rightarrow> string \<Rightarrow> string \<Rightarrow> TopologyEdge" where
  "selects_edge from to evidence = (kube_edge from to ''selects'')\<lparr>edge_Evidence := evidence\<rparr>"

text \<open>Services and pods hang off the endpoint picker when there is one.\<close>

definition pool_source :: "Unstructured \<Rightarrow> string \<Rightarrow> string" where
  "pool_source pool eppID = (if eppID \<noteq> [] then eppID else pool_id pool)"

definition add_pool_service ::
    "string \<Rightarrow> Unstructured \<Rightarrow> string \<Rightarrow> (string \<times> Service) list \<Rightarrow> (string \<rightharpoonup> TopologyNode list) \<Rightarrow> string
     \<Rightarrow> snapshot \<Rightarrow> snapshot" where
  "add_pool_service clusterID pool from services endpoints key snap =
     (case map_of services key of
        None \<Rightarrow> snap
      | Some service \<Rightarrow>
          appendServiceEndpoints (''service/'' @ key) (endpoints_at endpoints key)
            (add_edge (selects_edge from (''service/'' @ key) ''Service selector matches InferencePool.spec.selector'')
              (add_node (pool_service_node clusterID pool key service (endpoints_at endpoints key)) snap)))"

definition pool_pod_node :: "string \<Rightarrow> Unstructured \<Rightarrow> Pod \<Rightarrow> TopologyNode" where
  "pool_pod_node clusterID pool pod =
     zero_TopologyNode\<lparr>node_ID := ''pod/'' @ pd_Namespace pod @ ''/'' @ pd_Name pod, node_Name := pd_Name pod,
       node_Kind := TopologyNodeKindPod, node_Namespace := pd_Namespace pod, node_ClusterID := clusterID,
       node_Status := (if podReady pod then StatusHealthy else StatusWarning),
       node_StatusText := (if podReady pod then ''Ready'' else ''NotReady''),
       node_Summary := ''InferencePool '' @ un_Name pool @ txt_selected_pod,
       node_Conditions := [''Ready='' @ bool_text (podReady pod), ''Phase='' @ pd_Phase pod], node_Source := ''v1 Pod''\<rparr>"

definition add_pool_pod :: "string \<Rightarrow> Unstructured \<Rightarrow> string \<Rightarrow> Pod \<Rightarrow> snapshot \<Rightarrow> snapshot" where
  "add_pool_pod clusterID pool from pod snap =
     add_edge (selects_edge from (node_ID (pool_pod_node clusterID pool pod))
         ''No matching Service; using InferencePool selector membership'')
       (add_node (pool_pod_node clusterID pool pod) snap)"

definition addInferencePool ::
    "KubeLib \<Rightarrow> string \<Rightarrow> Unstructured \<Rightarrow> (string \<times> Service) list \<Rightarrow> (string \<rightharpoonup> TopologyNode list) \<Rightarrow> Pod list
     \<Rightarrow> snapshot \<Rightarrow> snapshot" where
  "addInferencePool lib clusterID pool services endpoints pods snap =
     (let selector = inferencePoolSelector lib pool;
          matched = pool_pods pool selector pods;
          (eppID, snap1) = addEndpointPicker lib pool (add_node (pool_node clusterID pool selector matched) snap);
          snap2 = (if eppID \<noteq> [] then add_edge (kube_edge (pool_id pool) eppID ''discovers'') snap1 else snap1);
          keys = pool_services pool selector services
      in if keys \<noteq> []
         then fold (add_pool_service clusterID pool (pool_source pool eppID) services endpoints) keys snap2
         else fold (add_pool_pod clusterID pool (pool_source pool eppID)) matched snap2)"

end
