(* ===== verification/Kube_Backends.thy ===== *)
theory Kube_Backends
  imports Kube_Inference
begin

text \<open>
  \<open>addBackends\<close> of \<open>internal/kube/store.go\<close>: the backends of a route's rule. A reference leads to
  an InferencePool, a Service with its endpoints, or an ExternalName Service (a transit hop);
  references that do not resolve, and those into another namespace without a grant, are
  findings against the route. (The identities it returns are not used by its caller.)
\<close>

section \<open>The environment of a rebuild\<close>

text \<open>What \<open>rebuild\<close> has collected before it looks at the routes.\<close>

record Backends =
  be_lib :: KubeLib
  be_clusterID :: string
  be_services :: "(string \<times> Service) list"
  be_pools :: "string \<rightharpoonup> Unstructured"
  be_ready :: "string \<rightharpoonup> int"
  be_endpoints :: "string \<rightharpoonup> TopologyNode list"
  be_pods :: "Pod list"
  be_grants :: "string list"

section \<open>References\<close>

record BackendRef =
  br_namespace :: string
  br_name :: string
  br_group :: string
  br_kind :: string

definition backend_ref :: "Unstructured \<Rightarrow> umap \<Rightarrow> BackendRef" where
  "backend_ref obj ref =
     \<lparr>br_namespace = kube_stringValue ref ''namespace'' (un_Namespace obj),
      br_name = kube_stringValue ref ''name'' [], br_group = kube_stringValue ref ''group'' [],
      br_kind = kube_stringValue ref ''kind'' ''Service''\<rparr>"

definition ref_key :: "BackendRef \<Rightarrow> string" where
  "ref_key r = br_namespace r @ ''/'' @ br_name r"

definition is_pool_ref :: "BackendRef \<Rightarrow> bool" where
  "is_pool_ref r \<longleftrightarrow> br_group r = ''inference.networking.k8s.io'' \<and> br_kind r = ''InferencePool''"

definition is_service_ref :: "BackendRef \<Rightarrow> bool" where
  "is_service_ref r \<longleftrightarrow> br_group r \<in> set [[], ''core''] \<and> br_kind r = ''Service''"

text \<open>A reference into the route's own namespace needs no grant.\<close>

definition ref_allowed :: "Backends \<Rightarrow> Unstructured \<Rightarrow> BackendRef \<Rightarrow> bool" where
  "ref_allowed be obj r \<longleftrightarrow>
     br_namespace r = un_Namespace obj
     \<or> (if is_pool_ref r
        then grantsAllow (be_grants be) (un_Namespace obj) (br_namespace r) (br_group r) (br_kind r) (br_name r)
        else grantsAllow (be_grants be) (un_Namespace obj) (br_namespace r) [] ''Service'' (br_name r))"

definition object_key :: "Unstructured \<Rightarrow> string" where
  "object_key obj = un_Namespace obj @ ''/'' @ un_Name obj"

section \<open>Kinds of backends\<close>

definition add_pool_backend ::
    "Backends \<Rightarrow> Unstructured \<Rightarrow> string \<Rightarrow> BackendRef \<Rightarrow> Unstructured \<Rightarrow> snapshot \<Rightarrow> snapshot" where
  "add_pool_backend be obj routeID r pool snap =
     (let snap1 = addInferencePool (be_lib be) (be_clusterID be) pool (be_services be) (be_endpoints be) (be_pods be) snap;
          snap2 =
            (if ref_allowed be obj r then snap1
             else addFinding StatusError txt_not_authorized (object_key obj) (''BackendRef='' @ ref_key r) routeID
               (markNodeError (pool_id pool) txt_grant_missing txt_pool_not_granted snap1))
      in add_edge (kube_edge routeID (pool_id pool) ''routes'') snap2)"

definition transit_node :: "string \<Rightarrow> string \<Rightarrow> Service \<Rightarrow> bool \<Rightarrow> TopologyNode" where
  "transit_node clusterID key svc allowed =
     zero_TopologyNode\<lparr>node_ID := ''transit/'' @ key, node_Name := sv_Name svc, node_Kind := TopologyNodeKindTransitHop,
       node_Namespace := sv_Namespace svc, node_ClusterID := clusterID,
       node_Status := (if allowed then StatusHealthy else StatusError),
       node_StatusText := (if allowed then ''Configured'' else ''ReferenceGrant missing''),
       node_Summary := ''ExternalName Service forwards to '' @ sv_ExternalName svc @ ''.'',
       node_Conditions := [''ExternalName='' @ sv_ExternalName svc, ''Destination='' @ sv_ExternalName svc],
       node_Source := ''v1 Service.spec.externalName''\<rparr>"

definition is_external :: "Service \<Rightarrow> bool" where
  "is_external svc \<longleftrightarrow> sv_Type svc = ''ExternalName'' \<and> sv_ExternalName svc \<noteq> []"

definition add_transit_backend ::
    "Backends \<Rightarrow> Unstructured \<Rightarrow> string \<Rightarrow> BackendRef \<Rightarrow> Service \<Rightarrow> snapshot \<Rightarrow> snapshot" where
  "add_transit_backend be obj routeID r svc snap =
     (let allowed = ref_allowed be obj r;
          snap1 = (if allowed then snap
            else addFinding StatusError ''Cross-namespace reference is not authorized'' (object_key obj)
              (''BackendRef='' @ ref_key r) routeID snap)
      in add_edge (kube_edge routeID (''transit/'' @ ref_key r) ''routes'')
           (add_node (transit_node (be_clusterID be) (ref_key r) svc allowed) snap1))"

definition service_summary :: "int \<Rightarrow> string" where
  "service_summary ready = txt_service_has @ Itoa ready @ txt_ready_endpoints"

definition service_node ::
    "string \<Rightarrow> string \<Rightarrow> Service \<Rightarrow> int \<Rightarrow> Status \<Rightarrow> string \<Rightarrow> string \<Rightarrow> TopologyNode" where
  "service_node clusterID key svc ready status statusText summary =
     zero_TopologyNode\<lparr>node_ID := ''service/'' @ key, node_Name := sv_Name svc, node_Kind := TopologyNodeKindService,
       node_Namespace := sv_Namespace svc, node_ClusterID := clusterID, node_Status := status,
       node_StatusText := statusText, node_Summary := summary,
       node_Conditions := [''ReadyEndpoints='' @ Itoa ready], node_Source := ''v1 Service''\<rparr>"

definition add_service_backend ::
    "Backends \<Rightarrow> Unstructured \<Rightarrow> string \<Rightarrow> BackendRef \<Rightarrow> Service \<Rightarrow> snapshot \<Rightarrow> snapshot" where
  "add_service_backend be obj routeID r svc snap =
     (let key = ref_key r; ready = ready_count (be_ready be) key;
          (status, statusText, summary, snap1) =
            (if \<not> ref_allowed be obj r
             then (StatusError, txt_grant_missing, txt_ref_not_granted,
                   addFinding StatusError txt_not_authorized (object_key obj) txt_ref_not_granted routeID snap)
             else if ready = 0
             then (StatusError, txt_no_ready_endpoint, txt_service_no_endpoint,
                   addFinding StatusError txt_backend_no_endpoint key ''ReadyEndpoints=0'' routeID snap)
             else (StatusHealthy, ''Ready'', service_summary ready, snap))
      in appendServiceEndpoints (''service/'' @ key) (endpoints_at (be_endpoints be) key)
           (add_edge (kube_edge routeID (''service/'' @ key) ''routes'')
             (add_node (service_node (be_clusterID be) key svc ready status statusText summary) snap1)))"

section \<open>The backends of a rule\<close>

definition add_backend :: "Backends \<Rightarrow> Unstructured \<Rightarrow> string \<Rightarrow> umap \<Rightarrow> snapshot \<Rightarrow> snapshot" where
  "add_backend be obj routeID ref snap =
     (let r = backend_ref obj ref in
      if is_pool_ref r then
        (case be_pools be (ref_key r) of
           None \<Rightarrow> addFinding StatusError txt_pool_missing (object_key obj) (''BackendRef='' @ ref_key r) routeID snap
         | Some pool \<Rightarrow> add_pool_backend be obj routeID r pool snap)
      else if \<not> is_service_ref r
      then addFinding StatusWarning txt_backend_unsupported (object_key obj)
        (''BackendRef='' @ br_group r @ ''/'' @ br_kind r @ '' '' @ ref_key r) routeID snap
      else
        (case map_of (be_services be) (ref_key r) of
           None \<Rightarrow> addFinding StatusError txt_service_missing (object_key obj) (''BackendRef='' @ ref_key r) routeID snap
         | Some svc \<Rightarrow>
             if is_external svc then add_transit_backend be obj routeID r svc snap
             else add_service_backend be obj routeID r svc snap))"

fun rule_refs :: "uval \<Rightarrow> uval list" where
  "rule_refs (UList refs) = refs"
| "rule_refs v = []"

definition addBackends :: "Backends \<Rightarrow> Unstructured \<Rightarrow> string \<Rightarrow> umap \<Rightarrow> snapshot \<Rightarrow> snapshot" where
  "addBackends be obj routeID rule snap =
     fold (add_backend be obj routeID) (map as_map (rule_refs (umap_get rule ''backendRefs''))) snap"

end
