(* ===== verification/Kube_Higress.thy ===== *)
theory Kube_Higress
  imports Kube_Backends Go_Url
begin

text \<open>
  \<open>internal/kube/higress.go\<close>: McpBridges with their registries, the Ingresses of Higress and of
  other controllers, and the Gateway an Ingress class belongs to.
\<close>

section \<open>McpBridges and registries\<close>

record networkingService =
  ns_node :: TopologyNode
  ns_readyEndpoints :: int
  ns_external :: bool

text \<open>The registries of a bridge by \<open>name.type\<close>, in the order of their first mention.\<close>

type_synonym registries = "(string \<times> string) list"

definition soleRegistryID :: "registries \<Rightarrow> string option" where
  "soleRegistryID registries = (case registries of [(k, i)] \<Rightarrow> Some i | _ \<Rightarrow> None)"

definition registry_at :: "registries \<Rightarrow> string \<Rightarrow> string" where
  "registry_at registries key = (case map_of registries key of None \<Rightarrow> [] | Some i \<Rightarrow> i)"

definition registryIDForDestination :: "registries \<Rightarrow> string \<Rightarrow> string" where
  "registryIDForDestination registries destination0 =
     (let destination = TrimSpace destination0; i = registry_at registries destination in
      if i \<noteq> [] then i
      else (case SplitHostPort destination of None \<Rightarrow> [] | Some (host, port) \<Rightarrow> registry_at registries host))"

text \<open>The key of the service a registry's domain may name; it counts only if it is known.\<close>

definition registry_service_key :: "string \<Rightarrow> string \<Rightarrow> string option" where
  "registry_service_key domain defaultNamespace =
     (let parts = SplitByte CHR ''.'' (TrimSuffix (ToLower (TrimSpace domain)) ''.'') in
      if length parts = 1 then Some (defaultNamespace @ ''/'' @ parts ! 0)
      else if length parts = 2 \<or> parts ! 2 = ''svc'' then Some (parts ! 1 @ ''/'' @ parts ! 0)
      else None)"

definition serviceForRegistryDomain :: "string \<Rightarrow> string \<Rightarrow> (string \<times> networkingService) list \<Rightarrow> string option" where
  "serviceForRegistryDomain domain defaultNamespace services =
     (case registry_service_key domain defaultNamespace of
        None \<Rightarrow> None
      | Some key \<Rightarrow> if map_of services key = None then None else Some key)"

record HigressEnv =
  he_lib :: KubeLib
  he_clusterID :: string
  he_services :: "(string \<times> networkingService) list"
  he_endpoints :: "string \<rightharpoonup> TopologyNode list"

text \<open>The node of a service that has endpoints, or an error with the given wording.\<close>

definition backend_unready :: "networkingService \<Rightarrow> bool" where
  "backend_unready backend \<longleftrightarrow> ns_readyEndpoints backend = 0 \<and> \<not> ns_external backend"

definition backend_node :: "networkingService \<Rightarrow> string \<Rightarrow> TopologyNode" where
  "backend_node backend summary =
     (if backend_unready backend then mark_error txt_no_ready_endpoint summary (ns_node backend) else ns_node backend)"

definition bridge_id :: "Unstructured \<Rightarrow> string" where
  "bridge_id bridge = ''mcpbridge/'' @ object_key bridge"

definition bridge_node :: "string \<Rightarrow> Unstructured \<Rightarrow> nat \<Rightarrow> TopologyNode" where
  "bridge_node clusterID bridge n =
     zero_TopologyNode\<lparr>node_ID := bridge_id bridge, node_Name := un_Name bridge, node_Kind := TopologyNodeKindMcpBridge,
       node_Namespace := un_Namespace bridge, node_ClusterID := clusterID,
       node_Status := (if n = 0 then StatusWarning else StatusHealthy),
       node_StatusText := (if n = 0 then txt_no_registry else txt_discovered),
       node_Summary := txt_bridge_with @ count_text n @ txt_registries,
       node_Conditions := [''Registries='' @ count_text n], node_Source := ''networking.higress.io/v1 McpBridge''\<rparr>"

record Registry =
  reg_name :: string
  reg_type :: string
  reg_domain :: string
  reg_port :: string
  reg_protocol :: string

definition registry_of :: "umap \<Rightarrow> Registry" where
  "registry_of registry =
     \<lparr>reg_name = kube_stringValue registry ''name'' ''unnamed'', reg_type = kube_stringValue registry ''type'' ''unknown'',
      reg_domain = kube_stringValue registry ''domain'' [], reg_port = sprint (umap_get registry ''port''),
      reg_protocol = kube_stringValue registry ''protocol'' []\<rparr>"

definition registry_id :: "Unstructured \<Rightarrow> Registry \<Rightarrow> string" where
  "registry_id bridge reg = bridge_id bridge @ ''/registry/'' @ reg_name reg"

definition protocol_condition :: "Registry \<Rightarrow> string list" where
  "protocol_condition reg = (if reg_protocol reg \<noteq> [] then [''Protocol='' @ reg_protocol reg] else [])"

definition registry_node :: "string \<Rightarrow> Unstructured \<Rightarrow> Registry \<Rightarrow> TopologyNode" where
  "registry_node clusterID bridge reg =
     zero_TopologyNode\<lparr>node_ID := registry_id bridge reg, node_Name := reg_name reg,
       node_Kind := TopologyNodeKindRegistry, node_Namespace := un_Namespace bridge, node_ClusterID := clusterID,
       node_Status := StatusHealthy, node_StatusText := txt_configured,
       node_Summary := reg_type reg @ ''://'' @ reg_domain reg @ '':'' @ reg_port reg,
       node_Conditions := [''Type='' @ reg_type reg, ''Domain='' @ reg_domain reg, ''Port='' @ reg_port reg]
         @ protocol_condition reg,
       node_Source := ''McpBridge.spec.registries''\<rparr>"

definition target_node :: "string \<Rightarrow> Unstructured \<Rightarrow> Registry \<Rightarrow> TopologyNode" where
  "target_node clusterID bridge reg =
     zero_TopologyNode\<lparr>node_ID := registry_id bridge reg @ ''/target'', node_Name := reg_domain reg,
       node_Kind := TopologyNodeKindExternalTarget, node_Namespace := un_Namespace bridge, node_ClusterID := clusterID,
       node_Status := StatusHealthy, node_StatusText := ''Configured'',
       node_Summary := ''Configured target '' @ reg_domain reg @ '':'' @ reg_port reg,
       node_Conditions := [''Address='' @ reg_domain reg, ''Port='' @ reg_port reg] @ protocol_condition reg,
       node_Source := ''McpBridge.spec.registries[].domain''\<rparr>"

definition add_registry_service :: "HigressEnv \<Rightarrow> Registry \<Rightarrow> string \<Rightarrow> string \<Rightarrow> networkingService \<Rightarrow> snapshot \<Rightarrow> snapshot" where
  "add_registry_service env reg registryID key backend snap =
     (let n = backend_node backend txt_registry_no_endpoint;
          snap1 = (if backend_unready backend
            then addFinding StatusError txt_registry_service_no_endpoint key ''ReadyEndpoints=0'' registryID snap else snap)
      in appendServiceEndpoints (node_ID n) (endpoints_at (he_endpoints env) key)
           (add_edge ((kube_edge registryID (node_ID n) ''resolves'')
               \<lparr>edge_Evidence := ''McpBridge registry domain='' @ reg_domain reg\<rparr>)
             (add_node n snap1)))"

definition add_registry_target :: "HigressEnv \<Rightarrow> Unstructured \<Rightarrow> Registry \<Rightarrow> snapshot \<Rightarrow> snapshot" where
  "add_registry_target env bridge reg snap =
     (if reg_domain reg = [] then snap
      else
        (case serviceForRegistryDomain (reg_domain reg) (un_Namespace bridge) (he_services env) of
           Some key \<Rightarrow>
             (case map_of (he_services env) key of
                None \<Rightarrow> snap
              | Some backend \<Rightarrow> add_registry_service env reg (registry_id bridge reg) key backend snap)
         | None \<Rightarrow>
             add_edge (kube_edge (registry_id bridge reg) (registry_id bridge reg @ ''/target'') ''resolves'')
               (add_node (target_node (he_clusterID env) bridge reg) snap)))"

definition add_registry ::
    "HigressEnv \<Rightarrow> Unstructured \<Rightarrow> umap \<Rightarrow> registries \<times> snapshot \<Rightarrow> registries \<times> snapshot" where
  "add_registry env bridge raw acc =
     (let reg = registry_of raw in
      (AList.update (reg_name reg @ ''.'' @ reg_type reg) (registry_id bridge reg) (fst acc),
       add_registry_target env bridge reg
         (add_edge (kube_edge (bridge_id bridge) (registry_id bridge reg) ''discovers'')
           (add_node (registry_node (he_clusterID env) bridge reg) (snd acc)))))"

definition bridge_registries :: "HigressEnv \<Rightarrow> Unstructured \<Rightarrow> umap list" where
  "bridge_registries env bridge = map as_map (lib_NestedSlice (he_lib env) (un_Object bridge) [''spec'', ''registries''])"

text \<open>The known bridges with their registries, by namespace and name.\<close>

type_synonym bridges = "string \<rightharpoonup> registries"

definition add_bridge :: "HigressEnv \<Rightarrow> Unstructured \<Rightarrow> bridges \<times> snapshot \<Rightarrow> bridges \<times> snapshot" where
  "add_bridge env bridge acc =
     (let found = bridge_registries env bridge;
          snap1 = add_node (bridge_node (he_clusterID env) bridge (length found)) (snd acc);
          snap2 = (if found = []
            then addFinding StatusWarning txt_bridge_no_registry (object_key bridge) ''spec.registries is empty''
              (bridge_id bridge) snap1 else snap1);
          (registries, snap3) = fold (add_registry env bridge) found ([], snap2)
      in ((fst acc)(object_key bridge \<mapsto> registries), snap3))"

section \<open>Ingresses\<close>

definition isHigressIngress :: "Ingress \<Rightarrow> bool" where
  "isHigressIngress ingress \<longleftrightarrow>
     in_ClassName ingress = Some ''higress'' \<or> label (in_Annotations ingress) ''kubernetes.io/ingress.class'' = ''higress''"

definition ingress_id :: "Ingress \<Rightarrow> string" where
  "ingress_id ingress = ''ingress/'' @ in_Namespace ingress @ ''/'' @ in_Name ingress"

definition ingress_key :: "Ingress \<Rightarrow> string" where
  "ingress_key ingress = in_Namespace ingress @ ''/'' @ in_Name ingress"

definition nonempty_text :: "string \<Rightarrow> string \<Rightarrow> string list" where
  "nonempty_text prefix t = (if t \<noteq> [] then [prefix @ t] else [])"

definition ingressEntryConditions :: "Ingress \<Rightarrow> string list" where
  "ingressEntryConditions ingress =
     optional ''IngressClass='' (in_ClassName ingress)
     @ concat (map (\<lambda>rule. nonempty_text ''Hostname='' (TrimSpace (ir_Host rule))) (in_Rules ingress))
     @ concat (map (\<lambda>a. nonempty_text ''Address='' (lb_IP a) @ nonempty_text ''Address='' (lb_Hostname a))
         (in_LoadBalancer ingress))"

definition annotationConditions :: "labels \<Rightarrow> string list" where
  "annotationConditions m =
     concat (map (\<lambda>key. nonempty_text (key @ ''='') (label m key))
       [''higress.io/destination'', ''higress.io/backend-protocol'', ''higress.io/upstream-vhost''])"

definition ingress_node :: "string \<Rightarrow> Ingress \<Rightarrow> string \<Rightarrow> string list \<Rightarrow> TopologyNode" where
  "ingress_node clusterID ingress summary conditions =
     zero_TopologyNode\<lparr>node_ID := ingress_id ingress, node_Name := in_Name ingress, node_Kind := TopologyNodeKindIngress,
       node_Namespace := in_Namespace ingress, node_ClusterID := clusterID, node_Status := StatusHealthy,
       node_StatusText := txt_discovered, node_Summary := summary, node_Conditions := conditions,
       node_Source := ''networking.k8s.io/v1 Ingress''\<rparr>"

definition is_bridge_ref :: "ResourceRef \<Rightarrow> bool" where
  "is_bridge_ref r \<longleftrightarrow> rr_APIGroup r = Some ''networking.higress.io'' \<and> rr_Kind r = ''McpBridge''"

definition add_bridge_path :: "bridges \<Rightarrow> Ingress \<Rightarrow> ResourceRef \<Rightarrow> snapshot \<Rightarrow> snapshot" where
  "add_bridge_path bridges ingress resource snap =
     (let bridgeKey = in_Namespace ingress @ ''/'' @ rr_Name resource;
          destination = label (in_Annotations ingress) ''higress.io/destination''
      in case bridges bridgeKey of
           None \<Rightarrow> addFinding StatusError txt_bridge_missing (ingress_key ingress) (''backend.resource='' @ rr_Name resource)
             (ingress_id ingress) snap
         | Some registries \<Rightarrow>
             (let snap1 = add_edge (kube_edge (ingress_id ingress) (''mcpbridge/'' @ bridgeKey) ''routes'') snap in
              if destination \<noteq> [] then
                (let registryID = registryIDForDestination registries destination in
                 if registryID \<noteq> [] then add_edge (kube_edge (ingress_id ingress) registryID ''selects'') snap1
                 else addFinding StatusWarning txt_destination_unresolved (ingress_key ingress)
                   (''higress.io/destination='' @ destination) (ingress_id ingress) snap1)
              else
                (case soleRegistryID registries of
                   None \<Rightarrow> snap1
                 | Some registryID \<Rightarrow>
                     add_edge ((kube_edge (ingress_id ingress) registryID ''selects'')
                       \<lparr>edge_Evidence := ''McpBridge has a single registry''\<rparr>) snap1)))"

definition add_service_path :: "HigressEnv \<Rightarrow> Ingress \<Rightarrow> string \<Rightarrow> snapshot \<Rightarrow> snapshot" where
  "add_service_path env ingress name snap =
     (let key = in_Namespace ingress @ ''/'' @ name in
      case map_of (he_services env) key of
        None \<Rightarrow> addFinding StatusError txt_ingress_service_missing (ingress_key ingress) (''backend.service='' @ key)
          (ingress_id ingress) snap
      | Some backend \<Rightarrow>
          (let n = backend_node backend txt_service_no_endpoint;
               snap1 = (if backend_unready backend
                 then addFinding StatusError txt_ingress_no_endpoint key ''ReadyEndpoints=0'' (ingress_id ingress) snap
                 else snap)
           in appendServiceEndpoints (node_ID n) (endpoints_at (he_endpoints env) key)
                (add_edge (kube_edge (ingress_id ingress) (node_ID n) ''routes'') (add_node n snap1))))"

definition add_path :: "HigressEnv \<Rightarrow> bridges \<Rightarrow> Ingress \<Rightarrow> IngressPath \<Rightarrow> snapshot \<Rightarrow> snapshot" where
  "add_path env bridges ingress path snap =
     (case ip_Resource path of
        Some resource \<Rightarrow>
          if is_bridge_ref resource then add_bridge_path bridges ingress resource snap
          else (case ip_Service path of None \<Rightarrow> snap | Some name \<Rightarrow> add_service_path env ingress name snap)
      | None \<Rightarrow> (case ip_Service path of None \<Rightarrow> snap | Some name \<Rightarrow> add_service_path env ingress name snap))"

definition rule_paths :: "IngressRule \<Rightarrow> IngressPath list" where
  "rule_paths rule = (case ir_HTTP rule of None \<Rightarrow> [] | Some paths \<Rightarrow> paths)"

definition add_higress_ingress :: "HigressEnv \<Rightarrow> bridges \<Rightarrow> Ingress \<Rightarrow> snapshot \<Rightarrow> snapshot" where
  "add_higress_ingress env bridges ingress snap =
     fold (add_path env bridges ingress) (concat (map rule_paths (in_Rules ingress)))
       (add_node (ingress_node (he_clusterID env) ingress txt_higress_ingress
           (annotationConditions (in_Annotations ingress) @ ingressEntryConditions ingress)) snap)"

definition addHigressResources :: "HigressEnv \<Rightarrow> store \<Rightarrow> store \<Rightarrow> snapshot \<Rightarrow> snapshot" where
  "addHigressResources env ingressItems bridgeItems snap =
     (let (bridges, snap1) = fold (add_bridge env) (List.map_filter as_unstructured bridgeItems) (Map.empty, snap) in
      fold (add_higress_ingress env bridges) (filter isHigressIngress (List.map_filter as_ingress ingressItems)) snap1)"

section \<open>Other Ingresses\<close>

definition add_ingress_entry :: "string \<Rightarrow> Ingress \<Rightarrow> snapshot \<Rightarrow> snapshot" where
  "add_ingress_entry clusterID ingress snap =
     (if isHigressIngress ingress \<or> ingressEntryConditions ingress = [] then snap
      else add_node (ingress_node clusterID ingress txt_ingress_entry (ingressEntryConditions ingress)) snap)"

definition addIngressEntryResources :: "string \<Rightarrow> store \<Rightarrow> snapshot \<Rightarrow> snapshot" where
  "addIngressEntryResources clusterID items snap =
     fold (add_ingress_entry clusterID) (List.map_filter as_ingress items) snap"

section \<open>The Gateway of an Ingress\<close>

definition ingressClassName :: "Ingress \<Rightarrow> string" where
  "ingressClassName ingress =
     (case in_ClassName ingress of
        Some c \<Rightarrow> if TrimSpace c \<noteq> [] then TrimSpace c
                  else TrimSpace (label (in_Annotations ingress) ''kubernetes.io/ingress.class'')
      | None \<Rightarrow> TrimSpace (label (in_Annotations ingress) ''kubernetes.io/ingress.class''))"

definition controllerFamily :: "string \<Rightarrow> string" where
  "controllerFamily controller =
     (case find (Contains (ToLower controller)) [''higress'', ''istio'', ''envoy''] of None \<Rightarrow> [] | Some f \<Rightarrow> f)"

definition controllersCompatible :: "string \<Rightarrow> string \<Rightarrow> bool" where
  "controllersCompatible left0 right0 \<longleftrightarrow>
     (let left = TrimSpace (ToLower left0); right = TrimSpace (ToLower right0) in
      left \<noteq> [] \<and> right \<noteq> []
      \<and> (left = right \<or> controllerFamily left \<noteq> [] \<and> controllerFamily left = controllerFamily right))"

definition conditionWithPrefix :: "string list \<Rightarrow> string \<Rightarrow> string" where
  "conditionWithPrefix conditions prefix =
     (case find (\<lambda>c. HasPrefix c prefix) conditions of None \<Rightarrow> [] | Some c \<Rightarrow> TrimPrefix c prefix)"

record gatewayCandidate =
  gc_id :: string
  gc_name :: string
  gc_controller :: string

definition gateway_candidate :: "string \<Rightarrow> TopologyNode \<Rightarrow> gatewayCandidate option" where
  "gateway_candidate clusterID n =
     (let controller = conditionWithPrefix (node_Conditions n) ''Controller='' in
      if node_Kind n \<noteq> TopologyNodeKindGateway \<or> node_ClusterID n \<noteq> clusterID \<or> controller = [] then None
      else Some \<lparr>gc_id = node_ID n, gc_name = node_Namespace n @ ''/'' @ node_Name n, gc_controller = controller\<rparr>)"

definition candidate_before :: "gatewayCandidate \<Rightarrow> gatewayCandidate \<Rightarrow> bool" where
  "candidate_before a b \<longleftrightarrow> gc_id a < gc_id b"

definition gateway_candidates :: "snapshot \<Rightarrow> gatewayCandidate list" where
  "gateway_candidates snap =
     slice_stable candidate_before
       (List.map_filter (gateway_candidate (cl_ID (ctx_Cluster (snap_context snap)))) (snap_nodes snap))"

text \<open>Without a known IngressClass only the class named \<open>higress\<close> tells its family.\<close>

definition class_serves :: "string \<Rightarrow> string \<Rightarrow> gatewayCandidate \<Rightarrow> bool" where
  "class_serves className controller gateway \<longleftrightarrow>
     controllersCompatible controller (gc_controller gateway)
     \<or> controller = [] \<and> EqualFold className ''higress'' \<and> controllerFamily (gc_controller gateway) = ''higress''"

definition link_evidence :: "string \<Rightarrow> string \<Rightarrow> string \<Rightarrow> string" where
  "link_evidence className controller gatewayController =
     ''IngressClass '' @ className
     @ (if controller \<noteq> [] then '' controller '' @ controller else '' matched by Higress compatibility fallback'')
     @ ''; Gateway controller '' @ gatewayController"

definition link_ingress ::
    "(string \<rightharpoonup> string) \<Rightarrow> gatewayCandidate list \<Rightarrow> Ingress \<Rightarrow> snapshot \<Rightarrow> snapshot" where
  "link_ingress controllers gateways ingress snap =
     (let className = ingressClassName ingress;
          controller = (case controllers className of None \<Rightarrow> [] | Some c \<Rightarrow> c)
      in if className = [] then snap
         else
           (case filter (class_serves className controller) gateways of
              [] \<Rightarrow> snap
            | [gateway] \<Rightarrow>
                add_edge ((kube_edge (gc_id gateway) (ingress_id ingress) ''attaches'')
                  \<lparr>edge_Evidence := link_evidence className controller (gc_controller gateway)\<rparr>) snap
            | matches \<Rightarrow>
                addFinding StatusWarning txt_several_gateways (ingress_key ingress)
                  (''IngressClass='' @ className @ ''; Gateways='' @ Join (map gc_name matches) '','')
                  (ingress_id ingress) snap))"

definition linkIngressesToGateways :: "store \<Rightarrow> store \<Rightarrow> snapshot \<Rightarrow> snapshot" where
  "linkIngressesToGateways ingressItems ingressClassItems snap =
     (let controllers = map_of (rev (map (\<lambda>c. (ic_Name c, ic_Controller c))
            (List.map_filter as_ingress_class ingressClassItems)))
      in fold (link_ingress controllers (gateway_candidates snap)) (List.map_filter as_ingress ingressItems) snap)"

end
