(* ===== verification/Kube_Rebuild.thy ===== *)
theory Kube_Rebuild
  imports Kube_Entries Kube_Higress
begin

text \<open>
  \<open>rebuild\<close> of \<open>internal/kube/store.go\<close>: the snapshot of a cluster, from the lists of the cache
  stores. It takes six stores and up to seven more; one that is not given is None here.
\<close>

section \<open>The stores\<close>

record KubeStores =
  in_services :: store
  in_endpoints :: store
  in_namespaces :: store
  in_gateways :: store
  in_routes :: store
  in_grants :: store
  in_ingresses :: "store option"
  in_bridges :: "store option"
  in_classes :: "store option"
  in_deployments :: "store option"
  in_pods :: "store option"
  in_ingressClasses :: "store option"
  in_pools :: "store option"

definition store_at :: "store list \<Rightarrow> nat \<Rightarrow> store option" where
  "store_at stores n = (if n < length stores then Some (stores ! n) else None)"

text \<open>With fewer than six stores the code panics: None.\<close>

definition given_stores :: "store list \<Rightarrow> KubeStores option" where
  "given_stores stores =
     (if length stores < 6 then None
      else Some \<lparr>in_services = stores ! 0, in_endpoints = stores ! 1, in_namespaces = stores ! 2,
        in_gateways = stores ! 3, in_routes = stores ! 4, in_grants = stores ! 5,
        in_ingresses = store_at stores 6, in_bridges = store_at stores 7, in_classes = store_at stores 8,
        in_deployments = store_at stores 9, in_pods = store_at stores 10, in_ingressClasses = store_at stores 11,
        in_pools = store_at stores 12\<rparr>)"

definition optional_store :: "store option \<Rightarrow> store" where
  "optional_store s = (case s of None \<Rightarrow> [] | Some items \<Rightarrow> items)"

text \<open>The services by key, each object filed once; the order is one the map may be iterated in.\<close>

definition file_service :: "Service \<Rightarrow> (string \<times> Service) list \<Rightarrow> (string \<times> Service) list" where
  "file_service svc services = AList.update (sv_Namespace svc @ ''/'' @ sv_Name svc) svc services"

definition collect_services :: "store \<Rightarrow> (string \<times> Service) list" where
  "collect_services items = fold file_service (List.map_filter as_service items) []"

definition collect_pools :: "store \<Rightarrow> string \<rightharpoonup> Unstructured" where
  "collect_pools items = map_of (rev (map (\<lambda>pool. (object_key pool, pool)) (List.map_filter as_unstructured items)))"

section \<open>Gateways and listeners\<close>

definition listener_id :: "Unstructured \<Rightarrow> string \<Rightarrow> string" where
  "listener_id gateway name = gateway_id gateway @ ''/listener/'' @ name"

definition listener_node :: "string \<Rightarrow> Unstructured \<Rightarrow> umap \<Rightarrow> TopologyNode" where
  "listener_node clusterID gateway listener =
     (let name = kube_stringValue listener ''name'' ''listener'';
          protocol = kube_stringValue listener ''protocol'' ''unknown'';
          hostname = kube_stringValue listener ''hostname'' ''*''
      in zero_TopologyNode\<lparr>node_ID := listener_id gateway name, node_Name := name,
           node_Kind := TopologyNodeKindListener, node_Namespace := un_Namespace gateway, node_ClusterID := clusterID,
           node_Status := StatusHealthy, node_StatusText := txt_configured,
           node_Summary := protocol @ '' '' @ hostname @ '':'' @ sprint (umap_get listener ''port''),
           node_Conditions := [''Protocol='' @ protocol, ''Hostname='' @ hostname],
           node_Source := ''Gateway.spec.listeners''\<rparr>)"

definition add_listener :: "string \<Rightarrow> Unstructured \<Rightarrow> umap \<Rightarrow> snapshot \<Rightarrow> snapshot" where
  "add_listener clusterID gateway listener snap =
     add_edge (kube_edge (gateway_id gateway) (node_ID (listener_node clusterID gateway listener)) ''owns'')
       (push_node (listener_node clusterID gateway listener) snap)"

definition gateway_node :: "KubeLib \<Rightarrow> string \<Rightarrow> Unstructured \<Rightarrow> TopologyNode" where
  "gateway_node lib clusterID gateway =
     (kube_node clusterID (gateway_id gateway) gateway TopologyNodeKindGateway StatusHealthy txt_discovered
        txt_gateway_object)\<lparr>node_Conditions := gatewayAddressConditions lib gateway\<rparr>"

definition both_stores :: "KubeStores \<Rightarrow> (store \<times> store) option" where
  "both_stores st =
     (case (in_deployments st, in_pods st) of (Some d, Some p) \<Rightarrow> Some (d, p) | _ \<Rightarrow> None)"

definition add_gateway ::
    "KubeLib \<Rightarrow> string \<Rightarrow> KubeStores \<Rightarrow> (string \<rightharpoonup> string) \<Rightarrow> Unstructured \<Rightarrow> snapshot \<Rightarrow> snapshot" where
  "add_gateway lib clusterID st classes gateway snap =
     (let snap1 = push_node (gateway_node lib clusterID gateway) snap;
          snap2 = (case both_stores st of
              None \<Rightarrow> snap1 | Some (deployments, pods) \<Rightarrow> addGatewayRuntime lib gateway classes deployments pods snap1)
      in fold (add_listener clusterID gateway)
           (map as_map (lib_NestedSlice lib (un_Object gateway) [''spec'', ''listeners''])) snap2)"

definition known_gateways :: "store \<Rightarrow> string \<rightharpoonup> string" where
  "known_gateways items = map_of (rev (map (\<lambda>g. (object_key g, gateway_id g)) (List.map_filter as_unstructured items)))"

section \<open>Routes\<close>

definition route_id :: "Unstructured \<Rightarrow> string" where
  "route_id obj = ''route/'' @ un_Namespace obj @ ''/'' @ un_Name obj"

definition route_node :: "KubeLib \<Rightarrow> string \<Rightarrow> Unstructured \<Rightarrow> TopologyNode" where
  "route_node lib clusterID obj =
     kube_node clusterID (route_id obj) obj TopologyNodeKindHTTPRoute StatusHealthy txt_discovered
       (txt_route_hosts @ Join (lib_NestedStringSlice lib (un_Object obj) [''spec'', ''hostnames'']) '', '')"

definition add_parent :: "(string \<rightharpoonup> string) \<Rightarrow> Unstructured \<Rightarrow> umap \<Rightarrow> snapshot \<Rightarrow> snapshot" where
  "add_parent gateways obj parent snap =
     (let key = kube_stringValue parent ''namespace'' (un_Namespace obj) @ ''/'' @ kube_stringValue parent ''name'' [];
          section = kube_stringValue parent ''sectionName'' []
      in case gateways key of
           None \<Rightarrow> addFinding StatusError txt_parent_missing (object_key obj) txt_parent_unresolved (route_id obj) snap
         | Some gatewayID \<Rightarrow>
             add_edge (kube_edge (if section \<noteq> [] then gatewayID @ ''/listener/'' @ section else gatewayID) (route_id obj)
               ''attaches'') snap)"

definition add_route :: "Backends \<Rightarrow> (string \<rightharpoonup> string) \<Rightarrow> Unstructured \<Rightarrow> snapshot \<Rightarrow> snapshot" where
  "add_route be gateways obj snap =
     fold (addBackends be obj (route_id obj))
       (map as_map (lib_NestedSlice (be_lib be) (un_Object obj) [''spec'', ''rules'']))
       (fold (add_parent gateways obj)
         (map as_map (lib_NestedSlice (be_lib be) (un_Object obj) [''spec'', ''parentRefs'']))
         (push_node (route_node (be_lib be) (be_clusterID be) obj) snap))"

section \<open>The services the Ingresses see\<close>

definition networking_service :: "string \<Rightarrow> (string \<rightharpoonup> int) \<Rightarrow> string \<times> Service \<Rightarrow> string \<times> networkingService" where
  "networking_service clusterID ready ks =
     (let (key, svc) = ks; n = ready_count ready key;
          node1 = service_node clusterID key svc n StatusHealthy txt_discovered (service_summary n)
      in (key,
          if is_external svc then
            \<lparr>ns_node = node1\<lparr>node_StatusText := ''Configured'',
               node_Summary := ''ExternalName Service forwards to '' @ sv_ExternalName svc @ ''.'',
               node_Conditions := node_Conditions node1 @ [''ExternalName='' @ sv_ExternalName svc]\<rparr>,
             ns_readyEndpoints = n, ns_external = True\<rparr>
          else \<lparr>ns_node = node1, ns_readyEndpoints = n, ns_external = False\<rparr>))"

section \<open>The snapshot\<close>

definition namespaces_of :: "store \<Rightarrow> string list" where
  "namespaces_of items = slice_stable (<) (List.map_filter as_namespace items)"

definition start_snapshot :: "KubeStore \<Rightarrow> KubeStores \<Rightarrow> string \<Rightarrow> snapshot" where
  "start_snapshot s st now =
     empty_snapshot\<lparr>snap_context := \<lparr>ctx_Cluster = \<lparr>cl_ID = ks_clusterID s, cl_Name = ks_clusterID s, cl_Version = ''Kubernetes''\<rparr>,
       ctx_Namespaces = namespaces_of (in_namespaces st),
       ctx_Snapshot = \<lparr>sn_ID = ''live-'' @ now, sn_ObservedAt = now, sn_State = ''complete''\<rparr>,
       ctx_Capabilities = ks_capabilities s\<rparr>\<rparr>"

definition backends_of :: "KubeLib \<Rightarrow> KubeStore \<Rightarrow> KubeStores \<Rightarrow> Backends" where
  "backends_of lib s st =
     (let (ready, endpoints) = endpointReadiness (in_endpoints st) (ks_clusterID s) in
      \<lparr>be_lib = lib, be_clusterID = ks_clusterID s, be_services = collect_services (in_services st),
       be_pools = collect_pools (optional_store (in_pools st)), be_ready = ready, be_endpoints = endpoints,
       be_pods = List.map_filter as_pod (optional_store (in_pods st)), be_grants = collectGrants lib (in_grants st)\<rparr>)"

definition add_gateways :: "KubeLib \<Rightarrow> KubeStore \<Rightarrow> KubeStores \<Rightarrow> snapshot \<Rightarrow> snapshot" where
  "add_gateways lib s st snap =
     fold (add_gateway lib (ks_clusterID s) st (collectGatewayClasses lib (optional_store (in_classes st))))
       (List.map_filter as_unstructured (in_gateways st)) snap"

definition add_runtimes :: "Backends \<Rightarrow> KubeStores \<Rightarrow> snapshot \<Rightarrow> snapshot" where
  "add_runtimes be st snap =
     (case both_stores st of
        None \<Rightarrow> snap
      | Some (deployments, pods) \<Rightarrow>
          discoverGatewayProbeEntries (be_lib be) (be_services be) (be_endpoints be)
            (addStandaloneGatewayRuntimes (be_lib be) deployments pods snap))"

definition add_routes :: "Backends \<Rightarrow> KubeStores \<Rightarrow> snapshot \<Rightarrow> snapshot" where
  "add_routes be st snap =
     fold (add_route be (known_gateways (in_gateways st))) (List.map_filter as_unstructured (in_routes st)) snap"

definition higress_env :: "Backends \<Rightarrow> HigressEnv" where
  "higress_env be =
     \<lparr>he_lib = be_lib be, he_clusterID = be_clusterID be,
      he_services = map (networking_service (be_clusterID be) (be_ready be)) (be_services be),
      he_endpoints = be_endpoints be\<rparr>"

definition add_ingresses :: "Backends \<Rightarrow> KubeStores \<Rightarrow> snapshot \<Rightarrow> snapshot" where
  "add_ingresses be st snap =
     (case in_ingresses st of
        None \<Rightarrow> snap
      | Some ingresses \<Rightarrow>
          (let snap1 = addIngressEntryResources (be_clusterID be) ingresses snap;
               snap2 = (case in_bridges st of
                   None \<Rightarrow> snap1 | Some bridges \<Rightarrow> addHigressResources (higress_env be) ingresses bridges snap1)
           in linkIngressesToGateways ingresses (optional_store (in_ingressClasses st)) snap2))"

definition finish_snapshot :: "KubeStore \<Rightarrow> string \<Rightarrow> snapshot \<Rightarrow> snapshot" where
  "finish_snapshot s now snap =
     snap\<lparr>snap_resources := resourcesFromNodes (snap_nodes snap) (snap_findings snap),
       snap_topology := (snap_topology snap)
         \<lparr>topo_SnapshotID := sn_ID (ctx_Snapshot (snap_context snap)), topo_ObservedAt := now,
          topo_Consistency := SnapshotConsistencySingleCluster,
          topo_Clusters :=
            [\<lparr>tc_ID = ks_clusterID s, tc_Name = ks_clusterID s, tc_Environment = [], tc_Version = ''Kubernetes'',
              tc_ConnectionState = ''connected'', tc_Namespaces = ctx_Namespaces (snap_context snap),
              tc_Snapshot = ctx_Snapshot (snap_context snap)\<rparr>]\<rparr>\<rparr>"

definition rebuilt_snapshot :: "KubeLib \<Rightarrow> KubeStore \<Rightarrow> KubeStores \<Rightarrow> string \<Rightarrow> snapshot" where
  "rebuilt_snapshot lib s st now =
     (let be = backends_of lib s st in
      finish_snapshot s now
        (add_ingresses be st (add_routes be st (add_runtimes be st (add_gateways lib s st (start_snapshot s st now))))))"

definition rebuild :: "KubeLib \<Rightarrow> GoTime \<Rightarrow> store list \<Rightarrow> KubeStore \<Rightarrow> KubeStore option" where
  "rebuild lib now stores s =
     (case given_stores stores of
        None \<Rightarrow> None
      | Some st \<Rightarrow> Some (s\<lparr>ks_snapshot := rebuilt_snapshot lib s st (format_rfc3339 (time_UTC now))\<rparr>))"

end
