(* ===== verification/Kube_Invariants.thy ===== *)
theory Kube_Invariants
  imports Kube_Rebuild
begin

text \<open>
  Invariants of a rebuild. Each locale names what a property of the growing snapshot must be
  closed under, for the phases of \<open>rebuild\<close> from the last to the first; the interpretations give
  the cluster of every node, the persistence of findings, edges and nodes, and the stability of the
  runtimes while the routes and Ingresses are added.
\<close>

section \<open>Nodes of the cluster\<close>

definition route_key :: "string \<Rightarrow> bool" where
  "route_key i \<longleftrightarrow> HasPrefix i ''route/''"

text \<open>A node of the cluster that is not a route.\<close>

definition own :: "string \<Rightarrow> TopologyNode \<Rightarrow> bool" where
  "own clusterID n \<longleftrightarrow> node_ClusterID n = clusterID \<and> \<not> route_key (node_ID n)"

lemmas own_defs = own_def route_key_def HasPrefix_def

lemma own_nodes [simp, intro!]:
  "own c (endpoint_node c slice serviceName endpoint address)"
  "own c (standalone_node c (standalone_runtime deployment kind selected))"
  "own c (picker_node c pool ref)" "own c (pool_node c pool selector matched)"
  "own c (pool_service_node c pool key service endpoints)" "own c (pool_pod_node c pool pod)"
  "own c (transit_node c key svc allowed)" "own c (service_node c key svc ready status statusText summary)"
  "own c (bridge_node c bridge m)" "own c (registry_node c bridge reg)" "own c (target_node c bridge reg)"
  "own c (ingress_node c ingress summary conditions)"
  by (simp_all add: own_defs endpoint_node_def endpoint_id_def standalone_node_def standalone_runtime_def picker_node_def
      picker_id_def pool_node_def pool_id_def pool_service_node_def pool_pod_node_def transit_node_def service_node_def
      bridge_node_def bridge_id_def registry_node_def registry_id_def target_node_def ingress_node_def ingress_id_def
      Let_def split: prod.split sum.split)

lemma pushed_nodes [simp]:
  "node_ClusterID (listener_node c gateway listener) = c" "node_ClusterID (gateway_node lib c gateway) = c"
  "node_ClusterID (route_node lib c obj) = c"
  by (simp_all add: kube_node_def listener_node_def gateway_node_def route_node_def Let_def)

definition own_endpoints :: "string \<Rightarrow> (string \<rightharpoonup> TopologyNode list) \<Rightarrow> bool" where
  "own_endpoints clusterID endpoints \<longleftrightarrow> (\<forall>key. list_all (own clusterID) (endpoints_at endpoints key))"

lemma count_endpoint_own:
  "own_endpoints c (snd acc) \<Longrightarrow> own_endpoints c (snd (count_endpoint c slice endpoint acc))"
  by (auto simp: own_endpoints_def count_endpoint_def Let_def endpoints_at_def list_all_iff split: prod.splits)

lemma count_slice_own:
  "own_endpoints c (snd acc) \<Longrightarrow> own_endpoints c (snd (count_slice c slice acc))"
  unfolding count_slice_def by (rule fold_invariant [where Q = "\<lambda>_. True"]) (auto intro: count_endpoint_own)

lemma endpointReadiness_own: "own_endpoints c (snd (endpointReadiness items c))"
  unfolding endpointReadiness_def
  by (rule fold_invariant [where Q = "\<lambda>_. True" and P = "\<lambda>acc. own_endpoints c (snd acc)"])
    (auto intro: count_slice_own, simp add: own_endpoints_def endpoints_at_def)

definition own_env :: "string \<Rightarrow> HigressEnv \<Rightarrow> bool" where
  "own_env clusterID env \<longleftrightarrow> he_clusterID env = clusterID \<and> own_endpoints clusterID (he_endpoints env)
     \<and> (\<forall>ks \<in> set (he_services env). own clusterID (ns_node (snd ks)))"

section \<open>Backends and Ingresses\<close>

locale snapshot_invariant =
  fixes clusterID :: string and P :: "snapshot \<Rightarrow> bool"
  assumes cluster: "P s \<Longrightarrow> cl_ID (ctx_Cluster (snap_context s)) = clusterID"
    and node: "P s \<Longrightarrow> own clusterID n \<Longrightarrow> P (add_node n s)"
    and edge: "P s \<Longrightarrow> P (add_edge e s)"
    and finding: "P s \<Longrightarrow> P (addFinding severity title resource basis target s)"
    and mark: "P s \<Longrightarrow> P (markNodeError i statusText summary s)"
begin

lemmas extend = node edge finding mark

lemma endpoints_own: "own_endpoints clusterID ends \<Longrightarrow> list_all (own clusterID) (endpoints_at ends key)"
  by (simp add: own_endpoints_def)

lemma endpoints:
  assumes "P s" "list_all (own clusterID) ns"
  shows "P (appendServiceEndpoints serviceID ns s)"
  unfolding appendServiceEndpoints_def
  by (rule fold_invariant [where Q = "own clusterID"])
    (use assms in \<open>auto simp: list_all_iff add_endpoint_def intro: extend\<close>)

lemma picker:
  assumes "P s" "addEndpointPicker lib pool s = (i, s')"
  shows "P s'"
  using assms by (auto simp: addEndpointPicker_def Let_def cluster intro: extend split: sum.splits option.splits if_splits)

lemma pool_service:
  "P s \<Longrightarrow> own_endpoints clusterID ends \<Longrightarrow> P (add_pool_service clusterID pool from services ends key s)"
  by (auto simp: add_pool_service_def intro!: extend endpoints endpoints_own split: option.split)

lemma pool_rest:
  assumes "P (add_node (pool_node clusterID pool (inferencePoolSelector lib pool)
      (pool_pods pool (inferencePoolSelector lib pool) pods)) s)" (is "P ?s0")
    and "own_endpoints clusterID ends"
  shows "P (addInferencePool lib clusterID pool services ends pods s)"
proof -
  obtain i s1 where found: "addEndpointPicker lib pool ?s0 = (i, s1)" by fastforce
  have "P s1" by (rule picker [OF assms(1) found])
  then have "P (if i \<noteq> [] then add_edge (kube_edge (pool_id pool) i ''discovers'') s1 else s1)" by (simp add: extend)
  then show ?thesis
    unfolding addInferencePool_def Let_def found prod.case
    by (auto intro!: fold_invariant [where Q = "\<lambda>_. True" and P = P] simp: assms(2) pool_service add_pool_pod_def extend)
qed

lemma pool: "P s \<Longrightarrow> own_endpoints clusterID ends \<Longrightarrow> P (addInferencePool lib clusterID pool services ends pods s)"
  by (rule pool_rest) (simp_all add: extend)

lemma pool_backend:
  assumes "P s" "be_clusterID be = clusterID" "own_endpoints clusterID (be_endpoints be)"
  shows "P (add_pool_backend be obj routeID r pool s)"
  unfolding add_pool_backend_def assms(2) using assms(1,3) by (auto simp: Let_def intro!: extend pool)

lemma transit_backend:
  assumes "P s" "be_clusterID be = clusterID"
  shows "P (add_transit_backend be obj routeID r svc s)"
  unfolding add_transit_backend_def assms(2) using assms(1) by (auto simp: Let_def intro!: extend)

lemma service_backend:
  assumes "P s" "be_clusterID be = clusterID" "own_endpoints clusterID (be_endpoints be)"
  shows "P (add_service_backend be obj routeID r svc s)"
  unfolding add_service_backend_def assms(2) using assms(1,3) by (auto simp: Let_def intro!: extend endpoints endpoints_own)

lemma backend:
  assumes "P s" "be_clusterID be = clusterID" "own_endpoints clusterID (be_endpoints be)"
  shows "P (add_backend be obj routeID ref s)"
  using assms
  by (auto simp: add_backend_def Let_def intro: finding pool_backend transit_backend service_backend split: option.split)

lemma backends:
  assumes "P s" "be_clusterID be = clusterID" "own_endpoints clusterID (be_endpoints be)"
  shows "P (addBackends be obj routeID rule s)"
  unfolding addBackends_def
  by (rule fold_invariant [where Q = "\<lambda>_. True"]) (auto simp: assms backend)

lemma registry_service:
  assumes "P s" "own_endpoints clusterID (he_endpoints env)" "own clusterID (ns_node backend)"
  shows "P (add_registry_service env reg registryID key backend s)"
proof -
  have "own clusterID (backend_node backend summary)" for summary
    using assms(3) by (simp add: backend_node_def mark_error_def own_def)
  then show ?thesis
    unfolding add_registry_service_def using assms(1,2) by (auto simp: Let_def intro!: extend endpoints endpoints_own)
qed

lemma env_service: "own_env clusterID env \<Longrightarrow> map_of (he_services env) key = Some backend \<Longrightarrow> own clusterID (ns_node backend)"
  by (auto simp: own_env_def dest!: map_of_SomeD)

lemma registry_target:
  assumes "P s" "own_env clusterID env"
  shows "P (add_registry_target env bridge reg s)"
proof -
  from assms(2) have env: "he_clusterID env = clusterID" "own_endpoints clusterID (he_endpoints env)"
    by (simp_all add: own_env_def)
  show ?thesis
    unfolding add_registry_target_def env(1) using assms env(2)
    by (auto intro!: extend registry_service env_service split: option.split)
qed

lemma registry:
  assumes "P (snd acc)" "own_env clusterID env"
  shows "P (snd (add_registry env bridge raw acc))"
proof -
  from assms(2) have env: "he_clusterID env = clusterID" by (simp add: own_env_def)
  show ?thesis unfolding add_registry_def env Let_def using assms by (auto intro!: registry_target extend)
qed

lemma bridge:
  assumes "P (snd acc)" "own_env clusterID env"
  shows "P (snd (add_bridge env b acc))"
proof -
  from assms(2) have env: "he_clusterID env = clusterID" by (simp add: own_env_def)
  have filed: "P (snd (fold (add_registry env b) found (regs, t)))" if "P t" for found regs t
    by (rule fold_invariant [where Q = "\<lambda>_. True" and P = "\<lambda>acc. P (snd acc)"]) (use that assms(2) registry in auto)
  show ?thesis
    unfolding add_bridge_def env Let_def using assms(1) by (auto intro!: filed extend simp: split_beta)
qed

lemma bridge_path: "P s \<Longrightarrow> P (add_bridge_path bridges ingress resource s)"
  by (auto simp: add_bridge_path_def Let_def intro!: extend split: option.split)

lemma service_path:
  assumes "P s" "own_env clusterID env"
  shows "P (add_service_path env ingress name s)"
proof -
  from assms(2) have env: "he_clusterID env = clusterID" "own_endpoints clusterID (he_endpoints env)"
    by (simp_all add: own_env_def)
  have "own clusterID (backend_node backend summary)" if "map_of (he_services env) key = Some backend" for backend key summary
    using env_service [OF assms(2) that] by (simp add: backend_node_def mark_error_def own_def)
  then show ?thesis
    unfolding add_service_path_def Let_def using assms(1) env(2)
    by (auto intro!: extend endpoints endpoints_own split: option.split)
qed

lemma higress_ingress:
  assumes "P s" "own_env clusterID env"
  shows "P (add_higress_ingress env bridges ingress s)"
proof -
  from assms(2) have env: "he_clusterID env = clusterID" by (simp add: own_env_def)
  have path: "P (add_path env bridges ingress path t)" if "P t" for path t
    using that assms(2) by (auto simp: add_path_def intro: bridge_path service_path split: option.split)
  show ?thesis
    unfolding add_higress_ingress_def env
    by (rule fold_invariant [where Q = "\<lambda>_. True" and P = P]) (use assms path in \<open>auto intro: extend\<close>)
qed

lemma higress:
  assumes "P s" "own_env clusterID env"
  shows "P (addHigressResources env ingresses bridges s)"
proof -
  let ?bridges = "fold (add_bridge env) (List.map_filter as_unstructured bridges) (Map.empty, s)"
  have "P (snd ?bridges)"
    by (rule fold_invariant [where Q = "\<lambda>_. True" and P = "\<lambda>acc. P (snd acc)"]) (use assms bridge in auto)
  then have "P (fold (add_higress_ingress env (fst ?bridges)) (filter isHigressIngress (List.map_filter as_ingress ingresses))
      (snd ?bridges))"
    by (rule fold_invariant [where Q = "\<lambda>_. True" and P = P, rotated]) (use assms higress_ingress in auto)
  then show ?thesis by (simp add: addHigressResources_def split_beta)
qed

lemma ingress_entries:
  assumes "P s"
  shows "P (addIngressEntryResources clusterID items s)"
  unfolding addIngressEntryResources_def
  by (rule fold_invariant [where Q = "\<lambda>_. True" and P = P]) (use assms in \<open>auto simp: add_ingress_entry_def intro: extend\<close>)

lemma link:
  assumes "P s"
  shows "P (linkIngressesToGateways ingresses classes s)"
proof -
  have "P (link_ingress controllers gateways ingress t)" if "P t" for controllers gateways ingress t
    using that by (auto simp: link_ingress_def Let_def intro!: extend split: list.split)
  then show ?thesis
    unfolding linkIngressesToGateways_def Let_def
    by (rule fold_invariant [where Q = "\<lambda>_. True" and P = P, rotated 2]) (use assms in auto)
qed

lemma ingresses:
  assumes "P s" "be_clusterID be = clusterID" "own_endpoints clusterID (be_endpoints be)"
  shows "P (add_ingresses be st s)"
proof -
  have "own_env clusterID (higress_env be)"
    using assms(2,3)
    by (auto simp: own_env_def higress_env_def networking_service_def Let_def own_defs service_node_def split: prod.splits)
  then show ?thesis
    unfolding add_ingresses_def assms(2) Let_def using assms(1)
    by (auto intro!: link higress ingress_entries split: option.split)
qed

end

section \<open>Routes\<close>

locale snapshot_growth = snapshot_invariant +
  assumes push: "P s \<Longrightarrow> node_ClusterID n = clusterID \<Longrightarrow> P (push_node n s)"
begin

lemma parent: "P s \<Longrightarrow> P (add_parent gateways obj parent s)"
  by (auto simp: add_parent_def Let_def intro!: extend split: option.split)

lemma route:
  assumes "P s" "be_clusterID be = clusterID" "own_endpoints clusterID (be_endpoints be)"
  shows "P (add_route be gateways obj s)"
proof -
  have "P (push_node (route_node (be_lib be) clusterID obj) s)" by (simp add: assms(1) push)
  then have "P (fold (add_parent gateways obj) parents (push_node (route_node (be_lib be) clusterID obj) s))" for parents
    by (rule fold_invariant [where Q = "\<lambda>_. True" and P = P, rotated]) (auto intro: parent)
  then show ?thesis
    unfolding add_route_def assms(2)
    by (rule fold_invariant [where Q = "\<lambda>_. True" and P = P, rotated]) (auto intro: backends assms(2,3))
qed

lemma routes:
  assumes "P s" "be_clusterID be = clusterID" "own_endpoints clusterID (be_endpoints be)"
  shows "P (add_routes be st s)"
  unfolding add_routes_def
  by (rule fold_invariant [where Q = "\<lambda>_. True" and P = P]) (use assms route in auto)

end

section \<open>Gateways, runtimes and entries\<close>

definition keeps_node :: "(TopologyNode \<Rightarrow> TopologyNode) \<Rightarrow> bool" where
  "keeps_node f \<longleftrightarrow>
     (\<forall>n. node_ID (f n) = node_ID n \<and> node_ClusterID (f n) = node_ClusterID n \<and> node_Kind (f n) = node_Kind n)"

lemma keeps_nodes [simp, intro]:
  "keeps_node (runtime_node runtime)" "keeps_node (with_conditions conditions)" "keeps_node (mark_error statusText summary)"
  by (simp_all add: keeps_node_def runtime_node_def with_conditions_def mark_error_def)

locale snapshot_building = snapshot_growth +
  assumes update: "P s \<Longrightarrow> keeps_node f \<Longrightarrow> P (set_nodes (update_node i f (snap_nodes s)) s)"
    and runtime: "P s \<Longrightarrow> P (set_runtime r s)"
    and entry: "P s \<Longrightarrow> P (file_entry e s)"
    and sort: "P s \<Longrightarrow> P (sort_entries s)"
begin

lemma gateway_runtime: "P s \<Longrightarrow> P (addGatewayRuntime lib gateway classes deployments pods s)"
proof -
  have "snap_nodes (set_runtime r s) = snap_nodes s" for r by (simp add: set_runtime_def)
  then show "P s \<Longrightarrow> P (addGatewayRuntime lib gateway classes deployments pods s)"
    using update [OF runtime [of s]] by (auto simp: addGatewayRuntime_def split: option.split)
qed

lemma gateway:
  assumes "P s"
  shows "P (add_gateway lib clusterID st classes g s)"
proof -
  have pushed: "P (push_node (gateway_node lib clusterID g) s)" by (simp add: assms push)
  have listeners: "P (fold (add_listener clusterID g) ls t)" if "P t" for ls t
    by (rule fold_invariant [where Q = "\<lambda>_. True" and P = P])
      (use that in \<open>auto simp: add_listener_def intro!: edge push\<close>)
  show ?thesis
    unfolding add_gateway_def Let_def by (rule listeners) (auto simp: pushed gateway_runtime split: option.split)
qed

lemma gateways:
  assumes "P s" "ks_clusterID store = clusterID"
  shows "P (add_gateways lib store st s)"
  unfolding add_gateways_def assms(2)
  by (rule fold_invariant [where Q = "\<lambda>_. True" and P = P]) (use assms(1) gateway in auto)

lemma standalone: "P s \<Longrightarrow> P (add_standalone lib claimed pods deployment s)"
  by (auto simp: add_standalone_def Let_def set_runtime_def [symmetric] cluster
      intro!: node runtime split: sum.split prod.split)

lemma standalones:
  assumes "P s"
  shows "P (addStandaloneGatewayRuntimes lib deployments pods s)"
  unfolding addStandaloneGatewayRuntimes_def
  by (rule fold_invariant [where Q = "\<lambda>_. True" and P = P]) (use assms standalone in auto)

lemma entry_service:
  assumes "P s"
  shows "P (add_entry_service lib ends r ks s)"
proof -
  have ports: "P (fold (add_port r svc addresses) ports t)" if "P t" for svc addresses ports t
    by (rule fold_invariant [where Q = "\<lambda>_. True" and P = P])
      (use that in \<open>auto simp: add_port_def intro: entry split: option.split\<close>)
  have "P (addGatewayServiceMetadata i svc addresses s)" for i svc addresses
    unfolding addGatewayServiceMetadata_def using assms by (simp add: update)
  then show ?thesis by (auto simp: add_entry_service_def Let_def assms intro!: ports)
qed

lemma entries:
  assumes "P s"
  shows "P (discoverGatewayProbeEntries lib services ends s)"
proof -
  have "P (add_entries lib services ends r t)" if "P t" for r t
    unfolding add_entries_def
    by (rule fold_invariant [where Q = "\<lambda>_. True" and P = P]) (use that entry_service in auto)
  then have "P (fold (add_entries lib services ends) rs s)" for rs
    by (intro fold_invariant [where Q = "\<lambda>_. True" and P = P]) (use assms in auto)
  then show ?thesis by (simp add: discoverGatewayProbeEntries_def sort)
qed

lemma runtimes: "P s \<Longrightarrow> P (add_runtimes be st s)"
  by (auto simp: add_runtimes_def intro: entries standalones split: option.split)

lemma built:
  assumes "P (start_snapshot store st now)" "ks_clusterID store = clusterID" "be = backends_of lib store st"
  shows "P (add_ingresses be st (add_routes be st (add_runtimes be st (add_gateways lib store st (start_snapshot store st now)))))"
proof -
  have be: "be_clusterID be = clusterID" "own_endpoints clusterID (be_endpoints be)"
    using endpointReadiness_own [of "ks_clusterID store" "in_endpoints st"] assms(2,3)
    by (auto simp: backends_of_def split: prod.splits)
  show ?thesis by (rule ingresses [OF routes [OF runtimes [OF gateways]]]) (use assms(1,2) be in auto)
qed

end

section \<open>Interpretations\<close>

text \<open>The growth of a snapshot: nothing that was filed is lost.\<close>

definition node_sort :: "TopologyNode \<Rightarrow> string \<times> TopologyNodeKind" where
  "node_sort n = (node_ID n, node_Kind n)"

definition snap_sorts :: "snapshot \<Rightarrow> (string \<times> TopologyNodeKind) set" where
  "snap_sorts s = node_sort ` set (snap_nodes s)"

definition grown :: "snapshot \<Rightarrow> snapshot \<Rightarrow> bool" where
  "grown base s \<longleftrightarrow>
     cl_ID (ctx_Cluster (snap_context s)) = cl_ID (ctx_Cluster (snap_context base))
     \<and> node_ID ` set (snap_nodes base) \<subseteq> node_ID ` set (snap_nodes s)
     \<and> snap_sorts base \<subseteq> snap_sorts s
     \<and> set (snap_edges base) \<subseteq> set (snap_edges s) \<and> set (snap_findings base) \<subseteq> set (snap_findings s)"

lemma update_node_ids: "keeps_node f \<Longrightarrow> map node_ID (update_node i f ns) = map node_ID ns"
  by (induction ns) (auto simp: keeps_node_def)

lemma update_node_cluster:
  "keeps_node f \<Longrightarrow>
     list_all (\<lambda>n. node_ClusterID n = c) (update_node i f ns) = list_all (\<lambda>n. node_ClusterID n = c) ns"
  by (induction ns) (auto simp: keeps_node_def)

lemma update_node_id_set [simp]: "keeps_node f \<Longrightarrow> node_ID ` set (update_node i f ns) = node_ID ` set ns"
  by (metis image_set update_node_ids)

lemma update_node_sorts: "keeps_node f \<Longrightarrow> node_sort ` set (update_node i f ns) = node_sort ` set ns"
  by (induction ns) (auto simp: keeps_node_def node_sort_def)

lemma snap_sorts_simps [simp]:
  "keeps_node f \<Longrightarrow> snap_sorts (set_nodes (update_node i f (snap_nodes s)) t) = snap_sorts s"
  "snap_sorts (markNodeError i statusText summary s) = snap_sorts s"
  "snap_sorts (push_node n s) = insert (node_sort n) (snap_sorts s)" "snap_sorts (add_edge e s) = snap_sorts s"
  "snap_sorts (addFinding severity title resource basis target s) = snap_sorts s"
  "snap_sorts (set_runtime r s) = snap_sorts s" "snap_sorts (file_entry entry s) = snap_sorts s"
  "snap_sorts (sort_entries s) = snap_sorts s"
  by (simp_all add: snap_sorts_def update_node_sorts)

lemma snap_sorts_add_node:
  "snap_sorts (add_node n s) =
     (if node_ID n \<in> node_ID ` set (snap_nodes s) then snap_sorts s else insert (node_sort n) (snap_sorts s))"
  by (simp add: snap_sorts_def nodes.add_cases)

definition cluster_nodes :: "string \<Rightarrow> snapshot \<Rightarrow> bool" where
  "cluster_nodes clusterID s \<longleftrightarrow>
     cl_ID (ctx_Cluster (snap_context s)) = clusterID \<and> list_all (\<lambda>n. node_ClusterID n = clusterID) (snap_nodes s)"

interpretation own_nodes: snapshot_building clusterID "cluster_nodes clusterID" for clusterID
  by unfold_locales
    (auto simp: cluster_nodes_def list_all_iff appendUnique_def own_def update_node_cluster [unfolded list_all_iff])

interpretation grown: snapshot_building "cl_ID (ctx_Cluster (snap_context base))" "grown base"
  for base
  by unfold_locales
    (auto simp: grown_def nodes.add_keys snap_sorts_add_node)

text \<open>What the routes and Ingresses leave alone.\<close>

definition same_runtimes :: "snapshot \<Rightarrow> snapshot \<Rightarrow> bool" where
  "same_runtimes base s \<longleftrightarrow>
     cl_ID (ctx_Cluster (snap_context s)) = cl_ID (ctx_Cluster (snap_context base))
     \<and> snap_runtimes s = snap_runtimes base \<and> snap_probeEntries s = snap_probeEntries base
     \<and> topo_ProbeEntries (snap_topology s) = topo_ProbeEntries (snap_topology base)"

text \<open>Identities stay distinct where nodes are appended only if they are new; routes come from elsewhere.\<close>

definition distinct_nodes :: "string \<Rightarrow> string set \<Rightarrow> snapshot \<Rightarrow> bool" where
  "distinct_nodes clusterID routes s \<longleftrightarrow>
     cl_ID (ctx_Cluster (snap_context s)) = clusterID \<and> distinct (map node_ID (snap_nodes s))
     \<and> {i \<in> node_ID ` set (snap_nodes s). route_key i} \<subseteq> routes"

interpretation distinct_nodes: snapshot_invariant clusterID "distinct_nodes clusterID routes" for clusterID routes
  by unfold_locales (auto simp: distinct_nodes_def nodes.add_distinct nodes.add_keys own_def update_node_ids)

interpretation same_runtimes: snapshot_growth "cl_ID (ctx_Cluster (snap_context base))" "same_runtimes base"
  for base
  by unfold_locales (auto simp: same_runtimes_def)

lemma grown_refl [simp]: "grown s s" by (simp add: grown_def)
lemma grown_trans: "grown a b \<Longrightarrow> grown b c \<Longrightarrow> grown a c" by (auto simp: grown_def)
lemma same_runtimes_refl [simp]: "same_runtimes s s" by (simp add: same_runtimes_def)

end
