(* ===== verification/Go_Json.thy ===== *)
theory Go_Json
  imports Go_Strings "HOL-Library.AList"
begin

text \<open>
  The parts of Go's \<open>encoding/json\<close> the program uses, on byte strings: the parser of
  \<open>json.Unmarshal\<close> (with its limit on nesting, its string escapes and its replacement of
  invalid UTF-8), the case folding of struct field names, and what a JSON number becomes
  as a \<open>float64\<close> and then as an integer.

  A value keeps the order and the duplicates of an object's members; a Go map that is
  decoded from it is \<open>json_map\<close>. A number keeps its literal.
\<close>

datatype json =
    JNull
  | JBool bool
  | JNum string
  | JStr string
  | JArr "json list"
  | JObj "(string \<times> json) list"

section \<open>Runes\<close>

text \<open>\<open>utf8_size s\<close> is the length of the UTF-8 sequence at the head of \<open>s\<close>, 0 if it is invalid.\<close>

definition continuation :: "nat \<Rightarrow> nat \<Rightarrow> char \<Rightarrow> bool" where
  "continuation lo hi c \<longleftrightarrow> lo \<le> byte_val c \<and> byte_val c \<le> hi"

definition utf8_tail :: "nat \<Rightarrow> nat \<Rightarrow> nat \<Rightarrow> string \<Rightarrow> bool" where
  "utf8_tail n lo hi t \<longleftrightarrow>
     n \<le> length t \<and> continuation lo hi (hd t) \<and> list_all (continuation 0x80 0xBF) (tl (take n t))"

definition replacement_rune :: string where
  "replacement_rune = utf8 [0xEF, 0xBF, 0xBD]"

definition encode_rune :: "nat \<Rightarrow> string" where
  "encode_rune r =
     (if r < 0x80 then utf8 [r]
      else if r < 0x800 then utf8 [0xC0 + r div 64, 0x80 + r mod 64]
      else if r < 0x10000 then utf8 [0xE0 + r div 4096, 0x80 + r div 64 mod 64, 0x80 + r mod 64]
      else utf8 [0xF0 + r div 262144, 0x80 + r div 4096 mod 64, 0x80 + r div 64 mod 64, 0x80 + r mod 64])"

text \<open>Code equations that test the bits of a byte instead of counting up to its value.\<close>

lemma is_digit_code [code]:
  "is_digit (Char b0 b1 b2 b3 b4 b5 b6 b7) =
     (\<not> b7 \<and> \<not> b6 \<and> b5 \<and> b4 \<and> (b3 \<longrightarrow> \<not> b2 \<and> \<not> b1))"
  by (cases b0; cases b1; cases b2; cases b3; cases b4; cases b5; cases b6; cases b7)
    (simp_all add: is_digit_def byte_val_def)

lemma is_lower_code [code]:
  "is_lower (Char b0 b1 b2 b3 b4 b5 b6 b7) \<longleftrightarrow>
     \<not> b7 \<and> b6 \<and> b5 \<and> (b4 \<or> b3 \<or> b2 \<or> b1 \<or> b0) \<and> \<not> (b4 \<and> b3 \<and> (b2 \<or> b1 \<and> b0))"
  by (cases b0; cases b1; cases b2; cases b3; cases b4; cases b5; cases b6; cases b7)
    (simp_all add: is_lower_def byte_val_def)

lemma upper_byte_code [code]:
  "upper_byte (Char b0 b1 b2 b3 b4 b5 b6 b7) =
     (if is_lower (Char b0 b1 b2 b3 b4 b5 b6 b7) then Char b0 b1 b2 b3 b4 False b6 b7
      else Char b0 b1 b2 b3 b4 b5 b6 b7)"
  by (cases b0; cases b1; cases b2; cases b3; cases b4; cases b5; cases b6; cases b7)
    (simp_all add: upper_byte_def is_lower_def byte_val_def byte_def char_of_def bit_Suc_0_iff)

lemma is_upper_code [code]:
  "is_upper (Char b0 b1 b2 b3 b4 b5 b6 b7) \<longleftrightarrow>
     \<not> b7 \<and> b6 \<and> \<not> b5 \<and> (b4 \<or> b3 \<or> b2 \<or> b1 \<or> b0) \<and> \<not> (b4 \<and> b3 \<and> (b2 \<or> b1 \<and> b0))"
  by (cases b0; cases b1; cases b2; cases b3; cases b4; cases b5; cases b6; cases b7)
    (simp_all add: is_upper_def byte_val_def)

lemma lower_byte_code [code]:
  "lower_byte (Char b0 b1 b2 b3 b4 b5 b6 b7) =
     (if is_upper (Char b0 b1 b2 b3 b4 b5 b6 b7) then Char b0 b1 b2 b3 b4 True b6 b7
      else Char b0 b1 b2 b3 b4 b5 b6 b7)"
  by (cases b0; cases b1; cases b2; cases b3; cases b4; cases b5; cases b6; cases b7)
    (simp_all add: lower_byte_def is_upper_def byte_val_def byte_def char_of_def bit_Suc_0_iff)

lemma control_code: "byte_val (Char b0 b1 b2 b3 b4 b5 b6 b7) < 0x20 \<longleftrightarrow> \<not> b7 \<and> \<not> b6 \<and> \<not> b5"
  by (cases b0; cases b1; cases b2; cases b3; cases b4; cases b5; cases b6; cases b7)
    (simp_all add: byte_val_def)

lemma ascii_code: "byte_val (Char b0 b1 b2 b3 b4 b5 b6 b7) < 0x80 \<longleftrightarrow> \<not> b7"
  by (cases b0; cases b1; cases b2; cases b3; cases b4; cases b5; cases b6; cases b7)
    (simp_all add: byte_val_def)

definition is_control :: "char \<Rightarrow> bool" where
  "is_control c \<longleftrightarrow> byte_val c < 0x20"

definition is_ascii :: "char \<Rightarrow> bool" where
  "is_ascii c \<longleftrightarrow> byte_val c < 0x80"

lemmas [code] = control_code [folded is_control_def] ascii_code [folded is_ascii_def]

definition utf8_size :: "string \<Rightarrow> nat" where
  "utf8_size s =
     (case s of [] \<Rightarrow> 0 | c # t \<Rightarrow>
       (let b = byte_val c;
            lo = (if b = 0xE0 then 0xA0 else if b = 0xF0 then 0x90 else 0x80);
            hi = (if b = 0xED then 0x9F else if b = 0xF4 then 0x8F else 0xBF)
        in
        if is_ascii c then 1
        else if 0xC2 \<le> b \<and> b \<le> 0xDF \<and> utf8_tail 1 lo hi t then 2
        else if 0xE0 \<le> b \<and> b \<le> 0xEF \<and> utf8_tail 2 lo hi t then 3
        else if 0xF0 \<le> b \<and> b \<le> 0xF4 \<and> utf8_tail 3 lo hi t then 4
        else 0))"

lemma utf8_size_le: "utf8_size s \<le> length s"
proof (cases s)
  case (Cons c t)
  have tail: "utf8_tail n lo hi t \<Longrightarrow> n \<le> length t" for n lo hi by (simp add: utf8_tail_def)
  show ?thesis unfolding Cons utf8_size_def Let_def list.case using tail by (force split: if_splits)
qed (simp add: utf8_size_def)

text \<open>\<open>[]rune(s)\<close>: every rune by its bytes, an invalid byte as the replacement rune.\<close>

function runes :: "string \<Rightarrow> string list" where
  "runes s =
     (if s = [] then []
      else if utf8_size s = 0 then replacement_rune # runes (drop 1 s)
      else take (utf8_size s) s # runes (drop (utf8_size s) s))"
  by auto
termination by (relation "measure length") auto

declare runes.simps [simp del]

section \<open>String literals\<close>

definition hex_digit_val :: "char \<Rightarrow> nat option" where
  "hex_digit_val c =
     (let b = byte_val c in
      if is_digit c then Some (b - 48)
      else if 97 \<le> b \<and> b \<le> 102 then Some (b - 87)
      else if 65 \<le> b \<and> b \<le> 70 then Some (b - 55)
      else None)"

definition hex4 :: "string \<Rightarrow> nat option" where
  "hex4 s =
     (case s of
        a # b # c # d # _ \<Rightarrow>
          (case (hex_digit_val a, hex_digit_val b, hex_digit_val c, hex_digit_val d) of
             (Some w, Some x, Some y, Some z) \<Rightarrow> Some (((w * 16 + x) * 16 + y) * 16 + z)
           | _ \<Rightarrow> None)
      | _ \<Rightarrow> None)"

definition escape_byte :: "char \<Rightarrow> char option" where
  "escape_byte e =
     (if e = CHR 0x22 \<or> e = CHR 0x5C \<or> e = CHR ''/'' then Some e
      else if e = CHR ''b'' then Some (byte 8)
      else if e = CHR ''f'' then Some (byte 12)
      else if e = CHR ''n'' then Some (byte 10)
      else if e = CHR ''r'' then Some (byte 13)
      else if e = CHR ''t'' then Some (byte 9)
      else None)"

text \<open>
  After \<open>\u\<close>: the rune, how many bytes it took. A surrogate pair is one rune; a surrogate
  alone is replaced.
\<close>

definition escaped_rune :: "string \<Rightarrow> (string \<times> nat) option" where
  "escaped_rune s =
     (case hex4 s of
        None \<Rightarrow> None
      | Some r \<Rightarrow>
          if r < 0xD800 \<or> 0xDFFF < r then Some (encode_rune r, 4)
          else
            (case (if take 2 (drop 4 s) = [CHR 0x5C, CHR ''u''] then hex4 (drop 6 s) else None) of
               None \<Rightarrow> Some (replacement_rune, 4)
             | Some r2 \<Rightarrow>
                 if r < 0xDC00 \<and> 0xDC00 \<le> r2 \<and> r2 \<le> 0xDFFF
                 then Some (encode_rune (0x10000 + (r - 0xD800) * 1024 + (r2 - 0xDC00)), 10)
                 else Some (replacement_rune, 4)))"

lemma escaped_rune_size: "escaped_rune s = Some (r, n) \<Longrightarrow> n > 0"
  by (auto simp: escaped_rune_def split: option.splits if_splits)

text \<open>The literal after its opening quote: its text, and what follows its closing quote.\<close>

function unquote :: "string \<Rightarrow> (string \<times> string) option" where
  "unquote s =
     (case s of
        [] \<Rightarrow> None
      | c # t \<Rightarrow>
          if c = CHR 0x22 then Some ([], t)
          else if c = CHR 0x5C then
            (case t of
               [] \<Rightarrow> None
             | e # u \<Rightarrow>
                 if e = CHR ''u'' then
                   (case escaped_rune u of
                      None \<Rightarrow> None
                    | Some (r, n) \<Rightarrow> map_option (map_prod (\<lambda>x. r @ x) id) (unquote (drop n u)))
                 else
                   (case escape_byte e of
                      None \<Rightarrow> None
                    | Some b \<Rightarrow> map_option (map_prod (\<lambda>x. b # x) id) (unquote u)))
          else if is_control c then None
          else if utf8_size s = 0
          then map_option (map_prod (\<lambda>x. replacement_rune @ x) id) (unquote t)
          else map_option (map_prod (\<lambda>x. take (utf8_size s) s @ x) id) (unquote (drop (utf8_size s) s)))"
  by auto
termination by (relation "measure length") (auto simp: less_Suc_eq_le intro: le_trans [OF diff_le_self])

declare unquote.simps [simp del]

lemma unquote_shorter: "unquote s = Some (x, t) \<Longrightarrow> length t < length s"
proof (induction "length s" arbitrary: s x rule: less_induct)
  case less
  have rest: "length t < length s"
    if "unquote u = Some (y, t)" "length u < length s" for u y
    using less.hyps [OF that(2,1)] that(2) by simp
  show ?case
  proof (cases s)
    case Nil
    with less.prems show ?thesis by (simp add: unquote.simps [of "[]"])
  next
    case (Cons c u)
    have step: "length t < Suc (length u)"
      if "unquote v = Some (y, t)" "length v < Suc (length u)" for v y
      using rest [OF that(1)] that(2) Cons by simp
    have size: "length (drop (utf8_size (c # u)) (c # u)) < Suc (length u)" if "utf8_size (c # u) \<noteq> 0"
      using that by simp
    note prems = less.prems [unfolded unquote.simps [of s], unfolded Cons list.case]
    show ?thesis
      using prems unfolding Cons list.size
      by (auto split: if_splits list.splits option.splits prod.splits
          elim!: step [OF _ size, simplified] elim: step simp: less_imp_diff_less)
        (use step in \<open>fastforce simp: le_imp_less_Suc le_diff_conv\<close>)+
  qed
qed

section \<open>Number literals\<close>

definition take_digits :: "string \<Rightarrow> (string \<times> string) option" where
  "take_digits s =
     (if takeWhile is_digit s = [] then None else Some (takeWhile is_digit s, dropWhile is_digit s))"

definition scan_int :: "string \<Rightarrow> (string \<times> string) option" where
  "scan_int s =
     (case s of [] \<Rightarrow> None
      | c # t \<Rightarrow> if c = CHR ''0'' then Some ([c], t) else take_digits s)"

definition scan_frac :: "string \<Rightarrow> (string \<times> string) option" where
  "scan_frac s =
     (case s of [] \<Rightarrow> Some ([], s)
      | c # t \<Rightarrow> if c = CHR ''.'' then map_option (map_prod (\<lambda>x. c # x) id) (take_digits t)
                 else Some ([], s))"

definition scan_exp :: "string \<Rightarrow> (string \<times> string) option" where
  "scan_exp s =
     (case s of [] \<Rightarrow> Some ([], s)
      | c # t \<Rightarrow>
          if c = CHR ''e'' \<or> c = CHR ''E'' then
            (case t of [] \<Rightarrow> None
             | d # u \<Rightarrow>
                 if d = CHR ''+'' \<or> d = CHR ''-'' then map_option (map_prod (\<lambda>x. c # d # x) id) (take_digits u)
                 else map_option (map_prod (\<lambda>x. c # x) id) (take_digits t))
          else Some ([], s))"

definition scan_unsigned :: "string \<Rightarrow> (string \<times> string) option" where
  "scan_unsigned s =
     Option.bind (scan_int s) (\<lambda>(i, s1).
     Option.bind (scan_frac s1) (\<lambda>(f, s2).
     Option.bind (scan_exp s2) (\<lambda>(e, s3). Some (i @ f @ e, s3))))"

definition scan_number :: "string \<Rightarrow> (string \<times> string) option" where
  "scan_number s =
     (if HasPrefix s ''-'' then map_option (map_prod (\<lambda>x. CHR ''-'' # x) id) (scan_unsigned (drop 1 s))
      else scan_unsigned s)"

lemma take_digits_shorter: "take_digits s = Some (x, t) \<Longrightarrow> length t < length s"
  by (cases s) (auto simp: take_digits_def le_imp_less_Suc length_dropWhile_le split: if_splits)

lemma scan_int_shorter: "scan_int s = Some (x, t) \<Longrightarrow> length t < length s"
  by (auto simp: scan_int_def split: list.splits if_splits dest!: take_digits_shorter)

lemma scan_frac_le: "scan_frac s = Some (x, t) \<Longrightarrow> length t \<le> length s"
  by (auto simp: scan_frac_def split: list.splits if_splits dest!: take_digits_shorter)

lemma scan_exp_le: "scan_exp s = Some (x, t) \<Longrightarrow> length t \<le> length s"
  by (auto simp: scan_exp_def split: list.splits if_splits dest!: take_digits_shorter)

lemma scan_unsigned_shorter: "scan_unsigned s = Some (x, t) \<Longrightarrow> length t < length s"
  by (auto simp: scan_unsigned_def bind_eq_Some_conv dest!: scan_int_shorter scan_frac_le scan_exp_le)

lemma scan_number_shorter: "scan_number s = Some (x, t) \<Longrightarrow> length t < length s"
  by (auto simp: scan_number_def split: if_splits dest!: scan_unsigned_shorter)

section \<open>The parser\<close>

definition is_ws :: "char \<Rightarrow> bool" where
  "is_ws c \<longleftrightarrow> c = CHR '' '' \<or> c = byte 9 \<or> c = byte 10 \<or> c = byte 13"

definition skip_ws :: "string \<Rightarrow> string" where
  "skip_ws s = dropWhile is_ws s"

text \<open>\<open>token c s\<close>: what follows the next token if that is \<open>c\<close>.\<close>

definition token :: "char \<Rightarrow> string \<Rightarrow> string option" where
  "token c s = (case skip_ws s of [] \<Rightarrow> None | d # t \<Rightarrow> if d = c then Some t else None)"

lemma skip_ws_le: "length (skip_ws s) \<le> length s"
  by (simp add: skip_ws_def length_dropWhile_le)

lemma token_shorter: "token c s = Some t \<Longrightarrow> length t < length s"
  using skip_ws_le [of s] by (auto simp: token_def split: list.splits if_splits)

text \<open>\<open>maxNestingDepth\<close> of \<open>encoding/json\<close>.\<close>

definition max_nesting :: int where "max_nesting = 10000"

definition json_literal :: "string \<Rightarrow> (json \<times> string) option" where
  "json_literal s =
     (if HasPrefix s ''null'' then Some (JNull, drop 4 s)
      else if HasPrefix s ''true'' then Some (JBool True, drop 4 s)
      else if HasPrefix s ''false'' then Some (JBool False, drop 5 s)
      else map_option (map_prod JNum id) (scan_number s))"

text \<open>
  The parser proper, with the nesting depth. The tests of the lengths are always true
  (\<open>json_value_shorter\<close>): they make the termination evident.
\<close>

function json_value :: "int \<Rightarrow> string \<Rightarrow> (json \<times> string) option"
  and json_items :: "int \<Rightarrow> string \<Rightarrow> (json list \<times> string) option"
  and json_members :: "int \<Rightarrow> string \<Rightarrow> ((string \<times> json) list \<times> string) option" where
  "json_value depth s =
     (case token (CHR 0x22) s of
        Some t \<Rightarrow> map_option (map_prod JStr id) (unquote t)
      | None \<Rightarrow>
     (case token (CHR ''{'') s of
        Some t \<Rightarrow>
          if depth \<ge> max_nesting then None
          else (case token (CHR ''}'') t of
                  Some u \<Rightarrow> Some (JObj [], u)
                | None \<Rightarrow> map_option (map_prod JObj id) (json_members (depth + 1) t))
      | None \<Rightarrow>
     (case token (CHR ''['') s of
        Some t \<Rightarrow>
          if depth \<ge> max_nesting then None
          else (case token (CHR '']'') t of
                  Some u \<Rightarrow> Some (JArr [], u)
                | None \<Rightarrow> map_option (map_prod JArr id) (json_items (depth + 1) t))
      | None \<Rightarrow> json_literal (skip_ws s))))"
| "json_items depth s =
     (case json_value depth s of
        None \<Rightarrow> None
      | Some (x, t) \<Rightarrow>
          (case token (CHR '']'') t of
             Some u \<Rightarrow> Some ([x], u)
           | None \<Rightarrow>
               (case token (CHR '','') t of
                  None \<Rightarrow> None
                | Some u \<Rightarrow>
                    if length u < length s
                    then map_option (map_prod (\<lambda>xs. x # xs) id) (json_items depth u) else None)))"
| "json_members depth s =
     (case token (CHR 0x22) s of
        None \<Rightarrow> None
      | Some s1 \<Rightarrow>
          (case unquote s1 of
             None \<Rightarrow> None
           | Some (k, s2) \<Rightarrow>
               (case token (CHR '':'') s2 of
                  None \<Rightarrow> None
                | Some s3 \<Rightarrow>
                    (case json_value depth s3 of
                       None \<Rightarrow> None
                     | Some (x, t) \<Rightarrow>
                         (case token (CHR ''}'') t of
                            Some u \<Rightarrow> Some ([(k, x)], u)
                          | None \<Rightarrow>
                              (case token (CHR '','') t of
                                 None \<Rightarrow> None
                               | Some u \<Rightarrow>
                                   if length u < length s
                                   then map_option (map_prod (\<lambda>xs. (k, x) # xs) id) (json_members depth u)
                                   else None))))))"
  by pat_completeness auto
termination
  by (relation "measure (\<lambda>x. case x of Inl (d, s) \<Rightarrow> 2 * length s | Inr (Inl (d, s)) \<Rightarrow> 2 * length s + 1
        | Inr (Inr (d, s)) \<Rightarrow> 2 * length s + 1)")
     (fastforce dest!: token_shorter unquote_shorter)+

declare json_value.simps [simp del] json_items.simps [simp del] json_members.simps [simp del]

lemma json_literal_shorter: "json_literal s = Some (x, t) \<Longrightarrow> length t < length s"
  by (auto simp: json_literal_def HasPrefix_iff split: if_splits dest!: scan_number_shorter)

text \<open>After a value: the closing bracket, or a comma and a shorter rest.\<close>

lemma rest_shorter:
  assumes "length s1 < length s"
    and "token close s1 = Some t \<or>
      (\<exists>u. token (CHR '','') s1 = Some u \<and> length u < length s \<and> length t < length u)"
  shows "length t < length s"
  using assms by (auto dest: token_shorter)

lemma json_shorter:
  "json_value d s = Some (x, t) \<Longrightarrow> length t < length s"
  "json_items d s = Some (xs, t) \<Longrightarrow> length t < length s"
  "json_members d s = Some (ms, t) \<Longrightarrow> length t < length s"
proof (induction d s and d s and d s arbitrary: x t and xs t and ms t
    rule: json_value_json_items_json_members.induct)
  case (1 d s)
  note eq = 1(3) [unfolded json_value.simps [of d s]]
  show ?case
  proof (cases "token (CHR 0x22) s")
    case quote: None
    show ?thesis
    proof (cases "token (CHR ''{'') s")
      case brace: None
      show ?thesis
      proof (cases "token (CHR ''['') s")
        case None
        with eq quote brace have "json_literal (skip_ws s) = Some (x, t)" by simp
        from json_literal_shorter [OF this] skip_ws_le [of s] show ?thesis by simp
      next
        case (Some u)
        with eq quote brace show ?thesis
          by (auto split: option.splits if_splits dest!: 1(1) [OF quote brace Some] token_shorter)
      qed
    next
      case (Some u)
      with eq quote show ?thesis
        by (auto split: option.splits if_splits dest!: 1(2) [OF quote Some] token_shorter)
    qed
  next
    case (Some u)
    with eq show ?thesis by (auto dest!: unquote_shorter token_shorter)
  qed
next
  case (2 d s)
  from 2(3) obtain v s1 where v: "json_value d s = Some (v, s1)" by (auto simp: json_items.simps split: option.splits)
  with 2(1) have "length s1 < length s" by blast
  note eq = 2(3) [unfolded json_items.simps [of d s] v option.case prod.case]
  show ?case
    by (rule rest_shorter [OF \<open>length s1 < length s\<close>, of "CHR '']''"])
      (use eq "2.IH"(2) [OF v refl] in \<open>auto split: option.splits if_splits\<close>)
next
  case (3 d s)
  from 3(3) obtain s1 k s2 s3 v s4 where v: "token (CHR 0x22) s = Some s1" "unquote s1 = Some (k, s2)"
      "token (CHR '':'') s2 = Some s3" "json_value d s3 = Some (v, s4)"
    by (auto simp: json_members.simps split: option.splits)
  with 3(1) have "length s4 < length s3" by blast
  with v(1-3) have "length s4 < length s" by (fastforce dest!: token_shorter unquote_shorter)
  note eq = 3(3) [unfolded json_members.simps [of d s] v option.case prod.case]
  show ?case
    by (rule rest_shorter [OF \<open>length s4 < length s\<close>, of "CHR ''}''"])
      (use eq "3.IH"(2) [OF v(1,2) refl v(3,4) refl] in \<open>auto split: option.splits if_splits\<close>)
qed

text \<open>Without the tests: the equations of the parser as the grammar has them.\<close>

lemma json_items_eq:
  "json_items d s =
     (case json_value d s of
        None \<Rightarrow> None
      | Some (x, t) \<Rightarrow>
          (case token (CHR '']'') t of
             Some u \<Rightarrow> Some ([x], u)
           | None \<Rightarrow> Option.bind (token (CHR '','') t)
               (\<lambda>u. map_option (map_prod (\<lambda>xs. x # xs) id) (json_items d u))))"
  by (subst json_items.simps) (auto split: option.split dest!: json_shorter(1) token_shorter)

definition json_parse :: "string \<Rightarrow> json option" where
  "json_parse s =
     (case json_value 0 s of
        None \<Rightarrow> None
      | Some (v, t) \<Rightarrow> if skip_ws t = [] then Some v else None)"

section \<open>Decoding\<close>

text \<open>
  A Go map decoded from an object: of members with one key the last counts. The list keeps
  one entry per key.
\<close>

definition json_map :: "(string \<times> json) list \<Rightarrow> (string \<times> json) list" where
  "json_map ms = foldl (\<lambda>m (k, v). AList.update k v m) [] ms"

lemma keys_json_map_aux:
  "distinct (map fst m) \<Longrightarrow> distinct (map fst (foldl (\<lambda>m (k, v). AList.update k v m) m ms))"
  by (induction ms arbitrary: m) (auto simp: distinct_update)

lemma distinct_json_map: "distinct (map fst (json_map ms))"
  by (simp add: json_map_def keys_json_map_aux)

lemma map_of_json_map_aux:
  "map_of (foldl (\<lambda>m (k, v). AList.update k v m) m ms) = map_of m ++ map_of (rev ms)"
  by (induction ms arbitrary: m) (auto simp: update_conv map_add_def fun_eq_iff split: option.split)

lemma map_of_json_map: "map_of (json_map ms) = map_of (rev ms)"
  by (simp add: json_map_def map_of_json_map_aux)

text \<open>
  \<open>foldName\<close>: struct fields are matched without regard to case, where the long s and the
  Kelvin sign fold to ASCII letters too.
\<close>

function fold_name :: "string \<Rightarrow> string" where
  "fold_name s =
     (case s of [] \<Rightarrow> []
      | c # t \<Rightarrow>
          if take 2 s = utf8 [0xC5, 0xBF] then CHR ''S'' # fold_name (drop 2 s)
          else if take 3 s = utf8 [0xE2, 0x84, 0xAA] then CHR ''K'' # fold_name (drop 3 s)
          else upper_byte c # fold_name t)"
  by auto
termination by (relation "measure length") auto

declare fold_name.simps [simp del]

lemma non_ascii_heads: "\<not> is_ascii (byte 0xC5)" "\<not> is_ascii (byte 0xE2)"
  by (simp_all add: is_ascii_def)

lemma fold_name_code [code]:
  "fold_name s =
     (case s of [] \<Rightarrow> []
      | c # t \<Rightarrow>
          if is_ascii c then upper_byte c # fold_name t
          else if take 2 s = utf8 [0xC5, 0xBF] then CHR ''S'' # fold_name (drop 2 s)
          else if take 3 s = utf8 [0xE2, 0x84, 0xAA] then CHR ''K'' # fold_name (drop 3 s)
          else upper_byte c # fold_name t)"
proof (cases s)
  case (Cons c t)
  have "take 2 s \<noteq> utf8 [0xC5, 0xBF]" "take 3 s \<noteq> utf8 [0xE2, 0x84, 0xAA]" if "is_ascii c"
    using that non_ascii_heads by (auto simp: Cons utf8_def)
  then show ?thesis by (subst fold_name.simps) (simp add: Cons)
qed (simp add: fold_name.simps)

section \<open>Numbers\<close>

function bit_length :: "int \<Rightarrow> int" where
  "bit_length n = (if n \<le> 0 then 0 else 1 + bit_length (n div 2))"
  by auto
termination by (relation "measure nat") auto

declare bit_length.simps [simp del]

text \<open>The value of a literal is \<open>\<plusminus>mantissa * 10 ^ exponent\<close>.\<close>

definition digits_int :: "string \<Rightarrow> int" where
  "digits_int s = foldl (\<lambda>a c. 10 * a + int (byte_val c - 48)) 0 s"

definition literal_parts :: "string \<Rightarrow> bool \<times> int \<times> int" where
  "literal_parts s =
     (let body = TrimPrefix s ''-'';
          is_e = (\<lambda>c. c = CHR ''e'' \<or> c = CHR ''E'');
          m = takeWhile (\<lambda>c. \<not> is_e c) body;
          e = ParseInt64 (drop (Suc (length m)) body);
          i = takeWhile (\<lambda>c. c \<noteq> CHR ''.'') m;
          f = drop (Suc (length i)) m
      in (HasPrefix s ''-'', digits_int (i @ f), e - int (length f)))"

definition round_half_even :: "int \<Rightarrow> int \<Rightarrow> int" where
  "round_half_even a b =
     (let q = a div b; r = a mod b in
      if 2 * r > b \<or> 2 * r = b \<and> odd q then q + 1 else q)"

text \<open>
  \<open>float64_trunc m e\<close>: \<open>m * 10 ^ e\<close> rounded to the 53 bits of a \<open>float64\<close> and truncated to
  an integer; None is the range error of \<open>strconv.ParseFloat\<close>. (Values below 1 truncate
  to 0 however few bits a subnormal number has.)
\<close>

definition float64_trunc :: "int \<Rightarrow> int \<Rightarrow> int option" where
  "float64_trunc m e =
     (if m = 0 then Some 0
      else
        (let a = m * 10 ^ nat e; b = 10 ^ nat (- e);
             d = bit_length a - bit_length b;
             l = (if a * 2 ^ nat (- d) \<ge> b * 2 ^ nat d then d else d - 1);
             k = l - 52;
             q = round_half_even (a * 2 ^ nat (- k)) (b * 2 ^ nat k);
             v = (if k \<ge> 0 then q * 2 ^ nat k else q div 2 ^ nat (- k))
         in if v \<ge> 2 ^ 1024 then None else Some v))"

text \<open>
  \<open>int64(f)\<close>. Out of range the result is left to the implementation; on amd64 it is the
  smallest \<open>int64\<close>.
\<close>

definition int64_of_float :: "string \<Rightarrow> int option" where
  "int64_of_float literal =
     (case literal_parts literal of (neg, m, e) \<Rightarrow>
        map_option (\<lambda>v. let i = (if neg then - v else v) in
            if int64_min \<le> i \<and> i \<le> int64_max then i else int64_min)
          (float64_trunc m e))"

text \<open>Whether every number of a value is in the range of \<open>float64\<close>.\<close>

fun floats_ok :: "json \<Rightarrow> bool" where
  "floats_ok (JNum l) = (int64_of_float l \<noteq> None)"
| "floats_ok (JArr xs) = list_all floats_ok xs"
| "floats_ok (JObj ms) = list_all (\<lambda>m. floats_ok (snd m)) ms"
| "floats_ok v = True"

text \<open>64-bit addition wraps around.\<close>

definition wrap64 :: "int \<Rightarrow> int" where
  "wrap64 i = (i + 2 ^ 63) mod 2 ^ 64 - 2 ^ 63"

lemma wrap64_id: "int64_min \<le> i \<Longrightarrow> i \<le> int64_max \<Longrightarrow> wrap64 i = i"
  by (simp add: wrap64_def int64_min_def int64_max_def)

lemma int64_of_float_range: "int64_of_float l = Some i \<Longrightarrow> int64_min \<le> i \<and> i \<le> int64_max"
  by (auto simp: int64_of_float_def Let_def int64_min_def int64_max_def split: prod.splits if_splits)

end
