(* ===== verification/Envoy_Json.thy ===== *)
theory Envoy_Json
  imports Domain_Types Go_Json Go_Url
begin

text \<open>
  The readers and summaries of \<open>internal/envoy/configdump.go\<close> over decoded JSON. A value of Go
  type \<open>any\<close> is a \<open>json\<close> value (nil is null) whose objects are Go maps: one entry per key, in
  the order the map is iterated in, which Go leaves open. A \<open>map[string]any\<close> that may be nil is
  an optional list of entries. \<open>decode_any\<close> is the decoding into such values.
\<close>

section \<open>Decoding\<close>

fun decode_any :: "json \<Rightarrow> json" where
  "decode_any (JArr xs) = JArr (map decode_any xs)"
| "decode_any (JObj ms) = JObj (json_map (map (\<lambda>m. (fst m, decode_any (snd m))) ms))"
| "decode_any v = v"

section \<open>Readers\<close>

type_synonym gomap = "(string \<times> json) list option"

definition item_at :: "gomap \<Rightarrow> string \<Rightarrow> json" where
  "item_at item key =
     (case item of None \<Rightarrow> JNull
      | Some ms \<Rightarrow> (case map_of ms key of None \<Rightarrow> JNull | Some v \<Rightarrow> v))"

definition object :: "json \<Rightarrow> gomap" where
  "object value = (case value of JObj ms \<Rightarrow> Some ms | _ \<Rightarrow> None)"

text \<open>\<open>object(item, keys...)\<close> on a map.\<close>

definition object_in :: "gomap \<Rightarrow> string list \<Rightarrow> gomap" where
  "object_in item keys = foldl (\<lambda>item key. object (item_at item key)) item keys"

definition slice :: "gomap \<Rightarrow> string \<Rightarrow> json list" where
  "slice item key = (case item_at item key of JArr xs \<Rightarrow> xs | _ \<Rightarrow> [])"

definition stringValue :: "gomap \<Rightarrow> string \<Rightarrow> string \<Rightarrow> string" where
  "stringValue item key fallback =
     (case item_at item key of JStr value \<Rightarrow> (if value \<noteq> [] then value else fallback) | _ \<Rightarrow> fallback)"

text \<open>A decoded number is a \<open>float64\<close>, so it has an integer part.\<close>

definition intValue :: "gomap \<Rightarrow> string \<Rightarrow> int" where
  "intValue item key =
     (case item_at item key of
        JNum value \<Rightarrow> (case int64_of_float value of None \<Rightarrow> 0 | Some i \<Rightarrow> i)
      | _ \<Rightarrow> 0)"

definition boolValue :: "gomap \<Rightarrow> string \<Rightarrow> bool option" where
  "boolValue item key = (case item_at item key of JBool value \<Rightarrow> Some value | _ \<Rightarrow> None)"

definition json_text_of :: "json \<Rightarrow> string option" where
  "json_text_of raw = (case raw of JStr value \<Rightarrow> (if value \<noteq> [] then Some value else None) | _ \<Rightarrow> None)"

definition stringValues :: "gomap \<Rightarrow> string \<Rightarrow> string list" where
  "stringValues item key = List.map_filter json_text_of (slice item key)"

section \<open>Nested strings\<close>

text \<open>What \<open>nested_values\<close> finds, in the order it meets it; the program then sorts the set of them.\<close>

fun nested_values :: "string \<Rightarrow> json \<Rightarrow> string list" where
  "nested_values wantedKey (JObj item) =
     concat (map (\<lambda>m. (if fst m = wantedKey then (case json_text_of (snd m) of None \<Rightarrow> [] | Some t \<Rightarrow> [t]) else [])
       @ nested_values wantedKey (snd m)) item)"
| "nested_values wantedKey (JArr item) = concat (map (nested_values wantedKey) item)"
| "nested_values wantedKey current = []"

definition as_any :: "gomap \<Rightarrow> json" where
  "as_any item = (case item of None \<Rightarrow> JNull | Some ms \<Rightarrow> JObj ms)"

definition nestedStringValues :: "gomap \<Rightarrow> string \<Rightarrow> string list" where
  "nestedStringValues value wantedKey = slice_stable (<) (remdups (nested_values wantedKey (as_any value)))"

definition firstNestedString :: "gomap \<Rightarrow> string \<Rightarrow> string" where
  "firstNestedString value wantedKey =
     (case nestedStringValues value wantedKey of [] \<Rightarrow> [] | text # _ \<Rightarrow> text)"

section \<open>Names and locations\<close>

definition mid_dot :: string where
  "mid_dot = '' '' @ utf8 [0xC2, 0xB7] @ '' ''"

definition shortTypeURL :: "string \<Rightarrow> string" where
  "shortTypeURL value =
     (case LastIndexByte value (CHR ''.'') of
        None \<Rightarrow> value
      | Some index \<Rightarrow> if index + 1 < length value then drop (index + 1) value else value)"

definition safeLocation :: "string \<Rightarrow> string" where
  "safeLocation value =
     (case url_Parse value of
        None \<Rightarrow> value
      | Some parsed \<Rightarrow>
          if url_Scheme parsed = [] then value
          else url_String (parsed\<lparr>url_User := None, url_RawQuery := [], url_Fragment := []\<rparr>))"

definition wasmModuleLocation :: "gomap \<Rightarrow> string" where
  "wasmModuleLocation config =
     (let code = object_in config [''config'', ''vm_config'', ''code''];
          filename = stringValue (object_in code [''local'']) ''filename'' []
      in if filename \<noteq> [] then filename
         else stringValue (object_in code [''remote'', ''http_uri'']) ''uri'' [])"

section \<open>The configuration of an extension\<close>

function unwrapTypedConfig :: "(string \<times> json) list \<Rightarrow> (string \<times> json) list" where
  "unwrapTypedConfig config =
     (if Contains (stringValue (Some config) ''@type'' []) ''TypedExtensionConfig''
      then (case object_in (Some config) [''typed_config''] of
              None \<Rightarrow> config
            | Some inner \<Rightarrow> unwrapTypedConfig inner)
      else config)"
  by auto

lemma object_smaller:
  assumes "object_in (Some config) [key] = Some inner"
  shows "size_list (\<lambda>m. size (snd m)) inner < size_list (\<lambda>m. size (snd m)) config"
proof -
  from assms have "map_of config key = Some (JObj inner)"
    by (auto simp: object_in_def object_def item_at_def split: option.splits json.splits)
  then have "(key, JObj inner) \<in> set config" by (rule map_of_SomeD)
  then have "size (JObj inner) \<le> size_list (\<lambda>m. size (snd m)) config"
    by (induction config) auto
  moreover have "size_list (\<lambda>m. size (snd m)) inner < size (JObj inner)"
    by simp (induction inner; auto simp: size_prod_def)
  ultimately show ?thesis by simp
qed

termination unwrapTypedConfig
  by (relation "measure (size_list (\<lambda>m. size (snd m)))") (auto intro: object_smaller)

declare unwrapTypedConfig.simps [simp del]

definition unwrap :: "gomap \<Rightarrow> gomap" where
  "unwrap config = map_option unwrapTypedConfig config"

record typedConfig =
  tyc_config :: gomap
  tyc_source :: string
  tyc_typeURL :: string
  tyc_ecdsReferenced :: bool
  tyc_ecdsResolved :: bool

type_synonym configs = "string \<rightharpoonup> (string \<times> json) list"

definition extensionTypedConfig :: "gomap \<Rightarrow> configs \<Rightarrow> typedConfig" where
  "extensionTypedConfig flt extensionConfigs =
     (let name = stringValue flt ''name'' [];
          direct = object_in flt [''typed_config''];
          t0 = (if direct \<noteq> None
                then \<lparr>tyc_config = unwrap direct, tyc_source = ''inline typed_config'', tyc_typeURL = [],
                      tyc_ecdsReferenced = False, tyc_ecdsResolved = False\<rparr>
                else \<lparr>tyc_config = None, tyc_source = [], tyc_typeURL = [],
                      tyc_ecdsReferenced = False, tyc_ecdsResolved = False\<rparr>);
          discovery = object_in flt [''config_discovery''];
          t1 = (if discovery = None then t0
                else
                  (let ecds = extensionConfigs name;
                       fallback = object_in discovery [''default_config''];
                       found = unwrap (object_in ecds [''typed_config''])
                   in (if ecds \<noteq> None
                       then t0\<lparr>tyc_config := found, tyc_source := ''ECDS'', tyc_ecdsResolved := found \<noteq> None\<rparr>
                       else if fallback \<noteq> None
                       then t0\<lparr>tyc_config := unwrap fallback, tyc_source := ''ECDS default_config'',
                               tyc_ecdsResolved := True\<rparr>
                       else t0\<lparr>tyc_source := ''ECDS reference''\<rparr>)
                      \<lparr>tyc_ecdsReferenced := True,
                       tyc_typeURL := (case stringValues discovery ''type_urls'' of [] \<Rightarrow> [] | u # _ \<Rightarrow> u)\<rparr>));
          t2 = (if tyc_typeURL t1 = []
                then t1\<lparr>tyc_typeURL := stringValue (tyc_config t1) ''@type'' []\<rparr> else t1)
      in if tyc_source t2 = [] then t2\<lparr>tyc_source := ''filter name''\<rparr> else t2)"

definition extensionKind :: "string \<Rightarrow> string \<Rightarrow> gomap \<Rightarrow> string" where
  "extensionKind name typeURL flt =
     (let value = ToLower (name @ '' '' @ typeURL @ '' ''
            @ Join (stringValues (object_in flt [''config_discovery'']) ''type_urls'') '' '')
      in if Contains value ''ext_proc'' \<or> Contains value ''externalprocessor'' then ''ext_proc''
         else if Contains value ''wasm'' then ''Wasm''
         else ''Envoy Filter'')"

definition isTerminalHTTPFilter :: "gomap \<Rightarrow> configs \<Rightarrow> bool" where
  "isTerminalHTTPFilter flt extensionConfigs \<longleftrightarrow>
     (let name = ToLower (stringValue flt ''name'' []) in
      name = ''envoy.filters.http.router'' \<or> name = ''envoy.router''
      \<or> Contains (ToLower (tyc_typeURL (extensionTypedConfig flt extensionConfigs))) ''filters.http.router.'')"

section \<open>Summaries\<close>

definition ext_proc_parts :: "gomap \<Rightarrow> string list" where
  "ext_proc_parts config =
     (let clusters = nestedStringValues config ''cluster_name'';
          target = firstNestedString config ''target_uri'';
          timeout = stringValue config ''message_timeout'' []
      in (if clusters \<noteq> [] then [''gRPC: '' @ Join clusters '', '']
          else if target \<noteq> [] then [''gRPC: '' @ safeLocation target] else [])
         @ (if timeout \<noteq> [] then [''timeout '' @ timeout] else [])
         @ (case boolValue config ''failure_mode_allow'' of
              None \<Rightarrow> []
            | Some value \<Rightarrow> [if value then ''failure open'' else ''failure closed'']))"

definition wasm_parts :: "gomap \<Rightarrow> string list" where
  "wasm_parts config =
     (let wasm = object_in config [''config''];
          pluginName = stringValue wasm ''name'' [];
          rootID = stringValue wasm ''root_id'' [];
          runtime = stringValue (object_in wasm [''vm_config'']) ''runtime'' []
      in (if pluginName \<noteq> [] then [pluginName] else [])
         @ (if rootID \<noteq> [] then [''root '' @ rootID] else [])
         @ (if runtime \<noteq> [] then [runtime] else []))"

definition extensionSummary :: "string \<Rightarrow> gomap \<Rightarrow> string" where
  "extensionSummary kind config =
     (let parts = (if kind = ''ext_proc'' then ext_proc_parts config
                   else if kind = ''Wasm'' then wasm_parts config else []);
          typeURL = stringValue config ''@type'' []
      in if parts \<noteq> [] then Join parts mid_dot
         else if typeURL \<noteq> [] then ''configured as '' @ shortTypeURL typeURL
         else ''configured'')"

definition httpFilterSummary :: "gomap \<Rightarrow> configs \<Rightarrow> string" where
  "httpFilterSummary flt extensionConfigs =
     (let t = extensionTypedConfig flt extensionConfigs in
      extensionSummary (extensionKind (stringValue flt ''name'' ''unknown'') (tyc_typeURL t) flt)
        (tyc_config t))"

definition clusterDependencyEvidence :: "string \<Rightarrow> string" where
  "clusterDependencyEvidence kind =
     (if kind = ''ext_proc'' then ''typed_config grpc_service/envoy_grpc.cluster_name''
      else ''typed_config field cluster_name'')"

definition dependencyRelation :: "string \<Rightarrow> string \<Rightarrow> string" where
  "dependencyRelation kind dependencyKind =
     (if kind = ''ext_proc'' \<and> (dependencyKind = ''Cluster'' \<or> dependencyKind = ''External gRPC'')
      then ''calls'' else ''references'')"

definition filterChainMatchSummary :: "gomap \<Rightarrow> string" where
  "filterChainMatchSummary chain =
     (let match = object_in chain [''filter_chain_match''];
          names = stringValues match ''server_names'';
          protocol = stringValue match ''transport_protocol'' [];
          protocols = stringValues match ''application_protocols'';
          port = intValue match ''destination_port'';
          parts = (if names \<noteq> [] then [''SNI: '' @ Join names '', ''] else [])
            @ (if protocol \<noteq> [] then [''transport: '' @ protocol] else [])
            @ (if protocols \<noteq> [] then [''ALPN: '' @ Join protocols '', ''] else [])
            @ (if port > 0 then [''port: '' @ Itoa port] else [])
      in if parts = [] then ''all connections'' else Join parts mid_dot)"

definition transportSummary :: "gomap \<Rightarrow> string" where
  "transportSummary chain =
     (let name = stringValue (object_in chain [''transport_socket'']) ''name'' ''raw_buffer'' in
      if Contains (ToLower name) ''tls'' then ''TLS'' else name)"

definition is_method_header :: "json \<Rightarrow> bool" where
  "is_method_header rawHeader \<longleftrightarrow> stringValue (object rawHeader) ''name'' [] = '':method''"

definition routeMatchSummary :: "gomap \<Rightarrow> gomap \<Rightarrow> string" where
  "routeMatchSummary host match =
     (let domains = stringValues host ''domains'';
          path0 = stringValue match ''path''
            (stringValue match ''path_separated_prefix'' (stringValue match ''prefix'' []));
          path = (if path0 = [] then stringValue (object_in match [''safe_regex'']) ''regex'' ''all paths'' else path0);
          parts = (if domains \<noteq> [] then [Join domains '', ''] else []) @ [path]
      in Join (case find is_method_header (slice match ''headers'') of
                 None \<Rightarrow> parts
               | Some header \<Rightarrow> stringValue (object header) ''exact_match'' [] # parts) '' '')"

definition clusterDiscovery :: "gomap \<Rightarrow> string \<Rightarrow> string" where
  "clusterDiscovery cluster clusterType =
     (if EqualFold clusterType ''EDS'' then
        (let service = stringValue (object_in cluster [''eds_cluster_config'']) ''service_name'' [] in
         if service \<noteq> [] then ''xDS / EDS: '' @ service else ''xDS / EDS'')
      else if object_in cluster [''load_assignment''] \<noteq> None then ''inline''
      else ToLower clusterType)"

end
