(* ===== verification/Envoy_Dump.thy ===== *)
theory Envoy_Dump
  imports Envoy_Json
begin

text \<open>
  \<open>Parse\<close> of \<open>internal/envoy/configdump.go\<close>: a config dump becomes the listeners, filter chains,
  routes, clusters and extensions the user sees. Two sweeps over the sections: the first
  collects route configurations, endpoint assignments and extension configurations by name,
  the second builds the result. Parameters: \<open>marshal\<close>, the JSON text of a value, and
  \<open>fingerprint\<close>, the hexadecimal digits of the first six bytes of a text's SHA-256 hash.
\<close>

section \<open>Configurations by name\<close>

text \<open>The named configuration of one entry; later entries replace earlier ones of their name.\<close>

definition route_config_of :: "json \<Rightarrow> (string \<times> (string \<times> json) list) option" where
  "route_config_of raw =
     (let entry = object raw;
          routeConfig = (case object_in entry [''route_config''] of None \<Rightarrow> entry | c \<Rightarrow> c);
          name = stringValue routeConfig ''name'' []
      in case routeConfig of None \<Rightarrow> None | Some config \<Rightarrow> if name \<noteq> [] then Some (name, config) else None)"

definition endpoint_assignment_of :: "json \<Rightarrow> (string \<times> (string \<times> json) list) option" where
  "endpoint_assignment_of raw =
     (let entry = object raw;
          assignment = (case object_in entry [''endpoint_config''] of None \<Rightarrow> entry | c \<Rightarrow> c);
          name = stringValue assignment ''cluster_name'' []
      in case assignment of None \<Rightarrow> None | Some config \<Rightarrow> if name \<noteq> [] then Some (name, config) else None)"

fun first_some :: "'a option list \<Rightarrow> 'a option" where
  "first_some [] = None"
| "first_some (x # xs) = (case x of None \<Rightarrow> first_some xs | Some v \<Rightarrow> Some v)"

definition extension_config_of :: "json \<Rightarrow> (string \<times> (string \<times> json) list) option" where
  "extension_config_of raw =
     (let entry = object raw;
          config = first_some [object_in entry [''ecds_filter''], object_in entry [''extension_config''],
            object_in entry [''typed_extension_config''],
            (if stringValue entry ''name'' [] \<noteq> [] then entry else None)];
          name = stringValue config ''name'' []
      in case config of None \<Rightarrow> None | Some c \<Rightarrow> if name \<noteq> [] then Some (name, c) else None)"

definition add_named ::
    "(json \<Rightarrow> (string \<times> (string \<times> json) list) option) \<Rightarrow> configs \<Rightarrow> json \<Rightarrow> configs" where
  "add_named named result raw =
     (case named raw of None \<Rightarrow> result | Some (name, config) \<Rightarrow> result(name \<mapsto> config))"

definition sweep :: "gomap \<Rightarrow> string list \<Rightarrow> json list" where
  "sweep section keys = concat (map (slice section) keys)"

definition parseRouteConfigs :: "configs \<Rightarrow> gomap \<Rightarrow> configs" where
  "parseRouteConfigs result section =
     foldl (add_named route_config_of) result (sweep section [''static_route_configs'', ''dynamic_route_configs''])"

definition parseEndpointAssignments :: "configs \<Rightarrow> gomap \<Rightarrow> configs" where
  "parseEndpointAssignments result section =
     foldl (add_named endpoint_assignment_of) result
       (sweep section [''static_endpoint_configs'', ''dynamic_endpoint_configs''])"

definition parseExtensionConfigs :: "configs \<Rightarrow> gomap \<Rightarrow> configs" where
  "parseExtensionConfigs result section =
     foldl (add_named extension_config_of) result
       (sweep section [''ecds_filters'', ''dynamic_active_extension_configs'', ''static_extension_configs''])"

section \<open>Routes\<close>

text \<open>The external-processor overrides of a host and a route; the route's replace the host's.\<close>

definition is_ext_proc_config :: "string \<times> json \<Rightarrow> bool" where
  "is_ext_proc_config nr \<longleftrightarrow>
     Contains (ToLower (fst nr @ '' '' @ stringValue (object (snd nr)) ''@type'' [])) ''ext_proc''"

definition per_filter_configs :: "gomap \<Rightarrow> (string \<times> json) list" where
  "per_filter_configs owner =
     (case object_in owner [''typed_per_filter_config''] of None \<Rightarrow> []
      | Some ms \<Rightarrow> filter is_ext_proc_config ms)"

definition ext_proc_target :: "(string \<times> json) list \<Rightarrow> string \<Rightarrow> EnvoyRouteExtProcTarget" where
  "ext_proc_target configs name =
     (let config = (case map_of configs name of None \<Rightarrow> None | Some raw \<Rightarrow> object raw) in
      \<lparr>erx_FilterName = name, erx_TypeURL = stringValue config ''@type'' [],
       erx_GRPCClusters = nestedStringValues config ''cluster_name''\<rparr>)"

definition routeExtProcTargets :: "gomap \<Rightarrow> gomap \<Rightarrow> EnvoyRouteExtProcTarget list" where
  "routeExtProcTargets host route =
     (let configs = per_filter_configs route @ per_filter_configs host in
      map (ext_proc_target configs) (slice_stable (<) (remdups (map fst configs))))"

definition weighted_cluster :: "json \<Rightarrow> EnvoyWeightedCluster" where
  "weighted_cluster rawCluster =
     (let cluster = object rawCluster;
          weight = intValue cluster ''weight''
      in \<lparr>ewc_Name = stringValue cluster ''name'' ''unknown'',
          ewc_Weight = (if weight = 0 then intValue (object_in cluster [''weight'']) ''value'' else weight)\<rparr>)"

definition parse_route :: "gomap \<Rightarrow> json \<Rightarrow> EnvoyRoute" where
  "parse_route host rawRoute =
     (let route = object rawRoute;
          action = object_in route [''route'']
      in \<lparr>er_Name = stringValue route ''name'' (stringValue host ''name'' ''route''),
          er_Match = routeMatchSummary host (object_in route [''match'']),
          er_Cluster = stringValue action ''cluster'' [],
          er_WeightedClusters =
            map weighted_cluster (slice (object_in action [''weighted_clusters'']) ''clusters''),
          er_ExtProcs = routeExtProcTargets host route\<rparr>)"

definition host_routes :: "json \<Rightarrow> EnvoyRoute list" where
  "host_routes rawHost = (let host = object rawHost in map (parse_route host) (slice host ''routes''))"

definition parseRoutes :: "gomap \<Rightarrow> configs \<Rightarrow> EnvoyFilterChain \<Rightarrow> EnvoyFilterChain" where
  "parseRoutes config routeConfigs chain =
     (let routeConfig = (case object_in config [''route_config''] of
            None \<Rightarrow> routeConfigs (stringValue (object_in config [''rds'']) ''route_config_name'' [])
          | c \<Rightarrow> c)
      in chain\<lparr>efc_Routes := efc_Routes chain @ concat (map host_routes (slice routeConfig ''virtual_hosts''))\<rparr>)"

section \<open>Clusters\<close>

definition endpoint_status :: "string \<Rightarrow> Status" where
  "endpoint_status health =
     (if health = ''healthy'' then StatusHealthy
      else if health \<in> {''unhealthy'', ''draining'', ''timeout''} then StatusError
      else StatusWarning)"

definition parse_endpoint :: "json \<Rightarrow> EnvoyEndpoint" where
  "parse_endpoint rawLB =
     (let lb = object rawLB;
          address = object_in (object_in lb [''endpoint'']) [''address'', ''socket_address''];
          health = ToLower (stringValue lb ''health_status'' ''unknown'');
          weight = intValue lb ''load_balancing_weight''
      in \<lparr>ee_Address = stringValue address ''address'' ''unknown'', ee_Port = intValue address ''port_value'',
          ee_Status = endpoint_status health, ee_Health = health,
          ee_Weight = (if weight = 0 then 1 else weight)\<rparr>)"

definition lb_endpoints :: "json \<Rightarrow> json list" where
  "lb_endpoints rawEndpointSet = slice (object rawEndpointSet) ''lb_endpoints''"

definition parseEndpoints :: "gomap \<Rightarrow> EnvoyEndpoint list" where
  "parseEndpoints assignment =
     map parse_endpoint (concat (map lb_endpoints (slice assignment ''endpoints'')))"

definition parse_cluster :: "configs \<Rightarrow> json \<Rightarrow> EnvoyCluster" where
  "parse_cluster endpointAssignments raw =
     (let entry = object raw;
          cluster = (case object_in entry [''cluster''] of None \<Rightarrow> entry | c \<Rightarrow> c);
          clusterType = stringValue cluster ''type'' ''UNKNOWN'';
          name = stringValue cluster ''name'' ''unnamed-cluster'';
          assignment = (case object_in cluster [''load_assignment''] of
            None \<Rightarrow> endpointAssignments name | c \<Rightarrow> c)
      in \<lparr>ecl_Name = name, ecl_Type = clusterType, ecl_Discovery = clusterDiscovery cluster clusterType,
          ecl_ConnectTimeout = stringValue cluster ''connect_timeout'' [],
          ecl_Endpoints = parseEndpoints assignment\<rparr>)"

definition parseClusters :: "configs \<Rightarrow> gomap \<Rightarrow> EnvoyCluster list" where
  "parseClusters endpointAssignments section =
     map (parse_cluster endpointAssignments) (sweep section [''static_clusters'', ''dynamic_active_clusters''])"

section \<open>Extensions\<close>

definition same_attachment :: "EnvoyExtensionAttachment \<Rightarrow> EnvoyExtensionAttachment \<Rightarrow> bool" where
  "same_attachment existing value \<longleftrightarrow>
     exa_ListenerID existing = exa_ListenerID value \<and> exa_FilterChain existing = exa_FilterChain value
     \<and> exa_FilterName existing = exa_FilterName value \<and> exa_Position existing = exa_Position value"

definition appendUniqueExtensionAttachment ::
    "EnvoyExtensionAttachment list \<Rightarrow> EnvoyExtensionAttachment \<Rightarrow> EnvoyExtensionAttachment list" where
  "appendUniqueExtensionAttachment vals value =
     (if list_ex (\<lambda>existing. same_attachment existing value) vals then vals else vals @ [value])"

definition same_dependency :: "EnvoyExtensionDependency \<Rightarrow> EnvoyExtensionDependency \<Rightarrow> bool" where
  "same_dependency existing value \<longleftrightarrow>
     exd_Kind existing = exd_Kind value \<and> exd_Name existing = exd_Name value
     \<and> exd_Relation existing = exd_Relation value"

definition appendUniqueExtensionDependency ::
    "EnvoyExtensionDependency list \<Rightarrow> EnvoyExtensionDependency \<Rightarrow> EnvoyExtensionDependency list" where
  "appendUniqueExtensionDependency vals value =
     (if list_ex (\<lambda>existing. same_dependency existing value) vals then vals else vals @ [value])"

definition ecds_dependency :: "string \<Rightarrow> typedConfig \<Rightarrow> EnvoyExtensionDependency list" where
  "ecds_dependency name t =
     (if tyc_ecdsReferenced t
      then [\<lparr>exd_Kind = ''ECDS'', exd_Name = name, exd_Relation = ''resolves through'',
             exd_Evidence = ''http_filters[].config_discovery''
               @ (if tyc_ecdsResolved t then '' + EcdsConfigDump'' else []),
             exd_Resolved = tyc_ecdsResolved t\<rparr>]
      else [])"

definition cluster_dependency :: "string \<Rightarrow> string \<Rightarrow> EnvoyExtensionDependency" where
  "cluster_dependency kind clusterName =
     \<lparr>exd_Kind = ''Cluster'', exd_Name = clusterName, exd_Relation = dependencyRelation kind ''Cluster'',
      exd_Evidence = clusterDependencyEvidence kind, exd_Resolved = False\<rparr>"

definition grpc_dependency :: "string \<Rightarrow> gomap \<Rightarrow> EnvoyExtensionDependency list" where
  "grpc_dependency kind config =
     (let target = firstNestedString config ''target_uri'' in
      if target = [] then []
      else [\<lparr>exd_Kind = ''External gRPC'', exd_Name = safeLocation target,
             exd_Relation = dependencyRelation kind ''External gRPC'',
             exd_Evidence = ''typed_config grpc_service/google_grpc.target_uri'', exd_Resolved = True\<rparr>])"

definition wasm_dependency :: "string \<Rightarrow> gomap \<Rightarrow> EnvoyExtensionDependency list" where
  "wasm_dependency kind config =
     (let module = wasmModuleLocation config in
      if kind = ''Wasm'' \<and> module \<noteq> []
      then [\<lparr>exd_Kind = ''Wasm module'', exd_Name = safeLocation module, exd_Relation = ''loads'',
             exd_Evidence = ''typed_config.config.vm_config.code'', exd_Resolved = True\<rparr>]
      else [])"

definition extension_dependencies :: "string \<Rightarrow> string \<Rightarrow> typedConfig \<Rightarrow> EnvoyExtensionDependency list" where
  "extension_dependencies kind name t =
     foldl appendUniqueExtensionDependency (ecds_dependency name t)
       (map (cluster_dependency kind) (nestedStringValues (tyc_config t) ''cluster_name'')
        @ grpc_dependency kind (tyc_config t) @ wasm_dependency kind (tyc_config t))"

text \<open>The extensions found so far, and where in their list an identity is.\<close>

type_synonym extensions = "EnvoyExtension list \<times> (string \<rightharpoonup> nat)"

definition extension_id ::
    "(json \<Rightarrow> string) \<Rightarrow> (string \<Rightarrow> string) \<Rightarrow> string \<Rightarrow> string \<Rightarrow> typedConfig \<Rightarrow> string" where
  "extension_id marshal fingerprint kind name t =
     kind @ ''|'' @ name @ ''|''
     @ fingerprint (kind @ ''|'' @ name @ ''|'' @ tyc_source t @ ''|'' @ tyc_typeURL t @ ''|''
         @ marshal (as_any (tyc_config t)))"

definition filter_name :: "gomap \<Rightarrow> string" where
  "filter_name flt = stringValue flt ''name'' ''unknown''"

definition new_extension ::
    "(json \<Rightarrow> string) \<Rightarrow> (string \<Rightarrow> string) \<Rightarrow> string \<Rightarrow> string \<Rightarrow> typedConfig \<Rightarrow> EnvoyExtensionAttachment
     \<Rightarrow> EnvoyExtension" where
  "new_extension marshal fingerprint kind name t attachment =
     \<lparr>ex_ID = extension_id marshal fingerprint kind name t, ex_Name = name, ex_Kind = kind,
      ex_TypeURL = tyc_typeURL t, ex_Status = StatusHealthy, ex_ConfigSource = tyc_source t,
      ex_ConfigSummary = extensionSummary kind (tyc_config t), ex_Attachments = [attachment],
      ex_Dependencies = extension_dependencies kind name t\<rparr>"

text \<open>A known extension gets one more attachment, an unknown one is appended.\<close>

definition add_extension :: "EnvoyExtension \<Rightarrow> EnvoyExtensionAttachment \<Rightarrow> extensions \<Rightarrow> extensions" where
  "add_extension x attachment xs =
     (case snd xs (ex_ID x) of
        Some n \<Rightarrow> ((fst xs)[n := (fst xs ! n)\<lparr>ex_Attachments :=
            appendUniqueExtensionAttachment (ex_Attachments (fst xs ! n)) attachment\<rparr>], snd xs)
      | None \<Rightarrow> (fst xs @ [x], (snd xs)(ex_ID x \<mapsto> length (fst xs))))"

definition extension_at ::
    "(json \<Rightarrow> string) \<Rightarrow> (string \<Rightarrow> string) \<Rightarrow> gomap \<Rightarrow> typedConfig \<Rightarrow> EnvoyExtensionAttachment
     \<Rightarrow> EnvoyExtension" where
  "extension_at marshal fingerprint flt t attachment =
     new_extension marshal fingerprint (extensionKind (filter_name flt) (tyc_typeURL t) flt) (filter_name flt) t
       attachment"

definition filter_attachment ::
    "EnvoyListener \<Rightarrow> EnvoyFilterChain \<Rightarrow> string \<Rightarrow> nat \<Rightarrow> string \<Rightarrow> EnvoyExtensionAttachment" where
  "filter_attachment listener chain name position filterType =
     \<lparr>exa_ListenerID = el_ID listener, exa_ListenerName = el_Name listener,
      exa_FilterChain = efc_Name chain, exa_FilterName = name, exa_FilterType = filterType,
      exa_Position = int position\<rparr>"

definition addRuntimeExtension ::
    "(json \<Rightarrow> string) \<Rightarrow> (string \<Rightarrow> string) \<Rightarrow> configs \<Rightarrow> gomap \<Rightarrow> EnvoyListener \<Rightarrow> EnvoyFilterChain
     \<Rightarrow> nat \<Rightarrow> string \<Rightarrow> extensions \<Rightarrow> extensions" where
  "addRuntimeExtension marshal fingerprint extensionConfigs flt listener chain position filterType xs =
     add_extension
       (extension_at marshal fingerprint flt (extensionTypedConfig flt extensionConfigs)
         (filter_attachment listener chain (filter_name flt) position filterType))
       (filter_attachment listener chain (filter_name flt) position filterType) xs"

section \<open>Listeners\<close>

text \<open>One HTTP filter: the chain gets its summary, and the extensions the filter unless it is a router.\<close>

definition parse_http_filter ::
    "(json \<Rightarrow> string) \<Rightarrow> (string \<Rightarrow> string) \<Rightarrow> configs \<Rightarrow> EnvoyListener
     \<Rightarrow> EnvoyFilterChain \<times> extensions \<Rightarrow> json \<Rightarrow> EnvoyFilterChain \<times> extensions" where
  "parse_http_filter marshal fingerprint extensionConfigs listener st raw =
     (let flt = object raw;
          terminal = isTerminalHTTPFilter flt extensionConfigs;
          (chain0, xs) = st;
          chain = chain0\<lparr>efc_HTTPFilters := efc_HTTPFilters chain0 @
            [\<lparr>ehf_Name = stringValue flt ''name'' ''unknown'', ehf_Type = ''HTTP filter'',
              ehf_Stage = ''request'', ehf_ConfigSummary = httpFilterSummary flt extensionConfigs,
              ehf_Terminal = terminal\<rparr>]\<rparr>
      in (chain,
          if terminal then xs
          else addRuntimeExtension marshal fingerprint extensionConfigs flt listener chain
            (length (efc_HTTPFilters chain)) ''HTTP filter'' xs))"

definition parseHTTPFilters ::
    "(json \<Rightarrow> string) \<Rightarrow> (string \<Rightarrow> string) \<Rightarrow> configs \<Rightarrow> gomap \<Rightarrow> EnvoyListener
     \<Rightarrow> EnvoyFilterChain \<times> extensions \<Rightarrow> EnvoyFilterChain \<times> extensions" where
  "parseHTTPFilters marshal fingerprint extensionConfigs config listener st =
     foldl (parse_http_filter marshal fingerprint extensionConfigs listener) st (slice config ''http_filters'')"

text \<open>One network filter of a chain; the connection manager makes the listener speak HTTP.\<close>

definition parse_filter ::
    "(json \<Rightarrow> string) \<Rightarrow> (string \<Rightarrow> string) \<Rightarrow> configs \<Rightarrow> configs
     \<Rightarrow> EnvoyListener \<times> EnvoyFilterChain \<times> extensions \<Rightarrow> json
     \<Rightarrow> EnvoyListener \<times> EnvoyFilterChain \<times> extensions" where
  "parse_filter marshal fingerprint routeConfigs extensionConfigs st rawFilter =
     (let flt = object rawFilter;
          name = stringValue flt ''name'' ''unknown'';
          config = object_in flt [''typed_config''];
          (item, fc, xs) = st
      in if Contains name ''http_connection_manager'' then
           (let item' = item\<lparr>el_Protocol := (if efc_Transport fc = ''TLS'' then ''HTTPS'' else ''HTTP'')\<rparr>;
                (fc', xs') = parseHTTPFilters marshal fingerprint extensionConfigs config item' (fc, xs)
            in (item', parseRoutes config routeConfigs fc', xs'))
         else
           (let fc' = fc\<lparr>efc_HTTPFilters := efc_HTTPFilters fc @
                  [\<lparr>ehf_Name = name, ehf_Type = ''network filter'', ehf_Stage = ''network'',
                    ehf_ConfigSummary = ''configured'', ehf_Terminal = False\<rparr>]\<rparr>
            in (item, fc', addRuntimeExtension marshal fingerprint extensionConfigs flt item fc'
                  (length (efc_HTTPFilters fc')) ''network filter'' xs)))"

definition parse_chain ::
    "(json \<Rightarrow> string) \<Rightarrow> (string \<Rightarrow> string) \<Rightarrow> configs \<Rightarrow> configs
     \<Rightarrow> EnvoyListener \<times> extensions \<Rightarrow> json \<Rightarrow> EnvoyListener \<times> extensions" where
  "parse_chain marshal fingerprint routeConfigs extensionConfigs st rawChain =
     (let chain = object rawChain;
          fc0 = \<lparr>efc_Name = stringValue chain ''name'' ''default'', efc_Match = filterChainMatchSummary chain,
            efc_Transport = transportSummary chain, efc_HTTPFilters = [], efc_Routes = []\<rparr>;
          (item0, xs0) = st;
          (item, fc, xs) = foldl (parse_filter marshal fingerprint routeConfigs extensionConfigs)
            (item0, fc0, xs0) (slice chain ''filters'')
      in (item\<lparr>el_FilterChains := el_FilterChains item @ [fc]\<rparr>, xs))"

definition listener_chains :: "gomap \<Rightarrow> json list" where
  "listener_chains listener =
     slice listener ''filter_chains''
     @ (case object_in listener [''default_filter_chain''] of None \<Rightarrow> [] | Some ms \<Rightarrow> [JObj ms])"

definition unnamed_listener :: string where
  "unnamed_listener = ''unnamed-listener'' @ mid_dot"

text \<open>The listener before its chains are read; \<open>n\<close> listeners came before it.\<close>

definition bare_listener :: "gomap \<Rightarrow> gomap \<Rightarrow> nat \<Rightarrow> EnvoyListener" where
  "bare_listener entry listener n =
     (let address = object_in listener [''address'', ''socket_address''];
          listenerAddress = stringValue address ''address'' ''0.0.0.0'';
          listenerPort = intValue address ''port_value'';
          name0 = stringValue listener ''name'' (stringValue entry ''name'' []);
          place = listenerAddress @ '':'' @ Itoa listenerPort;
          listenerName = (if name0 = [] then unnamed_listener @ place else name0)
      in \<lparr>el_ID = listenerName @ ''|'' @ place @ ''|'' @ Itoa (int n), el_Name = listenerName,
          el_Address = listenerAddress, el_Port = listenerPort, el_Protocol = ''TCP'',
          el_Status = StatusHealthy, el_FilterChains = []\<rparr>)"

definition parse_listener ::
    "(json \<Rightarrow> string) \<Rightarrow> (string \<Rightarrow> string) \<Rightarrow> configs \<Rightarrow> configs
     \<Rightarrow> EnvoyListener list \<times> extensions \<Rightarrow> json \<Rightarrow> EnvoyListener list \<times> extensions" where
  "parse_listener marshal fingerprint routeConfigs extensionConfigs st raw =
     (let entry = object raw in
      case first_some [object_in entry [''listener''], object_in entry [''active_state'', ''listener'']] of
        None \<Rightarrow> st
      | Some ms \<Rightarrow>
          (let (listeners, xs0) = st;
               (item, xs) = foldl (parse_chain marshal fingerprint routeConfigs extensionConfigs)
                 (bare_listener entry (Some ms) (length listeners), xs0) (listener_chains (Some ms))
           in (listeners @ [item], xs)))"

definition parseListeners ::
    "(json \<Rightarrow> string) \<Rightarrow> (string \<Rightarrow> string) \<Rightarrow> configs \<Rightarrow> configs
     \<Rightarrow> EnvoyListener list \<times> extensions \<Rightarrow> gomap \<Rightarrow> EnvoyListener list \<times> extensions" where
  "parseListeners marshal fingerprint routeConfigs extensionConfigs st section =
     foldl (parse_listener marshal fingerprint routeConfigs extensionConfigs) st
       (sweep section [''static_listeners'', ''dynamic_listeners''])"

section \<open>The whole dump\<close>

definition resolve_dependency :: "string set \<Rightarrow> EnvoyExtensionDependency \<Rightarrow> EnvoyExtensionDependency" where
  "resolve_dependency clusters dependency =
     (if exd_Kind dependency = ''Cluster''
      then dependency\<lparr>exd_Resolved := (exd_Name dependency \<in> clusters)\<rparr> else dependency)"

definition resolve_extension :: "string set \<Rightarrow> EnvoyExtension \<Rightarrow> EnvoyExtension" where
  "resolve_extension clusters extension =
     (let dependencies = map (resolve_dependency clusters) (ex_Dependencies extension) in
      extension\<lparr>ex_Dependencies := dependencies,
        ex_Status := (if list_all exd_Resolved dependencies then StatusHealthy else StatusWarning)\<rparr>)"

definition resolveExtensionDependencies :: "EnvoyConfig \<Rightarrow> EnvoyConfig" where
  "resolveExtensionDependencies result =
     result\<lparr>ec_Extensions :=
       map (resolve_extension (set (map ecl_Name (ec_Clusters result)))) (ec_Extensions result)\<rparr>"

definition extension_before :: "EnvoyExtension \<Rightarrow> EnvoyExtension \<Rightarrow> bool" where
  "extension_before left right =
     (if ex_Kind left = ex_Kind right then ex_Name left < ex_Name right else ex_Kind left < ex_Kind right)"

text \<open>Both sweeps. Clusters and listeners do not depend on each other, so each has its own fold.\<close>

definition Parse ::
    "(json \<Rightarrow> string) \<Rightarrow> (string \<Rightarrow> string) \<Rightarrow> gomap \<Rightarrow> string \<Rightarrow> string \<Rightarrow> EnvoyConfig" where
  "Parse marshal fingerprint dump snapshotID observedAt =
     (let sections = map object (slice dump ''configs'');
          routeConfigs = foldl parseRouteConfigs Map.empty sections;
          endpointAssignments = foldl parseEndpointAssignments Map.empty sections;
          extensionConfigs = foldl parseExtensionConfigs Map.empty sections;
          (listeners, exts, index) = foldl
            (parseListeners marshal fingerprint routeConfigs extensionConfigs)
            ([], [], Map.empty) sections;
          clusters = concat (map (parseClusters endpointAssignments) sections);
          result = resolveExtensionDependencies (zero_EnvoyConfig\<lparr>ec_SnapshotID := snapshotID,
            ec_ObservedAt := observedAt, ec_State := ''complete'', ec_Source := ''Envoy admin /config_dump'',
            ec_RawConfig := marshal (as_any dump), ec_Listeners := listeners, ec_Clusters := clusters,
            ec_Extensions := exts\<rparr>)
      in result\<lparr>ec_Extensions := slice_stable extension_before (ec_Extensions result)\<rparr>)"

text \<open>
  \<open>Fetch\<close>: \<open>get\<close> is the HTTP client, with the error of building or sending the request, or
  the response's status and body. At most 32 MiB of the body are read; what follows the first
  JSON value is ignored.
\<close>

datatype FetchError = RequestFailed string | ReturnedStatus nat | DecodeFailed

definition decode_dump :: "string \<Rightarrow> gomap option" where
  "decode_dump body =
     (case json_value 0 body of
        Some (JNull, _) \<Rightarrow> Some None
      | Some (JObj ms, _) \<Rightarrow> (if floats_ok (JObj ms) then Some (object (decode_any (JObj ms))) else None)
      | _ \<Rightarrow> None)"

definition Fetch ::
    "(string \<Rightarrow> string + nat \<times> string) \<Rightarrow> (json \<Rightarrow> string) \<Rightarrow> (string \<Rightarrow> string) \<Rightarrow> string \<Rightarrow> string \<Rightarrow> string
     \<Rightarrow> FetchError + EnvoyConfig" where
  "Fetch get marshal fingerprint url snapshotID observedAt =
     (case get (TrimRightByte (CHR ''/'') url @ ''/config_dump'') of
        Inl e \<Rightarrow> Inl (RequestFailed e)
      | Inr (status, body) \<Rightarrow>
          if status div 100 \<noteq> 2 then Inl (ReturnedStatus status)
          else (case decode_dump (take (32 * 1024 * 1024) body) of
                  None \<Rightarrow> Inl DecodeFailed
                | Some dump \<Rightarrow> Inr (Parse marshal fingerprint dump snapshotID observedAt)))"

section \<open>The deduplicating appends\<close>

definition attachment_key :: "EnvoyExtensionAttachment \<Rightarrow> string \<times> string \<times> string \<times> int" where
  "attachment_key a = (exa_ListenerID a, exa_FilterChain a, exa_FilterName a, exa_Position a)"

definition dependency_key :: "EnvoyExtensionDependency \<Rightarrow> string \<times> string \<times> string" where
  "dependency_key d = (exd_Kind d, exd_Name d, exd_Relation d)"

lemma same_attachment_key: "same_attachment a b \<longleftrightarrow> attachment_key b = attachment_key a"
  by (auto simp: same_attachment_def attachment_key_def)

lemma same_dependency_key: "same_dependency a b \<longleftrightarrow> dependency_key b = dependency_key a"
  by (auto simp: same_dependency_def dependency_key_def)

interpretation attachments: keyed_append appendUniqueExtensionAttachment attachment_key
  by unfold_locales
    (auto simp: appendUniqueExtensionAttachment_def same_attachment_key list_ex_iff)

interpretation dependencies: keyed_append appendUniqueExtensionDependency dependency_key
  by unfold_locales
    (auto simp: appendUniqueExtensionDependency_def same_dependency_key list_ex_iff)

lemma extension_dependencies_distinct: "distinct (map dependency_key (extension_dependencies kind name t))"
  unfolding extension_dependencies_def
  by (rule dependencies.adds_distinct) (simp add: ecds_dependency_def)

end
