(* ===== verification/Kube_Envoy_Config.thy ===== *)
theory Kube_Envoy_Config
  imports Kube_Snapshot Envoy_Dump Go_Url
begin

text \<open>
  \<open>EnvoyConfig\<close> and \<open>fetchPodEnvoyConfig\<close> of \<open>internal/kube/envoy_runtime.go\<close>: the configuration
  of a gateway's proxy, fetched from the first of its pods that answers and cached for thirty
  seconds. The port-forward of client-go, the HTTP client and the clock are parameters.
\<close>

section \<open>One pod\<close>

text \<open>How waiting for the port-forward ends.\<close>

datatype ForwardWait = Forwarded | ForwardFailed string string | ForwardCancelled string | ForwardTimedOut

text \<open>
  \<open>pf_transport\<close> and \<open>pf_new\<close> are the errors of preparing a forward (for the API server's URL and
  the admin port), \<open>pf_ports\<close> the local ports, \<open>pf_get\<close> the HTTP client.
\<close>

record PortForward =
  pf_transport :: "string option"
  pf_new :: "URL \<Rightarrow> int \<Rightarrow> string option"
  pf_wait :: ForwardWait
  pf_ports :: "string + int list"
  pf_get :: "string \<Rightarrow> string + nat \<times> string"

datatype PodFetchError =
    TransportFailed string
  | HostInvalid
  | ForwarderFailed string
  | PodForwardFailed string string string
  | PodForwardCancelled string
  | PodForwardTimedOut string
  | PortsUnresolved "string option"
  | PodFetchFailed FetchError

definition pod_key :: "proxyPod \<Rightarrow> string" where
  "pod_key pod = pod_Namespace pod @ ''/'' @ pod_Name pod"

definition forward_url :: "URL \<Rightarrow> proxyPod \<Rightarrow> URL" where
  "forward_url host pod =
     empty_url\<lparr>url_Scheme := url_Scheme host, url_Host := url_Host host,
       url_Path := ''/api/v1/namespaces/'' @ pod_Namespace pod @ ''/pods/'' @ pod_Name pod @ ''/portforward''\<rparr>"

definition forwarded_config ::
    "(json \<Rightarrow> string) \<Rightarrow> (string \<Rightarrow> string) \<Rightarrow> PortForward \<Rightarrow> string \<Rightarrow> string \<Rightarrow> PodFetchError + EnvoyConfig" where
  "forwarded_config marshal fingerprint pf snapshotID observedAt =
     (case pf_ports pf of
        Inl e \<Rightarrow> Inl (PortsUnresolved (Some e))
      | Inr [] \<Rightarrow> Inl (PortsUnresolved None)
      | Inr (port # ports) \<Rightarrow>
          (case Fetch (pf_get pf) marshal fingerprint (''http://127.0.0.1:'' @ Itoa port) snapshotID observedAt of
             Inl e \<Rightarrow> Inl (PodFetchFailed e)
           | Inr config \<Rightarrow> Inr config))"

definition fetchPodEnvoyConfig ::
    "(json \<Rightarrow> string) \<Rightarrow> (string \<Rightarrow> string) \<Rightarrow> string \<Rightarrow> PortForward \<Rightarrow> proxyPod \<Rightarrow> string \<Rightarrow> string
     \<Rightarrow> PodFetchError + EnvoyConfig" where
  "fetchPodEnvoyConfig marshal fingerprint restHost pf pod snapshotID observedAt =
     (case pf_transport pf of
        Some e \<Rightarrow> Inl (TransportFailed e)
      | None \<Rightarrow>
     (case url_Parse restHost of
        None \<Rightarrow> Inl HostInvalid
      | Some host \<Rightarrow>
     (case pf_new pf (forward_url host pod) (pod_AdminPort pod) of
        Some e \<Rightarrow> Inl (ForwarderFailed e)
      | None \<Rightarrow>
     (case pf_wait pf of
        Forwarded \<Rightarrow> forwarded_config marshal fingerprint pf snapshotID observedAt
      | ForwardFailed e stderr \<Rightarrow> Inl (PodForwardFailed (pod_key pod) e stderr)
      | ForwardCancelled e \<Rightarrow> Inl (PodForwardCancelled e)
      | ForwardTimedOut \<Rightarrow> Inl (PodForwardTimedOut (pod_key pod))))))"

section \<open>The gateway\<close>

datatype KubeEnvoyError =
    NoEnvoyWorkload
  | NoReadyEnvoyPod
  | PortForwardNotConfigured
  | ConfigDumpUnreadable "PodFetchError option"

text \<open>The cached configuration, while it is fresh and its pod still belongs to the gateway.\<close>

definition cached_config :: "KubeStore \<Rightarrow> string \<Rightarrow> gatewayRuntime \<Rightarrow> GoTime \<Rightarrow> EnvoyConfig option" where
  "cached_config s gatewayID runtime now =
     (case ks_envoyCache s gatewayID of
        None \<Rightarrow> None
      | Some cached \<Rightarrow>
          if time_Before now (ce_ExpiresAt cached)
             \<and> list_ex (\<lambda>pod. ce_PodUID cached = pod_UID pod) (rt_Pods runtime)
          then Some (ce_Config cached) else None)"

text \<open>The first pod that answers, or the last error.\<close>

fun first_config ::
    "(proxyPod \<Rightarrow> PodFetchError + EnvoyConfig) \<Rightarrow> proxyPod list \<Rightarrow> PodFetchError option
     \<Rightarrow> PodFetchError option + proxyPod \<times> EnvoyConfig" where
  "first_config fetch [] lastErr = Inl lastErr"
| "first_config fetch (pod # pods) lastErr =
     (case fetch pod of
        Inl e \<Rightarrow> first_config fetch pods (Some e)
      | Inr config \<Rightarrow> Inr (pod, config))"

definition gateway_config :: "string \<Rightarrow> gatewayRuntime \<Rightarrow> proxyPod \<Rightarrow> EnvoyConfig \<Rightarrow> EnvoyConfig" where
  "gateway_config gatewayID runtime pod config =
     config\<lparr>ec_GatewayID := gatewayID, ec_Controller := rt_Controller runtime,
       ec_Workload := rt_Namespace runtime @ ''/'' @ rt_WorkloadName runtime, ec_SampledPod := pod_key pod,
       ec_ReadyReplicas := int (length (rt_Pods runtime)),
       ec_Proxy := (if ec_Proxy config = [] then pod_Name pod else ec_Proxy config)\<rparr>"

definition cache_config :: "string \<Rightarrow> proxyPod \<Rightarrow> GoTime \<Rightarrow> EnvoyConfig \<Rightarrow> KubeStore \<Rightarrow> KubeStore" where
  "cache_config gatewayID pod fetched config s =
     s\<lparr>ks_envoyCache := (ks_envoyCache s)(gatewayID \<mapsto>
       \<lparr>ce_PodUID = pod_UID pod, ce_ExpiresAt = time_Add fetched (30 * nanos), ce_Config = config\<rparr>)\<rparr>"

text \<open>
  The lookup in the snapshot and the cache holds the read lock and the entry is written under the lock;
  in between, while the pods are asked, the lock is free: \<open>meanwhile\<close> is what the
  other goroutines (rebuilds and other calls) make of the store then.
\<close>

definition store_EnvoyConfig ::
    "(proxyPod \<Rightarrow> string \<Rightarrow> string \<Rightarrow> PodFetchError + EnvoyConfig) \<Rightarrow> GoTime \<Rightarrow> GoTime \<Rightarrow> (KubeStore \<Rightarrow> KubeStore)
     \<Rightarrow> string \<Rightarrow> KubeStore \<Rightarrow> (KubeEnvoyError + EnvoyConfig) \<times> KubeStore" where
  "store_EnvoyConfig fetch now fetched meanwhile gatewayID s =
     (case map_of (snap_runtimes (ks_snapshot s)) gatewayID of
        None \<Rightarrow> (Inl NoEnvoyWorkload, s)
      | Some runtime \<Rightarrow>
          if rt_Pods runtime = [] then (Inl NoReadyEnvoyPod, s)
          else
            (case cached_config s gatewayID runtime now of
               Some config \<Rightarrow> (Inr config, s)
             | None \<Rightarrow>
                 if ks_restHost s = None then (Inl PortForwardNotConfigured, s)
                 else
                   (case first_config
                       (\<lambda>pod. fetch pod (topo_SnapshotID (snap_topology (ks_snapshot s)))
                          (topo_ObservedAt (snap_topology (ks_snapshot s))))
                       (rt_Pods runtime) None of
                      Inl e \<Rightarrow> (Inl (ConfigDumpUnreadable e), meanwhile s)
                    | Inr (pod, config) \<Rightarrow>
                        (let config' = gateway_config gatewayID runtime pod config in
                         (Inr config', cache_config gatewayID pod fetched config' (meanwhile s))))))"

text \<open>The texts of the errors, given those of the pods' errors.\<close>

definition KubeEnvoyError_text :: "(PodFetchError option \<Rightarrow> string) \<Rightarrow> KubeEnvoyError \<Rightarrow> string" where
  "KubeEnvoyError_text pod_text e =
     (case e of
        NoEnvoyWorkload \<Rightarrow> txt_no_envoy_workload
      | NoReadyEnvoyPod \<Rightarrow> txt_no_envoy_pod
      | PortForwardNotConfigured \<Rightarrow> txt_no_port_forward
      | ConfigDumpUnreadable le \<Rightarrow> txt_config_dump_unreadable @ pod_text le)"

end
