(* ===== verification/Kube_Source.thy ===== *)
theory Kube_Source
  imports Kube_Invariants Kube_Envoy_Config Agent_Runner
begin

text \<open>
  The Kubernetes store as the reader of the cluster agent (\<open>internal/source\<close> implemented by
  \<open>internal/kube\<close>), and what its snapshots promise to the federation: the server accepts them.
\<close>

section \<open>The store as a reader\<close>

text \<open>
  What a call meets: the port-forwards of the pods, the texts of their errors, the clock, and the
  other goroutines' steps while the pods are asked.
\<close>

record KubeAmbient =
  ka_fetch :: "CommandContext \<Rightarrow> proxyPod \<Rightarrow> string \<Rightarrow> string \<Rightarrow> PodFetchError + EnvoyConfig"
  ka_pod_text :: "PodFetchError option \<Rightarrow> string"
  ka_now :: GoTime
  ka_fetched :: GoTime
  ka_meanwhile :: "KubeStore \<Rightarrow> KubeStore"

definition kube_Reader :: "KubeAmbient \<Rightarrow> CommandContext \<Rightarrow> KubeStore Reader" where
  "kube_Reader ka ctx =
     \<lparr>rd_Context = store_Context, rd_Topology = store_Topology,
      rd_EnvoyConfig = (\<lambda>gatewayID s. text_of (KubeEnvoyError_text (ka_pod_text ka))
        (store_EnvoyConfig (ka_fetch ka ctx) (ka_now ka) (ka_fetched ka) (ka_meanwhile ka) gatewayID s)),
      rd_Findings = store_Findings,
      rd_Resources = (\<lambda>query s. store_Resources s query)\<rparr>"

section \<open>Shape of a rebuilt snapshot\<close>

abbreviation cluster_of :: "snapshot \<Rightarrow> string" where
  "cluster_of s \<equiv> cl_ID (ctx_Cluster (snap_context s))"

lemma start_snapshot_simps [simp]:
  "cluster_of (start_snapshot s st now) = ks_clusterID s" "snap_nodes (start_snapshot s st now) = []"
  "snap_edges (start_snapshot s st now) = []" "snap_findings (start_snapshot s st now) = []"
  "snap_runtimes (start_snapshot s st now) = []" "snap_probeEntries (start_snapshot s st now) = Map.empty"
  "topo_ProbeEntries (snap_topology (start_snapshot s st now)) = []"
  "sn_ID (ctx_Snapshot (snap_context (start_snapshot s st now))) = ''live-'' @ now"
  by (simp_all add: start_snapshot_def empty_snapshot_def zero_Topology_def)

lemma finish_snapshot_simps [simp]:
  "snap_context (finish_snapshot s now snap) = snap_context snap" "snap_nodes (finish_snapshot s now snap) = snap_nodes snap"
  "snap_edges (finish_snapshot s now snap) = snap_edges snap" "snap_findings (finish_snapshot s now snap) = snap_findings snap"
  "snap_runtimes (finish_snapshot s now snap) = snap_runtimes snap"
  "snap_probeEntries (finish_snapshot s now snap) = snap_probeEntries snap"
  "topo_ProbeEntries (snap_topology (finish_snapshot s now snap)) = topo_ProbeEntries (snap_topology snap)"
  by (simp_all add: finish_snapshot_def)

lemma snap_sorts_finish [simp]: "snap_sorts (finish_snapshot s now snap) = snap_sorts snap"
  by (simp add: snap_sorts_def)

lemma rebuild_Some:
  "rebuild lib now stores s = Some s' \<longleftrightarrow>
     (\<exists>st. given_stores stores = Some st
        \<and> s' = s\<lparr>ks_snapshot := rebuilt_snapshot lib s st (format_rfc3339 (time_UTC now))\<rparr>)"
  by (auto simp: rebuild_def split: option.splits)

lemma rebuilt_cluster:
  "cluster_nodes (ks_clusterID s) (rebuilt_snapshot lib s st now)"
proof -
  have "cluster_nodes (ks_clusterID s) (start_snapshot s st now)" by (simp add: cluster_nodes_def)
  from own_nodes.built [OF this refl refl] show ?thesis by (simp add: rebuilt_snapshot_def Let_def cluster_nodes_def)
qed

lemma phase_cluster:
  assumes "cluster_of snap = ks_clusterID s"
  shows "cluster_of (add_gateways lib s st snap) = ks_clusterID s" "cluster_of (add_runtimes be st snap) = ks_clusterID s"
    "cluster_of (addStandaloneGatewayRuntimes lib deployments pods snap) = ks_clusterID s"
proof -
  have g: "grown snap (add_gateways lib s st snap)" "grown snap (add_runtimes be st snap)"
      "grown snap (addStandaloneGatewayRuntimes lib deployments pods snap)"
    by (rule grown.gateways grown.runtimes grown.standalones, simp_all add: assms)+
  then show "cluster_of (add_gateways lib s st snap) = ks_clusterID s" "cluster_of (add_runtimes be st snap) = ks_clusterID s"
    "cluster_of (addStandaloneGatewayRuntimes lib deployments pods snap) = ks_clusterID s"
    using assms by (simp_all add: grown_def)
qed

section \<open>A sample cluster\<close>

text \<open>
  One Gateway \<open>n/g\<close> of a Higress class with a listener and a ready pod, entered through the service
  \<open>n/e\<close>; one route \<open>n/r\<close> with three backends: a service with an endpoint, a service of another
  namespace without a grant, and a service that does not exist.
\<close>

fun sample_nested :: "uval \<Rightarrow> string list \<Rightarrow> uval" where
  "sample_nested v [] = v"
| "sample_nested v (key # path) = sample_nested (umap_get (as_map v) key) path"

definition sample_selects :: "(string \<times> string) list \<Rightarrow> Selector" where
  "sample_selects wanted l \<longleftrightarrow> list_all (\<lambda>(k, v). l k = Some v) wanted"

definition sample_lib :: KubeLib where
  "sample_lib =
     \<lparr>lib_NestedSlice = (\<lambda>m path. case sample_nested (UMap m) path of UList vs \<Rightarrow> vs | _ \<Rightarrow> []),
      lib_NestedStringSlice = (\<lambda>m path. case sample_nested (UMap m) path of UList vs \<Rightarrow> map sprint vs | _ \<Rightarrow> []),
      lib_NestedString = (\<lambda>m path. case sample_nested (UMap m) path of UString v \<Rightarrow> v | _ \<Rightarrow> []),
      lib_NestedMap = (\<lambda>m path. case sample_nested (UMap m) path of UMap v \<Rightarrow> Inr (Some v) | _ \<Rightarrow> Inr None),
      lib_FromUnstructured = (\<lambda>m. Inl ''unused''),
      lib_AsSelector = (\<lambda>s. case s of None \<Rightarrow> Inr (\<lambda>_. False) | Some ls \<Rightarrow> Inr (sample_selects (ls_MatchLabels ls))),
      lib_SelectorFromSet = sample_selects\<rparr>"

definition sample_object :: "string \<Rightarrow> string \<Rightarrow> (string \<times> uval) list \<Rightarrow> Unstructured" where
  "sample_object namespace name spec =
     \<lparr>un_Name = name, un_Namespace = namespace, un_APIVersion = ''v1'', un_Kind = ''K'', un_Object = [(''spec'', UMap spec)]\<rparr>"

definition sample_service :: "string \<Rightarrow> string \<Rightarrow> (string \<times> string) list \<Rightarrow> Service" where
  "sample_service namespace name selector =
     \<lparr>sv_Name = name, sv_Namespace = namespace, sv_Type = ''ClusterIP'', sv_ExternalName = [], sv_Selector = selector,
      sv_ClusterIP = ''10.0.0.1'', sv_ClusterIPs = [], sv_ExternalIPs = [],
      sv_Ports = [\<lparr>sp_Name = ''http'', sp_Protocol = ''TCP'', sp_AppProtocol = None, sp_Port = 80\<rparr>],
      sv_LoadBalancer = []\<rparr>"

definition sample_ref :: "string \<Rightarrow> string \<Rightarrow> uval" where
  "sample_ref namespace name = UMap [(''namespace'', UString namespace), (''name'', UString name)]"

definition sample_kube_gateway :: Unstructured where
  "sample_kube_gateway = sample_object ''n'' ''g''
     [(''gatewayClassName'', UString ''c''), (''listeners'', UList [UMap [(''name'', UString ''l'')]])]"

definition sample_route :: Unstructured where
  "sample_route = sample_object ''n'' ''r''
     [(''parentRefs'', UList [sample_ref ''n'' ''g'']),
      (''rules'', UList [UMap [(''backendRefs'', UList [sample_ref ''n'' ''a'', sample_ref ''m'' ''b'', sample_ref ''n'' ''z''])]])]"

definition sample_kube_pod :: Pod where
  "sample_kube_pod =
     \<lparr>pd_Name = ''g-1'', pd_Namespace = ''n'', pd_UID = ''u'', pd_Labels = [''app'' \<mapsto> ''g''], pd_Deleting = False,
      pd_Containers = [\<lparr>ct_Name = ''higress-gateway'', ct_Image = ''i'', ct_Ports = []\<rparr>],
      pd_Phase = ''Running'', pd_Conditions = [(''Ready'', ''True'')]\<rparr>"

definition sample_slice :: EndpointSlice where
  "sample_slice =
     \<lparr>es_Name = ''s'', es_Namespace = ''n'', es_Labels = [service_label \<mapsto> ''a''],
      es_Endpoints = [\<lparr>ep_Addresses = [''10.1.1.1''], ep_Ready = None, ep_Serving = None, ep_Terminating = None,
        ep_Hostname = None, ep_TargetRef = None, ep_NodeName = None\<rparr>], es_Ports = []\<rparr>"

definition sample_stores :: "store list" where
  "sample_stores =
     [[KService (sample_service ''n'' ''e'' [(''app'', ''g'')]), KService (sample_service ''n'' ''a'' []),
       KService (sample_service ''m'' ''b'' [])],
      [KEndpointSlice sample_slice], [KNamespace ''n''], [KUnstructured sample_kube_gateway], [KUnstructured sample_route], [],
      [], [], [KUnstructured (sample_object [] ''c'' [(''controllerName'', UString ''higress'')])],
      [], [KPod sample_kube_pod]]"

definition sample_kube :: KubeStore where "sample_kube = New ''c1'' ''http://h''"

definition sample_rebuilt :: KubeStore where
  "sample_rebuilt = (case rebuild sample_lib zero_time sample_stores sample_kube of None \<Rightarrow> sample_kube | Some s \<Rightarrow> s)"

lemma sample_rebuilds: "rebuild sample_lib zero_time sample_stores sample_kube = Some sample_rebuilt"
  by (simp add: sample_rebuilt_def rebuild_def given_stores_def sample_stores_def)

section \<open>Snapshots are accepted\<close>

lemma kube_payload_nodes:
  assumes "rebuild lib now stores s = Some s'" "ks_clusterID s = c"
  shows "list_all (\<lambda>n. node_ClusterID n = c)
    (topo_Nodes (as_Topology (snapshot_payload config sent (kube_Reader ka ctx) s')))"
    and "cl_ID (ctx_Cluster (as_Context (snapshot_payload config sent (kube_Reader ka ctx) s'))) = c"
  using assms rebuilt_cluster [of s lib]
  by (auto simp: rebuild_Some snapshot_payload_def Let_def kube_Reader_def store_Topology_def store_Context_def
      cluster_nodes_def)

lemma own_unchanged: "list_all (\<lambda>n. node_ClusterID n = c) ns \<Longrightarrow> map (\<lambda>n. n\<lparr>node_ClusterID := c\<rparr>) ns = ns"
  by (induction ns) auto

lemma kube_snapshot_filed:
  assumes "rebuild lib now stores s = Some s'"
    and "cfg_ClusterID config = ks_clusterID s" "TrimSpace (ks_clusterID s) = ks_clusterID s" "ks_clusterID s \<noteq> []"
  shows "\<exists>filed. ReceiveSnapshot t received (snapshot_payload config sent (kube_Reader ka ctx) s') hub =
      (Inr (), hub\<lparr>st_snapshots := AList.update (ks_clusterID s) filed (st_snapshots hub)\<rparr>)
    \<and> topo_Nodes (as_Topology (rs_payload filed)) = topo_Nodes (store_Topology s')
    \<and> topo_Edges (as_Topology (rs_payload filed)) = topo_Edges (store_Topology s')
    \<and> topo_ProbeEntries (as_Topology (rs_payload filed)) = topo_ProbeEntries (store_Topology s')
    \<and> as_Findings (rs_payload filed) = store_Findings s'"
proof -
  let ?payload = "snapshot_payload config sent (kube_Reader ka ctx) s'" and ?c = "ks_clusterID s"
  note nodes = kube_payload_nodes [OF assms(1) refl]
  have topology: "as_Topology ?payload = store_Topology s'" "as_Findings ?payload = store_Findings s'"
    and cluster: "payload_cluster ?payload = ?c"
    by (simp_all add: snapshot_payload_def Let_def kube_Reader_def payload_cluster_def assms(2-4))
  have "receive_nodes ?c (topo_Nodes (as_Topology ?payload)) = Inr (topo_Nodes (as_Topology ?payload))"
    using nodes(1) by (auto simp: receive_nodes_Inr own_unchanged list_all_iff)
  then have "receive_payload t ?payload = Inr (?c, accept_payload t ?c (topo_Nodes (as_Topology ?payload)) ?payload)"
    by (simp add: receive_payload_def cluster nodes(2) assms(4) Let_def)
  then show ?thesis
    by (intro exI [of _ "\<lparr>rs_payload = accept_payload t ?c (topo_Nodes (as_Topology ?payload)) ?payload,
        rs_receivedAt = received\<rparr>"])
      (auto simp: ReceiveSnapshot_def topology accept_payload_def Let_def)
qed

text \<open>
  C17: what the agent uploads from the Kubernetes store is accepted by the server: after any
  rebuild, and if the agent's cluster identity is the store's, not empty and without white
  space around it, \<open>ReceiveSnapshot\<close> files the snapshot under that identity, with exactly the
  nodes and edges of the rebuild.
\<close>

theorem kube_snapshot_accepted:
  assumes "rebuild lib now stores s = Some s'"
    and "cfg_ClusterID config = ks_clusterID s" "TrimSpace (ks_clusterID s) = ks_clusterID s" "ks_clusterID s \<noteq> []"
  shows "let (result, hub') = ReceiveSnapshot t received (snapshot_payload config sent (kube_Reader ka ctx) s') hub in
    result = Inr () \<and> (\<exists>filed. map_of (st_snapshots hub') (ks_clusterID s) = Some filed
      \<and> topo_Nodes (as_Topology (rs_payload filed)) = topo_Nodes (store_Topology s')
      \<and> topo_Edges (as_Topology (rs_payload filed)) = topo_Edges (store_Topology s')
      \<and> as_Findings (rs_payload filed) = store_Findings s')"
  using kube_snapshot_filed [OF assms, of t received sent ka ctx hub] by (auto simp: update_conv')

definition sample_agent :: AgentConfig where
  "sample_agent = \<lparr>cfg_ServerURL = ''http://s'', cfg_Token = [], cfg_ClusterID = ''c1'', cfg_ClusterName = [], cfg_Interval = 0\<rparr>"

lemma kube_snapshot_accepted_witness:
  "\<forall>ka. fst (ReceiveSnapshot zero_time zero_time
     (snapshot_payload sample_agent zero_time (kube_Reader ka CtxInherited) sample_rebuilt) (NewStore ''h'' 0)) = Inr ()"
proof
  fix ka
  have "cfg_ClusterID sample_agent = ks_clusterID sample_kube" "TrimSpace (ks_clusterID sample_kube) = ks_clusterID sample_kube"
    "ks_clusterID sample_kube \<noteq> []"
    by code_simp+
  from kube_snapshot_accepted [OF sample_rebuilds this,
      of zero_time zero_time zero_time ka CtxInherited "NewStore ''h'' 0"]
  show "fst (ReceiveSnapshot zero_time zero_time
     (snapshot_payload sample_agent zero_time (kube_Reader ka CtxInherited) sample_rebuilt) (NewStore ''h'' 0)) = Inr ()"
    by (simp add: split_beta)
qed

end
