(* ===== verification/Access_Log_Entry.thy ===== *)
theory Access_Log_Entry
  imports Go_Json Attempt_Groups
begin

text \<open>
  The decoding of one access-log record of \<open>internal/observed/higress_log.go\<close>: the struct
  \<open>higressAccessLog\<close>, its two field types that accept several JSON forms
  (\<open>accessLogScalar\<close>, \<open>accessLogBool\<close>), and \<open>json.Unmarshal\<close> into the struct: members are
  matched to fields by name, exactly or else without regard to case; of members with the same
  field the last counts; null leaves a string alone; a member of the wrong type makes the whole
  decoding fail. A \<open>RawMessage\<close> is the value it holds, None when the member is absent.
\<close>

section \<open>The record\<close>

type_synonym accessLogScalar = string
type_synonym accessLogBool = bool

record higressAccessLog =
  log_AILog :: string
  log_Authority :: string
  log_DownstreamRemoteAddress :: string
  log_DownstreamLocalAddress :: string
  log_Duration :: accessLogScalar
  log_Method :: string
  log_Path :: string
  log_Protocol :: string
  log_GateLensProbeID :: string
  log_ResponseCode :: accessLogScalar
  log_ResponseCodeDetails :: string
  log_ResponseFlags :: string
  log_RouteName :: string
  log_StartTime :: string
  log_TraceID :: string
  log_UpstreamCluster :: string
  log_UpstreamHost :: string
  log_UpstreamLocalAddress :: string
  log_UpstreamServiceTime :: accessLogScalar
  log_UpstreamTransportFailure :: string
  log_ExtProc :: "json option"
  log_ExtProcProcessor :: string
  log_ExtProcRuleID :: string
  log_ExtProcSelectedPool :: string
  log_ExtProcSelectedEndpoint :: string
  log_ExtProcReasonCode :: string
  log_ExtProcHeaderCalls :: accessLogScalar
  log_ExtProcBodyCalls :: accessLogScalar
  log_ExtProcResponseHeaderCalls :: accessLogScalar
  log_ExtProcResponseBodyCalls :: accessLogScalar
  log_ExtProcHeaderLatencyUS :: accessLogScalar
  log_ExtProcBodyLatencyUS :: accessLogScalar
  log_ExtProcHeaderCallStatus :: accessLogScalar
  log_ExtProcBodyTotalLatencyUS :: accessLogScalar
  log_ExtProcBodyLastCallStatus :: accessLogScalar
  log_ExtProcResponseHeaderLatencyUS :: accessLogScalar
  log_ExtProcResponseBodyLatencyUS :: accessLogScalar
  log_ExtProcResponseHeaderCallStatus :: accessLogScalar
  log_ExtProcResponseBodyTotalLatencyUS :: accessLogScalar
  log_ExtProcResponseBodyLastCallStatus :: accessLogScalar
  log_ExtProcGRPCStatus :: string
  log_ExtProcFailureModeAllowed :: accessLogBool
  log_ExtProcFailedOpen :: accessLogBool
  log_ExtProcMessageTimeout :: accessLogBool
  log_ExtProcHTTPError :: accessLogBool
  log_ExtProcReceivedImmediateResponse :: accessLogBool
  log_ExtProcGRPCStatusBeforeFirstCall :: accessLogScalar

definition zero_higressAccessLog :: higressAccessLog where
  "zero_higressAccessLog = \<lparr>log_AILog = [],
     log_Authority = [],
     log_DownstreamRemoteAddress = [],
     log_DownstreamLocalAddress = [],
     log_Duration = [],
     log_Method = [],
     log_Path = [],
     log_Protocol = [],
     log_GateLensProbeID = [],
     log_ResponseCode = [],
     log_ResponseCodeDetails = [],
     log_ResponseFlags = [],
     log_RouteName = [],
     log_StartTime = [],
     log_TraceID = [],
     log_UpstreamCluster = [],
     log_UpstreamHost = [],
     log_UpstreamLocalAddress = [],
     log_UpstreamServiceTime = [],
     log_UpstreamTransportFailure = [],
     log_ExtProc = None,
     log_ExtProcProcessor = [],
     log_ExtProcRuleID = [],
     log_ExtProcSelectedPool = [],
     log_ExtProcSelectedEndpoint = [],
     log_ExtProcReasonCode = [],
     log_ExtProcHeaderCalls = [],
     log_ExtProcBodyCalls = [],
     log_ExtProcResponseHeaderCalls = [],
     log_ExtProcResponseBodyCalls = [],
     log_ExtProcHeaderLatencyUS = [],
     log_ExtProcBodyLatencyUS = [],
     log_ExtProcHeaderCallStatus = [],
     log_ExtProcBodyTotalLatencyUS = [],
     log_ExtProcBodyLastCallStatus = [],
     log_ExtProcResponseHeaderLatencyUS = [],
     log_ExtProcResponseBodyLatencyUS = [],
     log_ExtProcResponseHeaderCallStatus = [],
     log_ExtProcResponseBodyTotalLatencyUS = [],
     log_ExtProcResponseBodyLastCallStatus = [],
     log_ExtProcGRPCStatus = [],
     log_ExtProcFailureModeAllowed = False,
     log_ExtProcFailedOpen = False,
     log_ExtProcMessageTimeout = False,
     log_ExtProcHTTPError = False,
     log_ExtProcReceivedImmediateResponse = False,
     log_ExtProcGRPCStatusBeforeFirstCall = []\<rparr>"

section \<open>Field types\<close>

text \<open>\<open>UnmarshalJSON\<close> of the two types: a quoted or plain number, a quoted or plain boolean.\<close>

fun scalar_UnmarshalJSON :: "json \<Rightarrow> accessLogScalar option" where
  "scalar_UnmarshalJSON (JStr text) = Some text"
| "scalar_UnmarshalJSON JNull = Some []"
| "scalar_UnmarshalJSON (JNum number) = Some number"
| "scalar_UnmarshalJSON data = None"

fun bool_UnmarshalJSON :: "json \<Rightarrow> accessLogBool option" where
  "bool_UnmarshalJSON (JBool boolean) = Some boolean"
| "bool_UnmarshalJSON JNull = Some False"
| "bool_UnmarshalJSON (JStr text) =
     Some (EqualFold (TrimSpace text) ''true'' \<or> TrimSpace text = ''1'')"
| "bool_UnmarshalJSON data = None"

fun string_field :: "((string \<Rightarrow> string) \<Rightarrow> 'e \<Rightarrow> 'e) \<Rightarrow> json \<Rightarrow> 'e \<Rightarrow> 'e option" where
  "string_field upd (JStr text) e = Some (upd (\<lambda>_. text) e)"
| "string_field upd JNull e = Some e"
| "string_field upd data e = None"

definition scalar_field :: "((string \<Rightarrow> string) \<Rightarrow> 'e \<Rightarrow> 'e) \<Rightarrow> json \<Rightarrow> 'e \<Rightarrow> 'e option" where
  "scalar_field upd data e = map_option (\<lambda>v. upd (\<lambda>_. v) e) (scalar_UnmarshalJSON data)"

definition bool_field :: "((bool \<Rightarrow> bool) \<Rightarrow> 'e \<Rightarrow> 'e) \<Rightarrow> json \<Rightarrow> 'e \<Rightarrow> 'e option" where
  "bool_field upd data e = map_option (\<lambda>v. upd (\<lambda>_. v) e) (bool_UnmarshalJSON data)"

definition raw_field :: "((json option \<Rightarrow> json option) \<Rightarrow> 'e \<Rightarrow> 'e) \<Rightarrow> json \<Rightarrow> 'e \<Rightarrow> 'e option" where
  "raw_field upd data e = Some (upd (\<lambda>_. Some data) e)"

definition log_fields :: "(string \<times> (json \<Rightarrow> higressAccessLog \<Rightarrow> higressAccessLog option)) list" where
  "log_fields =
    [(''ai_log'', string_field log_AILog_update),
     (''authority'', string_field log_Authority_update),
     (''downstream_remote_address'', string_field log_DownstreamRemoteAddress_update),
     (''downstream_local_address'', string_field log_DownstreamLocalAddress_update),
     (''duration'', scalar_field log_Duration_update),
     (''method'', string_field log_Method_update),
     (''path'', string_field log_Path_update),
     (''protocol'', string_field log_Protocol_update),
     (''gatelens_probe_id'', string_field log_GateLensProbeID_update),
     (''response_code'', scalar_field log_ResponseCode_update),
     (''response_code_details'', string_field log_ResponseCodeDetails_update),
     (''response_flags'', string_field log_ResponseFlags_update),
     (''route_name'', string_field log_RouteName_update),
     (''start_time'', string_field log_StartTime_update),
     (''trace_id'', string_field log_TraceID_update),
     (''upstream_cluster'', string_field log_UpstreamCluster_update),
     (''upstream_host'', string_field log_UpstreamHost_update),
     (''upstream_local_address'', string_field log_UpstreamLocalAddress_update),
     (''upstream_service_time'', scalar_field log_UpstreamServiceTime_update),
     (''upstream_transport_failure_reason'', string_field log_UpstreamTransportFailure_update),
     (''ext_proc'', raw_field log_ExtProc_update),
     (''ext_proc_processor'', string_field log_ExtProcProcessor_update),
     (''ext_proc_rule_id'', string_field log_ExtProcRuleID_update),
     (''ext_proc_selected_pool'', string_field log_ExtProcSelectedPool_update),
     (''ext_proc_selected_endpoint'', string_field log_ExtProcSelectedEndpoint_update),
     (''ext_proc_reason_code'', string_field log_ExtProcReasonCode_update),
     (''ext_proc_request_header_call_count'', scalar_field log_ExtProcHeaderCalls_update),
     (''ext_proc_request_body_call_count'', scalar_field log_ExtProcBodyCalls_update),
     (''ext_proc_response_header_call_count'', scalar_field log_ExtProcResponseHeaderCalls_update),
     (''ext_proc_response_body_call_count'', scalar_field log_ExtProcResponseBodyCalls_update),
     (''ext_proc_request_header_latency_us'', scalar_field log_ExtProcHeaderLatencyUS_update),
     (''ext_proc_request_body_latency_us'', scalar_field log_ExtProcBodyLatencyUS_update),
     (''ext_proc_request_header_call_status'', scalar_field log_ExtProcHeaderCallStatus_update),
     (''ext_proc_request_body_total_latency_us'', scalar_field log_ExtProcBodyTotalLatencyUS_update),
     (''ext_proc_request_body_last_call_status'', scalar_field log_ExtProcBodyLastCallStatus_update),
     (''ext_proc_response_header_latency_us'', scalar_field log_ExtProcResponseHeaderLatencyUS_update),
     (''ext_proc_response_body_latency_us'', scalar_field log_ExtProcResponseBodyLatencyUS_update),
     (''ext_proc_response_header_call_status'', scalar_field log_ExtProcResponseHeaderCallStatus_update),
     (''ext_proc_response_body_total_latency_us'', scalar_field log_ExtProcResponseBodyTotalLatencyUS_update),
     (''ext_proc_response_body_last_call_status'', scalar_field log_ExtProcResponseBodyLastCallStatus_update),
     (''ext_proc_grpc_status'', string_field log_ExtProcGRPCStatus_update),
     (''ext_proc_failure_mode_allowed'', bool_field log_ExtProcFailureModeAllowed_update),
     (''ext_proc_failed_open'', bool_field log_ExtProcFailedOpen_update),
     (''ext_proc_message_timeout'', bool_field log_ExtProcMessageTimeout_update),
     (''ext_proc_http_not_ok_resp_received'', bool_field log_ExtProcHTTPError_update),
     (''ext_proc_received_immediate_response'', bool_field log_ExtProcReceivedImmediateResponse_update),
     (''ext_proc_grpc_status_before_first_call'', scalar_field log_ExtProcGRPCStatusBeforeFirstCall_update)]"

section \<open>Decoding into the struct\<close>

text \<open>\<open>find_field\<close>: the field of a member; members without one are skipped.\<close>

definition find_field :: "string \<Rightarrow> (string \<times> 'f) list \<Rightarrow> 'f option" where
  "find_field key table =
     (case map_of table key of
        Some f \<Rightarrow> Some f
      | None \<Rightarrow> map_option snd (find (\<lambda>f. fold_name (fst f) = fold_name key) table))"

fun decode_struct :: "(string \<times> (json \<Rightarrow> 'e \<Rightarrow> 'e option)) list \<Rightarrow> (string \<times> json) list \<Rightarrow> 'e \<Rightarrow> 'e option" where
  "decode_struct table [] e = Some e"
| "decode_struct table ((key, data) # members) e =
     Option.bind (case find_field key table of None \<Rightarrow> Some e | Some f \<Rightarrow> f data e)
       (decode_struct table members)"

definition decode_entry :: "json \<Rightarrow> higressAccessLog option" where
  "decode_entry data =
     (case data of
        JObj members \<Rightarrow> decode_struct log_fields members zero_higressAccessLog
      | JNull \<Rightarrow> Some zero_higressAccessLog
      | _ \<Rightarrow> None)"

text \<open>\<open>map[string]json.RawMessage\<close>.\<close>

definition raw_fields :: "json \<Rightarrow> (string \<times> json) list" where
  "raw_fields data = (case data of JObj members \<Rightarrow> json_map members | _ \<Rightarrow> [])"

text \<open>A successful decoding ignores the members that name no field.\<close>

lemma decode_struct_skips:
  "decode_struct table members e =
     decode_struct table (filter (\<lambda>m. find_field (fst m) table \<noteq> None) members) e"
  by (induction table members e rule: decode_struct.induct) (auto split: option.split bind_splits)

lemma decode_struct_append:
  "decode_struct table (ms @ ns) e = Option.bind (decode_struct table ms e) (decode_struct table ns)"
  by (induction table ms e rule: decode_struct.induct) (auto split: option.split bind_splits)

end
