(* ===== verification/Access_Log.thy ===== *)
theory Access_Log
  imports Access_Log_Entry Go_Time
begin

text \<open>
  \<open>internal/observed/higress_log.go\<close>: one access-log line becomes an observed hop if it is
  a JSON object that belongs to the probe; its \<open>ext_proc\<close> telemetry is read from structured
  objects, from objects encoded as strings and from flat fields. The clock reading that
  replaces a missing start time is an argument.
\<close>

section \<open>Scalars\<close>

definition integer :: "string \<Rightarrow> int" where
  "integer value = ParseInt64 (TrimSpace value)"

definition integer64 :: "string \<Rightarrow> int" where
  "integer64 value = ParseInt64 (TrimSpace value)"

definition redactQuery :: "string \<Rightarrow> string" where
  "redactQuery path = (case Cut path ''?'' of None \<Rightarrow> path | Some (before, after) \<Rightarrow> before)"

text \<open>
  The values of a \<open>map[string]any\<close>: a number is a \<open>float64\<close>, and a number out of its
  range is nil.
\<close>

definition scalarText :: "json \<Rightarrow> string" where
  "scalarText value =
     (case value of
        JStr typed \<Rightarrow> TrimSpace typed
      | JNum typed \<Rightarrow> (case int64_of_float typed of None \<Rightarrow> [] | Some i \<Rightarrow> Itoa i)
      | JBool typed \<Rightarrow> (if typed then ''true'' else ''false'')
      | _ \<Rightarrow> [])"

definition scalarInt64 :: "json \<Rightarrow> int" where
  "scalarInt64 value = ParseInt64 (scalarText value)"

definition scalarBool :: "json \<Rightarrow> bool option" where
  "scalarBool value =
     (case value of
        JBool typed \<Rightarrow> Some typed
      | JStr typed \<Rightarrow> Some (EqualFold (TrimSpace typed) ''true'' \<or> TrimSpace typed = ''1'')
      | _ \<Rightarrow> None)"

section \<open>Structured telemetry\<close>

text \<open>
  The object itself, or an object encoded as a string. Decoding the object fails on a number
  that \<open>float64\<close> cannot hold; decoding the string keeps what it has read by then.
\<close>

definition structured_values :: "json option \<Rightarrow> (string \<times> json) list" where
  "structured_values raw =
     (case raw of
        Some (JObj members) \<Rightarrow> (if floats_ok (JObj members) then json_map members else [])
      | Some (JStr encoded) \<Rightarrow>
          (case json_parse encoded of Some (JObj members) \<Rightarrow> json_map members | _ \<Rightarrow> [])
      | _ \<Rightarrow> [])"

text \<open>The readers take the first key whose value is usable.\<close>

fun getString :: "(string \<times> json) list \<Rightarrow> string list \<Rightarrow> string" where
  "getString vals [] = []"
| "getString vals (key # keys) =
     (case map_of vals key of
        None \<Rightarrow> getString vals keys
      | Some value \<Rightarrow> if scalarText value \<noteq> [] then scalarText value else getString vals keys)"

fun getInt :: "(string \<times> json) list \<Rightarrow> string list \<Rightarrow> int" where
  "getInt vals [] = 0"
| "getInt vals (key # keys) =
     (case map_of vals key of
        None \<Rightarrow> getInt vals keys
      | Some value \<Rightarrow> if scalarInt64 value \<noteq> 0 then scalarInt64 value else getInt vals keys)"

fun getIntValue :: "(string \<times> json) list \<Rightarrow> string list \<Rightarrow> int option" where
  "getIntValue vals [] = None"
| "getIntValue vals (key # keys) =
     (case map_of vals key of
        None \<Rightarrow> getIntValue vals keys
      | Some value \<Rightarrow> Some (scalarInt64 value))"

fun getBool :: "(string \<times> json) list \<Rightarrow> string list \<Rightarrow> bool" where
  "getBool vals [] = False"
| "getBool vals (key # keys) =
     (case map_of vals key of
        None \<Rightarrow> getBool vals keys
      | Some value \<Rightarrow>
          (case scalarBool value of None \<Rightarrow> getBool vals keys | Some b \<Rightarrow> b))"

definition structured_observation :: "(string \<times> json) list \<Rightarrow> ExtProcObservation" where
  "structured_observation vals = zero_ExtProcObservation\<lparr>
     xp_Processor := getString vals [''processor'', ''ext_proc_processor''],
     xp_RuleID := getString vals [''rule_id'', ''ruleID'', ''ext_proc_rule_id''],
     xp_SelectedPool := getString vals [''selected_pool'', ''selectedPool'', ''ext_proc_selected_pool''],
     xp_SelectedEndpoint :=
       getString vals [''selected_endpoint'', ''selectedEndpoint'', ''ext_proc_selected_endpoint''],
     xp_ReasonCode := getString vals [''reason_code'', ''reasonCode'', ''ext_proc_reason_code''],
     xp_RequestHeaderCalls := getInt vals [''request_header_call_count'', ''requestHeaderCallCount''],
     xp_RequestBodyCalls := getInt vals [''request_body_call_count'', ''requestBodyCallCount''],
     xp_ResponseHeaderCalls := getInt vals [''response_header_call_count'', ''responseHeaderCallCount''],
     xp_ResponseBodyCalls := getInt vals [''response_body_call_count'', ''responseBodyCallCount''],
     xp_RequestHeaderLatencyUS := getInt vals [''request_header_latency_us'', ''requestHeaderLatencyUs''],
     xp_RequestBodyLatencyUS := getInt vals [''request_body_total_latency_us'', ''requestBodyTotalLatencyUs'',
       ''request_body_latency_us'', ''requestBodyLatencyUs''],
     xp_ResponseHeaderLatencyUS := getInt vals [''response_header_latency_us'', ''responseHeaderLatencyUs''],
     xp_ResponseBodyLatencyUS := getInt vals [''response_body_total_latency_us'', ''responseBodyTotalLatencyUs'',
       ''response_body_latency_us'', ''responseBodyLatencyUs''],
     xp_GRPCStatus := getString vals [''grpc_status'', ''grpcStatus'', ''status''],
     xp_FailureModeAllowed := getBool vals [''failure_mode_allowed'', ''failureModeAllowed''],
     xp_FailedOpen := getBool vals [''failed_open'', ''failedOpen''],
     xp_MessageTimeout := getBool vals [''message_timeout'', ''messageTimeout''],
     xp_HTTPError := getBool vals [''http_not_ok_resp_received'', ''httpNotOkRespReceived'', ''http_error''],
     xp_ReceivedImmediateResponse :=
       getBool vals [''received_immediate_response'', ''receivedImmediateResponse'']\<rparr>"

text \<open>The statuses of the calls to the processor, where they were logged.\<close>

record callStatuses =
  cs_RequestHeader :: "int option"
  cs_RequestBody :: "int option"
  cs_ResponseHeader :: "int option"
  cs_ResponseBody :: "int option"
  cs_GRPCBeforeFirstCall :: "int option"

definition structured_statuses :: "(string \<times> json) list \<Rightarrow> callStatuses" where
  "structured_statuses vals =
     \<lparr>cs_RequestHeader = getIntValue vals [''request_header_call_status'', ''requestHeaderCallStatus''],
      cs_RequestBody = getIntValue vals [''request_body_last_call_status'', ''requestBodyLastCallStatus''],
      cs_ResponseHeader = getIntValue vals [''response_header_call_status'', ''responseHeaderCallStatus''],
      cs_ResponseBody = getIntValue vals [''response_body_last_call_status'', ''responseBodyLastCallStatus''],
      cs_GRPCBeforeFirstCall =
        getIntValue vals [''grpc_status_before_first_call'', ''grpcStatusBeforeFirstCall'']\<rparr>"

section \<open>Flat telemetry\<close>

definition or_text :: "string \<Rightarrow> string \<Rightarrow> string" where
  "or_text text other = (if text = [] then other else text)"

definition or_int :: "int \<Rightarrow> int \<Rightarrow> int" where
  "or_int number other = (if number = 0 then other else number)"

text \<open>A header call that has a latency or a status took place.\<close>

definition implied_header_calls :: "callStatuses \<Rightarrow> ExtProcObservation \<Rightarrow> ExtProcObservation" where
  "implied_header_calls statuses observation = observation\<lparr>
     xp_RequestHeaderCalls :=
       (if xp_RequestHeaderCalls observation = 0
           \<and> (xp_RequestHeaderLatencyUS observation > 0 \<or> cs_RequestHeader statuses \<noteq> None)
        then 1 else xp_RequestHeaderCalls observation),
     xp_ResponseHeaderCalls :=
       (if xp_ResponseHeaderCalls observation = 0
           \<and> (xp_ResponseHeaderLatencyUS observation > 0 \<or> cs_ResponseHeader statuses \<noteq> None)
        then 1 else xp_ResponseHeaderCalls observation)\<rparr>"

definition flat_observation ::
    "higressAccessLog \<Rightarrow> string \<Rightarrow> ExtProcObservation \<Rightarrow> ExtProcObservation" where
  "flat_observation entry processorHint observation = observation\<lparr>
     xp_Processor := or_text (or_text (xp_Processor observation)
       (TrimSpace (log_ExtProcProcessor entry))) processorHint,
     xp_RuleID := or_text (xp_RuleID observation) (TrimSpace (log_ExtProcRuleID entry)),
     xp_SelectedPool := or_text (xp_SelectedPool observation) (TrimSpace (log_ExtProcSelectedPool entry)),
     xp_SelectedEndpoint :=
       or_text (xp_SelectedEndpoint observation) (TrimSpace (log_ExtProcSelectedEndpoint entry)),
     xp_ReasonCode := or_text (xp_ReasonCode observation) (TrimSpace (log_ExtProcReasonCode entry)),
     xp_RequestHeaderCalls := or_int (xp_RequestHeaderCalls observation) (integer (log_ExtProcHeaderCalls entry)),
     xp_RequestBodyCalls := or_int (xp_RequestBodyCalls observation) (integer (log_ExtProcBodyCalls entry)),
     xp_ResponseHeaderCalls :=
       or_int (xp_ResponseHeaderCalls observation) (integer (log_ExtProcResponseHeaderCalls entry)),
     xp_ResponseBodyCalls :=
       or_int (xp_ResponseBodyCalls observation) (integer (log_ExtProcResponseBodyCalls entry)),
     xp_RequestHeaderLatencyUS :=
       or_int (xp_RequestHeaderLatencyUS observation) (integer64 (log_ExtProcHeaderLatencyUS entry)),
     xp_RequestBodyLatencyUS := or_int (xp_RequestBodyLatencyUS observation)
       (or_int (integer64 (log_ExtProcBodyTotalLatencyUS entry)) (integer64 (log_ExtProcBodyLatencyUS entry))),
     xp_ResponseHeaderLatencyUS :=
       or_int (xp_ResponseHeaderLatencyUS observation) (integer64 (log_ExtProcResponseHeaderLatencyUS entry)),
     xp_ResponseBodyLatencyUS := or_int (xp_ResponseBodyLatencyUS observation)
       (or_int (integer64 (log_ExtProcResponseBodyTotalLatencyUS entry))
         (integer64 (log_ExtProcResponseBodyLatencyUS entry)))\<rparr>"

definition or_status :: "int option \<Rightarrow> accessLogScalar \<Rightarrow> int option" where
  "or_status status logged = (if status = None \<and> logged \<noteq> [] then Some (integer64 logged) else status)"

definition flat_statuses :: "higressAccessLog \<Rightarrow> callStatuses \<Rightarrow> callStatuses" where
  "flat_statuses entry statuses =
     \<lparr>cs_RequestHeader = or_status (cs_RequestHeader statuses) (log_ExtProcHeaderCallStatus entry),
      cs_RequestBody = or_status (cs_RequestBody statuses) (log_ExtProcBodyLastCallStatus entry),
      cs_ResponseHeader = or_status (cs_ResponseHeader statuses) (log_ExtProcResponseHeaderCallStatus entry),
      cs_ResponseBody = or_status (cs_ResponseBody statuses) (log_ExtProcResponseBodyLastCallStatus entry),
      cs_GRPCBeforeFirstCall =
        or_status (cs_GRPCBeforeFirstCall statuses) (log_ExtProcGRPCStatusBeforeFirstCall entry)\<rparr>"

section \<open>The gRPC status and the flags\<close>

text \<open>
  Without a logged gRPC status the first call status that is not 0 counts, or else the 0 of
  some call; the loop stops there. A status 4 (deadline exceeded) is a message timeout.
\<close>

fun status_loop :: "int option list \<Rightarrow> string \<times> bool \<Rightarrow> string \<times> bool" where
  "status_loop [] acc = acc"
| "status_loop (None # statuses) acc = status_loop statuses acc"
| "status_loop (Some value # statuses) (grpcStatus, timeout) =
     (let acc = (if grpcStatus = [] \<or> value \<noteq> 0 then Itoa value else grpcStatus, timeout \<or> value = 4) in
      if value \<noteq> 0 then acc else status_loop statuses acc)"

definition status_list :: "callStatuses \<Rightarrow> int option list" where
  "status_list statuses =
     [cs_RequestHeader statuses, cs_RequestBody statuses, cs_ResponseHeader statuses, cs_ResponseBody statuses,
      (if cs_GRPCBeforeFirstCall statuses = Some 0 then None else cs_GRPCBeforeFirstCall statuses)]"

definition grpc_observation ::
    "higressAccessLog \<Rightarrow> callStatuses \<Rightarrow> ExtProcObservation \<Rightarrow> ExtProcObservation" where
  "grpc_observation entry statuses observation =
     (let grpcStatus = or_text (xp_GRPCStatus observation) (TrimSpace (log_ExtProcGRPCStatus entry)) in
      if grpcStatus = [] then
        (case status_loop (status_list statuses) ([], xp_MessageTimeout observation) of
           (status, timeout) \<Rightarrow> observation\<lparr>xp_GRPCStatus := status, xp_MessageTimeout := timeout\<rparr>)
      else observation\<lparr>xp_GRPCStatus := grpcStatus\<rparr>)"

definition flag_observation :: "higressAccessLog \<Rightarrow> ExtProcObservation \<Rightarrow> ExtProcObservation" where
  "flag_observation entry observation = observation\<lparr>
     xp_FailureModeAllowed := xp_FailureModeAllowed observation \<or> log_ExtProcFailureModeAllowed entry,
     xp_FailedOpen := xp_FailedOpen observation \<or> log_ExtProcFailedOpen entry,
     xp_MessageTimeout := xp_MessageTimeout observation \<or> log_ExtProcMessageTimeout entry,
     xp_HTTPError := xp_HTTPError observation \<or> log_ExtProcHTTPError entry,
     xp_ReceivedImmediateResponse :=
       xp_ReceivedImmediateResponse observation \<or> log_ExtProcReceivedImmediateResponse entry\<rparr>"

section \<open>Invocation and outcome\<close>

definition has_telemetry :: "json option \<Rightarrow> ExtProcObservation \<Rightarrow> bool" where
  "has_telemetry raw observation \<longleftrightarrow>
     raw \<noteq> None \<or> xp_Processor observation \<noteq> [] \<or> xp_RuleID observation \<noteq> []
     \<or> xp_SelectedPool observation \<noteq> [] \<or> xp_SelectedEndpoint observation \<noteq> []
     \<or> xp_ReasonCode observation \<noteq> []
     \<or> xp_RequestHeaderCalls observation > 0 \<or> xp_RequestBodyCalls observation > 0
     \<or> xp_ResponseHeaderCalls observation > 0 \<or> xp_ResponseBodyCalls observation > 0
     \<or> xp_RequestHeaderLatencyUS observation > 0 \<or> xp_RequestBodyLatencyUS observation > 0
     \<or> xp_ResponseHeaderLatencyUS observation > 0 \<or> xp_ResponseBodyLatencyUS observation > 0
     \<or> xp_GRPCStatus observation \<noteq> [] \<or> xp_FailureModeAllowed observation
     \<or> xp_FailedOpen observation \<or> xp_MessageTimeout observation \<or> xp_HTTPError observation
     \<or> xp_ReceivedImmediateResponse observation"

definition ext_proc_invoked :: "ExtProcObservation \<Rightarrow> bool" where
  "ext_proc_invoked observation \<longleftrightarrow>
     wrap64 (wrap64 (wrap64 (xp_RequestHeaderCalls observation + xp_RequestBodyCalls observation)
       + xp_ResponseHeaderCalls observation) + xp_ResponseBodyCalls observation) > 0
     \<or> xp_GRPCStatus observation \<noteq> [] \<or> xp_HTTPError observation \<or> xp_MessageTimeout observation
     \<or> xp_ReceivedImmediateResponse observation"

definition grpc_failed :: "ExtProcObservation \<Rightarrow> bool" where
  "grpc_failed observation \<longleftrightarrow>
     xp_GRPCStatus observation \<noteq> [] \<and> xp_GRPCStatus observation \<noteq> ''0''
     \<and> \<not> EqualFold (xp_GRPCStatus observation) ''ok''"

definition ext_proc_outcome :: "ExtProcObservation \<Rightarrow> ExtProcOutcome" where
  "ext_proc_outcome observation =
     (if xp_FailedOpen observation then ExtProcOutcomeFailOpen
      else if xp_MessageTimeout observation then
        (if xp_FailureModeAllowed observation then ExtProcOutcomeFailOpen else ExtProcOutcomeTimeout)
      else if xp_HTTPError observation then
        (if xp_FailureModeAllowed observation then ExtProcOutcomeFailOpen else ExtProcOutcomeError)
      else if xp_ReceivedImmediateResponse observation then ExtProcOutcomeImmediateResponse
      else if grpc_failed observation then
        (if xp_FailureModeAllowed observation then ExtProcOutcomeFailOpen else ExtProcOutcomeError)
      else if xp_Invoked observation then ExtProcOutcomeSuccess
      else ExtProcOutcomeUnknown)"

definition conclude_observation :: "ExtProcObservation \<Rightarrow> ExtProcObservation" where
  "conclude_observation observation =
     (let o1 = observation\<lparr>xp_Invoked := ext_proc_invoked observation\<rparr> in
      o1\<lparr>xp_Outcome := ext_proc_outcome o1\<rparr>)"

definition parseExtProcObservation ::
    "higressAccessLog \<Rightarrow> json option \<Rightarrow> string \<Rightarrow> ExtProcObservation option" where
  "parseExtProcObservation entry raw processorHint =
     (let vals = structured_values raw;
          statuses0 = structured_statuses vals;
          observation0 = implied_header_calls statuses0 (structured_observation vals);
          statuses = flat_statuses entry statuses0;
          observation1 = implied_header_calls statuses (flat_observation entry processorHint observation0);
          observation = flag_observation entry (grpc_observation entry statuses observation1)
      in if has_telemetry raw observation then Some (conclude_observation observation) else None)"

section \<open>All telemetry of a record\<close>

definition flat_suffixes :: "string list" where
  "flat_suffixes =
     [''processor'', ''rule_id'', ''selected_pool'', ''selected_endpoint'', ''reason_code'', ''grpc_status'',
      ''request_header_call_count'', ''request_body_call_count'', ''response_header_call_count'', ''response_body_call_count'',
      ''request_header_latency_us'', ''request_header_call_status'', ''request_body_latency_us'', ''request_body_total_latency_us'', ''request_body_last_call_status'',
      ''response_header_latency_us'', ''response_header_call_status'', ''response_body_latency_us'', ''response_body_total_latency_us'', ''response_body_last_call_status'',
      ''failure_mode_allowed'', ''failed_open'', ''message_timeout'', ''http_not_ok_resp_received'', ''received_immediate_response'', ''grpc_status_before_first_call'']"

definition isFlatExtProcField :: "string \<Rightarrow> bool" where
  "isFlatExtProcField key \<longleftrightarrow> list_ex (\<lambda>suffix. key = ''ext_proc_'' @ suffix) flat_suffixes"

definition named_ext_proc :: "string \<Rightarrow> bool" where
  "named_ext_proc key \<longleftrightarrow>
     (let lower = ToLower key in
      key \<noteq> ''ext_proc'' \<and> (HasPrefix lower ''ext_proc_'' \<or> HasSuffix lower ''_ext_proc'')
      \<and> \<not> isFlatExtProcField lower)"

definition processor_hint :: "string \<Rightarrow> string" where
  "processor_hint key = TrimSuffix (TrimPrefix (ToLower key) ''ext_proc_'') ''_ext_proc''"

definition named_observation :: "(string \<times> json) list \<Rightarrow> string \<Rightarrow> ExtProcObservation option" where
  "named_observation rawFields key =
     parseExtProcObservation zero_higressAccessLog (map_of rawFields key) (processor_hint key)"

definition parseExtProcObservations ::
    "higressAccessLog \<Rightarrow> (string \<times> json) list \<Rightarrow> ExtProcObservation list" where
  "parseExtProcObservations entry rawFields =
     (case parseExtProcObservation entry (log_ExtProc entry) [] of None \<Rightarrow> [] | Some x \<Rightarrow> [x])
     @ List.map_filter (named_observation rawFields)
         (slice_stable (<) (filter named_ext_proc (map fst rawFields)))"

section \<open>AI routing\<close>

text \<open>A field that is missing, null or not a string is empty; a long one is cut after 1024 runes.\<close>

definition read_ai_field :: "(string \<times> json) list \<Rightarrow> string \<Rightarrow> string" where
  "read_ai_field members key =
     (case map_of members key of
        Some (JStr value) \<Rightarrow>
          (if length (runes value) > 1024 then concat (take 1024 (runes value)) else value)
      | _ \<Rightarrow> [])"

definition parseAIRouting :: "string \<Rightarrow> AIRoutingSummary option" where
  "parseAIRouting value =
     (case json_parse value of
        Some (JObj members) \<Rightarrow>
          (let read = read_ai_field (json_map members);
               summary = \<lparr>ai_Provider = read ''provider'', ai_RequestModel = read ''request_model'',
                 ai_UpstreamModel = read ''upstream_model'', ai_ResponseModel = read ''response_model''\<rparr>
           in if summary = zero_AIRoutingSummary then None else Some summary)
      | _ \<Rightarrow> None)"

section \<open>Lines\<close>

definition IsInternalRedirect :: "string \<Rightarrow> bool" where
  "IsInternalRedirect details0 \<longleftrightarrow>
     (let details = TrimSpace details0 in
      details = ''internal_redirect''
      \<or> HasPrefix details ''internal_redirect:'' \<and> TrimSpace (TrimPrefix details ''internal_redirect:'') \<noteq> [])"

text \<open>The JSON text of a line: what starts at its first brace.\<close>

definition json_text :: "string \<Rightarrow> string" where
  "json_text line0 =
     (let line = TrimSpace line0 in
      case IndexByte line CHR ''{'' of None \<Rightarrow> [] | Some index \<Rightarrow> drop index line)"

text \<open>The record of a line; usage records and anything that is not an access-log object have none.\<close>

definition line_entry :: "string \<Rightarrow> (higressAccessLog \<times> (string \<times> json) list) option" where
  "line_entry line =
     (if json_text line = [] then None
      else
        (case json_parse (json_text line) of
           None \<Rightarrow> None
         | Some data \<Rightarrow>
             (case decode_entry data of
                None \<Rightarrow> None
              | Some entry \<Rightarrow>
                  if map_of (raw_fields data) ''ai_usage_record'' \<noteq> None then None
                  else Some (entry, raw_fields data))))"

text \<open>The logged probe identity is authoritative; the trace identity counts only without one.\<close>

definition line_correlation :: "higressAccessLog \<Rightarrow> string \<Rightarrow> string \<Rightarrow> ProbeCorrelation" where
  "line_correlation entry probeID traceID =
     (let loggedProbeID = validLogValue (log_GateLensProbeID entry) in
      if loggedProbeID \<noteq> [] then
        (if validLogValue probeID \<noteq> [] \<and> loggedProbeID = probeID then ProbeCorrelationProbeID else [])
      else if validLogValue traceID \<noteq> [] \<and> validLogValue (log_TraceID entry) \<noteq> []
          \<and> EqualFold (TrimSpace (log_TraceID entry)) (TrimSpace traceID)
      then ProbeCorrelationTraceID else [])"

definition entry_hop ::
    "GoTime \<Rightarrow> higressAccessLog \<Rightarrow> (string \<times> json) list \<Rightarrow> ProbeCorrelation \<Rightarrow> string \<Rightarrow> string \<Rightarrow> string
     \<Rightarrow> ObservedHop" where
  "entry_hop now entry rawFields correlation clusterID pod source = zero_ObservedHop\<lparr>
     hop_RequestStartTime := validLogValue (log_StartTime entry),
     hop_InternalRedirect := IsInternalRedirect (log_ResponseCodeDetails entry),
     hop_AIRouting := parseAIRouting (log_AILog entry),
     hop_DownstreamLocalAddress := log_DownstreamLocalAddress entry,
     hop_ObservedAt := (if log_StartTime entry = [] then format_rfc3339nano (time_UTC now) else log_StartTime entry),
     hop_ClusterID := clusterID,
     hop_Pod := pod,
     hop_Authority := log_Authority entry,
     hop_Method := log_Method entry,
     hop_Path := redactQuery (log_Path entry),
     hop_Protocol := log_Protocol entry,
     hop_RouteName := log_RouteName entry,
     hop_UpstreamCluster := log_UpstreamCluster entry,
     hop_UpstreamHost := log_UpstreamHost entry,
     hop_UpstreamLocalAddress := log_UpstreamLocalAddress entry,
     hop_DownstreamRemoteAddress := log_DownstreamRemoteAddress entry,
     hop_ResponseFlags := log_ResponseFlags entry,
     hop_ResponseCodeDetails := log_ResponseCodeDetails entry,
     hop_UpstreamTransportFailure := log_UpstreamTransportFailure entry,
     hop_AILog := log_AILog entry,
     hop_EvidenceSource := source,
     hop_Correlation := correlation,
     hop_Confidence := ObservationConfidenceObserved,
     hop_ResponseCode := integer (log_ResponseCode entry),
     hop_DurationMillis := integer64 (log_Duration entry),
     hop_UpstreamServiceTimeMillis := integer64 (log_UpstreamServiceTime entry),
     hop_ExtProcs := parseExtProcObservations entry rawFields\<rparr>"

text \<open>The error result of the code is always nil, so the hop is all there is.\<close>

definition ParseHigressLineForProbe ::
    "GoTime \<Rightarrow> string \<Rightarrow> string \<Rightarrow> string \<Rightarrow> string \<Rightarrow> string \<Rightarrow> string \<Rightarrow> ObservedHop option" where
  "ParseHigressLineForProbe now line probeID traceID clusterID pod source =
     (case line_entry line of
        None \<Rightarrow> None
      | Some (entry, rawFields) \<Rightarrow>
          (let correlation = line_correlation entry probeID traceID in
           if correlation = [] then None
           else Some (entry_hop now entry rawFields correlation clusterID pod source)))"

text \<open>Every line has its own clock reading; here too no warning can arise.\<close>

definition numbered_line_hop ::
    "(nat \<Rightarrow> GoTime) \<Rightarrow> string \<Rightarrow> string \<Rightarrow> string \<Rightarrow> string \<Rightarrow> string \<Rightarrow> nat \<times> string \<Rightarrow> ObservedHop option" where
  "numbered_line_hop clock probeID traceID clusterID pod source nl =
     ParseHigressLineForProbe (clock (fst nl)) (snd nl) probeID traceID clusterID pod source"

definition ParseHigressLinesForProbe ::
    "(nat \<Rightarrow> GoTime) \<Rightarrow> string \<Rightarrow> string \<Rightarrow> string \<Rightarrow> string \<Rightarrow> string \<Rightarrow> string \<Rightarrow> ObservedHop list" where
  "ParseHigressLinesForProbe clock content probeID traceID clusterID pod source =
     List.map_filter (numbered_line_hop clock probeID traceID clusterID pod source)
       (List.enumerate 0 (SplitByte (byte 10) content))"

section \<open>Lemmas\<close>

lemma line_correlation_cases:
  "line_correlation entry probeID traceID \<in> {[], ProbeCorrelationProbeID, ProbeCorrelationTraceID}"
  by (simp add: line_correlation_def Let_def)

lemma redactQuery_clean: "CHR ''?'' \<notin> set (redactQuery path)"
proof (cases "Cut path ''?''")
  case None
  then have "\<not> Contains path ''?''" by (simp add: Cut_None)
  then have "CHR ''?'' \<notin> set path"
    by (metis Contains_iff in_set_conv_decomp append_Cons append_Nil)
  with None show ?thesis by (simp add: redactQuery_def)
next
  case (Some ab)
  obtain a b where ab: "ab = (a, b)" by fastforce
  with Some have "Cut path ''?'' = Some (a, b)" by simp
  then have "CHR ''?'' \<notin> set a"
    by (induction path arbitrary: a) (auto simp: HasPrefix_def split: if_splits)
  with Some ab show ?thesis by (simp add: redactQuery_def)
qed

lemma ext_proc_outcome_valid: "ExtProcOutcome_IsValid (ext_proc_outcome observation)"
  by (simp add: ext_proc_outcome_def ExtProcOutcome_IsValid_def)

lemma parsed_outcome:
  "parseExtProcObservation entry raw hint = Some x \<Longrightarrow> \<exists>y. x = conclude_observation y"
  by (auto simp: parseExtProcObservation_def Let_def split: if_splits)

lemma conclude_outcome: "xp_Outcome (conclude_observation y) = ext_proc_outcome (conclude_observation y)"
  by (simp add: conclude_observation_def Let_def ext_proc_outcome_def grpc_failed_def)

lemma observation_member:
  assumes "x \<in> set (parseExtProcObservations entry rawFields)"
  shows "\<exists>entry' raw hint. parseExtProcObservation entry' raw hint = Some x"
  using assms unfolding parseExtProcObservations_def named_observation_def
  by (auto simp: map_filter_def split: option.splits) metis+

lemma SplitByte_append: "SplitByte sep (s @ sep # t) = SplitByte sep s @ SplitByte sep t"
  by (induction s) (auto split: list.split)

lemma enumerate_shift: "List.enumerate (n + m) xs = map (\<lambda>(i, x). (n + i, x)) (List.enumerate m xs)"
  by (induction xs arbitrary: m) (auto simp flip: add_Suc_right)

lemma numbered_line_shift:
  "numbered_line_hop clock probeID traceID clusterID pod source (n + i, line) =
     numbered_line_hop (\<lambda>k. clock (n + k)) probeID traceID clusterID pod source (i, line)"
  by (simp add: numbered_line_hop_def)

lemma map_filter_append: "List.map_filter f (xs @ ys) = List.map_filter f xs @ List.map_filter f ys"
  by (simp add: map_filter_def)

lemma map_filter_map: "List.map_filter f (map g xs) = List.map_filter (f \<circ> g) xs"
  by (simp add: map_filter_def filter_map comp_def)

lemma parsed_line:
  assumes "ParseHigressLineForProbe now line probeID traceID clusterID pod source = Some hop"
  obtains entry rawFields where "line_entry line = Some (entry, rawFields)"
    and "line_correlation entry probeID traceID \<noteq> []"
    and "hop = entry_hop now entry rawFields (line_correlation entry probeID traceID) clusterID pod source"
  using assms
  by (auto simp: ParseHigressLineForProbe_def Let_def split: option.splits if_splits intro: that)

lemma entry_hop_valid:
  assumes "correlation \<in> {ProbeCorrelationProbeID, ProbeCorrelationTraceID}"
  shows "hop_fields_valid (entry_hop now entry rawFields correlation clusterID pod source)"
  using assms
  by (auto simp: hop_fields_valid_def entry_hop_def ProbeCorrelation_IsValid_def ObservationConfidence_IsValid_def)

lemma entry_hop_outcomes:
  assumes "x \<in> set (hop_ExtProcs (entry_hop now entry rawFields correlation clusterID pod source))"
  shows "ExtProcOutcome_IsValid (xp_Outcome x)"
proof -
  from assms have "x \<in> set (parseExtProcObservations entry rawFields)" by (simp add: entry_hop_def)
  then show ?thesis
    by (auto dest!: observation_member parsed_outcome simp: conclude_outcome ext_proc_outcome_valid)
qed

section \<open>Properties\<close>

text \<open>
  C23: no record of another request is attributed to a probe: a parsed line holds an access-log
  object, and if that logs a probe identity, the identity is exactly the probe's (whatever
  trace it shows) and the hop says so; only a record without one is correlated by a valid
  trace identity, equal up to case. The hop carries the collector's cluster, pod and
  source and no query string.
\<close>

theorem parsed_hop_of_probe:
  assumes "ParseHigressLineForProbe now line probeID traceID clusterID pod source = Some hop"
  shows "\<exists>entry rawFields. line_entry line = Some (entry, rawFields)
    \<and> (if validLogValue (log_GateLensProbeID entry) \<noteq> []
       then validLogValue (log_GateLensProbeID entry) = probeID
         \<and> hop_Correlation hop = ProbeCorrelationProbeID
       else validLogValue traceID \<noteq> []
         \<and> EqualFold (TrimSpace (log_TraceID entry)) (TrimSpace traceID)
         \<and> hop_Correlation hop = ProbeCorrelationTraceID)
    \<and> hop_ClusterID hop = clusterID \<and> hop_Pod hop = pod \<and> hop_EvidenceSource hop = source
    \<and> CHR ''?'' \<notin> set (hop_Path hop)"
proof -
  from assms obtain entry rawFields where line: "line_entry line = Some (entry, rawFields)"
    and correlation: "line_correlation entry probeID traceID \<noteq> []"
    and hop: "hop = entry_hop now entry rawFields (line_correlation entry probeID traceID) clusterID pod source"
    by (rule parsed_line)
  from correlation have "if validLogValue (log_GateLensProbeID entry) \<noteq> []
      then validLogValue (log_GateLensProbeID entry) = probeID
        \<and> line_correlation entry probeID traceID = ProbeCorrelationProbeID
      else validLogValue traceID \<noteq> [] \<and> EqualFold (TrimSpace (log_TraceID entry)) (TrimSpace traceID)
        \<and> line_correlation entry probeID traceID = ProbeCorrelationTraceID"
    by (simp add: line_correlation_def Let_def split: if_splits)
  with line show ?thesis by (auto simp: hop entry_hop_def redactQuery_clean)
qed

definition sample_line :: string where
  \<open>sample_line = ''{"gatelens_probe_id":"p1","path":"/v1?k=1","start_time":"x","ext_proc_epp":{"grpcStatus":"0"}}''\<close>

lemma sample_line_parsed:
  "\<exists>hop. ParseHigressLineForProbe zero_time sample_line ''p1'' ''t'' ''c'' ''pod'' ''log'' = Some hop"
proof -
  have "ParseHigressLineForProbe zero_time sample_line ''p1'' ''t'' ''c'' ''pod'' ''log'' \<noteq> None" by code_simp
  then show ?thesis by blast
qed

theorem parsed_hop_of_probe_witness:
  "\<exists>hop entry rawFields.
     ParseHigressLineForProbe zero_time sample_line ''p1'' ''t'' ''c'' ''pod'' ''log'' = Some hop
     \<and> line_entry sample_line = Some (entry, rawFields) \<and> hop_ClusterID hop = ''c''
     \<and> CHR ''?'' \<notin> set (hop_Path hop)"
proof -
  from sample_line_parsed obtain hop
    where hop: "ParseHigressLineForProbe zero_time sample_line ''p1'' ''t'' ''c'' ''pod'' ''log'' = Some hop" by blast
  from parsed_hop_of_probe [OF hop] hop show ?thesis by blast
qed

text \<open>
  What an agent reads from its access logs is never rejected by the server for its content:
  numbered with distinct identities, the hops parsed from any log text pass the server's
  check of the records (cluster, correlation, confidence and \<open>ext_proc\<close> outcomes).
\<close>

theorem parsed_hops_accepted:
  assumes "hops = ParseHigressLinesForProbe clock content probeID traceID clusterID pod source"
    and "length ids = length hops" "distinct ids" "[] \<notin> set ids"
  shows "validate_hops clusterID [] (map2 (\<lambda>i hop. hop\<lparr>hop_ID := i\<rparr>) ids hops) = Inr (rev ids)"
proof -
  have hop: "hop_fields_valid hop \<and> hop_ClusterID hop = clusterID
      \<and> (\<forall>x \<in> set (hop_ExtProcs hop). ExtProcOutcome_IsValid (xp_Outcome x))" if "hop \<in> set hops" for hop
  proof -
    from that assms(1) obtain now line
      where "ParseHigressLineForProbe now line probeID traceID clusterID pod source = Some hop"
      by (auto simp: ParseHigressLinesForProbe_def numbered_line_hop_def map_filter_def)
    then obtain entry rawFields where "line_correlation entry probeID traceID \<noteq> []"
      and eq: "hop = entry_hop now entry rawFields (line_correlation entry probeID traceID) clusterID pod source"
      by (rule parsed_line)
    with line_correlation_cases [of entry probeID traceID]
    have "hop_fields_valid hop" by (auto intro: entry_hop_valid)
    moreover have "hop_ClusterID hop = clusterID" by (simp add: eq entry_hop_def)
    ultimately show ?thesis using entry_hop_outcomes unfolding eq by blast
  qed
  let ?hops = "map2 (\<lambda>i hop. hop\<lparr>hop_ID := i\<rparr>) ids hops"
  have ids: "map hop_ID ?hops = ids"
    using assms(2) by (simp add: comp_def case_prod_unfold)
  have "list_all (hop_admissible clusterID) ?hops"
    using hop assms(4)
    by (fastforce simp: list_all_iff hop_admissible_def hop_fields_valid_def dest: set_zip_leftD set_zip_rightD)
  with ids assms(3) show ?thesis by (simp add: validate_hops_Inr)
qed

theorem parsed_hops_accepted_witness:
  "\<exists>hops. hops = ParseHigressLinesForProbe (\<lambda>_. zero_time) (sample_line @ byte 10 # ''other'') ''p1'' ''t'' ''c'' ''pod'' ''log''
     \<and> length hops = 1
     \<and> validate_hops ''c'' [] (map2 (\<lambda>i hop. hop\<lparr>hop_ID := i\<rparr>) [''hop-1''] hops) = Inr [''hop-1'']"
proof -
  let ?hops = "ParseHigressLinesForProbe (\<lambda>_. zero_time) (sample_line @ byte 10 # ''other'') ''p1'' ''t'' ''c'' ''pod'' ''log''"
  have one: "length ?hops = 1" by code_simp
  with parsed_hops_accepted [OF refl, of "[''hop-1'']" "\<lambda>_. zero_time" "sample_line @ byte 10 # ''other''"
      "''p1''" "''t''" "''c''" "''pod''" "''log''"]
  show ?thesis by simp
qed

text \<open>
  A log may be read in pieces: cut at a line break, the hops of the whole text are the hops of
  the first part followed by those of the second (the lines of which keep their clock
  readings), so no record is lost, merged or counted twice.
\<close>

theorem ParseHigressLinesForProbe_append:
  "ParseHigressLinesForProbe clock (first @ byte 10 # second) probeID traceID clusterID pod source =
     ParseHigressLinesForProbe clock first probeID traceID clusterID pod source
     @ ParseHigressLinesForProbe (\<lambda>n. clock (length (SplitByte (byte 10) first) + n)) second
         probeID traceID clusterID pod source"
proof -
  let ?n = "length (SplitByte (byte 10) first)"
  have "numbered_line_hop clock probeID traceID clusterID pod source \<circ> (\<lambda>(i, line). (?n + i, line)) =
      numbered_line_hop (\<lambda>k. clock (?n + k)) probeID traceID clusterID pod source"
    by (auto simp: numbered_line_shift)
  then show ?thesis
    using enumerate_shift [of ?n 0 "SplitByte (byte 10) second"]
    by (simp add: ParseHigressLinesForProbe_def SplitByte_append enumerate_append_eq map_filter_append map_filter_map)
qed

text \<open>
  C24: the outcome shown for an external processor never hides a failure: success means that the
  processor was invoked, did not fail open, time out, return an HTTP error or an immediate
  response, and that its gRPC status is missing, 0 or \<open>ok\<close>; fail-open means that the log says
  so or that a failure met a filter that allows it; a timeout or error is shown only for a
  filter that does not.
\<close>

theorem ext_proc_outcome_honest:
  assumes "x \<in> set (parseExtProcObservations entry rawFields)"
  shows "(xp_Outcome x = ExtProcOutcomeSuccess \<longrightarrow> xp_Invoked x \<and> \<not> xp_FailedOpen x \<and> \<not> xp_MessageTimeout x
      \<and> \<not> xp_HTTPError x \<and> \<not> xp_ReceivedImmediateResponse x
      \<and> (xp_GRPCStatus x \<in> {[], ''0''} \<or> EqualFold (xp_GRPCStatus x) ''ok''))
    \<and> (xp_Outcome x = ExtProcOutcomeFailOpen \<longrightarrow> xp_FailedOpen x
      \<or> xp_FailureModeAllowed x \<and> (xp_MessageTimeout x \<or> xp_HTTPError x \<or> xp_GRPCStatus x \<notin> {[], ''0''}))
    \<and> (xp_Outcome x \<in> {ExtProcOutcomeTimeout, ExtProcOutcomeError} \<longrightarrow> \<not> xp_FailureModeAllowed x)"
proof -
  from assms have "xp_Outcome x = ext_proc_outcome x"
    by (auto dest!: observation_member parsed_outcome simp: conclude_outcome)
  then show ?thesis by (simp add: ext_proc_outcome_def grpc_failed_def)
qed

theorem ext_proc_outcome_honest_witness:
  "\<exists>x. x \<in> set (parseExtProcObservations zero_higressAccessLog
       [(''ext_proc_epp'', JObj [(''request_header_call_status'', JNum ''0'')])])
     \<and> (xp_Outcome x = ExtProcOutcomeSuccess \<longrightarrow> xp_Invoked x \<and> \<not> xp_MessageTimeout x)"
proof -
  have "parseExtProcObservations zero_higressAccessLog
      [(''ext_proc_epp'', JObj [(''request_header_call_status'', JNum ''0'')])] \<noteq> []" by code_simp
  then obtain x where "x \<in> set (parseExtProcObservations zero_higressAccessLog
      [(''ext_proc_epp'', JObj [(''request_header_call_status'', JNum ''0'')])])" by (metis list.set_sel(1))
  from ext_proc_outcome_honest [OF this] this show ?thesis by blast
qed

end
