(* ===== verification/Kube_Wording.thy ===== *)
theory Kube_Wording
  imports Go_Strings
begin

text \<open>
  The Chinese texts of \<open>internal/kube/probe_logs.go\<close> and \<open>internal/kube/probe.go\<close>, as the UTF-8
  bytes of the source's literals, each with its meaning in English. Format strings are cut
  at their directives.
\<close>

text \<open>"the log file was rotated or truncated, continuity unconfirmed"\<close>

definition msg_log_rotated :: string where
  "msg_log_rotated = utf8 [232, 174, 191, 233, 151, 174, 230, 151, 165, 229, 191, 151, 230, 150, 135, 228, 187,
     182, 229, 143, 145, 231, 148, 159, 232, 189, 174, 232, 189, 172, 230, 136, 150, 230,
     136, 170, 230, 150, 173, 239, 188, 140, 230, 157, 165, 230, 186, 144, 232, 191, 158,
     231, 187, 173, 230, 128, 167, 230, 156, 170, 231, 161, 174, 232, 174, 164]"

text \<open>"the read window was truncated, continuity unconfirmed"\<close>

definition msg_log_window_truncated :: string where
  "msg_log_window_truncated = utf8 [230, 151, 165, 229, 191, 151, 232, 175, 187, 229, 143, 150, 231, 170, 151, 229, 143,
     163, 232, 162, 171, 230, 136, 170, 230, 150, 173, 239, 188, 140, 230, 157, 165, 230,
     186, 144, 232, 191, 158, 231, 187, 173, 230, 128, 167, 230, 156, 170, 231, 161, 174,
     232, 174, 164]"

text \<open>"snapshots truncated or their overlap not found, order unconfirmed"\<close>

definition msg_log_overlap_unlocated :: string where
  "msg_log_overlap_unlocated = utf8 [230, 151, 165, 229, 191, 151, 229, 191, 171, 231, 133, 167, 229, 143, 145, 231, 148,
     159, 230, 136, 170, 230, 150, 173, 230, 136, 150, 233, 135, 141, 229, 143, 160, 230,
     151, 160, 230, 179, 149, 229, 174, 154, 228, 189, 141, 239, 188, 140, 230, 157, 165,
     230, 186, 144, 233, 161, 186, 229, 186, 143, 230, 156, 170, 231, 161, 174, 232, 174,
     164]"

text \<open>"log collection cancelled:"\<close>

definition txt_collection_cancelled :: string where
  "txt_collection_cancelled = utf8 [230, 151, 165, 229, 191, 151, 233, 135, 135, 233, 155, 134, 229, 183, 178, 229, 143,
     150, 230, 182, 136, 239, 188, 154]"

text \<open>"window ended, no stable terminal record"\<close>

definition msg_window_ended :: string where
  "msg_window_ended = utf8 [230, 151, 165, 229, 191, 151, 233, 135, 135, 233, 155, 134, 231, 170, 151, 229, 143,
     163, 229, 183, 178, 231, 187, 147, 230, 157, 159, 239, 188, 140, 230, 156, 170, 231,
     161, 174, 232, 174, 164, 231, 168, 179, 229, 174, 154, 231, 187, 136, 230, 173, 162,
     232, 174, 176, 229, 189, 149]"

text \<open>"window ended, the read was limited by the remaining time"\<close>

definition msg_window_ended_reading :: string where
  "msg_window_ended_reading = utf8 [230, 151, 165, 229, 191, 151, 233, 135, 135, 233, 155, 134, 231, 170, 151, 229, 143,
     163, 229, 183, 178, 231, 187, 147, 230, 157, 159, 239, 188, 140, 232, 175, 187, 229,
     143, 150, 229, 143, 151, 229, 137, 169, 228, 189, 153, 230, 151, 182, 233, 151, 180,
     233, 153, 144, 229, 136, 182]"

text \<open>"reading access-log file"\<close>

definition txt_read_log_file :: string where
  "txt_read_log_file = utf8 [232, 175, 187, 229, 143, 150, 232, 174, 191, 233, 151, 174, 230, 151, 165, 229, 191,
     151, 230, 150, 135, 228, 187, 182, 32]"

text \<open>"reading gateway pod logs failed:"\<close>

definition txt_read_pod_logs :: string where
  "txt_read_pod_logs = utf8 [232, 175, 187, 229, 143, 150, 32, 71, 97, 116, 101, 119, 97, 121, 32, 80, 111, 100,
     32, 230, 151, 165, 229, 191, 151, 229, 164, 177, 232, 180, 165, 58, 32]"

text \<open>"response body exceeds the limit, body not kept"\<close>

definition msg_response_limit :: string where
  "msg_response_limit = utf8 [229, 147, 141, 229, 186, 148, 230, 173, 163, 230, 150, 135, 232, 182, 133, 232, 191,
     135, 233, 135, 135, 233, 155, 134, 228, 184, 138, 233, 153, 144, 239, 188, 155, 230,
     173, 163, 230, 150, 135, 230, 156, 170, 228, 191, 157, 229, 173, 152]"

text \<open>"no Higress JSON access log matches the probe or trace identity"\<close>

definition msg_no_higress_log :: string where
  "msg_no_higress_log = utf8 [230, 156, 170, 230, 137, 190, 229, 136, 176, 229, 140, 185, 233, 133, 141, 32, 103,
     97, 116, 101, 108, 101, 110, 115, 95, 112, 114, 111, 98, 101, 95, 105, 100, 32, 230,
     136, 150, 32, 116, 114, 97, 99, 101, 95, 105, 100, 32, 231, 154, 132, 32, 72, 105,
     103, 114, 101, 115, 115, 32, 74, 83, 79, 78, 32, 232, 174, 191, 233, 151, 174, 230,
     151, 165, 229, 191, 151]"

text \<open>"no gateway access log matches the probe or trace identity"\<close>

definition msg_no_gateway_log :: string where
  "msg_no_gateway_log = utf8 [230, 156, 170, 230, 137, 190, 229, 136, 176, 229, 140, 185, 233, 133, 141, 32, 103,
     97, 116, 101, 108, 101, 110, 115, 95, 112, 114, 111, 98, 101, 95, 105, 100, 32, 230,
     136, 150, 32, 116, 114, 97, 99, 101, 95, 105, 100, 32, 231, 154, 132, 231, 189, 145,
     229, 133, 179, 232, 174, 191, 233, 151, 174, 230, 151, 165, 229, 191, 151]"

text \<open>"no runtime found for gateway"\<close>

definition txt_runtime_not_found :: string where
  "txt_runtime_not_found = utf8 [230, 156, 170, 230, 137, 190, 229, 136, 176, 32, 71, 97, 116, 101, 119, 97, 121, 32]"

text \<open>"corresponding runtime workload"\<close>

definition txt_runtime_not_found_suffix :: string where
  "txt_runtime_not_found_suffix = utf8 [32, 229, 175, 185, 229, 186, 148, 231, 154, 132, 232, 191, 144, 232, 161, 140, 230,
     151, 182, 229, 183, 165, 228, 189, 156, 232, 180, 159, 232, 189, 189]"

text \<open>"has no ready pod"\<close>

definition txt_no_ready_pod :: string where
  "txt_no_ready_pod = utf8 [32, 230, 178, 161, 230, 156, 137, 32, 82, 101, 97, 100, 121, 32, 80, 111, 100]"

end
