(* ===== verification/Log_Collector.thy ===== *)
theory Log_Collector
  imports Access_Log Kube_Wording
begin

text \<open>
  The cache of \<open>internal/kube/probe_logs.go\<close> that collects a probe's access-log records from
  repeated snapshots of the log sources: \<open>merge\<close> takes the new records of a snapshot and notices
  when a source was rotated, truncated or no longer continues what was read before,
  \<open>canSettle\<close> tells whether the records are a complete account of the probe's requests.
  Parameters: \<open>sha256\<close>, the hexadecimal digits of a text's hash, and the clock readings of the
  lines. A file is known by an identity (\<open>os.SameFile\<close>) and its size.
\<close>

section \<open>State\<close>

record fileInfo =
  fi_identity :: nat
  fi_Size :: int

record probeLogSnapshot =
  ls_source :: string
  ls_runtime :: string
  ls_pod :: string
  ls_content :: string
  ls_fileInfo :: "fileInfo option"
  ls_offset :: int
  ls_incomplete :: bool

record probeLogSourceCache =
  sc_seen :: "string \<rightharpoonup> nat"
  sc_previous :: "string list"
  sc_fileInfo :: "fileInfo option"
  sc_generation :: int
  sc_sequence :: int
  sc_uncertain :: bool

record probeLogCache =
  lc_sources :: "string \<rightharpoonup> probeLogSourceCache"
  lc_hops :: "ObservedHop list"
  lc_issues :: "ProbeIssue list"

definition empty_log_cache :: probeLogCache where
  "empty_log_cache = \<lparr>lc_sources = Map.empty, lc_hops = [], lc_issues = []\<rparr>"

definition fresh_source :: probeLogSourceCache where
  "fresh_source = \<lparr>sc_seen = Map.empty, sc_previous = [], sc_fileInfo = None, sc_generation = 0,
     sc_sequence = 0, sc_uncertain = False\<rparr>"

definition collection_issue :: "ProbeIssueCode \<Rightarrow> string \<Rightarrow> ProbeIssue" where
  "collection_issue code message =
     zero_ProbeIssue\<lparr>issue_Scope := ProbeIssueScopeCollection, issue_Code := code, issue_Message := message\<rparr>"

definition addIssue :: "ProbeIssueCode \<Rightarrow> string \<Rightarrow> ProbeIssue list \<Rightarrow> ProbeIssue list" where
  "addIssue code message issues = AppendProbeIssue issues (collection_issue code message)"

section \<open>Merging a snapshot\<close>

text \<open>A changed file, or one that shrank, is a new generation of its source.\<close>

definition file_replaced :: "fileInfo option \<Rightarrow> fileInfo option \<Rightarrow> bool" where
  "file_replaced new old \<longleftrightarrow>
     (case (new, old) of
        (Some n, Some p) \<Rightarrow> fi_identity n \<noteq> fi_identity p \<or> fi_Size n < fi_Size p
      | _ \<Rightarrow> False)"

definition open_source ::
    "probeLogSnapshot \<Rightarrow> probeLogSourceCache \<times> ProbeIssue list \<Rightarrow> probeLogSourceCache \<times> ProbeIssue list" where
  "open_source snapshot si =
     (let (source0, issues0) = si;
          (source1, issues1) =
            (if file_replaced (ls_fileInfo snapshot) (sc_fileInfo source0)
             then (source0\<lparr>sc_generation := sc_generation source0 + 1, sc_uncertain := True\<rparr>,
                   addIssue ProbeIssueCodeLogSourceRotated msg_log_rotated issues0)
             else (source0, issues0));
          source2 = source1\<lparr>sc_fileInfo := ls_fileInfo snapshot\<rparr>
      in if ls_incomplete snapshot
         then (source2\<lparr>sc_uncertain := True\<rparr>,
               addIssue ProbeIssueCodeLogWindowTruncated msg_log_window_truncated issues1)
         else (source2, issues1))"

text \<open>The lines of a snapshot with what identifies their records: number, offset and text.\<close>

fun line_positions :: "nat \<Rightarrow> int \<Rightarrow> string list \<Rightarrow> (nat \<times> int \<times> string) list" where
  "line_positions n position [] = []"
| "line_positions n position (line # rest) =
     (n, position, line) # line_positions (Suc n) (position + int (length line) + 1) rest"

definition snapshot_lines :: "probeLogSnapshot \<Rightarrow> (nat \<times> int \<times> string) list" where
  "snapshot_lines snapshot = line_positions 0 (ls_offset snapshot) (SplitByte (byte 10) (ls_content snapshot))"

text \<open>CRI prefixes do not belong to the identity of a record.\<close>

definition identity_line :: "string \<Rightarrow> string" where
  "identity_line line =
     (let trimmed = TrimSpace line in
      case IndexByte trimmed CHR ''{'' of None \<Rightarrow> trimmed | Some index \<Rightarrow> drop index trimmed)"

text \<open>
  The key of a record: its place in a file, or else how often its text has occurred. \<open>earlier\<close>
  are the fingerprints of the matching lines before it.
\<close>

definition record_key :: "(string \<Rightarrow> string) \<Rightarrow> probeLogSnapshot \<Rightarrow> int \<Rightarrow> string list \<Rightarrow> int \<Rightarrow> string \<Rightarrow> string" where
  "record_key sha256 snapshot generation earlier position line =
     (let fingerprint = sha256 (identity_line line) in
      if ls_fileInfo snapshot \<noteq> None
      then Itoa generation @ ''/'' @ Itoa position @ ''/'' @ fingerprint
      else fingerprint @ ''/'' @ Itoa (int (length (filter (\<lambda>f. f = fingerprint) earlier)) + 1))"

text \<open>The matching records of a snapshot with their keys, in the order of the lines.\<close>

fun keyed_records ::
    "(string \<Rightarrow> string) \<Rightarrow> (nat \<Rightarrow> string \<Rightarrow> ObservedHop option) \<Rightarrow> probeLogSnapshot \<Rightarrow> int \<Rightarrow> string list
     \<Rightarrow> (nat \<times> int \<times> string) list \<Rightarrow> (string \<times> ObservedHop) list" where
  "keyed_records sha256 parse snapshot generation earlier [] = []"
| "keyed_records sha256 parse snapshot generation earlier ((n, position, line) # rest) =
     (case parse n line of
        None \<Rightarrow> keyed_records sha256 parse snapshot generation earlier rest
      | Some hop \<Rightarrow>
          (record_key sha256 snapshot generation earlier position line, hop)
          # keyed_records sha256 parse snapshot generation (earlier @ [sha256 (identity_line line)]) rest)"

text \<open>A record with a new key becomes a hop; its number counts the hops of all sources.\<close>

definition file_record ::
    "probeLogSnapshot \<Rightarrow> probeLogSourceCache \<times> ObservedHop list \<Rightarrow> string \<times> ObservedHop
     \<Rightarrow> probeLogSourceCache \<times> ObservedHop list" where
  "file_record snapshot sh kh =
     (let (source, hops) = sh; (key, hop) = kh in
      if sc_seen source key \<noteq> None then (source, hops)
      else (source\<lparr>sc_sequence := sc_sequence source + 1, sc_seen := (sc_seen source)(key \<mapsto> length hops)\<rparr>,
            hops @ [hop\<lparr>hop_ID := ''record-'' @ Itoa (int (length hops) + 1),
              hop_LogSourceID := ls_source snapshot, hop_RuntimeSource := ls_runtime snapshot,
              hop_LogSequence := sc_sequence source + 1\<rparr>]))"

text \<open>What was read before must be a prefix of what is read now.\<close>

definition continues :: "string list \<Rightarrow> string list \<Rightarrow> bool" where
  "continues previous current \<longleftrightarrow> take (length previous) current = previous"

definition snapshot_records ::
    "(string \<Rightarrow> string) \<Rightarrow> (nat \<Rightarrow> GoTime) \<Rightarrow> string \<Rightarrow> string \<Rightarrow> string \<Rightarrow> probeLogSnapshot \<Rightarrow> int
     \<Rightarrow> (string \<times> ObservedHop) list" where
  "snapshot_records sha256 clock probeID traceID clusterID snapshot generation =
     keyed_records sha256
       (\<lambda>n line. ParseHigressLineForProbe (clock n) line probeID traceID clusterID (ls_pod snapshot) (ls_source snapshot))
       snapshot generation [] (snapshot_lines snapshot)"

definition source_in :: "(string \<rightharpoonup> probeLogSourceCache) \<Rightarrow> string \<Rightarrow> probeLogSourceCache" where
  "source_in sources source = (case sources source of None \<Rightarrow> fresh_source | Some s \<Rightarrow> s)"

definition merge ::
    "(string \<Rightarrow> string) \<Rightarrow> (nat \<Rightarrow> GoTime) \<Rightarrow> string \<Rightarrow> string \<Rightarrow> string \<Rightarrow> probeLogSnapshot \<Rightarrow> probeLogCache
     \<Rightarrow> bool \<times> probeLogCache" where
  "merge sha256 clock probeID traceID clusterID snapshot cache =
     (let (source1, issues1) =
            open_source snapshot (source_in (lc_sources cache) (ls_source snapshot), lc_issues cache);
          records = snapshot_records sha256 clock probeID traceID clusterID snapshot (sc_generation source1);
          (source2, hops) = foldl (file_record snapshot) (source1, lc_hops cache) records;
          current = map fst records;
          broken = sc_previous source2 \<noteq> [] \<and> \<not> continues (sc_previous source2) current;
          issues2 = (if broken
            then addIssue ProbeIssueCodeLogOrderUnconfirmed msg_log_overlap_unlocated issues1 else issues1);
          source3 = source2\<lparr>sc_uncertain := sc_uncertain source2 \<or> broken, sc_previous := current\<rparr>
      in (length hops \<noteq> length (lc_hops cache),
          \<lparr>lc_sources = (lc_sources cache)(ls_source snapshot \<mapsto> source3), lc_hops = hops, lc_issues = issues2\<rparr>))"

text \<open>The parts of a merge.\<close>

lemma merge_parts:
  assumes "merge sha256 clock probeID traceID clusterID snapshot cache = (changed, cache')"
  obtains source1 issues1 source2 where
    "open_source snapshot (source_in (lc_sources cache) (ls_source snapshot), lc_issues cache) = (source1, issues1)"
    and "foldl (file_record snapshot) (source1, lc_hops cache)
        (snapshot_records sha256 clock probeID traceID clusterID snapshot (sc_generation source1)) = (source2, lc_hops cache')"
    and "changed \<longleftrightarrow> length (lc_hops cache') \<noteq> length (lc_hops cache)"
    and "lc_issues cache' = (if sc_previous source2 \<noteq> [] \<and> \<not> continues (sc_previous source2)
          (map fst (snapshot_records sha256 clock probeID traceID clusterID snapshot (sc_generation source1)))
        then addIssue ProbeIssueCodeLogOrderUnconfirmed msg_log_overlap_unlocated issues1 else issues1)"
    and "\<exists>uncertain. lc_sources cache' = (lc_sources cache)(ls_source snapshot \<mapsto> source2\<lparr>sc_uncertain := uncertain,
        sc_previous := map fst (snapshot_records sha256 clock probeID traceID clusterID snapshot (sc_generation source1))\<rparr>)"
proof -
  obtain source1 issues1 where opened:
    "open_source snapshot (source_in (lc_sources cache) (ls_source snapshot), lc_issues cache) = (source1, issues1)"
    by fastforce
  obtain source2 hops where filed: "foldl (file_record snapshot) (source1, lc_hops cache)
      (snapshot_records sha256 clock probeID traceID clusterID snapshot (sc_generation source1)) = (source2, hops)"
    by fastforce
  from assms show thesis
    by (intro that [OF opened]) (auto simp: merge_def Let_def opened filed)
qed

section \<open>Settling\<close>

definition usableAddress :: "string \<Rightarrow> bool" where
  "usableAddress value \<longleftrightarrow> TrimSpace value \<noteq> [] \<and> TrimSpace value \<noteq> ''-''"

definition settle_key :: "ObservedHop \<Rightarrow> string" where
  "settle_key hop =
     hop_RuntimeSource hop @ byte 0 # hop_RequestStartTime hop @ byte 0 # hop_DownstreamRemoteAddress hop
     @ byte 0 # hop_DownstreamLocalAddress hop"

definition identified_hop :: "ObservedHop \<Rightarrow> bool" where
  "identified_hop hop \<longleftrightarrow>
     hop_RuntimeSource hop \<noteq> [] \<and> hop_RequestStartTime hop \<noteq> [] \<and> usableAddress (hop_DownstreamRemoteAddress hop)"

definition is_terminal :: "ObservedHop \<Rightarrow> bool" where
  "is_terminal hop \<longleftrightarrow> \<not> hop_InternalRedirect hop"

definition terminated :: "ObservedHop list \<Rightarrow> bool" where
  "terminated hops \<longleftrightarrow> length (filter is_terminal hops) = 1 \<and> is_terminal (last hops)"

definition settle_group :: "ObservedHop list \<Rightarrow> string \<Rightarrow> ObservedHop list" where
  "settle_group hops key = filter (\<lambda>hop. settle_key hop = key) hops"

definition canSettle :: "probeLogCache \<Rightarrow> bool" where
  "canSettle cache \<longleftrightarrow>
     lc_hops cache \<noteq> [] \<and> \<not> list_ex BreaksLogOrder (lc_issues cache)
     \<and> list_all identified_hop (lc_hops cache)
     \<and> list_all (\<lambda>key. terminated (settle_group (lc_hops cache) key)) (map settle_key (lc_hops cache))"

end
