(* ===== verification/Probe_Window.thy ===== *)
theory Probe_Window
  imports Log_Collector Kube_Snapshot
begin

text \<open>
  \<open>collectProbeWindow\<close> and \<open>observeProbeWindow\<close> of \<open>internal/kube/probe_logs.go\<close>: a gateway's log
  sources are read in rounds until the records have been complete and unchanged for a while,
  the window ends, the context is cancelled or a read fails. What a round meets (the state of
  the contexts, the clock, the files and log streams) is a value; the rounds are a list, and
  None is a window that its rounds do not end.
\<close>

section \<open>Rounds\<close>

text \<open>The window's context ends with its timeout or with its parent, whose error then has a text.\<close>

datatype CtxState = CtxLive | WindowOver | ParentOver string

record 'e LogRound =
  lr_start :: CtxState
  lr_world :: 'e
  lr_read :: CtxState
  lr_failed :: CtxState
  lr_now :: GoTime
  lr_finished :: GoTime
  lr_clock :: "nat \<Rightarrow> nat \<Rightarrow> GoTime"

record probeLogResult =
  pr_hops :: "ObservedHop list"
  pr_collection :: ProbeCollection
  pr_issues :: "ProbeIssue list"

definition finish_window ::
    "GoTime \<Rightarrow> probeLogCache \<Rightarrow> ProbeCollectionState \<Rightarrow> ProbeIssueCode \<Rightarrow> string \<Rightarrow> probeLogResult" where
  "finish_window now cache state code reason =
     \<lparr>pr_hops = lc_hops cache,
      pr_collection = \<lparr>col_State = state, col_CompletedAt = format_rfc3339nano (time_UTC now)\<rparr>,
      pr_issues = (if reason \<noteq> [] then addIssue code reason (lc_issues cache) else lc_issues cache)\<rparr>"

text \<open>The result when a context is over; \<open>ended\<close> words the end of the window.\<close>

definition over_result ::
    "GoTime \<Rightarrow> probeLogCache \<Rightarrow> string \<Rightarrow> CtxState \<Rightarrow> probeLogResult option" where
  "over_result now cache ended ctx =
     (case ctx of
        CtxLive \<Rightarrow> None
      | WindowOver \<Rightarrow>
          Some (finish_window now cache ProbeCollectionStateWindowEnded ProbeIssueCodeCollectionWindowEnded ended)
      | ParentOver e \<Rightarrow>
          Some (finish_window now cache ProbeCollectionStateCancelled ProbeIssueCodeCollectionCancelled
            (txt_collection_cancelled @ e)))"

text \<open>A failed read looks at the parent context only.\<close>

definition failed_result :: "GoTime \<Rightarrow> probeLogCache \<Rightarrow> CtxState \<Rightarrow> string \<Rightarrow> probeLogResult" where
  "failed_result now cache ctx err =
     (case ctx of
        ParentOver e \<Rightarrow> finish_window now cache ProbeCollectionStateCancelled ProbeIssueCodeCollectionCancelled
          (txt_collection_cancelled @ e)
      | _ \<Rightarrow> finish_window now cache ProbeCollectionStateReadError ProbeIssueCodeLogReadError err)"

fun merge_all ::
    "(string \<Rightarrow> string) \<Rightarrow> (nat \<Rightarrow> nat \<Rightarrow> GoTime) \<Rightarrow> string \<Rightarrow> string \<Rightarrow> string \<Rightarrow> nat \<Rightarrow> probeLogSnapshot list
     \<Rightarrow> probeLogCache \<Rightarrow> bool \<times> probeLogCache" where
  "merge_all sha256 clock probeID traceID clusterID n [] cache = (False, cache)"
| "merge_all sha256 clock probeID traceID clusterID n (snapshot # snapshots) cache =
     (case merge sha256 (clock n) probeID traceID clusterID snapshot cache of
        (changed, cache1) \<Rightarrow>
          (case merge_all sha256 clock probeID traceID clusterID (Suc n) snapshots cache1 of
             (changed', cache2) \<Rightarrow> (changed \<or> changed', cache2)))"

text \<open>The start of the stable time after a round: kept, begun or forgotten.\<close>

definition stable_start :: "bool \<Rightarrow> bool \<Rightarrow> GoTime option \<Rightarrow> GoTime \<Rightarrow> GoTime option" where
  "stable_start changed settled stableSince now =
     (if \<not> settled then None
      else if changed then Some now
      else (case stableSince of None \<Rightarrow> Some now | Some since \<Rightarrow> Some since))"

definition settled_long :: "int \<Rightarrow> bool \<Rightarrow> bool \<Rightarrow> GoTime option \<Rightarrow> GoTime \<Rightarrow> bool" where
  "settled_long settle changed settled stableSince now \<longleftrightarrow>
     settled \<and> \<not> changed \<and> (case stableSince of None \<Rightarrow> False | Some since \<Rightarrow> time_Sub now since \<ge> settle)"

type_synonym ('e, 'r) logReader = "'e \<Rightarrow> 'r \<Rightarrow> (probeLogSnapshot list \<times> string option) \<times> 'r"

fun collect_rounds ::
    "(string \<Rightarrow> string) \<Rightarrow> ('e, 'r) logReader \<Rightarrow> string \<Rightarrow> string \<Rightarrow> string \<Rightarrow> int \<Rightarrow> 'e LogRound list
     \<Rightarrow> 'r \<Rightarrow> GoTime option \<Rightarrow> probeLogCache \<Rightarrow> probeLogResult option" where
  "collect_rounds sha256 read probeID traceID clusterID settle [] r stableSince cache = None"
| "collect_rounds sha256 read probeID traceID clusterID settle (round # rounds) r stableSince cache =
     (case over_result (lr_finished round) cache msg_window_ended (lr_start round) of
        Some result \<Rightarrow> Some result
      | None \<Rightarrow>
     (case read (lr_world round) r of ((snapshots, err), r') \<Rightarrow>
     (case merge_all sha256 (lr_clock round) probeID traceID clusterID 0 snapshots cache of (changed, cache') \<Rightarrow>
     (case over_result (lr_finished round) cache' msg_window_ended_reading (lr_read round) of
        Some result \<Rightarrow> Some result
      | None \<Rightarrow>
     (case err of
        Some e \<Rightarrow> Some (failed_result (lr_finished round) cache' (lr_failed round) e)
      | None \<Rightarrow>
          if settled_long settle changed (canSettle cache') stableSince (lr_now round)
          then Some (finish_window (lr_finished round) cache' ProbeCollectionStateSettled [] [])
          else collect_rounds sha256 read probeID traceID clusterID settle rounds r'
            (stable_start changed (canSettle cache') stableSince (lr_now round)) cache')))))"

definition collectProbeWindow ::
    "(string \<Rightarrow> string) \<Rightarrow> ('e, 'r) logReader \<Rightarrow> 'r \<Rightarrow> 'e LogRound list \<Rightarrow> string \<Rightarrow> string \<Rightarrow> string \<Rightarrow> int
     \<Rightarrow> probeLogResult option" where
  "collectProbeWindow sha256 read r rounds probeID traceID clusterID settle =
     collect_rounds sha256 read probeID traceID clusterID settle rounds r None empty_log_cache"

section \<open>The log sources\<close>

definition maxProbeLogBytes :: int where "maxProbeLogBytes = 8 * 1024 * 1024"

text \<open>What a read of the log file meets: failures, or the file's status and its bytes.\<close>

datatype FileView = OpenFailed string | StatFailed string | ReadFailed fileInfo string | FileBytes fileInfo string

text \<open>The file and, per pod and start time, the failed stream or its bytes and how it ended.\<close>

record LogWorld =
  lw_file :: FileView
  lw_stream :: "proxyPod \<Rightarrow> GoTime \<Rightarrow> string + string \<times> string option"

record FileReader =
  fr_fileOffset :: int
  fr_previousFile :: "fileInfo option"

definition reader_seen :: "fileInfo \<Rightarrow> FileReader \<Rightarrow> FileReader" where
  "reader_seen info r =
     \<lparr>fr_fileOffset =
        (if fi_Size info < fr_fileOffset r \<or> file_replaced (Some info) (fr_previousFile r)
         then 0 else fr_fileOffset r),
      fr_previousFile = Some info\<rparr>"

definition file_snapshot :: "string \<Rightarrow> fileInfo \<Rightarrow> int \<Rightarrow> string \<Rightarrow> probeLogSnapshot" where
  "file_snapshot logSource info fileOffset bytes =
     (let skipped = fi_Size info - fileOffset > maxProbeLogBytes;
          offset = (if skipped then fi_Size info - maxProbeLogBytes else fileOffset);
          content = limited (maxProbeLogBytes + 1) (drop (nat offset) bytes);
          long = int (length content) > maxProbeLogBytes
      in \<lparr>ls_source = logSource, ls_runtime = [], ls_pod = [], ls_content = limited maxProbeLogBytes content,
          ls_fileInfo = Some info, ls_offset = offset, ls_incomplete = skipped \<or> long\<rparr>)"

definition read_log_file ::
    "string \<Rightarrow> FileView \<Rightarrow> FileReader \<Rightarrow> (probeLogSnapshot list \<times> string option) \<times> FileReader" where
  "read_log_file path view r =
     (case view of
        OpenFailed e \<Rightarrow> (([], Some (txt_read_log_file @ quoted path @ '': '' @ e)), r)
      | StatFailed e \<Rightarrow> (([], Some e), r)
      | ReadFailed info e \<Rightarrow> (([], Some e), reader_seen info r)
      | FileBytes info bytes \<Rightarrow>
          (([file_snapshot (''file:'' @ path) info (fr_fileOffset (reader_seen info r)) bytes], None),
           reader_seen info r))"

definition pod_identity :: "string \<Rightarrow> proxyPod \<Rightarrow> string" where
  "pod_identity clusterID pod =
     clusterID @ ''/'' @ pod_Namespace pod @ ''/'' @ pod_Name pod @ ''/'' @ pod_UID pod @ ''/'' @ pod_Container pod"

definition pod_snapshot :: "string \<Rightarrow> proxyPod \<Rightarrow> string \<Rightarrow> probeLogSnapshot" where
  "pod_snapshot clusterID pod bytes =
     (let content = limited (maxProbeLogBytes + 1) bytes in
      \<lparr>ls_source = pod_identity clusterID pod, ls_runtime = pod_identity clusterID pod,
       ls_pod = pod_Namespace pod @ ''/'' @ pod_Name pod, ls_content = limited maxProbeLogBytes content,
       ls_fileInfo = None, ls_offset = 0, ls_incomplete = int (length content) > maxProbeLogBytes\<rparr>)"

definition pod_error :: "proxyPod \<Rightarrow> string \<Rightarrow> string" where
  "pod_error pod e = pod_Namespace pod @ ''/'' @ pod_Name pod @ '': '' @ e"

fun read_pods ::
    "string \<Rightarrow> (proxyPod \<Rightarrow> string + string \<times> string option) \<Rightarrow> proxyPod list
     \<Rightarrow> probeLogSnapshot list \<times> string list" where
  "read_pods clusterID stream [] = ([], [])"
| "read_pods clusterID stream (pod # pods) =
     (case read_pods clusterID stream pods of (snapshots, readErrors) \<Rightarrow>
       (case stream pod of
          Inl e \<Rightarrow> (snapshots, pod_error pod e # readErrors)
        | Inr (bytes, None) \<Rightarrow> (pod_snapshot clusterID pod bytes # snapshots, readErrors)
        | Inr (bytes, Some e) \<Rightarrow> (pod_snapshot clusterID pod bytes # snapshots, pod_error pod e # readErrors)))"

definition read_logs ::
    "string \<Rightarrow> string \<Rightarrow> proxyPod list \<Rightarrow> GoTime \<Rightarrow> (LogWorld, FileReader) logReader" where
  "read_logs clusterID probeLogFile pods since world r =
     (if probeLogFile \<noteq> [] then read_log_file probeLogFile (lw_file world) r
      else
        (case read_pods clusterID (\<lambda>pod. lw_stream world pod since) pods of
           (snapshots, readErrors) \<Rightarrow>
             ((snapshots, if readErrors = [] then None else Some (txt_read_pod_logs @ Join readErrors ''; '')), r)))"

definition observeProbeWindow ::
    "(string \<Rightarrow> string) \<Rightarrow> string \<Rightarrow> string \<Rightarrow> gatewayRuntime \<Rightarrow> GoTime \<Rightarrow> int \<Rightarrow> string \<Rightarrow> string \<Rightarrow> LogWorld LogRound list
     \<Rightarrow> probeLogResult option" where
  "observeProbeWindow sha256 clusterID probeLogFile runtime since fileOffset probeID traceID rounds =
     collectProbeWindow sha256 (read_logs clusterID probeLogFile (rt_Pods runtime) since)
       \<lparr>fr_fileOffset = fileOffset, fr_previousFile = None\<rparr> rounds probeID traceID clusterID (500 * 1000000)"

end
