(* ===== verification/Kube_Probe.thy ===== *)
theory Kube_Probe
  imports Probe_Window Go_Url
begin

text \<open>
  \<open>internal/kube/probe.go\<close>: an agent executes a probe (one HTTP request from its cluster, then the
  logs of the source gateway) or observes one (the logs only). The clock, the HTTP client and
  what the rounds of the log window meet are parts of the run \<open>ProbeEnv\<close>; None is a run whose
  log window does not end.
\<close>

section \<open>The store's part\<close>

definition maxProbeBodyBytes :: int where "maxProbeBodyBytes = 64 * 1024"
definition maxProbeAPIKeyBytes :: int where "maxProbeAPIKeyBytes = 8 * 1024"
definition maxProbeResponseBytes :: int where "maxProbeResponseBytes = 1024 * 1024"

definition probeGatewayRuntime :: "KubeStore \<Rightarrow> string \<Rightarrow> string + gatewayRuntime" where
  "probeGatewayRuntime s gatewayID =
     (case map_of (snap_runtimes (ks_snapshot s)) gatewayID of
        None \<Rightarrow> Inl (txt_runtime_not_found @ quoted gatewayID @ txt_runtime_not_found_suffix)
      | Some runtime \<Rightarrow>
          if rt_Pods runtime = [] then Inl (''Gateway '' @ quoted gatewayID @ txt_no_ready_pod) else Inr runtime)"

definition entry_target :: "ProbeEntry \<Rightarrow> URL \<Rightarrow> string" where
  "entry_target entry path =
     url_String (empty_url\<lparr>url_Scheme := entry_Scheme entry,
       url_Host := entry_DNSName entry @ '':'' @ Itoa (entry_Port entry), url_Path := url_Path path,
       url_RawPath := url_RawPath path, url_RawQuery := url_RawQuery path\<rparr>)"

definition local_probe_entry :: "KubeStore \<Rightarrow> string \<Rightarrow> string \<Rightarrow> string \<Rightarrow> string + ProbeEntry \<times> string" where
  "local_probe_entry s gatewayID entryID path =
     (case snap_probeEntries (ks_snapshot s) entryID of
        None \<Rightarrow> Inl (''probe entry '' @ quoted entryID @ '' is not present in the current Kubernetes snapshot'')
      | Some entry \<Rightarrow>
          if \<not> ProbeScheme_IsValid (entry_Scheme entry)
          then Inl (''unsupported probe scheme '' @ quoted (entry_Scheme entry))
          else if entry_GatewayID entry \<noteq> gatewayID
          then Inl (''probe entry '' @ quoted entryID @ '' does not belong to Gateway '' @ quoted gatewayID)
          else
            (case url_ParseRequestURI path of
               None \<Rightarrow> Inl ''probe path must be an absolute HTTP path beginning with /''
             | Some parsedPath \<Rightarrow>
                 if url_IsAbs parsedPath \<or> url_Host parsedPath \<noteq> [] \<or> \<not> HasPrefix (url_Path parsedPath) ''/''
                   \<or> url_Fragment parsedPath \<noteq> []
                 then Inl ''probe path must be an absolute HTTP path beginning with /''
                 else Inr (entry, entry_target entry parsedPath)))"

definition redactedProbeTarget :: "string \<Rightarrow> string" where
  "redactedProbeTarget target =
     (case url_Parse target of
        None \<Rightarrow> target
      | Some parsed \<Rightarrow> url_String (parsed\<lparr>url_RawQuery := [], url_Fragment := [], url_User := None\<rparr>))"

section \<open>Runs\<close>

record ProbeHttpRequest =
  phr_Method :: ProbeHTTPMethod
  phr_Target :: string
  phr_Header :: "string \<rightharpoonup> string"
  phr_Host :: "string option"
  phr_Body :: string

text \<open>
  The request's answer: the client's error, or the status, the bytes the body yields and the
  error of reading it. \<open>env_newRequest\<close> is the error of building a request for a target,
  \<open>env_rounds\<close> the rounds of a log window of the given length.
\<close>

record ProbeEnv =
  env_started :: GoTime
  env_fileSize :: "int option"
  env_newRequest :: "string \<Rightarrow> string option"
  env_do :: "ProbeHttpRequest \<Rightarrow> string + int \<times> string \<times> string option"
  env_responseStarted :: GoTime
  env_responded :: GoTime
  env_rounds :: "int \<Rightarrow> LogWorld LogRound list"
  env_completed :: GoTime

definition probe_request :: "ProbeCommand \<Rightarrow> string \<Rightarrow> ProbeHttpRequest" where
  "probe_request command target =
     \<lparr>phr_Method = pc_Method command, phr_Target = target,
      phr_Header = ([''X-B3-TraceId'' \<mapsto> pc_TraceID command, ''X-GateLens-Probe-ID'' \<mapsto> pc_ProbeID command,
          ''User-Agent'' \<mapsto> ''GateLens-Probe/1.0''])
        ++ (if pc_APIKey command \<noteq> [] then [''Authorization'' \<mapsto> ''Bearer '' @ pc_APIKey command] else Map.empty)
        ++ (if pc_ContentType command \<noteq> [] then [''Content-Type'' \<mapsto> pc_ContentType command] else Map.empty),
      phr_Host = (if pc_Host command \<noteq> [] then Some (pc_Host command) else None),
      phr_Body = pc_Body command\<rparr>"

definition response_limit_issue :: ProbeIssue where
  "response_limit_issue =
     zero_ProbeIssue\<lparr>issue_Scope := ProbeIssueScopeExecution, issue_Code := ProbeIssueCodeResponseLimitExceeded,
       issue_Message := msg_response_limit\<rparr>"

text \<open>What the answer contributes to the result: the HTTP part, the issues, the request's error.\<close>

definition http_answer ::
    "string + int \<times> string \<times> string option \<Rightarrow> ProbeHTTPResult \<Rightarrow> ProbeHTTPResult \<times> ProbeIssue list" where
  "http_answer answer http =
     (case answer of
        Inl e \<Rightarrow> (http\<lparr>http_Error := e\<rparr>, [])
      | Inr (status, body, readErr) \<Rightarrow>
          (let read = int (length (limited (maxProbeResponseBytes + 1) body));
               http' = http\<lparr>http_ResponseCode := status, http_ResponseBytes := read\<rparr>
           in case readErr of
                Some e \<Rightarrow> (http'\<lparr>http_Error := ''read probe response: '' @ e\<rparr>, [])
              | None \<Rightarrow> (http', if read > maxProbeResponseBytes then AppendProbeIssue [] response_limit_issue else [])))"

definition duration_millis :: "GoTime \<Rightarrow> GoTime \<Rightarrow> int" where
  "duration_millis start stop = (let d = time_Sub stop start in sgn d * (\<bar>d\<bar> div 1000000))"

definition bare_result :: "KubeStore \<Rightarrow> ProbeEnv \<Rightarrow> ProbeCommand \<Rightarrow> ProbeAgentResult" where
  "bare_result s env command =
     zero_ProbeAgentResult\<lparr>par_SchemaVersion := ProbeSchemaVersion, par_ProbeID := pc_ProbeID command,
       par_TraceID := pc_TraceID command, par_ClusterID := ks_clusterID s, par_GatewayID := pc_GatewayID command,
       par_StartedAt := format_rfc3339nano (time_UTC (env_started env))\<rparr>"

definition observed_before :: "ObservedHop \<Rightarrow> ObservedHop \<Rightarrow> bool" where
  "observed_before left right \<longleftrightarrow> hop_ObservedAt left < hop_ObservedAt right"

text \<open>What the log window contributes; \<open>missing\<close> words that no record matched.\<close>

definition with_logs :: "ProbeEnv \<Rightarrow> string \<Rightarrow> probeLogResult \<Rightarrow> ProbeAgentResult \<Rightarrow> ProbeAgentResult" where
  "with_logs env missing logs result =
     (let issues = par_Issues result @ pr_issues logs in
      result\<lparr>par_Hops := slice_stable observed_before (pr_hops logs),
        par_Collection := Some (pr_collection logs),
        par_Issues := (if pr_hops logs = []
          then AppendProbeIssue issues (collection_issue ProbeIssueCodeNoMatchingLog missing) else issues),
        par_CompletedAt := format_rfc3339nano (time_UTC (env_completed env))\<rparr>)"

definition ExecuteProbe ::
    "(string \<Rightarrow> string) \<Rightarrow> KubeStore \<Rightarrow> ProbeEnv \<Rightarrow> ProbeCommand \<Rightarrow> (string + ProbeAgentResult) option" where
  "ExecuteProbe sha256 s env command =
     (if \<not> ProbeHTTPMethod_IsValid (pc_Method command)
      then Some (Inl (''unsupported probe method '' @ quoted (pc_Method command)))
      else
     (case probeGatewayRuntime s (pc_GatewayID command) of
        Inl e \<Rightarrow> Some (Inl e)
      | Inr runtime \<Rightarrow>
      if int (length (pc_Body command)) > maxProbeBodyBytes
      then Some (Inl (''probe body exceeds '' @ Itoa maxProbeBodyBytes @ '' bytes''))
      else if int (length (pc_APIKey command)) > maxProbeAPIKeyBytes
          \<or> ContainsAny (pc_APIKey command) [byte 13, byte 10]
      then Some (Inl ''probe API key is invalid'')
      else
     (case local_probe_entry s (pc_GatewayID command) (pc_EntryID command) (pc_Path command) of
        Inl e \<Rightarrow> Some (Inl e)
      | Inr (entry, target) \<Rightarrow>
     (case env_newRequest env target of
        Some e \<Rightarrow> Some (Inl (''create probe request: '' @ e))
      | None \<Rightarrow>
     (case http_answer (env_do env (probe_request command target))
         (zero_ProbeHTTPResult\<lparr>http_Method := pc_Method command, http_Target := redactedProbeTarget target\<rparr>) of
        (http, issues) \<Rightarrow>
     (case observeProbeWindow sha256 (ks_clusterID s) (ks_probeLogFile s) runtime
         (time_Add (env_started env) (- nanos))
         (if ks_probeLogFile s = [] then 0 else (case env_fileSize env of None \<Rightarrow> 0 | Some fileSize \<Rightarrow> fileSize))
         (pc_ProbeID command) (pc_TraceID command) (env_rounds env (2 * nanos)) of
        None \<Rightarrow> None
      | Some logs \<Rightarrow>
          Some (Inr (with_logs env msg_no_higress_log logs
            ((bare_result s env command)\<lparr>
              par_HTTP := Some (http\<lparr>http_DurationMillis :=
                duration_millis (env_responseStarted env) (env_responded env)\<rparr>),
              par_Issues := issues\<rparr>)))))))))"

text \<open>Observing sends no request; it reads the logs since shortly before the probe began.\<close>

definition observe_since :: "ProbeEnv \<Rightarrow> ProbeCommand \<Rightarrow> GoTime" where
  "observe_since env command =
     (case parse_rfc3339 (pc_StartedAt command) of
        None \<Rightarrow> time_Add (env_started env) (- (60 * nanos))
      | Some parsed \<Rightarrow> time_Add parsed (- nanos))"

definition ObserveProbe ::
    "(string \<Rightarrow> string) \<Rightarrow> KubeStore \<Rightarrow> ProbeEnv \<Rightarrow> ProbeCommand \<Rightarrow> (string + ProbeAgentResult) option" where
  "ObserveProbe sha256 s env command =
     (case probeGatewayRuntime s (pc_GatewayID command) of
        Inl e \<Rightarrow> Some (Inl e)
      | Inr runtime \<Rightarrow>
          (case observeProbeWindow sha256 (ks_clusterID s) (ks_probeLogFile s) runtime
              (observe_since env command) 0 (pc_ProbeID command) (pc_TraceID command) (env_rounds env (4 * nanos)) of
             None \<Rightarrow> None
           | Some logs \<Rightarrow> Some (Inr (with_logs env msg_no_gateway_log logs (bare_result s env command)))))"

end
