(* ===== verification/App.thy ===== *)
theory App
  imports Demo_Store Kube_Source Kube_Probe
begin

text \<open>
  Start-up, \<open>internal/app/app.go\<close>: the configuration from the environment, what each mode puts
  together from the demo store, the federation store and the Kubernetes store, and what the
  running program answers. \<open>env\<close> is \<open>os.Getenv\<close> (empty when a variable is not set), \<open>parse_duration\<close> is
  \<open>time.ParseDuration\<close> (its rounding is that of floating-point arithmetic, so it stays an
  argument).
\<close>

record AppConfig =
  app_Address :: string
  app_Mode :: string
  app_ClusterID :: string
  app_AllowedOrigins :: "string list"
  app_AgentServerURL :: string
  app_AgentToken :: string
  app_ClusterName :: string
  app_AgentInterval :: int
  app_StaleAfter :: int
  app_ProbeLogFile :: string
  app_EnableActiveProbes :: bool

definition booleanFromEnv :: "(string \<Rightarrow> string) \<Rightarrow> string \<Rightarrow> bool" where
  "booleanFromEnv env variable \<longleftrightarrow>
     ToLower (TrimSpace (env variable)) \<in> set [''1'', ''true'', ''yes'', ''on'']"

definition splitCommaSeparated :: "string \<Rightarrow> string list" where
  "splitCommaSeparated v =
     filter (\<lambda>item. item \<noteq> []) (map TrimSpace (SplitByte (CHR '','') v))"

definition durationFromEnv ::
    "(string \<Rightarrow> int option) \<Rightarrow> (string \<Rightarrow> string) \<Rightarrow> string \<Rightarrow> int \<Rightarrow> int" where
  "durationFromEnv parse_duration env variable fallback =
     (let v = TrimSpace (env variable) in
      if v = [] then fallback
      else (case parse_duration v of None \<Rightarrow> fallback
            | Some d \<Rightarrow> if d \<le> 0 then fallback else d))"

definition or_default :: "string \<Rightarrow> string \<Rightarrow> string" where
  "or_default v d = (if v = [] then d else v)"

definition ConfigFromEnv :: "(string \<Rightarrow> int option) \<Rightarrow> (string \<Rightarrow> string) \<Rightarrow> AppConfig" where
  "ConfigFromEnv parse_duration env =
     \<lparr>app_Address = or_default (env ''GATELENS_ADDR'') '':8080'',
      app_Mode = or_default (ToLower (env ''GATELENS_MODE'')) ''kubernetes'',
      app_ClusterID = or_default (env ''GATELENS_CLUSTER_ID'') ''in-cluster'',
      app_AllowedOrigins = splitCommaSeparated (env ''GATELENS_ALLOWED_ORIGINS''),
      app_AgentServerURL = env ''GATELENS_SERVER_URL'',
      app_AgentToken = env ''GATELENS_AGENT_TOKEN'',
      app_ClusterName = env ''GATELENS_CLUSTER_NAME'',
      app_AgentInterval = durationFromEnv parse_duration env ''GATELENS_AGENT_INTERVAL'' (30 * nanos),
      app_StaleAfter = durationFromEnv parse_duration env ''GATELENS_STALE_AFTER'' (120 * nanos),
      app_ProbeLogFile = TrimSpace (env ''GATELENS_PROBE_LOG_FILE''),
      app_EnableActiveProbes = booleanFromEnv env ''GATELENS_ENABLE_ACTIVE_PROBES''\<rparr>"

definition displayAddress :: "string \<Rightarrow> string" where
  "displayAddress address =
     (if HasPrefix address '':'' then ''http://localhost'' @ address else ''http://'' @ address)"

section \<open>Putting a mode together\<close>

text \<open>The HTTP handler of a mode from the interfaces its data source implements.\<close>

definition app_handler ::
    "AppConfig \<Rightarrow> 's Reader \<Rightarrow> 's SnapshotReceiver option \<Rightarrow> 's AgentCommandBroker option
     \<Rightarrow> 's ProbeStore option \<Rightarrow> 's Handler" where
  "app_handler config reader receiver commandBroker probes =
     new_handler reader
       ([WithAllowedOrigins (app_AllowedOrigins config)]
        @ (case receiver of None \<Rightarrow> [] | Some r \<Rightarrow> [WithSnapshotReceiver r (app_AgentToken config)])
        @ (case commandBroker of None \<Rightarrow> []
           | Some b \<Rightarrow> [WithAgentCommandBroker b (app_AgentToken config)])
        @ (case probes of None \<Rightarrow> []
           | Some p \<Rightarrow> if app_EnableActiveProbes config then [WithProbeStore p] else []))"

text \<open>Server mode: the federation store behind all interfaces.\<close>

definition server_handler :: "AppConfig \<Rightarrow> Ambient \<Rightarrow> Store Handler" where
  "server_handler config amb =
     app_handler config (hub_Reader amb) (Some (hub_SnapshotReceiver amb))
       (Some (hub_AgentCommandBroker amb)) (Some (hub_ProbeStore amb))"

definition server_store :: "AppConfig \<Rightarrow> Store" where
  "server_store config = NewStore (app_ClusterID config) (app_StaleAfter config)"

text \<open>Agent mode: the runner over the cluster's reader, which also executes probes.\<close>

definition agent_config :: "AppConfig \<Rightarrow> AgentConfig" where
  "agent_config config =
     \<lparr>cfg_ServerURL = app_AgentServerURL config, cfg_Token = app_AgentToken config,
      cfg_ClusterID = app_ClusterID config, cfg_ClusterName = app_ClusterName config,
      cfg_Interval = app_AgentInterval config\<rparr>"

text \<open>
  The cluster's store: what client-go makes of the environment of the pod is given as the host of the API
  server or an error, and the errors of the two clients.
\<close>

record ClientSetup =
  cs_config :: "string + string"
  cs_core :: "string option"
  cs_dynamic :: "string option"

definition NewInCluster :: "string \<Rightarrow> ClientSetup \<Rightarrow> string + KubeStore" where
  "NewInCluster clusterID setup =
     (case cs_config setup of
        Inl e \<Rightarrow> Inl (''create in-cluster config: '' @ e)
      | Inr host \<Rightarrow>
          (case cs_core setup of
             Some e \<Rightarrow> Inl (''create Kubernetes client: '' @ e)
           | None \<Rightarrow>
               (case cs_dynamic setup of
                  Some e \<Rightarrow> Inl (''create dynamic Kubernetes client: '' @ e)
                | None \<Rightarrow> Inr (New clusterID host))))"

text \<open>
  The store as the executor of probes. A run of log reads that never ends does not return; where the
  window's last round is over its time a result comes back (theory \<open>Probe_Window\<close>), so
  the text for the absent result is never seen.
\<close>

record KubeProbeAmbient =
  kp_sha256 :: "string \<Rightarrow> string"
  kp_env :: "CommandContext \<Rightarrow> ProbeCommand \<Rightarrow> ProbeEnv"

definition returned :: "(string + 'a) option \<Rightarrow> string + 'a" where
  "returned r = (case r of None \<Rightarrow> Inl ''no return'' | Some x \<Rightarrow> x)"

definition kube_ProbeExecutor :: "KubeProbeAmbient \<Rightarrow> KubeStore ProbeExecutor" where
  "kube_ProbeExecutor kp =
     \<lparr>pe_ExecuteProbe = (\<lambda>ctx command s. (returned (ExecuteProbe (kp_sha256 kp) s (kp_env kp ctx command) command), s)),
      pe_ObserveProbe = (\<lambda>ctx command s. (returned (ObserveProbe (kp_sha256 kp) s (kp_env kp ctx command) command), s))\<rparr>"

text \<open>A mode's program: the handler it serves, or the agent it runs, over its store.\<close>

datatype Program =
    ServeDemo "DemoStore Handler" DemoStore
  | ServeHub "Store Handler" Store
  | ServeCluster "KubeStore Handler" KubeStore
  | RunAgent "KubeStore Runner" KubeStore

record Surroundings =
  su_clock :: GoTime
  su_hub :: Ambient
  su_kube :: KubeAmbient
  su_probes :: KubeProbeAmbient
  su_setup :: ClientSetup

text \<open>What \<open>Run\<close> starts, or the error it returns at once.\<close>

definition Run_program :: "Surroundings \<Rightarrow> AppConfig \<Rightarrow> string + Program" where
  "Run_program su config =
     (if app_Mode config = ''demo'' then
        Inr (ServeDemo (app_handler config demo_Reader None None (Some (demo_ProbeStore (su_clock su)))) demo_NewStore)
      else if app_Mode config = ''server'' then
        Inr (ServeHub (server_handler config (su_hub su)) (server_store config))
      else if app_Mode config = ''agent'' then
        (case NewInCluster (app_ClusterID config) (su_setup su) of
           Inl e \<Rightarrow> Inl e
         | Inr s \<Rightarrow>
             map_sum id (\<lambda>runner. RunAgent runner (SetProbeLogFile (app_ProbeLogFile config) s))
               (new_runner (kube_Reader (su_kube su)) (Some (kube_ProbeExecutor (su_probes su))) (agent_config config)))
      else if app_Mode config = ''kubernetes'' then
        map_sum id (ServeCluster (app_handler config (kube_Reader (su_kube su) CtxInherited) None None None))
          (NewInCluster (app_ClusterID config) (su_setup su))
      else Inl (''unsupported GATELENS_MODE '' @ quoted (app_Mode config)))"

text \<open>An agent listens to nobody; the other programs answer a request by their handler.\<close>

fun answer :: "Codec \<Rightarrow> HttpRequest \<Rightarrow> Program \<Rightarrow> (HttpResponse \<times> Program) option" where
  "answer codec r (ServeDemo h s) = Some (map_prod id (ServeDemo h) (ServeHTTP codec h r s))"
| "answer codec r (ServeHub h s) = Some (map_prod id (ServeHub h) (ServeHTTP codec h r s))"
| "answer codec r (ServeCluster h s) = Some (map_prod id (ServeCluster h) (ServeHTTP codec h r s))"
| "answer codec r (RunAgent runner s) = None"

text \<open>
  How serving ends: the listener stops, by \<open>http.ErrServerClosed\<close> (\<open>None\<close>) or another error, or the
  context ends and the server shuts down, with or without an error.
\<close>

datatype ServeEnd = ListenerStopped "string option" | ContextDone "string option"

fun serve_error :: "ServeEnd \<Rightarrow> string option" where
  "serve_error (ListenerStopped None) = None"
| "serve_error (ListenerStopped (Some e)) = Some e"
| "serve_error (ContextDone shutdown) = shutdown"

section \<open>Properties\<close>

lemma server_handler_fields:
  "hd_store (server_handler config amb) = hub_Reader amb"
  "hd_snapshotReceiver (server_handler config amb) = Some (hub_SnapshotReceiver amb)"
  "hd_agentCommands (server_handler config amb) = Some (hub_AgentCommandBroker amb)"
  "hd_probes (server_handler config amb) =
     (if app_EnableActiveProbes config then Some (hub_ProbeStore amb) else None)"
  "hd_agentToken (server_handler config amb) = app_AgentToken config"
  by (simp_all add: server_handler_def app_handler_def new_handler_def WithAllowedOrigins_def
    WithSnapshotReceiver_def WithAgentCommandBroker_def WithProbeStore_def)

lemma app_handler_fields:
  "hd_probes (app_handler config reader receiver broker probes) =
     (if app_EnableActiveProbes config then probes else None)"
  "hd_snapshotReceiver (app_handler config reader receiver broker probes) = receiver"
  "hd_agentCommands (app_handler config reader receiver broker probes) = broker"
  by (simp_all add: app_handler_def new_handler_def WithAllowedOrigins_def WithSnapshotReceiver_def
    WithAgentCommandBroker_def WithProbeStore_def split: option.split)

lemma map_sum_Inr: "map_sum id f x = Inr y \<longleftrightarrow> (\<exists>z. x = Inr z \<and> y = f z)"
  by (cases x) auto

lemma map_prod_id_Pair: "map_prod id f x = (a, b) \<longleftrightarrow> a = fst x \<and> b = f (snd x)"
  by (cases x) auto

lemma probes_disabled:
  assumes "hd_probes h = None" "request_route r \<in> insert R_createProbe (range R_getProbe)"
  shows "rs_Status (fst (ServeHTTP codec h r s)) = 404 \<and> snd (ServeHTTP codec h r s) = s"
  using assms by (auto simp: ServeHTTP_def createProbe_endpoint_def getProbe_endpoint_def)

lemma agents_disabled:
  assumes "hd_snapshotReceiver h = None" "hd_agentCommands h = None" "agent_route (request_route r)"
  shows "rs_Status (fst (ServeHTTP codec h r s)) = 404 \<and> snd (ServeHTTP codec h r s) = s"
  using assms
  by (auto simp: agent_route_def ServeHTTP_def receiveSnapshot_endpoint_def nextAgentCommand_endpoint_def
      completeAgentCommand_endpoint_def)

text \<open>
  What a started program offers is what its mode and its environment ask for. Unless the environment switches
  active probes on with an affirmative value, every mode answers every probe request and every lookup with
  404 and nothing changes; mode kubernetes does so always, and outside server mode the endpoints of the agents
  answer 404 and nothing changes.
\<close>

theorem offers_are_opt_in:
  assumes "Run_program su (ConfigFromEnv parse_duration env) = Inr program" "answer codec r program = Some (w, program')"
    and "request_route r \<in> insert R_createProbe (range R_getProbe)
           \<and> (\<not> booleanFromEnv env ''GATELENS_ENABLE_ACTIVE_PROBES'' \<or> ToLower (env ''GATELENS_MODE'') = ''kubernetes'')
         \<or> agent_route (request_route r) \<and> ToLower (env ''GATELENS_MODE'') \<noteq> ''server''"
  shows "rs_Status w = 404 \<and> program' = program"
proof -
  let ?config = "ConfigFromEnv parse_duration env"
  have config: "app_EnableActiveProbes ?config = booleanFromEnv env ''GATELENS_ENABLE_ACTIVE_PROBES''"
    "app_Mode ?config = or_default (ToLower (env ''GATELENS_MODE'')) ''kubernetes''"
    by (simp_all add: ConfigFromEnv_def)
  have disabled: "rs_Status (fst (ServeHTTP codec h r s)) = 404 \<and> snd (ServeHTTP codec h r s) = s"
    if "request_route r \<in> insert R_createProbe (range R_getProbe) \<and> hd_probes h = None
      \<or> agent_route (request_route r) \<and> hd_snapshotReceiver h = None \<and> hd_agentCommands h = None"
    for h and s :: 's
    using that probes_disabled [of h r codec s] agents_disabled [of h r codec s] by blast
  show ?thesis
  proof (cases program)
    case (ServeDemo h s)
    then have "h = app_handler ?config demo_Reader None None (Some (demo_ProbeStore (su_clock su)))"
      "app_Mode ?config = ''demo''"
      using assms(1) by (auto simp: Run_program_def map_sum_Inr split: if_splits sum.splits)
    with ServeDemo assms(2,3) disabled [of h s] show ?thesis
      by (auto simp: app_handler_fields map_prod_id_Pair config or_default_def split: if_splits)
  next
    case (ServeHub h s)
    then have "h = server_handler ?config (su_hub su)" "app_Mode ?config = ''server''"
      using assms(1) by (auto simp: Run_program_def map_sum_Inr split: if_splits sum.splits)
    with ServeHub assms(2,3) disabled [of h s] show ?thesis
      by (auto simp: server_handler_fields map_prod_id_Pair config or_default_def split: if_splits)
  next
    case (ServeCluster h s)
    then have "h = app_handler ?config (kube_Reader (su_kube su) CtxInherited) None None None"
      using assms(1) by (auto simp: Run_program_def map_sum_Inr split: if_splits sum.splits)
    with ServeCluster assms(2,3) disabled [of h s] show ?thesis by (auto simp: app_handler_fields map_prod_id_Pair)
  next
    case (RunAgent runner s)
    with assms(2) show ?thesis by simp
  qed
qed

definition sample_probe_post :: HttpRequest where
  "sample_probe_post = sample_agent_request\<lparr>rq_URL := empty_url\<lparr>url_Path := ''/api/v1/probes''\<rparr>\<rparr>"

lemma sample_probe_post_route: "request_route sample_probe_post = R_createProbe"
  by code_simp

definition demo_environment :: "string \<Rightarrow> string" where
  "demo_environment variable = (if variable = ''GATELENS_MODE'' then ''Demo'' else [])"

lemma offers_are_opt_in_witness:
  "\<forall>su codec. \<exists>program w. Run_program su (ConfigFromEnv (\<lambda>_. None) demo_environment) = Inr program
     \<and> answer codec sample_probe_post program = Some (w, program) \<and> rs_Status w = 404"
proof (intro allI)
  fix su codec
  have mode: "ToLower (demo_environment ''GATELENS_MODE'') = ''demo''" by code_simp
  have off: "\<not> booleanFromEnv demo_environment ''GATELENS_ENABLE_ACTIVE_PROBES''"
    by (simp add: booleanFromEnv_def demo_environment_def ToLower_def)
  obtain h s where program: "Run_program su (ConfigFromEnv (\<lambda>_. None) demo_environment) = Inr (ServeDemo h s)"
    by (simp add: Run_program_def ConfigFromEnv_def mode or_default_def)
  obtain w program' where answered: "answer codec sample_probe_post (ServeDemo h s) = Some (w, program')"
    by (cases "ServeHTTP codec h sample_probe_post s") simp
  from offers_are_opt_in [OF program answered] off
  have "rs_Status w = 404 \<and> program' = ServeDemo h s" by (simp add: sample_probe_post_route)
  with program answered show "\<exists>program w. Run_program su (ConfigFromEnv (\<lambda>_. None) demo_environment) = Inr program
     \<and> answer codec sample_probe_post program = Some (w, program) \<and> rs_Status w = 404" by blast
qed

end
