(* ===== verification/Kube_Runtime_Facts.thy ===== *)
theory Kube_Runtime_Facts
  imports Kube_Source
begin

text \<open>
  The runtimes and probe entries of a rebuilt snapshot: every runtime has ready proxy pods of the
  cluster, and every entry belongs to a runtime, so that the agent can execute what the topology
  advertises.
\<close>

section \<open>Proxy pods\<close>

text \<open>
  What makes a container the proxy of a kind of gateway: its name, or a word of its name and
  image, whatever the case.
\<close>

definition mentions :: "Container \<Rightarrow> string \<Rightarrow> bool" where
  "mentions container word \<longleftrightarrow> Contains (ToLower (ct_Name container @ '' '' @ ct_Image container)) word"

definition runs_proxy :: "string \<Rightarrow> Container \<Rightarrow> bool" where
  "runs_proxy kind container \<longleftrightarrow>
     (kind = ''istio'' \<longrightarrow> ct_Name container = ''istio-proxy'' \<or> mentions container ''proxyv2'')
     \<and> (kind = ''higress'' \<longrightarrow> ToLower (ct_Name container) = ''higress-gateway''
          \<or> mentions container ''higress'' \<and> mentions container ''gateway'')
     \<and> (kind = ''envoy'' \<longrightarrow> ct_Name container = ''envoy'' \<or> Contains (ToLower (ct_Image container)) ''envoyproxy/envoy'')"

text \<open>
  A proxy pod stands for a pod of the store that is running, ready and not being deleted, with one
  of its containers, a proxy of the kind.
\<close>

definition stands_for :: "string \<Rightarrow> proxyPod \<Rightarrow> Pod \<Rightarrow> bool" where
  "stands_for kind p pod \<longleftrightarrow>
     pd_Phase pod = ''Running'' \<and> \<not> pd_Deleting pod \<and> map_of (pd_Conditions pod) ''Ready'' = Some ''True''
     \<and> pod_Name p = pd_Name pod \<and> pod_Namespace p = pd_Namespace pod \<and> pod_UID p = pd_UID pod
     \<and> pod_Labels p = pd_Labels pod \<and> pod_Container p \<noteq> []
     \<and> (\<exists>container \<in> set (pd_Containers pod). pod_Container p = ct_Name container \<and> runs_proxy kind container)"

text \<open>A runtime has pods, and all run the proxy of the kind that its controller names.\<close>

definition runtime_ok :: "Pod list \<Rightarrow> gatewayRuntime \<Rightarrow> bool" where
  "runtime_ok pods runtime \<longleftrightarrow>
     rt_Pods runtime \<noteq> []
     \<and> (\<exists>kind \<in> {''higress'', ''istio'', ''envoy''}. Contains (ToLower (rt_Controller runtime)) kind
          \<and> (\<forall>p \<in> set (rt_Pods runtime). \<exists>pod \<in> set pods. stands_for kind p pod))"

lemma find_member: "find Q xs = Some x \<Longrightarrow> x \<in> set xs"
  by (auto simp: find_Some_iff)

lemma is_proxy_container_runs: "is_proxy_container kind container \<Longrightarrow> runs_proxy kind container"
  by (auto simp: is_proxy_container_def runs_proxy_def mentions_def Let_def)

lemma proxyContainer_found:
  assumes "proxyContainer pod kind \<noteq> []"
  obtains container where "container \<in> set (pd_Containers pod)" "proxyContainer pod kind = ct_Name container"
    "is_proxy_container kind container"
proof -
  from assms obtain container where "find (is_proxy_container kind) (pd_Containers pod) = Some container"
    by (auto simp: proxyContainer_def split: option.splits)
  moreover from this have "container \<in> set (pd_Containers pod)" "is_proxy_container kind container"
    by (auto simp: find_Some_iff)
  ultimately show thesis by (intro that) (simp_all add: proxyContainer_def)
qed

lemma proxyContainer_kind: "proxyContainer pod kind \<noteq> [] \<Longrightarrow> kind \<in> {''higress'', ''istio'', ''envoy''}"
  by (auto simp: is_proxy_container_def Let_def elim!: proxyContainer_found)

lemma proxy_pod_stands_for:
  assumes "podReady pod" "proxyContainer pod kind \<noteq> []"
  shows "stands_for kind (proxy_pod kind pod) pod"
  using assms
  by (auto simp: stands_for_def proxy_pod_def podReady_def split: option.splits
      elim!: proxyContainer_found dest: is_proxy_container_runs)

lemma proxy_pods_ok:
  assumes "set (rt_Pods runtime) \<subseteq> proxy_pod kind ` {pod \<in> set pods. podReady pod \<and> proxyContainer pod kind \<noteq> []}"
    "rt_Pods runtime \<noteq> []"
    and "kind \<in> {''higress'', ''istio'', ''envoy''} \<Longrightarrow> Contains (ToLower (rt_Controller runtime)) kind"
  shows "runtime_ok pods runtime"
proof -
  have stands: "\<exists>pod \<in> set pods. stands_for kind p pod" if "p \<in> set (rt_Pods runtime)" for p
    using assms(1) that proxy_pod_stands_for by blast
  moreover obtain pod where "proxyContainer pod kind \<noteq> []"
    using assms(1,2) by (cases "rt_Pods runtime") auto
  then have "kind \<in> {''higress'', ''istio'', ''envoy''}" by (rule proxyContainer_kind)
  ultimately show ?thesis
    using assms(2,3) unfolding runtime_ok_def by blast
qed

lemma inferredController_names:
  assumes "kind \<in> {''higress'', ''istio'', ''envoy''}"
  shows "Contains (ToLower (inferredController kind)) kind"
proof -
  have "Contains (ToLower (inferredController ''higress'')) ''higress''" "Contains (ToLower (inferredController ''istio'')) ''istio''"
    "Contains (ToLower (inferredController ''envoy'')) ''envoy''"
    by code_simp+
  then show ?thesis using assms by auto
qed

lemma gatewayControllerKind_names:
  "gatewayControllerKind controller \<noteq> [] \<Longrightarrow> Contains (ToLower controller) (gatewayControllerKind controller)"
  by (auto simp: gatewayControllerKind_def Let_def)

lemma gatewayControllerKind_Nil: "gatewayControllerKind [] = []"
  by code_simp

section \<open>Runtimes of Gateways\<close>

lemma score_pods:
  "set (snd (fold (score_pod gateway kind) pods acc))
     \<subseteq> set (snd acc) \<union> {pod \<in> set pods. podReady pod \<and> proxyContainer pod kind \<noteq> []}"
proof (induction pods arbitrary: acc)
  case (Cons pod pods)
  have "set (snd (score_pod gateway kind pod acc))
      \<subseteq> set (snd acc) \<union> {p. p = pod \<and> podReady pod \<and> proxyContainer pod kind \<noteq> []}"
    by (auto simp: score_pod_def Let_def split: prod.splits if_splits)
  with Cons [of "score_pod gateway kind pod acc"] show ?case by fastforce
qed simp

lemma resolveGatewayRuntime_ok:
  assumes "resolveGatewayRuntime lib gateway classes deployments pods = Some runtime"
  shows "runtime_ok (List.map_filter as_pod pods) runtime" "rt_GatewayID runtime = gateway_id gateway"
proof -
  define kind where "kind = gatewayControllerKind
    (case classes (lib_NestedString lib (un_Object gateway) [''spec'', ''gatewayClassName'']) of None \<Rightarrow> [] | Some c \<Rightarrow> c)"
  let ?pods = "List.map_filter as_pod pods"
  define found where "found = slice_stable pod_before (snd (fold (score_pod gateway kind) ?pods (0, [])))"
  have found_ok: "set found \<subseteq> {pod \<in> set ?pods. podReady pod \<and> proxyContainer pod kind \<noteq> []}"
    using score_pods [of gateway kind ?pods "(0, [])"] by (simp add: found_def)
  have pods: "set (rt_Pods runtime) \<subseteq> proxy_pod kind ` set found" "rt_Pods runtime \<noteq> []"
    and id: "rt_GatewayID runtime = gateway_id gateway"
    using assms unfolding resolveGatewayRuntime_def Let_def kind_def [symmetric] found_def [symmetric]
    by (auto simp: selected_pods_def split: if_splits list.splits option.splits sum.splits)
  have "kind \<noteq> [] \<Longrightarrow> Contains (ToLower (rt_Controller runtime)) kind"
    using assms unfolding resolveGatewayRuntime_def Let_def
    by (auto simp: kind_def gatewayControllerKind_names gatewayControllerKind_Nil split: if_splits list.splits option.splits prod.splits)
  moreover have "kind \<in> {''higress'', ''istio'', ''envoy''} \<Longrightarrow> kind \<noteq> []" by auto
  ultimately have names: "kind \<in> {''higress'', ''istio'', ''envoy''} \<Longrightarrow> Contains (ToLower (rt_Controller runtime)) kind"
    by blast
  show "runtime_ok ?pods runtime"
    by (rule proxy_pods_ok [where kind = kind]) (use pods found_ok names in auto)
  show "rt_GatewayID runtime = gateway_id gateway" by (rule id)
qed

section \<open>Standalone runtimes\<close>

lemma standaloneGatewayKind_container:
  "standaloneGatewayKind deployment pod = kind \<Longrightarrow> kind \<noteq> [] \<Longrightarrow> proxyContainer pod kind \<noteq> []"
  by (auto simp: standaloneGatewayKind_def runs_kind_def find_Some_iff nth_Cons' split: if_splits option.splits)

lemma select_pods:
  assumes "fold (select_pod deployment selector) pods acc = (kind, selected)"
    "set (snd acc) \<subseteq> {pod \<in> P. podReady pod \<and> proxyContainer pod (fst acc) \<noteq> []}" "fst acc = [] \<Longrightarrow> snd acc = []"
    "set pods \<subseteq> P"
  shows "set selected \<subseteq> {pod \<in> P. podReady pod \<and> proxyContainer pod kind \<noteq> []}"
  using assms
proof (induction pods arbitrary: acc)
  case (Cons pod pods)
  show ?case
    by (rule Cons.IH [of "select_pod deployment selector pod acc"])
      (use Cons.prems standaloneGatewayKind_container in
        \<open>auto simp: select_pod_def Let_def split: prod.splits if_splits\<close>)
qed auto

section \<open>The runtimes of a snapshot\<close>

definition standalone_key :: "string \<Rightarrow> bool" where
  "standalone_key k \<longleftrightarrow> HasPrefix k ''gateway-runtime/''"

text \<open>
  Each Gateway with a runtime is a node of the topology, and no Deployment is the workload of a
  Gateway and shown as a gateway of its own as well.
\<close>

definition runtimes_ok :: "Pod list \<Rightarrow> snapshot \<Rightarrow> bool" where
  "runtimes_ok pods s \<longleftrightarrow> distinct (map fst (snap_runtimes s))
     \<and> (\<forall>(k, runtime) \<in> set (snap_runtimes s).
          rt_GatewayID runtime = k \<and> runtime_ok pods runtime
          \<and> (k, TopologyNodeKindGateway) \<in> snap_sorts s)"

lemma runtimes_ok_nodes:
  "runtimes_ok pods s \<Longrightarrow> snap_runtimes s' = snap_runtimes s \<Longrightarrow>
     snap_sorts s \<subseteq> snap_sorts s' \<Longrightarrow> runtimes_ok pods s'"
  unfolding runtimes_ok_def by fastforce

lemma set_runtime_ok:
  assumes "runtimes_ok pods s" "runtime_ok pods runtime" 
    "(rt_GatewayID runtime, TopologyNodeKindGateway) \<in> snap_sorts s"
  shows "runtimes_ok pods (set_runtime runtime s)"
proof -
  let ?after = "AList.update (rt_GatewayID runtime) runtime (snap_runtimes s)"
  have ok: "rt_GatewayID r = k \<and> runtime_ok pods r \<and> (k, TopologyNodeKindGateway) \<in> snap_sorts s"
    if "(k, r) \<in> set (snap_runtimes s)" for k r
    using assms(1) that unfolding runtimes_ok_def by blast
  have d: "distinct (map fst (snap_runtimes s))" using assms(1) by (simp add: runtimes_ok_def)
  have "rt_GatewayID r = k \<and> runtime_ok pods r \<and> (k, TopologyNodeKindGateway) \<in> snap_sorts s"
    if "(k, r) \<in> set ?after" for k r
    using set_update_cases [OF that d] ok assms(2,3) by metis
  moreover have "distinct (map fst ?after)" using d by (rule distinct_update)
  ultimately show ?thesis by (simp add: runtimes_ok_def split_beta) (simp add: set_runtime_def split_paired_all)
qed

text \<open>The pods a rebuild looks at.\<close>

definition pods_of :: "KubeStores \<Rightarrow> Pod list" where
  "pods_of st = List.map_filter as_pod (optional_store (in_pods st))"

lemma both_stores_pods: "both_stores st = Some (d, p) \<Longrightarrow> List.map_filter as_pod p = pods_of st"
  by (auto simp: both_stores_def pods_of_def optional_store_def split: option.splits)

text \<open>Which workloads the runtimes have: those of Gateways are claimed, those of Deployments are not.\<close>

definition claims :: "string set \<Rightarrow> snapshot \<Rightarrow> bool" where
  "claims claimed s \<longleftrightarrow>
     (\<forall>(k, runtime) \<in> set (snap_runtimes s). standalone_key k \<longleftrightarrow> rt_WorkloadID runtime \<notin> claimed)"

definition gateways_only :: "snapshot \<Rightarrow> bool" where
  "gateways_only s \<longleftrightarrow> (\<forall>k \<in> fst ` set (snap_runtimes s). \<not> standalone_key k)"

lemma gateway_key [simp]: "\<not> standalone_key (gateway_id gateway)"
  by (simp add: standalone_key_def HasPrefix_def gateway_id_def)

lemma standalone_keys [simp]: "standalone_key (rt_GatewayID (standalone_runtime deployment kind selected))"
  by (simp add: standalone_key_def HasPrefix_def standalone_runtime_def)

lemma add_listeners_same:
  "snap_runtimes (fold (add_listener c g) ls s) = snap_runtimes s
   \<and> snap_sorts s \<subseteq> snap_sorts (fold (add_listener c g) ls s)"
  by (induction ls arbitrary: s) (fastforce simp: add_listener_def)+

lemma gateway_node_sort [simp]: "node_sort (gateway_node lib c gateway) = (gateway_id gateway, TopologyNodeKindGateway)"
  by (simp add: gateway_node_def kube_node_def node_sort_def)

text \<open>Nodes with the identity of a standalone gateway are gateways.\<close>

definition standalone_nodes :: "snapshot \<Rightarrow> bool" where
  "standalone_nodes s \<longleftrightarrow>
     (\<forall>(i, kind) \<in> snap_sorts s. standalone_key i \<longrightarrow> kind = TopologyNodeKindGateway)"

lemma add_gateway_standalone_nodes:
  assumes "standalone_nodes s"
  shows "standalone_nodes (add_gateway lib c st classes g s)"
proof -
  have "\<not> standalone_key (node_ID (listener_node c g l))" for l
    by (simp add: listener_node_def listener_id_def gateway_id_def standalone_key_def HasPrefix_def Let_def)
  then have "standalone_nodes (fold (add_listener c g) ls t)" if "standalone_nodes t" for ls t
    by (intro fold_invariant [where Q = "\<lambda>_. True" and P = standalone_nodes])
      (use that in \<open>auto simp: standalone_nodes_def add_listener_def node_sort_def\<close>)
  moreover have "standalone_nodes (push_node (gateway_node lib c g) s)"
    using assms by (auto simp: standalone_nodes_def)
  moreover have "standalone_nodes (addGatewayRuntime lib g classes d p t)" if "standalone_nodes t" for d p t
    using that by (simp add: standalone_nodes_def addGatewayRuntime_def split: option.split)
  ultimately show ?thesis unfolding add_gateway_def Let_def by (auto split: option.split)
qed

lemma add_gateway_ok:
  assumes "runtimes_ok (pods_of st) s" "gateways_only s"
  shows "runtimes_ok (pods_of st) (add_gateway lib c st classes g s) \<and> gateways_only (add_gateway lib c st classes g s)"
proof -
  let ?pushed = "push_node (gateway_node lib c g) s"
  define after where "after = (case both_stores st of
    None \<Rightarrow> ?pushed | Some (d, p) \<Rightarrow> addGatewayRuntime lib g classes d p ?pushed)"
  have pushed: "runtimes_ok (pods_of st) ?pushed" "gateways_only ?pushed"
    using assms by (auto intro: runtimes_ok_nodes simp: gateways_only_def)
  have "runtimes_ok (pods_of st) after \<and> gateways_only after"
  proof (cases "both_stores st")
    case (Some dp)
    then obtain d p where dp: "both_stores st = Some (d, p)" by (cases dp) auto
    show ?thesis
    proof (cases "resolveGatewayRuntime lib g classes d p")
      case (Some runtime)
      note ok = resolveGatewayRuntime_ok [OF Some, unfolded both_stores_pods [OF dp]]
      have set_ok: "runtimes_ok (pods_of st) (set_runtime runtime ?pushed)"
        by (rule set_runtime_ok) (use pushed ok in simp_all)
      moreover have "gateways_only (set_runtime runtime ?pushed)"
        using pushed(2) ok(2) by (auto simp: gateways_only_def set_runtime_def dom_update)
      ultimately show ?thesis
        unfolding after_def dp addGatewayRuntime_def Some option.case prod.case
        by (intro conjI runtimes_ok_nodes [OF set_ok]) (auto simp: gateways_only_def snap_sorts_def update_node_sorts)
    qed (use pushed in \<open>simp add: after_def dp addGatewayRuntime_def\<close>)
  qed (use pushed in \<open>simp add: after_def\<close>)
  with add_listeners_same [of c g _ after] show ?thesis
    unfolding add_gateway_def Let_def after_def [symmetric] by (metis gateways_only_def runtimes_ok_nodes)
qed

lemma add_gateways_ok:
  "runtimes_ok (pods_of st) (add_gateways lib s st (start_snapshot s st now))
   \<and> gateways_only (add_gateways lib s st (start_snapshot s st now))"
proof -
  have "runtimes_ok (pods_of st) (start_snapshot s st now) \<and> gateways_only (start_snapshot s st now)"
    by (simp add: runtimes_ok_def gateways_only_def)
  then show ?thesis
    unfolding add_gateways_def
    by (intro fold_invariant [where Q = "\<lambda>_. True" and P = "\<lambda>t. runtimes_ok (pods_of st) t \<and> gateways_only t"])
      (simp_all add: add_gateway_ok)
qed

lemma set_runtime_add_node: "add_node n (set_runtime r s) = set_runtime r (add_node n s)"
  by (simp add: add_node_def set_runtime_def set_nodes_def)

lemma add_gateways_standalone_nodes: "standalone_nodes (add_gateways lib s st (start_snapshot s st now))"
  unfolding add_gateways_def
  by (rule fold_invariant [where Q = "\<lambda>_. True" and P = standalone_nodes])
    (simp_all add: add_gateway_standalone_nodes, simp add: standalone_nodes_def snap_sorts_def)

lemma standalone_added:
  assumes "standalone_nodes s" "r = standalone_runtime deployment kind selected"
  shows "(rt_GatewayID r, TopologyNodeKindGateway) \<in> snap_sorts (add_node (standalone_node c r) s)"
proof -
  have new: "node_sort (standalone_node c r) = (rt_GatewayID r, TopologyNodeKindGateway)"
    by (simp add: node_sort_def standalone_node_def)
  show ?thesis
  proof (cases "rt_GatewayID r \<in> node_ID ` set (snap_nodes s)")
    case True
    then obtain kind where kind: "(rt_GatewayID r, kind) \<in> snap_sorts s" by (force simp: snap_sorts_def node_sort_def)
    with assms have "kind = TopologyNodeKindGateway" by (auto simp: standalone_nodes_def)
    with kind show ?thesis by (simp add: snap_sorts_add_node)
  qed (use new in \<open>simp add: snap_sorts_add_node standalone_node_def\<close>)
qed

lemma add_standalone_nodes: "standalone_nodes s \<Longrightarrow> standalone_nodes (add_standalone lib claimed pods deployment s)"
  by (auto simp: add_standalone_def Let_def standalone_nodes_def snap_sorts_add_node node_sort_def standalone_node_def
      split: sum.split prod.split)

lemma add_standalone_ok:
  assumes "runtimes_ok pods s" "claims claimed s" "standalone_nodes s"
  shows "runtimes_ok pods (add_standalone lib claimed pods deployment s) \<and> claims claimed (add_standalone lib claimed pods deployment s)"
proof -
  have added: "runtimes_ok pods (add_node (standalone_node (cluster_of s) r) (set_runtime r s))
      \<and> claims claimed (add_node (standalone_node (cluster_of s) r) (set_runtime r s))"
    if found: "fold (select_pod deployment selector) pods ([], []) = (kind, selected)" "selected \<noteq> []"
      and free: "workload_id deployment \<notin> claimed" and r: "r = standalone_runtime deployment kind selected"
    for kind selected selector r
  proof
    have "set selected \<subseteq> {pod \<in> set pods. podReady pod \<and> proxyContainer pod kind \<noteq> []}"
      by (rule select_pods [OF found(1)]) simp_all
    then have "runtime_ok pods r"
      unfolding r by (intro proxy_pods_ok [where kind = kind])
        (auto simp: standalone_runtime_def found(2) inferredController_names)
    moreover have "runtimes_ok pods (add_node (standalone_node (cluster_of s) r) s)"
      using assms(1) by (rule runtimes_ok_nodes) (auto simp: snap_sorts_add_node)
    ultimately show "runtimes_ok pods (add_node (standalone_node (cluster_of s) r) (set_runtime r s))"
      unfolding set_runtime_add_node by (intro set_runtime_ok) (simp_all add: standalone_added [OF assms(3) r])
    have "rt_WorkloadID r \<notin> claimed" "standalone_key (rt_GatewayID r)"
      using free by (simp add: r standalone_runtime_def) (simp add: r)
    moreover have "(k, x) \<in> set (snap_runtimes s) \<or> k = rt_GatewayID r \<and> x = r"
      if "(k, x) \<in> set (AList.update (rt_GatewayID r) r (snap_runtimes s))" for k x
      using that set_update_cases assms(1) unfolding runtimes_ok_def by metis
    ultimately show "claims claimed (add_node (standalone_node (cluster_of s) r) (set_runtime r s))"
      using assms(2) by (fastforce simp: claims_def set_runtime_def)
  qed
  show ?thesis
    unfolding add_standalone_def Let_def
    by (auto simp: assms split: sum.split prod.split dest: added)
qed

lemma add_runtimes_standalone:
  assumes "runtimes_ok pods s" "gateways_only s" "List.map_filter as_pod podItems = pods" "standalone_nodes s"
  shows "\<exists>claimed. runtimes_ok pods (addStandaloneGatewayRuntimes lib deployments podItems s)
    \<and> claims claimed (addStandaloneGatewayRuntimes lib deployments podItems s)"
proof
  let ?claimed = "set (map (\<lambda>r. rt_WorkloadID (snd r)) (snap_runtimes s))"
  have "claims ?claimed s" using assms(2) by (force simp: claims_def gateways_only_def)
  then have "runtimes_ok pods (addStandaloneGatewayRuntimes lib deployments podItems s)
      \<and> claims ?claimed (addStandaloneGatewayRuntimes lib deployments podItems s)
      \<and> standalone_nodes (addStandaloneGatewayRuntimes lib deployments podItems s)"
    unfolding addStandaloneGatewayRuntimes_def assms(3)
    by (intro fold_invariant [where Q = "\<lambda>_. True" and
          P = "\<lambda>t. runtimes_ok pods t \<and> claims ?claimed t \<and> standalone_nodes t"])
      (simp_all add: assms(1,4) add_standalone_ok add_standalone_nodes)
  then show "runtimes_ok pods (addStandaloneGatewayRuntimes lib deployments podItems s)
      \<and> claims ?claimed (addStandaloneGatewayRuntimes lib deployments podItems s)" by blast
qed

section \<open>Probe entries\<close>

text \<open>An entry is a port of a service that selects a pod of the entry's gateway.\<close>

definition entry_of :: "KubeLib \<Rightarrow> string \<Rightarrow> (string \<times> gatewayRuntime) list \<Rightarrow> (string \<times> Service) list \<Rightarrow> ProbeEntry \<Rightarrow> bool" where
  "entry_of lib clusterID runtimes services e \<longleftrightarrow>
     (\<exists>runtime svc port protocol. runtime \<in> snd ` set runtimes \<and> svc \<in> snd ` set services \<and> port \<in> set (sv_Ports svc)
        \<and> serviceSelectsRuntime lib svc runtime \<and> probePortProtocol port = Some (entry_Scheme e, protocol)
        \<and> entry_GatewayID e = rt_GatewayID runtime \<and> entry_ClusterID e = clusterID
        \<and> entry_DNSName e = service_dns svc \<and> entry_Port e = sp_Port port)"

definition entries_ok :: "KubeLib \<Rightarrow> string \<Rightarrow> (string \<times> gatewayRuntime) list \<Rightarrow> (string \<times> Service) list \<Rightarrow> snapshot \<Rightarrow> bool" where
  "entries_ok lib clusterID runtimes services s \<longleftrightarrow>
     cluster_of s = clusterID \<and> snap_runtimes s = runtimes
     \<and> (\<forall>i e. snap_probeEntries s i = Some e \<longrightarrow> entry_ID e = i \<and> e \<in> set (topo_ProbeEntries (snap_topology s)))
     \<and> (\<forall>e \<in> set (topo_ProbeEntries (snap_topology s)).
          entry_of lib clusterID runtimes services e \<and> entry_ID e \<in> dom (snap_probeEntries s))"

lemma file_entry_ok:
  assumes "entries_ok lib c rts services s" "entry_of lib c rts services e"
  shows "entries_ok lib c rts services (file_entry e s)"
  using assms by (auto simp: entries_ok_def file_entry_def)

lemma add_port_ok:
  assumes "entries_ok lib c rts services s" "runtime \<in> snd ` set rts" "svc \<in> snd ` set services" "port \<in> set (sv_Ports svc)"
    "serviceSelectsRuntime lib svc runtime"
  shows "entries_ok lib c rts services (add_port runtime svc addresses port s)"
proof (cases "probePortProtocol port")
  case (Some sp)
  have "entry_of lib c rts services (service_entry (cluster_of s) runtime svc addresses port sp)"
    unfolding entry_of_def
    by (intro exI [of _ runtime] exI [of _ svc] exI [of _ port] exI [of _ "snd sp"])
      (use assms Some in \<open>simp add: entries_ok_def service_entry_def\<close>)
  then show ?thesis using assms(1) Some by (simp add: add_port_def file_entry_ok)
qed (use assms(1) in \<open>simp add: add_port_def\<close>)

lemma metadata_ok:
  "entries_ok lib c rts services s \<Longrightarrow> entries_ok lib c rts services (addGatewayServiceMetadata i svc addresses s)"
  by (simp add: entries_ok_def addGatewayServiceMetadata_def)

lemma add_entry_service_ok:
  assumes "entries_ok lib c rts services s" "runtime \<in> snd ` set rts" "ks \<in> set services"
  shows "entries_ok lib c rts services (add_entry_service lib ends runtime ks s)"
proof (cases "enters lib runtime (snd ks)")
  case True
  then have "entries_ok lib c rts services (fold (add_port runtime (snd ks) addresses) (sv_Ports (snd ks))
      (addGatewayServiceMetadata (rt_GatewayID runtime) (snd ks) addresses s))" for addresses
    by (intro fold_invariant [where Q = "\<lambda>p. p \<in> set (sv_Ports (snd ks))" and P = "entries_ok lib c rts services"]
        add_port_ok metadata_ok)
      (use assms in \<open>simp_all add: enters_def\<close>)
  with True show ?thesis by (simp add: add_entry_service_def Let_def)
qed (use assms(1) in \<open>simp add: add_entry_service_def\<close>)

lemma discover_entries_ok:
  assumes "entries_ok lib c (snap_runtimes s) services s"
  shows "entries_ok lib c (snap_runtimes s) services (discoverGatewayProbeEntries lib services ends s)"
proof -
  let ?P = "entries_ok lib c (snap_runtimes s) services"
  have "?P (add_entries lib services ends runtime t)" if "?P t" "runtime \<in> snd ` set (snap_runtimes s)" for runtime t
    unfolding add_entries_def
    by (rule fold_invariant [where Q = "\<lambda>ks. ks \<in> set services" and P = ?P])
      (use that add_entry_service_ok in auto)
  then have "?P (fold (add_entries lib services ends) (map snd (snap_runtimes s)) s)"
    by (intro fold_invariant [where Q = "\<lambda>r. r \<in> snd ` set (snap_runtimes s)" and P = ?P]) (use assms in auto)
  then show ?thesis by (simp add: discoverGatewayProbeEntries_def sort_entries_def entries_ok_def)
qed

section \<open>A whole rebuild\<close>

definition no_entries :: "snapshot \<Rightarrow> bool" where
  "no_entries s \<longleftrightarrow> snap_probeEntries s = Map.empty \<and> topo_ProbeEntries (snap_topology s) = []"

lemma add_gateway_no_entries:
  assumes "no_entries s"
  shows "no_entries (add_gateway lib c st classes g s)"
proof -
  have "no_entries (fold (add_listener c g) ls t)" if "no_entries t" for ls t
    by (rule fold_invariant [where Q = "\<lambda>_. True" and P = no_entries])
      (use that in \<open>auto simp: no_entries_def add_listener_def\<close>)
  then show ?thesis
    unfolding add_gateway_def Let_def
    using assms by (auto simp: no_entries_def addGatewayRuntime_def split: option.split)
qed

lemma add_gateways_no_entries: "no_entries (add_gateways lib s st (start_snapshot s st now))"
  unfolding add_gateways_def
  by (rule fold_invariant [where Q = "\<lambda>_. True" and P = no_entries])
    (simp_all add: add_gateway_no_entries, simp add: no_entries_def)

lemma add_standalone_no_entries: "no_entries s \<Longrightarrow> no_entries (add_standalone lib claimed pods deployment s)"
  by (auto simp: add_standalone_def Let_def no_entries_def split: sum.split prod.split)

lemma standalones_no_entries: "no_entries s \<Longrightarrow> no_entries (addStandaloneGatewayRuntimes lib deployments pods s)"
  unfolding addStandaloneGatewayRuntimes_def
  by (rule fold_invariant [where Q = "\<lambda>_. True" and P = no_entries]) (simp_all add: add_standalone_no_entries)

text \<open>What holds of the runtimes and entries from the runtimes' phase on.\<close>

definition runtimes_settled :: "KubeLib \<Rightarrow> KubeStore \<Rightarrow> KubeStores \<Rightarrow> snapshot \<Rightarrow> bool" where
  "runtimes_settled lib s st snap \<longleftrightarrow>
     runtimes_ok (pods_of st) snap \<and> (\<exists>claimed. claims claimed snap)
     \<and> entries_ok lib (ks_clusterID s) (snap_runtimes snap) (collect_services (in_services st)) snap"

lemma no_entries_ok: "no_entries s \<Longrightarrow> cluster_of s = c \<Longrightarrow> entries_ok lib c (snap_runtimes s) services s"
  by (simp add: entries_ok_def no_entries_def)

lemma runtimes_settled_later:
  assumes "runtimes_settled lib s st a" "grown a b" "same_runtimes a b"
  shows "runtimes_settled lib s st b"
proof -
  have "runtimes_ok (pods_of st) b"
    by (rule runtimes_ok_nodes [of _ a]) (use assms in \<open>auto simp: runtimes_settled_def grown_def same_runtimes_def\<close>)
  with assms(1,3) show ?thesis by (simp add: runtimes_settled_def same_runtimes_def claims_def entries_ok_def)
qed

lemma runtimes_phase:
  "runtimes_settled lib s st (add_runtimes (backends_of lib s st) st (add_gateways lib s st (start_snapshot s st now)))"
    (is "runtimes_settled lib s st (add_runtimes ?be st ?s0)")
proof -
  have be: "be_lib ?be = lib" "be_services ?be = collect_services (in_services st)"
    by (simp_all add: backends_of_def split: prod.split)
  have cluster: "cluster_of ?s0 = ks_clusterID s"
    by (simp add: phase_cluster)
  show ?thesis
  proof (cases "both_stores st")
    case None
    have "claims (set (map (\<lambda>r. rt_WorkloadID (snd r)) (snap_runtimes ?s0))) ?s0"
      using add_gateways_ok [of st lib s now] by (force simp: claims_def gateways_only_def)
    then show ?thesis
      using add_gateways_ok [of st lib s now] no_entries_ok [OF add_gateways_no_entries cluster]
      by (auto simp: runtimes_settled_def add_runtimes_def None)
  next
    case (Some dp)
    then obtain d p where dp: "both_stores st = Some (d, p)" by (cases dp) auto
    let ?s1 = "addStandaloneGatewayRuntimes lib d p ?s0"
    let ?s2 = "discoverGatewayProbeEntries lib (be_services ?be) (be_endpoints ?be) ?s1"
    obtain claimed where s1: "runtimes_ok (pods_of st) ?s1" "claims claimed ?s1"
      using add_runtimes_standalone [OF _ _ both_stores_pods [OF dp] add_gateways_standalone_nodes]
        add_gateways_ok [of st lib s now] by metis
    have "cluster_of ?s1 = ks_clusterID s"
      using cluster by (rule phase_cluster)
    then have "entries_ok lib (ks_clusterID s) (snap_runtimes ?s1) (be_services ?be) ?s1"
      by (intro no_entries_ok standalones_no_entries add_gateways_no_entries)
    then have entries: "entries_ok lib (ks_clusterID s) (snap_runtimes ?s1) (be_services ?be) ?s2"
      by (rule discover_entries_ok)
    then have same: "snap_runtimes ?s2 = snap_runtimes ?s1" by (simp add: entries_ok_def)
    moreover have "grown ?s1 ?s2" by (rule grown.entries) simp
    ultimately have "runtimes_ok (pods_of st) ?s2" 
      by (intro runtimes_ok_nodes [OF s1(1)]) (auto simp: grown_def)
    moreover have "claims claimed ?s2" using s1(2) same by (simp add: claims_def)
    ultimately have "runtimes_settled lib s st ?s2" using entries same be(2) by (auto simp: runtimes_settled_def)
    then show ?thesis by (simp add: add_runtimes_def dp be(1))
  qed
qed

lemma rebuilt_runtimes: "runtimes_settled lib s st (rebuilt_snapshot lib s st now)"
proof -
  let ?be = "backends_of lib s st"
  let ?s0 = "add_runtimes ?be st (add_gateways lib s st (start_snapshot s st now))"
  have be: "be_clusterID ?be = ks_clusterID s" "own_endpoints (ks_clusterID s) (be_endpoints ?be)"
    using endpointReadiness_own [of "ks_clusterID s" "in_endpoints st"]
    by (simp_all add: backends_of_def split_beta)
  have cluster: "cluster_of ?s0 = ks_clusterID s"
    by (simp add: phase_cluster)
  have "grown ?s0 (add_ingresses ?be st (add_routes ?be st ?s0))"
    "same_runtimes ?s0 (add_ingresses ?be st (add_routes ?be st ?s0))"
    by (rule grown.ingresses [OF grown.routes] same_runtimes.ingresses [OF same_runtimes.routes], simp_all add: be cluster)+
  with runtimes_phase have "runtimes_settled lib s st (add_ingresses ?be st (add_routes ?be st ?s0))"
    by (rule runtimes_settled_later)
  then show ?thesis
    by (simp add: rebuilt_snapshot_def Let_def runtimes_settled_def runtimes_ok_def claims_def entries_ok_def)
qed

definition workloads_separate :: "snapshot \<Rightarrow> bool" where
  "workloads_separate s \<longleftrightarrow>
     (\<forall>(k, a) \<in> set (snap_runtimes s). \<forall>(l, b) \<in> set (snap_runtimes s).
        standalone_key k \<and> rt_WorkloadID a = rt_WorkloadID b \<longrightarrow> standalone_key l)"

lemma claims_separate: "claims claimed s \<Longrightarrow> workloads_separate s"
  unfolding claims_def workloads_separate_def split_beta by metis

text \<open>
  C18: in every rebuilt snapshot, each runtime is filed once under its gateway's identity, that
  gateway is a node of the topology, and the runtime has at least one pod; each of its pods is a
  pod of the cluster in phase Running, not being deleted and with a true Ready condition, and its
  container is one that the name or the image shows to be the proxy of the kind of gateway (Higress,
  Istio or Envoy) that the runtime's controller names. A Deployment that is the
  workload of a Gateway object is not shown as a standalone gateway as well.
\<close>

theorem gateway_runtimes_ready:
  "runtimes_ok (pods_of st) (rebuilt_snapshot lib s st now) \<and> workloads_separate (rebuilt_snapshot lib s st now)"
  using rebuilt_runtimes [of lib s st now] claims_separate by (auto simp: runtimes_settled_def)

end
