(* ===== verification/Kube_Run.thy ===== *)
theory Kube_Run
  imports Kube_Rebuild
begin

text \<open>
  \<open>Run\<close> of \<open>internal/kube/store.go\<close> and \<open>internal/kube/informers.go\<close>: which optional resources the
  API server offers, the stores and capabilities that follow, and the concurrent rebuilds of the
  snapshot: each informer runs its handlers on a goroutine of its own, beside that of \<open>Run\<close>, and
  only the last assignment of a rebuild is made under the lock.
\<close>

section \<open>Optional resources\<close>

record GVR =
  gvr_Group :: string
  gvr_Version :: string
  gvr_Resource :: string

definition gatewaysGVR :: GVR where
  "gatewaysGVR = \<lparr>gvr_Group = ''gateway.networking.k8s.io'', gvr_Version = ''v1'', gvr_Resource = ''gateways''\<rparr>"
definition routesGVR :: GVR where
  "routesGVR = \<lparr>gvr_Group = ''gateway.networking.k8s.io'', gvr_Version = ''v1'', gvr_Resource = ''httproutes''\<rparr>"
definition grantsGVR :: GVR where
  "grantsGVR = \<lparr>gvr_Group = ''gateway.networking.k8s.io'', gvr_Version = ''v1beta1'', gvr_Resource = ''referencegrants''\<rparr>"
definition gatewayClassesGVR :: GVR where
  "gatewayClassesGVR = \<lparr>gvr_Group = ''gateway.networking.k8s.io'', gvr_Version = ''v1'', gvr_Resource = ''gatewayclasses''\<rparr>"
definition mcpBridgesGVR :: GVR where
  "mcpBridgesGVR = \<lparr>gvr_Group = ''networking.higress.io'', gvr_Version = ''v1'', gvr_Resource = ''mcpbridges''\<rparr>"
definition inferencePoolsGVR :: GVR where
  "inferencePoolsGVR = \<lparr>gvr_Group = ''inference.networking.k8s.io'', gvr_Version = ''v1'', gvr_Resource = ''inferencepools''\<rparr>"

definition optionalResources :: "GVR list" where
  "optionalResources = [gatewaysGVR, gatewayClassesGVR, routesGVR, grantsGVR, mcpBridgesGVR, inferencePoolsGVR]"

definition group_version :: "GVR \<Rightarrow> string" where
  "group_version r = gvr_Group r @ ''/'' @ gvr_Version r"

text \<open>
  \<open>server\<close> answers \<open>ServerResourcesForGroupVersion\<close> with an error or the names of the resources; a
  group version that fails offers nothing.
\<close>

definition discoverDynamicResources :: "(string \<Rightarrow> string + string list) \<Rightarrow> GVR list \<Rightarrow> GVR list" where
  "discoverDynamicResources server resources =
     filter (\<lambda>r. case server (group_version r) of Inl e \<Rightarrow> False | Inr names \<Rightarrow> gvr_Resource r \<in> set names) resources"

section \<open>Stores and capabilities\<close>

text \<open>What the informers' stores list; an unavailable resource has an empty store.\<close>

record Informers =
  inf_services :: store
  inf_endpoints :: store
  inf_namespaces :: store
  inf_ingresses :: store
  inf_ingressClasses :: store
  inf_deployments :: store
  inf_pods :: store
  inf_dynamic :: "GVR \<Rightarrow> store"

definition dynamic_store :: "Informers \<Rightarrow> GVR list \<Rightarrow> GVR \<Rightarrow> store" where
  "dynamic_store infs available r = (if r \<in> set available then inf_dynamic infs r else [])"

definition run_stores :: "Informers \<Rightarrow> GVR list \<Rightarrow> store list" where
  "run_stores infs available =
     [inf_services infs, inf_endpoints infs, inf_namespaces infs, dynamic_store infs available gatewaysGVR,
      dynamic_store infs available routesGVR, dynamic_store infs available grantsGVR, inf_ingresses infs,
      dynamic_store infs available mcpBridgesGVR, dynamic_store infs available gatewayClassesGVR,
      inf_deployments infs, inf_pods infs, inf_ingressClasses infs, dynamic_store infs available inferencePoolsGVR]"

definition run_capabilities :: "GVR list \<Rightarrow> string list" where
  "run_capabilities available =
     [''endpointslice'', ''higress-ingress'', ''envoy-auto-discovery'']
     @ (if gatewaysGVR \<in> set available \<or> routesGVR \<in> set available \<or> gatewayClassesGVR \<in> set available
        then [''gateway-api''] else [])
     @ (if grantsGVR \<in> set available then [''reference-grant''] else [])
     @ (if mcpBridgesGVR \<in> set available then [''higress-mcpbridge''] else [])
     @ (if inferencePoolsGVR \<in> set available then [''inference-pool''] else [])"

definition start_run :: "(string \<Rightarrow> string + string list) \<Rightarrow> KubeStore \<Rightarrow> KubeStore" where
  "start_run server s = s\<lparr>ks_capabilities := run_capabilities (discoverDynamicResources server optionalResources)\<rparr>"

section \<open>Rebuilds\<close>

text \<open>
  A rebuild: what it lists and the time it reads are \<open>infs\<close> and \<open>now\<close> (every store is listed once;
  the code lists the pods again for each rule of a route); None is a panic.
\<close>

definition refresh ::
    "KubeLib \<Rightarrow> GVR list \<Rightarrow> GoTime \<Rightarrow> Informers \<Rightarrow> KubeStore \<Rightarrow> KubeStore option" where
  "refresh lib available now infs s = rebuild lib now (run_stores infs available) s"

text \<open>
  The goroutines that rebuild: \<open>Run\<close> itself, once, and one per informer. \<open>rs_rebuilds\<close> holds what
  the rebuilds under way have listed and have not assigned yet.
\<close>

datatype RunWorker = Runner | Handler nat

datatype RunPhase = Syncing | Refreshing | Serving

record RunState =
  rs_phase :: RunPhase
  rs_store :: KubeStore
  rs_rebuilds :: "RunWorker \<rightharpoonup> GoTime \<times> Informers"

definition initial_run :: "(string \<Rightarrow> string + string list) \<Rightarrow> KubeStore \<Rightarrow> RunState" where
  "initial_run server s = \<lparr>rs_phase = Syncing, rs_store = start_run server s, rs_rebuilds = Map.empty\<rparr>"

text \<open>The channel \<open>ready\<close> is closed after the synchronisation; before, \<open>refresh\<close> does nothing.\<close>

definition refresh_started :: "RunWorker \<Rightarrow> GoTime \<Rightarrow> Informers \<Rightarrow> RunState \<Rightarrow> RunState" where
  "refresh_started r now infs rs =
     (if rs_phase rs = Syncing then rs else rs\<lparr>rs_rebuilds := (rs_rebuilds rs)(r \<mapsto> (now, infs))\<rparr>)"

definition refresh_assigned ::
    "KubeLib \<Rightarrow> GVR list \<Rightarrow> RunWorker \<Rightarrow> GoTime \<times> Informers \<Rightarrow> RunState \<Rightarrow> RunState option" where
  "refresh_assigned lib available r view rs =
     map_option (\<lambda>s. rs\<lparr>rs_phase := (if r = Runner then Serving else rs_phase rs), rs_store := s,
         rs_rebuilds := (rs_rebuilds rs)(r := None)\<rparr>)
       (refresh lib available (fst view) (snd view) (rs_store rs))"

section \<open>Steps\<close>

text \<open>
  The core informers get in sync; a goroutine calls \<open>refresh\<close> (the handlers one notification after the
  other, \<open>Run\<close> once, after the synchronisation); a rebuild assigns its snapshot. The steps of different
  goroutines interleave freely.
\<close>

datatype RunEvent = Synced | Started RunWorker GoTime Informers | Assigned RunWorker

inductive run_step :: "KubeLib \<Rightarrow> GVR list \<Rightarrow> RunState \<Rightarrow> RunEvent \<Rightarrow> RunState option \<Rightarrow> bool"
  for lib available where
  synced: "rs_phase rs = Syncing \<Longrightarrow> run_step lib available rs Synced (Some (rs\<lparr>rs_phase := Refreshing\<rparr>))"
| notified: "rs_rebuilds rs (Handler i) = None \<Longrightarrow>
    run_step lib available rs (Started (Handler i) now infs) (Some (refresh_started (Handler i) now infs rs))"
| first_refresh: "rs_phase rs = Refreshing \<Longrightarrow> rs_rebuilds rs Runner = None \<Longrightarrow>
    run_step lib available rs (Started Runner now infs) (Some (refresh_started Runner now infs rs))"
| assigned: "rs_rebuilds rs r = Some view \<Longrightarrow>
    run_step lib available rs (Assigned r) (refresh_assigned lib available r view rs)"

inductive_cases run_step_elims:
  "run_step lib available rs Synced out"
  "run_step lib available rs (Started r now infs) out"
  "run_step lib available rs (Assigned r) out"

text \<open>The state after a sequence of steps; None after a panic.\<close>

inductive run_trace :: "KubeLib \<Rightarrow> GVR list \<Rightarrow> RunState \<Rightarrow> RunEvent list \<Rightarrow> RunState option \<Rightarrow> bool"
  for lib available rs where
  start: "run_trace lib available rs [] (Some rs)"
| step: "run_trace lib available rs events (Some rs') \<Longrightarrow> run_step lib available rs' e out \<Longrightarrow>
    run_trace lib available rs (events @ [e]) out"

definition run_store ::
    "KubeLib \<Rightarrow> (string \<Rightarrow> string + string list) \<Rightarrow> KubeStore \<Rightarrow> RunEvent list \<Rightarrow> RunState option \<Rightarrow> bool" where
  "run_store lib server s = run_trace lib (discoverDynamicResources server optionalResources) (initial_run server s)"

text \<open>What \<open>Run\<close> returns when its context is over: None while it has not finished its own rebuild.\<close>

definition run_error :: "RunState \<Rightarrow> string option option" where
  "run_error rs =
     (case rs_phase rs of
        Syncing \<Rightarrow> Some (Some ''synchronize Kubernetes informers'') | Refreshing \<Rightarrow> None | Serving \<Rightarrow> Some None)"

end
