(* ===== verification/Kube_Properties.thy ===== *)
theory Kube_Properties
  imports Kube_Runtime_Facts Kube_Probe Kube_Run
begin

text \<open>
  Properties that span the parts of the Kubernetes store: the entries it advertises and the agent
  that executes probes on them, the cache of proxy configurations, and the events of the informers.
\<close>

section \<open>Entries can be executed\<close>

definition probe_path :: "string \<Rightarrow> URL \<Rightarrow> bool" where
  "probe_path path u \<longleftrightarrow>
     url_ParseRequestURI path = Some u \<and> \<not> url_IsAbs u \<and> url_Host u = [] \<and> HasPrefix (url_Path u) ''/'' \<and> url_Fragment u = []"

lemma probePortProtocol_valid: "probePortProtocol port = Some (scheme, protocol) \<Longrightarrow> ProbeScheme_IsValid scheme"
  by (auto simp: probePortProtocol_def ProbeScheme_IsValid_def split: if_splits)

lemma filed_entry:
  assumes "entries_ok lib c rts services snap" "distinct (map entry_ID (topo_ProbeEntries (snap_topology snap)))"
    "e \<in> set (topo_ProbeEntries (snap_topology snap))"
  shows "snap_probeEntries snap (entry_ID e) = Some e"
proof -
  from assms(1,3) obtain e' where e': "snap_probeEntries snap (entry_ID e) = Some e'" unfolding entries_ok_def by blast
  with assms(1) have "entry_ID e' = entry_ID e" "e' \<in> set (topo_ProbeEntries (snap_topology snap))"
    unfolding entries_ok_def by blast+
  with assms(2,3) e' show ?thesis by (metis distinct_map inj_onD)
qed

lemma update_values: "snd ` set (AList.update k v xs) \<subseteq> insert v (snd ` set xs)"
  by (induction xs) auto

lemma collect_services_member: "snd ` set (collect_services items) \<subseteq> {svc. KService svc \<in> set items}"
proof -
  have "snd ` set (fold file_service svcs acc) \<subseteq> set svcs \<union> snd ` set acc" for svcs acc
  proof (induction svcs arbitrary: acc)
    case (Cons svc svcs)
    have "snd ` set (file_service svc acc) \<subseteq> insert svc (snd ` set acc)"
      unfolding file_service_def by (rule update_values)
    with Cons [of "file_service svc acc"] show ?case by auto
  qed simp
  moreover have "as_service i = Some svc \<longleftrightarrow> i = KService svc" for i svc by (cases i) auto
  then have "set (List.map_filter as_service items) = {svc. KService svc \<in> set items}"
    by (force simp: List.map_filter_def)
  ultimately show ?thesis unfolding collect_services_def by fastforce
qed

lemma executable_entry:
  assumes "rebuild lib now stores s = Some s'" "given_stores stores = Some st"
    and "e \<in> set (topo_ProbeEntries (store_Topology s'))" "distinct (map entry_ID (topo_ProbeEntries (store_Topology s')))"
    and "probe_path path u"
  shows "local_probe_entry s' (entry_GatewayID e) (entry_ID e) path = Inr (e, entry_target e u)
    \<and> entry_ClusterID e = ks_clusterID s
    \<and> (\<exists>runtime. probeGatewayRuntime s' (entry_GatewayID e) = Inr runtime \<and> runtime_ok (pods_of st) runtime
         \<and> (\<exists>svc. KService svc \<in> set (in_services st) \<and> serviceSelectsRuntime lib svc runtime
              \<and> entry_DNSName e = service_dns svc))
    \<and> (entry_GatewayID e, TopologyNodeKindGateway) \<in> node_sort ` set (topo_Nodes (store_Topology s'))
    \<and> ProbeScheme_IsValid (entry_Scheme e)"
proof -
  define snap where "snap = ks_snapshot s'"
  have snap: "snap = rebuilt_snapshot lib s st (format_rfc3339 (time_UTC now))"
    using assms(1,2) by (auto simp: rebuild_Some snap_def)
  have runtimes: "runtimes_ok (pods_of st) snap"
    and entries: "entries_ok lib (ks_clusterID s) (snap_runtimes snap) (collect_services (in_services st)) snap"
    using rebuilt_runtimes [of lib s st] unfolding snap runtimes_settled_def by blast+
  have e: "e \<in> set (topo_ProbeEntries (snap_topology snap))" "distinct (map entry_ID (topo_ProbeEntries (snap_topology snap)))"
    using assms(3,4) by (simp_all add: store_Topology_def snap_def)
  obtain runtime svc port protocol where found: "runtime \<in> snd ` set (snap_runtimes snap)"
      "svc \<in> snd ` set (collect_services (in_services st))" "serviceSelectsRuntime lib svc runtime"
      "probePortProtocol port = Some (entry_Scheme e, protocol)" "entry_GatewayID e = rt_GatewayID runtime"
      "entry_ClusterID e = ks_clusterID s" "entry_DNSName e = service_dns svc"
    using entries e(1) unfolding entries_ok_def entry_of_def by blast
  have "(rt_GatewayID runtime, runtime) \<in> set (snap_runtimes snap)" "runtime_ok (pods_of st) runtime"
    and "(entry_GatewayID e, TopologyNodeKindGateway) \<in> snap_sorts snap"
    using runtimes found(1,5) by (auto simp: runtimes_ok_def)
  then have kind: "(entry_GatewayID e, TopologyNodeKindGateway) \<in> node_sort ` set (topo_Nodes (store_Topology s'))"
    and listed: "(rt_GatewayID runtime, runtime) \<in> set (snap_runtimes snap)" "runtime_ok (pods_of st) runtime"
    by (simp_all add: snap_sorts_def store_Topology_def snap_def)
  moreover have "distinct (map fst (snap_runtimes snap))" using runtimes by (simp add: runtimes_ok_def)
  ultimately have "probeGatewayRuntime s' (entry_GatewayID e) = Inr runtime" "runtime_ok (pods_of st) runtime"
    by (auto simp: probeGatewayRuntime_def snap_def found(5) runtime_ok_def)
  moreover have "local_probe_entry s' (entry_GatewayID e) (entry_ID e) path = Inr (e, entry_target e u)"
    using filed_entry [OF entries e(2,1)] probePortProtocol_valid [OF found(4)] assms(5)
    by (simp add: local_probe_entry_def snap_def probe_path_def)
  moreover have "KService svc \<in> set (in_services st)"
    using found(2) collect_services_member by blast
  ultimately show ?thesis using found(3,6,7) kind probePortProtocol_valid [OF found(4)] by blast
qed

text \<open>
  C16: what the topology advertises the agent can execute. If the identities of the entries in a
  rebuilt topology differ, then for each of them and every absolute path the agent finds the
  entry of that gateway, with the URL of the service as its target, and a runtime of
  the gateway with ready pods to read logs from; the service is one of the cluster that
  selects a pod of that runtime.
\<close>

theorem probe_entries_executable:
  assumes "rebuild lib now stores s = Some s'" "given_stores stores = Some st"
    and "e \<in> set (topo_ProbeEntries (store_Topology s'))" "distinct (map entry_ID (topo_ProbeEntries (store_Topology s')))"
    and "probe_path path u"
  shows "local_probe_entry s' (entry_GatewayID e) (entry_ID e) path = Inr (e, entry_target e u)
    \<and> entry_ClusterID e = ks_clusterID s
    \<and> (\<exists>runtime. probeGatewayRuntime s' (entry_GatewayID e) = Inr runtime \<and> runtime_ok (pods_of st) runtime
         \<and> (\<exists>svc. KService svc \<in> set (in_services st) \<and> serviceSelectsRuntime lib svc runtime
              \<and> entry_DNSName e = service_dns svc))"
  using executable_entry [OF assms] by blast

definition sample_entry_stores :: "store list" where
  "sample_entry_stores =
     [[KService (sample_service ''n'' ''e'' [(''app'', ''g'')])], [], [],
      [KUnstructured (sample_object ''n'' ''g'' [(''gatewayClassName'', UString ''c'')])], [], [], [], [],
      [KUnstructured (sample_object [] ''c'' [(''controllerName'', UString ''higress'')])], [], [KPod sample_kube_pod]]"

definition sample_entered :: KubeStore where
  "sample_entered = (case rebuild sample_lib zero_time sample_entry_stores sample_kube of None \<Rightarrow> sample_kube | Some s \<Rightarrow> s)"

lemma sample_entered_rebuild:
  "rebuild sample_lib zero_time sample_entry_stores sample_kube = Some sample_entered"
  "given_stores sample_entry_stores = Some (the (given_stores sample_entry_stores))"
  by (simp_all add: sample_entered_def rebuild_def given_stores_def sample_entry_stores_def)

lemma sample_entries:
  "map (\<lambda>e. (entry_ID e, entry_GatewayID e)) (topo_ProbeEntries (store_Topology sample_entered))
     = [(''gateway/n/g/probe-entry/n/e/80'', ''gateway/n/g'')]"
  by code_simp

lemma probe_entries_executable_witness:
  "\<exists>e. topo_ProbeEntries (store_Topology sample_entered) = [e]
     \<and> local_probe_entry sample_entered (entry_GatewayID e) ''gateway/n/g/probe-entry/n/e/80'' ''/''
       = Inr (e, entry_target e (empty_url\<lparr>url_Path := ''/''\<rparr>))"
proof -
  obtain e where e: "topo_ProbeEntries (store_Topology sample_entered) = [e]" "entry_ID e = ''gateway/n/g/probe-entry/n/e/80''"
    using sample_entries by auto
  have "probe_path ''/'' (empty_url\<lparr>url_Path := ''/''\<rparr>)" by code_simp
  from probe_entries_executable [OF sample_entered_rebuild _ _ this, of e] e show ?thesis by auto
qed

section \<open>The cache of proxy configurations\<close>

text \<open>Every cached configuration is one of the gateway it is filed under.\<close>

definition cache_ok :: "KubeStore \<Rightarrow> bool" where
  "cache_ok s \<longleftrightarrow> (\<forall>g entry. ks_envoyCache s g = Some entry \<longrightarrow> ec_GatewayID (ce_Config entry) = g)"

lemma first_config_Inr:
  "first_config fetch pods lastErr = Inr (pod, config) \<Longrightarrow> pod \<in> set pods \<and> fetch pod = Inr config"
  by (induction pods arbitrary: lastErr) (auto split: sum.splits)

lemma cached_config_Some:
  "cached_config s g runtime now = Some config \<longleftrightarrow>
     (\<exists>entry. ks_envoyCache s g = Some entry \<and> ce_Config entry = config \<and> time_Before now (ce_ExpiresAt entry)
        \<and> (\<exists>pod \<in> set (rt_Pods runtime). ce_PodUID entry = pod_UID pod))"
  by (auto simp: cached_config_def list_ex_iff split: option.splits)

text \<open>The gateway's runtime runs a pod of that UID.\<close>

definition runs_pod :: "KubeStore \<Rightarrow> string \<Rightarrow> string \<Rightarrow> bool" where
  "runs_pod s g uid \<longleftrightarrow>
     (\<exists>runtime. map_of (snap_runtimes (ks_snapshot s)) g = Some runtime \<and> uid \<in> pod_UID ` set (rt_Pods runtime))"

text \<open>An answer that one of the gateway's pods has just given, which is cached for thirty seconds.\<close>

definition just_fetched ::
    "(proxyPod \<Rightarrow> string \<Rightarrow> string \<Rightarrow> PodFetchError + EnvoyConfig) \<Rightarrow> GoTime \<Rightarrow> string \<Rightarrow> KubeStore \<Rightarrow> EnvoyConfig
     \<Rightarrow> cachedEnvoyConfig \<Rightarrow> bool" where
  "just_fetched fetch fetched g s config entry \<longleftrightarrow>
     ce_Config entry = config \<and> ce_ExpiresAt entry = time_Add fetched (30 * nanos)
     \<and> (\<exists>runtime pod raw. map_of (snap_runtimes (ks_snapshot s)) g = Some runtime \<and> pod \<in> set (rt_Pods runtime)
          \<and> ce_PodUID entry = pod_UID pod \<and> config = gateway_config g runtime pod raw
          \<and> fetch pod (topo_SnapshotID (store_Topology s)) (topo_ObservedAt (store_Topology s)) = Inr raw)"

definition still_cached :: "GoTime \<Rightarrow> string \<Rightarrow> KubeStore \<Rightarrow> cachedEnvoyConfig \<Rightarrow> bool" where
  "still_cached now g s entry \<longleftrightarrow>
     ks_envoyCache s g = Some entry \<and> time_Before now (ce_ExpiresAt entry) \<and> runs_pod s g (ce_PodUID entry)"

text \<open>The two ways to an answer.\<close>

lemma cached_config_still:
  assumes "map_of (snap_runtimes (ks_snapshot s)) g = Some runtime"
  shows "cached_config s g runtime now = Some config \<longleftrightarrow> (\<exists>entry. still_cached now g s entry \<and> ce_Config entry = config)"
  by (auto simp: cached_config_Some still_cached_def runs_pod_def assms)

lemma store_EnvoyConfig_cached:
  assumes "still_cached now g s entry"
  shows "store_EnvoyConfig fetch now fetched meanwhile g s = (Inr (ce_Config entry), s)"
proof -
  from assms obtain runtime where runtime: "map_of (snap_runtimes (ks_snapshot s)) g = Some runtime"
      "ce_PodUID entry \<in> pod_UID ` set (rt_Pods runtime)"
    unfolding still_cached_def runs_pod_def by blast
  then have "rt_Pods runtime \<noteq> []" by auto
  moreover have "cached_config s g runtime now = Some (ce_Config entry)"
    using assms runtime(1) by (auto simp: cached_config_still)
  ultimately show ?thesis by (simp add: store_EnvoyConfig_def runtime(1))
qed

lemma store_EnvoyConfig_fetched:
  assumes "\<And>entry. \<not> still_cached now g s entry" "store_EnvoyConfig fetch now fetched meanwhile g s = (Inr config, s')"
  shows "\<exists>entry. just_fetched fetch fetched g s config entry \<and> ec_GatewayID config = g
    \<and> s' = (meanwhile s)\<lparr>ks_envoyCache := (ks_envoyCache (meanwhile s))(g \<mapsto> entry)\<rparr>"
proof -
  from assms(2) obtain runtime where runtime: "map_of (snap_runtimes (ks_snapshot s)) g = Some runtime" "rt_Pods runtime \<noteq> []"
    by (cases "map_of (snap_runtimes (ks_snapshot s)) g") (auto simp: store_EnvoyConfig_def split: if_splits)
  have none: "cached_config s g runtime now = None"
    using cached_config_still [OF runtime(1)] assms(1) by (cases "cached_config s g runtime now") auto
  let ?fetch = "\<lambda>pod. fetch pod (topo_SnapshotID (store_Topology s)) (topo_ObservedAt (store_Topology s))"
  from assms(2) runtime none obtain pod raw where found: "first_config ?fetch (rt_Pods runtime) None = Inr (pod, raw)"
    by (cases "first_config ?fetch (rt_Pods runtime) None")
      (auto simp: store_EnvoyConfig_def store_Topology_def split: if_splits)
  then have "config = gateway_config g runtime pod raw" "s' = cache_config g pod fetched config (meanwhile s)"
    using assms(2) runtime none by (auto simp: store_EnvoyConfig_def store_Topology_def Let_def split: if_splits)
  then show ?thesis
    using first_config_Inr [OF found] runtime(1)
    by (intro exI [of _ "\<lparr>ce_PodUID = pod_UID pod, ce_ExpiresAt = time_Add fetched (30 * nanos), ce_Config = config\<rparr>"])
      (auto simp: just_fetched_def cache_config_def gateway_config_def)
qed

definition envoy_answer ::
    "(proxyPod \<Rightarrow> string \<Rightarrow> string \<Rightarrow> PodFetchError + EnvoyConfig) \<Rightarrow> GoTime \<Rightarrow> GoTime \<Rightarrow> (KubeStore \<Rightarrow> KubeStore)
     \<Rightarrow> string \<Rightarrow> KubeStore \<Rightarrow> EnvoyConfig \<Rightarrow> KubeStore \<Rightarrow> cachedEnvoyConfig \<Rightarrow> bool" where
  "envoy_answer fetch now fetched meanwhile g s config s' entry \<longleftrightarrow>
     ec_GatewayID config = g \<and> ks_envoyCache s' g = Some entry \<and> ce_Config entry = config
     \<and> (still_cached now g s entry \<and> s' = s
        \<or> (\<forall>old. \<not> still_cached now g s old) \<and> just_fetched fetch fetched g s config entry
          \<and> s' = (meanwhile s)\<lparr>ks_envoyCache := (ks_envoyCache (meanwhile s))(g \<mapsto> entry)\<rparr>)"

lemma envoy_answers:
  assumes "cache_ok s" "store_EnvoyConfig fetch now fetched meanwhile g s = (Inr config, s')"
  shows "\<exists>entry. envoy_answer fetch now fetched meanwhile g s config s' entry"
proof (cases "\<exists>entry. still_cached now g s entry")
  case True
  then obtain entry where entry: "still_cached now g s entry" ..
  then have "ce_Config entry = config" "s' = s" using store_EnvoyConfig_cached [OF entry] assms(2) by auto
  with entry assms(1) show ?thesis
    by (intro exI [of _ entry]) (auto simp: envoy_answer_def still_cached_def cache_ok_def)
next
  case False
  with store_EnvoyConfig_fetched [OF _ assms(2)] obtain entry where "just_fetched fetch fetched g s config entry"
      "ec_GatewayID config = g" "s' = (meanwhile s)\<lparr>ks_envoyCache := (ks_envoyCache (meanwhile s))(g \<mapsto> entry)\<rparr>"
    by blast
  moreover from this(1) have "ce_Config entry = config" by (simp add: just_fetched_def)
  ultimately show ?thesis using False by (intro exI [of _ entry]) (simp add: envoy_answer_def)
qed

lemma store_EnvoyConfig_Inl:
  "store_EnvoyConfig fetch now fetched meanwhile g s = (Inl e, s') \<Longrightarrow> s' = s \<or> s' = meanwhile s"
  by (auto simp: store_EnvoyConfig_def Let_def split: option.splits if_splits sum.splits prod.splits)

text \<open>
  C19: the configuration of a gateway's proxy is the gateway's own and cached for thirty seconds. An error
  changes nothing. An answer is the cached one, if that has not expired and its pod still runs the
  gateway, and else has just been fetched from a pod that runs the gateway, with nothing written but its entry, which
  lasts thirty seconds. In whatever store a call finds the entry later (after rebuilds, for instance, which leave the
  entries alone): before it expires, and as long as its pod runs the gateway there, the call gives the same
  answer without asking a pod; afterwards, or once the pod is gone, an answer is a newly fetched one. What
  other goroutines do while the pods are asked is kept.
\<close>

theorem envoy_config_cached:
  assumes "cache_ok s" "cache_ok (meanwhile s)"
  shows "case store_EnvoyConfig fetch now fetched meanwhile g s of
      (Inl e, s') \<Rightarrow> s' = s \<or> s' = meanwhile s
    | (Inr config, s') \<Rightarrow> cache_ok s' \<and>
        (\<exists>entry. envoy_answer fetch now fetched meanwhile g s config s' entry
           \<and> (\<forall>lib t stores u. rebuild lib t stores s' = Some u \<longrightarrow> ks_envoyCache u g = Some entry)
           \<and> (\<forall>u fetch' t fetched' meanwhile'. ks_envoyCache u g = Some entry \<longrightarrow>
                (if time_Before t (ce_ExpiresAt entry) \<and> runs_pod u g (ce_PodUID entry)
                 then store_EnvoyConfig fetch' t fetched' meanwhile' g u = (Inr config, u)
                 else \<forall>config' u'. store_EnvoyConfig fetch' t fetched' meanwhile' g u = (Inr config', u')
                        \<longrightarrow> (\<exists>entry'. just_fetched fetch' fetched' g u config' entry' \<and> ks_envoyCache u' g = Some entry'))))"
proof (cases "store_EnvoyConfig fetch now fetched meanwhile g s")
  case (Pair r s')
  show ?thesis
  proof (cases r)
    case (Inl e)
    with Pair store_EnvoyConfig_Inl [of fetch now fetched meanwhile g s e s'] show ?thesis by simp
  next
    case (Inr config)
    obtain entry where entry: "envoy_answer fetch now fetched meanwhile g s config s' entry"
      using envoy_answers [OF assms(1)] Pair Inr by blast
    then have ok: "cache_ok s'" using assms by (auto simp: envoy_answer_def cache_ok_def split: if_splits)
    have config: "ks_envoyCache s' g = Some entry" "ce_Config entry = config" using entry by (simp_all add: envoy_answer_def)
    have rebuilt: "ks_envoyCache u g = Some entry" if "rebuild lib t stores s' = Some u" for lib t stores u
      using that config(1) by (auto simp: rebuild_Some)
    have cached: "store_EnvoyConfig fetch' t fetched' meanwhile' g u = (Inr config, u)"
      if "ks_envoyCache u g = Some entry" "time_Before t (ce_ExpiresAt entry) \<and> runs_pod u g (ce_PodUID entry)"
      for u fetch' t fetched' meanwhile'
      using store_EnvoyConfig_cached [of t g u entry] that config(2) by (simp add: still_cached_def)
    have fetched: "\<exists>entry'. just_fetched fetch' fetched' g u config' entry' \<and> ks_envoyCache u' g = Some entry'"
      if "ks_envoyCache u g = Some entry" "\<not> (time_Before t (ce_ExpiresAt entry) \<and> runs_pod u g (ce_PodUID entry))"
        "store_EnvoyConfig fetch' t fetched' meanwhile' g u = (Inr config', u')"
      for u fetch' t fetched' meanwhile' config' u'
    proof -
      have "\<not> still_cached t g u old" for old using that(1,2) by (auto simp: still_cached_def)
      from store_EnvoyConfig_fetched [OF this that(3)] show ?thesis by auto
    qed
    from entry ok rebuilt cached fetched show ?thesis
      unfolding Pair Inr prod.case sum.case by (intro conjI exI [of _ entry]) (simp_all split: if_split)
  qed
qed

definition sample_proxied :: KubeStore where
  "sample_proxied = (New ''c'' ''h'')\<lparr>ks_snapshot := empty_snapshot\<lparr>snap_runtimes := [(''g'',
     \<lparr>rt_GatewayID = ''g'', rt_Controller = ''k'', rt_WorkloadID = ''w'', rt_WorkloadName = ''w'', rt_Namespace = ''n'',
      rt_Pods = [\<lparr>pod_Name = ''p'', pod_Namespace = ''n'', pod_UID = ''u'', pod_Container = ''x'', pod_AdminPort = 15000,
        pod_Labels = Map.empty\<rparr>]\<rparr>)]\<rparr>\<rparr>"

text \<open>Ten seconds after a fetch, another call gets the same answer although the pod would refuse.\<close>

lemma envoy_config_cached_witness:
  "\<exists>config s'. store_EnvoyConfig (\<lambda>_ _ _. Inr zero_EnvoyConfig) zero_time zero_time id ''g'' sample_proxied = (Inr config, s')
     \<and> ec_GatewayID config = ''g'' \<and> cache_ok s'
     \<and> store_EnvoyConfig (\<lambda>_ _ _. Inl HostInvalid) (time_Add zero_time (10 * nanos)) zero_time id ''g'' s' = (Inr config, s')"
proof -
  let ?fetch = "\<lambda>_ _ _. Inr zero_EnvoyConfig"
  have ok: "cache_ok sample_proxied" "cache_ok (id sample_proxied)" by (simp_all add: cache_ok_def sample_proxied_def New_def)
  obtain config s' where call: "store_EnvoyConfig ?fetch zero_time zero_time id ''g'' sample_proxied = (Inr config, s')"
    by (simp add: store_EnvoyConfig_def sample_proxied_def New_def cached_config_def Let_def)
  from envoy_config_cached [of sample_proxied id ?fetch zero_time zero_time "''g''", OF ok, unfolded call prod.case sum.case] obtain entry
    where cache: "cache_ok s'" and entry: "envoy_answer ?fetch zero_time zero_time id ''g'' sample_proxied config s' entry"
      and again: "\<And>u fetch' t fetched' meanwhile'. ks_envoyCache u ''g'' = Some entry \<Longrightarrow>
        time_Before t (ce_ExpiresAt entry) \<and> runs_pod u ''g'' (ce_PodUID entry) \<Longrightarrow>
          store_EnvoyConfig fetch' t fetched' meanwhile' ''g'' u = (Inr config, u)"
    by (auto simp only: if_True)
  have "\<not> still_cached zero_time ''g'' sample_proxied old" for old by (simp add: still_cached_def sample_proxied_def New_def)
  with entry have new: "ec_GatewayID config = ''g''" "ks_envoyCache s' ''g'' = Some entry"
      "just_fetched ?fetch zero_time ''g'' sample_proxied config entry" "ks_snapshot s' = ks_snapshot sample_proxied"
    by (auto simp: envoy_answer_def)
  then have "runs_pod s' ''g'' (ce_PodUID entry)" "ce_ExpiresAt entry = time_Add zero_time (30 * nanos)"
    by (auto simp: just_fetched_def runs_pod_def)
  moreover have "time_Before (time_Add zero_time (10 * nanos)) (time_Add zero_time (30 * nanos))" by code_simp
  ultimately have "store_EnvoyConfig (\<lambda>_ _ _. Inl HostInvalid) (time_Add zero_time (10 * nanos)) zero_time id ''g'' s' = (Inr config, s')"
    using again [OF new(2)] by simp
  with call new(1) cache show ?thesis by blast
qed

section \<open>The informers\<close>

text \<open>What a rebuild leaves, from what it has listed.\<close>

definition view_of :: "KubeLib \<Rightarrow> GVR list \<Rightarrow> GoTime \<times> Informers \<Rightarrow> KubeStore \<Rightarrow> KubeStore" where
  "view_of lib available view s =
     s\<lparr>ks_snapshot := rebuilt_snapshot lib s (the (given_stores (run_stores (snd view) available)))
       (format_rfc3339 (time_UTC (fst view)))\<rparr>"

lemma rebuilt_snapshot_again: "rebuilt_snapshot lib (s\<lparr>ks_snapshot := x\<rparr>) st now = rebuilt_snapshot lib s st now"
  by (simp add: rebuilt_snapshot_def backends_of_def add_gateways_def start_snapshot_def finish_snapshot_def)

lemma view_of_view [simp]: "view_of lib available view (view_of lib available view' s) = view_of lib available view s"
  by (simp add: view_of_def rebuilt_snapshot_again)

lemma refresh_view: "refresh lib available now infs s = Some (view_of lib available (now, infs) s)"
  by (simp add: refresh_def rebuild_def view_of_def run_stores_def given_stores_def)

lemma refresh_assigned_view:
  "refresh_assigned lib available r view rs =
     Some (rs\<lparr>rs_phase := (if r = Runner then Serving else rs_phase rs), rs_store := view_of lib available view (rs_store rs),
       rs_rebuilds := (rs_rebuilds rs)(r := None)\<rparr>)"
  by (simp add: refresh_assigned_def refresh_view)

text \<open>A rebuild under way after some steps: started after the synchronisation and not assigned since.\<close>

definition under_way :: "RunEvent list \<Rightarrow> RunWorker \<Rightarrow> GoTime \<times> Informers \<Rightarrow> bool" where
  "under_way events r view \<longleftrightarrow>
     (\<exists>before between. events = before @ Started r (fst view) (snd view) # between \<and> Synced \<in> set before
        \<and> Assigned r \<notin> set between \<and> (\<forall>now infs. Started r now infs \<notin> set between))"

text \<open>The store after some steps: that of the rebuild that was assigned last, if any was.\<close>

definition last_assigned :: "KubeLib \<Rightarrow> GVR list \<Rightarrow> KubeStore \<Rightarrow> RunEvent list \<Rightarrow> KubeStore \<Rightarrow> bool" where
  "last_assigned lib available s0 events s \<longleftrightarrow>
     (s = s0 \<and> (\<forall>r. Assigned r \<notin> set events))
     \<or> (\<exists>before r after view. events = before @ Assigned r # after \<and> (\<forall>r. Assigned r \<notin> set after)
          \<and> under_way before r view \<and> s = view_of lib available view s0)"

definition run_inv :: "KubeLib \<Rightarrow> GVR list \<Rightarrow> KubeStore \<Rightarrow> RunEvent list \<Rightarrow> RunState \<Rightarrow> bool" where
  "run_inv lib available s0 events rs \<longleftrightarrow>
     (rs_phase rs = Syncing \<longleftrightarrow> Synced \<notin> set events) \<and> (rs_phase rs = Serving \<longleftrightarrow> Assigned Runner \<in> set events)
     \<and> (\<forall>r view. rs_rebuilds rs r = Some view \<longrightarrow> under_way events r view)
     \<and> last_assigned lib available s0 events (rs_store rs)"

lemma under_way_later:
  assumes "under_way events r view" "e \<noteq> Assigned r" "\<And>now infs. e \<noteq> Started r now infs"
  shows "under_way (events @ [e]) r view"
proof -
  from assms(1) obtain before between where "events = before @ Started r (fst view) (snd view) # between"
      "Synced \<in> set before" "Assigned r \<notin> set between" "\<forall>now infs. Started r now infs \<notin> set between"
    unfolding under_way_def by blast
  moreover from this have "events @ [e] = before @ Started r (fst view) (snd view) # (between @ [e])"
    "Assigned r \<notin> set (between @ [e])" "\<forall>now infs. Started r now infs \<notin> set (between @ [e])"
    using assms(2,3) by auto
  ultimately show ?thesis unfolding under_way_def by blast
qed

lemma under_way_synced: "under_way events r view \<Longrightarrow> Synced \<in> set events"
  by (auto simp: under_way_def)

lemma last_assigned_later:
  assumes "last_assigned lib available s0 events s" "\<And>r. e \<noteq> Assigned r"
  shows "last_assigned lib available s0 (events @ [e]) s"
proof (cases "\<forall>r. Assigned r \<notin> set events")
  case True
  with assms show ?thesis by (auto simp: last_assigned_def)
next
  case False
  with assms(1) obtain before r after view where "events = before @ Assigned r # after" "\<forall>r. Assigned r \<notin> set after"
      and "under_way before r view" "s = view_of lib available view s0"
    unfolding last_assigned_def by blast
  moreover from this(1,2) have "events @ [e] = before @ Assigned r # (after @ [e])" "\<forall>r. Assigned r \<notin> set (after @ [e])"
    using assms(2) by auto
  ultimately show ?thesis unfolding last_assigned_def by blast
qed

lemma last_assigned_store:
  assumes "last_assigned lib available s0 events s"
  shows "view_of lib available view s = view_of lib available view s0"
  using assms by (auto simp: last_assigned_def)

lemma run_step_inv:
  assumes "run_step lib available rs e out" "run_inv lib available s0 events rs"
  shows "\<exists>rs'. out = Some rs' \<and> run_inv lib available s0 (events @ [e]) rs'"
proof -
  have inv: "rs_phase rs = Syncing \<longleftrightarrow> Synced \<notin> set events" "rs_phase rs = Serving \<longleftrightarrow> Assigned Runner \<in> set events"
    "\<And>r view. rs_rebuilds rs r = Some view \<Longrightarrow> under_way events r view"
    "last_assigned lib available s0 events (rs_store rs)"
    using assms(2) by (auto simp: run_inv_def)
  have started: "run_inv lib available s0 (events @ [Started r now infs]) (refresh_started r now infs rs)"
    if "rs_rebuilds rs r = None" for r now infs
  proof -
    let ?rs = "refresh_started r now infs rs"
    have fields: "rs_phase ?rs = rs_phase rs" "rs_store ?rs = rs_store rs" by (simp_all add: refresh_started_def)
    have "under_way (events @ [Started r now infs]) q view" if "rs_rebuilds ?rs q = Some view" for q view
    proof (cases "q = r \<and> rs_phase rs \<noteq> Syncing")
      case True
      with that have "view = (now, infs)" by (auto simp: refresh_started_def)
      moreover have "Synced \<in> set events" using True inv(1) by blast
      moreover have "events @ [Started r now infs] = events @ Started r now infs # []" by simp
      ultimately show ?thesis
        using True unfolding under_way_def by fastforce
    next
      case False
      with that \<open>rs_rebuilds rs r = None\<close> have "rs_rebuilds rs q = Some view" "q \<noteq> r"
        by (auto simp: refresh_started_def split: if_splits)
      then show ?thesis by (intro under_way_later [OF inv(3)]) auto
    qed
    with inv(1,2) last_assigned_later [OF inv(4)] show ?thesis by (simp add: run_inv_def fields)
  qed
  from assms(1) show ?thesis
  proof cases
    case synced
    have "under_way (events @ [Synced]) r view" if "rs_rebuilds rs r = Some view" for r view
      by (rule under_way_later [OF inv(3) [OF that]]) simp_all
    moreover have "Assigned Runner \<notin> set events" using synced(3) inv(2) by auto
    ultimately show ?thesis
      using synced last_assigned_later [OF inv(4), of Synced] by (simp add: run_inv_def)
  next
    case (assigned r view)
    let ?rs = "rs\<lparr>rs_phase := (if r = Runner then Serving else rs_phase rs),
      rs_store := view_of lib available view (rs_store rs), rs_rebuilds := (rs_rebuilds rs)(r := None)\<rparr>"
    have way: "under_way events r view" by (rule inv(3) [OF assigned(3)])
    have still: "under_way (events @ [Assigned r]) q view'" if "rs_rebuilds ?rs q = Some view'" for q view'
      using that by (intro under_way_later [OF inv(3)]) (auto split: if_splits)
    have "rs_store ?rs = view_of lib available view s0" using last_assigned_store [OF inv(4)] by simp
    moreover have "events @ [Assigned r] = events @ Assigned r # []" "\<forall>q. Assigned q \<notin> set []" by simp_all
    ultimately have "last_assigned lib available s0 (events @ [Assigned r]) (rs_store ?rs)"
      unfolding last_assigned_def using way by blast
    with still show ?thesis
      using assigned inv(1,2) under_way_synced [OF way] by (auto simp: run_inv_def refresh_assigned_view)
  qed (use started in auto)
qed

lemma run_trace_inv:
  assumes "run_trace lib available rs0 events out" "rs_phase rs0 = Syncing" "rs_rebuilds rs0 = Map.empty"
  shows "\<exists>rs. out = Some rs \<and> run_inv lib available (rs_store rs0) events rs"
  using assms(1)
proof induction
  case start
  show ?case using assms(2,3) by (simp add: run_inv_def last_assigned_def)
next
  case (step events rs' e out)
  then show ?case using run_step_inv by fastforce
qed

text \<open>A rebuild that is alone under way, with none started since, is the one that is assigned.\<close>

lemma alone_assigned:
  assumes "run_trace lib available rs0 events out" "rs_rebuilds rs0 = [r \<mapsto> view]"
    and "\<forall>q now infs. Started q now infs \<notin> set events"
  shows "\<exists>rs. out = Some rs \<and> (rs_rebuilds rs = [r \<mapsto> view] \<and> rs_store rs = rs_store rs0
    \<or> rs_rebuilds rs = Map.empty \<and> rs_store rs = view_of lib available view (rs_store rs0))"
  using assms(1,3)
proof induction
  case start
  show ?case using assms(2) by blast
next
  case (step events rs e out)
  then have rs: "rs_rebuilds rs = [r \<mapsto> view] \<and> rs_store rs = rs_store rs0
    \<or> rs_rebuilds rs = Map.empty \<and> rs_store rs = view_of lib available view (rs_store rs0)" by auto
  from step.hyps(2) show ?case
  proof cases
    case (assigned q v)
    with rs have "q = r" "v = view" "rs_rebuilds rs = [r \<mapsto> view]" "rs_store rs = rs_store rs0"
      by (auto split: if_splits)
    with assigned show ?thesis by (simp add: refresh_assigned_view)
  qed (use rs step.prems in auto)
qed

lemma run_trace_append:
  assumes "run_trace lib available rs0 (xs @ ys) (Some rs)"
  shows "\<exists>rs1. run_trace lib available rs0 xs (Some rs1) \<and> run_trace lib available rs1 ys (Some rs)"
  using assms
proof (induction ys arbitrary: rs rule: rev_induct)
  case Nil
  then show ?case using run_trace.start by auto
next
  case (snoc y ys)
  from snoc.prems have "run_trace lib available rs0 ((xs @ ys) @ [y]) (Some rs)" by simp
  then obtain rs' where rs': "run_trace lib available rs0 (xs @ ys) (Some rs')" "run_step lib available rs' y (Some rs)"
    by (cases rule: run_trace.cases) auto
  from snoc.IH [OF rs'(1)] obtain rs1
    where "run_trace lib available rs0 xs (Some rs1)" "run_trace lib available rs1 ys (Some rs')" by blast
  with rs'(2) show ?case using run_trace.step by blast
qed

lemma run_step_deterministic:
  "run_step lib available rs e out \<Longrightarrow> run_step lib available rs e out' \<Longrightarrow> out = out'"
  by (auto elim!: run_step.cases)

lemma run_trace_deterministic:
  "run_trace lib available rs0 events out \<Longrightarrow> run_trace lib available rs0 events out' \<Longrightarrow> out = out'"
proof (induction arbitrary: out' rule: run_trace.induct)
  case start
  then show ?case by (cases rule: run_trace.cases) auto
next
  case (step events rs e out)
  from step.prems obtain rs' where "run_trace lib available rs0 events (Some rs')" "run_step lib available rs' e out'"
    by (cases rule: run_trace.cases) auto
  with step.IH step.hyps(2) run_step_deterministic show ?case by blast
qed

lemma alone_trace:
  assumes "run_trace lib available rs0 (before @ Started r now infs # after) (Some rs)"
    and "run_trace lib available rs0 before (Some rs1)" "rs_rebuilds rs1 = Map.empty" "rs_phase rs1 \<noteq> Syncing"
    and "\<forall>q now infs. Started q now infs \<notin> set after" "rs_rebuilds rs = Map.empty"
  shows "rs_store rs = view_of lib available (now, infs) (rs_store rs1)"
proof -
  from run_trace_append [of lib available rs0 before] assms(1) obtain rs1'
    where "run_trace lib available rs0 before (Some rs1')" "run_trace lib available rs1' ([Started r now infs] @ after) (Some rs)"
    by auto
  moreover from this(1) assms(2) have "rs1' = rs1" using run_trace_deterministic by blast
  ultimately obtain rs2 where rs2: "run_trace lib available rs1 ([] @ [Started r now infs]) (Some rs2)"
      "run_trace lib available rs2 after (Some rs)"
    using run_trace_append by fastforce
  from rs2(1) obtain rs1'' where "run_trace lib available rs1 [] (Some rs1'')"
      "run_step lib available rs1'' (Started r now infs) (Some rs2)"
    by (cases rule: run_trace.cases) auto
  then have "run_step lib available rs1 (Started r now infs) (Some rs2)"
    by (auto elim: run_trace.cases)
  then have "rs2 = refresh_started r now infs rs1" by (auto elim: run_step_elims)
  with assms(3,4) have "rs_rebuilds rs2 = [r \<mapsto> (now, infs)]" "rs_store rs2 = rs_store rs1"
    by (simp_all add: refresh_started_def)
  moreover have "rs_rebuilds rs \<noteq> [r \<mapsto> (now, infs)]" using assms(6) map_upd_nonempty by metis
  ultimately show ?thesis using alone_assigned [OF rs2(2) _ assms(5)] by auto
qed

text \<open>
  C22: the store follows the informers, as far as concurrent rebuilds let it. However the steps of the
  informers' goroutines and of \<open>Run\<close> interleave, nothing panics, and \<open>Run\<close> fails iff the core informers never get in sync.
  Nothing but the snapshot changes after the start. While no rebuild has assigned, the store is the
  one \<open>Run\<close> started with, and a \<open>Run\<close> that returns without an error has assigned at least once. Otherwise the snapshot is the rebuild,
  with the capabilities found at start-up, of what the rebuild that was assigned last had listed; it
  started after the synchronisation and was not assigned before. That need not be the rebuild that
  started last; but when the last refresh was called with no other rebuild under way, and it has finished, its
  snapshot is the one in the store.
\<close>

theorem run_follows_informers:
  assumes "run_store lib server s events out"
    and "available = discoverDynamicResources server optionalResources"
  shows "\<exists>rs. out = Some rs
    \<and> (run_error rs = Some (Some ''synchronize Kubernetes informers'') \<longleftrightarrow> Synced \<notin> set events)
    \<and> (run_error rs = Some None \<longleftrightarrow> Assigned Runner \<in> set events)
    \<and> last_assigned lib available (start_run server s) events (rs_store rs)
    \<and> (\<forall>before r now infs after rs1. events = before @ Started r now infs # after
         \<and> run_store lib server s before (Some rs1) \<and> rs_rebuilds rs1 = Map.empty \<and> Synced \<in> set before
         \<and> (\<forall>q t listed. Started q t listed \<notin> set after) \<and> rs_rebuilds rs = Map.empty
         \<longrightarrow> rs_store rs = view_of lib available (now, infs) (start_run server s))"
proof -
  have initial: "rs_phase (initial_run server s) = Syncing" "rs_rebuilds (initial_run server s) = Map.empty"
    "rs_store (initial_run server s) = start_run server s"
    by (simp_all add: initial_run_def)
  note trace = assms(1) [unfolded run_store_def assms(2) [symmetric]]
  from run_trace_inv [OF trace initial(1,2)] obtain rs
    where rs: "out = Some rs" "run_inv lib available (start_run server s) events rs" by (auto simp: initial(3))
  have error: "run_error rs = Some (Some ''synchronize Kubernetes informers'') \<longleftrightarrow> Synced \<notin> set events"
    "run_error rs = Some None \<longleftrightarrow> Assigned Runner \<in> set events"
    using rs(2) by (auto simp: run_error_def run_inv_def split: RunPhase.splits)
  have "rs_store rs = view_of lib available (now, infs) (start_run server s)"
    if at: "events = before @ Started r now infs # after" "run_store lib server s before (Some rs1)"
      "rs_rebuilds rs1 = Map.empty" "Synced \<in> set before" "\<forall>q t listed. Started q t listed \<notin> set after"
      "rs_rebuilds rs = Map.empty"
    for before r now infs after rs1
  proof -
    note before = at(2) [unfolded run_store_def assms(2) [symmetric]]
    have inv1: "run_inv lib available (start_run server s) before rs1"
      using run_trace_inv [OF before initial(1,2)] by (simp add: initial(3))
    then have "rs_phase rs1 \<noteq> Syncing" using at(4) by (simp add: run_inv_def)
    from alone_trace [OF trace [unfolded rs(1) at(1)] before at(3) this at(5,6)]
    have "rs_store rs = view_of lib available (now, infs) (rs_store rs1)" .
    then show ?thesis
      using last_assigned_store [of lib available "start_run server s" before "rs_store rs1"] inv1 by (simp add: run_inv_def)
  qed
  with rs error show ?thesis unfolding run_inv_def by blast
qed

text \<open>
  Two informers' rebuilds that overlap: the older one, started before the change, is assigned after the newer one, and
  its snapshot stays. Only the next notification brings the change into the store.
\<close>

abbreviation overtaken_events :: "Informers \<Rightarrow> Informers \<Rightarrow> RunEvent list" where
  "overtaken_events old new \<equiv>
     [Synced, Started Runner zero_time old, Assigned Runner, Started (Handler 0) zero_time old, Started (Handler 1) zero_time new,
      Assigned (Handler 1), Assigned (Handler 0)]"

lemma assigned_step:
  "rs_rebuilds rs r = Some view \<Longrightarrow>
     rs' = rs\<lparr>rs_phase := (if r = Runner then Serving else rs_phase rs), rs_store := view_of lib available view (rs_store rs),
       rs_rebuilds := (rs_rebuilds rs)(r := None)\<rparr> \<Longrightarrow>
     run_step lib available rs (Assigned r) (Some rs')"
  using run_step.assigned [of rs r view lib available] by (simp add: refresh_assigned_view)

lemma started_step:
  "rs_rebuilds rs r = None \<Longrightarrow> rs_phase rs \<noteq> Syncing \<Longrightarrow> (r = Runner \<Longrightarrow> rs_phase rs = Refreshing) \<Longrightarrow>
     rs' = rs\<lparr>rs_rebuilds := (rs_rebuilds rs)(r \<mapsto> (now, infs))\<rparr> \<Longrightarrow>
     run_step lib available rs (Started r now infs) (Some rs')"
  using run_step.first_refresh [of rs lib available now infs] run_step.notified [of rs _ lib available now infs]
  by (cases r) (simp_all add: refresh_started_def)

lemma synced_step:
  "rs_phase rs = Syncing \<Longrightarrow> rs' = rs\<lparr>rs_phase := Refreshing\<rparr> \<Longrightarrow> run_step lib available rs Synced (Some rs')"
  by (simp add: run_step.synced)

lemma next_step:
  "run_trace lib available rs events (Some rs') \<Longrightarrow> run_step lib available rs' e out \<Longrightarrow> events' = events @ [e] \<Longrightarrow>
     run_trace lib available rs events' out"
  by (simp add: run_trace.step)

lemma overtaken_trace:
  "\<exists>rs. run_store lib server s (overtaken_events old new) (Some rs) \<and> rs_rebuilds rs = Map.empty
     \<and> rs_store rs = view_of lib (discoverDynamicResources server optionalResources) (zero_time, old) (start_run server s)"
proof -
  define available where "available = discoverDynamicResources server optionalResources"
  let ?base = "start_run server s"
  let ?old = "view_of lib available (zero_time, old) ?base" and ?new = "view_of lib available (zero_time, new) ?base"
  let ?rs = "\<lambda>p store rebuilds. \<lparr>rs_phase = p, rs_store = store, rs_rebuilds = rebuilds\<rparr>"
  let ?trace = "run_trace lib available (?rs Syncing ?base Map.empty)"
  have "?trace [] (Some (?rs Syncing ?base Map.empty))" by (rule run_trace.start)
  then have "?trace [Synced] (Some (?rs Refreshing ?base Map.empty))"
    by (rule next_step) (rule synced_step, simp_all)
  then have "?trace [Synced, Started Runner zero_time old] (Some (?rs Refreshing ?base [Runner \<mapsto> (zero_time, old)]))"
    by (rule next_step) (rule started_step, simp_all)
  then have "?trace [Synced, Started Runner zero_time old, Assigned Runner] (Some (?rs Serving ?old Map.empty))"
    by (rule next_step) (rule assigned_step, simp_all)
  then have "?trace [Synced, Started Runner zero_time old, Assigned Runner, Started (Handler 0) zero_time old]
      (Some (?rs Serving ?old [Handler 0 \<mapsto> (zero_time, old)]))"
    by (rule next_step) (rule started_step, simp_all)
  then have "?trace [Synced, Started Runner zero_time old, Assigned Runner, Started (Handler 0) zero_time old,
        Started (Handler 1) zero_time new]
      (Some (?rs Serving ?old [Handler 0 \<mapsto> (zero_time, old), Handler 1 \<mapsto> (zero_time, new)]))"
    by (rule next_step) (rule started_step, simp_all)
  then have "?trace [Synced, Started Runner zero_time old, Assigned Runner, Started (Handler 0) zero_time old,
        Started (Handler 1) zero_time new, Assigned (Handler 1)]
      (Some (?rs Serving ?new [Handler 0 \<mapsto> (zero_time, old)]))"
    by (rule next_step) (rule assigned_step [where r = "Handler 1"], auto simp: fun_eq_iff)
  then have "?trace [Synced, Started Runner zero_time old, Assigned Runner, Started (Handler 0) zero_time old,
        Started (Handler 1) zero_time new, Assigned (Handler 1), Assigned (Handler 0)]
      (Some (?rs Serving ?old Map.empty))"
    by (rule next_step) (rule assigned_step, simp_all)
  then show ?thesis
    by (intro exI [of _ "?rs Serving ?old Map.empty"]) (simp add: run_store_def initial_run_def available_def)
qed

lemma run_follows_informers_witness:
  "\<forall>old new. \<exists>rs. run_store sample_lib (\<lambda>_. Inr []) sample_kube (overtaken_events old new) (Some rs)
     \<and> run_error rs = Some None \<and> ks_snapshot (rs_store rs)
       = rebuilt_snapshot sample_lib (start_run (\<lambda>_. Inr []) sample_kube) (the (given_stores (run_stores old [])))
           (format_rfc3339 (time_UTC zero_time))"
proof (intro allI)
  fix old new
  have available: "discoverDynamicResources (\<lambda>_. Inr []) optionalResources = []" by (simp add: discoverDynamicResources_def)
  obtain rs where rs: "run_store sample_lib (\<lambda>_. Inr []) sample_kube (overtaken_events old new) (Some rs)"
      "rs_store rs = view_of sample_lib (discoverDynamicResources (\<lambda>_. Inr []) optionalResources) (zero_time, old)
         (start_run (\<lambda>_. Inr []) sample_kube)"
    using overtaken_trace [of sample_lib "\<lambda>_. Inr []" sample_kube old new] by blast
  from run_follows_informers [OF rs(1) refl] have "run_error rs = Some None" by auto
  with rs show "\<exists>rs. run_store sample_lib (\<lambda>_. Inr []) sample_kube (overtaken_events old new) (Some rs)
     \<and> run_error rs = Some None \<and> ks_snapshot (rs_store rs)
       = rebuilt_snapshot sample_lib (start_run (\<lambda>_. Inr []) sample_kube) (the (given_stores (run_stores old [])))
           (format_rfc3339 (time_UTC zero_time))"
    by (intro exI [of _ rs] conjI) (simp_all add: view_of_def available)
qed

end
