(* ===== verification/Log_Invariant.thy ===== *)
theory Log_Invariant
  imports Kube_Probe
begin

text \<open>
  What holds of every collection of access-log records: the records are numbered and valid for
  their cluster, the records of a source carry its sequence numbers without a gap, and the
  issues concern the collection. From it: what an agent reports passes the server's
  validation, and the end of a log window is told truthfully.
\<close>

section \<open>The invariant of the cache\<close>

definition parsed_for :: "string \<Rightarrow> ObservedHop \<Rightarrow> bool" where
  "parsed_for clusterID hop \<longleftrightarrow>
     hop_fields_valid hop \<and> hop_ClusterID hop = clusterID
     \<and> (\<forall>proc \<in> set (hop_ExtProcs hop). ExtProcOutcome_IsValid (xp_Outcome proc))"

definition record_ID :: "nat \<Rightarrow> string" where "record_ID n = ''record-'' @ Itoa (int n + 1)"

definition source_hops :: "string \<Rightarrow> ObservedHop list \<Rightarrow> ObservedHop list" where
  "source_hops source hops = filter (\<lambda>hop. hop_LogSourceID hop = source) hops"

definition sequenced :: "ObservedHop list \<Rightarrow> bool" where
  "sequenced hops \<longleftrightarrow> map hop_LogSequence hops = map (\<lambda>n. int n + 1) [0..<length hops]"

definition hops_inv :: "string \<Rightarrow> ObservedHop list \<Rightarrow> bool" where
  "hops_inv clusterID hops \<longleftrightarrow>
     map hop_ID hops = map record_ID [0..<length hops] \<and> list_all (parsed_for clusterID) hops
     \<and> (\<forall>source. sequenced (source_hops source hops))"

definition log_issue :: "ProbeIssue \<Rightarrow> bool" where
  "log_issue issue \<longleftrightarrow>
     issue_Scope issue = ProbeIssueScopeCollection \<and> ProbeIssueCode_IsValid (issue_Code issue) \<and> issue_HopID issue = []"

definition cache_inv :: "string \<Rightarrow> probeLogCache \<Rightarrow> bool" where
  "cache_inv clusterID cache \<longleftrightarrow>
     hops_inv clusterID (lc_hops cache) \<and> list_all log_issue (lc_issues cache)
     \<and> (\<forall>source. sc_sequence (source_in (lc_sources cache) source)
          = int (length (source_hops source (lc_hops cache))))"

lemma record_ID_inj: "inj record_ID"
  by (rule injI) (simp add: record_ID_def Itoa_inj)

lemma hops_inv_distinct: "hops_inv clusterID hops \<Longrightarrow> distinct (map hop_ID hops)"
  by (simp add: hops_inv_def distinct_map inj_on_subset [OF record_ID_inj])

lemma hops_inv_admissible:
  assumes "hops_inv clusterID hops" "hop \<in> set hops"
  shows "hop_admissible clusterID hop"
proof -
  from assms have "hop_ID hop \<in> set (map record_ID [0..<length hops])"
    by (metis hops_inv_def image_eqI set_map)
  with assms show ?thesis
    by (auto simp: hops_inv_def list_all_iff parsed_for_def hop_admissible_def record_ID_def)
qed

lemma parsed_line_for:
  assumes "ParseHigressLineForProbe now line probeID traceID clusterID pod source = Some hop"
  shows "parsed_for clusterID hop"
proof -
  from assms obtain entry rawFields where "line_correlation entry probeID traceID \<noteq> []"
    and eq: "hop = entry_hop now entry rawFields (line_correlation entry probeID traceID) clusterID pod source"
    by (rule parsed_line)
  with line_correlation_cases [of entry probeID traceID] have "hop_fields_valid hop"
    by (auto intro: entry_hop_valid)
  moreover have "hop_ClusterID hop = clusterID" by (simp add: eq entry_hop_def)
  ultimately show ?thesis using entry_hop_outcomes unfolding eq parsed_for_def by blast
qed

lemma file_record_inv:
  assumes "file_record snapshot (source, hops) (key, hop) = (source', hops')"
    and "hops_inv clusterID hops" "parsed_for clusterID hop"
    and "sc_sequence source = int (length (source_hops (ls_source snapshot) hops))"
  shows "hops_inv clusterID hops' \<and> sc_sequence source' = int (length (source_hops (ls_source snapshot) hops'))
    \<and> (\<forall>other. other \<noteq> ls_source snapshot \<longrightarrow> source_hops other hops' = source_hops other hops)"
  using assms
  by (auto simp: file_record_def hops_inv_def source_hops_def sequenced_def record_ID_def parsed_for_def
      hop_fields_valid_def split: if_splits)

lemma file_records_inv:
  assumes "foldl (file_record snapshot) (source, hops) records = (source', hops')"
    and "hops_inv clusterID hops" "\<forall>(key, hop) \<in> set records. parsed_for clusterID hop"
    and "sc_sequence source = int (length (source_hops (ls_source snapshot) hops))"
  shows "hops_inv clusterID hops' \<and> sc_sequence source' = int (length (source_hops (ls_source snapshot) hops'))
    \<and> (\<forall>other. other \<noteq> ls_source snapshot \<longrightarrow> source_hops other hops' = source_hops other hops)"
  using assms
proof (induction records arbitrary: source hops)
  case (Cons kh records)
  obtain key hop where kh: "kh = (key, hop)" by fastforce
  obtain source1 hops1 where step: "file_record snapshot (source, hops) (key, hop) = (source1, hops1)" by fastforce
  with Cons.prems kh have "parsed_for clusterID hop" by auto
  note filed = file_record_inv [OF step Cons.prems(2) this Cons.prems(4)]
  with Cons.IH [of source1 hops1] Cons.prems step kh show ?case by auto
qed auto

lemma keyed_records_parsed:
  assumes "\<And>n line hop. parse n line = Some hop \<Longrightarrow> P hop"
  shows "\<forall>(key, hop) \<in> set (keyed_records sha256 parse snapshot generation earlier lines). P hop"
  using assms
  by (induction sha256 parse snapshot generation earlier lines rule: keyed_records.induct)
    (auto split: option.splits)

lemma log_issue_collection: "log_issue (collection_issue code message) \<longleftrightarrow> ProbeIssueCode_IsValid code"
  by (simp add: log_issue_def collection_issue_def zero_ProbeIssue_def)

lemma addIssue_log:
  assumes "list_all log_issue issues" "ProbeIssueCode_IsValid code"
  shows "list_all log_issue (addIssue code message issues)"
  using assms by (auto simp: addIssue_def AppendProbeIssue_def log_issue_collection)

lemma log_codes_valid [simp]:
  "ProbeIssueCode_IsValid ProbeIssueCodeLogSourceRotated"
  "ProbeIssueCode_IsValid ProbeIssueCodeLogWindowTruncated"
  "ProbeIssueCode_IsValid ProbeIssueCodeLogOrderUnconfirmed"
  "ProbeIssueCode_IsValid ProbeIssueCodeCollectionWindowEnded"
  "ProbeIssueCode_IsValid ProbeIssueCodeCollectionCancelled"
  "ProbeIssueCode_IsValid ProbeIssueCodeLogReadError"
  "ProbeIssueCode_IsValid ProbeIssueCodeNoMatchingLog"
  "ProbeIssueCode_IsValid ProbeIssueCodeResponseLimitExceeded"
  by (simp_all add: ProbeIssueCode_IsValid_def)

lemma open_source_facts:
  assumes "open_source snapshot (source, issues) = (source', issues')"
  shows "sc_sequence source' = sc_sequence source" "sc_seen source' = sc_seen source"
    "sc_previous source' = sc_previous source" "list_all log_issue issues \<Longrightarrow> list_all log_issue issues'"
  using assms by (auto simp: open_source_def Let_def addIssue_log split: if_splits)

section \<open>Merging keeps it\<close>

lemma empty_cache_inv: "cache_inv clusterID empty_log_cache"
  by (simp add: cache_inv_def empty_log_cache_def hops_inv_def source_hops_def sequenced_def source_in_def fresh_source_def)

lemma snapshot_records_parsed:
  "\<forall>(key, hop) \<in> set (snapshot_records sha256 clock probeID traceID clusterID snapshot generation). parsed_for clusterID hop"
  unfolding snapshot_records_def by (rule keyed_records_parsed) (rule parsed_line_for)

lemma merge_inv:
  assumes "merge sha256 clock probeID traceID clusterID snapshot cache = (changed, cache')"
    and "cache_inv clusterID cache"
  shows "cache_inv clusterID cache'"
  using assms(1)
proof (rule merge_parts)
  fix source1 issues1 source2
  assume opened: "open_source snapshot (source_in (lc_sources cache) (ls_source snapshot), lc_issues cache) = (source1, issues1)"
    and filed: "foldl (file_record snapshot) (source1, lc_hops cache)
        (snapshot_records sha256 clock probeID traceID clusterID snapshot (sc_generation source1)) = (source2, lc_hops cache')"
    and issues: "lc_issues cache' = (if sc_previous source2 \<noteq> [] \<and> \<not> continues (sc_previous source2)
          (map fst (snapshot_records sha256 clock probeID traceID clusterID snapshot (sc_generation source1)))
        then addIssue ProbeIssueCodeLogOrderUnconfirmed msg_log_overlap_unlocated issues1 else issues1)"
    and sources: "\<exists>uncertain. lc_sources cache' = (lc_sources cache)(ls_source snapshot \<mapsto> source2\<lparr>sc_uncertain := uncertain,
        sc_previous := map fst (snapshot_records sha256 clock probeID traceID clusterID snapshot (sc_generation source1))\<rparr>)"
  from assms(2) open_source_facts [OF opened]
  have hops: "hops_inv clusterID (lc_hops cache)"
    "sc_sequence source1 = int (length (source_hops (ls_source snapshot) (lc_hops cache)))"
    and issues1: "list_all log_issue issues1"
    by (auto simp: cache_inv_def)
  note filed_inv = file_records_inv [OF filed hops(1) snapshot_records_parsed hops(2)]
  show ?thesis
    using assms(2) filed_inv issues1 issues sources
    by (auto simp: cache_inv_def source_in_def addIssue_log)
qed

lemma merge_all_inv:
  assumes "merge_all sha256 clock probeID traceID clusterID n snapshots cache = (changed, cache')"
    and "cache_inv clusterID cache"
  shows "cache_inv clusterID cache'"
  using assms
proof (induction snapshots arbitrary: n cache changed)
  case (Cons snapshot snapshots)
  then show ?case by (auto split: prod.splits dest: merge_inv)
qed simp

section \<open>Windows\<close>

lemma over_result_states:
  "over_result now cache ended ctx = Some result \<Longrightarrow> list_all log_issue (lc_issues cache) \<Longrightarrow>
     pr_hops result = lc_hops cache \<and> list_all log_issue (pr_issues result)
     \<and> col_State (pr_collection result) \<in> {ProbeCollectionStateWindowEnded, ProbeCollectionStateCancelled}"
  by (auto simp: over_result_def finish_window_def addIssue_log split: CtxState.splits)

lemma failed_result_states:
  "list_all log_issue (lc_issues cache) \<Longrightarrow>
     pr_hops (failed_result now cache ctx e) = lc_hops cache
     \<and> list_all log_issue (pr_issues (failed_result now cache ctx e))
     \<and> col_State (pr_collection (failed_result now cache ctx e))
         \<in> {ProbeCollectionStateReadError, ProbeCollectionStateCancelled}"
  by (auto simp: failed_result_def finish_window_def addIssue_log split: CtxState.splits)

text \<open>A result with the invariant; a settled one is of a cache that can settle.\<close>

definition window_result :: "string \<Rightarrow> probeLogResult \<Rightarrow> bool" where
  "window_result clusterID result \<longleftrightarrow>
     hops_inv clusterID (pr_hops result) \<and> list_all log_issue (pr_issues result)
     \<and> ProbeCollectionState_IsValid (col_State (pr_collection result))
     \<and> (col_State (pr_collection result) = ProbeCollectionStateSettled \<longrightarrow>
          (\<exists>cache. canSettle cache \<and> lc_hops cache = pr_hops result \<and> lc_issues cache = pr_issues result))"

lemma finish_settled:
  "finish_window now cache ProbeCollectionStateSettled [] [] =
     \<lparr>pr_hops = lc_hops cache,
      pr_collection = \<lparr>col_State = ProbeCollectionStateSettled, col_CompletedAt = format_rfc3339nano (time_UTC now)\<rparr>,
      pr_issues = lc_issues cache\<rparr>"
  by (simp add: finish_window_def)

text \<open>One round: it ends the window, or the next one follows.\<close>

lemma collect_rounds_round:
  assumes "collect_rounds sha256 read probeID traceID clusterID settle (round # rounds) r stableSince cache = Some result"
    and "read (lr_world round) r = ((snapshots, err), r')"
    and "merge_all sha256 (lr_clock round) probeID traceID clusterID 0 snapshots cache = (changed, cache')"
  obtains (started) "over_result (lr_finished round) cache msg_window_ended (lr_start round) = Some result"
    | (over) "over_result (lr_finished round) cache' msg_window_ended_reading (lr_read round) = Some result"
    | (failed) e where "result = failed_result (lr_finished round) cache' (lr_failed round) e"
    | (settled) "settled_long settle changed (canSettle cache') stableSince (lr_now round)"
        "result = finish_window (lr_finished round) cache' ProbeCollectionStateSettled [] []"
    | (more) "collect_rounds sha256 read probeID traceID clusterID settle rounds r'
        (stable_start changed (canSettle cache') stableSince (lr_now round)) cache' = Some result"
proof (cases "over_result (lr_finished round) cache msg_window_ended (lr_start round)")
  case None
  note step = assms(1) [unfolded collect_rounds.simps None assms(2,3) option.case prod.case]
  show thesis
  proof (cases "over_result (lr_finished round) cache' msg_window_ended_reading (lr_read round)")
    case None
    note step = step [unfolded None option.case]
    show thesis
    proof (cases err)
      case None
      with step show thesis by (cases "settled_long settle changed (canSettle cache') stableSince (lr_now round)")
        (simp_all add: settled more)
    qed (use step failed in auto)
  qed (use step over in simp)
qed (use assms(1) started in simp)

lemma collect_rounds_result:
  assumes "collect_rounds sha256 read probeID traceID clusterID settle rounds r stableSince cache = Some result"
    and "cache_inv clusterID cache"
  shows "window_result clusterID result"
  using assms
proof (induction rounds arbitrary: r stableSince cache)
  case (Cons round rounds)
  obtain snapshots err r' where reads: "read (lr_world round) r = ((snapshots, err), r')" by (metis prod.exhaust)
  obtain changed cache' where merged:
    "merge_all sha256 (lr_clock round) probeID traceID clusterID 0 snapshots cache = (changed, cache')" by fastforce
  note inv' = merge_all_inv [OF merged Cons.prems(2)]
  from Cons.prems(2) inv' have issues: "list_all log_issue (lc_issues cache)" "list_all log_issue (lc_issues cache')"
    by (auto simp: cache_inv_def)
  note parts = Cons.prems(2) inv' issues
  from Cons.prems(1) reads merged show ?case
  proof (cases rule: collect_rounds_round)
    case started
    from over_result_states [OF this issues(1)] parts show ?thesis
      by (auto simp: window_result_def cache_inv_def ProbeCollectionState_IsValid_def)
  next
    case over
    from over_result_states [OF this issues(2)] parts show ?thesis
      by (auto simp: window_result_def cache_inv_def ProbeCollectionState_IsValid_def)
  next
    case (failed e)
    from failed_result_states [OF issues(2), of "lr_finished round" "lr_failed round" e] parts failed show ?thesis
      by (auto simp: window_result_def cache_inv_def ProbeCollectionState_IsValid_def)
  next
    case settled
    with parts show ?thesis
      by (auto simp: window_result_def cache_inv_def ProbeCollectionState_IsValid_def finish_settled settled_long_def)
  next
    case more
    from Cons.IH [OF this inv'] show ?thesis .
  qed
qed simp

lemma collectProbeWindow_result:
  "collectProbeWindow sha256 read r rounds probeID traceID clusterID settle = Some result \<Longrightarrow>
     window_result clusterID result"
  unfolding collectProbeWindow_def by (rule collect_rounds_result [OF _ empty_cache_inv])

lemma observeProbeWindow_result:
  "observeProbeWindow sha256 clusterID probeLogFile runtime since fileOffset probeID traceID rounds = Some result \<Longrightarrow>
     window_result clusterID result"
  unfolding observeProbeWindow_def by (rule collectProbeWindow_result)

section \<open>Reports\<close>

text \<open>The command that asks the agent of a cluster to execute or observe a probe.\<close>

definition probe_commanded :: "AgentCommand \<Rightarrow> string \<Rightarrow> ProbeCommand \<Rightarrow> bool" where
  "probe_commanded command clusterID probe \<longleftrightarrow>
     cmd_Probe command = Some probe \<and> cmd_ClusterID command = clusterID
     \<and> cmd_GatewayID command = pc_GatewayID probe"

lemma bare_result_fields:
  "par_SchemaVersion (bare_result s env command) = 2" "par_ProbeID (bare_result s env command) = pc_ProbeID command"
  "par_TraceID (bare_result s env command) = pc_TraceID command"
  "par_ClusterID (bare_result s env command) = ks_clusterID s"
  "par_GatewayID (bare_result s env command) = pc_GatewayID command"
  "par_HTTP (bare_result s env command) = None" "par_Issues (bare_result s env command) = []"
  by (simp_all add: bare_result_def zero_ProbeAgentResult_def ProbeSchemaVersion_def)

lemma with_logs_fields:
  "par_SchemaVersion (with_logs env missing logs result) = par_SchemaVersion result"
  "par_ProbeID (with_logs env missing logs result) = par_ProbeID result"
  "par_TraceID (with_logs env missing logs result) = par_TraceID result"
  "par_ClusterID (with_logs env missing logs result) = par_ClusterID result"
  "par_GatewayID (with_logs env missing logs result) = par_GatewayID result"
  "par_HTTP (with_logs env missing logs result) = par_HTTP result"
  "par_Hops (with_logs env missing logs result) = slice_stable observed_before (pr_hops logs)"
  "par_Collection (with_logs env missing logs result) = Some (pr_collection logs)"
  by (simp_all add: with_logs_def Let_def)

lemma with_logs_issues:
  "issue \<in> set (par_Issues (with_logs env missing logs result)) \<Longrightarrow> list_all log_issue (pr_issues logs) \<Longrightarrow>
     issue \<in> set (par_Issues result) \<or> log_issue issue"
  by (auto simp: with_logs_def Let_def AppendProbeIssue_def log_issue_collection list_all_iff split: if_splits)

lemma with_logs_accepted:
  assumes "window_result (par_ClusterID result) logs"
    and "\<forall>issue \<in> set (par_Issues result). issue_Scope issue = ProbeIssueScopeExecution \<and> par_HTTP result \<noteq> None
      \<and> ProbeIssueCode_IsValid (issue_Code issue) \<and> issue_HopID issue = []"
  shows "distinct (map hop_ID (par_Hops (with_logs env missing logs result)))"
    "list_all (hop_admissible (par_ClusterID result)) (par_Hops (with_logs env missing logs result))"
    "list_all (issue_admissible (with_logs env missing logs result)) (par_Issues (with_logs env missing logs result))"
proof -
  from assms(1) have inv: "hops_inv (par_ClusterID result) (pr_hops logs)" and issues: "list_all log_issue (pr_issues logs)"
    by (auto simp: window_result_def)
  show "distinct (map hop_ID (par_Hops (with_logs env missing logs result)))"
    by (simp add: with_logs_fields hops_inv_distinct [OF inv])
  show "list_all (hop_admissible (par_ClusterID result)) (par_Hops (with_logs env missing logs result))"
    by (auto simp: with_logs_fields list_all_iff intro: hops_inv_admissible [OF inv])
  show "list_all (issue_admissible (with_logs env missing logs result)) (par_Issues (with_logs env missing logs result))"
    using assms(2)
    by (auto simp: list_all_iff issue_admissible_def log_issue_def with_logs_fields dest!: with_logs_issues [OF _ issues])
qed

lemma http_answer_method: "http_answer answer http = (http', issues) \<Longrightarrow> http_Method http' = http_Method http"
  by (auto simp: http_answer_def Let_def split: sum.splits prod.splits option.splits)

lemma http_answer_issues:
  "http_answer answer http = (http', issues) \<Longrightarrow> issue \<in> set issues \<Longrightarrow> issue = response_limit_issue"
  by (auto simp: http_answer_def Let_def AppendProbeIssue_def split: sum.splits prod.splits option.splits if_splits)

lemma execute_result:
  assumes "ExecuteProbe sha256 s env probe = Some (Inr result)"
  obtains logs http issues where "window_result (ks_clusterID s) logs"
    "result = with_logs env msg_no_higress_log logs ((bare_result s env probe)\<lparr>par_HTTP := Some http, par_Issues := issues\<rparr>)"
    "http_Method http = pc_Method probe" "ProbeHTTPMethod_IsValid (pc_Method probe)"
    "\<forall>issue \<in> set issues. issue = response_limit_issue"
  using assms
  by (auto simp: ExecuteProbe_def zero_ProbeHTTPResult_def split: if_splits sum.splits prod.splits option.splits
      dest!: observeProbeWindow_result dest: http_answer_issues http_answer_method intro!: that)

lemma observe_result:
  assumes "ObserveProbe sha256 s env probe = Some (Inr result)"
  obtains logs where "window_result (ks_clusterID s) logs"
    "result = with_logs env msg_no_gateway_log logs (bare_result s env probe)"
  using assms
  by (auto simp: ObserveProbe_def split: sum.splits option.splits dest!: observeProbeWindow_result intro!: that)

lemma response_limit_admissible:
  "issue_Scope response_limit_issue = ProbeIssueScopeExecution" "ProbeIssueCode_IsValid (issue_Code response_limit_issue)"
  "issue_HopID response_limit_issue = []"
  by (simp_all add: response_limit_issue_def zero_ProbeIssue_def)

lemma executed_accepted:
  assumes "ExecuteProbe sha256 s env probe = Some (Inr result)" "cmd_Kind command = AgentCommandProbeHTTP"
    and "probe_commanded command (ks_clusterID s) probe"
  shows "probe_result_contract result command"
proof -
  from assms(1) obtain logs http issues where window: "window_result (ks_clusterID s) logs"
    and result: "result = with_logs env msg_no_higress_log logs
      ((bare_result s env probe)\<lparr>par_HTTP := Some http, par_Issues := issues\<rparr>)" (is "_ = with_logs _ _ _ ?bare")
    and http: "http_Method http = pc_Method probe" "ProbeHTTPMethod_IsValid (pc_Method probe)"
    and issues: "\<forall>issue \<in> set issues. issue = response_limit_issue"
    by (rule execute_result)
  from window have "window_result (par_ClusterID ?bare) logs" by (simp add: bare_result_fields)
  note accepted = with_logs_accepted [OF this, of env msg_no_higress_log]
  have "\<forall>issue \<in> set (par_Issues ?bare). issue_Scope issue = ProbeIssueScopeExecution \<and> par_HTTP ?bare \<noteq> None
      \<and> ProbeIssueCode_IsValid (issue_Code issue) \<and> issue_HopID issue = []"
    using issues by (auto simp: response_limit_admissible)
  note accepted = accepted [OF this]
  show ?thesis
    using assms(2,3) window http accepted
    by (simp add: probe_result_contract_def result with_logs_fields bare_result_fields probe_commanded_def window_result_def)
qed

lemma observed_accepted:
  assumes "ObserveProbe sha256 s env probe = Some (Inr result)" "cmd_Kind command = AgentCommandProbeObserve"
    and "probe_commanded command (ks_clusterID s) probe"
  shows "probe_result_contract result command"
proof -
  from assms(1) obtain logs where window: "window_result (ks_clusterID s) logs"
    and result: "result = with_logs env msg_no_gateway_log logs (bare_result s env probe)"
    by (rule observe_result)
  from window have "window_result (par_ClusterID (bare_result s env probe)) logs" by (simp add: bare_result_fields)
  note accepted = with_logs_accepted [OF this, of env msg_no_gateway_log]
  show ?thesis
    using assms(2,3) window accepted
    by (simp add: probe_result_contract_def result with_logs_fields bare_result_fields probe_commanded_def window_result_def)
qed

end
