(* ===== verification/Log_Growth.thy ===== *)
theory Log_Growth
  imports Log_Invariant
begin

text \<open>
  Collections over time: hops are only added, a settled window was stable between two of its
  rounds, a window ends with its context, and a log that grew since it was read adds exactly its
  new records.
\<close>

section \<open>Rounds that only add\<close>

lemma file_record_adds: "\<exists>added. snd (file_record snapshot sh kh) = snd sh @ added"
  by (auto simp: file_record_def split: prod.splits)

lemma file_records_add: "\<exists>added. snd (foldl (file_record snapshot) sh records) = snd sh @ added"
proof (induction records arbitrary: sh)
  case (Cons kh records)
  from Cons.IH [of "file_record snapshot sh kh"] file_record_adds [of snapshot sh kh] show ?case by auto
qed simp

lemma merge_adds:
  assumes "merge sha256 clock probeID traceID clusterID snapshot cache = (changed, cache')"
  shows "\<exists>added. lc_hops cache' = lc_hops cache @ added \<and> (changed \<longleftrightarrow> added \<noteq> [])"
  using assms
proof (rule merge_parts)
  fix source1 issues1 source2
  assume "foldl (file_record snapshot) (source1, lc_hops cache)
        (snapshot_records sha256 clock probeID traceID clusterID snapshot (sc_generation source1)) = (source2, lc_hops cache')"
    and "changed \<longleftrightarrow> length (lc_hops cache') \<noteq> length (lc_hops cache)"
  with file_records_add [of snapshot "(source1, lc_hops cache)"
      "snapshot_records sha256 clock probeID traceID clusterID snapshot (sc_generation source1)"]
  show ?thesis by auto
qed

lemma merge_all_adds:
  assumes "merge_all sha256 clock probeID traceID clusterID n snapshots cache = (changed, cache')"
  shows "\<exists>added. lc_hops cache' = lc_hops cache @ added \<and> (changed \<longleftrightarrow> added \<noteq> [])"
  using assms
proof (induction snapshots arbitrary: n cache changed)
  case (Cons snapshot snapshots)
  obtain changed1 cache1 where first: "merge sha256 (clock n) probeID traceID clusterID snapshot cache = (changed1, cache1)"
    by fastforce
  obtain changed2 where rest: "merge_all sha256 clock probeID traceID clusterID (Suc n) snapshots cache1 = (changed2, cache')"
    and changed: "changed \<longleftrightarrow> changed1 \<or> changed2"
    using Cons.prems first by (auto split: prod.splits)
  from merge_adds [OF first] Cons.IH [OF rest] changed show ?case by auto
qed simp

text \<open>The reader and the cache after some rounds.\<close>

fun cache_after ::
    "(string \<Rightarrow> string) \<Rightarrow> ('e, 'r) logReader \<Rightarrow> string \<Rightarrow> string \<Rightarrow> string \<Rightarrow> 'e LogRound list
     \<Rightarrow> 'r \<times> probeLogCache \<Rightarrow> 'r \<times> probeLogCache" where
  "cache_after sha256 read probeID traceID clusterID [] rc = rc"
| "cache_after sha256 read probeID traceID clusterID (round # rounds) (r, cache) =
     cache_after sha256 read probeID traceID clusterID rounds
       (snd (read (lr_world round) r),
        snd (merge_all sha256 (lr_clock round) probeID traceID clusterID 0 (fst (fst (read (lr_world round) r))) cache))"

text \<open>The hops when the stable time began: before these rounds, or after some of them.\<close>

definition stable_from ::
    "('e LogRound list \<Rightarrow> ObservedHop list) \<Rightarrow> ObservedHop list \<Rightarrow> GoTime option \<Rightarrow> ObservedHop list \<Rightarrow> int
     \<Rightarrow> 'e LogRound list \<Rightarrow> GoTime \<Rightarrow> bool" where
  "stable_from hops_after hops stableSince final settle earlier now \<longleftrightarrow>
     (\<exists>since. stableSince = Some since \<and> settle \<le> time_Sub now since \<and> final = hops)
     \<or> (\<exists>xs first ys. earlier = xs @ first # ys \<and> settle \<le> time_Sub now (lr_now first) \<and> hops_after (xs @ [first]) = final)"

text \<open>One round before does not end the stable time, unless it changed something.\<close>

lemma stable_from_earlier:
  assumes "stable_from after' hops' (stable_start changed ok stableSince (lr_now round)) final settle earlier now"
    and "\<And>rounds. after (round # rounds) = after' rounds" "after' [] = hops'" "\<not> changed \<Longrightarrow> hops' = hops"
  shows "stable_from after hops stableSince final settle (round # earlier) now"
  using assms(1) [unfolded stable_from_def]
proof (elim disjE exE conjE)
  fix since
  assume since: "stable_start changed ok stableSince (lr_now round) = Some since"
    and settle: "settle \<le> time_Sub now since" and same: "final = hops'"
  show ?thesis
  proof (cases "since = lr_now round")
    case True
    then show ?thesis unfolding stable_from_def
      using settle same assms(2,3) by (intro disjI2 exI [of _ "[]"]) auto
  next
    case False
    with since have "stableSince = Some since" "\<not> changed"
      by (auto simp: stable_start_def split: if_splits option.splits)
    then show ?thesis unfolding stable_from_def using settle same assms(4) by auto
  qed
next
  fix xs first ys
  assume "earlier = xs @ first # ys" "settle \<le> time_Sub now (lr_now first)" "after' (xs @ [first]) = final"
  then show ?thesis unfolding stable_from_def
    using assms(2) by (intro disjI2 exI [of _ "round # xs"]) auto
qed

lemma collect_rounds_settled:
  assumes "collect_rounds sha256 read probeID traceID clusterID settle rounds r stableSince cache = Some result"
    and "col_State (pr_collection result) = ProbeCollectionStateSettled"
    and "cache_inv clusterID cache"
  shows "\<exists>earlier last later. rounds = earlier @ last # later
    \<and> lc_hops (snd (cache_after sha256 read probeID traceID clusterID (earlier @ [last]) (r, cache))) = pr_hops result
    \<and> stable_from (\<lambda>rounds. lc_hops (snd (cache_after sha256 read probeID traceID clusterID rounds (r, cache))))
        (lc_hops cache) stableSince (pr_hops result) settle earlier (lr_now last)"
  using assms
proof (induction rounds arbitrary: r stableSince cache)
  case (Cons round rounds)
  obtain snapshots err r' where reads: "read (lr_world round) r = ((snapshots, err), r')" by (metis prod.exhaust)
  obtain changed cache' where merged:
    "merge_all sha256 (lr_clock round) probeID traceID clusterID 0 snapshots cache = (changed, cache')" by fastforce
  note inv' = merge_all_inv [OF merged Cons.prems(3)]
  from Cons.prems(3) inv' have issues: "list_all log_issue (lc_issues cache)" "list_all log_issue (lc_issues cache')"
    by (auto simp: cache_inv_def)
  from merge_all_adds [OF merged] have unchanged: "\<not> changed \<Longrightarrow> lc_hops cache' = lc_hops cache" by auto
  let ?after = "\<lambda>rounds r cache. lc_hops (snd (cache_after sha256 read probeID traceID clusterID rounds (r, cache)))"
  have after: "?after (round # rs) r cache = ?after rs r' cache'" for rs
    by (simp add: reads merged)
  from Cons.prems(1) reads merged show ?case
  proof (cases rule: collect_rounds_round)
    case started
    from over_result_states [OF this issues(1)] Cons.prems(2) show ?thesis by auto
  next
    case over
    from over_result_states [OF this issues(2)] Cons.prems(2) show ?thesis by auto
  next
    case (failed e)
    from failed_result_states [OF issues(2), of "lr_finished round" "lr_failed round" e] Cons.prems(2) failed
    show ?thesis by auto
  next
    case settled
    then obtain since where since: "stableSince = Some since" "settle \<le> time_Sub (lr_now round) since" "\<not> changed"
      by (auto simp: settled_long_def split: option.splits)
    have final: "pr_hops result = lc_hops cache'" by (simp add: settled(2) finish_settled)
    show ?thesis
    proof (intro exI conjI)
      show "round # rounds = [] @ round # rounds" by simp
      show "?after ([] @ [round]) r cache = pr_hops result" using final after [of "[]"] by simp
      show "stable_from (\<lambda>rounds. ?after rounds r cache) (lc_hops cache) stableSince (pr_hops result) settle [] (lr_now round)"
        unfolding stable_from_def using since final unchanged by auto
    qed
  next
    case more
    from Cons.IH [OF this Cons.prems(2) inv'] obtain earlier last later where rounds: "rounds = earlier @ last # later"
      and final: "?after (earlier @ [last]) r' cache' = pr_hops result"
      and stable: "stable_from (\<lambda>rounds. ?after rounds r' cache') (lc_hops cache')
        (stable_start changed (canSettle cache') stableSince (lr_now round)) (pr_hops result) settle earlier (lr_now last)"
      by blast
    have "stable_from (\<lambda>rounds. ?after rounds r cache) (lc_hops cache) stableSince (pr_hops result) settle
        (round # earlier) (lr_now last)"
      by (rule stable_from_earlier [OF stable after _ unchanged]) simp_all
    with rounds final after [of "earlier @ [last]"] show ?thesis
      by (intro exI [of _ "round # earlier"] exI [of _ last] exI [of _ later]) simp
  qed
qed simp

section \<open>Rounds that end\<close>

definition round_over :: "'e LogRound \<Rightarrow> bool" where
  "round_over round \<longleftrightarrow> lr_start round \<noteq> CtxLive \<or> lr_read round \<noteq> CtxLive"

lemma over_result_None: "over_result now cache ended ctx = None \<longleftrightarrow> ctx = CtxLive"
  by (auto simp: over_result_def split: CtxState.splits)

lemma over_result_live [simp]: "over_result now cache ended CtxLive = None"
  by (simp add: over_result_None)

lemma collect_rounds_ends:
  assumes "round_over round"
  shows "collect_rounds sha256 read probeID traceID clusterID settle (earlier @ [round]) r stableSince cache \<noteq> None"
proof (induction earlier arbitrary: r stableSince cache)
  case Nil
  show ?case
    using assms by (auto simp: round_over_def over_result_None split: option.splits prod.splits)
next
  case (Cons next_round earlier)
  then show ?case by (auto split: option.splits prod.splits)
qed

lemma collect_rounds_decided:
  assumes "round_over round"
  shows "collect_rounds sha256 read probeID traceID clusterID settle (earlier @ round # later) r stableSince cache
    = collect_rounds sha256 read probeID traceID clusterID settle (earlier @ [round]) r stableSince cache"
proof (induction earlier arbitrary: r stableSince cache)
  case Nil
  show ?case
    using assms by (auto simp: round_over_def over_result_None split: option.splits prod.splits)
next
  case (Cons next_round earlier)
  show ?case by (simp add: Cons.IH split: option.split prod.split)
qed

section \<open>Logs that grow\<close>

text \<open>The keys do not depend on the clock, and a record that is filed is not filed again.\<close>

lemma parse_clock:
  "ParseHigressLineForProbe now line probeID traceID clusterID pod source = None \<longleftrightarrow>
     ParseHigressLineForProbe now' line probeID traceID clusterID pod source = None"
  by (auto simp: ParseHigressLineForProbe_def Let_def split: option.splits)

lemma keyed_records_keys:
  assumes "\<And>n line. parse n line = None \<longleftrightarrow> parse' n line = None"
  shows "map fst (keyed_records sha256 parse snapshot generation earlier lines)
    = map fst (keyed_records sha256 parse' snapshot generation earlier lines)"
proof (induction lines arbitrary: earlier)
  case (Cons line lines)
  obtain n position text_line where line: "line = (n, position, text_line)" by (metis prod.exhaust)
  from assms [of n text_line] Cons.IH show ?case by (auto simp: line split: option.splits)
qed simp

definition matching ::
    "(string \<Rightarrow> string) \<Rightarrow> (nat \<Rightarrow> string \<Rightarrow> ObservedHop option) \<Rightarrow> (nat \<times> int \<times> string) list \<Rightarrow> string list" where
  "matching sha256 parse lines =
     map (\<lambda>(n, position, line). sha256 (identity_line line)) (filter (\<lambda>(n, position, line). parse n line \<noteq> None) lines)"

lemma keyed_records_append:
  "keyed_records sha256 parse snapshot generation earlier (xs @ ys) =
     keyed_records sha256 parse snapshot generation earlier xs
     @ keyed_records sha256 parse snapshot generation (earlier @ matching sha256 parse xs) ys"
proof (induction xs arbitrary: earlier)
  case (Cons line lines)
  obtain n position text_line where line: "line = (n, position, text_line)" by (metis prod.exhaust)
  from Cons.IH show ?case by (auto simp: line matching_def split: option.splits)
qed (simp add: matching_def)

lemma Itoa_slash: "CHR ''/'' \<notin> set (Itoa i)"
  by (rule Itoa_free) (simp_all add: is_digit_def byte_val_def)

lemma slash_split:
  assumes "CHR ''/'' \<notin> set a" "CHR ''/'' \<notin> set a'" "a @ CHR ''/'' # b = a' @ CHR ''/'' # b'"
  shows "a = a' \<and> b = b'"
  using assms
proof (induction a arbitrary: a')
  case Nil
  then show ?case by (cases a') auto
next
  case (Cons x a)
  then show ?case by (cases a') auto
qed

text \<open>No two records of a snapshot have the same key.\<close>

lemma file_key_inj:
  assumes "ls_fileInfo snapshot \<noteq> None"
    and "record_key sha256 snapshot generation earlier position line = record_key sha256 snapshot generation earlier' position' line'"
  shows "position = position'"
proof -
  from assms have "Itoa position @ CHR ''/'' # sha256 (identity_line line)
      = Itoa position' @ CHR ''/'' # sha256 (identity_line line')"
    by (simp add: record_key_def Let_def)
  from slash_split [OF Itoa_slash Itoa_slash this] show ?thesis by (simp add: Itoa_inj)
qed

lemma occurrence_key_inj:
  assumes "ls_fileInfo snapshot = None"
    and "record_key sha256 snapshot generation earlier position line = record_key sha256 snapshot generation earlier' position' line'"
  shows "sha256 (identity_line line) = sha256 (identity_line line')
    \<and> length (filter (\<lambda>f. f = sha256 (identity_line line)) earlier) = length (filter (\<lambda>f. f = sha256 (identity_line line)) earlier')"
proof -
  let ?n = "\<lambda>earlier line. Itoa (int (length (filter (\<lambda>f. f = sha256 (identity_line line)) earlier)) + 1)"
  from assms have "rev (sha256 (identity_line line) @ CHR ''/'' # ?n earlier line)
      = rev (sha256 (identity_line line') @ CHR ''/'' # ?n earlier' line')"
    by (simp add: record_key_def Let_def)
  then have "rev (?n earlier line) @ CHR ''/'' # rev (sha256 (identity_line line))
      = rev (?n earlier' line') @ CHR ''/'' # rev (sha256 (identity_line line'))" by simp
  from slash_split [OF _ _ this] Itoa_slash show ?thesis by (auto simp: Itoa_inj)
qed

text \<open>A later key belongs to a later line, and counts at least the records before it.\<close>

lemma keyed_records_key:
  assumes "key \<in> fst ` set (keyed_records sha256 parse snapshot generation earlier lines)"
  shows "\<exists>n position line later. (n, position, line) \<in> set lines
    \<and> key = record_key sha256 snapshot generation (earlier @ later) position line"
  using assms
proof (induction lines arbitrary: earlier)
  case (Cons line lines)
  obtain n position text_line where line: "line = (n, position, text_line)" by (metis prod.exhaust)
  show ?case
  proof (cases "parse n text_line")
    case None
    with Cons.prems line have "key \<in> fst ` set (keyed_records sha256 parse snapshot generation earlier lines)" by simp
    from Cons.IH [OF this] obtain n' position' line' later where "(n', position', line') \<in> set lines"
      "key = record_key sha256 snapshot generation (earlier @ later) position' line'" by blast
    then show ?thesis by (intro exI [of _ n'] exI [of _ position'] exI [of _ line'] exI [of _ later]) simp
  next
    case (Some hop)
    with Cons.prems line consider "key = record_key sha256 snapshot generation (earlier @ []) position text_line"
      | "key \<in> fst ` set (keyed_records sha256 parse snapshot generation (earlier @ [sha256 (identity_line text_line)]) lines)"
      by auto
    then show ?thesis
    proof cases
      case 1
      with line show ?thesis by (intro exI [of _ n] exI [of _ position] exI [of _ text_line] exI [of _ "[]"]) simp
    next
      case 2
      from Cons.IH [OF this] obtain n' position' line' later where "(n', position', line') \<in> set lines"
        "key = record_key sha256 snapshot generation ((earlier @ [sha256 (identity_line text_line)]) @ later) position' line'"
        by blast
      then show ?thesis
        by (intro exI [of _ n'] exI [of _ position'] exI [of _ line']
            exI [of _ "sha256 (identity_line text_line) # later"]) simp
    qed
  qed
qed simp

lemma line_positions_later: "(n', position', line) \<in> set (line_positions n position lines) \<Longrightarrow> position \<le> position'"
  by (induction lines arbitrary: n position) fastforce+

lemma keyed_records_distinct:
  "distinct (map fst (keyed_records sha256 parse snapshot generation earlier (line_positions n position lines)))"
proof (induction lines arbitrary: n position earlier)
  case (Cons line lines)
  let ?key = "record_key sha256 snapshot generation earlier position line"
  let ?rest = "keyed_records sha256 parse snapshot generation (earlier @ [sha256 (identity_line line)])
    (line_positions (Suc n) (position + int (length line) + 1) lines)"
  have "?key \<notin> fst ` set ?rest"
  proof
    assume "?key \<in> fst ` set ?rest"
    from keyed_records_key [OF this] obtain n' position' line' later
      where line': "(n', position', line') \<in> set (line_positions (Suc n) (position + int (length line) + 1) lines)"
        and key: "?key = record_key sha256 snapshot generation
          ((earlier @ [sha256 (identity_line line)]) @ later) position' line'" by blast
    show False
    proof (cases "ls_fileInfo snapshot")
      case None
      from occurrence_key_inj [OF this key] show False by auto
    next
      case (Some info)
      then have "ls_fileInfo snapshot \<noteq> None" by simp
      from file_key_inj [OF this key] line_positions_later [OF line'] show False by simp
    qed
  qed
  with Cons.IH show ?case by (auto split: option.split)
qed simp

end
