(* ===== verification/Log_Rereading.thy ===== *)
theory Log_Rereading
  imports Log_Growth
begin

text \<open>
  Rereading a log that grows: a source whose snapshots continue each other contributes every
  record once, whatever the number of reads, and no doubt about its order arises.
\<close>

section \<open>Records without their place in the collection\<close>

text \<open>A record but for its number, its source and the reading of the clock.\<close>

definition log_record :: "ObservedHop \<Rightarrow> ObservedHop" where
  "log_record hop = hop\<lparr>hop_ID := [], hop_LogSourceID := [], hop_RuntimeSource := [], hop_LogSequence := 0,
     hop_ObservedAt := []\<rparr>"

lemma log_record_file [simp]:
  "log_record (hop\<lparr>hop_ID := i, hop_LogSourceID := source, hop_RuntimeSource := runtime, hop_LogSequence := n\<rparr>)
    = log_record hop"
  by (simp add: log_record_def)

lemma log_record_clock:
  "map_option log_record (ParseHigressLineForProbe now line probeID traceID clusterID pod source) =
     map_option log_record (ParseHigressLineForProbe now' line probeID traceID clusterID pod source)"
  by (auto simp: ParseHigressLineForProbe_def Let_def log_record_def entry_hop_def zero_ObservedHop_def split: option.splits)

lemma map_filter_cong_option:
  assumes "\<And>x. map_option h (f x) = map_option h (g x)"
  shows "map h (List.map_filter f xs) = map h (List.map_filter g xs)"
proof (induction xs)
  case (Cons x xs)
  from assms [of x] Cons show ?case by (cases "f x"; cases "g x") (auto simp: map_filter_def)
qed (simp add: map_filter_def)

lemma keyed_records_hops:
  "map snd (keyed_records sha256 parse snapshot generation earlier (line_positions n position lines)) =
     List.map_filter (\<lambda>(n, line). parse n line) (List.enumerate n lines)"
  by (induction lines arbitrary: n position earlier) (auto simp: map_filter_def split: option.splits)

lemma snapshot_records_hops:
  "map log_record (map snd (snapshot_records sha256 clock probeID traceID clusterID snapshot generation)) =
     map log_record (ParseHigressLinesForProbe clock' (ls_content snapshot) probeID traceID clusterID
       (ls_pod snapshot) (ls_source snapshot))"
  unfolding snapshot_records_def snapshot_lines_def keyed_records_hops ParseHigressLinesForProbe_def
  by (rule map_filter_cong_option) (auto simp: numbered_line_hop_def intro: log_record_clock)

section \<open>Filing records\<close>

lemma file_records_seen:
  assumes "\<forall>kh \<in> set records. sc_seen source (fst kh) \<noteq> None"
  shows "foldl (file_record snapshot) (source, hops) records = (source, hops)"
  using assms by (induction records) (auto simp: file_record_def split: prod.splits)

lemma file_records_new:
  assumes "distinct (map fst records)" "\<forall>kh \<in> set records. sc_seen source (fst kh) = None"
    and "foldl (file_record snapshot) (source, hops) records = (source', hops')"
  shows "map log_record hops' = map log_record hops @ map log_record (map snd records)
    \<and> dom (sc_seen source') = dom (sc_seen source) \<union> fst ` set records \<and> sc_previous source' = sc_previous source
    \<and> sc_generation source' = sc_generation source \<and> sc_fileInfo source' = sc_fileInfo source"
  using assms
proof (induction records arbitrary: source hops)
  case (Cons kh records)
  obtain key hop where kh: "kh = (key, hop)" by fastforce
  let ?source = "source\<lparr>sc_sequence := sc_sequence source + 1, sc_seen := (sc_seen source)(key \<mapsto> length hops)\<rparr>"
  let ?hop = "hop\<lparr>hop_ID := ''record-'' @ Itoa (int (length hops) + 1),
              hop_LogSourceID := ls_source snapshot, hop_RuntimeSource := ls_runtime snapshot,
              hop_LogSequence := sc_sequence source + 1\<rparr>"
  have step: "file_record snapshot (source, hops) kh = (?source, hops @ [?hop])"
    using Cons.prems(2) by (simp add: file_record_def kh)
  have "\<forall>kh \<in> set records. sc_seen ?source (fst kh) = None"
    using Cons.prems(1,2) kh by auto
  from Cons.IH [OF _ this, of "hops @ [?hop]"] Cons.prems(1,3) step kh show ?case by auto
qed simp

section \<open>A snapshot that continues its source\<close>

lemma merge_continuing:
  assumes "merge sha256 clock probeID traceID clusterID snapshot cache = (changed, cache')"
    and "source_in (lc_sources cache) (ls_source snapshot) = source"
    and "\<not> file_replaced (ls_fileInfo snapshot) (sc_fileInfo source)" "\<not> ls_incomplete snapshot"
    and "dom (sc_seen source) = set (sc_previous source)"
    and "snapshot_records sha256 clock probeID traceID clusterID snapshot (sc_generation source) = records"
    and "sc_previous source = take k (map fst records)"
    and "source_in (lc_sources cache') (ls_source snapshot) = source'"
  shows "lc_issues cache' = lc_issues cache"
    and "map log_record (lc_hops cache') = map log_record (lc_hops cache) @ drop k (map log_record (map snd records))"
    and "dom (sc_seen source') = set (sc_previous source')" "sc_previous source' = map fst records"
    and "sc_fileInfo source' = ls_fileInfo snapshot" "sc_generation source' = sc_generation source"
proof -
  from assms(1) have "lc_issues cache' = lc_issues cache
    \<and> map log_record (lc_hops cache') = map log_record (lc_hops cache) @ drop k (map log_record (map snd records))
    \<and> dom (sc_seen source') = set (sc_previous source') \<and> sc_previous source' = map fst records
    \<and> sc_fileInfo source' = ls_fileInfo snapshot \<and> sc_generation source' = sc_generation source"
  proof (rule merge_parts)
    fix source1 issues1 source2
    assume opened: "open_source snapshot (source_in (lc_sources cache) (ls_source snapshot), lc_issues cache) = (source1, issues1)"
      and filed: "foldl (file_record snapshot) (source1, lc_hops cache)
          (snapshot_records sha256 clock probeID traceID clusterID snapshot (sc_generation source1)) = (source2, lc_hops cache')"
      and issues: "lc_issues cache' = (if sc_previous source2 \<noteq> [] \<and> \<not> continues (sc_previous source2)
            (map fst (snapshot_records sha256 clock probeID traceID clusterID snapshot (sc_generation source1)))
          then addIssue ProbeIssueCodeLogOrderUnconfirmed msg_log_overlap_unlocated issues1 else issues1)"
      and sources: "\<exists>uncertain. lc_sources cache' = (lc_sources cache)(ls_source snapshot \<mapsto> source2\<lparr>sc_uncertain := uncertain,
          sc_previous := map fst (snapshot_records sha256 clock probeID traceID clusterID snapshot (sc_generation source1))\<rparr>)"
    from opened assms(2,3,4) have source1: "source1 = source\<lparr>sc_fileInfo := ls_fileInfo snapshot\<rparr>" "issues1 = lc_issues cache"
      by (auto simp: open_source_def Let_def)
    have distinct: "distinct (map fst records)"
      unfolding assms(6) [symmetric] snapshot_records_def snapshot_lines_def by (rule keyed_records_distinct)
    have seen: "\<forall>kh \<in> set (take k records). sc_seen source1 (fst kh) \<noteq> None"
    proof
      fix kh assume "kh \<in> set (take k records)"
      then have "fst kh \<in> set (sc_previous source)" unfolding assms(7) take_map by simp
      with assms(5) show "sc_seen source1 (fst kh) \<noteq> None" by (simp add: source1) blast
    qed
    have new: "\<forall>kh \<in> set (drop k records). sc_seen source1 (fst kh) = None"
    proof
      fix kh assume "kh \<in> set (drop k records)"
      then have "fst kh \<in> set (drop k (map fst records))" by (simp add: drop_map)
      then have "fst kh \<notin> set (sc_previous source)"
        unfolding assms(7) using distinct by (metis append_take_drop_id distinct_append disjoint_iff)
      with assms(5) show "sc_seen source1 (fst kh) = None" by (simp add: source1) blast
    qed
    from filed source1 assms(6) have "foldl (file_record snapshot) (source1, lc_hops cache) (take k records @ drop k records)
        = (source2, lc_hops cache')" by simp
    then have "foldl (file_record snapshot) (source1, lc_hops cache) (drop k records) = (source2, lc_hops cache')"
      unfolding foldl_append file_records_seen [OF seen] .
    from file_records_new [OF _ new this] distinct
    have filed': "map log_record (lc_hops cache') = map log_record (lc_hops cache) @ map log_record (map snd (drop k records))"
      "dom (sc_seen source2) = dom (sc_seen source1) \<union> fst ` set (drop k records)" "sc_previous source2 = sc_previous source1"
      "sc_generation source2 = sc_generation source1" "sc_fileInfo source2 = sc_fileInfo source1"
      by (simp_all add: distinct_drop drop_map [symmetric])
    have keys: "set (sc_previous source) \<union> fst ` set (drop k records) = set (map fst records)"
      unfolding assms(7) by (metis append_take_drop_id drop_map image_set set_append)
    have continues: "continues (sc_previous source2) (map fst records)"
      using assms(7) by (simp add: continues_def filed' source1 take_map min_def)
    have generation: "snapshot_records sha256 clock probeID traceID clusterID snapshot (sc_generation source1) = records"
      using assms(6) by (simp add: source1)
    from sources assms(8) obtain uncertain where source':
      "source' = source2\<lparr>sc_uncertain := uncertain, sc_previous := map fst records\<rparr>"
      unfolding generation by (auto simp: source_in_def)
    have "dom (sc_seen source2) = set (map fst records)"
      using filed'(2) keys assms(5) by (simp add: source1)
    with issues [unfolded generation] continues filed'(1,3,4,5) show ?thesis
      by (simp add: source' source1 drop_map)
  qed
  then show "lc_issues cache' = lc_issues cache"
    and "map log_record (lc_hops cache') = map log_record (lc_hops cache) @ drop k (map log_record (map snd records))"
    and "dom (sc_seen source') = set (sc_previous source')" "sc_previous source' = map fst records"
    and "sc_fileInfo source' = ls_fileInfo snapshot" "sc_generation source' = sc_generation source"
    by blast+
qed

section \<open>Snapshots of a growing log\<close>

text \<open>A snapshot of whole lines, and one that continues it.\<close>

definition whole :: "probeLogSnapshot \<Rightarrow> bool" where
  "whole snapshot \<longleftrightarrow> \<not> ls_incomplete snapshot \<and> (\<exists>lines. ls_content snapshot = lines @ [byte 10])"

definition grows :: "probeLogSnapshot \<Rightarrow> probeLogSnapshot \<Rightarrow> bool" where
  "grows older newer \<longleftrightarrow>
     ls_source newer = ls_source older \<and> ls_pod newer = ls_pod older \<and> ls_offset newer = ls_offset older
     \<and> (ls_fileInfo newer = None \<longleftrightarrow> ls_fileInfo older = None)
     \<and> \<not> file_replaced (ls_fileInfo newer) (ls_fileInfo older)
     \<and> (\<exists>added. ls_content newer = ls_content older @ added)"

fun growing :: "probeLogSnapshot list \<Rightarrow> bool" where
  "growing [] = True"
| "growing [snapshot] = whole snapshot"
| "growing (older # newer # later) = (whole older \<and> grows older newer \<and> growing (newer # later))"

lemma line_positions_append:
  "\<exists>n' position'. line_positions n position (xs @ ys) = line_positions n position xs @ line_positions n' position' ys"
proof (induction xs arbitrary: n position)
  case Nil
  then show ?case by auto
next
  case (Cons x xs)
  from Cons.IH [of "Suc n" "position + int (length x) + 1"] show ?case by auto
qed

lemma parse_empty: "ParseHigressLineForProbe now [] probeID traceID clusterID pod source = None"
proof -
  have "json_text [] = []" by code_simp
  then show ?thesis by (simp add: ParseHigressLineForProbe_def line_entry_def)
qed

lemma record_key_snapshot:
  assumes "ls_fileInfo snapshot = None \<longleftrightarrow> ls_fileInfo snapshot' = None"
  shows "keyed_records sha256 parse snapshot generation earlier lines
    = keyed_records sha256 parse snapshot' generation earlier lines"
proof (induction lines arbitrary: earlier)
  case (Cons line lines)
  obtain n position text_line where line: "line = (n, position, text_line)" by (metis prod.exhaust)
  have "record_key sha256 snapshot generation earlier position text_line
      = record_key sha256 snapshot' generation earlier position text_line"
    using assms by (simp only: record_key_def)
  with Cons.IH show ?case by (simp add: line split: option.split)
qed simp

text \<open>The keys of the older snapshot are the first keys of the newer one.\<close>

lemma grown_keys:
  assumes "whole older" "grows older newer"
  shows "\<exists>k. map fst (snapshot_records sha256 clock probeID traceID clusterID older generation)
    = take k (map fst (snapshot_records sha256 clock' probeID traceID clusterID newer generation))
    \<and> k = length (snapshot_records sha256 clock probeID traceID clusterID older generation)"
proof -
  from assms obtain lines added where content: "ls_content older = lines @ [byte 10]"
    "ls_content newer = lines @ byte 10 # added"
    by (auto simp: whole_def grows_def)
  let ?parse = "\<lambda>clock n line. ParseHigressLineForProbe (clock n) line probeID traceID clusterID (ls_pod older) (ls_source older)"
  have keys: "map fst (snapshot_records sha256 clock' probeID traceID clusterID newer generation)
      = map fst (keyed_records sha256 (?parse clock) older generation [] (snapshot_lines newer))"
    using assms(2) unfolding snapshot_records_def grows_def
    by (subst record_key_snapshot [of _ older]) (auto intro!: keyed_records_keys parse_clock)
  obtain n position where older_lines: "snapshot_lines older
      = line_positions 0 (ls_offset older) (SplitByte (byte 10) lines) @ line_positions n position [[]]"
    using line_positions_append [of 0 "ls_offset older" "SplitByte (byte 10) lines" "[[]]"]
    by (auto simp: snapshot_lines_def content SplitByte_append [of _ lines "[]"])
  obtain n' position' where newer_lines: "snapshot_lines newer
      = line_positions 0 (ls_offset older) (SplitByte (byte 10) lines) @ line_positions n' position' (SplitByte (byte 10) added)"
    using line_positions_append [of 0 "ls_offset older" "SplitByte (byte 10) lines" "SplitByte (byte 10) added"] assms(2)
    by (auto simp: snapshot_lines_def content SplitByte_append grows_def)
  have "snapshot_records sha256 clock probeID traceID clusterID older generation
      = keyed_records sha256 (?parse clock) older generation []
          (line_positions 0 (ls_offset older) (SplitByte (byte 10) lines))"
    by (simp add: snapshot_records_def older_lines keyed_records_append parse_empty)
  then show ?thesis unfolding keys newer_lines keyed_records_append by simp
qed

section \<open>Collecting a growing log\<close>

text \<open>The records a text holds, but for their place in the collection.\<close>

definition text_records :: "string \<Rightarrow> string \<Rightarrow> string \<Rightarrow> probeLogSnapshot \<Rightarrow> ObservedHop list" where
  "text_records probeID traceID clusterID snapshot =
     map log_record (ParseHigressLinesForProbe (\<lambda>_. zero_time) (ls_content snapshot) probeID traceID clusterID
       (ls_pod snapshot) (ls_source snapshot))"

lemma text_records_of:
  "map log_record (map snd (snapshot_records sha256 clock probeID traceID clusterID snapshot generation))
    = text_records probeID traceID clusterID snapshot"
  unfolding text_records_def by (rule snapshot_records_hops)

lemma text_records_clock:
  "text_records probeID traceID clusterID snapshot =
     map log_record (ParseHigressLinesForProbe clock (ls_content snapshot) probeID traceID clusterID
       (ls_pod snapshot) (ls_source snapshot))"
  using text_records_of [of undefined undefined] snapshot_records_hops [of undefined undefined] by metis

lemma text_records_length:
  "length (snapshot_records sha256 clock probeID traceID clusterID snapshot generation)
    = length (text_records probeID traceID clusterID snapshot)"
  using arg_cong [OF text_records_of, of length] by simp

lemma text_records_grow:
  assumes "whole older" "grows older newer"
  shows "\<exists>more. text_records probeID traceID clusterID newer = text_records probeID traceID clusterID older @ more"
proof -
  from assms obtain lines added where content: "ls_content older = lines @ [byte 10]"
    "ls_content newer = lines @ byte 10 # added"
    by (auto simp: whole_def grows_def)
  have none: "numbered_line_hop clock probeID traceID clusterID pod source (n, []) = None" for clock pod source n
    by (simp add: numbered_line_hop_def parse_empty)
  from assms(2) show ?thesis
    by (simp add: text_records_def content grows_def ParseHigressLinesForProbe_def SplitByte_append
        SplitByte_append [of _ lines "[]"] enumerate_append_eq map_filter_append map_filter_simps none)
qed

lemma text_records_growing:
  assumes "growing (snapshot # later)"
  shows "\<exists>more. text_records probeID traceID clusterID (last (snapshot # later))
    = text_records probeID traceID clusterID snapshot @ more"
  using assms
proof (induction later arbitrary: snapshot)
  case (Cons newer later)
  then obtain more where more: "text_records probeID traceID clusterID (last (newer # later))
      = text_records probeID traceID clusterID newer @ more" by auto
  from Cons.prems text_records_grow [of snapshot newer probeID traceID clusterID] more show ?case by auto
qed simp

lemma merge_all_growing:
  assumes "merge_all sha256 clock probeID traceID clusterID n (snapshot # later) cache = (changed, cache')"
    and "growing (snapshot # later)"
    and "source_in (lc_sources cache) (ls_source snapshot) = source"
    and "\<not> file_replaced (ls_fileInfo snapshot) (sc_fileInfo source)"
    and "dom (sc_seen source) = set (sc_previous source)"
    and "sc_previous source = take (length (sc_previous source))
      (map fst (snapshot_records sha256 (clock n) probeID traceID clusterID snapshot (sc_generation source)))"
  shows "lc_issues cache' = lc_issues cache
    \<and> map log_record (lc_hops cache') = map log_record (lc_hops cache)
      @ drop (length (sc_previous source)) (text_records probeID traceID clusterID (last (snapshot # later)))"
  using assms
proof (induction later arbitrary: n snapshot cache changed source)
  case Nil
  obtain changed' where merged: "merge sha256 (clock n) probeID traceID clusterID snapshot cache = (changed', cache')"
    using Nil.prems(1) by (auto split: prod.splits)
  from Nil.prems(2) have "\<not> ls_incomplete snapshot" by (simp add: whole_def)
  from merge_continuing [OF merged Nil.prems(3,4) this Nil.prems(5) refl Nil.prems(6) refl]
  show ?case by (simp add: text_records_of del: map_map)
next
  case (Cons newer later)
  obtain changed1 cache1 where merged: "merge sha256 (clock n) probeID traceID clusterID snapshot cache = (changed1, cache1)"
    by fastforce
  obtain changed2 where rest: "merge_all sha256 clock probeID traceID clusterID (Suc n) (newer # later) cache1 = (changed2, cache')"
    using Cons.prems(1) merged by (auto split: prod.splits)
  let ?records = "snapshot_records sha256 (clock n) probeID traceID clusterID snapshot (sc_generation source)"
  let ?source1 = "source_in (lc_sources cache1) (ls_source snapshot)"
  let ?text = "text_records probeID traceID clusterID"
  from Cons.prems(2) have whole: "whole snapshot" and grows: "grows snapshot newer" and growing: "growing (newer # later)"
    by simp_all
  then have complete: "\<not> ls_incomplete snapshot" and same: "ls_source newer = ls_source snapshot"
    by (simp_all add: whole_def grows_def)
  note first = merge_continuing [OF merged Cons.prems(3,4) complete Cons.prems(5) refl Cons.prems(6) refl]
  have length1: "length (sc_previous ?source1) = length (?text snapshot)"
    by (simp add: first(4) text_records_length)
  from grown_keys [OF whole grows] have previous: "sc_previous ?source1 = take (length (sc_previous ?source1))
      (map fst (snapshot_records sha256 (clock (Suc n)) probeID traceID clusterID newer (sc_generation ?source1)))"
    unfolding first(4,6) by auto
  have replaced: "\<not> file_replaced (ls_fileInfo newer) (sc_fileInfo ?source1)"
    using grows first(5) by (simp add: grows_def)
  note IH = Cons.IH [OF rest growing, unfolded same, OF refl replaced first(3) previous]
  from text_records_growing [OF Cons.prems(2)] obtain more
    where more: "?text (last (snapshot # newer # later)) = ?text snapshot @ more" by blast
  have "length (sc_previous source) \<le> length (?text snapshot)"
    using arg_cong [OF Cons.prems(6), of length] by (simp add: text_records_length)
  with IH first(1,2) more show ?case
    by (simp add: length1 text_records_of del: map_map)
qed

text \<open>A source that is read for the first time.\<close>

lemma growing_log_merged:
  assumes "merge_all sha256 clock probeID traceID clusterID n (snapshot # later) cache = (changed, cache')"
    and "growing (snapshot # later)" "lc_sources cache (ls_source snapshot) = None"
  shows "lc_issues cache' = lc_issues cache
    \<and> map log_record (lc_hops cache') = map log_record (lc_hops cache)
      @ text_records probeID traceID clusterID (last (snapshot # later))"
  using merge_all_growing [OF assms(1,2), of fresh_source] assms(3)
  by (simp add: source_in_def fresh_source_def file_replaced_def split: option.split)

end
