(* ===== verification/Log_Properties.thy ===== *)
theory Log_Properties
  imports Log_Rereading
begin

text \<open>The properties of the agent's probes and of its collection of access-log records.\<close>

section \<open>Properties\<close>

text \<open>
  C10: agent and server agree on probe results: whatever logs an agent reads, whatever the gateway
  answers and however the log window ends, the result of executing or observing a probe passes
  the server's validation for the command that asked for it.
\<close>

theorem agent_results_accepted:
  assumes "ExecuteProbe sha256 s env probe = Some (Inr result) \<and> cmd_Kind command = AgentCommandProbeHTTP
      \<or> ObserveProbe sha256 s env probe = Some (Inr result) \<and> cmd_Kind command = AgentCommandProbeObserve"
    and "probe_commanded command (ks_clusterID s) probe"
  shows "Validate result command = Inr ()"
  using assms executed_accepted observed_accepted by (auto simp: Validate_contract)

text \<open>
  C14: the records of a log window are numbered without a gap and belong to the collector's
  cluster, and the records of every source carry the sequence numbers 1, 2, 3 and so on in the
  order they were read, however the reads of the sources interleave; every issue of the
  collection is one of its scope.
\<close>

theorem collected_records_sequenced:
  assumes "collectProbeWindow sha256 read r rounds probeID traceID clusterID settle = Some result"
  shows "map hop_ID (pr_hops result) = map (\<lambda>n. ''record-'' @ Itoa (int n + 1)) [0..<length (pr_hops result)]
    \<and> (\<forall>hop \<in> set (pr_hops result). hop_ClusterID hop = clusterID)
    \<and> (\<forall>source. let hops = filter (\<lambda>hop. hop_LogSourceID hop = source) (pr_hops result)
         in map hop_LogSequence hops = map (\<lambda>n. int n + 1) [0..<length hops])
    \<and> (\<forall>issue \<in> set (pr_issues result). issue_Scope issue = ProbeIssueScopeCollection)"
  using collectProbeWindow_result [OF assms]
  by (auto simp: window_result_def hops_inv_def record_ID_def sequenced_def source_hops_def list_all_iff
      parsed_for_def log_issue_def)

text \<open>
  C12: a settled collection is complete as far as the logs tell: it has records, no issue about
  their order, and for every request (source, start time and client address) exactly one
  record that is not an internal redirect, the last one; and nothing was added between two
  reads at least the settling time apart.
\<close>

theorem settled_collection_complete:
  assumes "collectProbeWindow sha256 read r rounds probeID traceID clusterID settle = Some result"
    and "col_State (pr_collection result) = ProbeCollectionStateSettled"
  shows "pr_hops result \<noteq> [] \<and> (\<forall>issue \<in> set (pr_issues result). \<not> BreaksLogOrder issue)
    \<and> (\<forall>hop \<in> set (pr_hops result). let request = filter (\<lambda>h. settle_key h = settle_key hop) (pr_hops result)
         in hop_RuntimeSource hop \<noteq> [] \<and> hop_RequestStartTime hop \<noteq> []
           \<and> length (filter (\<lambda>h. \<not> hop_InternalRedirect h) request) = 1 \<and> \<not> hop_InternalRedirect (last request))
    \<and> (\<exists>before first between last after. rounds = before @ first # between @ last # after
         \<and> settle \<le> time_Sub (lr_now last) (lr_now first)
         \<and> lc_hops (snd (cache_after sha256 read probeID traceID clusterID (before @ [first]) (r, empty_log_cache)))
             = pr_hops result
         \<and> lc_hops (snd (cache_after sha256 read probeID traceID clusterID (before @ first # between @ [last])
             (r, empty_log_cache))) = pr_hops result)"
proof -
  from collectProbeWindow_result [OF assms(1)] assms(2) obtain cache
    where "canSettle cache" "lc_hops cache = pr_hops result" "lc_issues cache = pr_issues result"
    by (auto simp: window_result_def)
  then have complete: "pr_hops result \<noteq> []" "\<forall>issue \<in> set (pr_issues result). \<not> BreaksLogOrder issue"
    "\<forall>hop \<in> set (pr_hops result). identified_hop hop \<and> terminated (settle_group (pr_hops result) (settle_key hop))"
    by (auto simp: canSettle_def list_all_iff list_ex_iff)
  from collect_rounds_settled [OF assms(1) [unfolded collectProbeWindow_def] assms(2) empty_cache_inv]
  have stable: "\<exists>before first between last after. rounds = before @ first # between @ last # after
         \<and> settle \<le> time_Sub (lr_now last) (lr_now first)
         \<and> lc_hops (snd (cache_after sha256 read probeID traceID clusterID (before @ [first]) (r, empty_log_cache)))
             = pr_hops result
         \<and> lc_hops (snd (cache_after sha256 read probeID traceID clusterID (before @ first # between @ [last])
             (r, empty_log_cache))) = pr_hops result"
    unfolding stable_from_def by fastforce
  from complete(3) have "\<forall>hop \<in> set (pr_hops result). let request = filter (\<lambda>h. settle_key h = settle_key hop) (pr_hops result)
      in hop_RuntimeSource hop \<noteq> [] \<and> hop_RequestStartTime hop \<noteq> []
        \<and> length (filter (\<lambda>h. \<not> hop_InternalRedirect h) request) = 1 \<and> \<not> hop_InternalRedirect (last request)"
    by (simp add: identified_hop_def terminated_def settle_group_def is_terminal_def)
  with complete(1,2) stable show ?thesis by blast
qed

text \<open>
  C13: a log window ends: as soon as a round finds its context over, before or after its read,
  the collection has a result, and later rounds have no part in it.
\<close>

theorem log_window_returns:
  assumes "lr_start round \<noteq> CtxLive \<or> lr_read round \<noteq> CtxLive"
  shows "\<exists>result. \<forall>later. collectProbeWindow sha256 read r (earlier @ round # later) probeID traceID clusterID settle
    = Some result"
proof -
  from assms have over: "round_over round" by (simp add: round_over_def)
  from collect_rounds_ends [OF over, of sha256 read probeID traceID clusterID settle earlier r None empty_log_cache]
  obtain result
    where "collect_rounds sha256 read probeID traceID clusterID settle (earlier @ [round]) r None empty_log_cache = Some result"
    by (auto simp only: not_None_eq)
  then have "\<forall>later. collectProbeWindow sha256 read r (earlier @ round # later) probeID traceID clusterID settle = Some result"
    unfolding collectProbeWindow_def by (subst collect_rounds_decided [OF over]) simp
  then show ?thesis ..
qed

text \<open>
  C11: rereading a growing log counts every record once: after any number of reads of a source
  whose snapshots continue each other, the new hops are the records of the last snapshot, in
  order and with every occurrence of equal lines, and no doubt about the order was raised;
  only their numbering and the clock reading of records without a start time may differ.
\<close>

theorem growing_log_read_once:
  assumes "merge_all sha256 clock probeID traceID clusterID n (snapshot # later) cache = (changed, cache')"
    and "growing (snapshot # later)" "lc_sources cache (ls_source snapshot) = None"
  shows "lc_issues cache' = lc_issues cache
    \<and> map log_record (lc_hops cache') = map log_record (lc_hops cache)
      @ map log_record (ParseHigressLinesForProbe clock' (ls_content (last (snapshot # later))) probeID traceID clusterID
          (ls_pod (last (snapshot # later))) (ls_source (last (snapshot # later))))"
  using growing_log_merged [OF assms] unfolding text_records_clock [of _ _ _ _ clock'] .

section \<open>The properties apply\<close>

text \<open>A pod whose log has one complete record of the probe, read twice a second apart.\<close>

definition terminal_line :: string where
  \<open>terminal_line = ''{"gatelens_probe_id":"p1","start_time":"t0","downstream_remote_address":"10.0.0.9:1"}''\<close>

definition sample_pod :: proxyPod where
  "sample_pod = \<lparr>pod_Name = ''gw-0'', pod_Namespace = ''ns'', pod_UID = ''u1'', pod_Container = ''proxy'',
     pod_AdminPort = 15000, pod_Labels = Map.empty\<rparr>"

definition sample_runtime :: gatewayRuntime where
  "sample_runtime = \<lparr>rt_GatewayID = ''gw'', rt_Controller = ''higress'', rt_WorkloadID = ''w'', rt_WorkloadName = ''gw'',
     rt_Namespace = ''ns'', rt_Pods = [sample_pod]\<rparr>"

definition sample_snapshot :: probeLogSnapshot where
  "sample_snapshot = pod_snapshot ''c'' sample_pod (terminal_line @ [byte 10])"

definition sample_facts :: "bool \<times> nat \<times> bool \<times> bool \<times> bool" where
  "sample_facts =
     (case merge (\<lambda>s. s) (\<lambda>_. zero_time) ''p1'' ''t'' ''c'' sample_snapshot empty_log_cache of
        (changed, cache) \<Rightarrow>
          (changed, length (lc_hops cache), canSettle cache,
           (case merge (\<lambda>s. s) (\<lambda>_. zero_time) ''p1'' ''t'' ''c'' sample_snapshot cache of
              (changed', cache') \<Rightarrow> changed'),
           (case merge (\<lambda>s. s) (\<lambda>_. zero_time) ''p1'' ''t'' ''c'' sample_snapshot cache of
              (changed', cache') \<Rightarrow> canSettle cache')))"

lemma sample_facts_are: "sample_facts = (True, 1, True, False, True)"
  by code_simp

definition sample_round :: "int \<Rightarrow> CtxState \<Rightarrow> unit LogRound" where
  "sample_round ns over = \<lparr>lr_start = CtxLive, lr_world = (), lr_read = over, lr_failed = CtxLive,
     lr_now = \<lparr>t_ns = ns, t_offset = 0\<rparr>, lr_finished = zero_time, lr_clock = (\<lambda>_ _. zero_time)\<rparr>"

definition sample_reader :: "(unit, unit) logReader" where
  "sample_reader world r = (([sample_snapshot], None), r)"

lemma sample_settles:
  "\<exists>result. collectProbeWindow (\<lambda>s. s) sample_reader () [sample_round 0 CtxLive, sample_round nanos CtxLive] ''p1'' ''t'' ''c''
     500000000 = Some result \<and> col_State (pr_collection result) = ProbeCollectionStateSettled \<and> length (pr_hops result) = 1"
proof -
  obtain changed cache where first:
    "merge (\<lambda>s. s) (\<lambda>_. zero_time) ''p1'' ''t'' ''c'' sample_snapshot empty_log_cache = (changed, cache)" by fastforce
  obtain changed' cache' where again:
    "merge (\<lambda>s. s) (\<lambda>_. zero_time) ''p1'' ''t'' ''c'' sample_snapshot cache = (changed', cache')" by fastforce
  from sample_facts_are have facts: "changed" "length (lc_hops cache) = 1" "canSettle cache" "\<not> changed'" "canSettle cache'"
    by (simp_all add: sample_facts_def first again)
  from merge_adds [OF again] facts(4) have "lc_hops cache' = lc_hops cache" by auto
  with facts have length': "length (lc_hops cache') = 1" by simp
  have long: "time_Sub \<lparr>t_ns = nanos, t_offset = 0\<rparr> \<lparr>t_ns = 0, t_offset = 0\<rparr> \<ge> 500000000"
    by code_simp
  from facts length' long show ?thesis
    by (simp add: collectProbeWindow_def sample_round_def sample_reader_def first again settled_long_def stable_start_def
        finish_settled)
qed

text \<open>An agent that observes the pod until its window is over.\<close>

definition sample_kube_store :: KubeStore where
  "sample_kube_store = (New ''c'' ''host'')\<lparr>ks_snapshot := empty_snapshot\<lparr>snap_runtimes := [(''gw'', sample_runtime)]\<rparr>\<rparr>"

definition sample_world :: LogWorld where
  "sample_world = \<lparr>lw_file = OpenFailed ''none'', lw_stream = (\<lambda>_ _. Inr (terminal_line @ [byte 10], None))\<rparr>"

definition observing_round :: "LogWorld LogRound" where
  "observing_round = \<lparr>lr_start = CtxLive, lr_world = sample_world, lr_read = WindowOver, lr_failed = CtxLive,
     lr_now = zero_time, lr_finished = zero_time, lr_clock = (\<lambda>_ _. zero_time)\<rparr>"

definition sample_env :: ProbeEnv where
  "sample_env = \<lparr>env_started = zero_time, env_fileSize = None, env_newRequest = (\<lambda>_. None),
     env_do = (\<lambda>_. Inl ''down''), env_responseStarted = zero_time, env_responded = zero_time,
     env_rounds = (\<lambda>_. [observing_round]), env_completed = zero_time\<rparr>"

definition observed_probe :: ProbeCommand where
  "observed_probe = zero_ProbeCommand\<lparr>pc_ProbeID := ''p1'', pc_TraceID := ''t'', pc_GatewayID := ''gw''\<rparr>"

definition sample_observe_command :: AgentCommand where
  "sample_observe_command = zero_AgentCommand\<lparr>cmd_ID := ''cmd'', cmd_ClusterID := ''c'', cmd_Kind := AgentCommandProbeObserve,
     cmd_GatewayID := ''gw'', cmd_Probe := Some observed_probe\<rparr>"

lemma sample_observed: "\<exists>result. ObserveProbe (\<lambda>s. s) sample_kube_store sample_env observed_probe = Some (Inr result)"
proof -
  have over: "round_over observing_round" by (simp add: round_over_def observing_round_def)
  have runtime: "probeGatewayRuntime sample_kube_store ''gw'' = Inr sample_runtime"
    by (simp add: probeGatewayRuntime_def sample_kube_store_def New_def sample_runtime_def)
  have rounds: "env_rounds sample_env n = [] @ [observing_round]" for n by (simp add: sample_env_def)
  have gateway: "pc_GatewayID observed_probe = ''gw''"
    by (simp add: observed_probe_def zero_ProbeCommand_def)
  have "observeProbeWindow (\<lambda>s. s) (ks_clusterID sample_kube_store) (ks_probeLogFile sample_kube_store) sample_runtime
      (observe_since sample_env observed_probe) 0 (pc_ProbeID observed_probe) (pc_TraceID observed_probe)
      (env_rounds sample_env (4 * nanos)) \<noteq> None"
    unfolding observeProbeWindow_def collectProbeWindow_def rounds by (rule collect_rounds_ends [OF over])
  then obtain logs where "observeProbeWindow (\<lambda>s. s) (ks_clusterID sample_kube_store) (ks_probeLogFile sample_kube_store) sample_runtime
      (observe_since sample_env observed_probe) 0 (pc_ProbeID observed_probe) (pc_TraceID observed_probe)
      (env_rounds sample_env (4 * nanos)) = Some logs"
    by (auto simp only: not_None_eq)
  then show ?thesis by (simp add: ObserveProbe_def gateway runtime)
qed

theorem agent_results_accepted_witness:
  "\<exists>result. ObserveProbe (\<lambda>s. s) sample_kube_store sample_env observed_probe = Some (Inr result)
     \<and> Validate result sample_observe_command = Inr ()"
proof -
  from sample_observed obtain result
    where result: "ObserveProbe (\<lambda>s. s) sample_kube_store sample_env observed_probe = Some (Inr result)" ..
  have "probe_commanded sample_observe_command (ks_clusterID sample_kube_store) observed_probe"
    "cmd_Kind sample_observe_command = AgentCommandProbeObserve"
    by (simp_all add: probe_commanded_def sample_observe_command_def zero_AgentCommand_def sample_kube_store_def New_def observed_probe_def
        zero_ProbeCommand_def)
  with agent_results_accepted [of "\<lambda>s. s" sample_kube_store sample_env observed_probe result sample_observe_command] result
  show ?thesis by blast
qed

theorem collected_records_sequenced_witness:
  "\<exists>result. collectProbeWindow (\<lambda>s. s) sample_reader () [sample_round 0 CtxLive, sample_round nanos CtxLive] ''p1'' ''t'' ''c''
     500000000 = Some result \<and> map hop_ID (pr_hops result) = [''record-'' @ Itoa 1]"
proof -
  from sample_settles obtain result where result: "collectProbeWindow (\<lambda>s. s) sample_reader ()
      [sample_round 0 CtxLive, sample_round nanos CtxLive] ''p1'' ''t'' ''c'' 500000000 = Some result"
    and one: "length (pr_hops result) = 1" by blast
  have "[0..<length (pr_hops result)] = [0]" unfolding one by simp
  from collected_records_sequenced [OF result, THEN conjunct1, unfolded this]
  have "map hop_ID (pr_hops result) = [''record-'' @ Itoa 1]" by (simp only: list.map of_nat_0 add_0)
  with result show ?thesis by (intro exI [of _ result] conjI)
qed

theorem settled_collection_complete_witness:
  "\<exists>result. collectProbeWindow (\<lambda>s. s) sample_reader () [sample_round 0 CtxLive, sample_round nanos CtxLive] ''p1'' ''t'' ''c''
     500000000 = Some result \<and> pr_hops result \<noteq> [] \<and> (\<forall>issue \<in> set (pr_issues result). \<not> BreaksLogOrder issue)"
proof -
  from sample_settles obtain result where result: "collectProbeWindow (\<lambda>s. s) sample_reader ()
      [sample_round 0 CtxLive, sample_round nanos CtxLive] ''p1'' ''t'' ''c'' 500000000 = Some result"
    and settled: "col_State (pr_collection result) = ProbeCollectionStateSettled" by blast
  note complete = settled_collection_complete [OF result settled]
  from result conjunct1 [OF complete] conjunct1 [OF conjunct2 [OF complete]] show ?thesis by (intro exI [of _ result] conjI)
qed

theorem log_window_returns_witness:
  "\<exists>result. collectProbeWindow (\<lambda>s. s) sample_reader () [sample_round 0 CtxLive, sample_round nanos WindowOver] ''p1'' ''t'' ''c''
     500000000 = Some result"
proof -
  have "lr_start (sample_round nanos WindowOver) \<noteq> CtxLive \<or> lr_read (sample_round nanos WindowOver) \<noteq> CtxLive"
    by (simp add: sample_round_def)
  from log_window_returns [OF this, of "\<lambda>s. s" sample_reader "()" "[sample_round 0 CtxLive]" "''p1''" "''t''" "''c''" 500000000]
  show ?thesis by (metis append.simps)
qed

theorem growing_log_read_once_witness:
  "\<exists>changed cache. merge_all (\<lambda>s. s) (\<lambda>_ _. zero_time) ''p1'' ''t'' ''c'' 0 [sample_snapshot, sample_snapshot] empty_log_cache
       = (changed, cache)
     \<and> lc_issues cache = []
     \<and> map log_record (lc_hops cache) = map log_record (ParseHigressLinesForProbe (\<lambda>_. zero_time)
         (ls_content sample_snapshot) ''p1'' ''t'' ''c'' (ls_pod sample_snapshot) (ls_source sample_snapshot))"
proof -
  obtain changed cache where merged: "merge_all (\<lambda>s. s) (\<lambda>_ _. zero_time) ''p1'' ''t'' ''c'' 0
      [sample_snapshot, sample_snapshot] empty_log_cache = (changed, cache)" by fastforce
  have "ls_content sample_snapshot = terminal_line @ [byte 10]" "\<not> ls_incomplete sample_snapshot"
    by code_simp+
  then have "growing [sample_snapshot, sample_snapshot]"
    by (auto simp: whole_def grows_def file_replaced_def sample_snapshot_def pod_snapshot_def Let_def)
  moreover have "lc_sources empty_log_cache (ls_source sample_snapshot) = None" by (simp add: empty_log_cache_def)
  ultimately have "lc_issues cache = lc_issues empty_log_cache
      \<and> map log_record (lc_hops cache) = map log_record (lc_hops empty_log_cache)
        @ map log_record (ParseHigressLinesForProbe (\<lambda>_. zero_time) (ls_content (last [sample_snapshot, sample_snapshot]))
            ''p1'' ''t'' ''c'' (ls_pod (last [sample_snapshot, sample_snapshot])) (ls_source (last [sample_snapshot, sample_snapshot])))"
    by (rule growing_log_read_once [OF merged])
  with merged show ?thesis by (simp add: empty_log_cache_def)
qed

end
