(* ===== verification/Cluster_Probe.thy ===== *)
theory Cluster_Probe
  imports Kube_Properties Log_Properties Probe_Lifecycle
begin

text \<open>
  From the cluster to the probe: an entry that a rebuild of the Kubernetes store advertises travels
  with the snapshot to the server; a request that names it as the federated topology does
  becomes a command that the same cluster's agent can execute.
\<close>

section \<open>Resolving an advertised entry\<close>

lemma local_part_globalID:
  assumes "plain_cluster c" "\<not> HasPrefix i (c @ ''::'')" "i \<noteq> []"
  shows "local_part c (globalID c i) = Inr i"
proof -
  have "globalID c i = c @ ''::'' @ i" using assms(2,3) by (simp add: globalID_def)
  then show ?thesis using Cut_global [OF assms(1), of i] by (simp add: local_part_def)
qed

lemma find_unique:
  assumes "e \<in> set xs" "distinct (map f xs)" "Q e" "\<And>x. Q x \<Longrightarrow> f x = f e"
  shows "find Q xs = Some e"
proof (cases "find Q xs")
  case None
  with assms(1,3) show ?thesis by (auto simp: find_None_iff)
next
  case (Some x)
  then have "x \<in> set xs" "Q x" by (auto simp: find_Some_iff)
  with assms have "x = e" by (metis distinct_map inj_onD)
  with Some show ?thesis by simp
qed

text \<open>A cluster's advertised entry and how a request names it.\<close>

definition advertised :: "KubeStore \<Rightarrow> ProbeEntry \<Rightarrow> bool" where
  "advertised s e \<longleftrightarrow>
     e \<in> set (topo_ProbeEntries (store_Topology s)) \<and> distinct (map entry_ID (topo_ProbeEntries (store_Topology s)))"

definition names_entry :: "ProbeRequest \<Rightarrow> string \<Rightarrow> ProbeEntry \<Rightarrow> bool" where
  "names_entry request c e \<longleftrightarrow>
     TrimSpace (req_SourceCluster request) = c \<and> TrimSpace (req_GatewayID request) = globalID c (entry_GatewayID e)
     \<and> TrimSpace (req_EntryID request) = globalID c (entry_ID e)"

text \<open>The identities are not empty and not qualified by the cluster already.\<close>

definition local_entry :: "string \<Rightarrow> ProbeEntry \<Rightarrow> bool" where
  "local_entry c e \<longleftrightarrow> entry_GatewayID e \<noteq> [] \<and> entry_ID e \<noteq> []
     \<and> \<not> HasPrefix (entry_GatewayID e) (c @ ''::'') \<and> \<not> HasPrefix (entry_ID e) (c @ ''::'')"

section \<open>The request at the server\<close>

lemma request_resolved:
  assumes "map_of (st_snapshots hub) c = Some filed"
    and "topo_Nodes (as_Topology (rs_payload filed)) = topo_Nodes (store_Topology s)"
    and "topo_ProbeEntries (as_Topology (rs_payload filed)) = topo_ProbeEntries (store_Topology s)"
    and "advertised s e" "local_entry c e" "names_entry request c e" "plain_cluster c" "c \<noteq> []"
    and "(entry_GatewayID e, TopologyNodeKindGateway) \<in> node_sort ` set (topo_Nodes (store_Topology s))"
    and "ProbeScheme_IsValid (entry_Scheme e)"
  shows "resolveProbeEntry (req_SourceCluster request) (req_GatewayID request) (req_EntryID request) hub =
    Inr (c, entry_GatewayID e, e)"
proof -
  have parts: "local_part c (globalID c (entry_GatewayID e)) = Inr (entry_GatewayID e)"
    "local_part c (globalID c (entry_ID e)) = Inr (entry_ID e)"
    using assms(5,7) by (simp_all add: local_part_globalID local_entry_def)
  have "snapshotHasGateway (rs_payload filed) (entry_GatewayID e)"
    using assms(2,9) by (auto simp: snapshotHasGateway_def list_ex_iff node_sort_def)
  moreover have "find (\<lambda>entry. entry_ID entry = entry_ID e \<and> entry_GatewayID entry = entry_GatewayID e)
      (topo_ProbeEntries (as_Topology (rs_payload filed))) = Some e"
    by (rule find_unique [where f = entry_ID]) (use assms(3,4) in \<open>auto simp: advertised_def\<close>)
  moreover have "globalID c (entry_GatewayID e) \<noteq> []" "globalID c (entry_ID e) \<noteq> []"
    using assms(5) by (simp_all add: local_entry_def)
  ultimately show ?thesis
    using assms(1,6,8,10) by (simp add: resolveProbeEntry_def Let_def names_entry_def parts)
qed

section \<open>The command at the agent\<close>

text \<open>What the checks of the server leave of a request is within the bounds of the agent.\<close>

lemma checked_bounds:
  assumes "check_request request = Inr u"
  shows "ProbeHTTPMethod_IsValid (probe_method request)"
    "int (length (req_Body request)) \<le> maxProbeBodyBytes" "int (length (req_APIKey request)) \<le> maxProbeAPIKeyBytes"
    "\<not> ContainsAny (req_APIKey request) [byte 13, byte 10]"
  using assms
  by (auto simp: check_request_def line_breaks_def maxProbeBodyBytes_def maxProbeAPIKeyBytes_def
      split: if_splits option.splits)

lemma checked_path:
  assumes "check_request request = Inr u"
  shows "probe_path (TrimSpace (req_Path request)) u"
  using assms by (auto simp: check_request_def probe_path_def split: if_splits option.splits)

text \<open>
  A log window that ends: among the rounds of the window is one that finds its context over, as
  the timeout of the window sees to.
\<close>

definition window_ends :: "ProbeEnv \<Rightarrow> int \<Rightarrow> bool" where
  "window_ends env duration \<longleftrightarrow>
     (\<exists>earlier round later. env_rounds env duration = earlier @ round # later \<and> round_over round)"

lemma window_observed:
  assumes "window_ends env duration"
  shows "\<exists>logs. observeProbeWindow sha256 clusterID probeLogFile runtime since fileOffset probeID traceID (env_rounds env duration)
    = Some logs"
proof -
  from assms obtain earlier round later
    where rounds: "env_rounds env duration = earlier @ round # later" and over: "round_over round"
    by (auto simp: window_ends_def)
  show ?thesis
    unfolding observeProbeWindow_def collectProbeWindow_def rounds collect_rounds_decided [OF over, of _ _ _ _ _ _ _ later]
    using collect_rounds_ends [OF over] by (simp only: not_None_eq [symmetric] simp_thms)
qed

text \<open>What the answer to the request leaves of the HTTP part.\<close>

lemma http_answer_kept:
  "http_answer answer http = (http', issues) \<Longrightarrow> http_Target http' = http_Target http \<and> http_Method http' = http_Method http"
  by (auto simp: http_answer_def Let_def split: sum.splits prod.splits option.splits)

definition executed_at :: "KubeStore \<Rightarrow> ProbeCommand \<Rightarrow> string \<Rightarrow> ProbeAgentResult \<Rightarrow> bool" where
  "executed_at s command target result \<longleftrightarrow>
     par_ProbeID result = pc_ProbeID command \<and> par_TraceID result = pc_TraceID command
     \<and> par_GatewayID result = pc_GatewayID command \<and> par_ClusterID result = ks_clusterID s
     \<and> (\<exists>http. par_HTTP result = Some http \<and> http_Method http = pc_Method command
          \<and> http_Target http = redactedProbeTarget target)"

lemma ExecuteProbe_returns:
  assumes "ProbeHTTPMethod_IsValid (pc_Method command)" "probeGatewayRuntime s (pc_GatewayID command) = Inr runtime"
    and "int (length (pc_Body command)) \<le> maxProbeBodyBytes" "int (length (pc_APIKey command)) \<le> maxProbeAPIKeyBytes"
    and "\<not> ContainsAny (pc_APIKey command) [byte 13, byte 10]"
    and "local_probe_entry s (pc_GatewayID command) (pc_EntryID command) (pc_Path command) = Inr (entry, target)"
    and "env_newRequest env target = None" "window_ends env (2 * nanos)"
  shows "\<exists>result. ExecuteProbe sha256 s env command = Some (Inr result) \<and> executed_at s command target result"
proof -
  let ?http = "zero_ProbeHTTPResult\<lparr>http_Method := pc_Method command, http_Target := redactedProbeTarget target\<rparr>"
  obtain http issues where answer: "http_answer (env_do env (probe_request command target)) ?http = (http, issues)" by fastforce
  obtain logs where logs: "observeProbeWindow sha256 (ks_clusterID s) (ks_probeLogFile s) runtime
      (time_Add (env_started env) (- nanos))
      (if ks_probeLogFile s = [] then 0 else (case env_fileSize env of None \<Rightarrow> 0 | Some fileSize \<Rightarrow> fileSize))
      (pc_ProbeID command) (pc_TraceID command) (env_rounds env (2 * nanos)) = Some logs"
    using window_observed [OF assms(8)] by blast
  have "http_Method http = pc_Method command" "http_Target http = redactedProbeTarget target"
    using http_answer_kept [OF answer] by (simp_all add: zero_ProbeHTTPResult_def)
  then show ?thesis
    using assms(1-7) by (simp add: ExecuteProbe_def answer logs executed_at_def with_logs_fields bare_result_fields)
qed

lemma command_executed:
  assumes "check_request request = Inr u" "TrimSpace (req_Path request) = req_Path request"
    and "probeGatewayRuntime s gatewayID = Inr runtime"
    and "\<And>path u. probe_path path u \<Longrightarrow> local_probe_entry s gatewayID (entry_ID e) path = Inr (e, entry_target e u)"
    and "cmd_Probe (probe_command run commandID probeID traceID c gatewayID (entry_ID e) request) = Some command"
    and "env_newRequest env (entry_target e u) = None" "window_ends env (2 * nanos)"
  shows "\<exists>result. ExecuteProbe sha256 s env command = Some (Inr result) \<and> executed_at s command (entry_target e u) result"
proof -
  have command: "pc_Method command = probe_method request" "pc_GatewayID command = gatewayID" "pc_EntryID command = entry_ID e"
    "pc_Body command = req_Body request" "pc_APIKey command = req_APIKey request" "pc_Path command = req_Path request"
    using assms(5) by (auto simp: probe_command_def)
  have "probe_path (req_Path request) u" using checked_path [OF assms(1)] assms(2) by simp
  then have "local_probe_entry s (pc_GatewayID command) (pc_EntryID command) (pc_Path command) = Inr (e, entry_target e u)"
    unfolding command by (rule assms(4))
  moreover have "probeGatewayRuntime s (pc_GatewayID command) = Inr runtime" by (simp add: command assms(3))
  ultimately show ?thesis
    by (intro ExecuteProbe_returns [where runtime = runtime and entry = e])
      (use checked_bounds [OF assms(1)] assms(6,7) in \<open>simp_all add: command\<close>)
qed

text \<open>
  C7: a probe of an advertised entry is executed. Let a cluster's agent upload
  a rebuilt snapshot that advertises an entry, and let a request name that entry by its federated identities
  and pass the server's checks, its path without surrounding white space. Then the
  server accepts the upload and resolves the request to that cluster, gateway and entry; and when the agent executes
  the command the server builds, it returns a result and no error: the result of that probe,
  trace, gateway and cluster, with an HTTP part whose method is the request's and whose target is
  the entry's URL, and the server's validation accepts it for that command. (Go can
  build an HTTP request for the URL, and the two seconds of the log window come to an end.)
\<close>

theorem advertised_entry_probed:
  assumes "rebuild lib now stores s = Some s'" "advertised s' e" "local_entry c e"
    and "ks_clusterID s = c" "cfg_ClusterID config = c" "TrimSpace c = c" "c \<noteq> []" "plain_cluster c"
    and "names_entry request c e" "check_request request = Inr u" "TrimSpace (req_Path request) = req_Path request"
    and "ReceiveSnapshot t received (snapshot_payload config sent (kube_Reader ka ctx) s') hub = (outcome, hub')"
    and "sent_command = probe_command run commandID probeID traceID c (entry_GatewayID e) (entry_ID e) request"
    and "cmd_Probe sent_command = Some command"
    and "env_newRequest env (entry_target e u) = None" "window_ends env (2 * nanos)"
  shows "outcome = Inr ()
    \<and> resolveProbeEntry (req_SourceCluster request) (req_GatewayID request) (req_EntryID request) hub' =
        Inr (c, entry_GatewayID e, e)
    \<and> (\<exists>result. ExecuteProbe sha256 s' env command = Some (Inr result)
         \<and> executed_at s' command (entry_target e u) result \<and> Validate result sent_command = Inr ())"
proof -
  obtain st where st: "given_stores stores = Some st" using assms(1) by (auto simp: rebuild_Some)
  have e: "e \<in> set (topo_ProbeEntries (store_Topology s'))" "distinct (map entry_ID (topo_ProbeEntries (store_Topology s')))"
    using assms(2) by (simp_all add: advertised_def)
  note ready = executable_entry [OF assms(1) st e]
  have path: "probe_path (req_Path request) u" using checked_path [OF assms(10)] assms(11) by simp
  obtain filed where filed: "outcome = Inr ()" "map_of (st_snapshots hub') c = Some filed"
      "topo_Nodes (as_Topology (rs_payload filed)) = topo_Nodes (store_Topology s')"
      "topo_ProbeEntries (as_Topology (rs_payload filed)) = topo_ProbeEntries (store_Topology s')"
    using kube_snapshot_filed [OF assms(1), of config t received sent ka ctx hub] assms(4-7,12) by (auto simp: update_conv')
  have resolved: "resolveProbeEntry (req_SourceCluster request) (req_GatewayID request) (req_EntryID request) hub' =
      Inr (c, entry_GatewayID e, e)"
    by (rule request_resolved [OF filed(2-4) assms(2,3,9,8,7)]) (use ready [OF path] in blast)+
  obtain runtime where runtime: "probeGatewayRuntime s' (entry_GatewayID e) = Inr runtime" using ready [OF path] by blast
  obtain result where result: "ExecuteProbe sha256 s' env command = Some (Inr result)"
      "executed_at s' command (entry_target e u) result"
    using command_executed [OF assms(10,11) runtime _ assms(14) [unfolded assms(13)] assms(15,16)] ready by blast
  have "ks_clusterID s' = c" using assms(1,4) by (auto simp: rebuild_Some)
  then have "probe_commanded sent_command (ks_clusterID s') command" "cmd_Kind sent_command = AgentCommandProbeHTTP"
    using assms(13,14) by (auto simp: probe_commanded_def probe_command_def)
  then have "Validate result sent_command = Inr ()" using executed_accepted [OF result(1)] by (simp add: Validate_contract)
  with filed(1) resolved result show ?thesis by blast
qed

section \<open>Paths with white space\<close>

lemma split_query_first: "\<not> HasPrefix (snd (split_query (CHR '' '' # p) u)) ''/''"
proof -
  have "\<not> HasPrefix (take n (CHR '' '' # p)) ''/''" for n by (cases n) (simp_all add: HasPrefix_def)
  moreover have "\<not> HasPrefix a ''/''" if "Cut (CHR '' '' # p) ''?'' = Some (a, q)" for a q
    using that by (auto simp: HasPrefix_def split: if_splits)
  ultimately show ?thesis by (auto simp: split_query_def HasPrefix_def split: option.split)
qed

lemma padded_path_invalid: "url_ParseRequestURI (CHR '' '' # p) = None"
proof -
  let ?u = "empty_url\<lparr>url_Scheme := []\<rparr>"
  have nil: "ToLower [] = []" by (simp add: ToLower_def)
  obtain u rest where split: "split_query (CHR '' '' # p) ?u = (u, rest)" by fastforce
  then have "url_Scheme u = []"
    by (auto simp: split_query_def empty_url_def split: if_splits option.splits)
  moreover have "\<not> HasPrefix rest ''/''" using split_query_first [of p ?u] unfolding split by simp
  moreover have "getScheme (CHR '' '' # p) = Some ([], CHR '' '' # p)"
    by (simp add: getScheme_def is_lower_def is_upper_def is_digit_def byte_val_def)
  ultimately show ?thesis using split by (simp add: url_ParseRequestURI_def url_parse0_def nil)
qed

lemma padded_path_local:
  assumes "local_probe_entry s gatewayID entryID path = Inr found"
  shows "local_probe_entry s gatewayID entryID (CHR '' '' # p) =
    Inl ''probe path must be an absolute HTTP path beginning with /''"
  using assms by (auto simp: local_probe_entry_def padded_path_invalid split: option.splits if_splits)

lemma padded_path_executed:
  assumes "check_request request = Inr u" "req_Path request = CHR '' '' # p"
    and "probeGatewayRuntime s gatewayID = Inr runtime" "local_probe_entry s gatewayID entryID path = Inr found"
    and "cmd_Probe (probe_command run commandID probeID traceID c gatewayID entryID request) = Some command"
  shows "ExecuteProbe sha256 s env command = Some (Inl ''probe path must be an absolute HTTP path beginning with /'')"
proof -
  have command: "pc_Method command = probe_method request" "pc_GatewayID command = gatewayID" "pc_EntryID command = entryID"
    "pc_Body command = req_Body request" "pc_APIKey command = req_APIKey request" "pc_Path command = CHR '' '' # p"
    using assms(2,5) by (auto simp: probe_command_def)
  show ?thesis
    using checked_bounds [OF assms(1)] by (simp add: ExecuteProbe_def command assms(3) padded_path_local [OF assms(4)])
qed

text \<open>A space in front changes nothing for the server, which checks the trimmed path.\<close>

lemma TrimSpace_padded: "TrimSpace (CHR '' '' # p) = TrimSpace p"
proof -
  have "leading_rune space_runes (CHR '' '' # p) = 1"
    by (simp add: leading_rune_def space_runes_code HasPrefix_def)
  then have "TrimLeftSpace (CHR '' '' # p) = TrimLeftSpace p"
    by (simp add: TrimLeftSpace_def trim_runes.simps [of space_runes "CHR '' '' # p"])
  then show ?thesis by (simp add: TrimSpace_def)
qed

definition padded :: "ProbeRequest \<Rightarrow> ProbeRequest" where
  "padded request = request\<lparr>req_Path := CHR '' '' # req_Path request\<rparr>"

lemma padded_fields:
  "probe_method (padded request) = probe_method request" "probe_timeout (padded request) = probe_timeout request"
  "req_Body (padded request) = req_Body request" "req_Host (padded request) = req_Host request"
  "req_APIKey (padded request) = req_APIKey request" "TrimSpace (req_Path (padded request)) = TrimSpace (req_Path request)"
  by (simp_all add: padded_def probe_method_def probe_timeout_def TrimSpace_padded)

lemma padded_checked: "check_request (padded request) = check_request request"
  by (simp only: check_request_def padded_fields)

text \<open>
  C40: the server checks the path of a request after trimming it, but sends it to the agent as it
  came. Of a request that passes the server's checks, a copy with a space in front of its path passes them
  as well, yet the agent refuses the command the server builds from the copy, for a
  path that is not absolute.
\<close>

theorem padded_path_refused:
  assumes "rebuild lib now stores s = Some s'" "advertised s' e" "check_request request = Inr u"
  shows "check_request (padded request) = Inr u
    \<and> (\<exists>command. cmd_Probe (probe_command run commandID probeID traceID c (entry_GatewayID e) (entry_ID e) (padded request))
          = Some command
        \<and> ExecuteProbe sha256 s' env command = Some (Inl ''probe path must be an absolute HTTP path beginning with /''))"
proof -
  obtain st where st: "given_stores stores = Some st" using assms(1) by (auto simp: rebuild_Some)
  have e: "e \<in> set (topo_ProbeEntries (store_Topology s'))" "distinct (map entry_ID (topo_ProbeEntries (store_Topology s')))"
    using assms(2) by (simp_all add: advertised_def)
  have "probe_path (TrimSpace (req_Path request)) u" by (rule checked_path [OF assms(3)])
  note ready = executable_entry [OF assms(1) st e this]
  then obtain runtime where runtime: "probeGatewayRuntime s' (entry_GatewayID e) = Inr runtime" by blast
  have checked: "check_request (padded request) = Inr u" using assms(3) by (simp add: padded_checked)
  obtain command where command: "cmd_Probe (probe_command run commandID probeID traceID c (entry_GatewayID e) (entry_ID e)
      (padded request)) = Some command"
    by (simp add: probe_command_def)
  have "ExecuteProbe sha256 s' env command = Some (Inl ''probe path must be an absolute HTTP path beginning with /'')"
    by (rule padded_path_executed [OF checked _ runtime conjunct1 [OF ready] command]) (simp add: padded_def)
  with checked command show ?thesis by blast
qed

section \<open>The properties apply\<close>

definition sample_entry_request :: "string \<Rightarrow> ProbeRequest" where
  "sample_entry_request path = zero_ProbeRequest\<lparr>req_SourceCluster := ''c1'', req_GatewayID := ''c1::gateway/n/g'',
     req_EntryID := ''c1::gateway/n/g/probe-entry/n/e/80'', req_Method := ''get'', req_Path := path\<rparr>"

lemma sample_entry_checked: "\<exists>u. check_request (sample_entry_request ''/'') = Inr u"
proof -
  have "url_ParseRequestURI (TrimSpace ''/'') = Some (empty_url\<lparr>url_Path := ''/''\<rparr>)" by code_simp
  moreover have "ProbeHTTPMethod_IsValid (probe_method (sample_entry_request path))" for path
    by (simp add: sample_entry_request_def probe_method_def) code_simp
  ultimately show ?thesis
    by (simp add: check_request_def sample_entry_request_def zero_ProbeRequest_def ContainsAny_def url_IsAbs_def
        empty_url_def HasPrefix_def probe_timeout_def)
qed

lemma sample_advertised:
  "\<exists>e. advertised sample_entered e \<and> entry_ID e = ''gateway/n/g/probe-entry/n/e/80'' \<and> entry_GatewayID e = ''gateway/n/g''"
  using sample_entries by (auto simp: advertised_def)

lemma sample_entry_named:
  assumes "entry_ID e = ''gateway/n/g/probe-entry/n/e/80''" "entry_GatewayID e = ''gateway/n/g''"
  shows "names_entry (sample_entry_request path) ''c1'' e" "local_entry ''c1'' e" "plain_cluster ''c1''" "TrimSpace ''c1'' = ''c1''"
proof -
  have "TrimSpace ''c1'' = ''c1'' \<and> TrimSpace ''c1::gateway/n/g'' = globalID ''c1'' ''gateway/n/g''
    \<and> TrimSpace ''c1::gateway/n/g/probe-entry/n/e/80'' = globalID ''c1'' ''gateway/n/g/probe-entry/n/e/80''
    \<and> plain_cluster ''c1'' \<and> \<not> HasPrefix ''gateway/n/g'' ''c1::''
    \<and> \<not> HasPrefix ''gateway/n/g/probe-entry/n/e/80'' ''c1::''"
    by code_simp
  then show "names_entry (sample_entry_request path) ''c1'' e" "local_entry ''c1'' e" "plain_cluster ''c1''" "TrimSpace ''c1'' = ''c1''"
    using assms by (simp_all add: names_entry_def local_entry_def sample_entry_request_def)
qed

abbreviation sample_entry_command :: "string \<Rightarrow> ProbeCommand" where
  "sample_entry_command path \<equiv> the (cmd_Probe (probe_command sample_run ''command'' ''probe'' ''trace'' ''c1'' ''gateway/n/g''
     ''gateway/n/g/probe-entry/n/e/80'' (sample_entry_request path)))"

lemma sample_env_ends: "window_ends sample_env duration"
proof -
  have "env_rounds sample_env duration = [] @ observing_round # []" "round_over observing_round"
    by (simp_all add: sample_env_def round_over_def observing_round_def)
  then show ?thesis unfolding window_ends_def by blast
qed

lemma advertised_entry_probed_witness:
  "\<forall>ka. \<exists>hub result. ReceiveSnapshot zero_time zero_time
       (snapshot_payload sample_agent zero_time (kube_Reader ka CtxInherited) sample_entered) (NewStore ''h'' 0) = (Inr (), hub)
     \<and> ExecuteProbe (\<lambda>s. s) sample_entered sample_env (sample_entry_command ''/'') = Some (Inr result)
     \<and> par_HTTP result \<noteq> None"
proof
  fix ka
  obtain e where e: "advertised sample_entered e" "entry_ID e = ''gateway/n/g/probe-entry/n/e/80''" "entry_GatewayID e = ''gateway/n/g''"
    using sample_advertised by blast
  note named = sample_entry_named [OF e(2,3)]
  have c1: "ks_clusterID sample_kube = ''c1''" "cfg_ClusterID sample_agent = ''c1''" by code_simp+
  obtain u where u: "check_request (sample_entry_request ''/'') = Inr u" using sample_entry_checked by blast
  have path: "TrimSpace (req_Path (sample_entry_request ''/'')) = req_Path (sample_entry_request ''/'')" by code_simp
  let ?receive = "ReceiveSnapshot zero_time zero_time
       (snapshot_payload sample_agent zero_time (kube_Reader ka CtxInherited) sample_entered) (NewStore ''h'' 0)"
  obtain outcome hub where receive: "?receive = (outcome, hub)" by fastforce
  have command: "cmd_Probe (probe_command sample_run ''command'' ''probe'' ''trace'' ''c1'' (entry_GatewayID e) (entry_ID e)
      (sample_entry_request ''/'')) = Some (sample_entry_command ''/'')"
    by (simp add: probe_command_def e)
  have env: "env_newRequest sample_env (entry_target e u) = None" by (simp add: sample_env_def)
  note probed = advertised_entry_probed [OF sample_entered_rebuild(1) e(1) named(2) c1 named(4) _ named(3) named(1) u path receive
      refl command env sample_env_ends, of "\<lambda>s. s"]
  then obtain result where "outcome = Inr ()"
      "ExecuteProbe (\<lambda>s. s) sample_entered sample_env (sample_entry_command ''/'') = Some (Inr result)" "par_HTTP result \<noteq> None"
    by (auto simp: executed_at_def)
  with receive show "\<exists>hub result. ?receive = (Inr (), hub)
     \<and> ExecuteProbe (\<lambda>s. s) sample_entered sample_env (sample_entry_command ''/'') = Some (Inr result) \<and> par_HTTP result \<noteq> None"
    by (intro exI conjI) simp_all
qed

lemma padded_path_refused_witness:
  "(\<exists>u. check_request (sample_entry_request '' /'') = Inr u)
   \<and> ExecuteProbe (\<lambda>s. s) sample_entered sample_env (sample_entry_command '' /'')
     = Some (Inl ''probe path must be an absolute HTTP path beginning with /'')"
proof -
  obtain e where e: "advertised sample_entered e" "entry_ID e = ''gateway/n/g/probe-entry/n/e/80''" "entry_GatewayID e = ''gateway/n/g''"
    using sample_advertised by blast
  obtain u where u: "check_request (sample_entry_request ''/'') = Inr u" using sample_entry_checked by blast
  have copy: "padded (sample_entry_request ''/'') = sample_entry_request '' /''"
    by (simp add: padded_def sample_entry_request_def)
  from padded_path_refused [OF sample_entered_rebuild(1) e(1) u, of sample_run "''command''" "''probe''" "''trace''" "''c1''" "\<lambda>s. s" sample_env]
  have "check_request (sample_entry_request '' /'') = Inr u"
    "ExecuteProbe (\<lambda>s. s) sample_entered sample_env (sample_entry_command '' /'')
       = Some (Inl ''probe path must be an absolute HTTP path beginning with /'')"
    by (auto simp: copy e)
  then show ?thesis by blast
qed

end
