(* ===== verification/Probe_Endpoint.thy ===== *)
theory Probe_Endpoint
  imports Api_Handler Probe_Lifecycle Demo_Store
begin

text \<open>
  The probes over HTTP. The interface \<open>ProbeStore\<close> promises that an execution it returns is found under its
  identity; the round trip of \<open>POST /api/v1/probes\<close> and \<open>GET /api/v1/probes/{id}\<close> rests on this promise
  alone, and both stores behind the interface, the federation store and the demo store, keep it.
\<close>

section \<open>The path of a probe\<close>

text \<open>Identities the code makes: letters, digits and dashes.\<close>

definition plain_identity :: "string \<Rightarrow> bool" where
  "plain_identity i \<longleftrightarrow> i \<noteq> [] \<and> list_all (\<lambda>c. is_alnum c \<or> c = CHR ''-'') i"

definition probe_get :: "string \<Rightarrow> HttpRequest \<Rightarrow> bool" where
  "probe_get i r \<longleftrightarrow> rq_Method r = ''GET'' \<and> url_Path (rq_URL r) = ''/api/v1/probes/'' @ i \<and> url_RawPath (rq_URL r) = []"

lemma plain_identity_byte:
  assumes "plain_identity i" "c \<in> set i"
  shows "\<not> shouldEscape c encodePath" "c \<noteq> CHR ''/''" "c \<noteq> CHR ''%''"
  using assms
  by (auto simp: plain_identity_def list_all_iff shouldEscape_def is_alnum_def is_lower_def is_upper_def is_digit_def byte_val_def)

lemma escape_plain: "(\<And>c. c \<in> set s \<Longrightarrow> \<not> shouldEscape c mode) \<Longrightarrow> escape s mode = s"
  by (induction s) auto

lemma escape_append: "escape (s @ t) mode = escape s mode @ escape t mode"
  by (induction s) auto

lemma unescape_plain: "CHR ''%'' \<notin> set s \<Longrightarrow> unescape s encodePath = Some s"
  by (induction s) auto

lemma probe_get_route:
  assumes "plain_identity i" "probe_get i r"
  shows "request_route r = R_getProbe i"
proof -
  note plain = plain_identity_byte [OF assms(1)]
  have "escape (''/api/v1/probes/'' @ i) encodePath = ''/api/v1/probes/'' @ i"
    unfolding escape_append by (simp only: escape_plain [OF plain(1)] append_same_eq) code_simp
  then have path: "EscapedPath (rq_URL r) = ''/api/v1/probes/'' @ i"
    using assms(2) by (simp add: EscapedPath_def probe_get_def)
  have "SplitByte (CHR ''/'') i = [i]" using plain(2) by (intro SplitByte_none) auto
  moreover have "CHR ''%'' \<notin> set i" using plain(3) by blast
  then have "path_unescape i = i" by (simp add: path_unescape_def unescape_plain)
  ultimately have "path_segments (EscapedPath (rq_URL r)) = [''api'', ''v1'', ''probes'', i]"
    by (simp add: path path_segments_def path_unescape_def)
  moreover have "i \<notin> {[], ''/''}" using assms(1) plain(2) [of "CHR ''/''"] by (auto simp: plain_identity_def)
  ultimately show ?thesis using assms(2) by (simp add: request_route_def mux_route_def probe_get_def)
qed

section \<open>Drawn identities\<close>

text \<open>\<open>newCommandID\<close>: the random source fails, or fills sixteen bytes, which are written in hexadecimal.\<close>

definition hex_lower :: "nat \<Rightarrow> char" where
  "hex_lower n = ''0123456789abcdef'' ! n"

definition hex_encode :: "string \<Rightarrow> string" where
  "hex_encode bs = concat (map (\<lambda>c. [hex_lower (byte_val c div 16), hex_lower (byte_val c mod 16)]) bs)"

definition newCommandID :: "string + string \<Rightarrow> string + string" where
  "newCommandID random = map_sum id hex_encode random"

lemma hex_lower_plain:
  assumes "n < 16"
  shows "is_alnum (hex_lower n) \<and> plain_char (hex_lower n)"
proof -
  have "list_all (\<lambda>c. is_alnum c \<and> plain_char c) ''0123456789abcdef''" by code_simp
  moreover have "hex_lower n \<in> set ''0123456789abcdef''" unfolding hex_lower_def by (rule nth_mem) (use assms in simp)
  ultimately show ?thesis by (auto simp only: list_all_iff)
qed

lemma hex_encode_bytes: "c \<in> set (hex_encode bs) \<Longrightarrow> is_alnum c \<and> plain_char c"
proof -
  have "byte_val b div 16 < 16" for b using byte_val_less [of b] by linarith
  then show "c \<in> set (hex_encode bs) \<Longrightarrow> is_alnum c \<and> plain_char c"
    by (auto simp: hex_encode_def hex_lower_plain)
qed

lemma drawn_identity:
  assumes "bs \<noteq> []"
  shows "plain_identity (hex_encode bs)" "TrimSpace (hex_encode bs) = hex_encode bs"
proof -
  have "hex_encode bs \<noteq> []" using assms by (cases bs) (simp_all add: hex_encode_def)
  then show "plain_identity (hex_encode bs)" "TrimSpace (hex_encode bs) = hex_encode bs"
    using hex_encode_bytes [of _ bs] by (auto simp: plain_identity_def list_all_iff plain_ends_def intro!: TrimSpace_plain)
qed

section \<open>The interface and its client\<close>

locale probe_store =
  fixes probes :: "'s ProbeStore" and undisturbed :: bool
  assumes created: "ps_CreateProbe probes request s = (Inr probe, s') \<Longrightarrow> undisturbed
      \<Longrightarrow> ps_GetProbe probes (exec_ID probe) s' = Some probe"
begin

lemma posted_found:
  assumes "undisturbed" "hd_probes h = Some probes"
    and "request_route post = R_createProbe" "ServeHTTP codec h post s = (w, s')" "rs_Status w = 201"
  shows "\<exists>probe request. ps_CreateProbe probes request s = (Inr probe, s')
    \<and> rs_Body w = enc_ProbeExecution codec probe @ [byte 10]
    \<and> (\<forall>r. request_route r = R_getProbe (exec_ID probe) \<longrightarrow>
         rs_Status (fst (ServeHTTP codec h r s')) = 200 \<and> rs_Body (fst (ServeHTTP codec h r s')) = rs_Body w
         \<and> snd (ServeHTTP codec h r s') = s')"
proof -
  obtain probe request where "ps_CreateProbe probes request s = (Inr probe, s')"
    "rs_Body w = enc_ProbeExecution codec probe @ [byte 10]"
    using assms by (auto simp: ServeHTTP_def createProbe_endpoint_def split: option.splits prod.splits sum.splits)
  moreover from this have "ps_GetProbe probes (exec_ID probe) s' = Some probe" using created assms(1) by blast
  ultimately show ?thesis
    using assms(2) by (intro exI [of _ probe] exI [of _ request]) (simp add: ServeHTTP_def getProbe_endpoint_def)
qed

end

section \<open>The stores behind the interface\<close>

text \<open>
  The call draws its probe's identity from sixteen random bytes, and while it waits, the other goroutines
  leave this probe alone.
\<close>

definition hub_undisturbed :: "Ambient \<Rightarrow> string \<Rightarrow> bool" where
  "hub_undisturbed amb random \<longleftrightarrow> run_probeID (amb_run amb) = newCommandID (Inr random) \<and> length random = 16
     \<and> keeps_probe (hex_encode random) (run_environment (amb_run amb))"

lemma CreateProbe_kept:
  assumes "CreateProbe run request s = Some (probe, None, s')"
    and "\<And>i. run_probeID run = Inr i \<Longrightarrow> keeps_probe i (run_environment run)"
  shows "run_probeID run = Inr (exec_ID probe) \<and> st_probes s' (exec_ID probe) = Some probe"
proof (cases rule: CreateProbe_cases [of run request s])
  case (rejected e)
  with assms show ?thesis by simp
next
  case (accepted entry path probeID traceID commandID x s1)
  obtain clusterID gatewayID e where entry: "entry = (clusterID, gatewayID, e)" by (cases entry)
  have "exec_ID probe = probeID"
    using CreateProbe_identifies [OF assms(1) accepted(1) [unfolded entry] accepted(2-5) assms(2) [OF accepted(3)]]
    by (simp add: probe_identity_def)
  moreover have "st_probes s' probeID = Some probe"
    using CreateProbe_settled [OF assms(1)] accepted(3) by (auto simp: probe_settled_def)
  ultimately show ?thesis using accepted(3) by simp
qed

lemma hub_created:
  assumes "ps_CreateProbe (hub_ProbeStore amb) request s = (Inr probe, s')" "hub_undisturbed amb random"
  shows "exec_ID probe = hex_encode random" "ps_GetProbe (hub_ProbeStore amb) (exec_ID probe) s' = Some probe"
proof -
  have call: "CreateProbe (amb_run amb) request s = Some (probe, None, s')"
    using assms(1) by (auto simp: hub_ProbeStore_def split: option.splits)
  have "run_probeID (amb_run amb) = Inr (exec_ID probe) \<and> st_probes s' (exec_ID probe) = Some probe"
    using CreateProbe_kept [OF call] assms(2) by (auto simp: hub_undisturbed_def newCommandID_def)
  moreover from this show "exec_ID probe = hex_encode random"
    using assms(2) by (simp add: hub_undisturbed_def newCommandID_def)
  moreover have "random \<noteq> []" using assms(2) by (auto simp: hub_undisturbed_def)
  ultimately show "ps_GetProbe (hub_ProbeStore amb) (exec_ID probe) s' = Some probe"
    by (simp add: hub_ProbeStore_def GetProbe_def drawn_identity)
qed

interpretation hub_probes: probe_store "hub_ProbeStore amb" "hub_undisturbed amb random" for amb random
  by unfold_locales (rule hub_created)

interpretation demo_probes: probe_store "demo_ProbeStore t" True for t
proof
  fix request s probe s'
  assume "ps_CreateProbe (demo_ProbeStore t) request s = (Inr probe, s')"
  then have "demo_CreateProbe t request s = (Inr probe, s')" by (simp add: demo_ProbeStore_def)
  then show "ps_GetProbe (demo_ProbeStore t) (exec_ID probe) s' = Some probe"
    by (rule demo_CreateProbe_cases)
      (simp add: demo_ProbeStore_def demo_GetProbe_def update_conv' EnrichProbe_eq demo_execution_def)
qed

section \<open>The round trip\<close>

text \<open>
  C34: a probe that the server answers with 201 is found by its identity: the body of \<open>GET
  /api/v1/probes/{id}\<close> equals the body of the \<open>POST\<close>, byte for byte, and looking changes nothing,
  however the probe fared, as long as the other requests served meanwhile do not write this very probe. (The
  identity is drawn by \<open>newCommandID\<close>, so its path leads to the lookup and to no other endpoint.)
\<close>

theorem posted_probe_found:
  assumes "hub_undisturbed amb random" "hd_probes h = Some (hub_ProbeStore amb)"
    and "request_route post = R_createProbe" "ServeHTTP codec h post s = (w, s')" "rs_Status w = 201"
    and "probe_get (hex_encode random) r"
  shows "rs_Status (fst (ServeHTTP codec h r s')) = 200 \<and> rs_Body (fst (ServeHTTP codec h r s')) = rs_Body w
    \<and> snd (ServeHTTP codec h r s') = s'
    \<and> (\<exists>probe. exec_ID probe = hex_encode random \<and> rs_Body w = enc_ProbeExecution codec probe @ [byte 10])"
proof -
  obtain probe request where found: "ps_CreateProbe (hub_ProbeStore amb) request s = (Inr probe, s')"
    "rs_Body w = enc_ProbeExecution codec probe @ [byte 10]"
    "\<forall>r. request_route r = R_getProbe (exec_ID probe) \<longrightarrow>
       rs_Status (fst (ServeHTTP codec h r s')) = 200 \<and> rs_Body (fst (ServeHTTP codec h r s')) = rs_Body w
       \<and> snd (ServeHTTP codec h r s') = s'"
    using hub_probes.posted_found [OF assms(1-5)] by blast
  have ID: "exec_ID probe = hex_encode random" by (rule hub_created(1) [OF found(1) assms(1)])
  have "random \<noteq> []" using assms(1) by (auto simp: hub_undisturbed_def)
  then have "request_route r = R_getProbe (exec_ID probe)"
    unfolding ID by (intro probe_get_route drawn_identity assms(6))
  with found ID show ?thesis by blast
qed

text \<open>The same of the demo store, whose probes always have a plain identity.\<close>

lemma demo_posted_probe_found:
  assumes "hd_probes h = Some (demo_ProbeStore t)"
    and "request_route post = R_createProbe" "ServeHTTP codec h post s = (w, s')" "rs_Status w = 201"
  shows "\<exists>probe. rs_Body w = enc_ProbeExecution codec probe @ [byte 10]
    \<and> (\<forall>r. plain_identity (exec_ID probe) \<and> probe_get (exec_ID probe) r \<longrightarrow>
         rs_Status (fst (ServeHTTP codec h r s')) = 200 \<and> rs_Body (fst (ServeHTTP codec h r s')) = rs_Body w)"
  using demo_probes.posted_found [OF TrueI assms] probe_get_route by blast


section \<open>The property applies\<close>

abbreviation sample_random :: string where "sample_random \<equiv> replicate 16 (byte 0)"

definition sample_drawn_run :: ProbeRun where
  "sample_drawn_run = sample_run\<lparr>run_probeID := newCommandID (Inr sample_random)\<rparr>"

lemma sample_timed_out: "\<exists>probe s'. CreateProbe sample_drawn_run sample_request sample_entry_store = Some (probe, None, s')"
proof (cases rule: CreateProbe_cases [of sample_drawn_run sample_request sample_entry_store])
  case (rejected e)
  then show ?thesis
    using sample_created by (auto simp: sample_drawn_run_def sample_run_def newCommandID_def)
next
  case (accepted entry path probeID traceID commandID x s1)
  have "queue_of (started_store a c sample_entry_store) k = []" for a c k
    by (simp add: started_store_def register_command_def queue_of_def ensure_queue_def sample_entry_store_def
        sample_store_def NewStore_def)
  then have "x = Stopped StopTimer"
    using accepted(6)
    by (simp add: exchange_def sample_drawn_run_def sample_run_def offer_command_def await_result_def
        agentCommandQueueSize_def Let_def)
  then show ?thesis using accepted(7) by (simp add: finish_probe_def probe_failed_def Let_def split_beta)
qed

definition sample_probe_handler :: "Ambient \<Rightarrow> Store Reader \<Rightarrow> Store Handler" where
  "sample_probe_handler amb reader =
     new_handler reader [WithProbeStore (hub_ProbeStore (amb\<lparr>amb_run := sample_drawn_run\<rparr>))]"

definition sample_probe_request :: "string \<Rightarrow> string \<Rightarrow> HttpRequest" where
  "sample_probe_request verb path =
     \<lparr>rq_Method = verb, rq_URL = empty_url\<lparr>url_Path := path\<rparr>, rq_Header = (\<lambda>_. []), rq_Body = [], rq_Done = False\<rparr>"

lemma posted_probe_found_witness:
  "\<forall>codec amb reader. \<exists>w s'. ServeHTTP (codec\<lparr>dec_ProbeRequest := \<lambda>_. Some sample_request\<rparr>) (sample_probe_handler amb reader)
       (sample_probe_request ''POST'' ''/api/v1/probes'') sample_entry_store = (w, s') \<and> rs_Status w = 201
     \<and> rs_Body (fst (ServeHTTP (codec\<lparr>dec_ProbeRequest := \<lambda>_. Some sample_request\<rparr>) (sample_probe_handler amb reader)
         (sample_probe_request ''GET'' (''/api/v1/probes/'' @ hex_encode sample_random)) s')) = rs_Body w"
proof (intro allI)
  fix codec :: Codec and amb and reader :: "Store Reader"
  let ?codec = "codec\<lparr>dec_ProbeRequest := \<lambda>_. Some sample_request\<rparr>" and ?h = "sample_probe_handler amb reader"
  let ?post = "sample_probe_request ''POST'' ''/api/v1/probes''"
    and ?get = "sample_probe_request ''GET'' (''/api/v1/probes/'' @ hex_encode sample_random)"
  have undisturbed: "hub_undisturbed (amb\<lparr>amb_run := sample_drawn_run\<rparr>) sample_random"
    by (simp add: hub_undisturbed_def sample_drawn_run_def sample_run_def keeps_probe_def)
  have probes: "hd_probes ?h = Some (hub_ProbeStore (amb\<lparr>amb_run := sample_drawn_run\<rparr>))"
    by (simp add: sample_probe_handler_def new_handler_def WithProbeStore_def)
  have route: "request_route ?post = R_createProbe" by code_simp
  obtain probe s1 where "CreateProbe sample_drawn_run sample_request sample_entry_store = Some (probe, None, s1)"
    using sample_timed_out by blast
  then obtain w s' where posted: "ServeHTTP ?codec ?h ?post sample_entry_store = (w, s')" "rs_Status w = 201"
    by (simp add: ServeHTTP_def route createProbe_endpoint_def probes hub_ProbeStore_def)
  have "probe_get (hex_encode sample_random) ?get"
    by (simp add: probe_get_def sample_probe_request_def empty_url_def)
  from posted_probe_found [OF undisturbed probes route posted this]
  have "rs_Body (fst (ServeHTTP ?codec ?h ?get s')) = rs_Body w" by blast
  with posted show "\<exists>w s'. ServeHTTP ?codec ?h ?post sample_entry_store = (w, s') \<and> rs_Status w = 201
    \<and> rs_Body (fst (ServeHTTP ?codec ?h ?get s')) = rs_Body w" by blast
qed

end
