(* ===== verification/Envoy_Extensions.thy ===== *)
theory Envoy_Extensions
  imports Envoy_Dump
begin

text \<open>
  What the parsed configuration guarantees: nested strings against a declarative reference,
  and the invariant of the extensions that the sweep over the listeners keeps (the index finds
  exactly the extensions, every attachment belongs to a listener that was read).
\<close>

section \<open>Nested strings\<close>

text \<open>A non-empty string under a key, at any depth.\<close>

inductive nested_in :: "string \<Rightarrow> string \<Rightarrow> json \<Rightarrow> bool" for key :: string and t :: string where
  here: "(key, JStr t) \<in> set ms \<Longrightarrow> t \<noteq> [] \<Longrightarrow> nested_in key t (JObj ms)"
| member: "(k, v) \<in> set ms \<Longrightarrow> nested_in key t v \<Longrightarrow> nested_in key t (JObj ms)"
| item: "v \<in> set vs \<Longrightarrow> nested_in key t v \<Longrightarrow> nested_in key t (JArr vs)"

inductive_cases nested_in_objE: "nested_in key t (JObj ms)"
inductive_cases nested_in_arrE: "nested_in key t (JArr vs)"
inductive_simps nested_in_scalar [simp]:
  "nested_in key t JNull" "nested_in key t (JBool b)" "nested_in key t (JNum l)" "nested_in key t (JStr s)"

lemma json_text_of_Some: "json_text_of raw = Some t \<longleftrightarrow> raw = JStr t \<and> t \<noteq> []"
  by (auto simp: json_text_of_def split: json.splits)

lemma visit_obj:
  "t \<in> set (nested_values key (JObj ms)) \<longleftrightarrow>
     (\<exists>m \<in> set ms. fst m = key \<and> json_text_of (snd m) = Some t \<or> t \<in> set (nested_values key (snd m)))"
proof -
  have *: "set (case x of None \<Rightarrow> [] | Some t \<Rightarrow> [t]) = set_option x" for x :: "string option"
    by (cases x) auto
  show ?thesis
    by (simp only: nested_values.simps set_concat set_map UN_simps image_image UN_iff set_append)
      (simp add: * if_distrib cong: if_cong, rule bex_cong [OF refl], blast)
qed

lemma visit_nested: "t \<in> set (nested_values key v) \<longleftrightarrow> nested_in key t v"
proof (induction key v rule: nested_values.induct)
  case (1 key ms)
  show ?case
    unfolding visit_obj
    using 1 by (force simp: json_text_of_Some intro: nested_in.intros elim!: nested_in_objE)
next
  case (2 key vs)
  then show ?case by (auto intro: nested_in.intros elim!: nested_in_arrE)
qed simp_all

lemma sorted_slice_stable_less: "sorted (slice_stable (<) (xs :: 'a::linorder list))"
  using sorted_slice_stable [of "(<)" "\<lambda>x. x" xs] by simp

section \<open>The invariant of the extensions\<close>

definition extension_ok :: "string set \<Rightarrow> EnvoyExtension \<Rightarrow> bool" where
  "extension_ok listeners x \<longleftrightarrow>
     ex_Attachments x \<noteq> [] \<and> distinct (map attachment_key (ex_Attachments x))
     \<and> exa_ListenerID ` set (ex_Attachments x) \<subseteq> listeners
     \<and> distinct (map dependency_key (ex_Dependencies x))"

definition extensions_ok :: "string set \<Rightarrow> extensions \<Rightarrow> bool" where
  "extensions_ok listeners xs \<longleftrightarrow>
     (\<forall>i n. snd xs i = Some n \<longleftrightarrow> n < length (fst xs) \<and> ex_ID (fst xs ! n) = i)
     \<and> list_all (extension_ok listeners) (fst xs)"

lemma extensions_ok_mono: "extensions_ok L xs \<Longrightarrow> L \<subseteq> L' \<Longrightarrow> extensions_ok L' xs"
  by (simp add: extensions_ok_def extension_ok_def list_all_iff) (meson order_trans)

lemma extensions_ok_distinct:
  assumes "extensions_ok L xs"
  shows "distinct (map ex_ID (fst xs))"
  unfolding distinct_conv_nth
proof (intro allI impI)
  fix m n assume "m < length (map ex_ID (fst xs))" "n < length (map ex_ID (fst xs))" "m \<noteq> n"
  with assms show "map ex_ID (fst xs) ! m \<noteq> map ex_ID (fst xs) ! n"
    by (simp add: extensions_ok_def) (metis option.inject)
qed

lemma extensions_ok_attach:
  assumes "extensions_ok L (exts, index)" "index i = Some n" "exa_ListenerID a \<in> L"
  shows "extensions_ok L (exts[n := (exts ! n)\<lparr>ex_Attachments :=
    appendUniqueExtensionAttachment (ex_Attachments (exts ! n)) a\<rparr>], index)"
proof -
  let ?x = "(exts ! n)\<lparr>ex_Attachments := appendUniqueExtensionAttachment (ex_Attachments (exts ! n)) a\<rparr>"
  from assms(1,2) have n: "n < length exts" by (simp add: extensions_ok_def)
  with assms(1) have "extension_ok L (exts ! n)" by (simp add: extensions_ok_def list_all_length)
  with assms(3) have "extension_ok L ?x"
    using attachments.add_set [of "ex_Attachments (exts ! n)" a]
    by (auto simp: extension_ok_def attachments.add_distinct attachments.add_cases)
  then have "list_all (extension_ok L) (exts[n := ?x])"
    using assms(1) n by (auto simp: extensions_ok_def list_all_length nth_list_update)
  moreover have "ex_ID (exts[n := ?x] ! k) = ex_ID (exts ! k)" if "k < length exts" for k
    using that by (cases "k = n") simp_all
  ultimately show ?thesis using assms(1) by (auto simp: extensions_ok_def)
qed

lemma extensions_ok_add:
  assumes "extensions_ok L (exts, index)" "index (ex_ID x) = None" "extension_ok L x"
  shows "extensions_ok L (exts @ [x], index(ex_ID x \<mapsto> length exts))"
proof -
  from assms(1,2) have fresh: "n < length exts \<Longrightarrow> ex_ID (exts ! n) \<noteq> ex_ID x" for n
    by (simp add: extensions_ok_def) (metis option.distinct(1))
  with assms show ?thesis
    by (auto simp: extensions_ok_def nth_append less_Suc_eq)
qed

lemma addRuntimeExtension_ok:
  assumes "extensions_ok L xs" "el_ID listener \<in> L"
  shows "extensions_ok L (addRuntimeExtension marshal fingerprint configs flt listener chain position filterType xs)"
proof -
  obtain exts index where xs: "xs = (exts, index)" by fastforce
  have add: "extensions_ok L (add_extension x a xs)" if "extension_ok L x" "exa_ListenerID a \<in> L" for x a
    using that assms(1) extensions_ok_add [of L exts index x] extensions_ok_attach [of L exts index "ex_ID x"]
    by (auto simp: add_extension_def xs split: option.split)
  show ?thesis
    unfolding addRuntimeExtension_def using assms(2)
    by (intro add)
      (simp_all add: extension_at_def new_extension_def filter_attachment_def extension_ok_def
        extension_dependencies_distinct)
qed

text \<open>Every step of the sweep keeps the invariant; a listener keeps its identity.\<close>

lemma parse_http_filter_ok:
  assumes "extensions_ok L (snd st)" "el_ID listener \<in> L"
  shows "extensions_ok L (snd (parse_http_filter marshal fingerprint configs listener st raw))"
  using assms by (cases st) (simp add: parse_http_filter_def Let_def addRuntimeExtension_ok)

lemma parseHTTPFilters_ok:
  assumes "extensions_ok L (snd st)" "el_ID listener \<in> L"
  shows "extensions_ok L (snd (parseHTTPFilters marshal fingerprint configs config listener st))"
proof -
  have "extensions_ok L (snd (foldl (parse_http_filter marshal fingerprint configs listener) st raws))" for raws
    using assms(1) by (induction raws arbitrary: st) (simp_all add: parse_http_filter_ok assms(2))
  then show ?thesis by (simp add: parseHTTPFilters_def)
qed

definition step_ok :: "string set \<Rightarrow> string \<Rightarrow> EnvoyListener \<times> EnvoyFilterChain \<times> extensions \<Rightarrow> bool" where
  "step_ok L i st \<longleftrightarrow> el_ID (fst st) = i \<and> extensions_ok L (snd (snd st))"

lemma parse_filter_ok:
  assumes "step_ok L i st" "i \<in> L"
  shows "step_ok L i (parse_filter marshal fingerprint routeConfigs configs st raw)"
proof -
  obtain item fc xs where st: "st = (item, fc, xs)" by (cases st)
  have keep: "extensions_ok L (snd (parseHTTPFilters marshal fingerprint configs config
      (item\<lparr>el_Protocol := p\<rparr>) (fc, xs)))" for config p
    using assms st by (intro parseHTTPFilters_ok) (simp_all add: step_ok_def)
  show ?thesis
    using assms keep addRuntimeExtension_ok
    by (auto simp: parse_filter_def Let_def st step_ok_def split: prod.split)
      (metis snd_conv)+
qed

lemma parse_chain_ok:
  assumes "el_ID (fst st) = i" "extensions_ok L (snd st)" "i \<in> L"
  shows "el_ID (fst (parse_chain marshal fingerprint routeConfigs configs st raw)) = i
    \<and> extensions_ok L (snd (parse_chain marshal fingerprint routeConfigs configs st raw))"
proof -
  obtain item xs where st: "st = (item, xs)" by (cases st)
  have "step_ok L i (foldl (parse_filter marshal fingerprint routeConfigs configs) (item, fc, xs) raws)" for fc raws
  proof -
    have "step_ok L i s \<Longrightarrow> step_ok L i (foldl (parse_filter marshal fingerprint routeConfigs configs) s raws)" for s
      by (induction raws arbitrary: s) (simp_all add: parse_filter_ok assms(3))
    with assms st show ?thesis by (simp add: step_ok_def)
  qed
  then show ?thesis
    by (auto simp: parse_chain_def Let_def st step_ok_def split: prod.split) (metis fst_conv snd_conv)+
qed

text \<open>Listener identities end in their position, so they are distinct.\<close>

definition listeners_numbered :: "EnvoyListener list \<Rightarrow> bool" where
  "listeners_numbered ls \<longleftrightarrow>
     (\<forall>k < length ls. \<exists>p. el_ID (ls ! k) = p @ CHR ''|'' # Itoa (int k))"

lemma bar_suffix:
  assumes "p @ CHR ''|'' # a = q @ CHR ''|'' # b" "CHR ''|'' \<notin> set a" "CHR ''|'' \<notin> set b"
  shows "a = b"
proof -
  have "takeWhile (\<lambda>c. c \<noteq> CHR ''|'') (rev (p @ CHR ''|'' # a)) = rev a" if "CHR ''|'' \<notin> set a" for p a
    using that by (simp add: takeWhile_tail) (metis set_rev takeWhile_eq_all_conv)
  from this [of a p] this [of b q] assms show ?thesis by (metis rev_rev_ident)
qed

lemma Itoa_no_bar: "CHR ''|'' \<notin> set (Itoa i)"
  by (rule Itoa_free) (simp_all add: is_digit_def byte_val_def)

lemma listeners_numbered_distinct: "listeners_numbered ls \<Longrightarrow> distinct (map el_ID ls)"
  unfolding distinct_conv_nth listeners_numbered_def
  by (auto dest: bar_suffix [OF _ Itoa_no_bar Itoa_no_bar] simp: Itoa_inj) (metis bar_suffix [OF _ Itoa_no_bar Itoa_no_bar] Itoa_inj of_nat_eq_iff)

definition listeners_ok :: "EnvoyListener list \<times> extensions \<Rightarrow> bool" where
  "listeners_ok st \<longleftrightarrow>
     listeners_numbered (fst st) \<and> extensions_ok (el_ID ` set (fst st)) (snd st)"

lemma parse_listener_ok:
  assumes "listeners_ok st"
  shows "listeners_ok (parse_listener marshal fingerprint routeConfigs configs st raw)"
proof -
  obtain ls xs where st: "st = (ls, xs)" by (cases st)
  show ?thesis
  proof (cases "first_some [object_in (object raw) [''listener''], object_in (object raw) [''active_state'', ''listener'']]")
    case None
    with assms show ?thesis by (simp add: parse_listener_def Let_def)
  next
    case (Some ms)
    let ?bare = "bare_listener (object raw) (Some ms) (length ls)"
    let ?L = "insert (el_ID ?bare) (el_ID ` set ls)"
    let ?parse = "parse_chain marshal fingerprint routeConfigs configs"
    have fold: "el_ID (fst (foldl ?parse s raws)) = el_ID ?bare \<and> extensions_ok ?L (snd (foldl ?parse s raws))"
      if "el_ID (fst s) = el_ID ?bare" "extensions_ok ?L (snd s)" for s raws
      using that by (induction raws arbitrary: s) (simp_all add: parse_chain_ok)
    obtain item xs' where item: "foldl ?parse (?bare, xs) (listener_chains (Some ms)) = (item, xs')"
      by (metis surj_pair)
    have "extensions_ok ?L xs"
      using assms by (auto simp: listeners_ok_def st intro: extensions_ok_mono)
    with fold [of "(?bare, xs)" "listener_chains (Some ms)"] item
    have "el_ID item = el_ID ?bare" "extensions_ok ?L xs'" by simp_all
    moreover have "\<exists>p. el_ID ?bare = p @ CHR ''|'' # Itoa (int (length ls))"
      by (simp add: bare_listener_def Let_def)
    ultimately show ?thesis
      using assms Some item
      by (auto simp: parse_listener_def Let_def st listeners_ok_def listeners_numbered_def nth_append less_Suc_eq
          simp del: first_some.simps)
  qed
qed

lemma parseListeners_ok:
  "listeners_ok st \<Longrightarrow> listeners_ok (parseListeners marshal fingerprint routeConfigs configs st section)"
proof -
  have "listeners_ok (foldl (parse_listener marshal fingerprint routeConfigs configs) st raws)"
    if "listeners_ok st" for st raws
    using that by (induction raws arbitrary: st) (simp_all add: parse_listener_ok)
  then show "listeners_ok st \<Longrightarrow> listeners_ok (parseListeners marshal fingerprint routeConfigs configs st section)"
    by (simp add: parseListeners_def)
qed

lemma sweep_ok:
  "listeners_ok (foldl (parseListeners marshal fingerprint routeConfigs configs)
     ([], [], Map.empty) sections)"
proof -
  have "listeners_ok (foldl (parseListeners marshal fingerprint routeConfigs configs) st sections)"
    if "listeners_ok st" for st
    using that by (induction sections arbitrary: st) (simp_all add: parseListeners_ok)
  then show ?thesis by (simp add: listeners_ok_def listeners_numbered_def extensions_ok_def)
qed

text \<open>What the two sweeps leave in the result.\<close>

lemma Parse_result:
  "\<exists>listeners exts index clusters. listeners_ok (listeners, exts, index)
     \<and> ec_Listeners (Parse marshal fingerprint dump snapshotID observedAt) = listeners
     \<and> ec_Clusters (Parse marshal fingerprint dump snapshotID observedAt) = clusters
     \<and> ec_Extensions (Parse marshal fingerprint dump snapshotID observedAt) =
         slice_stable extension_before (map (resolve_extension (set (map ecl_Name clusters))) exts)"
proof -
  let ?sections = "map object (slice dump ''configs'')"
  obtain listeners exts index where sweep: "foldl (parseListeners marshal fingerprint
      (foldl parseRouteConfigs Map.empty ?sections) (foldl parseExtensionConfigs Map.empty ?sections))
      ([], [], Map.empty) ?sections = (listeners, exts, index)"
    by (metis surj_pair)
  with sweep_ok have "listeners_ok (listeners, exts, index)" by metis
  then show ?thesis
    by (intro exI [of _ listeners] exI [of _ exts] exI [of _ index])
      (simp add: Parse_def Let_def sweep resolveExtensionDependencies_def)
qed

lemma resolve_extension_fields [simp]:
  "ex_ID (resolve_extension clusters x) = ex_ID x"
  "ex_Attachments (resolve_extension clusters x) = ex_Attachments x"
  "ex_Dependencies (resolve_extension clusters x) = map (resolve_dependency clusters) (ex_Dependencies x)"
  by (simp_all add: resolve_extension_def Let_def)

lemma resolve_extension_status:
  "ex_Status (resolve_extension clusters x) = StatusHealthy
     \<longleftrightarrow> (\<forall>d \<in> set (ex_Dependencies (resolve_extension clusters x)). exd_Resolved d)"
  by (simp add: resolve_extension_def Let_def list_all_iff)

lemma resolve_dependency_resolved:
  "exd_Kind (resolve_dependency clusters d) = ''Cluster'' \<Longrightarrow>
     exd_Resolved (resolve_dependency clusters d) \<longleftrightarrow> exd_Name (resolve_dependency clusters d) \<in> clusters"
  by (auto simp: resolve_dependency_def split: if_splits)

section \<open>Properties\<close>

text \<open>
  The search for the clusters and targets an extension names finds exactly the non-empty strings
  that some object at any depth of the configuration holds under the key, each once and in
  byte order: the order in which Go iterates its maps does not show.
\<close>

theorem nestedStringValues_reference:
  "set (nestedStringValues value key) = {t. nested_in key t (as_any value)}
   \<and> sorted (nestedStringValues value key) \<and> distinct (nestedStringValues value key)"
  by (simp add: nestedStringValues_def set_eq_iff visit_nested sorted_slice_stable_less
      distinct_map_slice_stable [of "\<lambda>x. x", simplified])

text \<open>
  C25: the parsed configuration is consistent, whatever the dump: no two listeners and no two
  extensions have the same identity; every extension is attached somewhere, each time to a
  listener of the result and at no place twice; a cluster it depends on counts as resolved
  exactly if the dump has a cluster of this name; and the extension is shown as healthy
  exactly if everything it depends on is resolved.
\<close>

theorem Parse_extensions_consistent:
  assumes "config = Parse marshal fingerprint dump snapshotID observedAt"
  shows "distinct (map el_ID (ec_Listeners config)) \<and> distinct (map ex_ID (ec_Extensions config))
    \<and> (\<forall>x \<in> set (ec_Extensions config).
         ex_Attachments x \<noteq> [] \<and> distinct (map attachment_key (ex_Attachments x))
         \<and> exa_ListenerID ` set (ex_Attachments x) \<subseteq> el_ID ` set (ec_Listeners config)
         \<and> (\<forall>d \<in> set (ex_Dependencies x). exd_Kind d = ''Cluster'' \<longrightarrow>
              exd_Resolved d = (exd_Name d \<in> ecl_Name ` set (ec_Clusters config)))
         \<and> (ex_Status x = StatusHealthy \<longleftrightarrow> (\<forall>d \<in> set (ex_Dependencies x). exd_Resolved d)))"
proof -
  obtain listeners exts index clusters where ok: "listeners_ok (listeners, exts, index)"
    and l: "ec_Listeners config = listeners" and c: "ec_Clusters config = clusters"
    and x: "ec_Extensions config =
      slice_stable extension_before (map (resolve_extension (set (map ecl_Name clusters))) exts)"
    using Parse_result [of marshal fingerprint dump snapshotID observedAt] assms by blast
  from ok have "distinct (map el_ID listeners)" and exts: "extensions_ok (el_ID ` set listeners) (exts, index)"
    by (simp_all add: listeners_ok_def listeners_numbered_distinct)
  moreover have "distinct (map ex_ID (ec_Extensions config))"
    using extensions_ok_distinct [OF exts] by (simp add: x comp_def)
  moreover have "extension_ok (el_ID ` set listeners) y" if "y \<in> set exts" for y
    using exts that by (simp add: extensions_ok_def list_all_iff)
  ultimately show ?thesis
    by (auto simp: l c x extension_ok_def resolve_extension_status resolve_dependency_resolved)
qed

definition sample_dump :: "(string \<times> json) list" where
  "sample_dump = [(''configs'', JArr [JObj [(''static_listeners'', JArr [JObj [(''listener'', JObj
     [(''name'', JStr ''main''), (''filter_chains'', JArr [JObj [(''filters'', JArr [JObj
       [(''name'', JStr ''http_connection_manager''), (''typed_config'', JObj [(''http_filters'', JArr [JObj
         [(''name'', JStr ''ext_proc''), (''typed_config'', JObj [(''cluster_name'', JStr ''epp'')])]])])]])]])])]])]])]"

definition config_shape :: "EnvoyConfig \<Rightarrow> nat \<times> Status list" where
  "config_shape config = (length (ec_Listeners config), map ex_Status (ec_Extensions config))"

lemma sample_dump_shape:
  "config_shape (Parse (\<lambda>_. []) (\<lambda>_. ''0'') (Some sample_dump) ''s'' ''t'') = (1, [StatusWarning])"
  by code_simp

theorem Parse_extensions_consistent_witness:
  "\<exists>config. config = Parse (\<lambda>_. []) (\<lambda>_. ''0'') (Some sample_dump) ''s'' ''t''
     \<and> config_shape config = (1, [StatusWarning])
     \<and> (\<forall>x \<in> set (ec_Extensions config).
          exa_ListenerID ` set (ex_Attachments x) \<subseteq> el_ID ` set (ec_Listeners config)
          \<and> (ex_Status x = StatusHealthy \<longleftrightarrow> (\<forall>d \<in> set (ex_Dependencies x). exd_Resolved d)))"
proof (intro exI conjI)
  let ?config = "Parse (\<lambda>_. []) (\<lambda>_. ''0'') (Some sample_dump) ''s'' ''t''"
  show "?config = ?config" by (rule refl)
  show "config_shape ?config = (1, [StatusWarning])" by (rule sample_dump_shape)
  from Parse_extensions_consistent [OF refl, of "\<lambda>_. []" "\<lambda>_. ''0''" "Some sample_dump" "''s''" "''t''"]
  show "\<forall>x \<in> set (ec_Extensions ?config).
      exa_ListenerID ` set (ex_Attachments x) \<subseteq> el_ID ` set (ec_Listeners ?config)
      \<and> (ex_Status x = StatusHealthy \<longleftrightarrow> (\<forall>d \<in> set (ex_Dependencies x). exd_Resolved d))"
    by blast
qed

end
