(* ===== verification/Kube_Routes.thy ===== *)
theory Kube_Routes
  imports Kube_Source
begin

text \<open>
  What a rebuild tells about the backends of the routes, and what the collected reference grants
  allow.
\<close>

section \<open>Folds that establish and keep a fact\<close>

lemma fold_reaches:
  assumes "x \<in> set xs" "\<And>s. Q s \<Longrightarrow> R (f x s)" "\<And>y s. y \<in> set xs \<Longrightarrow> Q s \<Longrightarrow> Q (f y s)"
    "\<And>y s. y \<in> set xs \<Longrightarrow> R s \<Longrightarrow> R (f y s)" "Q s"
  shows "R (fold f xs s)"
proof -
  from assms(1) obtain ys zs where xs: "xs = ys @ x # zs" by (meson split_list)
  have "Q (fold f ys s)" by (rule fold_invariant [where Q = "\<lambda>y. y \<in> set xs"]) (use assms(3,5) xs in auto)
  then have "R (f x (fold f ys s))" by (rule assms(2))
  then have "R (fold f zs (f x (fold f ys s)))"
    by (rule fold_invariant [where Q = "\<lambda>y. y \<in> set xs", rotated]) (use assms(4) xs in auto)
  then show ?thesis by (simp add: xs)
qed

section \<open>Reports about a reference\<close>

definition leads_to :: "string \<Rightarrow> string \<Rightarrow> snapshot \<Rightarrow> bool" where
  "leads_to routeID i s \<longleftrightarrow> kube_edge routeID i ''routes'' \<in> set (snap_edges s) \<and> i \<in> node_ID ` set (snap_nodes s)"

definition reported :: "Status \<Rightarrow> string \<Rightarrow> snapshot \<Rightarrow> bool" where
  "reported severity target s \<longleftrightarrow>
     (\<exists>f \<in> set (snap_findings s). find_Severity f = severity \<and> find_TargetID f = target)"

text \<open>
  The contract: a reference that resolves leads from the route to a node for its target, any
  other is a finding against the route, and so are one that is not allowed and one to a
  service without a ready endpoint.
\<close>

definition ref_target :: "Backends \<Rightarrow> BackendRef \<Rightarrow> string option" where
  "ref_target be r =
     (if is_pool_ref r then map_option pool_id (be_pools be (ref_key r))
      else if is_service_ref r
      then map_option (\<lambda>svc. (if is_external svc then ''transit/'' else ''service/'') @ ref_key r)
        (map_of (be_services be) (ref_key r))
      else None)"

definition ref_without_endpoint :: "Backends \<Rightarrow> BackendRef \<Rightarrow> bool" where
  "ref_without_endpoint be r \<longleftrightarrow>
     \<not> is_pool_ref r \<and> (\<exists>svc. map_of (be_services be) (ref_key r) = Some svc \<and> \<not> is_external svc)
     \<and> ready_count (be_ready be) (ref_key r) = 0"

definition ref_covered :: "Backends \<Rightarrow> Unstructured \<Rightarrow> BackendRef \<Rightarrow> snapshot \<Rightarrow> bool" where
  "ref_covered be obj r s \<longleftrightarrow>
     (case ref_target be r of
        None \<Rightarrow> reported (if is_pool_ref r \<or> is_service_ref r then StatusError else StatusWarning) (route_id obj) s
      | Some i \<Rightarrow> leads_to (route_id obj) i s
          \<and> (\<not> ref_allowed be obj r \<or> ref_without_endpoint be r \<longrightarrow> reported StatusError (route_id obj) s))"

lemma grown_reported: "grown a b \<Longrightarrow> reported severity target a \<Longrightarrow> reported severity target b"
  by (auto simp: grown_def reported_def)

lemma grown_leads_to: "grown a b \<Longrightarrow> leads_to routeID i a \<Longrightarrow> leads_to routeID i b"
  unfolding grown_def leads_to_def by blast

lemma grown_ref_covered: "grown a b \<Longrightarrow> ref_covered be obj r a \<Longrightarrow> ref_covered be obj r b"
  by (auto simp: ref_covered_def intro: grown_reported grown_leads_to split: option.splits)

section \<open>One reference\<close>

lemma reported_addFinding [simp]:
  "reported severity target (addFinding severity title resource basis target s)"
  by (simp add: reported_def)

lemma leads_to_add_edge [simp]:
  "leads_to routeID i (add_edge (kube_edge routeID i ''routes'') s) \<longleftrightarrow> i \<in> node_ID ` set (snap_nodes s)"
  by (simp add: leads_to_def)

lemma reported_simps [simp]:
  "reported severity target (add_edge e s) = reported severity target s"
  "reported severity target (add_node n s) = reported severity target s"
  by (simp_all add: reported_def)

lemma node_IDs [simp]:
  "node_ID (pool_node clusterID pool selector matched) = pool_id pool"
  "node_ID (transit_node clusterID key svc allowed) = ''transit/'' @ key"
  "node_ID (service_node clusterID key svc ready status statusText summary) = ''service/'' @ key"
  by (simp_all add: pool_node_def transit_node_def service_node_def Let_def split: sum.split)

lemma add_node_ids [simp]: "node_ID ` set (appendUnique ns n) = insert (node_ID n) (node_ID ` set ns)"
  by (rule nodes.add_keys)

lemma endpoints_grown:
  assumes "list_all (own (cluster_of s)) ns"
  shows "grown s (appendServiceEndpoints i ns s)"
  by (rule grown.endpoints) (simp_all add: assms)

lemma pool_covered:
  assumes "be_clusterID be = cluster_of s" "own_endpoints (cluster_of s) (be_endpoints be)"
  shows "leads_to routeID (pool_id pool) (add_pool_backend be obj routeID r pool s)"
    and "\<not> ref_allowed be obj r \<Longrightarrow> reported StatusError routeID (add_pool_backend be obj routeID r pool s)"
proof -
  let ?s0 = "add_node (pool_node (cluster_of s) pool (inferencePoolSelector (be_lib be) pool)
      (pool_pods pool (inferencePoolSelector (be_lib be) pool) (be_pods be))) s"
  have "cluster_of ?s0 = cluster_of s" by simp
  with grown.pool_rest [of ?s0 pool "be_lib be" "be_pods be" s "be_endpoints be" "be_services be"] assms(2)
  have "grown ?s0 (addInferencePool (be_lib be) (cluster_of s) pool (be_services be) (be_endpoints be) (be_pods be) s)" by simp
  then have "pool_id pool \<in> node_ID ` set (snap_nodes
      (addInferencePool (be_lib be) (cluster_of s) pool (be_services be) (be_endpoints be) (be_pods be) s))"
    by (auto simp: grown_def)
  then show "leads_to routeID (pool_id pool) (add_pool_backend be obj routeID r pool s)"
    by (simp add: add_pool_backend_def Let_def assms(1))
qed (simp add: add_pool_backend_def Let_def)

lemma transit_covered:
  "leads_to routeID (''transit/'' @ ref_key r) (add_transit_backend be obj routeID r svc s)"
  "\<not> ref_allowed be obj r \<Longrightarrow> reported StatusError routeID (add_transit_backend be obj routeID r svc s)"
  by (simp_all add: add_transit_backend_def Let_def)

lemma service_covered:
  assumes "own_endpoints (cluster_of s) (be_endpoints be)"
  shows "leads_to routeID (''service/'' @ ref_key r) (add_service_backend be obj routeID r svc s)"
    and "\<not> ref_allowed be obj r \<or> ready_count (be_ready be) (ref_key r) = 0 \<Longrightarrow>
      reported StatusError routeID (add_service_backend be obj routeID r svc s)"
proof -
  let ?ends = "endpoints_at (be_endpoints be) (ref_key r)"
  have ends: "list_all (own (cluster_of s)) ?ends" using assms by (simp add: own_endpoints_def)
  show "leads_to routeID (''service/'' @ ref_key r) (add_service_backend be obj routeID r svc s)"
    unfolding add_service_backend_def Let_def
    by (auto split: prod.split intro!: grown_leads_to [OF endpoints_grown] simp: ends)
  show "reported StatusError routeID (add_service_backend be obj routeID r svc s)"
    if "\<not> ref_allowed be obj r \<or> ready_count (be_ready be) (ref_key r) = 0"
    unfolding add_service_backend_def Let_def
    by (auto split: prod.split intro!: grown_reported [OF endpoints_grown] simp: ends) (use that in auto)
qed

lemma backend_covered:
  assumes "be_clusterID be = cluster_of s" "own_endpoints (cluster_of s) (be_endpoints be)"
  shows "ref_covered be obj (backend_ref obj ref) (add_backend be obj (route_id obj) ref s)"
  using pool_covered [OF assms] transit_covered service_covered [OF assms(2)]
  by (auto simp: ref_covered_def ref_target_def ref_without_endpoint_def add_backend_def Let_def split: option.split)

section \<open>All references\<close>

text \<open>A snapshot of the cluster that covers a reference.\<close>

definition covers :: "Backends \<Rightarrow> Unstructured \<Rightarrow> BackendRef \<Rightarrow> snapshot \<Rightarrow> bool" where
  "covers be obj r s \<longleftrightarrow> cluster_of s = be_clusterID be \<and> ref_covered be obj r s"

lemma grown_cluster: "grown a b \<Longrightarrow> cluster_of b = cluster_of a"
  by (simp add: grown_def)

lemma grown_covers: "grown a b \<Longrightarrow> covers be obj r a \<Longrightarrow> covers be obj r b"
  unfolding covers_def by (metis grown_cluster grown_ref_covered)

definition own_backends :: "Backends \<Rightarrow> bool" where
  "own_backends be \<longleftrightarrow> own_endpoints (be_clusterID be) (be_endpoints be)"

lemma own_backends_of [simp]: "own_backends (backends_of lib s st)" "be_clusterID (backends_of lib s st) = ks_clusterID s"
  using endpointReadiness_own [of "ks_clusterID s" "in_endpoints st"]
  by (auto simp: backends_of_def own_backends_def split: prod.splits)

lemma grown_steps:
  assumes "own_backends be" "cluster_of s = be_clusterID be"
  shows "grown s (add_backend be obj routeID ref s)" "grown s (addBackends be obj routeID rule s)"
    "grown s (add_route be gateways obj s)" "grown s (add_ingresses be st s)" "grown s (add_parent gateways obj parent s)"
    "grown s (push_node (route_node lib (be_clusterID be) obj) s)"
proof -
  from assms have be: "be_clusterID be = cluster_of s" "own_endpoints (cluster_of s) (be_endpoints be)"
    by (simp_all add: own_backends_def)
  show "grown s (add_backend be obj routeID ref s)" by (rule grown.backend [OF grown_refl be])
  show "grown s (addBackends be obj routeID rule s)" by (rule grown.backends [OF grown_refl be])
  show "grown s (add_route be gateways obj s)" by (rule grown.route [OF grown_refl be])
  show "grown s (add_ingresses be st s)" by (rule grown.ingresses [OF grown_refl be])
  show "grown s (add_parent gateways obj parent s)" by (rule grown.parent) simp
  show "grown s (push_node (route_node lib (be_clusterID be) obj) s)" unfolding assms(2) [symmetric] by (rule grown.push) simp_all
qed

text \<open>A step of a fold that keeps what is covered and covers something else.\<close>

lemma fold_covers:
  assumes "x \<in> set xs" "cluster_of s = be_clusterID be"
    and grows: "\<And>y t. cluster_of t = be_clusterID be \<Longrightarrow> grown t (f y t)"
    and "\<And>t. cluster_of t = be_clusterID be \<Longrightarrow> ref_covered be obj r (f x t)"
  shows "covers be obj r (fold f xs s)"
proof (rule fold_reaches [OF assms(1), where Q = "\<lambda>s. cluster_of s = be_clusterID be"])
  show "covers be obj r (f x t)" if "cluster_of t = be_clusterID be" for t
    using grown_cluster [OF grows [OF that]] that assms(4) by (simp add: covers_def)
  show "cluster_of (f y t) = be_clusterID be" if "cluster_of t = be_clusterID be" for y t
    using grown_cluster [OF grows [OF that]] that by simp
  show "covers be obj r (f y t)" if "covers be obj r t" for y t
    using grown_covers [OF grows that] that by (simp add: covers_def)
qed (fact assms(2))

lemma addBackends_covers:
  assumes "own_backends be" "cluster_of s = be_clusterID be"
    "ref \<in> set (map as_map (rule_refs (umap_get rule ''backendRefs'')))"
  shows "covers be obj (backend_ref obj ref) (addBackends be obj (route_id obj) rule s)"
  unfolding addBackends_def
  by (rule fold_covers [OF assms(3,2) grown_steps(1) [OF assms(1)]])
    (use assms(1) backend_covered in \<open>auto simp: own_backends_def\<close>)

lemma route_covers:
  assumes "own_backends be" "cluster_of s = be_clusterID be"
    and "rule \<in> set (map as_map (lib_NestedSlice (be_lib be) (un_Object obj) [''spec'', ''rules'']))"
    and "ref \<in> set (map as_map (rule_refs (umap_get rule ''backendRefs'')))"
  shows "ref_covered be obj (backend_ref obj ref) (add_route be gateways obj s)"
proof -
  let ?pushed = "push_node (route_node (be_lib be) (be_clusterID be) obj) s"
  have "cluster_of (fold (add_parent gateways obj) parents ?pushed) = be_clusterID be" for parents
    by (rule fold_invariant [where Q = "\<lambda>_. True"])
      (use assms(2) grown_cluster [OF grown_steps(5) [OF assms(1)]] in auto)
  then have "covers be obj (backend_ref obj ref) (add_route be gateways obj s)"
    unfolding add_route_def
    by (intro fold_covers [OF assms(3) _ grown_steps(2) [OF assms(1)]])
      (use addBackends_covers [OF assms(1) _ assms(4)] in \<open>auto simp: covers_def\<close>)
  then show ?thesis by (simp add: covers_def)
qed

lemma ref_covered_finish [simp]: "ref_covered be obj r (finish_snapshot s now snap) = ref_covered be obj r snap"
  by (cases "ref_target be r") (simp_all add: ref_covered_def reported_def leads_to_def)

lemma routes_cover:
  assumes "KUnstructured obj \<in> set (in_routes st)"
    and "rule \<in> set (map as_map (lib_NestedSlice lib (un_Object obj) [''spec'', ''rules'']))"
    and "ref \<in> set (map as_map (rule_refs (umap_get rule ''backendRefs'')))"
  shows "ref_covered (backends_of lib s st) obj (backend_ref obj ref) (rebuilt_snapshot lib s st now)"
proof -
  let ?be = "backends_of lib s st"
  let ?s0 = "add_runtimes ?be st (add_gateways lib s st (start_snapshot s st now))"
  have lib: "be_lib ?be = lib" by (simp add: backends_of_def split: prod.split)
  have obj: "obj \<in> set (List.map_filter as_unstructured (in_routes st))"
    using assms(1) by (force simp: List.map_filter_def)
  have "cluster_of ?s0 = ks_clusterID s"
    by (simp add: phase_cluster)
  then have "covers ?be obj (backend_ref obj ref) (add_routes ?be st ?s0)"
    unfolding add_routes_def
    by (intro fold_covers [OF obj _ grown_steps(3)] route_covers [OF _ _ _ assms(3)]) (use assms(2) lib in simp_all)
  then have "covers ?be obj (backend_ref obj ref) (add_ingresses ?be st (add_routes ?be st ?s0))"
    by (metis covers_def grown_covers grown_steps(4) own_backends_of(1))
  then show ?thesis
    by (simp add: rebuilt_snapshot_def Let_def covers_def)
qed

text \<open>
  C15: no backend of a route goes unreported. For every \<open>backendRef\<close> of every rule of every HTTPRoute,
  the rebuilt topology leads from the route to a node of the target, if the reference resolves
  to an InferencePool or a Service; otherwise there is a finding against the route (a warning if
  the kind of the reference is not supported). There is also an error against the route if the reference
  crosses namespaces without a grant or names a Service without a ready endpoint.
\<close>

theorem route_backends_reported:
  assumes "KUnstructured obj \<in> set (in_routes st)"
    and "rule \<in> set (map as_map (lib_NestedSlice lib (un_Object obj) [''spec'', ''rules'']))"
    and "ref \<in> set (map as_map (rule_refs (umap_get rule ''backendRefs'')))"
  shows "ref_covered (backends_of lib s st) obj (backend_ref obj ref) (rebuilt_snapshot lib s st now)"
  by (rule routes_cover [OF assms])

definition sample_given :: KubeStores where
  "sample_given = (case given_stores sample_stores of Some st \<Rightarrow> st | None \<Rightarrow> undefined)"

lemma sample_given_routes: "in_routes sample_given = [KUnstructured sample_route]"
  by (simp add: sample_given_def given_stores_def sample_stores_def)

lemma route_backends_reported_witness:
  "list_all (\<lambda>name. ref_covered (backends_of sample_lib sample_kube sample_given) sample_route
       (backend_ref sample_route (as_map (sample_ref (fst name) (snd name))))
       (rebuilt_snapshot sample_lib sample_kube sample_given ''t''))
     [(''n'', ''a''), (''m'', ''b''), (''n'', ''z'')]"
proof -
  let ?rule = "[(''backendRefs'', UList [sample_ref ''n'' ''a'', sample_ref ''m'' ''b'', sample_ref ''n'' ''z''])]"
  have rule: "?rule \<in> set (map as_map (lib_NestedSlice sample_lib (un_Object sample_route) [''spec'', ''rules'']))"
    by (simp add: sample_lib_def sample_route_def sample_object_def umap_get_def)
  have "ref_covered (backends_of sample_lib sample_kube sample_given) sample_route
       (backend_ref sample_route (as_map (sample_ref (fst name) (snd name))))
       (rebuilt_snapshot sample_lib sample_kube sample_given ''t'')"
    if "name \<in> {(''n'', ''a''), (''m'', ''b''), (''n'', ''z'')}" for name
    by (rule route_backends_reported [OF _ rule]) (use that in \<open>auto simp: sample_given_routes umap_get_def\<close>)
  then show ?thesis by (simp del: fst_conv snd_conv)
qed

end
