(* ===== verification/Kube_Grants.thy ===== *)
theory Kube_Grants
  imports Kube_Source
begin

text \<open>
  The keys under which reference grants are filed stand for what the grants say, as long as
  names have no slash and no greater-than sign, which Kubernetes guarantees for namespaces, groups and kinds.
\<close>

section \<open>Keys\<close>

definition plain :: "string \<Rightarrow> bool" where
  "plain s \<longleftrightarrow> CHR ''/'' \<notin> set s \<and> CHR ''>'' \<notin> set s"

lemma split_first:
  assumes "c \<notin> set a" "c \<notin> set b"
  shows "a @ c # x = b @ c # y \<longleftrightarrow> a = b \<and> x = y"
  using assms
proof (induction a arbitrary: b)
  case Nil
  then show ?case by (cases b) auto
next
  case (Cons d a)
  then show ?case by (cases b) auto
qed

lemma grantKey_eq:
  assumes "plain f" "plain f'" "plain t" "plain t'" "plain g" "plain g'" "plain k" "plain k'"
  shows "grantKey f t g k n = grantKey f' t' g' k' n' \<longleftrightarrow> f = f' \<and> t = t' \<and> g = g' \<and> k = k' \<and> n = n'"
proof -
  have key: "grantKey f t g k n = (f @ ''-'') @ CHR ''>'' # (t @ CHR ''/'' # (g @ CHR ''/'' # (k @ CHR ''/'' # n)))" for f t g k n
    by (simp add: grantKey_def)
  have "grantKey f t g k n = grantKey f' t' g' k' n' \<longleftrightarrow> f @ ''-'' = f' @ ''-''
      \<and> t @ CHR ''/'' # (g @ CHR ''/'' # (k @ CHR ''/'' # n)) = t' @ CHR ''/'' # (g' @ CHR ''/'' # (k' @ CHR ''/'' # n'))"
    unfolding key by (rule split_first) (use assms(1,2) in \<open>auto simp: plain_def\<close>)
  then show ?thesis using assms(3-) by (simp add: split_first plain_def)
qed

section \<open>What a grant says\<close>

definition grant_from :: "KubeLib \<Rightarrow> Unstructured \<Rightarrow> umap set" where
  "grant_from lib obj = {f \<in> set (map as_map (lib_NestedSlice lib (un_Object obj) [''spec'', ''from''])). grants_routes f}"

definition grant_to :: "KubeLib \<Rightarrow> Unstructured \<Rightarrow> umap set" where
  "grant_to lib obj = set (map as_map (lib_NestedSlice lib (un_Object obj) [''spec'', ''to'']))"

definition grant_allows :: "KubeLib \<Rightarrow> Unstructured \<Rightarrow> string \<Rightarrow> string \<Rightarrow> string \<Rightarrow> string \<Rightarrow> string \<Rightarrow> bool" where
  "grant_allows lib obj fromNamespace toNamespace grp kind name \<longleftrightarrow>
     un_Namespace obj = toNamespace
     \<and> (\<exists>f \<in> grant_from lib obj. kube_stringValue f ''namespace'' [] = fromNamespace)
     \<and> (\<exists>t \<in> grant_to lib obj. kube_stringValue t ''group'' [] = grp \<and> kube_stringValue t ''kind'' [] = kind
          \<and> kube_stringValue t ''name'' ''*'' \<in> {name, ''*''})"

definition plain_grant :: "KubeLib \<Rightarrow> Unstructured \<Rightarrow> bool" where
  "plain_grant lib obj \<longleftrightarrow>
     plain (un_Namespace obj) \<and> (\<forall>f \<in> grant_from lib obj. plain (kube_stringValue f ''namespace'' []))
     \<and> (\<forall>t \<in> grant_to lib obj. plain (kube_stringValue t ''group'' []) \<and> plain (kube_stringValue t ''kind'' []))"

lemma grant_keys_set:
  "set (grant_keys lib obj) = {granted_key (un_Namespace obj) f t | f t. f \<in> grant_from lib obj \<and> t \<in> grant_to lib obj}"
  by (auto simp: grant_keys_def grant_from_def grant_to_def)

lemma grant_keys_member:
  assumes "plain_grant lib obj" "plain f" "plain t" "plain g" "plain k"
  shows "grantKey f t g k n \<in> set (grant_keys lib obj) \<longleftrightarrow>
    un_Namespace obj = t \<and> (\<exists>x \<in> grant_from lib obj. kube_stringValue x ''namespace'' [] = f)
    \<and> (\<exists>y \<in> grant_to lib obj. kube_stringValue y ''group'' [] = g \<and> kube_stringValue y ''kind'' [] = k
         \<and> kube_stringValue y ''name'' ''*'' = n)"
proof -
  have eq: "grantKey f t g k n = granted_key (un_Namespace obj) x y \<longleftrightarrow>
      f = kube_stringValue x ''namespace'' [] \<and> t = un_Namespace obj \<and> g = kube_stringValue y ''group'' []
      \<and> k = kube_stringValue y ''kind'' [] \<and> n = kube_stringValue y ''name'' ''*''"
    if "x \<in> grant_from lib obj" "y \<in> grant_to lib obj" for x y
    unfolding granted_key_def by (rule grantKey_eq) (use assms that in \<open>auto simp: plain_grant_def\<close>)
  have "grantKey f t g k n \<in> set (grant_keys lib obj) \<longleftrightarrow>
      (\<exists>x \<in> grant_from lib obj. \<exists>y \<in> grant_to lib obj. grantKey f t g k n = granted_key (un_Namespace obj) x y)"
    by (auto simp: grant_keys_set)
  also have "\<dots> \<longleftrightarrow> (\<exists>x \<in> grant_from lib obj. \<exists>y \<in> grant_to lib obj. f = kube_stringValue x ''namespace'' []
      \<and> t = un_Namespace obj \<and> g = kube_stringValue y ''group'' [] \<and> k = kube_stringValue y ''kind'' []
      \<and> n = kube_stringValue y ''name'' ''*'')"
    using eq by (intro bex_cong refl) simp
  finally show ?thesis by blast
qed

lemma grant_allows_keys:
  assumes "plain_grant lib obj" "plain f" "plain t" "plain g" "plain k"
  shows "grant_allows lib obj f t g k n \<longleftrightarrow>
    grantKey f t g k n \<in> set (grant_keys lib obj) \<or> grantKey f t g k ''*'' \<in> set (grant_keys lib obj)"
  unfolding grant_keys_member [OF assms] grant_allows_def by auto

lemma as_unstructured_items: "set (List.map_filter as_unstructured items) = {obj. KUnstructured obj \<in> set items}"
proof -
  have "as_unstructured i = Some obj \<longleftrightarrow> i = KUnstructured obj" for i obj by (cases i) auto
  then show ?thesis by (force simp: List.map_filter_def)
qed

text \<open>
  C21: cross-namespace authorization is what the ReferenceGrants say: a route of a namespace may
  name a backend of another one iff some grant object in the backend's namespace lists HTTPRoutes
  of the route's namespace in \<open>from\<close>, and in \<open>to\<close> the group and kind of the backend with its name,
  with any name, or with \<open>*\<close>.
\<close>

theorem grantsAllow_iff_granted:
  assumes "\<And>obj. KUnstructured obj \<in> set items \<Longrightarrow> plain_grant lib obj"
    and "plain fromNamespace" "plain toNamespace" "plain grp" "plain kind"
  shows "grantsAllow (collectGrants lib items) fromNamespace toNamespace grp kind name \<longleftrightarrow>
    (\<exists>obj. KUnstructured obj \<in> set items \<and> grant_allows lib obj fromNamespace toNamespace grp kind name)"
proof -
  have "grantKey fromNamespace toNamespace grp kind n \<in> set (collectGrants lib items) \<longleftrightarrow>
      (\<exists>obj. KUnstructured obj \<in> set items
        \<and> grantKey fromNamespace toNamespace grp kind n \<in> set (grant_keys lib obj))" for n
    by (auto simp: collectGrants_def as_unstructured_items)
  then show ?thesis
    unfolding grantsAllow_def List.member_iff using grant_allows_keys [OF assms(1) assms(2-5)] by blast
qed

definition sample_grant :: Unstructured where
  "sample_grant = sample_object ''m'' ''x''
     [(''from'', UList [UMap [(''kind'', UString ''HTTPRoute''), (''namespace'', UString ''n'')]]),
      (''to'', UList [UMap [(''kind'', UString ''Service''), (''name'', UString ''b'')]])]"

lemma sample_grant_parts:
  "grant_from sample_lib sample_grant = {[(''kind'', UString ''HTTPRoute''), (''namespace'', UString ''n'')]}"
  "grant_to sample_lib sample_grant = {[(''kind'', UString ''Service''), (''name'', UString ''b'')]}"
  by (auto simp: grant_from_def grant_to_def grants_routes_def kube_stringValue_def sample_lib_def sample_grant_def
      sample_object_def umap_get_def)

lemma grantsAllow_iff_granted_witness:
  "grantsAllow (collectGrants sample_lib [KUnstructured sample_grant]) ''n'' ''m'' [] ''Service'' ''b''
   \<and> \<not> grantsAllow (collectGrants sample_lib [KUnstructured sample_grant]) ''n'' ''m'' [] ''Service'' ''c''"
proof -
  have "plain_grant sample_lib obj" if "KUnstructured obj \<in> set [KUnstructured sample_grant]" for obj
    using that by (simp add: plain_grant_def sample_grant_parts kube_stringValue_def plain_def)
      (simp add: sample_grant_def sample_object_def)
  moreover have "plain ''n''" "plain ''m''" "plain []" "plain ''Service''" by (simp_all add: plain_def)
  ultimately show ?thesis
    by (simp only: grantsAllow_iff_granted)
      (simp add: grant_allows_def sample_grant_parts kube_stringValue_def, simp add: sample_grant_def sample_object_def)
qed

end
