(* ===== verification/Kube_Identities.thy ===== *)
theory Kube_Identities
  imports Kube_Source
begin

text \<open>
  The identities of the nodes of a rebuilt snapshot are distinct: Gateways, listeners and routes are
  appended as they come, everything else only when it is new.
\<close>

definition listeners_of :: "KubeLib \<Rightarrow> Unstructured \<Rightarrow> umap list" where
  "listeners_of lib gateway = map as_map (lib_NestedSlice lib (un_Object gateway) [''spec'', ''listeners''])"

definition gateway_ids :: "KubeLib \<Rightarrow> Unstructured \<Rightarrow> string list" where
  "gateway_ids lib gateway =
     gateway_id gateway
     # map (\<lambda>l. listener_id gateway (kube_stringValue l ''name'' ''listener'')) (listeners_of lib gateway)"

section \<open>Gateways\<close>

lemma add_listeners_ids:
  "map node_ID (snap_nodes (fold (add_listener c g) ls s)) =
     map node_ID (snap_nodes s) @ map (\<lambda>l. listener_id g (kube_stringValue l ''name'' ''listener'')) ls"
  by (induction ls arbitrary: s) (simp_all add: add_listener_def listener_node_def Let_def)

lemma addGatewayRuntime_ids:
  "map node_ID (snap_nodes (addGatewayRuntime lib g classes d p s)) = map node_ID (snap_nodes s)"
  by (simp add: addGatewayRuntime_def update_node_ids split: option.split)

lemma add_gateway_ids:
  "map node_ID (snap_nodes (add_gateway lib c st classes g s)) = map node_ID (snap_nodes s) @ gateway_ids lib g"
  by (simp add: add_gateway_def Let_def add_listeners_ids addGatewayRuntime_ids gateway_node_def kube_node_def gateway_ids_def
      listeners_of_def split: option.split)

lemma add_gateways_ids:
  "map node_ID (snap_nodes (add_gateways lib s st snap)) =
     map node_ID (snap_nodes snap) @ concat (map (gateway_ids lib) (List.map_filter as_unstructured (in_gateways st)))"
proof -
  have "map node_ID (snap_nodes (fold (add_gateway lib c st classes) gs snap)) =
      map node_ID (snap_nodes snap) @ concat (map (gateway_ids lib) gs)" for c classes gs
    by (induction gs arbitrary: snap) (simp_all add: add_gateway_ids)
  then show ?thesis by (simp add: add_gateways_def)
qed

lemma gateway_ids_no_route: "i \<in> set (gateway_ids lib g) \<Longrightarrow> \<not> route_key i"
  by (auto simp: gateway_ids_def gateway_id_def listener_id_def route_key_def HasPrefix_def)

section \<open>Runtimes\<close>

lemma add_standalone_distinct:
  "distinct_nodes c routes s \<Longrightarrow> distinct_nodes c routes (add_standalone lib claimed pods deployment s)"
proof -
  have "distinct_nodes c routes (set_runtime r s)" if "distinct_nodes c routes s" for r
    using that by (simp add: distinct_nodes_def)
  then show "distinct_nodes c routes s \<Longrightarrow> distinct_nodes c routes (add_standalone lib claimed pods deployment s)"
    by (auto simp: add_standalone_def Let_def distinct_nodes.cluster intro!: distinct_nodes.node split: sum.split prod.split)
qed

lemma same_ids_distinct:
  assumes "distinct_nodes c routes s" "cluster_of t = cluster_of s" "map node_ID (snap_nodes t) = map node_ID (snap_nodes s)"
  shows "distinct_nodes c routes t"
  using assms unfolding distinct_nodes_def by (metis image_set)

lemma add_port_ids:
  "snap_nodes (add_port r svc addresses port s) = snap_nodes s" "cluster_of (add_port r svc addresses port s) = cluster_of s"
  by (simp_all add: add_port_def split: option.split)

lemma add_ports_distinct:
  "distinct_nodes c routes s \<Longrightarrow> distinct_nodes c routes (fold (add_port r svc addresses) ports s)"
  by (rule fold_invariant [where Q = "\<lambda>_. True" and P = "distinct_nodes c routes"])
    (auto simp: distinct_nodes_def add_port_ids)

lemma add_entry_service_distinct:
  assumes "distinct_nodes c routes s"
  shows "distinct_nodes c routes (add_entry_service lib ends r ks s)"
proof -
  have "distinct_nodes c routes (addGatewayServiceMetadata i svc addresses s)" for i svc addresses
    by (rule same_ids_distinct [OF assms]) (simp_all add: addGatewayServiceMetadata_def update_node_ids)
  then show ?thesis using assms by (auto simp: add_entry_service_def Let_def intro!: add_ports_distinct)
qed

lemma add_runtimes_distinct:
  assumes "distinct_nodes c routes s"
  shows "distinct_nodes c routes (add_runtimes be st s)"
proof -
  let ?P = "distinct_nodes c routes"
  have "?P (addStandaloneGatewayRuntimes lib d p s)" for lib d p
    unfolding addStandaloneGatewayRuntimes_def
    by (rule fold_invariant [where Q = "\<lambda>_. True" and P = ?P]) (use assms add_standalone_distinct in auto)
  moreover have entries: "?P (add_entries lib services ends r t)" if "?P t" for lib services ends r t
    unfolding add_entries_def
    by (rule fold_invariant [where Q = "\<lambda>_. True" and P = ?P]) (use that add_entry_service_distinct in auto)
  have "?P (discoverGatewayProbeEntries lib services ends t)" if "?P t" for lib services ends t
  proof -
    have "?P (fold (add_entries lib services ends) (map snd (snap_runtimes t)) t)"
      by (rule fold_invariant [where Q = "\<lambda>_. True" and P = ?P]) (use that entries in auto)
    then show ?thesis by (simp add: discoverGatewayProbeEntries_def distinct_nodes_def)
  qed
  ultimately show ?thesis using assms by (simp add: add_runtimes_def split: option.split)
qed

section \<open>Routes\<close>

lemma add_route_distinct:
  assumes "distinct_nodes c routes s" "route_id obj \<notin> routes" "be_clusterID be = c" "own_endpoints c (be_endpoints be)"
  shows "distinct_nodes c (insert (route_id obj) routes) (add_route be gateways obj s)"
proof -
  let ?P = "distinct_nodes c (insert (route_id obj) routes)"
  have "route_key (route_id obj)" by (simp add: route_key_def HasPrefix_def route_id_def)
  with assms(1,2) have "route_id obj \<notin> node_ID ` set (snap_nodes s)" by (auto simp: distinct_nodes_def)
  with assms(1) have "?P (push_node (route_node (be_lib be) c obj) s)"
    by (auto simp: distinct_nodes_def route_node_def kube_node_def)
  moreover have parent: "?P (add_parent gateways obj parent t)" if "?P t" for parent t
    using that by (auto simp: add_parent_def Let_def intro!: distinct_nodes.extend split: option.split)
  ultimately have "?P (fold (add_parent gateways obj) parents (push_node (route_node (be_lib be) c obj) s))" for parents
    by (intro fold_invariant [where Q = "\<lambda>_. True" and P = ?P]) simp_all
  then show ?thesis
    unfolding add_route_def assms(3)
    by (rule fold_invariant [where Q = "\<lambda>_. True" and P = ?P, rotated])
      (auto intro: distinct_nodes.backends simp: assms(3,4))
qed

lemma add_routes_distinct:
  assumes "distinct_nodes c routes s" "distinct (map route_id objs)" "set (map route_id objs) \<inter> routes = {}"
    "be_clusterID be = c" "own_endpoints c (be_endpoints be)"
  shows "\<exists>routes'. distinct_nodes c routes' (fold (add_route be gateways) objs s)"
  using assms
proof (induction objs arbitrary: s routes)
  case (Cons obj objs)
  have "distinct_nodes c (insert (route_id obj) routes) (add_route be gateways obj s)"
    by (rule add_route_distinct) (use Cons.prems in auto)
  from Cons.IH [OF this] Cons.prems show ?case by auto
qed auto

section \<open>The whole snapshot\<close>

lemma rebuilt_distinct:
  assumes "distinct (concat (map (gateway_ids lib) (List.map_filter as_unstructured (in_gateways st))))"
    and "distinct (map route_id (List.map_filter as_unstructured (in_routes st)))"
  shows "distinct (map node_ID (snap_nodes (rebuilt_snapshot lib s st now)))"
proof -
  let ?be = "backends_of lib s st" and ?c = "ks_clusterID s"
  let ?s0 = "add_gateways lib s st (start_snapshot s st now)"
  have be: "be_clusterID ?be = ?c" "own_endpoints ?c (be_endpoints ?be)"
    using endpointReadiness_own [of ?c "in_endpoints st"] by (simp_all add: backends_of_def split_beta)
  have ids: "map node_ID (snap_nodes ?s0) =
      concat (map (gateway_ids lib) (List.map_filter as_unstructured (in_gateways st)))"
    by (simp add: add_gateways_ids)
  then have "node_ID ` set (snap_nodes ?s0) =
      set (concat (map (gateway_ids lib) (List.map_filter as_unstructured (in_gateways st))))"
    by (metis image_set)
  then have "distinct_nodes ?c {} ?s0"
    using assms(1) ids gateway_ids_no_route by (auto simp: distinct_nodes_def phase_cluster)
  then have "distinct_nodes ?c {} (add_runtimes ?be st ?s0)" by (rule add_runtimes_distinct)
  then obtain routes where "distinct_nodes ?c routes (add_routes ?be st (add_runtimes ?be st ?s0))"
    using add_routes_distinct [OF _ assms(2) _ be] unfolding add_routes_def by blast
  then have "distinct_nodes ?c routes (add_ingresses ?be st (add_routes ?be st (add_runtimes ?be st ?s0)))"
    by (rule distinct_nodes.ingresses [OF _ be])
  then show ?thesis by (simp add: rebuilt_snapshot_def Let_def distinct_nodes_def)
qed

text \<open>
  C20: node identities are unique. If Gateways, their listeners and the routes have distinct
  identities, which Kubernetes guarantees by namespace and name, then no two nodes of a rebuilt
  topology have the same identity, whatever the backends, endpoints, runtimes, registries and
  Ingresses that are added on the way.
\<close>

theorem node_identities_unique:
  assumes "distinct (concat (map (gateway_ids lib) (List.map_filter as_unstructured (in_gateways st))))"
    and "distinct (map route_id (List.map_filter as_unstructured (in_routes st)))"
  shows "distinct (map node_ID (snap_nodes (rebuilt_snapshot lib s st now)))"
  by (rule rebuilt_distinct [OF assms])

lemma node_identities_unique_witness:
  "distinct (map node_ID (snap_nodes (rebuilt_snapshot sample_lib sample_kube (the (given_stores sample_stores)) ''t'')))"
proof (rule node_identities_unique)
  show "distinct (map route_id (List.map_filter as_unstructured (in_routes (the (given_stores sample_stores)))))"
    by (simp add: given_stores_def sample_stores_def List.map_filter_def)
  show "distinct (concat (map (gateway_ids sample_lib)
      (List.map_filter as_unstructured (in_gateways (the (given_stores sample_stores))))))"
    by (simp add: given_stores_def sample_stores_def List.map_filter_def gateway_ids_def listeners_of_def sample_lib_def
        sample_kube_gateway_def sample_object_def umap_get_def listener_id_def gateway_id_def)
qed

end
