(* ===== verification/Spec2Isabelle.thy ===== *)
theory Spec2Isabelle
  imports Agent_Exchange Agent_Loop App Cluster_Probe Probe_Endpoint Probe_Lifecycle Broker_Protocol Enrich_Probe
    Gateway_Discovery Access_Log Envoy_Extensions Log_Properties Kube_Properties Kube_Routes Kube_Grants Kube_Identities
begin

text \<open>
  \<^bold>\<open>The program.\<close> GateLens shows how requests travel through the API gateways of several Kubernetes
  clusters. It is one Go program with four modes (\<open>internal/app\<close>). In mode agent it runs inside a cluster:
  informers feed a store (\<open>internal/kube\<close>) that rebuilds the cluster's topology from the Gateway API, Higress
  and inference objects, and a runner (\<open>internal/agent\<close>) uploads snapshots of it to the server and executes
  the server's commands. In mode server the federation store (\<open>internal/federation\<close>) keeps the latest
  snapshot of every cluster, joins them into one topology with links between the clusters, queues commands
  for the agents, and creates probes. A probe is an HTTP request that the agent of the source cluster sends
  through a gateway; the access logs of all gateways (\<open>internal/observed\<close>) and the rules of the federation
  then tell which path it took. Mode kubernetes serves one cluster's store without a federation, mode demo
  serves built-in data (\<open>internal/demo\<close>). All modes but agent answer HTTP requests (\<open>internal/api\<close>) through the
  interfaces of \<open>internal/source\<close>. \<open>internal/envoy\<close> parses the configuration dumps of the gateways' proxies.

  \<^bold>\<open>Conventions.\<close> A struct is a record with the source's field names behind a short prefix, an interface a record
  of its methods over the state of the implementation. A Go string is a list of bytes (\<open>string\<close>); case
  mapping is that of ASCII. A pointer is an option; nil and empty slices coincide. A map the code only looks up
  is a function to options; a map it iterates is an association list with distinct keys in the order
  of the iteration, which Go leaves open, so that the theorems hold for every order. \<open>sort.Slice\<close> is taken as
  a stable sort with the code's comparison. Errors are datatypes of their own where the code's callers
  tell them apart, and texts in a sum type otherwise; a panic is \<open>None\<close>. \<open>int\<close> fields are unbounded, because
  nothing the code computes with them comes near the bounds; where a bound counts (the conversion of log
  numbers to \<open>int64\<close>, \<open>ParseInt\<close>, \<open>Duration\<close>) it is written out.
  What a call meets in the world is an argument: the clock, random bytes, the fate of a wait, what other
  goroutines do to the store meanwhile, the HTTP client, files and log streams. Code outside the
  repository is a parameter as well: SHA-256, the JSON text of a value (\<open>Codec\<close>, \<open>marshal\<close>), the selector
  and quantity functions of apimachinery (\<open>KubeLib\<close>), the informers, the port-forward. \<open>encoding/json\<close>'s
  decoder, \<open>net/url\<close>, \<open>strings\<close>, \<open>strconv\<close> and RFC 3339 times are modelled as far as the code uses them; of \<open>fmt\<close>
  the verbs without flags, width and precision.

  \<^bold>\<open>Steps.\<close> An operation under a lock is one step, and so is a channel operation with the checks around it:
  the scan of a queue in \<open>NextAgentCommand\<close> (it selects the next command before it looks at the context),
  the check and the send in \<open>CompleteAgentCommand\<close>. \<open>Broker_Protocol\<close> interleaves these steps. Where an operation leaves the
  lock in the middle, an argument is what the other goroutines make of the store then: while a call
  waits for an agent (\<open>environment\<close>), while \<open>EnvoyConfig\<close> asks the pods (\<open>meanwhile\<close>), before each upload of a result
  (\<open>others\<close> in \<open>Agent_Exchange\<close>). \<open>Kube_Run\<close> interleaves the informers' goroutines: what a rebuild lists is one step, the
  assignment of its snapshot another. The observations of a probe run concurrently in the code
  and one after the other in \<open>Probe_Creation\<close>. An operation reads the clock at most once where the code may
  read it several times within one response. \<open>discoverGatewayProbeEntries\<close> takes one order of the runtimes and
  services, where Go's maps have a random one; no property depends on it.

  \<^bold>\<open>The theories.\<close>
  \<^item> Foundations: \<open>GateLens_Prelude\<close> (the locale \<open>keyed_append\<close>, stable sorting, list lemmas), \<open>Go_Strings\<close>,
    \<open>Go_Time\<close>, \<open>Go_Url\<close>, \<open>Go_Query\<close>, \<open>Go_Json\<close>; \<open>Domain_Types\<close> and \<open>Probe_Protocol\<close> for \<open>internal/domain\<close>; \<open>Wording\<close>,
    \<open>Kube_Wording\<close> and \<open>Kube_Topology_Wording\<close> for the Chinese texts.
  \<^item> \<open>internal/observed\<close>: \<open>Access_Log_Entry\<close> and \<open>Access_Log\<close> (\<open>higress_log.go\<close>), \<open>Attempt_Groups\<close> and
    \<open>Enrich_Probe\<close> (\<open>probe_attempts.go\<close>).
  \<^item> \<open>internal/federation\<close>: \<open>Federation_Ids\<close>, \<open>Federation_Store\<close>, \<open>Link_Rules\<close>, \<open>Gateway_Discovery\<close>,
    \<open>Association_Rules\<close>, \<open>Command_Broker\<close>, \<open>Probe_Creation\<close>. \<open>Broker_Protocol\<close> makes the broker's critical
    sections the steps of a transition system, for all interleavings; \<open>Probe_Path\<close> and \<open>Probe_Lifecycle\<close> hold
    what a probe's path and its end guarantee.
  \<^item> \<open>internal/source\<close>, \<open>internal/api\<close>, \<open>internal/agent\<close>, \<open>internal/app\<close>: \<open>Source_Interfaces\<close>, \<open>Api_Handler\<close>,
    \<open>Agent_Runner\<close>, \<open>Agent_Loop\<close>, \<open>App\<close>. \<open>Agent_Exchange\<close> runs agent and server against each other over a
    network that loses messages, \<open>Probe_Endpoint\<close> the probes' endpoints over either store.
  \<^item> \<open>internal/envoy\<close>: \<open>Envoy_Json\<close>, \<open>Envoy_Dump\<close>, with the invariant of the extensions in \<open>Envoy_Extensions\<close>.
  \<^item> \<open>internal/kube\<close>, probes and logs: \<open>Log_Collector\<close>, \<open>Probe_Window\<close>, \<open>Kube_Probe\<close>; their invariants in \<open>Log_Invariant\<close>,
    \<open>Log_Growth\<close>, \<open>Log_Rereading\<close> and \<open>Log_Properties\<close>.
  \<^item> \<open>internal/kube\<close>, topology: \<open>Kube_Objects\<close>, \<open>Kube_Snapshot\<close>, \<open>Kube_Endpoints\<close>, \<open>Kube_Inference\<close>, \<open>Kube_Higress\<close>,
    \<open>Kube_Backends\<close>, \<open>Kube_Runtime\<close>, \<open>Kube_Entries\<close>, \<open>Kube_Rebuild\<close>, \<open>Kube_Envoy_Config\<close>, \<open>Kube_Run\<close>, \<open>Kube_Source\<close>. \<open>Kube_Invariants\<close>
    states once, as locales, what a predicate must respect to hold of every rebuilt snapshot; \<open>Kube_Identities\<close>,
    \<open>Kube_Routes\<close>, \<open>Kube_Grants\<close>, \<open>Kube_Runtime_Facts\<close> and \<open>Kube_Properties\<close> use it. \<open>Cluster_Probe\<close> follows an
    advertised entry from the rebuild through the server back to the agent.
  \<^item> \<open>internal/demo\<close>: \<open>Demo_Data\<close>, \<open>Demo_Store\<close>.

  \<^bold>\<open>What the lemmas show.\<close> The properties are the numbered theorems. In groups: the agents' protocol (a command
  is delivered at most once and only to its cluster, a result reaches exactly its waiter, a round
  trip arrives, a retried upload is filed again only when the waiter has taken the first copy, only authorized
  agents speak, at most eight commands run beside the polling); the collection of logs (numbering, rereading, settling, ending, and that what
  an agent reports passes the server's validation); the analysis of a probe (grouping, linking, the evidence
  behind a final response, the path, the inference of missing gateways); its life (it settles, what is
  enqueued is safe, what was answered can be looked up, what is advertised can be executed); the
  topology (unique identities, no unreported backend, grants, ready runtimes, links between clusters);
  the proxies' configuration (consistency of the parse, the cache); the concurrent rebuilds; and the modes.
  Four theorems show where the code does not do what it means to: \<open>ambiguous_text_garbled\<close>,
  \<open>oversized_command_lost\<close>, \<open>padded_path_refused\<close>, and \<open>overtaken_trace\<close>, where of two rebuilds that overlap the older
  one is assigned last and hides the newer.

  \<^bold>\<open>Bounds and fuel.\<close> Recursion is structural or has a measure. Where the code loops until something
  happens outside (the rounds of a log window, the streams, the loops of the agent, the steps of the
  informers) the model takes the list of what happens, and a result is \<open>None\<close> when the list ends
  first; \<open>log_window_returns\<close> shows that one round past the window's end is enough, and
  \<open>advertised_entry_probed\<close> that a probe whose window ends has a result. Gateway discovery
  walks the edges with a list of visited nodes, which bounds the walk. \<open>CreateProbe\<close> always returns
  (\<open>CreateProbe_returns\<close>). The bounds of the code are constants of the model under their names:
  queues of 32 commands, eight observers, a body of 64 KiB, a key of 8 KiB, the size limits of requests
  and logs, the timeouts.

  \<^bold>\<open>Not modelled.\<close> The process start (\<open>cmd/gatelens/main.go\<close>: signals and the exit status), the printing of
  messages, and what the listener and its shutdown do inside \<open>net/http\<close>, because they are input and
  output only; redirects of the multiplexer; the encoding of values as JSON text; Go's unchecked
  data races outside the mutexes; the web frontend, which is TypeScript.
\<close>

end
